(* ===== verification/Prelude.thy ===== *)
theory Prelude
  imports Complex_Main "HOL-Library.Multiset" "HOL-Library.AList" "HOL-Library.List_Lexorder" "HOL-Library.Char_ord"
begin

text \<open>
  Shared vocabulary of the development.

  A method of the program that reads and writes the world, and may raise, is an
  \<open>action\<close>: a function from the world to a result (\<open>Inl\<close> an exception, \<open>Inr\<close> a
  value) and the world it leaves behind. The world is returned on the error branch too,
  because an exception of the source does not undo the effects that preceded it; the
  transactions that do undo them are modelled where the source opens them.

  The second half holds the notion the invariants of all components rest on: an action
  \<open>stays\<close> within a relation on worlds. For a preorder the notion is closed under
  every way of composing actions, which the locale \<open>step_preorder\<close> proves once. Both
  an invariant (\<open>I w \<longrightarrow> I w'\<close>) and a monotonicity law (the event log only grows) are
  such preorders.
\<close>

section \<open>Actions\<close>

type_synonym ('w, 'e, 'a) action = "'w \<Rightarrow> ('e + 'a) \<times> 'w"

definition retM :: "'a \<Rightarrow> ('w, 'e, 'a) action" where
  "retM x = (\<lambda>w. (Inr x, w))"

definition raiseM :: "'e \<Rightarrow> ('w, 'e, 'a) action" where
  "raiseM e = (\<lambda>w. (Inl e, w))"

definition bindM :: "('w, 'e, 'a) action \<Rightarrow> ('a \<Rightarrow> ('w, 'e, 'b) action) \<Rightarrow> ('w, 'e, 'b) action" where
  "bindM m f = (\<lambda>w. case m w of (Inl e, w') \<Rightarrow> (Inl e, w') | (Inr x, w') \<Rightarrow> f x w')"

definition seqM :: "('w, 'e, 'a) action \<Rightarrow> ('w, 'e, 'b) action \<Rightarrow> ('w, 'e, 'b) action" where
  "seqM m n = bindM m (\<lambda>_. n)"

definition catchM :: "('w, 'e, 'a) action \<Rightarrow> ('e \<Rightarrow> ('w, 'e, 'a) action) \<Rightarrow> ('w, 'e, 'a) action" where
  "catchM m h = (\<lambda>w. case m w of (Inl e, w') \<Rightarrow> h e w' | (Inr x, w') \<Rightarrow> (Inr x, w'))"

definition getsM :: "('w \<Rightarrow> 'a) \<Rightarrow> ('w, 'e, 'a) action" where
  "getsM f = (\<lambda>w. (Inr (f w), w))"

definition modM :: "('w \<Rightarrow> 'w) \<Rightarrow> ('w, 'e, unit) action" where
  "modM f = (\<lambda>w. (Inr (), f w))"

definition liftM :: "'e + 'a \<Rightarrow> ('w, 'e, 'a) action" where
  "liftM r = (\<lambda>w. (r, w))"

fun forM :: "'b list \<Rightarrow> ('b \<Rightarrow> ('w, 'e, unit) action) \<Rightarrow> ('w, 'e, unit) action" where
  "forM [] f = retM ()"
| "forM (x # xs) f = seqM (f x) (forM xs f)"

lemmas action_defs = retM_def raiseM_def bindM_def seqM_def catchM_def getsM_def modM_def liftM_def

text \<open>The equations that run an action on a given world, collected as \<open>exec\<close>.\<close>

named_theorems exec

lemma bindM_apply [exec, code]:
  "bindM m f w = (case m w of (Inl e, w') \<Rightarrow> (Inl e, w') | (Inr x, w') \<Rightarrow> f x w')"
  by (simp add: bindM_def)

lemma seqM_apply [exec, code]:
  "seqM m n w = (case m w of (Inl e, w') \<Rightarrow> (Inl e, w') | (Inr x, w') \<Rightarrow> n w')"
  by (simp add: seqM_def bindM_def)

lemma catchM_apply [exec, code]:
  "catchM m h w = (case m w of (Inl e, w') \<Rightarrow> h e w' | (Inr x, w') \<Rightarrow> (Inr x, w'))"
  by (simp add: catchM_def)

lemma retM_apply [simp, code]: "retM x w = (Inr x, w)"
  by (simp add: retM_def)

lemma raiseM_apply [simp, code]: "raiseM e w = (Inl e, w)"
  by (simp add: raiseM_def)

lemma getsM_apply [simp, code]: "getsM f w = (Inr (f w), w)"
  by (simp add: getsM_def)

lemma modM_apply [simp, code]: "modM f w = (Inr (), f w)"
  by (simp add: modM_def)

lemma liftM_apply [simp, code]: "liftM r w = (r, w)"
  by (simp add: liftM_def)

lemma bindM_ok [simp]: "m w = (Inr x, w') \<Longrightarrow> bindM m f w = f x w'"
  by (simp add: bindM_def)

lemma bindM_err [simp]: "m w = (Inl e, w') \<Longrightarrow> bindM m f w = (Inl e, w')"
  by (simp add: bindM_def)

lemma seqM_ok [simp]: "m w = (Inr x, w') \<Longrightarrow> seqM m n w = n w'"
  by (simp add: seqM_def)

lemma seqM_err [simp]: "m w = (Inl e, w') \<Longrightarrow> seqM m n w = (Inl e, w')"
  by (simp add: seqM_def)

lemma catchM_ok [simp]: "m w = (Inr x, w') \<Longrightarrow> catchM m h w = (Inr x, w')"
  by (simp add: catchM_def)

lemma catchM_err [simp]: "m w = (Inl e, w') \<Longrightarrow> catchM m h w = h e w'"
  by (simp add: catchM_def)

lemma bindM_okE:
  assumes "bindM m f w = (Inr y, w'')"
  obtains x w' where "m w = (Inr x, w')" and "f x w' = (Inr y, w'')"
  using assms by (auto simp: bindM_def split: prod.splits sum.splits)

lemma bindM_errE:
  assumes "bindM m f w = (Inl e, w'')"
  obtains "m w = (Inl e, w'')" | x w' where "m w = (Inr x, w')" and "f x w' = (Inl e, w'')"
  using assms by (auto simp: bindM_def split: prod.splits sum.splits)

lemma seqM_okE:
  assumes "seqM m n w = (Inr y, w'')"
  obtains x w' where "m w = (Inr x, w')" and "n w' = (Inr y, w'')"
  using assms by (auto simp: seqM_def elim: bindM_okE)

section \<open>Staying within a relation on worlds\<close>

definition stays :: "('w \<Rightarrow> 'w \<Rightarrow> bool) \<Rightarrow> ('w, 'e, 'a) action \<Rightarrow> bool" where
  "stays R m \<longleftrightarrow> (\<forall>w. R w (snd (m w)))"

lemma staysD: "stays R m \<Longrightarrow> m w = (r, w') \<Longrightarrow> R w w'"
  unfolding stays_def by (metis snd_conv)

locale step_preorder =
  fixes R :: "'w \<Rightarrow> 'w \<Rightarrow> bool"
  assumes refl: "R w w"
    and trans: "R u v \<Longrightarrow> R v w \<Longrightarrow> R u w"
begin

lemma stays_ret: "stays R (retM x)"
  by (simp add: stays_def refl)

lemma stays_raise: "stays R (raiseM e)"
  by (simp add: stays_def refl)

lemma stays_gets: "stays R (getsM f)"
  by (simp add: stays_def refl)

lemma stays_lift: "stays R (liftM r)"
  by (simp add: stays_def refl)

lemma stays_mod: "(\<And>w. R w (f w)) \<Longrightarrow> stays R (modM f)"
  by (simp add: stays_def)

lemma stays_bind:
  assumes "stays R m" and "\<And>x. stays R (f x)"
  shows "stays R (bindM m f)"
  unfolding stays_def bindM_def
proof (intro allI)
  fix w
  obtain r w' where m: "m w = (r, w')" by fastforce
  with assms(1) have "R w w'" by (rule staysD)
  with m assms(2) show "R w (snd (case m w of (Inl e, w') \<Rightarrow> (Inl e, w') | (Inr x, w') \<Rightarrow> f x w'))"
    by (auto simp: stays_def split: sum.splits intro: trans)
qed

lemma stays_seq: "stays R m \<Longrightarrow> stays R n \<Longrightarrow> stays R (seqM m n)"
  by (simp add: seqM_def stays_bind)

lemma stays_catch:
  assumes "stays R m" and "\<And>e. stays R (h e)"
  shows "stays R (catchM m h)"
  unfolding stays_def catchM_def
proof (intro allI)
  fix w
  obtain r w' where m: "m w = (r, w')" by fastforce
  with assms(1) have "R w w'" by (rule staysD)
  with m assms(2) show "R w (snd (case m w of (Inl e, w') \<Rightarrow> h e w' | (Inr x, w') \<Rightarrow> (Inr x, w')))"
    by (auto simp: stays_def split: sum.splits intro: trans)
qed

lemma stays_for: "(\<And>x. stays R (f x)) \<Longrightarrow> stays R (forM xs f)"
  by (induction xs) (simp_all add: stays_ret stays_seq)

lemma stays_if: "(b \<Longrightarrow> stays R m) \<Longrightarrow> (\<not> b \<Longrightarrow> stays R n) \<Longrightarrow> stays R (if b then m else n)"
  by simp

lemma stays_prod: "(\<And>a b. stays R (f a b)) \<Longrightarrow> stays R (case p of (a, b) \<Rightarrow> f a b)"
  by (cases p) simp

lemma stays_option:
  "stays R m \<Longrightarrow> (\<And>x. stays R (f x)) \<Longrightarrow> stays R (case z of None \<Rightarrow> m | Some x \<Rightarrow> f x)"
  by (cases z) simp_all

lemma stays_let: "stays R (f x) \<Longrightarrow> stays R (let y = x in f y)"
  by simp

lemmas stays_rules =
  stays_ret stays_raise stays_gets stays_lift stays_bind stays_seq stays_catch
  stays_for stays_if stays_prod stays_option stays_let

end

section \<open>Text\<close>

definition starts_with :: "string \<Rightarrow> string \<Rightarrow> bool" where
  "starts_with p s \<longleftrightarrow> take (length p) s = p"

fun join :: "string \<Rightarrow> string list \<Rightarrow> string" where
  "join sep [] = []"
| "join sep [x] = x"
| "join sep (x # xs) = x @ sep @ join sep xs"

fun nat_str :: "nat \<Rightarrow> string" where
  "nat_str n = (if n < 10 then [char_of (48 + n)] else nat_str (n div 10) @ [char_of (48 + n mod 10)])"

declare nat_str.simps [simp del]

definition int_str :: "int \<Rightarrow> string" where
  "int_str i = (if i < 0 then ''-'' @ nat_str (nat (- i)) else nat_str (nat i))"

definition nat_of_str :: "string \<Rightarrow> nat" where
  "nat_of_str s = fold (\<lambda>c a. a * 10 + (of_char c - 48)) s 0"

lemma nat_of_nat_str: "nat_of_str (nat_str n) = n"
proof (induction n rule: nat_str.induct)
  case (1 n)
  show ?case
  proof (cases "n < 10")
    case True
    then show ?thesis by (simp add: nat_of_str_def nat_str.simps [of n])
  next
    case False
    with 1 have "fold (\<lambda>c a. a * 10 + (of_char c - 48)) (nat_str (n div 10)) 0 = n div 10"
      by (simp add: nat_of_str_def)
    with False show ?thesis by (simp add: nat_of_str_def nat_str.simps [of n])
  qed
qed

lemma inj_nat_str: "inj nat_str"
  by (rule injI) (metis nat_of_nat_str)

lemma starts_with_append [simp]: "starts_with p (p @ s)"
  by (simp add: starts_with_def)

section \<open>Tables\<close>

text \<open>
  A table is the list of its rows in insertion order. \<open>UPDATE \<dots> SET \<dots> WHERE p\<close>
  is \<open>update_where\<close>, \<open>SELECT \<dots> WHERE p\<close> is \<open>filter\<close> (one row: \<open>List.find\<close>).
\<close>

definition update_where :: "('a \<Rightarrow> bool) \<Rightarrow> ('a \<Rightarrow> 'a) \<Rightarrow> 'a list \<Rightarrow> 'a list" where
  "update_where p f rows = map (\<lambda>r. if p r then f r else r) rows"

definition coalesce_max :: "int list \<Rightarrow> int" where
  "coalesce_max xs = (case xs of [] \<Rightarrow> 0 | x # ys \<Rightarrow> fold max ys x)"

fun earliest :: "('a \<Rightarrow> 'b::linorder) \<Rightarrow> 'a list \<Rightarrow> 'a option" where
  "earliest k [] = None"
| "earliest k (x # xs) =
     (case earliest k xs of None \<Rightarrow> Some x | Some y \<Rightarrow> if k x \<le> k y then Some x else Some y)"

lemma update_where_simps [simp]:
  "update_where p f [] = []"
  "update_where p f (r # rows) = (if p r then f r else r) # update_where p f rows"
  by (simp_all add: update_where_def)

lemma length_update_where [simp]: "length (update_where p f rows) = length rows"
  by (simp add: update_where_def)

lemma set_update_where: "set (update_where p f rows) = (\<lambda>r. if p r then f r else r) ` set rows"
  by (simp add: update_where_def)

lemma map_update_where:
  "(\<And>r. p r \<Longrightarrow> g (f r) = g r) \<Longrightarrow> map g (update_where p f rows) = map g rows"
  by (induction rows) auto

lemma find_None_iff_all: "List.find p xs = None \<longleftrightarrow> (\<forall>x\<in>set xs. \<not> p x)"
  unfolding find_None_iff by blast

lemma find_SomeD: "List.find p xs = Some x \<Longrightarrow> x \<in> set xs \<and> p x"
  by (auto simp: find_Some_iff)

lemma find_update_where_key:
  assumes "\<And>r. k (f r) = k r"
  shows "List.find (\<lambda>r. k r = a) (update_where p f rows) =
    map_option (\<lambda>r. if p r then f r else r) (List.find (\<lambda>r. k r = a) rows)"
  by (induction rows) (auto simp: assms)

lemma find_distinct_key:
  "distinct (map k xs) \<Longrightarrow> x \<in> set xs \<Longrightarrow> List.find (\<lambda>r. k r = k x) xs = Some x"
  by (induction xs) (auto simp: image_iff)

lemma earliest_None_iff [simp]: "earliest k xs = None \<longleftrightarrow> xs = []"
  by (cases xs) (auto split: option.splits)

lemma earliest_mem: "earliest k xs = Some x \<Longrightarrow> x \<in> set xs"
  by (induction xs arbitrary: x) (auto split: option.splits if_splits)

lemma earliest_le: "earliest k xs = Some x \<Longrightarrow> y \<in> set xs \<Longrightarrow> k x \<le> k y"
proof (induction xs arbitrary: x y)
  case (Cons a xs)
  then show ?case
    by (cases "earliest k xs") (fastforce split: if_splits)+
qed simp

lemma fold_max_ge_start: "(b::int) \<le> fold max xs b"
proof (induction xs arbitrary: b)
  case (Cons x xs)
  have "b \<le> max x b" by simp
  also have "\<dots> \<le> fold max xs (max x b)" by (rule Cons.IH)
  finally show ?case by simp
qed simp

lemma fold_max_ge: "x \<in> set xs \<Longrightarrow> (x::int) \<le> fold max xs b"
proof (induction xs arbitrary: b)
  case (Cons y xs)
  show ?case
  proof (cases "x = y")
    case True
    have "y \<le> max y b" by simp
    also have "\<dots> \<le> fold max xs (max y b)" by (rule fold_max_ge_start)
    finally show ?thesis using True by simp
  next
    case False
    with Cons show ?thesis by simp
  qed
qed simp

lemma coalesce_max_ge: "x \<in> set xs \<Longrightarrow> x \<le> coalesce_max xs"
  by (cases xs) (auto simp: coalesce_max_def fold_max_ge_start fold_max_ge)

lemma fold_max_upt: "fold max (map int [1..<Suc n]) b = max b (int n)" if "0 \<le> b"
  using that by (induction n) (auto simp: max_def)

lemma coalesce_max_upt: "coalesce_max (map int [1..<Suc n]) = int n"
proof (cases n)
  case (Suc m)
  have "coalesce_max (map int [1..<Suc n]) = fold max (map int [2..<Suc n]) 1"
    by (simp add: coalesce_max_def Suc upt_conv_Cons numeral_2_eq_2 del: upt_Suc)
  also have "\<dots> = fold max (map int [1..<Suc n]) 1"
    by (simp add: Suc upt_conv_Cons numeral_2_eq_2 del: upt_Suc)
  also have "\<dots> = max 1 (int n)" by (rule fold_max_upt) simp
  also have "\<dots> = int n" by (simp add: Suc)
  finally show ?thesis .
qed (simp add: coalesce_max_def)

end
