(* ===== verification/Json.thy ===== *)
theory Json
  imports Prelude
begin

text \<open>
  JSON values as Python holds them, and \<open>src/agentledger/jsonutil.py\<close>.

  A \<open>dict\<close> is an association list in insertion order with distinct keys
  (\<open>wf_json\<close>): \<open>d[k] = v\<close> is \<open>AList.update\<close> (in place when the key is there, appended
  otherwise), \<open>d.pop(k, None)\<close> is \<open>AList.delete\<close>, \<open>d.get(k)\<close> is \<open>map_of\<close>. Integers are
  unbounded; a float is the rational it denotes, so the rounding of float arithmetic is
  not modelled, and the text \<open>repr\<close> prints for a float is the parameter \<open>fr\<close> of the
  printer. Characters are 8-bit.

  The lemmas show what a merge patch does key by key, that applying it again changes
  nothing, that it keeps keys distinct, and that the canonical text of a value does not
  depend on the order of its keys.
\<close>

section \<open>Values\<close>

datatype json =
    JNull
  | JBool bool
  | JInt int
  | JFloat rat
  | JStr string
  | JList "json list"
  | JObj "(string \<times> json) list"

type_synonym dict = "(string \<times> json) list"

fun is_obj :: "json \<Rightarrow> bool" where
  "is_obj (JObj _) = True"
| "is_obj _ = False"

fun entries :: "json \<Rightarrow> dict" where
  "entries (JObj es) = es"
| "entries _ = []"

definition get :: "json \<Rightarrow> string \<Rightarrow> json option" where
  "get j k = map_of (entries j) k"

definition get_or :: "json \<Rightarrow> json \<Rightarrow> string \<Rightarrow> json" where
  "get_or dflt j k = (case get j k of None \<Rightarrow> dflt | Some v \<Rightarrow> v)"

fun opt_str :: "string option \<Rightarrow> json" where
  "opt_str None = JNull"
| "opt_str (Some s) = JStr s"

text \<open>Python's \<open>bool(value)\<close>.\<close>

fun truthy :: "json \<Rightarrow> bool" where
  "truthy JNull = False"
| "truthy (JBool b) = b"
| "truthy (JInt i) = (i \<noteq> 0)"
| "truthy (JFloat q) = (q \<noteq> 0)"
| "truthy (JStr s) = (s \<noteq> [])"
| "truthy (JList xs) = (xs \<noteq> [])"
| "truthy (JObj es) = (es \<noteq> [])"

text \<open>
  Python's \<open>==\<close>: numbers compare by value across \<open>bool\<close>, \<open>int\<close> and \<open>float\<close>
  (\<open>True == 1 == 1.0\<close>), dicts compare without regard to order.
\<close>

fun number_of :: "json \<Rightarrow> rat option" where
  "number_of (JBool b) = Some (if b then 1 else 0)"
| "number_of (JInt i) = Some (rat_of_int i)"
| "number_of (JFloat q) = Some q"
| "number_of _ = None"

fun py_eq :: "json \<Rightarrow> json \<Rightarrow> bool"
  and py_eq_list :: "json list \<Rightarrow> json list \<Rightarrow> bool"
  and py_eq_entries :: "dict \<Rightarrow> dict \<Rightarrow> bool" where
  "py_eq (JObj xs) b = (case b of JObj ys \<Rightarrow> length xs = length ys \<and> py_eq_entries xs ys | _ \<Rightarrow> False)"
| "py_eq (JList xs) b = (case b of JList ys \<Rightarrow> py_eq_list xs ys | _ \<Rightarrow> False)"
| "py_eq (JStr s) b = (b = JStr s)"
| "py_eq JNull b = (b = JNull)"
| "py_eq a b = (number_of a = number_of b)"
| "py_eq_list [] ys = (ys = [])"
| "py_eq_list (x # xs) ys = (case ys of [] \<Rightarrow> False | y # ys' \<Rightarrow> py_eq x y \<and> py_eq_list xs ys')"
| "py_eq_entries [] ys = True"
| "py_eq_entries ((k, v) # xs) ys =
     ((case map_of ys k of None \<Rightarrow> False | Some v' \<Rightarrow> py_eq v v') \<and> py_eq_entries xs ys)"

text \<open>Every object of the value has distinct keys, as a Python dict has.\<close>

fun wf_json :: "json \<Rightarrow> bool" where
  "wf_json (JList xs) = (\<forall>x\<in>set xs. wf_json x)"
| "wf_json (JObj es) = (distinct (map fst es) \<and> (\<forall>e\<in>set es. wf_json (snd e)))"
| "wf_json _ = True"

section \<open>Merge patch\<close>

fun merge_patch :: "json \<Rightarrow> json \<Rightarrow> json"
  and merge_entries :: "dict \<Rightarrow> dict \<Rightarrow> dict" where
  "merge_patch target (JObj ps) = JObj (merge_entries (entries target) ps)"
| "merge_patch target p = p"
| "merge_entries es [] = es"
| "merge_entries es ((k, v) # ps) =
     merge_entries
       (case v of
          JNull \<Rightarrow> AList.delete k es
        | JObj _ \<Rightarrow> AList.update k (merge_patch (get_or (JObj []) (JObj es) k) v) es
        | _ \<Rightarrow> AList.update k v es) ps"

section \<open>Canonical text\<close>

definition hex_digit :: "nat \<Rightarrow> char" where
  "hex_digit n = (if n < 10 then char_of (48 + n) else char_of (87 + n))"

definition escape_char :: "char \<Rightarrow> string" where
  "escape_char c =
     (let n = of_char c :: nat in
      if n = 34 then [char_of (92::nat), c]
      else if n = 92 then [c, c]
      else if n = 8 then [char_of (92::nat), CHR ''b'']
      else if n = 9 then [char_of (92::nat), CHR ''t'']
      else if n = 10 then [char_of (92::nat), CHR ''n'']
      else if n = 12 then [char_of (92::nat), CHR ''f'']
      else if n = 13 then [char_of (92::nat), CHR ''r'']
      else if n < 32 then [char_of (92::nat)] @ ''u00'' @ [hex_digit (n div 16), hex_digit (n mod 16)]
      else [c])"

text \<open>Characters that are not escaped are recognised by their bits.\<close>

definition escaped :: "char \<Rightarrow> string" where
  "escaped = escape_char"

lemmas escaped_code [code] = escape_char_def [folded escaped_def]

lemma plain_char:
  assumes "digit5 c \<or> digit6 c \<or> digit7 c" and "c \<noteq> CHR 0x22" and "c \<noteq> CHR 0x5C"
  shows "escape_char c = [c]"
proof -
  have "(of_char c :: nat) \<noteq> of_char (CHR 0x22)" and "(of_char c :: nat) \<noteq> of_char (CHR 0x5C)"
    using assms(2,3) by (simp_all only: of_char_eq_iff not_False_eq_True)
  moreover have "32 \<le> (of_char c :: nat)" using assms(1) by (cases c) (auto simp: of_char_def)
  ultimately show ?thesis by (simp add: escape_char_def Let_def)
qed

lemma escape_char_code [code]:
  "escape_char (Char b0 b1 b2 b3 b4 b5 b6 b7) =
     (let c = Char b0 b1 b2 b3 b4 b5 b6 b7 in
      if (b5 \<or> b6 \<or> b7) \<and> c \<noteq> CHR 0x22 \<and> c \<noteq> CHR 0x5C then [c] else escaped c)"
  by (simp add: plain_char escaped_def Let_def)

definition quote :: "string \<Rightarrow> string" where
  "quote s = [char_of (34::nat)] @ concat (map escape_char s) @ [char_of (34::nat)]"

fun canonical_json :: "(rat \<Rightarrow> string) \<Rightarrow> json \<Rightarrow> string" where
  "canonical_json fr JNull = ''null''"
| "canonical_json fr (JBool b) = (if b then ''true'' else ''false'')"
| "canonical_json fr (JInt i) = int_str i"
| "canonical_json fr (JFloat q) = fr q"
| "canonical_json fr (JStr s) = quote s"
| "canonical_json fr (JList xs) = ''['' @ join '','' (map (canonical_json fr) xs) @ '']''"
| "canonical_json fr (JObj es) =
     ''{'' @ join '','' (map (\<lambda>e. quote (fst e) @ '':'' @ canonical_json fr (snd e)) (sort_key fst es)) @ ''}''"

definition sha256_json :: "(string \<Rightarrow> string) \<Rightarrow> (rat \<Rightarrow> string) \<Rightarrow> json \<Rightarrow> string" where
  "sha256_json sha fr v = ''sha256:'' @ sha (canonical_json fr v)"

section \<open>Lemmas\<close>

lemma get_JObj [simp]: "get (JObj es) k = map_of es k"
  by (simp add: get_def)

lemma get_or_JObj: "get_or d (JObj es) k = (case map_of es k of None \<Rightarrow> d | Some v \<Rightarrow> v)"
  by (simp add: get_or_def)

lemma entries_JObj_iff: "is_obj j \<longleftrightarrow> j = JObj (entries j)"
  by (cases j) auto

lemma distinct_merge_entries:
  "distinct (map fst es) \<Longrightarrow> distinct (map fst (merge_entries es ps))"
proof (induction ps arbitrary: es)
  case (Cons p ps)
  obtain k v where p: "p = (k, v)" by fastforce
  have "distinct (map fst (merge_entries (AList.update k u es) ps))" for u
    by (rule Cons.IH) (rule distinct_update [OF Cons.prems])
  moreover have "distinct (map fst (merge_entries (AList.delete k es) ps))"
    by (rule Cons.IH) (rule distinct_delete [OF Cons.prems])
  ultimately show ?case by (simp add: p split: json.split)
qed simp

lemma map_of_merge_entries_notin:
  "k \<notin> set (map fst ps) \<Longrightarrow> map_of (merge_entries es ps) k = map_of es k"
proof (induction ps arbitrary: es)
  case (Cons p ps)
  obtain k' v where p: "p = (k', v)" by fastforce
  from Cons.prems have "k \<noteq> k'" and "k \<notin> set (map fst ps)" by (auto simp: p)
  with Cons.IH show ?case
    by (simp add: p update_conv' delete_conv' split: json.split)
qed simp

text \<open>What a patch leaves at a key: the law of RFC 7396, one key at a time.\<close>

definition patched :: "json option \<Rightarrow> json option \<Rightarrow> json option" where
  "patched old p =
     (case p of
        None \<Rightarrow> old
      | Some JNull \<Rightarrow> None
      | Some v \<Rightarrow> Some (merge_patch (case old of None \<Rightarrow> JObj [] | Some t \<Rightarrow> t) v))"

lemma map_of_merge_entries:
  "distinct (map fst ps) \<Longrightarrow> map_of (merge_entries es ps) k = patched (map_of es k) (map_of ps k)"
proof (induction ps arbitrary: es)
  case (Cons p ps)
  obtain k' v where p: "p = (k', v)" by fastforce
  from Cons.prems have d: "distinct (map fst ps)" and k': "k' \<notin> set (map fst ps)"
    by (auto simp: p)
  show ?case
  proof (cases "k = k'")
    case True
    with k' have n: "k \<notin> set (map fst ps)" by simp
    show ?thesis
      by (cases v)
        (simp_all add: p True patched_def map_of_merge_entries_notin [OF n, unfolded True]
          update_conv' delete_conv' get_or_JObj)
  next
    case False
    then show ?thesis
      by (cases v) (simp_all add: p Cons.IH [OF d] update_conv' delete_conv')
  qed
qed (simp add: patched_def)

lemma merge_patch_get:
  "wf_json (JObj ps) \<Longrightarrow>
     get (merge_patch t (JObj ps)) k = patched (get t k) (map_of ps k)"
  by (simp add: map_of_merge_entries) (simp add: get_def)

definition wf_values :: "dict \<Rightarrow> bool" where
  "wf_values es \<longleftrightarrow> (\<forall>e\<in>set es. wf_json (snd e))"

lemma wf_JObj: "wf_json (JObj es) \<longleftrightarrow> distinct (map fst es) \<and> wf_values es"
  by (simp add: wf_values_def)

lemma wf_values_Cons [simp]: "wf_values ((k, v) # es) \<longleftrightarrow> wf_json v \<and> wf_values es"
  by (simp add: wf_values_def)

lemma wf_values_Nil [simp]: "wf_values []"
  by (simp add: wf_values_def)

lemma wf_entries: "wf_json j \<Longrightarrow> wf_values (entries j)"
  by (cases j) (simp_all add: wf_values_def)

lemma wf_get: "wf_values es \<Longrightarrow> map_of es k = Some v \<Longrightarrow> wf_json v"
  by (fastforce simp: wf_values_def dest: map_of_SomeD)

lemma wf_get_or: "wf_values es \<Longrightarrow> wf_json (get_or (JObj []) (JObj es) k)"
  by (auto simp: get_or_JObj split: option.splits intro: wf_get)

lemma wf_update: "wf_values es \<Longrightarrow> wf_json v \<Longrightarrow> wf_values (AList.update k v es)"
  by (induction es) (auto split: if_splits)

lemma wf_delete: "wf_values es \<Longrightarrow> wf_values (AList.delete k es)"
  by (auto simp: wf_values_def AList.delete_eq)

lemma wf_merge_patch: "wf_json t \<Longrightarrow> wf_json p \<Longrightarrow> wf_json (merge_patch t p)"
  and wf_merge_entries: "wf_values es \<Longrightarrow> wf_values ps \<Longrightarrow> wf_values (merge_entries es ps)"
proof (induction t p and es ps rule: merge_patch_merge_entries.induct)
  case (1 target ps)
  have "distinct (map fst (entries target))"
    using "1.prems"(1) by (cases target) simp_all
  with 1 show ?case
    by (simp add: wf_JObj wf_entries distinct_merge_entries del: wf_json.simps)
next
  case (4 es k v ps)
  then show ?case
    by (cases v) (simp_all add: wf_update wf_delete wf_get_or del: wf_json.simps merge_patch.simps)
qed simp_all

lemma update_same: "map_of es k = Some v \<Longrightarrow> AList.update k v es = es"
  by (induction es) auto

lemma delete_absent: "map_of es k = None \<Longrightarrow> AList.delete k es = es"
  by (simp add: delete_id map_of_eq_None_iff)

text \<open>A patch is already applied to \<open>es\<close> when every key of it holds its patched value.\<close>

lemma merge_entries_fixed:
  "(\<And>k v. (k, v) \<in> set ps \<Longrightarrow>
      map_of es k = patched (map_of es k) (Some v)) \<Longrightarrow> merge_entries es ps = es"
proof (induction ps)
  case (Cons p ps)
  obtain k v where p: "p = (k, v)" by fastforce
  have fix_k: "map_of es k = patched (map_of es k) (Some v)"
    by (rule Cons.prems) (simp add: p)
  have "(case v of JNull \<Rightarrow> AList.delete k es
        | JObj _ \<Rightarrow> AList.update k (merge_patch (get_or (JObj []) (JObj es) k) v) es
        | _ \<Rightarrow> AList.update k v es) = es"
    using fix_k
    by (cases v) (auto simp: patched_def get_or_JObj split: option.splits
        intro: update_same delete_absent)
  moreover have "merge_entries es ps = es"
    by (rule Cons.IH) (rule Cons.prems, simp)
  ultimately show ?case by (simp only: p merge_entries.simps)
qed simp

lemma size_snd_lt: "e \<in> set ps \<Longrightarrow> size (snd e) < size (JObj ps)"
  by (induction ps) (auto simp: less_Suc_eq)

lemma merge_patch_twice:
  "wf_json p \<Longrightarrow> merge_patch (merge_patch t p) p = merge_patch t p"
proof (induction p arbitrary: t rule: measure_induct_rule [where f = size])
  case (less p)
  show ?case
  proof (cases p)
    case (JObj ps)
    let ?es = "merge_entries (entries t) ps"
    from less.prems JObj have d: "distinct (map fst ps)" by simp
    have "merge_entries ?es ps = ?es"
    proof (rule merge_entries_fixed)
      fix k v
      assume kv: "(k, v) \<in> set ps"
      then have ps_k: "map_of ps k = Some v" using d by simp
      have es_k: "map_of ?es k = patched (map_of (entries t) k) (Some v)"
        by (simp add: map_of_merge_entries [OF d] ps_k)
      have "size v < size p" using size_snd_lt [OF kv] by (simp add: JObj)
      moreover have "wf_json v" using less.prems kv by (auto simp: JObj)
      ultimately have IH: "merge_patch (merge_patch u v) v = merge_patch u v" for u
        by (rule less.IH)
      show "map_of ?es k = patched (map_of ?es k) (Some v)"
        unfolding es_k using IH by (cases v) (simp_all add: patched_def del: merge_patch.simps)
    qed
    then show ?thesis by (simp add: JObj)
  qed simp_all
qed

text \<open>Sorting by key forgets the order of an object's entries.\<close>

lemma sort_key_mset_eq:
  assumes "distinct (map fst xs)" and "mset xs = mset ys"
  shows "sort_key fst xs = sort_key fst ys"
proof (rule properties_for_sort_key)
  show "mset (sort_key fst ys) = mset xs" using assms(2) by simp
  have dy: "distinct (map fst ys)"
    by (metis assms mset_eq_imp_distinct_iff mset_map)
  show "filter (\<lambda>x. fst k = fst x) (sort_key fst ys) = filter (\<lambda>x. fst k = fst x) xs"
    if "k \<in> set (sort_key fst ys)" for k
  proof -
    have one: "filter (\<lambda>x. fst k = fst x) zs = [k]" if "distinct (map fst zs)" "k \<in> set zs" for zs
      using that by (induction zs) (auto simp: filter_empty_conv image_iff)
    have "k \<in> set ys" using that by simp
    moreover then have "k \<in> set xs" using assms(2) by (metis set_mset_mset)
    ultimately show ?thesis
      using one [of "sort_key fst ys"] one [of xs] assms(1) dy
      by (metis distinct_map set_sort distinct_sort sort_key_stable)
  qed
qed simp

text \<open>Two values that differ in the order of object entries only, at any depth.\<close>

inductive reordered :: "json \<Rightarrow> json \<Rightarrow> bool" where
  same: "reordered v v"
| lists: "list_all2 reordered xs ys \<Longrightarrow> reordered (JList xs) (JList ys)"
| objects: "distinct (map fst es) \<Longrightarrow> mset es = mset es' \<Longrightarrow>
     list_all2 (\<lambda>a b. fst a = fst b \<and> reordered (snd a) (snd b)) es' es'' \<Longrightarrow>
     reordered (JObj es) (JObj es'')"

lemma map_insort_key:
  assumes "\<And>x. k (g x) = k' x"
  shows "map g (insort_key k' x xs) = insort_key k (g x) (map g xs)"
  by (induction xs) (auto simp: assms)

lemma map_sort_key:
  assumes "\<And>x. k (g x) = k' x"
  shows "map g (sort_key k' xs) = sort_key k (map g xs)"
  by (induction xs) (simp_all add: map_insort_key [of k g k', OF assms])

definition printed :: "(rat \<Rightarrow> string) \<Rightarrow> string \<times> json \<Rightarrow> string \<times> string" where
  "printed fr e = (fst e, canonical_json fr (snd e))"

lemma sort_printed: "sort_key fst (map (printed fr) es) = map (printed fr) (sort_key fst es)"
  by (rule map_sort_key [symmetric]) (simp add: printed_def)

lemma canonical_json_obj:
  "canonical_json fr (JObj es) =
     ''{'' @ join '','' (map (\<lambda>p. quote (fst p) @ '':'' @ snd p) (sort_key fst (map (printed fr) es))) @ ''}''"
  by (simp add: sort_printed comp_def) (simp add: printed_def)

lemma reordered_canonical: "reordered v w \<Longrightarrow> canonical_json fr v = canonical_json fr w"
proof (induction rule: reordered.induct)
  case (lists xs ys)
  then have "map (canonical_json fr) xs = map (canonical_json fr) ys"
    by (induction rule: list_all2_induct) auto
  then show ?case by simp
next
  case (objects es es' es'')
  from objects.IH have "map (printed fr) es' = map (printed fr) es''"
    by (induction rule: list_all2_induct) (auto simp: printed_def)
  moreover have "sort_key fst es = sort_key fst es'"
    using objects.hyps(1,2) by (rule sort_key_mset_eq)
  ultimately have "sort_key fst (map (printed fr) es) = sort_key fst (map (printed fr) es'')"
    by (metis sort_printed)
  then show ?case by (simp only: canonical_json_obj)
qed simp

end
