(* ===== verification/World.thy ===== *)
theory World
  imports Json
begin

text \<open>
  What every component of the runtime shares: the exceptions it raises, the outside world
  it reads (clock, random identifiers, the hash function), and the content-addressed blob
  store of \<open>src/agentledger/blobstore.py\<close>.

  The outside world is a record. Reading number \<open>n\<close> of \<open>time.time()\<close> is
  \<open>clock w n\<close>, and \<open>ticks w\<close> counts the readings taken; draw number \<open>n\<close> of
  \<open>uuid4().hex[:16]\<close> is \<open>uuids w n\<close>, and \<open>drawn w\<close> counts the draws. \<open>sha w\<close> is
  the hexadecimal SHA-256 digest of a text, \<open>repr_float w\<close> the text Python prints for a
  float. \<open>calls w\<close> is the history of the tool functions that really ran, which is where
  a duplicated side effect shows.

  The lemmas of the second part show that a blob is read back as it was written, and that
  every file of the store holds the value its name is the digest of.
\<close>

section \<open>Exceptions\<close>

datatype exc_class =
    BaseException
  | Exception
  | CancelledError
  | KeyError
  | RuntimeError
  | ValueError
  | TypeError
  | TimeoutError
  | FileNotFoundError
  | IntegrityError
  | PermissionDenied
  | ToolValidationError
  | ApprovalRequired
  | BudgetExceeded
  | RetryableAgentError
  | NonRetryableAgentError
  | SimulatedCrash
  | Subclass string exc_class

text \<open>The method resolution order, up to the classes the program names.\<close>

fun ancestors :: "exc_class \<Rightarrow> exc_class list" where
  "ancestors (Subclass n b) = Subclass n b # ancestors b"
| "ancestors BaseException = [BaseException]"
| "ancestors CancelledError = [CancelledError, BaseException]"
| "ancestors Exception = [Exception, BaseException]"
| "ancestors PermissionDenied = [PermissionDenied, RuntimeError, Exception, BaseException]"
| "ancestors ToolValidationError = [ToolValidationError, ValueError, Exception, BaseException]"
| "ancestors ApprovalRequired = [ApprovalRequired, RuntimeError, Exception, BaseException]"
| "ancestors BudgetExceeded = [BudgetExceeded, RuntimeError, Exception, BaseException]"
| "ancestors RetryableAgentError = [RetryableAgentError, RuntimeError, Exception, BaseException]"
| "ancestors NonRetryableAgentError = [NonRetryableAgentError, RuntimeError, Exception, BaseException]"
| "ancestors SimulatedCrash = [SimulatedCrash, RuntimeError, Exception, BaseException]"
| "ancestors c = [c, Exception, BaseException]"

fun class_name :: "exc_class \<Rightarrow> string" where
  "class_name BaseException = ''BaseException''"
| "class_name Exception = ''Exception''"
| "class_name CancelledError = ''CancelledError''"
| "class_name KeyError = ''KeyError''"
| "class_name RuntimeError = ''RuntimeError''"
| "class_name ValueError = ''ValueError''"
| "class_name TypeError = ''TypeError''"
| "class_name TimeoutError = ''TimeoutError''"
| "class_name FileNotFoundError = ''FileNotFoundError''"
| "class_name IntegrityError = ''IntegrityError''"
| "class_name PermissionDenied = ''PermissionDenied''"
| "class_name ToolValidationError = ''ToolValidationError''"
| "class_name ApprovalRequired = ''ApprovalRequired''"
| "class_name BudgetExceeded = ''BudgetExceeded''"
| "class_name RetryableAgentError = ''RetryableAgentError''"
| "class_name NonRetryableAgentError = ''NonRetryableAgentError''"
| "class_name SimulatedCrash = ''SimulatedCrash''"
| "class_name (Subclass n b) = n"

text \<open>
  An exception is its class and its message; \<open>ApprovalRequired\<close> also carries the
  approval it waits for and its metadata.
\<close>

datatype exn = Exn exc_class string | Approval_Required string string json

fun class_of :: "exn \<Rightarrow> exc_class" where
  "class_of (Exn c m) = c"
| "class_of (Approval_Required i m d) = ApprovalRequired"

definition isinstance :: "exn \<Rightarrow> exc_class \<Rightarrow> bool" where
  "isinstance e c \<longleftrightarrow> c \<in> set (ancestors (class_of e))"

fun exc_arg :: "exn \<Rightarrow> string" where
  "exc_arg (Exn c m) = m"
| "exc_arg (Approval_Required i m d) = m"

text \<open>Python's \<open>repr\<close> of a \<open>str\<close>.\<close>

definition repr_char :: "char \<Rightarrow> char \<Rightarrow> string" where
  "repr_char q c =
     (let n = of_char c :: nat; b = char_of (92::nat) in
      if c = q \<or> n = 92 then [b, c]
      else if n = 10 then [b, CHR ''n'']
      else if n = 13 then [b, CHR ''r'']
      else if n = 9 then [b, CHR ''t'']
      else if n < 32 \<or> (127 \<le> n \<and> n \<le> 160) \<or> n = 173
        then [b, CHR ''x'', hex_digit (n div 16), hex_digit (n mod 16)]
      else [c])"

definition repr_str :: "string \<Rightarrow> string" where
  "repr_str s =
     (let dq = char_of (34::nat); sq = char_of (39::nat);
          q = (if sq \<in> set s \<and> dq \<notin> set s then dq else sq)
      in [q] @ concat (map (repr_char q) s) @ [q])"

definition str_exn :: "exn \<Rightarrow> string" where
  "str_exn e = (if isinstance e KeyError then repr_str (exc_arg e) else exc_arg e)"

definition repr_exn :: "exn \<Rightarrow> string" where
  "repr_exn e = class_name (class_of e) @ ''('' @ repr_str (exc_arg e) @ '')''"

section \<open>The outside world\<close>

record env =
  clock :: "nat \<Rightarrow> rat"
  ticks :: nat
  uuids :: "nat \<Rightarrow> string"
  drawn :: nat
  sha :: "string \<Rightarrow> string"
  repr_float :: "rat \<Rightarrow> string"
  calls :: "(string \<times> json) list"
  blobs :: "(string \<times> json) list"

definition now_ts :: "('w env_scheme, exn, rat) action" where
  "now_ts = (\<lambda>w. (Inr (clock w (ticks w)), w\<lparr>ticks := Suc (ticks w)\<rparr>))"

definition new_id :: "string \<Rightarrow> ('w env_scheme, exn, string) action" where
  "new_id prefix = (\<lambda>w. (Inr (prefix @ ''_'' @ uuids w (drawn w)), w\<lparr>drawn := Suc (drawn w)\<rparr>))"

definition hash_of :: "'w env_scheme \<Rightarrow> json \<Rightarrow> string" where
  "hash_of w v = sha256_json (sha w) (repr_float w) v"

section \<open>Blob store\<close>

text \<open>
  A blob is written with \<open>sort_keys=True\<close>, so reading it back gives the value with the
  entries of every object in key order.
\<close>

fun sort_keys :: "json \<Rightarrow> json" where
  "sort_keys (JList xs) = JList (map sort_keys xs)"
| "sort_keys (JObj es) = JObj (map (\<lambda>e. (fst e, sort_keys (snd e))) (sort_key fst es))"
| "sort_keys v = v"

definition blob_path :: "'w env_scheme \<Rightarrow> json \<Rightarrow> string" where
  "blob_path w v = ''sha256/'' @ drop 7 (hash_of w v) @ ''.json''"

definition put_json :: "json \<Rightarrow> ('w env_scheme, exn, string \<times> string) action" where
  "put_json v = (\<lambda>w.
     let digest = hash_of w v; path = blob_path w v in
     (Inr (digest, ''blob://'' @ path),
      if map_of (blobs w) path = None then w\<lparr>blobs := (path, sort_keys v) # blobs w\<rparr> else w))"

definition get_json :: "string \<Rightarrow> ('w env_scheme, exn, json) action" where
  "get_json ref = (\<lambda>w.
     if \<not> starts_with ''blob://'' ref then (Inl (Exn ValueError (''unsupported blob ref: '' @ ref)), w)
     else case map_of (blobs w) (drop 7 ref) of
       None \<Rightarrow> (Inl (Exn FileNotFoundError (drop 7 ref)), w)
     | Some v \<Rightarrow> (Inr v, w))"

section \<open>Lemmas\<close>

lemma hash_of_eq: "hash_of w v = ''sha256:'' @ sha w (canonical_json (repr_float w) v)"
  by (simp add: hash_of_def sha256_json_def)

lemma blob_path_eq: "blob_path w v = ''sha256/'' @ sha w (canonical_json (repr_float w) v) @ ''.json''"
  by (simp add: blob_path_def hash_of_eq)

text \<open>The text of a value is computed once when a file is written.\<close>

lemma put_json_eq [code]:
  "put_json v w =
     (let h = sha w (canonical_json (repr_float w) v); path = ''sha256/'' @ h @ ''.json'' in
      (Inr (''sha256:'' @ h, ''blob://'' @ path),
       if map_of (blobs w) path = None then w\<lparr>blobs := (path, sort_keys v) # blobs w\<rparr> else w))"
  by (simp add: put_json_def hash_of_eq blob_path_eq Let_def)

lemma sort_keys_reordered: "wf_json v \<Longrightarrow> reordered v (sort_keys v)"
proof (induction v rule: sort_keys.induct)
  case (1 xs)
  then have "list_all2 reordered xs (map sort_keys xs)"
    by (induction xs) auto
  then show ?case by (simp add: reordered.lists)
next
  case (2 es)
  have "\<forall>e\<in>set (sort_key fst es). reordered (snd e) (sort_keys (snd e))"
    using 2 by auto
  then have "list_all2 (\<lambda>a b. fst a = fst b \<and> reordered (snd a) (snd b)) (sort_key fst es)
      (map (\<lambda>e. (fst e, sort_keys (snd e))) (sort_key fst es))"
    by (simp add: list.rel_map list_all2_same)
  moreover have "distinct (map fst es)" using "2.prems" by simp
  ultimately have "reordered (JObj es) (JObj (map (\<lambda>e. (fst e, sort_keys (snd e))) (sort_key fst es)))"
    by (intro reordered.objects [of es "sort_key fst es"]) simp_all
  then show ?case by simp
qed (simp_all add: reordered.same)

lemma canonical_sort_keys: "wf_json v \<Longrightarrow> canonical_json fr (sort_keys v) = canonical_json fr v"
  using reordered_canonical [OF sort_keys_reordered] by simp

lemma get_json_put:
  assumes "put_json v w = (Inr (digest, ref), w')"
    and "map_of (blobs w) (blob_path w v) \<in> {None, Some (sort_keys v)}"
  shows "get_json ref w' = (Inr (sort_keys v), w')"
  using assms by (auto simp: put_json_def get_json_def Let_def starts_with_def split: if_splits)

text \<open>Every file holds a value whose digest names it.\<close>

definition blobs_ok :: "'w env_scheme \<Rightarrow> bool" where
  "blobs_ok w \<longleftrightarrow> (\<forall>p v. map_of (blobs w) p = Some v \<longrightarrow> p = blob_path w v)"

lemma put_json_blobs_ok:
  assumes "wf_json v" and "blobs_ok w"
  shows "blobs_ok (snd (put_json v w))"
proof -
  have "blob_path w (sort_keys v) = blob_path w v"
    by (simp add: blob_path_eq canonical_sort_keys assms(1))
  moreover have "blob_path (w\<lparr>blobs := b\<rparr>) u = blob_path w u" for b u
    by (simp add: blob_path_eq)
  ultimately show ?thesis
    using assms(2) by (auto simp: put_json_def Let_def blobs_ok_def)
qed

end
