(* ===== verification/Retry.thy ===== *)
theory Retry
  imports World
begin

text \<open>
  The failure vocabulary the store and the runtime share: \<open>RetryPolicy\<close> and
  \<open>classify_exception\<close> of \<open>src/agentledger/failure.py\<close>, with Python's \<open>int(\<dots>)\<close>
  on JSON values, which reads the policy.
\<close>

section \<open>Python's int\<close>

definition is_digit :: "char \<Rightarrow> bool" where
  "is_digit c = (48 \<le> (of_char c :: nat) \<and> (of_char c :: nat) \<le> 57)"

definition is_space :: "char \<Rightarrow> bool" where
  "is_space c = (let n = of_char c :: nat in n = 32 \<or> (9 \<le> n \<and> n \<le> 13) \<or> (28 \<le> n \<and> n \<le> 31) \<or> n = 133 \<or> n = 160)"

definition strip :: "string \<Rightarrow> string" where
  "strip s = rev (dropWhile is_space (rev (dropWhile is_space s)))"

text \<open>Digits, single underscores allowed between them; the accumulator is the value read.\<close>

fun digits_value :: "nat \<Rightarrow> string \<Rightarrow> nat option" where
  "digits_value acc [] = Some acc"
| "digits_value acc (c # cs) =
     (if is_digit c then digits_value (10 * acc + (of_char c - 48)) cs
      else if c = CHR ''_'' then
        (case cs of [] \<Rightarrow> None | d # _ \<Rightarrow> if is_digit d then digits_value acc cs else None)
      else None)"

definition nat_of_text :: "string \<Rightarrow> nat option" where
  "nat_of_text s = (case s of [] \<Rightarrow> None | c # _ \<Rightarrow> if is_digit c then digits_value 0 s else None)"

definition int_of_text :: "string \<Rightarrow> int option" where
  "int_of_text s =
     (case s of
        [] \<Rightarrow> None
      | c # cs \<Rightarrow>
          if c = CHR ''-'' then map_option (\<lambda>n. - int n) (nat_of_text cs)
          else if c = CHR ''+'' then map_option int (nat_of_text cs)
          else map_option int (nat_of_text s))"

definition trunc_rat :: "rat \<Rightarrow> int" where
  "trunc_rat q = (if q < 0 then - \<lfloor>- q\<rfloor> else \<lfloor>q\<rfloor>)"

definition type_name :: "json \<Rightarrow> string" where
  "type_name v =
     (case v of JNull \<Rightarrow> ''NoneType'' | JBool _ \<Rightarrow> ''bool'' | JInt _ \<Rightarrow> ''int'' | JFloat _ \<Rightarrow> ''float''
      | JStr _ \<Rightarrow> ''str'' | JList _ \<Rightarrow> ''list'' | JObj _ \<Rightarrow> ''dict'')"

fun py_int :: "json \<Rightarrow> exn + int" where
  "py_int (JInt i) = Inr i"
| "py_int (JBool b) = Inr (if b then 1 else 0)"
| "py_int (JFloat q) = Inr (trunc_rat q)"
| "py_int (JStr s) =
     (case int_of_text (strip s) of
        None \<Rightarrow> Inl (Exn ValueError (''invalid literal for int() with base 10: '' @ repr_str s))
      | Some i \<Rightarrow> Inr i)"
| "py_int v = Inl (Exn TypeError
     (''int() argument must be a string, a bytes-like object or a real number, not '' @ repr_str (type_name v)))"

section \<open>Retry policy\<close>

record retry_policy =
  max_attempts :: int

definition retry_from_dict :: "json \<Rightarrow> exn + retry_policy" where
  "retry_from_dict data =
     (let d = (if truthy data then data else JObj []) in
      case py_int (get_or (JInt 3) d ''max_attempts'') of
        Inl e \<Rightarrow> Inl e
      | Inr n \<Rightarrow> Inr \<lparr>max_attempts = n\<rparr>)"

definition retry_to_dict :: "retry_policy \<Rightarrow> json" where
  "retry_to_dict p = JObj [(''max_attempts'', JInt (max_attempts p))]"

definition allows_retry_after_attempt :: "retry_policy \<Rightarrow> int \<Rightarrow> bool" where
  "allows_retry_after_attempt p attempt \<longleftrightarrow> attempt < max_attempts p"

section \<open>Classification of exceptions\<close>

record failure_classification =
  fc_error_type :: string
  fc_message :: string
  fc_retryable :: bool
  fc_category :: string

definition classify_exception :: "exn \<Rightarrow> failure_classification" where
  "classify_exception e =
     (let mk = (\<lambda>r c. \<lparr>fc_error_type = class_name (class_of e), fc_message = str_exn e,
                        fc_retryable = r, fc_category = c\<rparr>) in
      if isinstance e NonRetryableAgentError then mk False ''non_retryable_agent_error''
      else if isinstance e RetryableAgentError then mk True ''retryable_agent_error''
      else if isinstance e TimeoutError then mk True ''timeout''
      else mk False ''unhandled_exception'')"

section \<open>Lemmas\<close>

lemma retry_roundtrip: "retry_from_dict (retry_to_dict p) = Inr p"
  by (cases p) (simp add: retry_from_dict_def retry_to_dict_def get_or_JObj)

lemma retry_default: "\<not> truthy data \<Longrightarrow> retry_from_dict data = Inr \<lparr>max_attempts = 3\<rparr>"
  by (simp add: retry_from_dict_def get_or_JObj)

lemma classify_retryable_iff:
  "fc_retryable (classify_exception e) \<longleftrightarrow>
     \<not> isinstance e NonRetryableAgentError \<and> (isinstance e RetryableAgentError \<or> isinstance e TimeoutError)"
  by (simp add: classify_exception_def Let_def)

end
