(* ===== verification/Tables.thy ===== *)
theory Tables
  imports Retry
begin

text \<open>
  The SQLite database of \<open>src/agentledger/store.py\<close> and
  \<open>src/agentledger/storage_schema.py\<close>: one record per table row with the columns of the
  schema, the tables as lists of rows in insertion order, transactions, and
  \<open>_append_event_in_tx\<close>, the only writer of the event log.

  A column that holds JSON text is the value the text decodes to. A row is inserted only if
  its primary key and its unique columns are new; otherwise SQLite raises
  \<open>IntegrityError\<close>. \<open>with self.conn:\<close> is \<open>txn\<close>: on an exception the tables are as
  they were, while the clock and the identifiers read stay read.
\<close>

section \<open>Rows\<close>

datatype status = Pending | Running | RetryScheduled | WaitingHuman | Completed | Failed | Cancelled

fun status_text :: "status \<Rightarrow> string" where
  "status_text Pending = ''pending''"
| "status_text Running = ''running''"
| "status_text RetryScheduled = ''retry_scheduled''"
| "status_text WaitingHuman = ''waiting_human''"
| "status_text Completed = ''completed''"
| "status_text Failed = ''failed''"
| "status_text Cancelled = ''cancelled''"

fun terminal :: "status \<Rightarrow> bool" where
  "terminal Completed = True"
| "terminal Failed = True"
| "terminal Cancelled = True"
| "terminal _ = False"

record run_row =
  r_id :: string
  r_session :: string
  r_status :: status
  r_state :: json
  r_version :: int
  r_created :: rat
  r_updated :: rat

record step_row =
  s_id :: string
  s_run :: string
  s_session :: string
  s_status :: status
  s_owner :: "string option"
  s_lease :: "string option"
  s_until :: "rat option"
  s_attempt :: int
  s_version :: int
  s_checkpoint :: "string option"
  s_created :: rat
  s_updated :: rat
  s_heartbeat :: "rat option"
  s_retry :: "json option"
  s_error_type :: "string option"
  s_error :: "string option"
  s_cancelled :: "rat option"

text \<open>The column \<open>payload_ref\<close> holds the payload itself as JSON text, or a blob reference.\<close>

datatype payload = Inline json | Ref string

record event_row =
  e_id :: string
  e_run :: string
  e_session :: "string option"
  e_step :: "string option"
  e_seq :: int
  e_type :: string
  e_time :: rat
  e_role :: "string option"
  e_version :: "int option"
  e_token :: "string option"
  e_hash :: "string option"
  e_payload :: payload

record ledger_row =
  l_id :: string
  l_run :: string
  l_session :: "string option"
  l_step :: string
  l_tool :: string
  l_tool_version :: string
  l_call :: string
  l_key :: string
  l_token :: string
  l_request_hash :: string
  l_request_ref :: string
  l_status :: string
  l_external :: "string option"
  l_response_hash :: "string option"
  l_response_ref :: "string option"
  l_error_type :: "string option"
  l_created :: rat
  l_updated :: rat

record approval_row =
  p_id :: string
  p_key :: string
  p_run :: string
  p_session :: "string option"
  p_step :: string
  p_tool :: string
  p_risk :: string
  p_status :: string
  p_reason :: "string option"
  p_request_hash :: string
  p_request_ref :: string
  p_requested_by :: "string option"
  p_approved_by :: "string option"
  p_decision_reason :: "string option"
  p_created :: rat
  p_updated :: rat

record artifact_row =
  a_id :: string
  a_run :: string
  a_step :: "string option"
  a_name :: string
  a_hash :: string
  a_ref :: string
  a_metadata :: json
  a_created :: rat

record cost_row =
  c_id :: string
  c_run :: string
  c_session :: "string option"
  c_step :: "string option"
  c_category :: string
  c_name :: string
  c_amount :: rat
  c_unit :: string
  c_metadata :: json
  c_created :: rat

record db =
  runs :: "run_row list"
  steps :: "step_row list"
  events :: "event_row list"
  ledger :: "ledger_row list"
  approvals :: "approval_row list"
  artifacts :: "artifact_row list"
  costs :: "cost_row list"

record world = env +
  db :: db

type_synonym 'a act = "(world, exn, 'a) action"

section \<open>Transactions and statements\<close>

definition on_db :: "(db \<Rightarrow> db) \<Rightarrow> unit act" where
  "on_db f = modM (\<lambda>w. w\<lparr>db := f (db w)\<rparr>)"

definition select_db :: "(db \<Rightarrow> 'a) \<Rightarrow> 'a act" where
  "select_db f = getsM (\<lambda>w. f (db w))"

definition restore :: "world \<Rightarrow> world \<Rightarrow> world" where
  "restore w w' = w'\<lparr>db := db w\<rparr>"

definition txn :: "'a act \<Rightarrow> 'a act" where
  "txn m = (\<lambda>w. case m w of (Inl e, w') \<Rightarrow> (Inl e, restore w w') | (Inr x, w') \<Rightarrow> (Inr x, w'))"

definition find_run :: "db \<Rightarrow> string \<Rightarrow> run_row option" where
  "find_run d i = List.find (\<lambda>r. r_id r = i) (runs d)"

definition find_step :: "db \<Rightarrow> string \<Rightarrow> step_row option" where
  "find_step d i = List.find (\<lambda>s. s_id s = i) (steps d)"

definition update_runs :: "(run_row \<Rightarrow> bool) \<Rightarrow> (run_row \<Rightarrow> run_row) \<Rightarrow> unit act" where
  "update_runs p f = on_db (\<lambda>d. d\<lparr>runs := update_where p f (runs d)\<rparr>)"

definition update_steps :: "(step_row \<Rightarrow> bool) \<Rightarrow> (step_row \<Rightarrow> step_row) \<Rightarrow> unit act" where
  "update_steps p f = on_db (\<lambda>d. d\<lparr>steps := update_where p f (steps d)\<rparr>)"

definition integrity_error :: "string \<Rightarrow> exn" where
  "integrity_error c = Exn IntegrityError (''UNIQUE constraint failed: '' @ c)"

definition insert_run :: "run_row \<Rightarrow> unit act" where
  "insert_run r = (\<lambda>w.
     if r_id r \<in> r_id ` set (runs (db w)) then (Inl (integrity_error ''runs.run_id''), w)
     else (Inr (), w\<lparr>db := (db w)\<lparr>runs := runs (db w) @ [r]\<rparr>\<rparr>))"

definition insert_step :: "step_row \<Rightarrow> unit act" where
  "insert_step s = (\<lambda>w.
     if s_id s \<in> s_id ` set (steps (db w)) then (Inl (integrity_error ''steps.step_id''), w)
     else if s_run s \<notin> r_id ` set (runs (db w))
       then (Inl (Exn IntegrityError ''FOREIGN KEY constraint failed''), w)
     else (Inr (), w\<lparr>db := (db w)\<lparr>steps := steps (db w) @ [s]\<rparr>\<rparr>))"

definition insert_event :: "event_row \<Rightarrow> unit act" where
  "insert_event e = (\<lambda>w.
     if e_id e \<in> e_id ` set (events (db w)) then (Inl (integrity_error ''events.event_id''), w)
     else if (e_run e, e_seq e) \<in> (\<lambda>x. (e_run x, e_seq x)) ` set (events (db w))
       then (Inl (integrity_error ''events.run_id, events.seq''), w)
     else (Inr (), w\<lparr>db := (db w)\<lparr>events := events (db w) @ [e]\<rparr>\<rparr>))"

definition insert_ledger :: "ledger_row \<Rightarrow> unit act" where
  "insert_ledger l = (\<lambda>w.
     if l_id l \<in> l_id ` set (ledger (db w)) then (Inl (integrity_error ''tool_ledger.ledger_id''), w)
     else if l_key l \<in> l_key ` set (ledger (db w))
       then (Inl (integrity_error ''tool_ledger.idempotency_key''), w)
     else (Inr (), w\<lparr>db := (db w)\<lparr>ledger := ledger (db w) @ [l]\<rparr>\<rparr>))"

definition insert_approval :: "approval_row \<Rightarrow> unit act" where
  "insert_approval p = (\<lambda>w.
     if p_id p \<in> p_id ` set (approvals (db w))
       then (Inl (integrity_error ''approval_requests.approval_id''), w)
     else if p_key p \<in> p_key ` set (approvals (db w))
       then (Inl (integrity_error ''approval_requests.approval_key''), w)
     else (Inr (), w\<lparr>db := (db w)\<lparr>approvals := approvals (db w) @ [p]\<rparr>\<rparr>))"

definition insert_artifact :: "artifact_row \<Rightarrow> unit act" where
  "insert_artifact a = (\<lambda>w.
     if a_id a \<in> a_id ` set (artifacts (db w)) then (Inl (integrity_error ''artifacts.artifact_id''), w)
     else (Inr (), w\<lparr>db := (db w)\<lparr>artifacts := artifacts (db w) @ [a]\<rparr>\<rparr>))"

definition insert_cost :: "cost_row \<Rightarrow> unit act" where
  "insert_cost c = (\<lambda>w.
     if c_id c \<in> c_id ` set (costs (db w)) then (Inl (integrity_error ''cost_records.cost_id''), w)
     else (Inr (), w\<lparr>db := (db w)\<lparr>costs := costs (db w) @ [c]\<rparr>\<rparr>))"

section \<open>The event log\<close>

record event_args =
  v_run :: string
  v_session :: "string option"
  v_step :: "string option"
  v_type :: string
  v_payload :: json
  v_role :: "string option"
  v_version :: "int option"
  v_token :: "string option"
  v_hash :: "string option"
  v_ref :: "string option"

definition event :: "string \<Rightarrow> string option \<Rightarrow> string option \<Rightarrow> string \<Rightarrow> json \<Rightarrow> event_args" where
  "event run session step type payload =
     \<lparr>v_run = run, v_session = session, v_step = step, v_type = type, v_payload = payload,
      v_role = None, v_version = None, v_token = None, v_hash = None, v_ref = None\<rparr>"

definition next_seq :: "db \<Rightarrow> string \<Rightarrow> int" where
  "next_seq d run = coalesce_max (map e_seq (filter (\<lambda>e. e_run e = run) (events d))) + 1"

definition append_event_in_tx :: "event_args \<Rightarrow> (string \<times> int) act" where
  "append_event_in_tx v =
     bindM (select_db (\<lambda>d. next_seq d (v_run v))) (\<lambda>seq.
     bindM (new_id ''evt'') (\<lambda>event_id.
     bindM now_ts (\<lambda>t.
     seqM (insert_event
       \<lparr>e_id = event_id, e_run = v_run v, e_session = v_session v, e_step = v_step v, e_seq = seq,
        e_type = v_type v, e_time = t, e_role = v_role v, e_version = v_version v,
        e_token = v_token v, e_hash = v_hash v,
        e_payload = (case v_ref v of None \<Rightarrow> Inline (sort_keys (v_payload v)) | Some r \<Rightarrow> Ref r)\<rparr>)
     (retM (event_id, seq)))))"

definition append_event :: "event_args \<Rightarrow> (string \<times> int) act" where
  "append_event v = txn (append_event_in_tx v)"

definition log_event :: "event_args \<Rightarrow> unit act" where
  "log_event v = bindM (append_event_in_tx v) (\<lambda>_. retM ())"

text \<open>A world before anything happened.\<close>

definition empty_db :: db where
  "empty_db = \<lparr>runs = [], steps = [], events = [], ledger = [], approvals = [], artifacts = [], costs = []\<rparr>"

section \<open>Preorders of the store\<close>

text \<open>
  A preorder that also holds between a world and the world a rolled-back transaction
  leaves. Every relation the store's operations are proved to respect is one.
\<close>

locale store_preorder = step_preorder R for R :: "world \<Rightarrow> world \<Rightarrow> bool" +
  assumes rollback: "R w w' \<Longrightarrow> R w (restore w w')"
    and tick: "R w (w\<lparr>ticks := n\<rparr>)"
    and draw: "drawn w \<le> n \<Longrightarrow> R w (w\<lparr>drawn := n\<rparr>)"
begin

lemma stays_txn: "stays R m \<Longrightarrow> stays R (txn m)"
  unfolding stays_def txn_def by (auto split: prod.splits sum.splits intro: rollback dest: staysD [unfolded stays_def])

lemma stays_now: "stays R now_ts"
  by (simp add: stays_def now_ts_def tick)

lemma stays_new_id: "stays R (new_id p)"
  by (simp add: stays_def new_id_def draw)

lemma stays_select: "stays R (select_db f)"
  by (simp add: select_db_def stays_gets)

lemma stays_on_db: "(\<And>w. R w (w\<lparr>db := f (db w)\<rparr>)) \<Longrightarrow> stays R (on_db f)"
  by (simp add: on_db_def stays_mod)

lemmas store_rules = stays_rules stays_txn stays_now stays_new_id stays_select

end

end
