(* ===== verification/Store.thy ===== *)
theory Store
  imports Tables
begin

text \<open>
  The run and step operations of \<open>SQLiteStore\<close> in \<open>src/agentledger/store.py\<close>: creation
  of runs and steps, claiming, heartbeats, lease recovery, cancellation, commits, retries and
  failures. One definition per method, its statements in the method's order.

  Timestamps of \<open>ORDER BY created_at\<close> that are equal are resolved by insertion order,
  as SQLite's scan does; the program does not rely on it.
\<close>

section \<open>Creation\<close>

definition create_run :: "string option \<Rightarrow> json \<Rightarrow> json \<Rightarrow> (string \<times> string) act" where
  "create_run session initial_state retry_policy =
     bindM (new_id ''run'') (\<lambda>run_id.
     bindM (case session of Some s \<Rightarrow> if s \<noteq> [] then retM s else new_id ''sess'' | None \<Rightarrow> new_id ''sess'')
       (\<lambda>session_id.
     bindM (new_id ''step'') (\<lambda>step_id.
     bindM now_ts (\<lambda>ts.
     let state = (if truthy initial_state then initial_state else JObj []) in
     bindM (liftM (retry_from_dict retry_policy)) (\<lambda>policy.
     let retry = retry_to_dict policy in
     seqM (txn (
       seqM (insert_run \<lparr>r_id = run_id, r_session = session_id, r_status = Pending, r_state = state,
         r_version = 0, r_created = ts, r_updated = ts\<rparr>) (
       seqM (insert_step \<lparr>s_id = step_id, s_run = run_id, s_session = session_id, s_status = Pending,
         s_owner = None, s_lease = None, s_until = None, s_attempt = 0, s_version = 0,
         s_checkpoint = None, s_created = ts, s_updated = ts, s_heartbeat = None,
         s_retry = Some retry, s_error_type = None, s_error = None, s_cancelled = None\<rparr>) (
       seqM (log_event (event run_id (Some session_id) None ''run_created''
         (JObj [(''initial_state'', state), (''retry_policy'', retry)])))
       (log_event (event run_id (Some session_id) (Some step_id) ''step_created''
         (JObj [(''step_id'', JStr step_id), (''retry_policy'', retry)])))))))
     (retM (run_id, step_id)))))))"

definition get_run :: "string \<Rightarrow> run_row act" where
  "get_run run_id = (\<lambda>w. case find_run (db w) run_id of
     None \<Rightarrow> (Inl (Exn KeyError (''run not found: '' @ run_id)), w)
   | Some r \<Rightarrow> (Inr r, w))"

definition create_external_step :: "string \<Rightarrow> string option \<Rightarrow> json \<Rightarrow> string act" where
  "create_external_step run_id step retry_policy =
     bindM (get_run run_id) (\<lambda>run.
     bindM (case step of Some s \<Rightarrow> if s \<noteq> [] then retM s else new_id ''step'' | None \<Rightarrow> new_id ''step'')
       (\<lambda>step_id.
     bindM now_ts (\<lambda>ts.
     bindM (liftM (retry_from_dict retry_policy)) (\<lambda>policy.
     let retry = retry_to_dict policy in
     seqM (txn (
       seqM (insert_step \<lparr>s_id = step_id, s_run = run_id, s_session = r_session run, s_status = Pending,
         s_owner = None, s_lease = None, s_until = None, s_attempt = 0, s_version = r_version run,
         s_checkpoint = None, s_created = ts, s_updated = ts, s_heartbeat = None,
         s_retry = Some retry, s_error_type = None, s_error = None, s_cancelled = None\<rparr>) (
       seqM (update_runs (\<lambda>r. r_id r = run_id) (\<lambda>r. r\<lparr>r_status := Pending, r_updated := ts\<rparr>))
       (log_event ((event run_id (Some (r_session run)) (Some step_id) ''step_created''
         (JObj [(''step_id'', JStr step_id), (''external'', JBool True), (''retry_policy'', retry)]))
         \<lparr>v_version := Some (r_version run)\<rparr>)))))
     (retM step_id)))))"

section \<open>Claiming\<close>

record step_claim =
  k_run :: string
  k_session :: string
  k_step :: string
  k_attempt :: int
  k_lease :: string
  k_version :: int
  k_until :: rat

definition claimable :: "step_row \<Rightarrow> bool" where
  "claimable s \<longleftrightarrow> s_status s = Pending \<or> s_status s = RetryScheduled"

definition for_run :: "string option \<Rightarrow> step_row \<Rightarrow> bool" where
  "for_run run s \<longleftrightarrow> (case run of None \<Rightarrow> True | Some r \<Rightarrow> r = [] \<or> s_run s = r)"

definition claim_select :: "string option \<Rightarrow> db \<Rightarrow> step_row option" where
  "claim_select run d = earliest s_created (filter (\<lambda>s. claimable s \<and> for_run run s) (steps d))"

text \<open>
  The transaction that takes the selected row. Another worker may have run between the
  \<open>SELECT\<close> and this \<open>UPDATE\<close>: the row is what was read then, the tables are those
  of now, and the statement matches only a step that is still claimable.
\<close>

definition taken :: "string \<Rightarrow> string \<Rightarrow> rat \<Rightarrow> rat \<Rightarrow> int \<Rightarrow> step_row \<Rightarrow> step_row" where
  "taken worker lease_token lease_until now attempt s =
     s\<lparr>s_status := Running, s_owner := Some worker, s_lease := Some lease_token,
       s_until := Some lease_until, s_heartbeat := Some now, s_attempt := attempt, s_updated := now\<rparr>"

definition claimed :: "string \<Rightarrow> rat \<Rightarrow> rat \<Rightarrow> step_row \<Rightarrow> string \<Rightarrow> step_claim option act" where
  "claimed worker lease_until now row lease_token =
     seqM (update_runs (\<lambda>r. r_id r = s_run row) (\<lambda>r. r\<lparr>r_status := Running, r_updated := now\<rparr>)) (
     seqM (log_event (event (s_run row) (Some (s_session row)) (Some (s_id row)) ''step_claimed''
       (JObj [(''worker_id'', JStr worker), (''lease_token'', JStr lease_token),
              (''attempt'', JInt (s_attempt row + 1)), (''lease_until'', JFloat lease_until)])))
     (retM (Some \<lparr>k_run = s_run row, k_session = s_session row, k_step = s_id row,
        k_attempt = s_attempt row + 1, k_lease = lease_token, k_version = s_version row,
        k_until = lease_until\<rparr>)))"

definition claim_hits :: "step_row \<Rightarrow> step_row \<Rightarrow> bool" where
  "claim_hits row s \<longleftrightarrow> s_id s = s_id row \<and> claimable s"

definition claim_update :: "string \<Rightarrow> int \<Rightarrow> rat \<Rightarrow> step_row \<Rightarrow> step_claim option act" where
  "claim_update worker lease_seconds now row =
     bindM (new_id ''lease'') (\<lambda>lease_token.
     let lease_until = now + of_int lease_seconds in
     txn (
       bindM (select_db (\<lambda>d. length (filter (claim_hits row) (steps d)))) (\<lambda>rowcount.
       seqM (update_steps (claim_hits row) (taken worker lease_token lease_until now (s_attempt row + 1)))
       (if rowcount \<noteq> 1 then retM None else claimed worker lease_until now row lease_token))))"

fun claim_loop :: "nat \<Rightarrow> string \<Rightarrow> string option \<Rightarrow> int \<Rightarrow> step_claim option act" where
  "claim_loop 0 worker run lease_seconds = retM None"
| "claim_loop (Suc n) worker run lease_seconds =
     bindM now_ts (\<lambda>now.
     bindM (select_db (claim_select run)) (\<lambda>row.
     case row of
       None \<Rightarrow> retM None
     | Some row \<Rightarrow>
         bindM (claim_update worker lease_seconds now row) (\<lambda>c.
         case c of
           None \<Rightarrow> claim_loop n worker run lease_seconds
         | Some claim \<Rightarrow> retM (Some claim))))"

definition claim_step :: "string \<Rightarrow> string option \<Rightarrow> int \<Rightarrow> step_claim option act" where
  "claim_step worker run lease_seconds = claim_loop 64 worker run lease_seconds"

section \<open>Leases\<close>

definition validate_lease :: "string \<Rightarrow> string \<Rightarrow> step_row act" where
  "validate_lease step_id lease_token =
     bindM (select_db (\<lambda>d. find_step d step_id)) (\<lambda>row.
     case row of
       None \<Rightarrow> raiseM (Exn KeyError (''step not found: '' @ step_id))
     | Some s \<Rightarrow>
         if s_lease s \<noteq> Some lease_token \<or> s_status s \<noteq> Running
         then raiseM (Exn RuntimeError ''invalid or stale lease token'')
         else case s_until s of
           None \<Rightarrow> retM s
         | Some u \<Rightarrow>
             bindM now_ts (\<lambda>now. if u < now then raiseM (Exn RuntimeError ''lease expired'') else retM s))"

definition heartbeat :: "string \<Rightarrow> string \<Rightarrow> int \<Rightarrow> rat act" where
  "heartbeat step_id lease_token lease_seconds =
     bindM (validate_lease step_id lease_token) (\<lambda>row.
     bindM now_ts (\<lambda>now.
     let lease_until = now + of_int lease_seconds in
     seqM (txn (
       seqM (update_steps (\<lambda>s. s_id s = step_id \<and> s_lease s = Some lease_token \<and> s_status s = Running)
         (\<lambda>s. s\<lparr>s_until := Some lease_until, s_heartbeat := Some now, s_updated := now\<rparr>))
       (log_event (event (s_run row) (Some (s_session row)) (Some step_id) ''worker_heartbeat''
         (JObj [(''lease_token'', JStr lease_token), (''lease_until'', JFloat lease_until)])))))
     (retM lease_until)))"

definition clear_lease :: "step_row \<Rightarrow> step_row" where
  "clear_lease s = s\<lparr>s_owner := None, s_lease := None, s_until := None\<rparr>"

fun recover_rows :: "rat \<Rightarrow> step_row list \<Rightarrow> nat act" where
  "recover_rows now [] = retM 0"
| "recover_rows now (row # rows) =
     (let hit = (\<lambda>s. s_id s = s_id row \<and> s_status s = Running) in
      bindM (select_db (\<lambda>d. length (filter hit (steps d)))) (\<lambda>rowcount.
      seqM (update_steps hit (\<lambda>s. (clear_lease s)\<lparr>s_status := RetryScheduled, s_updated := now\<rparr>))
      (if rowcount \<noteq> 1 then recover_rows now rows
       else
         seqM (update_runs (\<lambda>r. r_id r = s_run row)
           (\<lambda>r. r\<lparr>r_status := RetryScheduled, r_updated := now\<rparr>)) (
         seqM (log_event (event (s_run row) (Some (s_session row)) (Some (s_id row)) ''lease_expired''
           (JObj [(''previous_owner'', opt_str (s_owner row)), (''attempt'', JInt (s_attempt row))]))) (
         seqM (log_event (event (s_run row) (Some (s_session row)) (Some (s_id row)) ''step_retry_scheduled''
           (JObj [(''step_id'', JStr (s_id row)), (''reason'', JStr ''lease_expired'')])))
         (bindM (recover_rows now rows) (\<lambda>n. retM (Suc n))))))))"

definition lease_expired :: "rat \<Rightarrow> step_row \<Rightarrow> bool" where
  "lease_expired now s \<longleftrightarrow>
     s_status s = Running \<and> (case s_until s of None \<Rightarrow> False | Some u \<Rightarrow> u < now)"

definition recover_expired_leases :: "nat act" where
  "recover_expired_leases =
     bindM now_ts (\<lambda>now.
     bindM (select_db (\<lambda>d. filter (lease_expired now) (steps d))) (\<lambda>rows.
     txn (recover_rows now rows)))"

section \<open>Cancellation, waiting\<close>

definition cancel_run :: "string \<Rightarrow> string \<Rightarrow> nat act" where
  "cancel_run run_id reason =
     bindM now_ts (\<lambda>ts.
     bindM (select_db (\<lambda>d. filter (\<lambda>s. s_run s = run_id \<and> \<not> terminal (s_status s)) (steps d))) (\<lambda>rows.
     bindM (get_run run_id) (\<lambda>run.
     if terminal (r_status run) then retM 0
     else seqM (txn (
       seqM (log_event (event run_id (Some (r_session run)) None ''run_cancel_requested''
         (JObj [(''reason'', JStr reason)]))) (
       seqM (forM rows (\<lambda>row.
         seqM (update_steps (\<lambda>s. s_id s = s_id row)
           (\<lambda>s. (clear_lease s)\<lparr>s_status := Cancelled, s_cancelled := Some ts, s_updated := ts\<rparr>))
         (log_event (event run_id (Some (s_session row)) (Some (s_id row)) ''step_cancelled''
           (JObj [(''reason'', JStr reason)]))))) (
       seqM (update_runs (\<lambda>r. r_id r = run_id) (\<lambda>r. r\<lparr>r_status := Cancelled, r_updated := ts\<rparr>))
       (log_event (event run_id (Some (r_session run)) None ''run_cancelled''
         (JObj [(''reason'', JStr reason), (''cancelled_steps'', JInt (int (length rows)))])))))))
     (retM (length rows)))))"

definition get_step :: "string \<Rightarrow> step_row act" where
  "get_step step_id = (\<lambda>w. case find_step (db w) step_id of
     None \<Rightarrow> (Inl (Exn KeyError step_id), w) | Some s \<Rightarrow> (Inr s, w))"

definition mark_waiting_human :: "string \<Rightarrow> string \<Rightarrow> string \<Rightarrow> string option \<Rightarrow> unit act" where
  "mark_waiting_human run_id step_id reason approval_id =
     bindM now_ts (\<lambda>ts.
     txn (
       bindM (get_step step_id) (\<lambda>row.
       seqM (update_steps (\<lambda>s. s_id s = step_id) (\<lambda>s. (clear_lease s)\<lparr>s_status := WaitingHuman,
         s_error_type := Some ''ApprovalRequired'', s_error := Some reason, s_updated := ts\<rparr>)) (
       seqM (update_runs (\<lambda>r. r_id r = run_id) (\<lambda>r. r\<lparr>r_status := WaitingHuman, r_updated := ts\<rparr>))
       (log_event (event run_id (Some (s_session row)) (Some step_id) ''step_waiting_human''
         (JObj [(''reason'', JStr reason), (''approval_id'', opt_str approval_id)])))))))"

section \<open>State\<close>

definition load_state :: "string \<Rightarrow> (json \<times> int \<times> string) act" where
  "load_state run_id = bindM (get_run run_id) (\<lambda>r. retM (r_state r, r_version r, r_session r))"

definition final_state :: "string \<Rightarrow> json act" where
  "final_state run_id = bindM (load_state run_id) (\<lambda>(state, _, _). retM state)"

definition version_conflict :: "int \<Rightarrow> int \<Rightarrow> exn" where
  "version_conflict expected got =
     Exn RuntimeError (''state version conflict: expected '' @ int_str expected @ '', got '' @ int_str got)"

text \<open>
  The writes of a commit. Its two reads come before the first statement that takes SQLite's
  write lock, so another connection may have written in between: \<open>step\<close> and \<open>run\<close> are
  the rows as they were read, the tables are those of the moment of the writes.
\<close>

definition commit_write ::
  "string \<Rightarrow> string \<Rightarrow> int \<Rightarrow> json \<Rightarrow> string option \<Rightarrow> rat \<Rightarrow> step_row \<Rightarrow> run_row \<Rightarrow> int act" where
  "commit_write run_id step_id base_version patch checkpoint_id ts step run =
     (let current_version = r_version run in
      if current_version \<noteq> base_version then raiseM (version_conflict base_version current_version)
      else
        let new_state = merge_patch (r_state run) patch; new_version = current_version + 1 in
        seqM (update_runs (\<lambda>r. r_id r = run_id \<and> r_version r = base_version)
          (\<lambda>r. r\<lparr>r_state := new_state, r_version := new_version, r_status := Completed, r_updated := ts\<rparr>)) (
        seqM (update_steps (\<lambda>s. s_id s = step_id) (\<lambda>s. s\<lparr>s_status := Completed,
          s_version := new_version, s_checkpoint := checkpoint_id, s_updated := ts\<rparr>)) (
        seqM (log_event ((event run_id (Some (s_session step)) (Some step_id) ''state_committed''
          (JObj [(''patch'', patch), (''state_version'', JInt new_version)]))\<lparr>v_version := Some new_version\<rparr>)) (
        seqM (log_event ((event run_id (Some (s_session step)) (Some step_id) ''step_completed''
          (JObj [(''step_id'', JStr step_id)]))\<lparr>v_version := Some new_version\<rparr>))
        (retM new_version)))))"

definition commit_state_patch ::
  "string \<Rightarrow> string \<Rightarrow> string \<Rightarrow> int \<Rightarrow> json \<Rightarrow> string option \<Rightarrow> int act" where
  "commit_state_patch run_id step_id lease_token base_version patch checkpoint_id =
     bindM now_ts (\<lambda>ts.
     txn (
       bindM (validate_lease step_id lease_token) (\<lambda>step.
       bindM (get_run run_id) (\<lambda>run.
       commit_write run_id step_id base_version patch checkpoint_id ts step run))))"

definition apply_system_state_patch :: "string \<Rightarrow> json \<Rightarrow> string \<Rightarrow> int act" where
  "apply_system_state_patch run_id patch reason =
     bindM now_ts (\<lambda>ts.
     txn (
       bindM (get_run run_id) (\<lambda>run.
       let current_version = r_version run; new_state = merge_patch (r_state run) patch;
           new_version = current_version + 1 in
       seqM (update_runs (\<lambda>r. r_id r = run_id \<and> r_version r = current_version)
         (\<lambda>r. r\<lparr>r_state := new_state, r_version := new_version, r_updated := ts\<rparr>)) (
       seqM (log_event ((event run_id (Some (r_session run)) None ''system_state_patch_applied''
         (JObj [(''patch'', patch), (''reason'', JStr reason), (''state_version'', JInt new_version)]))
         \<lparr>v_version := Some new_version\<rparr>))
       (retM new_version)))))"

section \<open>Failures\<close>

definition retry_policy_for_step :: "step_row \<Rightarrow> exn + retry_policy" where
  "retry_policy_for_step row =
     retry_from_dict (case s_retry row of None \<Rightarrow> JNull | Some j \<Rightarrow> j)"

definition fail_step :: "string \<Rightarrow> string \<Rightarrow> string \<Rightarrow> rat \<Rightarrow> status \<Rightarrow> unit act" where
  "fail_step step_id error error_type ts st =
     update_steps (\<lambda>s. s_id s = step_id) (\<lambda>s. (clear_lease s)\<lparr>s_status := st,
       s_error_type := Some error_type, s_error := Some error, s_updated := ts\<rparr>)"

definition mark_retry :: "string \<Rightarrow> string \<Rightarrow> string \<Rightarrow> string \<Rightarrow> bool act" where
  "mark_retry run_id step_id error error_type =
     bindM now_ts (\<lambda>ts.
     txn (
       bindM (get_step step_id) (\<lambda>row.
       bindM (liftM (retry_policy_for_step row)) (\<lambda>policy.
       let retryable = allows_retry_after_attempt policy (s_attempt row);
           ev = (\<lambda>type payload. log_event (event run_id (Some (s_session row)) (Some step_id) type payload));
           err = JObj [(''error'', JStr error), (''error_type'', JStr error_type)] in
       seqM (ev ''failure_classified'' (JObj [(''error'', JStr error), (''error_type'', JStr error_type),
         (''retryable'', JBool retryable), (''attempt'', JInt (s_attempt row)),
         (''max_attempts'', JInt (max_attempts policy))]))
       (if \<not> retryable then
          seqM (fail_step step_id error error_type ts Failed) (
          seqM (update_runs (\<lambda>r. r_id r = run_id) (\<lambda>r. r\<lparr>r_status := Failed, r_updated := ts\<rparr>)) (
          seqM (ev ''error_raised'' err) (
          seqM (ev ''step_failed'' (JObj [(''step_id'', JStr step_id), (''error_type'', JStr error_type),
            (''reason'', JStr ''retry_exhausted'')]))
          (retM False))))
        else
          seqM (fail_step step_id error error_type ts RetryScheduled) (
          seqM (update_runs (\<lambda>r. r_id r = run_id) (\<lambda>r. r\<lparr>r_status := RetryScheduled, r_updated := ts\<rparr>)) (
          seqM (ev ''error_raised'' err) (
          seqM (ev ''step_retry_scheduled'' (JObj [(''step_id'', JStr step_id),
            (''attempt'', JInt (s_attempt row)), (''max_attempts'', JInt (max_attempts policy))]))
          (retM True)))))))))"

definition mark_failed :: "string \<Rightarrow> string \<Rightarrow> string \<Rightarrow> string \<Rightarrow> unit act" where
  "mark_failed run_id step_id error error_type =
     bindM now_ts (\<lambda>ts.
     txn (
       bindM (get_step step_id) (\<lambda>row.
       let ev = (\<lambda>type payload. log_event (event run_id (Some (s_session row)) (Some step_id) type payload)) in
       seqM (fail_step step_id error error_type ts Failed) (
       seqM (update_runs (\<lambda>r. r_id r = run_id) (\<lambda>r. r\<lparr>r_status := Failed, r_updated := ts\<rparr>)) (
       seqM (ev ''failure_classified'' (JObj [(''error'', JStr error), (''error_type'', JStr error_type),
         (''retryable'', JBool False)])) (
       seqM (ev ''error_raised'' (JObj [(''error'', JStr error), (''error_type'', JStr error_type)]))
       (ev ''step_failed'' (JObj [(''step_id'', JStr step_id), (''error_type'', JStr error_type)]))))))))"

end
