(* ===== verification/Ledger.thy ===== *)
theory Ledger
  imports Store
begin

text \<open>
  The other half of \<open>SQLiteStore\<close> in \<open>src/agentledger/store.py\<close>: approval requests and
  their decisions, the tool ledger, artifacts, cost records and the queries over them.
\<close>

section \<open>Approvals\<close>

record approval_args =
  q_key :: string
  q_run :: string
  q_session :: "string option"
  q_step :: string
  q_tool :: string
  q_risk :: string
  q_reason :: "string option"
  q_hash :: string
  q_ref :: string
  q_by :: "string option"

definition approval_for_key :: "string \<Rightarrow> db \<Rightarrow> approval_row option" where
  "approval_for_key key d = List.find (\<lambda>p. p_key p = key) (approvals d)"

definition request_approval :: "approval_args \<Rightarrow> approval_row act" where
  "request_approval q =
     bindM (select_db (approval_for_key (q_key q))) (\<lambda>existing.
     case existing of
       Some row \<Rightarrow> retM row
     | None \<Rightarrow>
         bindM now_ts (\<lambda>ts.
         bindM (new_id ''approval'') (\<lambda>approval_id.
         seqM (catchM
           (txn (insert_approval \<lparr>p_id = approval_id, p_key = q_key q, p_run = q_run q,
             p_session = q_session q, p_step = q_step q, p_tool = q_tool q, p_risk = q_risk q,
             p_status = ''PENDING'', p_reason = q_reason q, p_request_hash = q_hash q,
             p_request_ref = q_ref q, p_requested_by = q_by q, p_approved_by = None,
             p_decision_reason = None, p_created = ts, p_updated = ts\<rparr>))
           (\<lambda>e. if isinstance e IntegrityError then retM () else raiseM e)) (
         bindM (select_db (approval_for_key (q_key q))) (\<lambda>row.
         case row of
           None \<Rightarrow> raiseM (Exn RuntimeError ''approval request was not created'')
         | Some row \<Rightarrow> retM row)))))"

definition approval_requests :: "string option \<Rightarrow> db \<Rightarrow> approval_row list" where
  "approval_requests run d =
     sort_key p_created (case run of None \<Rightarrow> approvals d | Some r \<Rightarrow> filter (\<lambda>p. p_run p = r) (approvals d))"

definition find_approval :: "string \<Rightarrow> db \<Rightarrow> approval_row option" where
  "find_approval i d = List.find (\<lambda>p. p_id p = i) (approvals d)"

definition get_approval :: "string \<Rightarrow> approval_row act" where
  "get_approval i = bindM (select_db (find_approval i)) (\<lambda>row.
     case row of None \<Rightarrow> raiseM (Exn KeyError (''approval not found: '' @ i)) | Some p \<Rightarrow> retM p)"

definition update_approvals :: "(approval_row \<Rightarrow> bool) \<Rightarrow> (approval_row \<Rightarrow> approval_row) \<Rightarrow> unit act" where
  "update_approvals p f = on_db (\<lambda>d. d\<lparr>approvals := update_where p f (approvals d)\<rparr>)"

definition decide_approval :: "string \<Rightarrow> string \<Rightarrow> string \<Rightarrow> string \<Rightarrow> approval_row act" where
  "decide_approval approval_id new_status approver reason =
     bindM now_ts (\<lambda>ts.
     seqM (txn (
       bindM (get_approval approval_id) (\<lambda>row.
       let ev = (\<lambda>type payload. log_event (event (p_run row) (p_session row) (Some (p_step row)) type payload)) in
       seqM (update_approvals (\<lambda>p. p_id p = approval_id) (\<lambda>p. p\<lparr>p_status := new_status,
         p_approved_by := Some approver, p_decision_reason := Some reason, p_updated := ts\<rparr>)) (
       seqM (ev ''tool_approval_decided'' (JObj [(''approval_id'', JStr approval_id),
         (''tool'', JStr (p_tool row)), (''status'', JStr new_status), (''approver'', JStr approver),
         (''reason'', JStr reason)])) (
       bindM (select_db (\<lambda>d. find_step d (p_step row))) (\<lambda>step.
       case step of
         None \<Rightarrow> retM ()
       | Some s \<Rightarrow>
           if s_status s \<noteq> WaitingHuman then retM ()
           else if new_status = ''APPROVED'' then
             seqM (update_steps (\<lambda>s. s_id s = p_step row)
               (\<lambda>s. (clear_lease s)\<lparr>s_status := Pending, s_updated := ts\<rparr>)) (
             seqM (update_runs (\<lambda>r. r_id r = p_run row) (\<lambda>r. r\<lparr>r_status := Pending, r_updated := ts\<rparr>))
             (ev ''step_retry_scheduled'' (JObj [(''step_id'', JStr (p_step row)),
               (''reason'', JStr ''approval_granted'')])))
           else if new_status = ''DENIED'' then
             seqM (fail_step (p_step row) reason ''ApprovalDenied'' ts Failed) (
             seqM (update_runs (\<lambda>r. r_id r = p_run row) (\<lambda>r. r\<lparr>r_status := Failed, r_updated := ts\<rparr>))
             (ev ''step_failed'' (JObj [(''step_id'', JStr (p_step row)),
               (''error_type'', JStr ''ApprovalDenied'')])))
           else retM ()))))))
     (get_approval approval_id))"

definition approve_request :: "string \<Rightarrow> string \<Rightarrow> string \<Rightarrow> approval_row act" where
  "approve_request approval_id approver reason = decide_approval approval_id ''APPROVED'' approver reason"

definition deny_request :: "string \<Rightarrow> string \<Rightarrow> string \<Rightarrow> approval_row act" where
  "deny_request approval_id approver reason = decide_approval approval_id ''DENIED'' approver reason"

section \<open>Tool ledger\<close>

record ledger_args =
  g_run :: string
  g_session :: "string option"
  g_step :: string
  g_tool :: string
  g_tool_version :: string
  g_call :: string
  g_key :: string
  g_token :: string
  g_hash :: string
  g_ref :: string

definition find_ledger :: "string \<Rightarrow> db \<Rightarrow> ledger_row option" where
  "find_ledger key d = List.find (\<lambda>l. l_key l = key) (ledger d)"

text \<open>\<open>None\<close>: the row was inserted, the caller holds the reservation.\<close>

definition reserve_ledger :: "ledger_args \<Rightarrow> ledger_row option act" where
  "reserve_ledger g =
     bindM (select_db (find_ledger (g_key g))) (\<lambda>existing.
     case existing of
       Some row \<Rightarrow> retM (Some row)
     | None \<Rightarrow>
         bindM now_ts (\<lambda>ts.
         catchM
           (seqM (txn (
              bindM (new_id ''ledger'') (\<lambda>ledger_id.
              insert_ledger \<lparr>l_id = ledger_id, l_run = g_run g, l_session = g_session g,
                l_step = g_step g, l_tool = g_tool g, l_tool_version = g_tool_version g,
                l_call = g_call g, l_key = g_key g, l_token = g_token g,
                l_request_hash = g_hash g, l_request_ref = g_ref g, l_status = ''RESERVED'',
                l_external = None, l_response_hash = None, l_response_ref = None,
                l_error_type = None, l_created = ts, l_updated = ts\<rparr>)))
            (retM None))
           (\<lambda>e. if isinstance e IntegrityError then select_db (find_ledger (g_key g)) else raiseM e)))"

definition set_ledger ::
  "string \<Rightarrow> string \<Rightarrow> string option \<Rightarrow> string option \<Rightarrow> string option \<Rightarrow> string option \<Rightarrow> rat \<Rightarrow> unit act" where
  "set_ledger key st external response_hash response_ref error_type ts =
     on_db (\<lambda>d. d\<lparr>ledger := update_where (\<lambda>l. l_key l = key) (\<lambda>l. l\<lparr>l_status := st,
       l_external := external, l_response_hash := response_hash, l_response_ref := response_ref,
       l_error_type := error_type, l_updated := ts\<rparr>) (ledger d)\<rparr>)"

definition update_ledger ::
  "string \<Rightarrow> string \<Rightarrow> string option \<Rightarrow> string option \<Rightarrow> string option \<Rightarrow> string option \<Rightarrow> unit act" where
  "update_ledger key st external response_hash response_ref error_type =
     txn (bindM now_ts (\<lambda>ts. set_ledger key st external response_hash response_ref error_type ts))"

record resolution =
  z_run :: string
  z_key :: string
  z_status :: string
  z_by :: string
  z_reason :: string
  z_external :: "string option"
  z_hash :: "string option"
  z_ref :: "string option"
  z_error_type :: "string option"

definition get_ledger :: "string \<Rightarrow> ledger_row act" where
  "get_ledger key = bindM (select_db (find_ledger key)) (\<lambda>row.
     case row of None \<Rightarrow> raiseM (Exn KeyError (''ledger row not found: '' @ key)) | Some l \<Rightarrow> retM l)"

definition resolve_ledger :: "resolution \<Rightarrow> ledger_row act" where
  "resolve_ledger z =
     (if z_status z \<noteq> ''SUCCEEDED'' \<and> z_status z \<noteq> ''FAILED_NO_EFFECT'' then
        raiseM (Exn ValueError (''unsupported ledger resolution status: '' @ z_status z))
      else if z_status z = ''SUCCEEDED'' \<and> (z_ref z = None \<or> z_ref z = Some []) then
        raiseM (Exn ValueError ''SUCCEEDED ledger resolution requires response_ref'')
      else
        bindM now_ts (\<lambda>ts.
        seqM (txn (
          bindM (get_ledger (z_key z)) (\<lambda>row.
          if l_run row \<noteq> z_run z then raiseM (Exn ValueError ''ledger row belongs to a different run'')
          else if l_status row \<noteq> ''PENDING_VERIFICATION'' then
            raiseM (Exn ValueError (''ledger row is not pending verification: '' @ l_status row))
          else
            seqM (set_ledger (z_key z) (z_status z) (z_external z) (z_hash z) (z_ref z) (z_error_type z) ts)
            (log_event (event (l_run row) (l_session row) (Some (l_step row)) ''tool_ledger_resolved''
              (JObj [(''ledger_id'', JStr (l_id row)), (''tool'', JStr (l_tool row)),
                (''idempotency_key'', JStr (z_key z)), (''previous_status'', JStr (l_status row)),
                (''status'', JStr (z_status z)), (''resolved_by'', JStr (z_by z)),
                (''reason'', JStr (z_reason z)), (''external_id'', opt_str (z_external z)),
                (''response_ref'', opt_str (z_ref z)), (''error_type'', opt_str (z_error_type z))]))))))
        (get_ledger (z_key z))))"

text \<open>
  SQLite's \<open>LIKE\<close>: \<open>%\<close> stands for any text, \<open>_\<close> for any character, and ASCII
  letters match in either case.
\<close>

definition lower_char :: "char \<Rightarrow> char" where
  "lower_char c = (let n = of_char c :: nat in if 65 \<le> n \<and> n \<le> 90 then char_of (n + 32) else c)"

fun sql_like :: "string \<Rightarrow> string \<Rightarrow> bool" where
  "sql_like [] s = (s = [])"
| "sql_like (p # ps) s =
     (if p = CHR ''%'' then sql_like ps s \<or> (case s of [] \<Rightarrow> False | _ # s' \<Rightarrow> sql_like (p # ps) s')
      else case s of [] \<Rightarrow> False
        | c # s' \<Rightarrow> (p = CHR ''_'' \<or> lower_char p = lower_char c) \<and> sql_like ps s')"

definition latest :: "('a \<Rightarrow> rat) \<Rightarrow> 'a list \<Rightarrow> 'a option" where
  "latest k xs = earliest (\<lambda>x. - k x) xs"

definition find_succeeded_ledger_response ::
  "string \<Rightarrow> string \<Rightarrow> string option \<Rightarrow> string \<Rightarrow> db \<Rightarrow> ledger_row option" where
  "find_succeeded_ledger_response run tool logical request_hash d =
     (let done = filter (\<lambda>l. l_run l = run \<and> l_tool l = tool \<and> l_status l = ''SUCCEEDED'') (ledger d);
          by_hash = latest l_created (filter (\<lambda>l. l_request_hash l = request_hash) done) in
      case logical of
        None \<Rightarrow> by_hash
      | Some op \<Rightarrow>
          if op = [] then by_hash
          else case latest l_created
              (filter (\<lambda>l. sql_like (''%:'' @ tool @ '':'' @ op) (l_key l)) done) of
            Some l \<Rightarrow> Some l
          | None \<Rightarrow> by_hash)"

section \<open>Artifacts and costs\<close>

definition create_artifact :: "string \<Rightarrow> string option \<Rightarrow> string \<Rightarrow> string \<Rightarrow> string \<Rightarrow> json \<Rightarrow> string act" where
  "create_artifact run step name blob_hash blob_ref metadata =
     bindM (new_id ''art'') (\<lambda>artifact_id.
     seqM (txn (bindM now_ts (\<lambda>ts.
       insert_artifact \<lparr>a_id = artifact_id, a_run = run, a_step = step, a_name = name,
         a_hash = blob_hash, a_ref = blob_ref,
         a_metadata = (if truthy metadata then metadata else JObj []), a_created = ts\<rparr>)))
     (retM artifact_id))"

definition record_cost ::
  "string \<Rightarrow> string option \<Rightarrow> string option \<Rightarrow> string \<Rightarrow> string \<Rightarrow> rat \<Rightarrow> string \<Rightarrow> json \<Rightarrow> string act" where
  "record_cost run session step category name amount units metadata =
     bindM (new_id ''cost'') (\<lambda>cost_id.
     bindM now_ts (\<lambda>ts.
     let meta = (if truthy metadata then metadata else JObj []) in
     seqM (txn (
       seqM (insert_cost \<lparr>c_id = cost_id, c_run = run, c_session = session, c_step = step,
         c_category = category, c_name = name, c_amount = amount, c_unit = units,
         c_metadata = meta, c_created = ts\<rparr>)
       (log_event (event run session step ''cost_recorded''
         (JObj [(''cost_id'', JStr cost_id), (''category'', JStr category), (''name'', JStr name),
           (''amount'', JFloat amount), (''unit'', JStr units), (''metadata'', meta)])))))
     (retM cost_id)))"

section \<open>Queries\<close>

definition runs_query :: "int \<Rightarrow> string option \<Rightarrow> db \<Rightarrow> run_row list" where
  "runs_query limit st d =
     (let safe_limit = max 1 (min limit 1000);
          rows = (case st of
             None \<Rightarrow> runs d
           | Some t \<Rightarrow> if t = [] then runs d else filter (\<lambda>r. status_text (r_status r) = t) (runs d))
      in take (nat safe_limit)
           (sort_key (\<lambda>r. - r_updated r) (sort_key (\<lambda>r. - r_created r) rows)))"

definition steps_of :: "string \<Rightarrow> db \<Rightarrow> step_row list" where
  "steps_of run d = sort_key s_created (filter (\<lambda>s. s_run s = run) (steps d))"

definition events_of :: "string \<Rightarrow> db \<Rightarrow> event_row list" where
  "events_of run d = sort_key e_seq (filter (\<lambda>e. e_run e = run) (events d))"

definition ledger_of :: "string \<Rightarrow> db \<Rightarrow> ledger_row list" where
  "ledger_of run d = sort_key l_created (filter (\<lambda>l. l_run l = run) (ledger d))"

definition artifacts_of :: "string \<Rightarrow> db \<Rightarrow> artifact_row list" where
  "artifacts_of run d = sort_key a_created (filter (\<lambda>a. a_run a = run) (artifacts d))"

definition costs_of :: "string \<Rightarrow> db \<Rightarrow> cost_row list" where
  "costs_of run d = sort_key c_created (filter (\<lambda>c. c_run c = run) (costs d))"

record cost_summary =
  tool_calls :: rat
  model_tokens :: rat
  total_usd :: rat
  by_category :: "(string \<times> rat) list"

definition sum_where :: "(cost_row \<Rightarrow> bool) \<Rightarrow> cost_row list \<Rightarrow> rat" where
  "sum_where p rows = sum_list (map c_amount (filter p rows))"

definition add_to :: "string \<Rightarrow> rat \<Rightarrow> (string \<times> rat) list \<Rightarrow> (string \<times> rat) list" where
  "add_to key amount m = AList.update key ((case map_of m key of None \<Rightarrow> 0 | Some a \<Rightarrow> a) + amount) m"

definition cost_summary_of :: "string \<Rightarrow> db \<Rightarrow> cost_summary" where
  "cost_summary_of run d =
     (let records = costs_of run d in
      \<lparr>tool_calls = sum_where (\<lambda>c. (c_category c = ''tool'' \<or> c_category c = ''tool_shadow'') \<and> c_unit c = ''call'') records,
       model_tokens = sum_where (\<lambda>c. c_category c = ''model'' \<and> c_unit c = ''token'') records,
       total_usd = sum_where (\<lambda>c. c_unit c = ''usd'') records,
       by_category = fold (\<lambda>c. add_to (c_category c @ '':'' @ c_unit c) (c_amount c)) records []\<rparr>)"

end
