(* ===== verification/Exec.thy ===== *)
theory Exec
  imports Ledger
begin

text \<open>
  Symbolic execution of store operations: the equations that compute what each statement
  does to a world (\<open>exec\<close>), the event an append writes (\<open>logged\<close>), and the invariant
  \<open>ids_fresh\<close> under which appending an event cannot fail, because the identifiers drawn so
  far are the only ones in use.
\<close>

section \<open>Statements\<close>

lemma select_db_apply [exec, code]: "select_db f w = (Inr (f (db w)), w)"
  by (simp add: select_db_def)

lemma on_db_apply [exec, code]: "on_db f w = (Inr (), w\<lparr>db := f (db w)\<rparr>)"
  by (simp add: on_db_def)

lemma update_runs_apply [exec, code]:
  "update_runs p f w = (Inr (), w\<lparr>db := (db w)\<lparr>runs := update_where p f (runs (db w))\<rparr>\<rparr>)"
  by (simp add: update_runs_def exec)

lemma update_steps_apply [exec, code]:
  "update_steps p f w = (Inr (), w\<lparr>db := (db w)\<lparr>steps := update_where p f (steps (db w))\<rparr>\<rparr>)"
  by (simp add: update_steps_def exec)

lemma update_approvals_apply [exec, code]:
  "update_approvals p f w =
     (Inr (), w\<lparr>db := (db w)\<lparr>approvals := update_where p f (approvals (db w))\<rparr>\<rparr>)"
  by (simp add: update_approvals_def exec)

lemma txn_apply [exec, code]:
  "txn m w = (case m w of (Inl e, w') \<Rightarrow> (Inl e, w'\<lparr>db := db w\<rparr>) | (Inr x, w') \<Rightarrow> (Inr x, w'))"
  by (simp add: txn_def restore_def split: prod.split sum.split)

lemma now_ts_apply [exec, code]: "now_ts w = (Inr (clock w (ticks w)), w\<lparr>ticks := Suc (ticks w)\<rparr>)"
  by (simp add: now_ts_def)

lemma new_id_apply [exec, code]:
  "new_id p w = (Inr (p @ ''_'' @ uuids w (drawn w)), w\<lparr>drawn := Suc (drawn w)\<rparr>)"
  by (simp add: new_id_def)

lemma get_run_apply [exec, code]:
  "get_run i w = (case find_run (db w) i of
     None \<Rightarrow> (Inl (Exn KeyError (''run not found: '' @ i)), w) | Some r \<Rightarrow> (Inr r, w))"
  by (simp add: get_run_def)

lemma get_step_apply [exec, code]:
  "get_step i w = (case find_step (db w) i of
     None \<Rightarrow> (Inl (Exn KeyError i), w) | Some s \<Rightarrow> (Inr s, w))"
  by (simp add: get_step_def)

text \<open>The claim, as one statement over the world its token was drawn in.\<close>

definition claim_rest :: "string \<Rightarrow> rat \<Rightarrow> rat \<Rightarrow> step_row \<Rightarrow> string \<Rightarrow> nat \<Rightarrow> step_claim option act" where
  "claim_rest worker lease_until now row lease_token rowcount =
     (if rowcount \<noteq> 1 then retM None else claimed worker lease_until now row lease_token)"

lemma claim_update_eq [code]:
  "claim_update worker secs now row w =
     (let tok = ''lease'' @ ''_'' @ uuids w (drawn w); until = now + of_int secs in
      case claim_rest worker until now row tok (length (filter (claim_hits row) (steps (db w))))
        (w\<lparr>drawn := Suc (drawn w), db := (db w)\<lparr>steps := update_where (claim_hits row)
          (taken worker tok until now (s_attempt row + 1)) (steps (db w))\<rparr>\<rparr>) of
        (Inl e, w') \<Rightarrow> (Inl e, w'\<lparr>db := db w\<rparr>)
      | (Inr x, w') \<Rightarrow> (Inr x, w'))"
  unfolding claim_update_def Let_def bindM_apply seqM_apply txn_apply new_id_apply select_db_apply
    update_steps_apply claim_rest_def [symmetric]
  by (simp split: prod.split sum.split)

section \<open>Logging\<close>

definition new_event :: "event_args \<Rightarrow> world \<Rightarrow> event_row" where
  "new_event v w =
     \<lparr>e_id = ''evt_'' @ uuids w (drawn w), e_run = v_run v, e_session = v_session v,
      e_step = v_step v, e_seq = next_seq (db w) (v_run v), e_type = v_type v,
      e_time = clock w (ticks w), e_role = v_role v, e_version = v_version v, e_token = v_token v,
      e_hash = v_hash v,
      e_payload = (case v_ref v of None \<Rightarrow> Inline (sort_keys (v_payload v)) | Some r \<Rightarrow> Ref r)\<rparr>"

definition logged :: "event_args \<Rightarrow> world \<Rightarrow> world" where
  "logged v w = w\<lparr>ticks := Suc (ticks w), drawn := Suc (drawn w),
     db := (db w)\<lparr>events := events (db w) @ [new_event v w]\<rparr>\<rparr>"

definition ids_fresh :: "world \<Rightarrow> bool" where
  "ids_fresh w \<longleftrightarrow> inj (uuids w) \<and>
     (\<forall>e\<in>set (events (db w)). \<exists>n<drawn w. e_id e = ''evt_'' @ uuids w n)"

lemma next_seq_unused:
  "e \<in> set (events d) \<Longrightarrow> e_run e = run \<Longrightarrow> e_seq e < next_seq d run"
  unfolding next_seq_def
  by (rule le_less_trans [OF coalesce_max_ge [of "e_seq e"]]) auto

lemma append_event_in_tx_eq [code]:
  "append_event_in_tx v w =
     (if ''evt_'' @ uuids w (drawn w) \<in> e_id ` set (events (db w))
      then (Inl (integrity_error ''events.event_id''), w\<lparr>ticks := Suc (ticks w), drawn := Suc (drawn w)\<rparr>)
      else (Inr (''evt_'' @ uuids w (drawn w), next_seq (db w) (v_run v)), logged v w))"
proof -
  have "(v_run v, next_seq (db w) (v_run v)) \<notin> (\<lambda>x. (e_run x, e_seq x)) ` set (events (db w))"
    by (auto dest: next_seq_unused)
  then show ?thesis
    by (simp add: append_event_in_tx_def insert_event_def logged_def new_event_def exec)
qed

lemma log_event_eq [code]:
  "log_event v w =
     (if ''evt_'' @ uuids w (drawn w) \<in> e_id ` set (events (db w))
      then (Inl (integrity_error ''events.event_id''), w\<lparr>ticks := Suc (ticks w), drawn := Suc (drawn w)\<rparr>)
      else (Inr (), logged v w))"
  by (simp add: log_event_def append_event_in_tx_eq exec)

lemma fresh_uuid: "ids_fresh w \<Longrightarrow> ''evt_'' @ uuids w (drawn w) \<notin> e_id ` set (events (db w))"
proof
  assume fresh: "ids_fresh w" and "''evt_'' @ uuids w (drawn w) \<in> e_id ` set (events (db w))"
  then obtain e where e: "e \<in> set (events (db w))" and "e_id e = ''evt_'' @ uuids w (drawn w)"
    by auto
  moreover obtain n where n: "n < drawn w" and "e_id e = ''evt_'' @ uuids w n"
    using fresh e by (auto simp: ids_fresh_def)
  ultimately have "uuids w (drawn w) = uuids w n" by simp
  with fresh have "drawn w = n" by (auto simp: ids_fresh_def dest: injD)
  with n show False by simp
qed

lemma append_event_in_tx_ok:
  "ids_fresh w \<Longrightarrow> append_event_in_tx v w =
     (Inr (''evt_'' @ uuids w (drawn w), next_seq (db w) (v_run v)), logged v w)"
  using fresh_uuid [of w] by (simp add: append_event_in_tx_eq)

lemma log_event_ok [exec]: "ids_fresh w \<Longrightarrow> log_event v w = (Inr (), logged v w)"
  by (simp add: log_event_def append_event_in_tx_ok exec)

lemma log_event_cases:
  obtains "log_event v w = (Inr (), logged v w)"
  | "log_event v w = (Inl (integrity_error ''events.event_id''),
       w\<lparr>ticks := Suc (ticks w), drawn := Suc (drawn w)\<rparr>)"
  by (cases "''evt_'' @ uuids w (drawn w) \<in> e_id ` set (events (db w))")
    (auto simp: log_event_def append_event_in_tx_eq exec)

lemma logged_tables [simp]:
  "runs (db (logged v w)) = runs (db w)"
  "steps (db (logged v w)) = steps (db w)"
  "ledger (db (logged v w)) = ledger (db w)"
  "approvals (db (logged v w)) = approvals (db w)"
  "artifacts (db (logged v w)) = artifacts (db w)"
  "costs (db (logged v w)) = costs (db w)"
  "events (db (logged v w)) = events (db w) @ [new_event v w]"
  "find_run (db (logged v w)) i = find_run (db w) i"
  "find_step (db (logged v w)) i = find_step (db w) i"
  "find_ledger i (db (logged v w)) = find_ledger i (db w)"
  "find_approval i (db (logged v w)) = find_approval i (db w)"
  "approval_for_key i (db (logged v w)) = approval_for_key i (db w)"
  "costs_of i (db (logged v w)) = costs_of i (db w)"
  by (simp_all add: logged_def find_run_def find_step_def find_ledger_def find_approval_def
      approval_for_key_def costs_of_def)

lemma logged_env [simp]:
  "clock (logged v w) = clock w"
  "ticks (logged v w) = Suc (ticks w)"
  "uuids (logged v w) = uuids w"
  "drawn (logged v w) = Suc (drawn w)"
  "sha (logged v w) = sha w"
  "repr_float (logged v w) = repr_float w"
  "calls (logged v w) = calls w"
  "blobs (logged v w) = blobs w"
  by (simp_all add: logged_def)

lemma ids_fresh_logged [simp]: "ids_fresh w \<Longrightarrow> ids_fresh (logged v w)"
  by (auto simp: ids_fresh_def logged_def new_event_def intro: less_SucI)

lemma ids_fresh_drawn [simp]: "ids_fresh w \<Longrightarrow> ids_fresh (w\<lparr>drawn := Suc (drawn w)\<rparr>)"
  by (auto simp: ids_fresh_def intro: less_SucI)

lemma ids_fresh_update [simp]:
  "ids_fresh (w\<lparr>ticks := n\<rparr>) = ids_fresh w"
  "ids_fresh (w\<lparr>blobs := b\<rparr>) = ids_fresh w"
  "ids_fresh (w\<lparr>calls := c\<rparr>) = ids_fresh w"
  "events d = events (db w) \<Longrightarrow> ids_fresh (w\<lparr>db := d\<rparr>) = ids_fresh w"
  by (simp_all add: ids_fresh_def)

section \<open>Keys\<close>

lemma ball_update_where:
  "(\<forall>x\<in>set (update_where p f xs). Q x) \<longleftrightarrow> (\<forall>x\<in>set xs. (p x \<longrightarrow> Q (f x)) \<and> (\<not> p x \<longrightarrow> Q x))"
  by (induction xs) auto

text \<open>Updates that keep the key column commute with the lookup by key.\<close>

lemma find_run_update:
  "(\<And>r. r_id (f r) = r_id r) \<Longrightarrow>
   find_run (d\<lparr>runs := update_where p f (runs d)\<rparr>) i = map_option (\<lambda>r. if p r then f r else r) (find_run d i)"
  by (simp add: find_run_def find_update_where_key)

lemma find_step_update:
  "(\<And>s. s_id (f s) = s_id s) \<Longrightarrow>
   find_step (d\<lparr>steps := update_where p f (steps d)\<rparr>) i = map_option (\<lambda>s. if p s then f s else s) (find_step d i)"
  by (simp add: find_step_def find_update_where_key)

lemma find_other_table [simp]:
  "find_run (d\<lparr>steps := x\<rparr>) i = find_run d i"
  "find_run (d\<lparr>events := y\<rparr>) i = find_run d i"
  "find_run (d\<lparr>approvals := z\<rparr>) i = find_run d i"
  "find_run (d\<lparr>ledger := u\<rparr>) i = find_run d i"
  "find_step (d\<lparr>runs := v\<rparr>) i = find_step d i"
  "find_step (d\<lparr>events := y\<rparr>) i = find_step d i"
  "find_step (d\<lparr>approvals := z\<rparr>) i = find_step d i"
  "find_step (d\<lparr>ledger := u\<rparr>) i = find_step d i"
  by (simp_all add: find_run_def find_step_def)

lemma find_run_id: "find_run d i = Some r \<Longrightarrow> r_id r = i"
  by (auto simp: find_run_def dest: find_SomeD)

lemma find_run_mem: "find_run d i = Some r \<Longrightarrow> r \<in> set (runs d)"
  by (auto simp: find_run_def dest: find_SomeD)

lemma find_step_id: "find_step d i = Some s \<Longrightarrow> s_id s = i"
  by (auto simp: find_step_def dest: find_SomeD)

lemma find_step_mem: "find_step d i = Some s \<Longrightarrow> s \<in> set (steps d)"
  by (auto simp: find_step_def dest: find_SomeD)

lemma clear_lease_fields [simp]:
  "s_id (clear_lease s) = s_id s"
  "s_run (clear_lease s) = s_run s"
  "s_session (clear_lease s) = s_session s"
  "s_status (clear_lease s) = s_status s"
  "s_lease (clear_lease s) = None"
  "s_owner (clear_lease s) = None"
  "s_until (clear_lease s) = None"
  "s_attempt (clear_lease s) = s_attempt s"
  "s_created (clear_lease s) = s_created s"
  "s_version (clear_lease s) = s_version s"
  by (simp_all add: clear_lease_def)

end
