(* ===== verification/Event_Log.thy ===== *)
theory Event_Log
  imports Exec "HOL-Library.Sublist"
begin

text \<open>
  Laws of the event log that every operation of the store keeps.

  The locale \<open>log_relation\<close> is the interface of the log: a relation on worlds that holds
  when no event is written, and when one event is, numbered and named as
  \<open>_append_event_in_tx\<close> does (\<open>logged\<close>). Inside it every store operation is shown to
  stay within the relation. It is interpreted three times: with \<open>prefix\<close> (the log is
  append-only), with the contiguity of sequence numbers (in each run they are 1, 2, 3, \<dots>
  in the order of the log), and with the freshness of identifiers.
\<close>

section \<open>The interface\<close>

locale log_relation =
  fixes R :: "world \<Rightarrow> world \<Rightarrow> bool"
  assumes R_trans: "R w1 w2 \<Longrightarrow> R w2 w3 \<Longrightarrow> R w1 w3"
    and R_same: "events (db w') = events (db w) \<Longrightarrow> uuids w' = uuids w \<Longrightarrow> drawn w \<le> drawn w' \<Longrightarrow> R w w'"
    and R_rollback: "R w w' \<Longrightarrow> R w (restore w w')"
    and R_append: "''evt_'' @ uuids w (drawn w) \<notin> e_id ` set (events (db w)) \<Longrightarrow> R w (logged v w)"
begin

sublocale store_preorder R
  by unfold_locales (auto intro: R_same R_trans R_rollback)

abbreviation logs :: "'a act \<Rightarrow> bool" where
  "logs \<equiv> stays R"

lemma stays_same_events:
  "(\<And>w. events (db (snd (m w))) = events (db w) \<and> uuids (snd (m w)) = uuids w \<and> drawn (snd (m w)) = drawn w) \<Longrightarrow>
    logs m"
  by (simp add: stays_def R_same)

lemma stays_statements:
  "logs (update_runs p f)"
  "logs (update_steps p' f')"
  "logs (update_approvals p'' f'')"
  "logs (set_ledger k st x h r e t)"
  "logs (insert_run r')"
  "logs (insert_step s)"
  "logs (insert_ledger l)"
  "logs (insert_approval a)"
  "logs (insert_artifact b)"
  "logs (insert_cost c)"
  "logs (get_run i)"
  "logs (get_step j)"
  by (rule stays_same_events, simp add: exec set_ledger_def insert_run_def insert_step_def insert_ledger_def
      insert_approval_def insert_artifact_def insert_cost_def split: option.split)+

lemma stays_reads:
  "logs (get_approval k)"
  "logs (get_ledger l)"
  unfolding get_approval_def get_ledger_def by (intro store_rules)+

lemma stays_append_event: "logs (append_event_in_tx v)"
  unfolding stays_def append_event_in_tx_eq by (auto intro: R_append R_same)

lemma stays_log_event: "logs (log_event v)"
  unfolding log_event_def by (intro store_rules stays_append_event)

lemmas log_rules = store_rules stays_statements stays_reads stays_append_event stays_log_event

lemma stays_validate_lease: "logs (validate_lease i t)"
  unfolding validate_lease_def by (intro log_rules)

lemma stays_claim_update: "logs (claim_update u n t row)"
  unfolding claim_update_def claimed_def by (intro log_rules)

lemma stays_claim_loop: "logs (claim_loop n u run secs)"
  by (induction n) (simp_all only: claim_loop.simps, (intro log_rules stays_claim_update | assumption)+)

lemma stays_recover_rows: "logs (recover_rows t rows)"
  by (induction rows) (simp_all only: recover_rows.simps, (intro log_rules | assumption)+)

lemma stays_commit_write: "logs (commit_write run i base patch ck ts step row)"
  unfolding commit_write_def by (intro log_rules)

lemma stays_run_operations:
  "logs (create_run sess init pol)"
  "logs (create_external_step run st pol)"
  "logs (claim_step u r secs)"
  "logs (heartbeat i tok secs)"
  "logs recover_expired_leases"
  "logs (cancel_run run reason)"
  "logs (mark_waiting_human run i reason a)"
  "logs (commit_state_patch run i tok base patch ck)"
  "logs (apply_system_state_patch run patch reason)"
  "logs (mark_retry run i err ty)"
  "logs (mark_failed run i err ty)"
  "logs (append_event v)"
  unfolding create_run_def create_external_step_def claim_step_def heartbeat_def
    recover_expired_leases_def cancel_run_def mark_waiting_human_def commit_state_patch_def
    apply_system_state_patch_def mark_retry_def mark_failed_def fail_step_def append_event_def
  by (intro log_rules stays_claim_loop stays_recover_rows stays_validate_lease stays_commit_write)+

lemma stays_ledger_operations:
  "logs (request_approval q)"
  "logs (decide_approval a st who reason)"
  "logs (reserve_ledger g)"
  "logs (update_ledger key st x h r e)"
  "logs (resolve_ledger z)"
  "logs (create_artifact run step name hash ref m)"
  "logs (record_cost run sess step cat name amount u m)"
  unfolding request_approval_def decide_approval_def reserve_ledger_def update_ledger_def
    resolve_ledger_def create_artifact_def record_cost_def fail_step_def
  by (intro log_rules)+

end

section \<open>Append-only\<close>

interpretation append_only: log_relation "\<lambda>w w'. prefix (events (db w)) (events (db w'))"
  by unfold_locales (auto simp: restore_def)

section \<open>Contiguous numbering\<close>

definition seqs :: "string \<Rightarrow> event_row list \<Rightarrow> int list" where
  "seqs run es = map e_seq (filter (\<lambda>e. e_run e = run) es)"

definition numbered :: "event_row list \<Rightarrow> bool" where
  "numbered es \<longleftrightarrow> (\<forall>run. seqs run es = map int [1..<Suc (length (seqs run es))])"

lemma numbered_append:
  assumes "numbered es" and "e_seq e = coalesce_max (seqs (e_run e) es) + 1"
  shows "numbered (es @ [e])"
  unfolding numbered_def
proof
  fix run
  define n where "n = length (seqs run es)"
  have IH: "seqs run es = map int [1..<Suc n]"
    using assms(1) by (simp only: numbered_def n_def)
  have snoc: "seqs run (es @ [e]) = (if e_run e = run then seqs run es @ [e_seq e] else seqs run es)"
    by (simp add: seqs_def)
  show "seqs run (es @ [e]) = map int [1..<Suc (length (seqs run (es @ [e])))]"
  proof (cases "e_run e = run")
    case True
    then have "e_seq e = int (Suc n)"
      using assms(2) coalesce_max_upt [of n] IH by simp
    then have "seqs run (es @ [e]) = map int [1..<Suc (Suc n)]"
      using True by (simp add: snoc IH)
    then show ?thesis using n_def by (simp add: snoc True)
  qed (use IH n_def in \<open>simp only: snoc if_False\<close>)
qed

interpretation numbering: log_relation "\<lambda>w w'. numbered (events (db w)) \<longrightarrow> numbered (events (db w'))"
  by unfold_locales
    (auto simp: restore_def new_event_def next_seq_def seqs_def intro!: numbered_append)

section \<open>Fresh identifiers\<close>

definition fresh_kept :: "world \<Rightarrow> world \<Rightarrow> bool" where
  "fresh_kept w w' \<longleftrightarrow> uuids w' = uuids w \<and> drawn w \<le> drawn w' \<and> (ids_fresh w \<longrightarrow> ids_fresh w')"

lemma ids_fresh_mono:
  "events (db w') = events (db w) \<Longrightarrow> uuids w' = uuids w \<Longrightarrow> drawn w \<le> drawn w' \<Longrightarrow>
    ids_fresh w \<Longrightarrow> ids_fresh w'"
  unfolding ids_fresh_def by (metis less_le_trans)

interpretation freshness: log_relation fresh_kept
proof (unfold_locales, goal_cases)
  case (2 w' w)
  then show ?case by (auto simp: fresh_kept_def intro: ids_fresh_mono)
next
  case (3 w w')
  then show ?case by (auto simp: fresh_kept_def restore_def intro: ids_fresh_mono)
qed (auto simp: fresh_kept_def)

end
