(* ===== verification/Run_State.thy ===== *)
theory Run_State
  imports Event_Log
begin

text \<open>
  Laws of the \<open>runs\<close> table. \<open>grows P\<close> says that a table only gained rows at its end and
  that each old row changed as the preorder \<open>P\<close> on rows allows. The locale
  \<open>run_preorder\<close> asks of \<open>P\<close> what the statements of the store do to a run: set its
  status, or set its state together with the next version. It is interpreted with
  \<open>run_evolves\<close>: the identity of a run is fixed, its version never decreases, and its state
  changes only with its version.
\<close>

definition grows :: "('a \<Rightarrow> 'a \<Rightarrow> bool) \<Rightarrow> 'a list \<Rightarrow> 'a list \<Rightarrow> bool" where
  "grows P xs ys \<longleftrightarrow> length xs \<le> length ys \<and> list_all2 P xs (take (length xs) ys)"

lemma grows_refl: "(\<And>x. P x x) \<Longrightarrow> grows P xs xs"
  by (simp add: grows_def list.rel_refl)

lemma grows_trans:
  assumes "\<And>x y z. P x y \<Longrightarrow> P y z \<Longrightarrow> P x z" and "grows P xs ys" and "grows P ys zs"
  shows "grows P xs zs"
  unfolding grows_def
proof
  show "length xs \<le> length zs" using assms(2,3) by (auto simp: grows_def)
  have "P (xs ! i) (zs ! i)" if "i < length xs" for i
    using assms that by (auto simp: grows_def list_all2_conv_all_nth intro: assms(1))
  then show "list_all2 P xs (take (length xs) zs)"
    using \<open>length xs \<le> length zs\<close> by (auto simp: list_all2_conv_all_nth)
qed

lemma grows_append: "(\<And>x. P x x) \<Longrightarrow> grows P xs (xs @ ys)"
  by (simp add: grows_def list.rel_refl)

lemma grows_update_where:
  "(\<And>x. P x x) \<Longrightarrow> (\<And>x. p x \<Longrightarrow> P x (f x)) \<Longrightarrow> grows P xs (update_where p f xs)"
  by (auto simp: grows_def update_where_def list_all2_conv_all_nth)

lemma grows_nth: "grows P xs ys \<Longrightarrow> i < length xs \<Longrightarrow> P (xs ! i) (ys ! i)"
  by (auto simp: grows_def list_all2_conv_all_nth)

lemma grows_mem: "grows P xs ys \<Longrightarrow> x \<in> set xs \<Longrightarrow> \<exists>y\<in>set ys. P x y"
  by (metis grows_def grows_nth in_set_conv_nth less_le_trans nth_mem)

section \<open>The interface\<close>

locale run_preorder =
  fixes P :: "run_row \<Rightarrow> run_row \<Rightarrow> bool"
  assumes P_refl: "P r r"
    and P_trans: "P r r' \<Longrightarrow> P r' r'' \<Longrightarrow> P r r''"
    and P_status: "P r (r\<lparr>r_status := st, r_updated := t\<rparr>)"
    and P_commit: "P r (r\<lparr>r_state := x, r_version := r_version r + 1, r_status := Completed, r_updated := t\<rparr>)"
    and P_patch: "P r (r\<lparr>r_state := x, r_version := r_version r + 1, r_updated := t\<rparr>)"
begin

sublocale store_preorder "\<lambda>w w'. grows P (runs (db w)) (runs (db w'))"
  by unfold_locales (auto simp: restore_def intro: grows_refl P_refl grows_trans [of P, OF P_trans])

abbreviation runs_stay :: "'a act \<Rightarrow> bool" where
  "runs_stay \<equiv> stays (\<lambda>w w'. grows P (runs (db w)) (runs (db w')))"

lemma stays_same_runs: "(\<And>w. runs (db (snd (m w))) = runs (db w)) \<Longrightarrow> runs_stay m"
  by (simp add: stays_def grows_refl P_refl)

lemma stays_update_runs: "(\<And>r. p r \<Longrightarrow> P r (f r)) \<Longrightarrow> runs_stay (update_runs p f)"
  by (simp add: stays_def update_runs_def on_db_def grows_update_where P_refl)

lemma stays_status: "runs_stay (update_runs p (\<lambda>r. r\<lparr>r_status := st, r_updated := t\<rparr>))"
  by (rule stays_update_runs) (rule P_status)

lemma stays_insert_run: "runs_stay (insert_run r)"
  by (simp add: stays_def insert_run_def grows_append grows_refl P_refl)

lemma stays_statements:
  "runs_stay (update_steps p' f')"
  "runs_stay (update_approvals p'' f'')"
  "runs_stay (set_ledger k st x h r e t)"
  "runs_stay (insert_step s)"
  "runs_stay (insert_event v)"
  "runs_stay (insert_ledger l)"
  "runs_stay (insert_approval a)"
  "runs_stay (insert_artifact b)"
  "runs_stay (insert_cost c)"
  by (rule stays_same_runs, simp add: on_db_def update_steps_def update_approvals_def
      set_ledger_def insert_step_def insert_event_def insert_ledger_def
      insert_approval_def insert_artifact_def insert_cost_def)+

lemma stays_reads:
  "runs_stay (get_run i)"
  "runs_stay (get_step j)"
  "runs_stay (get_approval k)"
  "runs_stay (get_ledger l)"
  by (rule stays_same_runs, simp add: get_run_def get_step_def split: option.split)
    (rule stays_same_runs, simp add: get_run_def get_step_def split: option.split,
      unfold get_approval_def get_ledger_def, (intro store_rules)+)

lemma stays_append_event: "runs_stay (append_event_in_tx v)"
  unfolding append_event_in_tx_def by (intro store_rules stays_statements)

lemma stays_log_event: "runs_stay (log_event v)"
  unfolding log_event_def by (intro store_rules stays_append_event)

lemmas run_rules = store_rules stays_status stays_insert_run stays_statements stays_reads
  stays_append_event stays_log_event

lemma stays_validate_lease: "runs_stay (validate_lease i t)"
  unfolding validate_lease_def by (intro run_rules)

lemma stays_claim_update: "runs_stay (claim_update u n t row)"
  unfolding claim_update_def claimed_def by (intro run_rules)

lemma stays_claim_loop: "runs_stay (claim_loop n u run secs)"
  by (induction n) (simp_all only: claim_loop.simps, (intro run_rules stays_claim_update | assumption)+)

lemma stays_recover_rows: "runs_stay (recover_rows t rows)"
  by (induction rows) (simp_all only: recover_rows.simps, (intro run_rules | assumption)+)

lemma stays_commit_write: "runs_stay (commit_write run i base patch ck ts step row)"
  unfolding commit_write_def Let_def
  by (intro run_rules stays_update_runs) (metis P_commit)

lemma stays_commit: "runs_stay (commit_state_patch run i tok base patch ck)"
  unfolding commit_state_patch_def
  by (intro run_rules stays_validate_lease stays_commit_write)

lemma stays_system_patch: "runs_stay (apply_system_state_patch run patch reason)"
  unfolding apply_system_state_patch_def Let_def
  by (intro run_rules stays_update_runs) (metis P_patch)

lemma stays_run_operations:
  "runs_stay (create_run sess init pol)"
  "runs_stay (create_external_step run st pol)"
  "runs_stay (claim_step u r secs)"
  "runs_stay (heartbeat i tok secs)"
  "runs_stay recover_expired_leases"
  "runs_stay (cancel_run run reason)"
  "runs_stay (mark_waiting_human run i reason a)"
  "runs_stay (mark_retry run i err ty)"
  "runs_stay (mark_failed run i err ty)"
  "runs_stay (append_event v)"
  unfolding create_run_def create_external_step_def claim_step_def heartbeat_def
    recover_expired_leases_def cancel_run_def mark_waiting_human_def
    mark_retry_def mark_failed_def fail_step_def append_event_def
  by (intro run_rules stays_claim_loop stays_recover_rows stays_validate_lease)+

lemma stays_ledger_operations:
  "runs_stay (request_approval q)"
  "runs_stay (decide_approval a st who reason)"
  "runs_stay (reserve_ledger g)"
  "runs_stay (update_ledger key st x h r e)"
  "runs_stay (resolve_ledger z)"
  "runs_stay (create_artifact run step name hash ref m)"
  "runs_stay (record_cost run sess step cat name amount u m)"
  unfolding request_approval_def decide_approval_def reserve_ledger_def update_ledger_def
    resolve_ledger_def create_artifact_def record_cost_def fail_step_def
  by (intro run_rules)+

end

section \<open>Versions\<close>

definition run_evolves :: "run_row \<Rightarrow> run_row \<Rightarrow> bool" where
  "run_evolves r r' \<longleftrightarrow>
     r_id r' = r_id r \<and> r_session r' = r_session r \<and> r_created r' = r_created r \<and>
     r_version r \<le> r_version r' \<and> (r_version r' = r_version r \<longrightarrow> r_state r' = r_state r)"

interpretation versions: run_preorder run_evolves
  by unfold_locales (auto simp: run_evolves_def)

end
