(* ===== verification/Leases.thy ===== *)
theory Leases
  imports Run_State
begin

text \<open>
  Laws of the \<open>steps\<close> table and of leases.

  The locale \<open>step_relation\<close> asks of a relation on worlds what the statements of the
  store do to step rows: heartbeats, releases of a lease together with a status other than
  \<open>Running\<close>, completion, insertion of a pending step, and a claim with a token drawn at
  that moment. Every operation of the store stays within such a relation. Interpreted with
  \<open>identity_kept\<close> it says that the identity columns of a step never change; with
  \<open>fenced_later t\<close> that a token which no running step holds will never be held by a
  running step again; with \<open>leases_kept\<close> that every running step has an owner, a token
  and a deadline.
\<close>

section \<open>The interface\<close>

locale step_relation =
  fixes R :: "world \<Rightarrow> world \<Rightarrow> bool"
    and P :: "step_row \<Rightarrow> step_row \<Rightarrow> bool"
  assumes R_trans: "R w1 w2 \<Longrightarrow> R w2 w3 \<Longrightarrow> R w1 w3"
    and R_same: "steps (db w') = steps (db w) \<Longrightarrow> uuids w' = uuids w \<Longrightarrow> drawn w \<le> drawn w' \<Longrightarrow> R w w'"
    and R_rollback: "R w w' \<Longrightarrow> R w (restore w w')"
    and R_rows: "(\<And>s. p s \<Longrightarrow> P s (f s)) \<Longrightarrow>
      R w (w\<lparr>db := (db w)\<lparr>steps := update_where p f (steps (db w))\<rparr>\<rparr>)"
    and R_new: "s_id s \<notin> s_id ` set (steps (db w)) \<Longrightarrow> s_lease s = None \<Longrightarrow> s_status s = Pending \<Longrightarrow>
      R w (w\<lparr>db := (db w)\<lparr>steps := steps (db w) @ [s]\<rparr>\<rparr>)"
    and R_claim: "R w (w\<lparr>drawn := Suc (drawn w), db := (db w)\<lparr>steps := update_where (claim_hits row)
      (\<lambda>s. s\<lparr>s_status := Running, s_owner := Some u, s_lease := Some (''lease'' @ ''_'' @ uuids w (drawn w)),
             s_until := Some l, s_heartbeat := h, s_attempt := a, s_updated := t\<rparr>) (steps (db w))\<rparr>\<rparr>)"
    and P_heartbeat: "P s (s\<lparr>s_until := Some l, s_heartbeat := h, s_updated := t\<rparr>)"
    and P_release: "st \<noteq> Running \<Longrightarrow> P s ((clear_lease s)\<lparr>s_status := st, s_updated := t\<rparr>)"
    and P_release_error: "st \<noteq> Running \<Longrightarrow>
      P s ((clear_lease s)\<lparr>s_status := st, s_error_type := et, s_error := em, s_updated := t\<rparr>)"
    and P_cancel: "P s ((clear_lease s)\<lparr>s_status := Cancelled, s_cancelled := c, s_updated := t\<rparr>)"
    and P_complete: "P s (s\<lparr>s_status := Completed, s_version := v, s_checkpoint := ck, s_updated := t\<rparr>)"
begin

sublocale store_preorder R
  by unfold_locales (auto intro: R_same R_trans R_rollback)

lemma stays_same_steps:
  "(\<And>w. steps (db (snd (m w))) = steps (db w) \<and> uuids (snd (m w)) = uuids w \<and> drawn (snd (m w)) = drawn w) \<Longrightarrow>
    stays R m"
  by (simp add: stays_def R_same)

lemma stays_update_steps: "(\<And>s. p s \<Longrightarrow> P s (f s)) \<Longrightarrow> stays R (update_steps p f)"
  by (simp add: stays_def exec R_rows)

lemma stays_insert_step: "s_lease s = None \<Longrightarrow> s_status s = Pending \<Longrightarrow> stays R (insert_step s)"
  by (simp add: stays_def insert_step_def R_new refl)

lemma stays_statements:
  "stays R (update_runs p f)"
  "stays R (update_approvals p'' f'')"
  "stays R (set_ledger k st x h r e t)"
  "stays R (insert_run r')"
  "stays R (insert_event v)"
  "stays R (insert_ledger l)"
  "stays R (insert_approval a)"
  "stays R (insert_artifact b)"
  "stays R (insert_cost c)"
  "stays R (get_run i)"
  "stays R (get_step j)"
  by (rule stays_same_steps, simp add: exec set_ledger_def insert_run_def insert_event_def
      insert_ledger_def insert_approval_def insert_artifact_def insert_cost_def split: option.split)+

lemma stays_reads:
  "stays R (get_approval k)"
  "stays R (get_ledger l)"
  unfolding get_approval_def get_ledger_def by (intro store_rules)+

lemma stays_log_event: "stays R (log_event v)" "stays R (append_event_in_tx v)"
  unfolding log_event_def append_event_in_tx_def by (intro store_rules stays_statements)+

lemmas lease_rules = store_rules stays_statements stays_reads stays_log_event

lemma stays_validate_lease: "stays R (validate_lease i t)"
  unfolding validate_lease_def by (intro lease_rules)

lemma stays_claim_update: "stays R (claim_update u n t row)"
proof (unfold stays_def, intro allI)
  fix w :: world
  let ?tok = "''lease'' @ ''_'' @ uuids w (drawn w)"
  let ?w2 = "w\<lparr>drawn := Suc (drawn w), db := (db w)\<lparr>steps := update_where (claim_hits row)
      (taken u ?tok (t + of_int n) t (s_attempt row + 1)) (steps (db w))\<rparr>\<rparr>"
  let ?rest = "claim_rest u (t + of_int n) t row ?tok (length (filter (claim_hits row) (steps (db w))))"
  obtain r w3 where rest: "?rest ?w2 = (r, w3)" by fastforce
  have "stays R ?rest" unfolding claim_rest_def claimed_def by (intro lease_rules)
  then have "R ?w2 w3" using rest by (rule staysD)
  with R_claim have "R w w3" unfolding taken_def by (rule R_trans)
  moreover have "claim_update u n t row w =
      (case r of Inl e \<Rightarrow> (Inl e, w3\<lparr>db := db w\<rparr>) | Inr x \<Rightarrow> (Inr x, w3))"
    by (simp only: claim_update_eq Let_def rest prod.case)
  ultimately show "R w (snd (claim_update u n t row w))"
    using R_rollback [of w w3] by (auto simp: restore_def split: sum.split)
qed

lemma stays_claim_loop: "stays R (claim_loop n u run secs)"
  by (induction n) (simp_all only: claim_loop.simps, (intro lease_rules stays_claim_update | assumption)+)

lemma stays_recover_rows: "stays R (recover_rows t rows)"
  by (induction rows)
    (simp_all only: recover_rows.simps,
      (intro lease_rules stays_update_steps P_release status.distinct | assumption | simp)+)

lemma stays_fail_step: "st \<noteq> Running \<Longrightarrow> stays R (fail_step i err ty t st)"
  unfolding fail_step_def by (intro stays_update_steps P_release_error)

lemma stays_commit_write: "stays R (commit_write run i base patch ck ts step row)"
  unfolding commit_write_def by (intro lease_rules stays_update_steps P_complete)

lemma stays_create:
  "stays R (create_run sess init pol)"
  "stays R (create_external_step run st pol)"
  unfolding create_run_def create_external_step_def
  by (intro lease_rules stays_insert_step; simp)+

lemma stays_lease_operations:
  "stays R (claim_step u r secs)"
  "stays R (heartbeat i tok secs)"
  "stays R recover_expired_leases"
  unfolding claim_step_def heartbeat_def recover_expired_leases_def
  by (intro lease_rules stays_claim_loop stays_recover_rows stays_validate_lease stays_update_steps
      P_heartbeat)+

lemma stays_stop_operations:
  "stays R (cancel_run run reason)"
  "stays R (mark_waiting_human run i reason a)"
  unfolding cancel_run_def mark_waiting_human_def
  by (intro lease_rules stays_update_steps P_cancel P_release_error; simp)+

lemma stays_commit_operations:
  "stays R (commit_state_patch run i tok base patch ck)"
  "stays R (apply_system_state_patch run patch reason)"
  "stays R (append_event v)"
  unfolding commit_state_patch_def apply_system_state_patch_def append_event_def
  by (intro lease_rules stays_validate_lease stays_commit_write)+

lemma stays_failures:
  "stays R (mark_retry run i err ty)"
  "stays R (mark_failed run i err ty)"
  unfolding mark_retry_def mark_failed_def
  by (intro lease_rules stays_fail_step; simp)+

lemmas stays_step_operations = stays_create stays_lease_operations stays_stop_operations
  stays_commit_operations stays_failures

lemma stays_ledger_operations:
  "stays R (request_approval q)"
  "stays R (decide_approval a st who reason)"
  "stays R (reserve_ledger g)"
  "stays R (update_ledger key st x h r e)"
  "stays R (resolve_ledger z)"
  "stays R (create_artifact run step name hash ref m)"
  "stays R (record_cost run sess step cat name amount u m)"
  unfolding request_approval_def decide_approval_def reserve_ledger_def update_ledger_def
    resolve_ledger_def create_artifact_def record_cost_def
  by (intro lease_rules stays_update_steps stays_fail_step P_release; simp)+

end

section \<open>Identity of steps\<close>

definition same_step :: "step_row \<Rightarrow> step_row \<Rightarrow> bool" where
  "same_step s s' \<longleftrightarrow>
     s_id s' = s_id s \<and> s_run s' = s_run s \<and> s_session s' = s_session s \<and> s_created s' = s_created s"

interpretation identity: step_relation "\<lambda>w w'. grows same_step (steps (db w)) (steps (db w'))" same_step
proof
  show "grows same_step (steps (db w1)) (steps (db w3))"
    if "grows same_step (steps (db w1)) (steps (db w2))" "grows same_step (steps (db w2)) (steps (db w3))"
    for w1 w2 w3 :: world
    using grows_trans [OF _ that] by (simp add: same_step_def)
qed (auto simp: same_step_def restore_def intro!: grows_refl grows_append grows_update_where)

definition step_ids :: "world \<Rightarrow> bool" where
  "step_ids w \<longleftrightarrow> distinct (map s_id (steps (db w)))"

interpretation keys: step_relation "\<lambda>w w'. step_ids w \<longrightarrow> step_ids w'" "\<lambda>s s'. s_id s' = s_id s"
proof (unfold_locales, goal_cases)
  case (4 p f w)
  then have "map s_id (update_where p f (steps (db w))) = map s_id (steps (db w))"
    by (rule map_update_where)
  then show ?case by (simp add: step_ids_def)
next
  case (5 s w)
  then show ?case by (simp add: step_ids_def)
qed (simp_all add: step_ids_def restore_def map_update_where)

section \<open>Leases of running steps\<close>

definition lease_complete :: "step_row \<Rightarrow> bool" where
  "lease_complete s \<longleftrightarrow>
     (s_status s = Running \<longrightarrow> s_owner s \<noteq> None \<and> s_lease s \<noteq> None \<and> s_until s \<noteq> None)"

lemma lease_complete_taken:
  "lease_complete (s\<lparr>s_status := st, s_owner := Some u, s_lease := Some tok, s_until := Some l,
     s_heartbeat := h, s_attempt := a, s_updated := t\<rparr>)"
  by (simp add: lease_complete_def)

definition leases_complete :: "world \<Rightarrow> bool" where
  "leases_complete w \<longleftrightarrow> (\<forall>s\<in>set (steps (db w)). lease_complete s)"

interpretation complete: step_relation "\<lambda>w w'. leases_complete w \<longrightarrow> leases_complete w'"
    "\<lambda>s s'. lease_complete s \<longrightarrow> lease_complete s'"
proof (unfold_locales, goal_cases)
  case (1 w1 w2 w3)
  then show ?case by blast
next
  case (2 w' w)
  then show ?case by (simp add: leases_complete_def)
next
  case (3 w w')
  show ?case by (simp add: leases_complete_def restore_def)
next
  case (4 p f w)
  then show ?case by (simp add: leases_complete_def ball_update_where)
next
  case (5 s w)
  then show ?case by (simp add: leases_complete_def lease_complete_def)
next
  case (6 w row u l h a t)
  show ?case by (simp add: leases_complete_def ball_update_where lease_complete_taken)
qed (simp_all add: lease_complete_def)

section \<open>Tokens\<close>

definition was_drawn :: "world \<Rightarrow> string \<Rightarrow> bool" where
  "was_drawn w tok \<longleftrightarrow> (\<exists>n<drawn w. tok = ''lease'' @ ''_'' @ uuids w n)"

text \<open>Two steps never share a token, and every token in the table was drawn.\<close>

definition holdings :: "world \<Rightarrow> (string \<times> string) set" where
  "holdings w = {(tok, i). \<exists>s\<in>set (steps (db w)). s_lease s = Some tok \<and> s_id s = i}"

definition tokens_unique :: "world \<Rightarrow> bool" where
  "tokens_unique w \<longleftrightarrow>
     (\<forall>tok i. (tok, i) \<in> holdings w \<longrightarrow> was_drawn w tok) \<and>
     (\<forall>tok i j. (tok, i) \<in> holdings w \<longrightarrow> (tok, j) \<in> holdings w \<longrightarrow> i = j)"

definition tokens_kept :: "world \<Rightarrow> world \<Rightarrow> bool" where
  "tokens_kept w w' \<longleftrightarrow> uuids w' = uuids w \<and> drawn w \<le> drawn w' \<and>
     (inj (uuids w) \<and> tokens_unique w \<longrightarrow> tokens_unique w')"

definition keeps_token :: "step_row \<Rightarrow> step_row \<Rightarrow> bool" where
  "keeps_token s s' \<longleftrightarrow> s_id s' = s_id s \<and> (s_lease s' = s_lease s \<or> s_lease s' = None)"

text \<open>
  A token is dead when it was drawn and no running step holds it: its owner lost the step
  by expiry, cancellation, failure or completion.
\<close>

definition dead_token :: "string \<Rightarrow> world \<Rightarrow> bool" where
  "dead_token tok w \<longleftrightarrow> was_drawn w tok \<and>
     (\<forall>s\<in>set (steps (db w)). s_lease s = Some tok \<longrightarrow> s_status s \<noteq> Running)"

definition fenced_later :: "string \<Rightarrow> world \<Rightarrow> world \<Rightarrow> bool" where
  "fenced_later tok w w' \<longleftrightarrow> uuids w' = uuids w \<and> drawn w \<le> drawn w' \<and>
     (inj (uuids w) \<and> dead_token tok w \<longrightarrow> dead_token tok w')"

lemma was_drawn_mono: "uuids w' = uuids w \<Longrightarrow> drawn w \<le> drawn w' \<Longrightarrow> was_drawn w tok \<Longrightarrow> was_drawn w' tok"
  unfolding was_drawn_def by (metis less_le_trans)

lemma new_token_not_drawn: "inj (uuids w) \<Longrightarrow> \<not> was_drawn w (''lease'' @ ''_'' @ uuids w (drawn w))"
  by (auto simp: was_drawn_def dest: injD)

lemma tokens_kept_subset:
  "uuids w' = uuids w \<Longrightarrow> drawn w \<le> drawn w' \<Longrightarrow> holdings w' \<subseteq> holdings w \<Longrightarrow> tokens_kept w w'"
  unfolding tokens_kept_def tokens_unique_def by (meson subsetD was_drawn_mono)

lemma tokens_kept_new:
  assumes "uuids w' = uuids w" and "drawn w' = Suc (drawn w)"
    and "holdings w' \<subseteq> insert (''lease'' @ ''_'' @ uuids w (drawn w), i) (holdings w)"
  shows "tokens_kept w w'"
proof -
  let ?new = "''lease'' @ ''_'' @ uuids w (drawn w)"
  have drawn: "was_drawn w' ?new"
    unfolding was_drawn_def using assms(1,2) by (intro exI [of _ "drawn w"]) simp
  have old: "was_drawn w' tok" if "was_drawn w tok" for tok
    using that assms(1,2) by (intro was_drawn_mono [of w' w]) simp_all
  have "tokens_unique w'" if "inj (uuids w)" "tokens_unique w"
  proof -
    have "(?new, j) \<notin> holdings w" for j
      using that new_token_not_drawn [OF that(1)] unfolding tokens_unique_def by blast
    with that(2) assms(3) drawn old show ?thesis
      unfolding tokens_unique_def by blast
  qed
  with assms(1,2) show ?thesis by (simp add: tokens_kept_def)
qed

interpretation tokens: step_relation tokens_kept keeps_token
proof (unfold_locales, goal_cases)
  case (1 w1 w2 w3)
  then show ?case by (auto simp: tokens_kept_def)
next
  case (2 w' w)
  then show ?case by (intro tokens_kept_subset) (auto simp: holdings_def)
next
  case (3 w w')
  then have "uuids w' = uuids w" and "drawn w \<le> drawn w'" by (auto simp: tokens_kept_def)
  then show ?case by (intro tokens_kept_subset) (auto simp: holdings_def restore_def)
next
  case (4 p f w)
  then show ?case
    by (intro tokens_kept_subset) (fastforce simp: holdings_def set_update_where keeps_token_def)+
next
  case (5 s w)
  then show ?case by (intro tokens_kept_subset) (auto simp: holdings_def)
next
  case (6 w row u l h a t)
  show ?case
    by (rule tokens_kept_new [of _ _ "s_id row"])
      (auto simp: holdings_def set_update_where claim_hits_def split: if_splits)
qed (simp_all add: keeps_token_def)

interpretation fence: step_relation "fenced_later tok"
    "\<lambda>s s'. (s_lease s = Some tok \<longrightarrow> s_status s \<noteq> Running) \<longrightarrow> (s_lease s' = Some tok \<longrightarrow> s_status s' \<noteq> Running)"
  for tok
proof (unfold_locales, goal_cases)
  case (2 w' w)
  then show ?case by (auto simp: fenced_later_def dead_token_def intro: was_drawn_mono)
next
  case (3 w w')
  then show ?case
    by (auto simp: fenced_later_def dead_token_def restore_def was_drawn_def)
next
  case (6 w row u l h a t)
  have "was_drawn (w\<lparr>drawn := Suc (drawn w), db := d\<rparr>) tok" if "was_drawn w tok" for d
    using that by (rule was_drawn_mono [rotated 2]) simp_all
  moreover have "''lease'' @ ''_'' @ uuids w (drawn w) \<noteq> tok" if "inj (uuids w)" "was_drawn w tok"
    using new_token_not_drawn [OF that(1)] that(2) by auto
  ultimately show ?case
    by (auto simp: fenced_later_def dead_token_def set_update_where simp del: append_Cons)
qed (auto simp: fenced_later_def dead_token_def was_drawn_def set_update_where)

end
