(* ===== verification/Reach.thy ===== *)
theory Reach
  imports Leases
begin

text \<open>
  Histories of the store. Any number of workers, operators and schedulers call the methods of
  \<open>SQLiteStore\<close> on one database; \<open>perform\<close> is what a call leaves behind, and
  \<open>later w w'\<close> holds when some sequence of calls, in any order and by anyone, with anything
  that does not touch the tables in between, leads from \<open>w\<close> to \<open>w'\<close>. The two calls whose
  reads precede SQLite's write lock also occur as their writes alone, on rows that
  were read at any earlier time (\<open>Claim_Update\<close>, \<open>Commit_Write\<close>).

  A relation that every call respects holds along every history: the locale \<open>store_law\<close>.
  The relations of \<open>Event_Log\<close>, \<open>Run_State\<close> and \<open>Leases\<close> are such laws.
\<close>

section \<open>Histories\<close>

datatype store_op =
    Create_Run "string option" json json
  | Create_External_Step string "string option" json
  | Claim_Step string "string option" int
  | Claim_Update string int rat step_row
  | Heartbeat string string int
  | Recover_Expired_Leases
  | Cancel_Run string string
  | Mark_Waiting_Human string string string "string option"
  | Commit_State_Patch string string string int json "string option"
  | Commit_Write string string int json "string option" rat step_row run_row
  | Apply_System_State_Patch string json string
  | Mark_Retry string string string string
  | Mark_Failed string string string string
  | Append_Event event_args
  | Request_Approval approval_args
  | Decide_Approval string string string string
  | Reserve_Ledger ledger_args
  | Update_Ledger string string "string option" "string option" "string option" "string option"
  | Resolve_Ledger resolution
  | Create_Artifact string "string option" string string string json
  | Record_Cost string "string option" "string option" string string rat string json

text \<open>A call whose result is not used; its exception stays.\<close>

definition forget :: "'a act \<Rightarrow> unit act" where
  "forget m = bindM m (\<lambda>_. retM ())"

fun call :: "store_op \<Rightarrow> unit act" where
  "call (Create_Run sess st pol) = forget (create_run sess st pol)"
| "call (Create_External_Step run step pol) = forget (create_external_step run step pol)"
| "call (Claim_Step u run secs) = forget (claim_step u run secs)"
| "call (Claim_Update u secs now row) = forget (claim_update u secs now row)"
| "call (Heartbeat i tok secs) = forget (heartbeat i tok secs)"
| "call Recover_Expired_Leases = forget (recover_expired_leases)"
| "call (Cancel_Run run reason) = forget (cancel_run run reason)"
| "call (Mark_Waiting_Human run i reason a) = forget (mark_waiting_human run i reason a)"
| "call (Commit_State_Patch run i tok base patch ck) = forget (commit_state_patch run i tok base patch ck)"
| "call (Commit_Write run i base patch ck ts step row) = forget (txn (commit_write run i base patch ck ts step row))"
| "call (Apply_System_State_Patch run patch reason) = forget (apply_system_state_patch run patch reason)"
| "call (Mark_Retry run i err ty) = forget (mark_retry run i err ty)"
| "call (Mark_Failed run i err ty) = forget (mark_failed run i err ty)"
| "call (Append_Event v) = forget (append_event v)"
| "call (Request_Approval q) = forget (request_approval q)"
| "call (Decide_Approval a st who reason) = forget (decide_approval a st who reason)"
| "call (Reserve_Ledger g) = forget (reserve_ledger g)"
| "call (Update_Ledger key st x h r e) = forget (update_ledger key st x h r e)"
| "call (Resolve_Ledger z) = forget (resolve_ledger z)"
| "call (Create_Artifact run step name hash ref m) = forget (create_artifact run step name hash ref m)"
| "call (Record_Cost run sess step cat name amount u m) = forget (record_cost run sess step cat name amount u m)"

definition perform :: "store_op \<Rightarrow> world \<Rightarrow> world" where
  "perform c w = snd (call c w)"

inductive later :: "world \<Rightarrow> world \<Rightarrow> bool" where
  here: "later w w"
| calls: "later w w' \<Longrightarrow> later w (perform c w')"
| outside: "later w w' \<Longrightarrow> db w'' = db w' \<Longrightarrow> uuids w'' = uuids w' \<Longrightarrow> drawn w' \<le> drawn w'' \<Longrightarrow> later w w''"

lemma later_perform: "later w (perform c w)"
  by (rule calls [OF here])

lemma later_trans: "later v w \<Longrightarrow> later u v \<Longrightarrow> later u w"
  by (induction rule: later.induct) (auto intro: later.intros)

text \<open>A history that is a list of calls.\<close>

definition history :: "store_op list \<Rightarrow> world \<Rightarrow> world" where
  "history cs w = fold perform cs w"

lemma later_history: "later w (history cs w)"
proof (induction cs rule: rev_induct)
  case Nil
  show ?case by (simp add: history_def here)
next
  case (snoc c cs)
  then show ?case by (simp add: history_def calls)
qed

definition fresh_world :: "world \<Rightarrow> bool" where
  "fresh_world w \<longleftrightarrow> db w = empty_db \<and> inj (uuids w)"

section \<open>Laws\<close>

locale store_law =
  fixes R :: "world \<Rightarrow> world \<Rightarrow> bool"
  assumes law_trans: "R w1 w2 \<Longrightarrow> R w2 w3 \<Longrightarrow> R w1 w3"
    and law_outside: "db w' = db w \<Longrightarrow> uuids w' = uuids w \<Longrightarrow> drawn w \<le> drawn w' \<Longrightarrow> R w w'"
    and law_call: "R w (perform c w)"
begin

lemma always: "later w w' \<Longrightarrow> R w w'"
proof (induction rule: later.induct)
  case (here w)
  show ?case by (rule law_outside) simp_all
next
  case (calls w w' c)
  then show ?case using law_call law_trans by blast
next
  case (outside w w' w'')
  then show ?case using law_outside [of w'' w'] law_trans by blast
qed

end

lemma perform_stays: "stays R (call c) \<Longrightarrow> R w (perform c w)"
  by (simp add: stays_def perform_def)

context store_preorder
begin

lemma stays_forget: "stays R m \<Longrightarrow> stays R (forget m)"
  unfolding forget_def by (intro store_rules)

end

context log_relation
begin

lemma log_call: "stays R (call c)"
  by (cases c) (simp_all only: call.simps stays_run_operations [THEN stays_forget]
      stays_ledger_operations [THEN stays_forget] stays_claim_update [THEN stays_forget]
      stays_commit_write [THEN stays_txn, THEN stays_forget])

sublocale store_law R
  by unfold_locales (fact R_trans, simp add: R_same, rule perform_stays, rule log_call)

end

context run_preorder
begin

lemma run_call: "runs_stay (call c)"
  by (cases c) (simp_all only: call.simps stays_run_operations [THEN stays_forget]
      stays_commit [THEN stays_forget] stays_system_patch [THEN stays_forget]
      stays_ledger_operations [THEN stays_forget] stays_claim_update [THEN stays_forget]
      stays_commit_write [THEN stays_txn, THEN stays_forget])

sublocale store_law "\<lambda>w w'. grows P (runs (db w)) (runs (db w'))"
  by unfold_locales (blast intro: grows_trans P_trans, simp add: grows_refl P_refl, rule perform_stays, rule run_call)

end

context step_relation
begin

lemma step_call: "stays R (call c)"
  by (cases c) (simp_all only: call.simps stays_step_operations [THEN stays_forget]
      stays_ledger_operations [THEN stays_forget] stays_claim_update [THEN stays_forget]
      stays_commit_write [THEN stays_txn, THEN stays_forget])

sublocale store_law R
  by unfold_locales (fact R_trans, simp add: R_same, rule perform_stays, rule step_call)

end

end
