(* ===== verification/Records.thy ===== *)
theory Records
  imports Reach
begin

text \<open>
  Laws of the tool ledger and of approval requests. The locale \<open>record_relation\<close> asks of a
  relation on worlds what the statements of the store do to the two tables: append a row with a
  new key, set the outcome columns of a ledger row, set the decision columns of an approval.
  Its second parameter says to which statuses the relation lets a ledger row be set; where it is every status
  the relation is a law of all histories (\<open>record_law\<close>). Interpreted here: the identity of rows (a ledger
  row keeps the key, the tool and the request it was reserved for; an approval keeps what it was asked
  for), the uniqueness of keys and the freshness of identifiers.
\<close>

section \<open>The interface\<close>

fun sets_status :: "(string \<Rightarrow> bool) \<Rightarrow> store_op \<Rightarrow> bool" where
  "sets_status ok (Update_Ledger key st x h r e) = ok st"
| "sets_status ok (Resolve_Ledger z) = ok (z_status z)"
| "sets_status ok _ = True"

locale record_relation =
  fixes R :: "world \<Rightarrow> world \<Rightarrow> bool" and ok :: "string \<Rightarrow> bool"
  assumes R_trans: "R w1 w2 \<Longrightarrow> R w2 w3 \<Longrightarrow> R w1 w3"
    and R_same: "ledger (db w') = ledger (db w) \<Longrightarrow> approvals (db w') = approvals (db w) \<Longrightarrow>
      uuids w' = uuids w \<Longrightarrow> drawn w \<le> drawn w' \<Longrightarrow> R w w'"
    and R_rollback: "R w w' \<Longrightarrow> R w (restore w w')"
    and R_reserve: "l_key l \<notin> l_key ` set (ledger (db w)) \<Longrightarrow> l_id l = ''ledger'' @ ''_'' @ uuids w (drawn w) \<Longrightarrow>
      R w (w\<lparr>drawn := Suc (drawn w), db := (db w)\<lparr>ledger := ledger (db w) @ [l]\<rparr>\<rparr>)"
    and R_set: "ok st \<Longrightarrow> R w (w\<lparr>db := (db w)\<lparr>ledger := update_where p (\<lambda>l. l\<lparr>l_status := st, l_external := x,
      l_response_hash := h, l_response_ref := r, l_error_type := e, l_updated := t\<rparr>) (ledger (db w))\<rparr>\<rparr>)"
    and R_request: "p_key a \<notin> p_key ` set (approvals (db w)) \<Longrightarrow>
      R w (w\<lparr>db := (db w)\<lparr>approvals := approvals (db w) @ [a]\<rparr>\<rparr>)"
    and R_decide: "R w (w\<lparr>db := (db w)\<lparr>approvals := update_where q (\<lambda>p. p\<lparr>p_status := st,
      p_approved_by := who, p_decision_reason := reason, p_updated := t\<rparr>) (approvals (db w))\<rparr>\<rparr>)"
begin

sublocale store_preorder R
  by unfold_locales (auto intro: R_same R_trans R_rollback)

lemma stays_same_records:
  "(\<And>w. ledger (db (snd (m w))) = ledger (db w) \<and> approvals (db (snd (m w))) = approvals (db w) \<and>
      uuids (snd (m w)) = uuids w \<and> drawn (snd (m w)) = drawn w) \<Longrightarrow> stays R m"
  by (simp add: stays_def R_same)

lemma stays_statements:
  "stays R (update_runs p f)"
  "stays R (update_steps p' f')"
  "stays R (insert_run r')"
  "stays R (insert_step s)"
  "stays R (insert_event v)"
  "stays R (insert_artifact b)"
  "stays R (insert_cost c)"
  "stays R (get_run i)"
  "stays R (get_step j)"
  by (rule stays_same_records, simp add: exec insert_run_def insert_step_def insert_event_def
      insert_artifact_def insert_cost_def split: option.split)+

lemma stays_set_ledger: "ok st \<Longrightarrow> stays R (set_ledger k st x h r e t)"
  by (simp add: stays_def set_ledger_def exec R_set)

lemma stays_decide:
  "stays R (update_approvals q (\<lambda>p. p\<lparr>p_status := st, p_approved_by := who,
     p_decision_reason := reason, p_updated := t\<rparr>))"
  by (simp add: stays_def exec R_decide)

lemma stays_insert_ledger:
  "(\<And>i. l_id (row i) = i) \<Longrightarrow> stays R (bindM (new_id ''ledger'') (\<lambda>i. insert_ledger (row i)))"
  by (auto simp: stays_def exec insert_ledger_def R_same intro: R_reserve)

lemma stays_insert_approval: "stays R (insert_approval a)"
  by (simp add: stays_def insert_approval_def R_request R_same)

lemma stays_reads: "stays R (get_approval k)" "stays R (get_ledger l)"
  unfolding get_approval_def get_ledger_def by (intro store_rules)+

lemma stays_log_event: "stays R (log_event v)" "stays R (append_event_in_tx v)"
  unfolding log_event_def append_event_in_tx_def by (intro store_rules stays_statements)+

lemmas record_rules = store_rules stays_statements stays_reads stays_log_event stays_set_ledger
  stays_decide stays_insert_approval

lemma stays_validate_lease: "stays R (validate_lease i t)"
  unfolding validate_lease_def by (intro record_rules)

lemma stays_claim_update: "stays R (claim_update u n t row)"
  unfolding claim_update_def claimed_def by (intro record_rules)

lemma stays_claim_loop: "stays R (claim_loop n u run secs)"
  by (induction n) (simp_all only: claim_loop.simps, (intro record_rules stays_claim_update | assumption)+)

lemma stays_recover_rows: "stays R (recover_rows t rows)"
  by (induction rows) (simp_all only: recover_rows.simps, (intro record_rules | assumption)+)

lemma stays_commit_write: "stays R (commit_write run i base patch ck ts step row)"
  unfolding commit_write_def by (intro record_rules)

lemma stays_run_operations:
  "stays R (create_run sess init pol)"
  "stays R (create_external_step run st pol)"
  "stays R (claim_step u r secs)"
  "stays R (heartbeat i tok secs)"
  "stays R recover_expired_leases"
  "stays R (cancel_run run reason)"
  "stays R (mark_waiting_human run i reason a)"
  "stays R (commit_state_patch run i tok base patch ck)"
  "stays R (apply_system_state_patch run patch reason)"
  "stays R (mark_retry run i err ty)"
  "stays R (mark_failed run i err ty)"
  "stays R (append_event v)"
  unfolding create_run_def create_external_step_def claim_step_def heartbeat_def
    recover_expired_leases_def cancel_run_def mark_waiting_human_def commit_state_patch_def
    apply_system_state_patch_def mark_retry_def mark_failed_def fail_step_def append_event_def
  by (intro record_rules stays_claim_loop stays_recover_rows stays_validate_lease stays_commit_write)+

lemma stays_ledger_operations:
  "stays R (request_approval q)"
  "stays R (decide_approval a st who reason)"
  "stays R (reserve_ledger g)"
  "stays R (create_artifact run step name hash ref m)"
  "stays R (record_cost run sess step cat name amount u m)"
  unfolding request_approval_def decide_approval_def reserve_ledger_def create_artifact_def record_cost_def fail_step_def
  by (intro stays_insert_ledger record_rules; simp)+

lemma stays_settings:
  "ok st \<Longrightarrow> stays R (update_ledger key st x h r e)"
  "ok (z_status z) \<Longrightarrow> stays R (resolve_ledger z)"
  unfolding update_ledger_def resolve_ledger_def by (intro record_rules; assumption)+

lemma record_call: "sets_status ok c \<Longrightarrow> stays R (call c)"
  by (cases c) (simp_all only: call.simps sets_status.simps simp_thms stays_run_operations [THEN stays_forget]
      stays_ledger_operations [THEN stays_forget] stays_settings [THEN stays_forget]
      stays_claim_update [THEN stays_forget] stays_commit_write [THEN stays_txn, THEN stays_forget])

end

locale record_law = record_relation R "\<lambda>_. True" for R :: "world \<Rightarrow> world \<Rightarrow> bool"
begin

lemma every_call: "stays R (call c)"
  by (rule record_call) (cases c; simp)

sublocale store_law R
  by unfold_locales (fact R_trans, simp add: R_same, rule perform_stays, rule every_call)

end

section \<open>Identity of rows\<close>

definition same_reservation :: "ledger_row \<Rightarrow> ledger_row \<Rightarrow> bool" where
  "same_reservation l l' \<longleftrightarrow>
     l_id l' = l_id l \<and> l_key l' = l_key l \<and> l_run l' = l_run l \<and> l_step l' = l_step l \<and>
     l_tool l' = l_tool l \<and> l_tool_version l' = l_tool_version l \<and> l_call l' = l_call l \<and>
     l_token l' = l_token l \<and> l_request_hash l' = l_request_hash l \<and>
     l_request_ref l' = l_request_ref l \<and> l_created l' = l_created l"

definition same_request :: "approval_row \<Rightarrow> approval_row \<Rightarrow> bool" where
  "same_request p p' \<longleftrightarrow>
     p_id p' = p_id p \<and> p_key p' = p_key p \<and> p_run p' = p_run p \<and> p_step p' = p_step p \<and>
     p_tool p' = p_tool p \<and> p_risk p' = p_risk p \<and> p_request_hash p' = p_request_hash p \<and>
     p_request_ref p' = p_request_ref p \<and> p_created p' = p_created p"

definition records_kept :: "world \<Rightarrow> world \<Rightarrow> bool" where
  "records_kept w w' \<longleftrightarrow> grows same_reservation (ledger (db w)) (ledger (db w')) \<and>
     grows same_request (approvals (db w)) (approvals (db w'))"

lemma same_trans:
  "same_reservation l l' \<Longrightarrow> same_reservation l' l'' \<Longrightarrow> same_reservation l l''"
  "same_request p p' \<Longrightarrow> same_request p' p'' \<Longrightarrow> same_request p p''"
  by (simp_all add: same_reservation_def same_request_def)

lemma same_refl [simp]: "same_reservation l l" "same_request p p"
  by (simp_all add: same_reservation_def same_request_def)

interpretation records: record_law records_kept
proof (unfold_locales, goal_cases)
  case (1 w1 w2 w3)
  then show ?case
    unfolding records_kept_def by (blast intro: grows_trans same_trans)
qed (simp_all add: records_kept_def restore_def grows_refl grows_append, intro grows_update_where,
    simp_all add: same_reservation_def, intro grows_update_where, simp_all add: same_request_def)

definition keys_unique :: "world \<Rightarrow> bool" where
  "keys_unique w \<longleftrightarrow> distinct (map l_key (ledger (db w))) \<and> distinct (map p_key (approvals (db w)))"

interpretation unique_keys: record_law "\<lambda>w w'. keys_unique w \<longrightarrow> keys_unique w'"
  by unfold_locales (auto simp: keys_unique_def restore_def map_update_where)

definition ledger_ids :: "world \<Rightarrow> bool" where
  "ledger_ids w \<longleftrightarrow> (\<forall>l\<in>set (ledger (db w)). \<exists>n<drawn w. l_id l = ''ledger'' @ ''_'' @ uuids w n)"

definition ledger_ids_kept :: "world \<Rightarrow> world \<Rightarrow> bool" where
  "ledger_ids_kept w w' \<longleftrightarrow> uuids w' = uuids w \<and> drawn w \<le> drawn w' \<and> (ledger_ids w \<longrightarrow> ledger_ids w')"

lemma ledger_ids_kept_update:
  assumes "uuids w' = uuids w" and "drawn w \<le> drawn w'"
    and "\<And>l. l \<in> set (ledger (db w')) \<Longrightarrow>
      l_id l \<in> l_id ` set (ledger (db w)) \<or> (\<exists>n<drawn w'. l_id l = ''ledger'' @ ''_'' @ uuids w n)"
  shows "ledger_ids_kept w w'"
proof -
  have "ledger_ids w'" if old: "ledger_ids w"
    unfolding ledger_ids_def
  proof
    fix l
    assume "l \<in> set (ledger (db w'))"
    then consider "l_id l \<in> l_id ` set (ledger (db w))" | "\<exists>n<drawn w'. l_id l = ''ledger'' @ ''_'' @ uuids w n"
      using assms(3) by blast
    then show "\<exists>n<drawn w'. l_id l = ''ledger'' @ ''_'' @ uuids w' n"
    proof cases
      case 1
      then obtain k where k: "k \<in> set (ledger (db w))" "l_id l = l_id k" by auto
      have "\<exists>n<drawn w. l_id k = ''ledger'' @ ''_'' @ uuids w n"
        using old [unfolded ledger_ids_def] k(1) by (rule bspec)
      then obtain n where n: "n < drawn w" "l_id k = ''ledger'' @ ''_'' @ uuids w n" by iprover
      have "n < drawn w'" using n(1) assms(2) by (rule less_le_trans)
      moreover have "l_id l = ''ledger'' @ ''_'' @ uuids w' n" by (simp only: n(2) k(2) assms(1))
      ultimately show ?thesis by (intro exI conjI)
    qed (simp only: assms(1))
  qed
  with assms(1,2) show ?thesis by (simp add: ledger_ids_kept_def)
qed

interpretation fresh_ledger: record_law ledger_ids_kept
proof (unfold_locales, goal_cases)
  case (1 w1 w2 w3)
  then show ?case by (auto simp: ledger_ids_kept_def)
next
  case (3 w w')
  then show ?case by (intro ledger_ids_kept_update) (auto simp: ledger_ids_kept_def restore_def)
next
  case (4 l w)
  show ?case
    by (rule ledger_ids_kept_update) (use 4 in \<open>auto simp del: append_Cons\<close>)
qed (rule ledger_ids_kept_update; auto simp: set_update_where)+

end
