(* ===== verification/Atomic.thy ===== *)
theory Atomic
  imports Records
begin

text \<open>
  Atomicity: a call of the store that raises leaves the tables as they were. \<open>quiet\<close> actions
  never write the tables, \<open>atomic\<close> ones write them only when they return. The rules compose
  them; the calls that read a row back after their transaction need that the row is
  still there.
\<close>

definition quiet :: "'a act \<Rightarrow> bool" where
  "quiet m \<longleftrightarrow> (\<forall>w. db (snd (m w)) = db w)"

definition atomic :: "'a act \<Rightarrow> bool" where
  "atomic m \<longleftrightarrow> (\<forall>w e w'. m w = (Inl e, w') \<longrightarrow> db w' = db w)"

lemma quietD: "quiet m \<Longrightarrow> m w = (r, w') \<Longrightarrow> db w' = db w"
  unfolding quiet_def by (metis snd_conv)

lemma atomicD: "atomic m \<Longrightarrow> m w = (Inl e, w') \<Longrightarrow> db w' = db w"
  unfolding atomic_def by blast

interpretation same_db: step_preorder "\<lambda>w w' :: world. db w' = db w"
  by unfold_locales simp_all

lemma quiet_stays: "quiet m \<longleftrightarrow> stays (\<lambda>w w'. db w' = db w) m"
  by (simp add: quiet_def stays_def)

lemma quiet_basic:
  "quiet (retM x)" "quiet (raiseM e)" "quiet (liftM r)" "quiet now_ts" "quiet (new_id p)"
  "quiet (select_db f)" "quiet (get_run i)" "quiet (get_step i)"
  by (simp_all add: quiet_def exec action_defs split: option.split)

lemma quiet_bind: "quiet m \<Longrightarrow> (\<And>x. quiet (f x)) \<Longrightarrow> quiet (bindM m f)"
  unfolding quiet_stays by (rule same_db.stays_bind)

lemma quiet_if: "quiet m \<Longrightarrow> quiet n \<Longrightarrow> quiet (if b then m else n)"
  by simp

lemma quiet_option: "quiet m \<Longrightarrow> (\<And>x. quiet (f x)) \<Longrightarrow> quiet (case opt of None \<Rightarrow> m | Some x \<Rightarrow> f x)"
  by (cases opt) simp_all

lemmas quiet_rules = quiet_basic quiet_bind quiet_if quiet_option

lemma quiet_reads:
  "quiet (get_approval a)" "quiet (get_ledger k)" "quiet (validate_lease i t)"
  unfolding get_approval_def get_ledger_def validate_lease_def by (intro quiet_rules)+

lemma atomic_quiet: "quiet m \<Longrightarrow> atomic m"
  unfolding atomic_def using quietD by blast

lemma atomic_txn: "atomic (txn m)"
  by (auto simp: atomic_def txn_def restore_def split: prod.splits sum.splits)

lemma atomic_bind: "quiet m \<Longrightarrow> (\<And>x. atomic (f x)) \<Longrightarrow> atomic (bindM m f)"
  unfolding atomic_def bindM_def by (auto split: prod.splits sum.splits dest: quietD)

lemma atomic_return: "atomic m \<Longrightarrow> atomic (seqM m (retM x))"
  by (auto simp: atomic_def exec split: prod.splits sum.splits)

lemma atomic_forget: "atomic m \<Longrightarrow> atomic (forget m)"
  by (auto simp: atomic_def forget_def exec split: prod.splits sum.splits)

lemma atomic_if: "atomic m \<Longrightarrow> atomic n \<Longrightarrow> atomic (if b then m else n)"
  by simp

lemma atomic_option: "atomic m \<Longrightarrow> (\<And>x. atomic (f x)) \<Longrightarrow> atomic (case opt of None \<Rightarrow> m | Some x \<Rightarrow> f x)"
  by (cases opt) simp_all

lemma atomic_let: "atomic (f x) \<Longrightarrow> atomic (let y = x in f y)"
  by simp

lemmas atomic_rules = atomic_txn atomic_return atomic_bind atomic_if atomic_option atomic_let
  quiet_rules quiet_reads atomic_quiet [OF quiet_basic(1)] atomic_quiet [OF quiet_basic(2)]

lemma atomic_run_operations:
  "atomic (create_run sess init pol)"
  "atomic (create_external_step run st pol)"
  "atomic (claim_update u n t row)"
  "atomic (heartbeat i tok secs)"
  "atomic recover_expired_leases"
  "atomic (cancel_run run reason)"
  "atomic (mark_waiting_human run i reason a)"
  "atomic (commit_state_patch run i tok base patch ck)"
  "atomic (apply_system_state_patch run patch reason)"
  "atomic (mark_retry run i err ty)"
  "atomic (mark_failed run i err ty)"
  "atomic (append_event v)"
  unfolding create_run_def create_external_step_def claim_update_def heartbeat_def
    recover_expired_leases_def cancel_run_def mark_waiting_human_def commit_state_patch_def
    apply_system_state_patch_def mark_retry_def mark_failed_def append_event_def
  by (intro atomic_rules)+

lemma atomic_records:
  "atomic (update_ledger key st x h r e)"
  "atomic (create_artifact run step name hash ref m)"
  "atomic (record_cost run sess step cat name amount u m)"
  unfolding update_ledger_def create_artifact_def record_cost_def by (intro atomic_rules)+

text \<open>A catch whose handler reads only.\<close>

lemma atomic_catch: "atomic m \<Longrightarrow> (\<And>e. quiet (h e)) \<Longrightarrow> atomic (catchM m h)"
  unfolding atomic_def catchM_def by (auto split: prod.splits sum.splits) (metis quietD)+

lemma atomic_reserve: "atomic (reserve_ledger g)"
  unfolding reserve_ledger_def by (intro atomic_rules atomic_catch atomic_quiet [OF quiet_rules(6)])

lemma atomic_then:
  assumes "atomic m" and "\<And>w x w'. m w = (Inr x, w') \<Longrightarrow> \<exists>y w''. n w' = (Inr y, w'')"
  shows "atomic (seqM m n)"
  unfolding atomic_def seqM_def bindM_def
proof (intro allI impI)
  fix w e w'
  assume raised: "(case m w of (Inl e, w') \<Rightarrow> (Inl e, w') | (Inr x, w') \<Rightarrow> n w') = (Inl e, w')"
  show "db w' = db w"
  proof (cases "m w")
    case (Pair r v)
    then show ?thesis
    proof (cases r)
      case (Inl x)
      with Pair raised assms(1) show ?thesis by (auto dest: atomicD)
    next
      case (Inr x)
      with Pair assms(2) [of w x v] raised show ?thesis by auto
    qed
  qed
qed

lemma txn_Inr: "txn m w = (Inr x, w') \<Longrightarrow> m w = (Inr x, w')"
  by (auto simp: txn_def split: prod.splits sum.splits)

text \<open>
  A row that was found before a law-abiding action is found after it.
\<close>

lemma records_find:
  assumes "records_kept w w'"
  shows "find_approval i (db w) \<noteq> None \<Longrightarrow> find_approval i (db w') \<noteq> None"
    and "find_ledger k (db w) \<noteq> None \<Longrightarrow> find_ledger k (db w') \<noteq> None"
proof -
  assume "find_approval i (db w) \<noteq> None"
  then obtain p where p: "p \<in> set (approvals (db w))" "p_id p = i"
    by (auto simp: find_approval_def dest: find_SomeD)
  obtain p' where "p' \<in> set (approvals (db w'))" "same_request p p'"
    using grows_mem [OF _ p(1)] assms by (auto simp: records_kept_def)
  with p(2) show "find_approval i (db w') \<noteq> None"
    by (auto simp: find_approval_def find_None_iff_all same_request_def)
next
  assume "find_ledger k (db w) \<noteq> None"
  then obtain l where l: "l \<in> set (ledger (db w))" "l_key l = k"
    by (auto simp: find_ledger_def dest: find_SomeD)
  obtain l' where "l' \<in> set (ledger (db w'))" "same_reservation l l'"
    using grows_mem [OF _ l(1)] assms by (auto simp: records_kept_def)
  with l(2) show "find_ledger k (db w') \<noteq> None"
    by (auto simp: find_ledger_def find_None_iff_all same_reservation_def)
qed

lemma bind_get_approval:
  assumes "bindM (get_approval a) f w = (Inr x, w')" and "\<And>p. stays records_kept (f p)"
  shows "find_approval a (db w') \<noteq> None"
proof -
  obtain p where p: "find_approval a (db w) = Some p" and "f p w = (Inr x, w')"
    using assms(1) by (auto simp: bindM_apply get_approval_def exec split: option.splits)
  with assms(2) have "records_kept w w'" by (metis staysD)
  with p show ?thesis using records_find(1) [of w w' a] by simp
qed

lemma bind_get_ledger:
  assumes "bindM (get_ledger k) f w = (Inr x, w')" and "\<And>l. stays records_kept (f l)"
  shows "find_ledger k (db w') \<noteq> None"
proof -
  obtain l where l: "find_ledger k (db w) = Some l" and "f l w = (Inr x, w')"
    using assms(1) by (auto simp: bindM_apply get_ledger_def exec split: option.splits)
  with assms(2) have "records_kept w w'" by (metis staysD)
  with l show ?thesis using records_find(2) [of w w' k] by simp
qed

lemma get_approval_found: "find_approval a (db w) \<noteq> None \<Longrightarrow> \<exists>p w'. get_approval a w = (Inr p, w')"
  by (auto simp: get_approval_def exec)

lemma get_ledger_found: "find_ledger k (db w) \<noteq> None \<Longrightarrow> \<exists>l w'. get_ledger k w = (Inr l, w')"
  by (auto simp: get_ledger_def exec)

lemma atomic_decide: "atomic (decide_approval a st who reason)"
  unfolding decide_approval_def
  by (intro atomic_bind quiet_rules atomic_then atomic_txn get_approval_found)
    (drule txn_Inr, erule bind_get_approval, unfold fail_step_def, intro records.record_rules)

lemma atomic_resolve: "atomic (resolve_ledger z)"
  unfolding resolve_ledger_def
  by (intro atomic_if atomic_bind quiet_rules atomic_then atomic_txn get_ledger_found atomic_quiet)
    (drule txn_Inr, erule bind_get_ledger, intro records.record_rules TrueI)

lemma atomic_request: "atomic (request_approval q)"
proof -
  let ?find = "approval_for_key (q_key q)"
  have inserted: False
    if "insert_approval a w = (Inr u, w')" "p_key a = q_key q" "?find (db w') = None" for a u w w'
    using that by (auto simp: insert_approval_def approval_for_key_def find_None_iff_all split: if_splits)
  show ?thesis
    unfolding atomic_def request_approval_def
    by (auto simp: exec split: option.splits prod.splits sum.splits if_splits dest: inserted)
qed

end
