(* ===== verification/Safety.thy ===== *)
theory Safety
  imports Reach
begin

text \<open>
  What holds of the store along every history: the event log, the versions of a run, the
  identity of steps, leases and their tokens. Each is a law of \<open>Event_Log\<close>,
  \<open>Run_State\<close> or \<open>Leases\<close>, applied to \<open>later\<close>.
\<close>

section \<open>The empty database\<close>

lemma empty_db_tables [simp]:
  "runs empty_db = []" "steps empty_db = []" "events empty_db = []" "ledger empty_db = []"
  "approvals empty_db = []" "artifacts empty_db = []" "costs empty_db = []"
  by (simp_all add: empty_db_def)

lemma fresh_world_laws:
  assumes "fresh_world w"
  shows "numbered (events (db w))" "ids_fresh w" "step_ids w" "leases_complete w" "tokens_unique w"
    "inj (uuids w)"
  using assms by (simp_all add: fresh_world_def numbered_def seqs_def ids_fresh_def step_ids_def
      leases_complete_def tokens_unique_def holdings_def)

lemma later_uuids: "later w w' \<Longrightarrow> uuids w' = uuids w \<and> drawn w \<le> drawn w'"
  using freshness.always [of w w'] by (simp add: fresh_kept_def)

text \<open>A small history to instantiate the properties at: a run is created and claimed, then cancelled.\<close>

definition demo_world :: world where
  "demo_world = \<lparr>clock = rat_of_nat, ticks = 0, uuids = nat_str, drawn = 0, sha = id,
     repr_float = (\<lambda>_. ''0.0''), calls = [], blobs = [], db = empty_db\<rparr>"

definition demo_claimed :: world where
  "demo_claimed = history [Create_Run None JNull JNull, Claim_Step ''w1'' None 30] demo_world"

definition demo_cancelled :: world where
  "demo_cancelled = history [Cancel_Run ''run_0'' ''stop''] demo_claimed"

lemma demo_fresh: "fresh_world demo_world"
  by (simp add: fresh_world_def demo_world_def inj_nat_str)

lemma demo_later:
  "later demo_world demo_claimed"
  "later demo_claimed demo_cancelled"
  "later demo_world demo_cancelled"
  unfolding demo_cancelled_def demo_claimed_def by (rule later_history later_trans)+

definition step_view :: "world \<Rightarrow> (string \<times> string \<times> status \<times> string option) list" where
  "step_view w = map (\<lambda>s. (s_id s, s_run s, s_status s, s_lease s)) (steps (db w))"

definition log_types :: "world \<Rightarrow> string list" where
  "log_types w = map e_type (events (db w))"

definition summary where
  "summary w = (step_view w, log_types w, map (\<lambda>r. (r_id r, r_version r, r_state r)) (runs (db w)),
     drawn w, uuids w 5)"

lemma demo_summaries:
  "(summary demo_claimed, summary demo_cancelled) =
   (([(''step_2'', ''run_0'', Running, Some ''lease_5'')],
     [''run_created'', ''step_created'', ''step_claimed''],
     [(''run_0'', 0, JObj [])], 7, ''5''),
    ([(''step_2'', ''run_0'', Cancelled, None)],
     [''run_created'', ''step_created'', ''step_claimed'', ''run_cancel_requested'', ''step_cancelled'', ''run_cancelled''],
     [(''run_0'', 0, JObj [])], 10, ''5''))"
  by code_simp

lemmas demo_facts = demo_summaries [unfolded summary_def prod.inject]

lemma demo_dead: "dead_token ''lease_5'' demo_cancelled"
proof -
  have "was_drawn demo_cancelled ''lease_5''"
    unfolding was_drawn_def using demo_facts by (intro exI [of _ 5]) simp
  moreover have "s_lease s \<noteq> Some ''lease_5''" if "s \<in> set (steps (db demo_cancelled))" for s
    using demo_facts that by (auto simp: step_view_def)
  ultimately show ?thesis by (simp add: dead_token_def)
qed

section \<open>The event log\<close>

text \<open>
  C8: the event log is append-only. Whatever calls are made, by any number of workers in any
  order, including calls that raise and are rolled back, the log of an earlier moment is a
  prefix of the log of a later one.
\<close>
theorem log_append_only:
  "later w w' \<Longrightarrow> prefix (events (db w)) (events (db w'))"
  by (rule append_only.always)

lemma later_numbered: "fresh_world w \<Longrightarrow> later w w' \<Longrightarrow> numbered (events (db w'))"
  using numbering.always fresh_world_laws(1) by blast

text \<open>
  C29: the events of a run are numbered 1, 2, 3, and so on without gaps or repetitions, in the
  order in which they were appended, in every history that starts from an empty database.
\<close>
theorem log_numbering:
  "fresh_world w \<Longrightarrow> later w w' \<Longrightarrow>
    seqs run (events (db w')) = map int [1..<Suc (length (seqs run (events (db w'))))]"
  using later_numbered unfolding numbered_def by blast

theorem log_append_only_witness:
  "prefix (events (db demo_claimed)) (events (db demo_cancelled)) \<and>
   length (log_types demo_claimed) = 3 \<and> length (log_types demo_cancelled) = 6"
  using log_append_only [OF demo_later(2)] demo_facts by simp

theorem log_numbering_witness:
  "seqs ''run_0'' (events (db demo_cancelled)) = map int [1..<Suc (length (seqs ''run_0'' (events (db demo_cancelled))))] \<and>
   length (log_types demo_cancelled) = 6"
  using log_numbering [OF demo_fresh demo_later(3)] demo_facts by simp

section \<open>Runs and steps\<close>

text \<open>
  C31: the state of a run changes only together with its version. Along every history each
  run keeps its row, its identifier, its session and its creation time; its version never
  decreases; and as long as the version is the same the state is the same.
\<close>
theorem state_changes_with_version:
  "later w w' \<Longrightarrow> r \<in> set (runs (db w)) \<Longrightarrow> \<exists>r'\<in>set (runs (db w')). run_evolves r r'"
  by (rule grows_mem [OF versions.always])

text \<open>
  steps are never lost or re-parented: each step of an earlier moment is still there later,
  in the same position, with its identifier, run, session and creation time, and no two steps
  share an identifier.
\<close>
theorem steps_keep_identity:
  "fresh_world w \<Longrightarrow> later w w' \<Longrightarrow> later w' w'' \<Longrightarrow>
    grows same_step (steps (db w')) (steps (db w'')) \<and> distinct (map s_id (steps (db w'')))"
  using identity.always [of w' w''] keys.always [of w w''] later_trans [of w' w'' w]
    fresh_world_laws(3) [of w] by (simp add: step_ids_def)

lemma demo_run:
  obtains r where "r \<in> set (runs (db demo_claimed))" and "r_id r = ''run_0''" and "r_version r = 0"
  using demo_facts by (cases "runs (db demo_claimed)") auto

lemma demo_step:
  obtains s where "s \<in> set (steps (db demo_claimed))" and "s_id s = ''step_2''"
    and "s_status s = Running" and "s_lease s = Some ''lease_5''"
  using demo_facts by (cases "steps (db demo_claimed)") (auto simp: step_view_def)

theorem state_changes_with_version_witness:
  "\<exists>r\<in>set (runs (db demo_claimed)). r_id r = ''run_0'' \<and> (\<exists>r'\<in>set (runs (db demo_cancelled)). run_evolves r r')"
  by (rule demo_run) (use state_changes_with_version [OF demo_later(2)] in blast)

theorem steps_keep_identity_witness:
  "grows same_step (steps (db demo_claimed)) (steps (db demo_cancelled)) \<and>
   distinct (map s_id (steps (db demo_cancelled))) \<and> length (step_view demo_claimed) = 1"
  using steps_keep_identity [OF demo_fresh demo_later(1,2)] demo_facts by simp

section \<open>Leases\<close>

text \<open>
  C9: mutual exclusion of leases. In every history from an empty database a lease token names at most
  one step, and a running step always has an owner, a token and a deadline.
\<close>
theorem leases_exclusive:
  assumes "fresh_world w" and "later w w'"
    and "s \<in> set (steps (db w'))" and "t \<in> set (steps (db w'))"
  shows "(s_lease s = s_lease t \<and> s_lease s \<noteq> None \<longrightarrow> s = t) \<and> lease_complete s"
proof
  note fresh = fresh_world_laws [OF assms(1)]
  have tokens: "tokens_unique w'"
    using tokens.always [OF assms(2)] fresh by (simp add: tokens_kept_def)
  have ids: "step_ids w'" using keys.always [OF assms(2)] fresh by blast
  have "s = t" if "s_lease s = s_lease t" "s_lease s = Some tok" for tok
  proof -
    have "(tok, s_id s) \<in> holdings w'" "(tok, s_id t) \<in> holdings w'"
      using assms(3,4) that by (auto simp: holdings_def)
    then have "s_id s = s_id t" using tokens unfolding tokens_unique_def by blast
    moreover have "inj_on s_id (set (steps (db w')))"
      using ids by (simp add: step_ids_def distinct_map)
    ultimately show ?thesis using assms(3,4) by (simp add: inj_on_eq_iff)
  qed
  then show "s_lease s = s_lease t \<and> s_lease s \<noteq> None \<longrightarrow> s = t" by auto
  show "lease_complete s"
    using complete.always [OF assms(2)] fresh assms(3) by (simp add: leases_complete_def)
qed

theorem leases_exclusive_witness:
  "\<exists>s\<in>set (steps (db demo_claimed)). s_lease s = Some ''lease_5'' \<and> s_status s = Running \<and> lease_complete s \<and>
     (\<forall>t\<in>set (steps (db demo_claimed)). s_lease t = Some ''lease_5'' \<longrightarrow> s = t)"
proof (rule demo_step)
  fix s
  assume s: "s \<in> set (steps (db demo_claimed))" "s_id s = ''step_2''" "s_status s = Running"
    "s_lease s = Some ''lease_5''"
  have "s = t" if "t \<in> set (steps (db demo_claimed))" "s_lease t = Some ''lease_5''" for t
    using leases_exclusive [OF demo_fresh demo_later(1) s(1) that(1)] s(4) that(2) by simp
  moreover have "lease_complete s"
    using leases_exclusive [OF demo_fresh demo_later(1) s(1) s(1)] by simp
  ultimately show ?thesis using s by blast
qed

lemma dead_token_invalid:
  assumes "dead_token tok w"
  obtains e where "validate_lease i tok w = (Inl e, w)"
proof (cases "find_step (db w) i")
  case None
  with that show ?thesis by (simp add: validate_lease_def exec)
next
  case (Some s)
  then have "s_lease s \<noteq> Some tok \<or> s_status s \<noteq> Running"
    using assms by (auto simp: dead_token_def dest: find_step_mem)
  with that Some show ?thesis by (simp add: validate_lease_def exec)
qed

lemma dead_token_raises:
  assumes "inj (uuids w)" and "dead_token tok w" and "later w w'"
  shows "(\<exists>e. fst (commit_state_patch run i tok base patch ck w') = Inl e) \<and>
    db (snd (commit_state_patch run i tok base patch ck w')) = db w' \<and>
    (\<exists>e. fst (heartbeat i tok secs w') = Inl e) \<and> db (snd (heartbeat i tok secs w')) = db w'"
proof -
  have dead: "dead_token tok w'"
    using fence.always [OF assms(3), of tok] assms(1,2) by (simp add: fenced_later_def)
  obtain e where e: "validate_lease i tok w' = (Inl e, w')"
    using dead by (rule dead_token_invalid)
  have "dead_token tok (w'\<lparr>ticks := n\<rparr>)" for n
    using dead by (simp add: dead_token_def was_drawn_def)
  then obtain e' where e': "validate_lease i tok (w'\<lparr>ticks := Suc (ticks w')\<rparr>) = (Inl e', w'\<lparr>ticks := Suc (ticks w')\<rparr>)"
    by (rule dead_token_invalid)
  show ?thesis by (simp add: heartbeat_def commit_state_patch_def exec e e')
qed

text \<open>
  C2: fencing. A worker that lost its lease, because the lease expired and was recovered, the
  run was cancelled, or the step failed, waits or was completed, never gets it back: in every
  later world a commit or a heartbeat with its token raises and leaves the database as it is.
\<close>
theorem stale_token_fenced:
  assumes "inj (uuids w)" and "dead_token tok w" and "later w w'"
  shows "(\<exists>e. fst (commit_state_patch run i tok base patch ck w') = Inl e) \<and>
    db (snd (commit_state_patch run i tok base patch ck w')) = db w' \<and>
    (\<exists>e. fst (heartbeat i tok secs w') = Inl e) \<and> db (snd (heartbeat i tok secs w')) = db w'"
  using assms by (rule dead_token_raises)

theorem stale_token_fenced_witness:
  "(\<exists>e. fst (commit_state_patch ''run_0'' ''step_2'' ''lease_5'' 0 (JObj []) None demo_cancelled) = Inl e) \<and>
   db (snd (commit_state_patch ''run_0'' ''step_2'' ''lease_5'' 0 (JObj []) None demo_cancelled)) = db demo_cancelled"
proof -
  have "inj (uuids demo_cancelled)"
    using later_uuids [OF demo_later(3)] demo_fresh by (simp add: fresh_world_def)
  then show ?thesis using stale_token_fenced [OF _ demo_dead here] by blast
qed

end
