(* ===== verification/Store_Spec.thy ===== *)
theory Store_Spec
  imports Atomic Safety
begin

text \<open>
  What each operation on runs and steps does, branch by branch: claiming under races,
  committing, recovering leases, cancelling, retrying. The exact world every operation leaves is
  computed with \<open>exec\<close> and the facts about a unique key; the properties state what a
  caller of the store sees of it.
\<close>

section \<open>Statements on a unique key\<close>

lemma update_where_none: "(\<forall>x\<in>set xs. \<not> p x) \<Longrightarrow> update_where p f xs = xs"
  by (induction xs) auto

lemma filter_key_unique:
  assumes "distinct (map k xs)"
  shows "filter (\<lambda>x. k x = a \<and> p x) xs =
    (case List.find (\<lambda>x. k x = a) xs of Some x \<Rightarrow> if p x then [x] else [] | None \<Rightarrow> [])"
  using assms
proof (induction xs)
  case (Cons y ys)
  have "filter (\<lambda>x. k x = a \<and> p x) ys = []" if "k y = a"
    unfolding filter_empty_conv using Cons.prems that by (metis distinct.simps(2) image_eqI list.set_map list.simps(9))
  then show ?case using Cons by (auto split: option.splits)
qed simp

lemma claim_hits_count:
  assumes "step_ids w"
  shows "length (filter (claim_hits row) (steps (db w))) =
    (case find_step (db w) (s_id row) of Some s \<Rightarrow> if claimable s then 1 else 0 | None \<Rightarrow> 0)"
proof -
  have "claim_hits row = (\<lambda>s. s_id s = s_id row \<and> claimable s)"
    by (simp add: fun_eq_iff claim_hits_def)
  then show ?thesis
    using filter_key_unique [of s_id "steps (db w)" "s_id row" claimable] assms
    by (simp add: step_ids_def find_step_def split: option.split)
qed

lemma no_claim_hits:
  assumes "step_ids w" and "\<not> (\<exists>s. find_step (db w) (s_id row) = Some s \<and> claimable s)"
  shows "\<forall>s\<in>set (steps (db w)). \<not> claim_hits row s"
proof -
  have "filter (claim_hits row) (steps (db w)) = []"
    using claim_hits_count [OF assms(1), of row] assms(2) by (simp split: option.splits)
  then show ?thesis by (simp add: filter_empty_conv)
qed

lemma ids_fresh_later:
  "ids_fresh w \<Longrightarrow> drawn w \<le> n \<Longrightarrow> events d = events (db w) \<Longrightarrow> ids_fresh (w\<lparr>drawn := n, db := d\<rparr>)"
  by (rule ids_fresh_mono [of _ w]) simp_all

lemma find_step_update_db:
  "(\<And>s. s_id (f s) = s_id s) \<Longrightarrow>
   find_step (d\<lparr>steps := update_where p f (steps (db w))\<rparr>) i = map_option (\<lambda>s. if p s then f s else s) (find_step (db w) i)"
  by (simp add: find_step_def find_update_where_key)

lemma find_run_update_db:
  "(\<And>r. r_id (f r) = r_id r) \<Longrightarrow>
   find_run (d\<lparr>runs := update_where p f (runs (db w))\<rparr>) i = map_option (\<lambda>r. if p r then f r else r) (find_run (db w) i)"
  by (simp add: find_run_def find_update_where_key)

section \<open>Claiming\<close>

definition claim_token :: "world \<Rightarrow> string" where
  "claim_token w = ''lease'' @ ''_'' @ uuids w (drawn w)"

definition claim_of :: "world \<Rightarrow> int \<Rightarrow> rat \<Rightarrow> step_row \<Rightarrow> step_claim" where
  "claim_of w secs now row = \<lparr>k_run = s_run row, k_session = s_session row, k_step = s_id row,
     k_attempt = s_attempt row + 1, k_lease = claim_token w, k_version = s_version row,
     k_until = now + of_int secs\<rparr>"

definition claim_event :: "world \<Rightarrow> string \<Rightarrow> int \<Rightarrow> rat \<Rightarrow> step_row \<Rightarrow> event_args" where
  "claim_event w u secs now row = event (s_run row) (Some (s_session row)) (Some (s_id row)) ''step_claimed''
     (JObj [(''worker_id'', JStr u), (''lease_token'', JStr (claim_token w)),
            (''attempt'', JInt (s_attempt row + 1)), (''lease_until'', JFloat (now + of_int secs))])"

definition claim_db :: "world \<Rightarrow> string \<Rightarrow> int \<Rightarrow> rat \<Rightarrow> step_row \<Rightarrow> db" where
  "claim_db w u secs now row = (db w)\<lparr>
     steps := update_where (claim_hits row)
       (taken u (claim_token w) (now + of_int secs) now (s_attempt row + 1)) (steps (db w)),
     runs := update_where (\<lambda>r. r_id r = s_run row) (\<lambda>r. r\<lparr>r_status := Running, r_updated := now\<rparr>)
       (runs (db w))\<rparr>"

lemma claim_update_exact:
  assumes "step_ids w" and "ids_fresh w"
  shows "claim_update u secs now row w =
    (if \<exists>s. find_step (db w) (s_id row) = Some s \<and> claimable s
     then (Inr (Some (claim_of w secs now row)),
           logged (claim_event w u secs now row) (w\<lparr>drawn := Suc (drawn w), db := claim_db w u secs now row\<rparr>))
     else (Inr None, w\<lparr>drawn := Suc (drawn w)\<rparr>))"
proof (cases "\<exists>s. find_step (db w) (s_id row) = Some s \<and> claimable s")
  case True
  then have one: "length (filter (claim_hits row) (steps (db w))) = 1"
    using claim_hits_count [OF assms(1), of row] by auto
  show ?thesis
    using True one ids_fresh_later [OF assms(2), of "Suc (drawn w)"]
    by (simp add: claim_update_eq claim_rest_def claimed_def exec claim_of_def claim_event_def
        claim_db_def claim_token_def Let_def)
next
  case False
  note none = no_claim_hits [OF assms(1) False]
  then have zero: "filter (claim_hits row) (steps (db w)) = []" by (simp add: filter_empty_conv)
  show ?thesis
    unfolding if_not_P [OF False] by (simp add: claim_update_eq claim_rest_def Let_def zero update_where_none none)
qed

text \<open>What a world shows of its tables, with the fresh identifiers a history keeps.\<close>

definition well_run :: "world \<Rightarrow> bool" where
  "well_run w \<longleftrightarrow> step_ids w \<and> ids_fresh w"

lemma well_run_later:
  assumes "fresh_world v" and "later v w"
  shows "well_run w"
  using keys.always [OF assms(2)] freshness.always [OF assms(2)] fresh_world_laws [OF assms(1)]
  by (simp add: well_run_def fresh_kept_def)

lemma find_step_claimed:
  assumes "find_step (db w) (s_id row) = Some s" and "claimable s"
  shows "find_step (claim_db w u secs now row) (s_id row) =
    Some (taken u (claim_token w) (now + of_int secs) now (s_attempt row + 1) s)"
  using assms by (simp add: claim_db_def find_step_update taken_def claim_hits_def find_step_id [OF assms(1)])

text \<open>
  a claim takes a step exactly if it is still pending or scheduled for retry, however old the
  row is that the worker read. Then the step runs under the token drawn for this claim, no
  other step changes, the run is running and one \<open>step_claimed\<close> event is logged; otherwise
  the worker gets nothing and the tables are unchanged.
\<close>
theorem claim_exact:
  assumes "fresh_world v" and "later v w"
  shows "case find_step (db w) (s_id row) of
      Some s \<Rightarrow>
        if claimable s then
          (\<exists>w'. claim_update u secs now row w = (Inr (Some (claim_of w secs now row)), w') \<and>
            find_step (db w') (s_id row) =
              Some (taken u (claim_token w) (now + of_int secs) now (s_attempt row + 1) s) \<and>
            (\<forall>i. i \<noteq> s_id row \<longrightarrow> find_step (db w') i = find_step (db w) i) \<and>
            log_types w' = log_types w @ [''step_claimed''])
        else fst (claim_update u secs now row w) = Inr None \<and> db (snd (claim_update u secs now row w)) = db w
    | None \<Rightarrow> fst (claim_update u secs now row w) = Inr None \<and> db (snd (claim_update u secs now row w)) = db w"
proof -
  have exact: "step_ids w" "ids_fresh w"
    using well_run_later [OF assms] by (simp_all add: well_run_def)
  note eq = claim_update_exact [OF exact, of u secs now row]
  show ?thesis
  proof (cases "find_step (db w) (s_id row)")
    case None
    then show ?thesis by (simp add: eq)
  next
    case (Some s)
    show ?thesis
    proof (cases "claimable s")
      case False
      with Some show ?thesis by (simp add: eq)
    next
      case True
      let ?w' = "logged (claim_event w u secs now row) (w\<lparr>drawn := Suc (drawn w), db := claim_db w u secs now row\<rparr>)"
      have "find_step (db ?w') i = find_step (db w) i" if "i \<noteq> s_id row" for i
        using that by (cases "find_step (db w) i")
          (auto simp: claim_db_def find_step_update taken_def claim_hits_def dest: find_step_id)
      moreover have "log_types ?w' = log_types w @ [''step_claimed'']"
        by (simp add: log_types_def new_event_def claim_event_def event_def claim_db_def)
      ultimately show ?thesis
        using Some True eq find_step_claimed [OF Some True] by auto
    qed
  qed
qed

text \<open>
  C11: of two workers that read the same claimable step, at most one gets it. Once a claim of a
  step succeeded, a second claim of that step finds nothing to take and changes nothing.
\<close>
theorem claim_race:
  assumes "fresh_world v" and "later v w"
    and "claim_update u secs now row w = (Inr (Some c), w')" and "s_id row' = s_id row"
  shows "fst (claim_update u' secs' now' row' w') = Inr None \<and>
    db (snd (claim_update u' secs' now' row' w')) = db w'"
proof -
  have exact: "step_ids w" "ids_fresh w"
    using well_run_later [OF assms(1,2)] by (simp_all add: well_run_def)
  obtain s where s: "find_step (db w) (s_id row) = Some s" "claimable s"
    and w': "w' = logged (claim_event w u secs now row) (w\<lparr>drawn := Suc (drawn w), db := claim_db w u secs now row\<rparr>)"
    using assms(3) by (auto simp: claim_update_exact [OF exact] split: if_splits)
  have "find_step (db w') (s_id row') = Some (taken u (claim_token w) (now + of_int secs) now (s_attempt row + 1) s)"
    using find_step_claimed [OF s] by (simp add: w' assms(4))
  moreover have "later w w'"
    using later_perform [of w "Claim_Update u secs now row"]
    by (simp add: perform_def forget_def bindM_apply assms(3))
  then have "later v w'" using assms(2) by (rule later_trans)
  then have "step_ids w'" "ids_fresh w'"
    using well_run_later [OF assms(1)] by (simp_all add: well_run_def)
  ultimately show ?thesis
    by (simp add: claim_update_exact claimable_def taken_def)
qed

lemma claim_select_props:
  assumes "claim_select run d = Some row"
  shows "row \<in> set (steps d)" "claimable row" "for_run run row"
    "s \<in> set (steps d) \<Longrightarrow> claimable s \<Longrightarrow> for_run run s \<Longrightarrow> s_created row \<le> s_created s"
  using earliest_mem [OF assms [unfolded claim_select_def]] earliest_le [OF assms [unfolded claim_select_def]]
  by simp_all

text \<open>
  \<open>claim_step\<close> takes the oldest claimable step of the run it was asked for, or of any run, and
  gives its worker a claim with the next attempt number; it returns nothing only when there is
  no such step, and the first of its 64 tries decides.
\<close>
theorem claim_step_oldest:
  assumes "fresh_world v" and "later v w"
  shows "case claim_select run (db w) of
      None \<Rightarrow> fst (claim_step u run secs w) = Inr None \<and> db (snd (claim_step u run secs w)) = db w \<and>
        (\<forall>s\<in>set (steps (db w)). \<not> (claimable s \<and> for_run run s))
    | Some row \<Rightarrow>
        (\<exists>c w'. claim_step u run secs w = (Inr (Some c), w') \<and> k_step c = s_id row \<and>
          k_attempt c = s_attempt row + 1 \<and> k_lease c = claim_token w \<and>
          (\<forall>s\<in>set (steps (db w)). claimable s \<and> for_run run s \<longrightarrow> s_created row \<le> s_created s))"
proof -
  have loop: "claim_step u run secs = claim_loop (Suc 63) u run secs" by (simp add: claim_step_def)
  show ?thesis
  proof (cases "claim_select run (db w)")
    case None
    then have "filter (\<lambda>s. claimable s \<and> for_run run s) (steps (db w)) = []" by (simp add: claim_select_def)
    then have "\<forall>s\<in>set (steps (db w)). \<not> (claimable s \<and> for_run run s)" by (simp add: filter_empty_conv)
    moreover have "claim_step u run secs w = (Inr None, w\<lparr>ticks := Suc (ticks w)\<rparr>)"
      unfolding loop claim_loop.simps by (simp add: exec None)
    ultimately show ?thesis by (simp add: None)
  next
    case (Some row)
    let ?w = "w\<lparr>ticks := Suc (ticks w)\<rparr>"
    note row = claim_select_props [OF Some]
    have fresh: "step_ids w" "ids_fresh w"
      using well_run_later [OF assms] by (simp_all add: well_run_def)
    then have fresh': "step_ids ?w" "ids_fresh ?w" by (simp_all add: step_ids_def)
    have "find_step (db ?w) (s_id row) = Some row"
      using find_distinct_key [of s_id "steps (db w)" row] fresh(1) row(1) by (simp add: find_step_def step_ids_def)
    then have "\<exists>w'. claim_update u secs (clock w (ticks w)) row ?w =
        (Inr (Some (claim_of ?w secs (clock w (ticks w)) row)), w')"
      using row(2) by (simp add: claim_update_exact [OF fresh'])
    then obtain w' where "claim_update u secs (clock w (ticks w)) row ?w =
        (Inr (Some (claim_of ?w secs (clock w (ticks w)) row)), w')" by blast
    then have "claim_step u run secs w = (Inr (Some (claim_of ?w secs (clock w (ticks w)) row)), w')"
      unfolding loop claim_loop.simps by (simp add: bindM_apply now_ts_apply select_db_apply Some)
    then show ?thesis
      using row(4) by (simp add: Some claim_of_def claim_token_def)
  qed
qed

section \<open>Committing\<close>

definition lease_holds :: "step_row \<Rightarrow> string \<Rightarrow> rat \<Rightarrow> bool" where
  "lease_holds s tok now \<longleftrightarrow> s_lease s = Some tok \<and> s_status s = Running \<and>
     (case s_until s of None \<Rightarrow> True | Some u \<Rightarrow> now \<le> u)"

lemma validate_lease_result:
  "fst (validate_lease i tok w) =
     (case find_step (db w) i of
        None \<Rightarrow> Inl (Exn KeyError (''step not found: '' @ i))
      | Some s \<Rightarrow>
          if s_lease s \<noteq> Some tok \<or> s_status s \<noteq> Running then Inl (Exn RuntimeError ''invalid or stale lease token'')
          else if lease_holds s tok (clock w (ticks w)) then Inr s
          else Inl (Exn RuntimeError ''lease expired''))"
  by (auto simp: validate_lease_def exec lease_holds_def not_less split: option.split)

lemma validate_lease_world:
  "\<exists>n. snd (validate_lease i tok w) = w\<lparr>ticks := n\<rparr>"
proof -
  have "\<exists>n. w = w\<lparr>ticks := n\<rparr>" by (rule exI [of _ "ticks w"]) simp
  then show ?thesis
    by (auto simp: validate_lease_def exec split: option.split)
qed

definition committed_run :: "json \<Rightarrow> rat \<Rightarrow> run_row \<Rightarrow> run_row" where
  "committed_run patch ts r = r\<lparr>r_state := merge_patch (r_state r) patch, r_version := r_version r + 1,
     r_status := Completed, r_updated := ts\<rparr>"

definition committed_step :: "int \<Rightarrow> string option \<Rightarrow> rat \<Rightarrow> step_row \<Rightarrow> step_row" where
  "committed_step v ck ts s = s\<lparr>s_status := Completed, s_version := v, s_checkpoint := ck, s_updated := ts\<rparr>"

lemma commit_write_exact:
  assumes "ids_fresh w" and "find_run (db w) run = Some r" and "r_version r = base"
    and "find_step (db w) i = Some s"
  shows "\<exists>w'. commit_write run i base patch ck ts s r w = (Inr (base + 1), w') \<and>
    find_run (db w') run = Some (committed_run patch ts r) \<and>
    find_step (db w') i = Some (committed_step (base + 1) ck ts s) \<and>
    (\<forall>j. j \<noteq> run \<longrightarrow> find_run (db w') j = find_run (db w) j) \<and>
    (\<forall>j. j \<noteq> i \<longrightarrow> find_step (db w') j = find_step (db w) j) \<and>
    log_types w' = log_types w @ [''state_committed'', ''step_completed'']"
proof -
  let ?d = "(db w)\<lparr>runs := update_where (\<lambda>r'. r_id r' = run \<and> r_version r' = base)
      (\<lambda>r'. r'\<lparr>r_state := merge_patch (r_state r) patch, r_version := base + 1, r_status := Completed, r_updated := ts\<rparr>)
      (runs (db w)),
    steps := update_where (\<lambda>s. s_id s = i) (committed_step (base + 1) ck ts) (steps (db w))\<rparr>"
  have fresh: "ids_fresh (w\<lparr>db := ?d\<rparr>)" using assms(1) by simp
  have other: "find_run ?d j = find_run (db w) j" if "j \<noteq> run" for j
    using that by (cases "find_run (db w) j") (auto simp: find_run_update_db dest: find_run_id)
  have other': "find_step ?d j = find_step (db w) j" if "j \<noteq> i" for j
    using that by (cases "find_step (db w) j") (auto simp: find_step_update_db committed_step_def dest: find_step_id)
  have run: "find_run ?d run = Some (committed_run patch ts r)"
    using assms(2,3) find_run_id [OF assms(2)] by (simp add: find_run_update_db committed_run_def)
  have step: "find_step ?d i = Some (committed_step (base + 1) ck ts s)"
    using assms(4) find_step_id [OF assms(4)] by (simp add: find_step_update_db committed_step_def)
  show ?thesis
    unfolding commit_write_def
    using fresh assms(3) other other' run step
    by (simp add: Let_def exec committed_step_def [abs_def] log_types_def new_event_def event_def)
qed

lemma find_step_ticks [simp]: "find_step (db (w\<lparr>ticks := n\<rparr>)) i = find_step (db w) i"
  by simp

lemma commit_result:
  assumes "validate_lease i tok (w\<lparr>ticks := Suc (ticks w)\<rparr>) = (vr, w1)"
  shows "commit_state_patch run i tok base patch ck w =
    (case vr of
       Inl e \<Rightarrow> (Inl e, w1\<lparr>db := db w\<rparr>)
     | Inr s \<Rightarrow> (case find_run (db w) run of
         None \<Rightarrow> (Inl (Exn KeyError (''run not found: '' @ run)), w1\<lparr>db := db w\<rparr>)
       | Some r \<Rightarrow> (case commit_write run i base patch ck (clock w (ticks w)) s r w1 of
           (Inl e, w') \<Rightarrow> (Inl e, w'\<lparr>db := db w\<rparr>) | (Inr x, w') \<Rightarrow> (Inr x, w'))))"
proof -
  have "db w1 = db w" using quietD [OF quiet_reads(3) assms] by simp
  then show ?thesis
    unfolding commit_state_patch_def bindM_apply now_ts_apply prod.case sum.case txn_apply assms
    by (cases vr) (simp_all add: get_run_apply split: option.split prod.split sum.split)
qed

text \<open>
  C7: a commit succeeds exactly for the worker that holds the step's lease, before its deadline, on
  the version it read. Then the patch is merged into the state, the version goes up by one,
  the run and the step are completed, no other row changes and the two events of a commit
  are logged; in every other case it raises and the tables are unchanged.
\<close>
theorem commit_exact:
  fixes run i tok ck :: _ and base :: int and patch :: json
  assumes "fresh_world v" and "later v w"
  defines "result \<equiv> commit_state_patch run i tok base patch ck w"
  shows "if \<exists>s r. find_step (db w) i = Some s \<and> lease_holds s tok (clock w (Suc (ticks w))) \<and>
        find_run (db w) run = Some r \<and> r_version r = base
    then fst result = Inr (base + 1) \<and>
      find_run (db (snd result)) run =
        map_option (committed_run patch (clock w (ticks w))) (find_run (db w) run) \<and>
      find_step (db (snd result)) i =
        map_option (committed_step (base + 1) ck (clock w (ticks w))) (find_step (db w) i) \<and>
      (\<forall>j. j \<noteq> run \<longrightarrow> find_run (db (snd result)) j = find_run (db w) j) \<and>
      (\<forall>j. j \<noteq> i \<longrightarrow> find_step (db (snd result)) j = find_step (db w) j) \<and>
      log_types (snd result) = log_types w @ [''state_committed'', ''step_completed'']
    else (\<exists>e. fst result = Inl e) \<and> db (snd result) = db w"
proof -
  let ?w = "w\<lparr>ticks := Suc (ticks w)\<rparr>"
  obtain vr n where val: "validate_lease i tok ?w = (vr, w\<lparr>ticks := n\<rparr>)"
    using validate_lease_world [of i tok ?w] by (cases "validate_lease i tok ?w") auto
  note res = commit_result [OF val, of run base patch ck, folded result_def]
  have vr: "vr = fst (validate_lease i tok ?w)" by (simp add: val)
  show ?thesis
  proof (cases "\<exists>s r. find_step (db w) i = Some s \<and> lease_holds s tok (clock w (Suc (ticks w))) \<and>
      find_run (db w) run = Some r \<and> r_version r = base")
    case True
    then obtain s r where s: "find_step (db w) i = Some s" "lease_holds s tok (clock w (Suc (ticks w)))"
      and r: "find_run (db w) run = Some r" "r_version r = base" by blast
    have "vr = Inr s" using s by (simp add: vr validate_lease_result) (simp add: lease_holds_def)
    moreover have "ids_fresh (w\<lparr>ticks := n\<rparr>)" using well_run_later [OF assms(1,2)] by (simp add: well_run_def)
    ultimately show ?thesis
      using True res commit_write_exact [of "w\<lparr>ticks := n\<rparr>" run r base i s patch ck "clock w (ticks w)"] s r
      by (auto simp: log_types_def)
  next
    case False
    have "\<exists>e. fst result = Inl e"
    proof (cases vr)
      case (Inl e)
      with res show ?thesis by simp
    next
      case (Inr s)
      then have "find_step (db w) i = Some s" "lease_holds s tok (clock w (Suc (ticks w)))"
        unfolding vr validate_lease_result by (auto split: option.splits if_splits)
      with False have "find_run (db w) run = Some r \<longrightarrow> r_version r \<noteq> base" for r by blast
      then show ?thesis
        using res Inr by (auto simp: commit_write_def Let_def split: option.split)
    qed
    moreover have "db (snd result) = db w"
      using calculation atomic_run_operations(8) by (metis atomicD prod.collapse result_def)
    ultimately show ?thesis by (simp only: if_not_P [OF False] simp_thms)
  qed
qed

end
