(* ===== verification/Recovery.thy ===== *)
theory Recovery
  imports Store_Spec
begin

text \<open>
  Exact results of the operations that take steps away from workers: lease recovery,
  cancellation, retries and failures.
\<close>

section \<open>Rows selected by key\<close>

lemma update_where_cong:
  "(\<And>x. x \<in> set xs \<Longrightarrow> p x = q x) \<Longrightarrow> update_where p f xs = update_where q f xs"
  by (induction xs) auto

lemma update_where_same: "(\<And>x. x \<in> set xs \<Longrightarrow> p x \<Longrightarrow> f x = x) \<Longrightarrow> update_where p f xs = xs"
  by (induction xs) auto

text \<open>Two updates by the same function are one, if what the first updates the second leaves.\<close>

lemma update_where_union:
  assumes "\<And>x. p x \<Longrightarrow> \<not> q (f x)"
  shows "update_where q f (update_where p f xs) = update_where (\<lambda>x. p x \<or> q x) f xs"
proof -
  have "(if q y then f y else y) = (if p x \<or> q x then f x else x)" if "y = (if p x then f x else x)" for x y
    using that assms [of x] by (cases "p x") simp_all
  then show ?thesis by (simp add: update_where_def)
qed

lemma in_selected_iff:
  assumes "distinct (map s_id xs)" and "s \<in> set xs"
  shows "s_id s \<in> s_id ` set (filter p xs) \<longleftrightarrow> p s"
proof
  assume "s_id s \<in> s_id ` set (filter p xs)"
  then obtain t where "t \<in> set xs" "p t" "s_id t = s_id s" by auto
  with assms have "t = s" by (metis distinct_map inj_on_eq_iff)
  with \<open>p t\<close> show "p s" by simp
qed (use assms in auto)

section \<open>Lease recovery\<close>

definition released :: "status \<Rightarrow> rat \<Rightarrow> step_row \<Rightarrow> step_row" where
  "released st ts s = (clear_lease s)\<lparr>s_status := st, s_updated := ts\<rparr>"

lemma released_fields [simp]:
  "s_id (released st ts s) = s_id s"
  "s_run (released st ts s) = s_run s"
  "s_status (released st ts s) = st"
  "s_lease (released st ts s) = None"
  "s_created (released st ts s) = s_created s"
  "s_attempt (released st ts s) = s_attempt s"
  by (simp_all add: released_def)

text \<open>The runs of the recovered steps become \<open>retry_scheduled\<close>.\<close>

definition recovered_runs :: "rat \<Rightarrow> step_row list \<Rightarrow> run_row list \<Rightarrow> run_row list" where
  "recovered_runs ts rows =
     fold (\<lambda>row. update_where (\<lambda>r. r_id r = s_run row) (\<lambda>r. r\<lparr>r_status := RetryScheduled, r_updated := ts\<rparr>)) rows"

lemma recovered_runs_all:
  "recovered_runs ts rows rs =
     update_where (\<lambda>r. r_id r \<in> s_run ` set rows) (\<lambda>r. r\<lparr>r_status := RetryScheduled, r_updated := ts\<rparr>) rs"
proof (induction rows arbitrary: rs)
  case (Cons row rows)
  have "recovered_runs ts (row # rows) rs = recovered_runs ts rows
      (update_where (\<lambda>r. r_id r = s_run row) (\<lambda>r. r\<lparr>r_status := RetryScheduled, r_updated := ts\<rparr>) rs)"
    by (simp add: recovered_runs_def)
  also have "\<dots> = update_where (\<lambda>r. r_id r \<in> s_run ` set (row # rows)) (\<lambda>r. r\<lparr>r_status := RetryScheduled, r_updated := ts\<rparr>) rs"
    unfolding Cons by (simp add: update_where_def)
  finally show ?case .
qed (simp add: recovered_runs_def update_where_none)

lemma recover_rows_exact:
  assumes "ids_fresh w" and "step_ids w" and "distinct (map s_id rows)"
    and "\<forall>row\<in>set rows. row \<in> set (steps (db w)) \<and> s_status row = Running"
  shows "\<exists>w'. recover_rows ts rows w = (Inr (length rows), w') \<and>
    steps (db w') = update_where (\<lambda>s. s_id s \<in> s_id ` set rows) (released RetryScheduled ts) (steps (db w)) \<and>
    runs (db w') = recovered_runs ts rows (runs (db w)) \<and>
    log_types w' = log_types w @ concat (map (\<lambda>_. [''lease_expired'', ''step_retry_scheduled'']) rows)"
  using assms
proof (induction rows arbitrary: w)
  case Nil
  then show ?case by (simp add: update_where_none recovered_runs_def)
next
  case (Cons row rows)
  let ?hit = "\<lambda>s. s_id s = s_id row \<and> s_status s = Running"
  have found: "find_step (db w) (s_id row) = Some row"
    using find_distinct_key [of s_id "steps (db w)" row] Cons.prems(2,4) by (simp add: find_step_def step_ids_def)
  have "filter ?hit (steps (db w)) = [row]"
    using filter_key_unique [of s_id "steps (db w)" "s_id row" "\<lambda>s. s_status s = Running"] found Cons.prems(2,4)
    by (simp add: find_step_def step_ids_def)
  then have one: "length (filter ?hit (steps (db w))) = 1" by simp
  let ?d = "(db w)\<lparr>steps := update_where ?hit (released RetryScheduled ts) (steps (db w)),
    runs := recovered_runs ts [row] (runs (db w))\<rparr>"
  define v1 where "v1 = event (s_run row) (Some (s_session row)) (Some (s_id row)) ''lease_expired''
    (JObj [(''previous_owner'', opt_str (s_owner row)), (''attempt'', JInt (s_attempt row))])"
  define v2 where "v2 = event (s_run row) (Some (s_session row)) (Some (s_id row)) ''step_retry_scheduled''
    (JObj [(''step_id'', JStr (s_id row)), (''reason'', JStr ''lease_expired'')])"
  define w2 where "w2 = logged v2 (logged v1 (w\<lparr>db := ?d\<rparr>))"
  have fresh1: "ids_fresh (w\<lparr>db := ?d\<rparr>)" using Cons.prems(1) by simp
  have fresh: "ids_fresh w2" using fresh1 by (simp add: w2_def)
  have steps2: "steps (db w2) = update_where ?hit (released RetryScheduled ts) (steps (db w))"
    by (simp add: w2_def)
  have ids: "step_ids w2"
    using Cons.prems(2) by (simp add: step_ids_def steps2 map_update_where)
  have rest: "\<forall>row'\<in>set rows. row' \<in> set (steps (db w2)) \<and> s_status row' = Running"
    using Cons.prems(3,4) by (auto simp: steps2 set_update_where image_iff)
  obtain w' where w': "recover_rows ts rows w2 = (Inr (length rows), w')"
    and s': "steps (db w') = update_where (\<lambda>s. s_id s \<in> s_id ` set rows) (released RetryScheduled ts) (steps (db w2))"
    and r': "runs (db w') = recovered_runs ts rows (runs (db w2))"
    and l': "log_types w' = log_types w2 @ concat (map (\<lambda>_. [''lease_expired'', ''step_retry_scheduled'']) rows)"
    using Cons.IH [OF fresh ids _ rest] Cons.prems(3) by auto
  have "recover_rows ts (row # rows) w = (Inr (Suc (length rows)), w')"
    using fresh1 w' one
    by (simp add: exec Let_def w2_def v1_def v2_def released_def [abs_def] recovered_runs_def)
  moreover have "steps (db w') = update_where (\<lambda>s. s_id s \<in> s_id ` set (row # rows)) (released RetryScheduled ts) (steps (db w))"
  proof -
    have "steps (db w') = update_where (\<lambda>s. ?hit s \<or> s_id s \<in> s_id ` set rows) (released RetryScheduled ts) (steps (db w))"
      unfolding s' steps2 using Cons.prems(3) by (intro update_where_union) auto
    also have "\<dots> = update_where (\<lambda>s. s_id s \<in> s_id ` set (row # rows)) (released RetryScheduled ts) (steps (db w))"
    proof (rule update_where_cong)
      fix s assume "s \<in> set (steps (db w))"
      moreover have "inj_on s_id (set (steps (db w)))" using Cons.prems(2) by (simp add: step_ids_def distinct_map)
      ultimately have "s_id s = s_id row \<longrightarrow> s = row" using Cons.prems(4) by (auto dest: inj_onD)
      then show "(?hit s \<or> s_id s \<in> s_id ` set rows) = (s_id s \<in> s_id ` set (row # rows))"
        using Cons.prems(4) by auto
    qed
    finally show ?thesis .
  qed
  moreover have "runs (db w') = recovered_runs ts (row # rows) (runs (db w))"
    by (simp add: r' w2_def recovered_runs_def)
  moreover have "log_types w' = log_types w @ concat (map (\<lambda>_. [''lease_expired'', ''step_retry_scheduled'']) (row # rows))"
    using l' by (simp add: w2_def log_types_def new_event_def v1_def v2_def event_def)
  ultimately show ?case by simp
qed

text \<open>
  C39: Recovery takes back exactly the leases whose deadline has passed. It returns their number;
  each such step is scheduled for retry without owner, token or deadline, every other step is
  unchanged; exactly the runs of these steps are scheduled for retry; and the log gets \<open>lease_expired\<close> and
  \<open>step_retry_scheduled\<close> for each.
\<close>
theorem recover_exact:
  assumes "fresh_world v" and "later v w"
  shows "\<exists>w'. recover_expired_leases w = (Inr (length (filter (lease_expired (clock w (ticks w))) (steps (db w)))), w') \<and>
    steps (db w') = update_where (lease_expired (clock w (ticks w))) (released RetryScheduled (clock w (ticks w))) (steps (db w)) \<and>
    runs (db w') = update_where (\<lambda>r. r_id r \<in> s_run ` set (filter (lease_expired (clock w (ticks w))) (steps (db w))))
      (\<lambda>r. r\<lparr>r_status := RetryScheduled, r_updated := clock w (ticks w)\<rparr>) (runs (db w)) \<and>
    log_types w' = log_types w @ concat (map (\<lambda>_. [''lease_expired'', ''step_retry_scheduled''])
      (filter (lease_expired (clock w (ticks w))) (steps (db w))))"
proof -
  let ?now = "clock w (ticks w)" and ?w = "w\<lparr>ticks := Suc (ticks w)\<rparr>"
  let ?rows = "filter (lease_expired ?now) (steps (db w))"
  have ok: "step_ids w" "ids_fresh w"
    using well_run_later [OF assms] by (simp_all add: well_run_def)
  then have pre: "ids_fresh ?w" "step_ids ?w" by (simp_all add: step_ids_def)
  have distinct: "distinct (map s_id ?rows)"
    using ok(1) by (simp add: step_ids_def distinct_map_filter)
  have running: "\<forall>row\<in>set ?rows. row \<in> set (steps (db ?w)) \<and> s_status row = Running"
    by (auto simp: lease_expired_def)
  obtain w' where "recover_rows ?now ?rows ?w = (Inr (length ?rows), w')"
    and "steps (db w') = update_where (\<lambda>s. s_id s \<in> s_id ` set ?rows) (released RetryScheduled ?now) (steps (db ?w))"
    and "runs (db w') = recovered_runs ?now ?rows (runs (db ?w))"
    and "log_types w' = log_types ?w @ concat (map (\<lambda>_. [''lease_expired'', ''step_retry_scheduled'']) ?rows)"
    using recover_rows_exact [OF pre distinct running, of ?now] by blast
  moreover have "update_where (\<lambda>s. s_id s \<in> s_id ` set ?rows) (released RetryScheduled ?now) (steps (db w)) =
      update_where (lease_expired ?now) (released RetryScheduled ?now) (steps (db w))"
    using ok(1) by (intro update_where_cong in_selected_iff) (simp_all add: step_ids_def)
  ultimately show ?thesis
    by (intro exI [of _ w']) (simp add: recover_expired_leases_def exec log_types_def recovered_runs_all del: set_filter)
qed

section \<open>Cancellation\<close>

definition cancelled :: "rat \<Rightarrow> step_row \<Rightarrow> step_row" where
  "cancelled ts s = (clear_lease s)\<lparr>s_status := Cancelled, s_cancelled := Some ts, s_updated := ts\<rparr>"

lemma cancelled_fields [simp]:
  "s_id (cancelled ts s) = s_id s"
  "s_run (cancelled ts s) = s_run s"
  "s_status (cancelled ts s) = Cancelled"
  "s_lease (cancelled ts s) = None"
  by (simp_all add: cancelled_def)

lemma cancelled_twice: "cancelled ts (cancelled ts s) = cancelled ts s"
  by (simp add: cancelled_def clear_lease_def)

lemma update_where_twice:
  assumes "\<And>x. k (f x) = k x" and "\<And>x. f (f x) = f x"
  shows "update_where (\<lambda>x. k x \<in> B) f (update_where (\<lambda>x. k x = a) f xs) = update_where (\<lambda>x. k x \<in> insert a B) f xs"
  using assms by (induction xs) auto

lemma cancel_rows_exact:
  assumes "ids_fresh w"
  shows "\<exists>w'. forM rows (\<lambda>row.
      seqM (update_steps (\<lambda>s. s_id s = s_id row)
        (\<lambda>s. (clear_lease s)\<lparr>s_status := Cancelled, s_cancelled := Some ts, s_updated := ts\<rparr>))
      (log_event (event run (Some (s_session row)) (Some (s_id row)) ''step_cancelled''
        (JObj [(''reason'', JStr reason)])))) w = (Inr (), w') \<and>
    steps (db w') = update_where (\<lambda>s. s_id s \<in> s_id ` set rows) (cancelled ts) (steps (db w)) \<and>
    runs (db w') = runs (db w) \<and> ids_fresh w' \<and> ticks w \<le> ticks w' \<and>
    log_types w' = log_types w @ map (\<lambda>_. ''step_cancelled'') rows"
  using assms
proof (induction rows arbitrary: w)
  case Nil
  then show ?case by (simp add: update_where_none)
next
  case (Cons row rows)
  define w1 where "w1 = w\<lparr>db := (db w)\<lparr>steps := update_where (\<lambda>s. s_id s = s_id row) (cancelled ts) (steps (db w))\<rparr>\<rparr>"
  define v where "v = event run (Some (s_session row)) (Some (s_id row)) ''step_cancelled''
        (JObj [(''reason'', JStr reason)])"
  have fresh: "ids_fresh w1" using Cons.prems by (simp add: w1_def)
  then have fresh2: "ids_fresh (logged v w1)" by simp
  note step = Cons.IH [OF fresh2]
  have "update_where (\<lambda>s. s_id s \<in> s_id ` set rows) (cancelled ts) (steps (db w1)) =
      update_where (\<lambda>s. s_id s \<in> s_id ` set (row # rows)) (cancelled ts) (steps (db w))"
    unfolding w1_def by (simp add: update_where_twice cancelled_twice)
  moreover have "log_types (logged v w1) = log_types w @ [''step_cancelled'']"
    by (simp add: log_types_def v_def new_event_def event_def w1_def)
  moreover have "seqM (update_steps (\<lambda>s. s_id s = s_id row)
        (\<lambda>s. (clear_lease s)\<lparr>s_status := Cancelled, s_cancelled := Some ts, s_updated := ts\<rparr>)) (log_event v) w =
      (Inr (), logged v w1)"
    using fresh by (simp add: exec w1_def cancelled_def [abs_def])
  moreover have "runs (db w1) = runs (db w)" "ticks w1 = ticks w" by (simp_all add: w1_def)
  ultimately show ?case
    using step unfolding forM.simps seqM_apply [of _ "forM _ _"] v_def [symmetric] by auto
qed

lemma cancel_run_effect:
  assumes "fresh_world v" and "later v w" and "find_run (db w) run = Some r" and "\<not> terminal (r_status r)"
  shows "\<exists>w'. cancel_run run reason w =
      (Inr (length (filter (\<lambda>s. s_run s = run \<and> \<not> terminal (s_status s)) (steps (db w)))), w') \<and>
    steps (db w') = update_where (\<lambda>s. s_run s = run \<and> \<not> terminal (s_status s))
      (cancelled (clock w (ticks w))) (steps (db w)) \<and>
    runs (db w') = update_where (\<lambda>r. r_id r = run)
      (\<lambda>r. r\<lparr>r_status := Cancelled, r_updated := clock w (ticks w)\<rparr>) (runs (db w)) \<and>
    log_types w' = log_types w @ [''run_cancel_requested''] @
      map (\<lambda>_. ''step_cancelled'') (filter (\<lambda>s. s_run s = run \<and> \<not> terminal (s_status s)) (steps (db w))) @
      [''run_cancelled'']"
proof -
  let ?ts = "clock w (ticks w)" and ?open = "\<lambda>s. s_run s = run \<and> \<not> terminal (s_status s)"
  let ?rows = "filter ?open (steps (db w))"
  have ok: "step_ids w" "ids_fresh w"
    using well_run_later [OF assms(1,2)] by (simp_all add: well_run_def)
  define v0 where "v0 = event run (Some (r_session r)) None ''run_cancel_requested'' (JObj [(''reason'', JStr reason)])"
  define w1 where "w1 = logged v0 (w\<lparr>ticks := Suc (ticks w)\<rparr>)"
  have fresh1: "ids_fresh w1" using ok(2) by (simp add: w1_def)
  obtain w2 where rows: "forM ?rows (\<lambda>row.
        seqM (update_steps (\<lambda>s. s_id s = s_id row)
          (\<lambda>s. (clear_lease s)\<lparr>s_status := Cancelled, s_cancelled := Some ?ts, s_updated := ?ts\<rparr>))
        (log_event (event run (Some (s_session row)) (Some (s_id row)) ''step_cancelled''
          (JObj [(''reason'', JStr reason)])))) w1 = (Inr (), w2)"
    and s2: "steps (db w2) = update_where (\<lambda>s. s_id s \<in> s_id ` set ?rows) (cancelled ?ts) (steps (db w1))"
    and r2: "runs (db w2) = runs (db w1)" and fresh2: "ids_fresh w2"
    and l2: "log_types w2 = log_types w1 @ map (\<lambda>_. ''step_cancelled'') ?rows"
    using cancel_rows_exact [OF fresh1, of ?rows ?ts run reason] by blast
  have w1_steps: "steps (db w1) = steps (db w)" by (simp add: w1_def)
  have "update_where (\<lambda>s. s_id s \<in> s_id ` set ?rows) (cancelled ?ts) (steps (db w)) =
      update_where ?open (cancelled ?ts) (steps (db w))"
    using ok(1) by (intro update_where_cong in_selected_iff) (simp_all add: step_ids_def)
  then have steps2: "steps (db w2) = update_where ?open (cancelled ?ts) (steps (db w))"
    by (simp only: s2 w1_steps)
  define v1 where "v1 = event run (Some (r_session r)) None ''run_cancelled''
       (JObj [(''reason'', JStr reason), (''cancelled_steps'', JInt (int (length ?rows)))])"
  define w3 where "w3 = w2\<lparr>db := (db w2)\<lparr>runs := update_where (\<lambda>r. r_id r = run)
    (\<lambda>r. r\<lparr>r_status := Cancelled, r_updated := ?ts\<rparr>) (runs (db w2))\<rparr>\<rparr>"
  have fresh3: "ids_fresh w3" using fresh2 by (simp add: w3_def)
  have "log_event v0 (w\<lparr>ticks := Suc (ticks w)\<rparr>) = (Inr (), w1)"
    using ok(2) by (simp add: w1_def log_event_ok)
  moreover have "log_event v1 w3 = (Inr (), logged v1 w3)"
    using fresh3 by (rule log_event_ok)
  ultimately have "cancel_run run reason w = (Inr (length ?rows), logged v1 w3)"
    unfolding cancel_run_def v0_def [symmetric] v1_def [symmetric]
    by (simp add: exec assms(3,4) v0_def [symmetric] v1_def [symmetric] rows w3_def [symmetric])
  moreover have "log_types (logged v1 w3) = log_types w2 @ [''run_cancelled'']"
    by (simp add: log_types_def new_event_def v1_def event_def w3_def)
  moreover have "log_types w1 = log_types w @ [''run_cancel_requested'']"
    by (simp add: log_types_def new_event_def v0_def event_def w1_def)
  moreover have "runs (db w1) = runs (db w)" by (simp add: w1_def)
  ultimately show ?thesis using steps2 r2 l2 by (simp add: w3_def)
qed

text \<open>
  C38: Cancelling a run cancels every step of it that has not ended, and the run, and reports how
  many steps it cancelled; each loses its lease, and no step of another run or that had ended
  changes. A run that has ended is left as it is, an unknown run is an error.
\<close>
theorem cancel_exact:
  assumes "fresh_world v" and "later v w"
  shows "case find_run (db w) run of
      None \<Rightarrow> fst (cancel_run run reason w) = Inl (Exn KeyError (''run not found: '' @ run)) \<and>
        db (snd (cancel_run run reason w)) = db w
    | Some r \<Rightarrow>
        if terminal (r_status r) then
          fst (cancel_run run reason w) = Inr 0 \<and> db (snd (cancel_run run reason w)) = db w
        else \<exists>w'. cancel_run run reason w =
            (Inr (length (filter (\<lambda>s. s_run s = run \<and> \<not> terminal (s_status s)) (steps (db w)))), w') \<and>
          steps (db w') = update_where (\<lambda>s. s_run s = run \<and> \<not> terminal (s_status s))
            (cancelled (clock w (ticks w))) (steps (db w)) \<and>
          runs (db w') = update_where (\<lambda>r. r_id r = run)
            (\<lambda>r. r\<lparr>r_status := Cancelled, r_updated := clock w (ticks w)\<rparr>) (runs (db w)) \<and>
          log_types w' = log_types w @ [''run_cancel_requested''] @
            map (\<lambda>_. ''step_cancelled'') (filter (\<lambda>s. s_run s = run \<and> \<not> terminal (s_status s)) (steps (db w))) @
            [''run_cancelled'']"
proof (cases "find_run (db w) run")
  case None
  then show ?thesis by (simp add: cancel_run_def exec)
next
  case (Some r)
  show ?thesis
  proof (cases "terminal (r_status r)")
    case True
    with Some show ?thesis by (simp add: cancel_run_def exec)
  next
    case False
    show ?thesis using Some False cancel_run_effect [OF assms Some False, of reason] by simp
  qed
qed

end
