(* ===== verification/Outcomes.thy ===== *)
theory Outcomes
  imports Recovery
begin

text \<open>
  How steps end: the fence a cancellation puts up, the verdict of \<open>mark_retry\<close>, the decision of
  an approval, and what the missing lease check of the failure operations allows.
\<close>

section \<open>Cancellation fences\<close>

lemma released_dead:
  assumes "tokens_unique w" and "step_ids w" and "s \<in> set (steps (db w))" and "s_lease s = Some tok"
    and "steps (db w') = update_where p f (steps (db w))"
    and "uuids w' = uuids w" and "drawn w \<le> drawn w'"
    and "\<And>x. p x \<Longrightarrow> s_lease (f x) = None" and "p s \<or> s_status s \<noteq> Running"
  shows "dead_token tok w'"
proof -
  have held: "(tok, s_id s) \<in> holdings w" using assms(3,4) by (auto simp: holdings_def)
  have "was_drawn w tok" using held assms(1) unfolding tokens_unique_def by blast
  then have "was_drawn w' tok" using assms(6,7) by (intro was_drawn_mono [of w' w])
  moreover have "s_status t \<noteq> Running" if t: "t \<in> set (steps (db w'))" "s_lease t = Some tok" for t
  proof -
    obtain x where x: "x \<in> set (steps (db w))" "t = (if p x then f x else x)"
      using t(1) by (auto simp: assms(5) set_update_where)
    with t(2) assms(8) have nx: "\<not> p x" by (metis option.distinct(1))
    with x t(2) have "(tok, s_id x) \<in> holdings w" by (auto simp: holdings_def)
    with held assms(1) have "s_id x = s_id s" unfolding tokens_unique_def by blast
    with x assms(2,3) have "x = s" by (metis distinct_map inj_on_eq_iff step_ids_def)
    with nx x assms(9) show ?thesis by auto
  qed
  ultimately show ?thesis by (simp add: dead_token_def)
qed

text \<open>
  C28: cancellation fences every worker of the run. Once a run was cancelled, no token one of its
  steps held can commit or heartbeat any more, whatever happens afterwards.
\<close>
theorem cancel_fences:
  assumes "fresh_world v" and "later v w"
    and "find_run (db w) run = Some r" and "\<not> terminal (r_status r)"
    and "s \<in> set (steps (db w))" and "s_run s = run" and "s_lease s = Some tok"
    and "later (snd (cancel_run run reason w)) w'"
  shows "(\<exists>e. fst (commit_state_patch run i tok base patch ck w') = Inl e) \<and>
    db (snd (commit_state_patch run i tok base patch ck w')) = db w' \<and>
    (\<exists>e. fst (heartbeat i tok secs w') = Inl e) \<and> db (snd (heartbeat i tok secs w')) = db w'"
proof -
  let ?w = "snd (cancel_run run reason w)"
  note fresh = fresh_world_laws [OF assms(1)]
  have unique: "tokens_unique w" "step_ids w"
    using tokens.always [OF assms(2)] keys.always [OF assms(2)] fresh by (auto simp: tokens_kept_def)
  have "later w ?w"
  proof -
    have "snd (cancel_run run reason w) = perform (Cancel_Run run reason) w"
      by (simp add: perform_def forget_def bindM_apply split: prod.split sum.split)
    then show ?thesis by (simp add: later_perform)
  qed
  then have ids: "uuids ?w = uuids w" "drawn w \<le> drawn ?w" by (simp_all add: later_uuids)
  have steps: "steps (db ?w) = update_where (\<lambda>s. s_run s = run \<and> \<not> terminal (s_status s))
      (cancelled (clock w (ticks w))) (steps (db w))"
    using cancel_run_effect [OF assms(1-4), of reason] by auto
  have "dead_token tok ?w"
    using unique assms(5,7) steps ids
    by (rule released_dead) (use assms(6) in \<open>auto elim: terminal.elims\<close>)
  moreover have "inj (uuids ?w)" using ids(1) later_uuids [OF assms(2)] fresh(6) by simp
  ultimately show ?thesis using dead_token_raises [OF _ _ assms(8)] by blast
qed

section \<open>Failures\<close>

definition failed_step :: "status \<Rightarrow> string \<Rightarrow> string \<Rightarrow> rat \<Rightarrow> step_row \<Rightarrow> step_row" where
  "failed_step st err ty ts s = (clear_lease s)\<lparr>s_status := st,
     s_error_type := Some ty, s_error := Some err, s_updated := ts\<rparr>"

lemma failed_step_fields [simp]:
  "s_id (failed_step st err ty ts s) = s_id s"
  "s_status (failed_step st err ty ts s) = st"
  "s_lease (failed_step st err ty ts s) = None"
  "s_attempt (failed_step st err ty ts s) = s_attempt s"
  by (simp_all add: failed_step_def)

definition run_status :: "db \<Rightarrow> string \<Rightarrow> status option" where
  "run_status d run = map_option r_status (find_run d run)"

text \<open>
  \<open>mark_retry\<close> decides by the attempt counter. With a readable retry policy it returns
  whether another attempt is allowed; the step is scheduled for retry or failed accordingly,
  without lease and with the error recorded, the run follows, no other step changes.
\<close>
theorem retry_exact:
  assumes "fresh_world v" and "later v w"
    and "find_step (db w) i = Some s" and "retry_policy_for_step s = Inr pol"
    and "find_run (db w) run = Some r"
  shows "let ok = allows_retry_after_attempt pol (s_attempt s);
      st = (if ok then RetryScheduled else Failed) in
    \<exists>w'. mark_retry run i err ty w = (Inr ok, w') \<and>
      find_step (db w') i = Some (failed_step st err ty (clock w (ticks w)) s) \<and>
      run_status (db w') run = Some st \<and>
      (\<forall>j. j \<noteq> i \<longrightarrow> find_step (db w') j = find_step (db w) j) \<and>
      log_types w' = log_types w @ [''failure_classified'', ''error_raised'',
        if ok then ''step_retry_scheduled'' else ''step_failed'']"
proof -
  let ?ok = "allows_retry_after_attempt pol (s_attempt s)"
  let ?st = "if ?ok then RetryScheduled else Failed" and ?ts = "clock w (ticks w)"
  let ?w = "w\<lparr>ticks := Suc (ticks w)\<rparr>"
  have fresh: "ids_fresh ?w" using well_run_later [OF assms(1,2)] by (simp add: well_run_def)
  define v1 where "v1 = event run (Some (s_session s)) (Some i) ''failure_classified''
    (JObj [(''error'', JStr err), (''error_type'', JStr ty), (''retryable'', JBool ?ok),
      (''attempt'', JInt (s_attempt s)), (''max_attempts'', JInt (max_attempts pol))])"
  define w1 where "w1 = logged v1 ?w"
  have fresh1: "ids_fresh w1" using fresh by (simp add: w1_def)
  define w2 where "w2 = w1\<lparr>db := (db w1)\<lparr>steps := update_where (\<lambda>s. s_id s = i) (failed_step ?st err ty ?ts) (steps (db w1)),
    runs := update_where (\<lambda>r. r_id r = run) (\<lambda>r. r\<lparr>r_status := ?st, r_updated := ?ts\<rparr>) (runs (db w1))\<rparr>\<rparr>"
  have fresh2: "ids_fresh w2" using fresh1 by (simp add: w2_def)
  define v2 where "v2 = event run (Some (s_session s)) (Some i) ''error_raised''
    (JObj [(''error'', JStr err), (''error_type'', JStr ty)])"
  define v3 where "v3 = (if ?ok then event run (Some (s_session s)) (Some i) ''step_retry_scheduled''
      (JObj [(''step_id'', JStr i), (''attempt'', JInt (s_attempt s)), (''max_attempts'', JInt (max_attempts pol))])
    else event run (Some (s_session s)) (Some i) ''step_failed''
      (JObj [(''step_id'', JStr i), (''error_type'', JStr ty), (''reason'', JStr ''retry_exhausted'')]))"
  define w3 where "w3 = logged v3 (logged v2 w2)"
  have "mark_retry run i err ty w = (Inr ?ok, w3)"
    using assms(3,4) fresh
    by (cases ?ok) (simp_all add: mark_retry_def exec Let_def fail_step_def failed_step_def [abs_def]
        v1_def v2_def v3_def w1_def w2_def w3_def)
  moreover have "find_step (db w3) i = Some (failed_step ?st err ty ?ts s)"
    using assms(3) find_step_id [OF assms(3)] by (simp add: w3_def w2_def w1_def find_step_update_db)
  moreover have "run_status (db w3) run = Some ?st"
    using assms(5) find_run_id [OF assms(5)] by (simp add: w3_def w2_def w1_def find_run_update_db run_status_def)
  moreover have "find_step (db w3) j = find_step (db w) j" if "j \<noteq> i" for j
    using that by (cases "find_step (db w) j") (auto simp: w3_def w2_def w1_def find_step_update_db dest: find_step_id)
  moreover have "log_types w3 = log_types w @ [''failure_classified'', ''error_raised'',
        if ?ok then ''step_retry_scheduled'' else ''step_failed'']"
    by (simp add: w3_def w2_def w1_def log_types_def new_event_def event_def v1_def v2_def v3_def)
  ultimately show ?thesis by (auto simp: Let_def)
qed

section \<open>Approvals\<close>

definition decided :: "string \<Rightarrow> string \<Rightarrow> string \<Rightarrow> rat \<Rightarrow> approval_row \<Rightarrow> approval_row" where
  "decided st who reason ts p = p\<lparr>p_status := st, p_approved_by := Some who,
     p_decision_reason := Some reason, p_updated := ts\<rparr>"

lemma find_approval_update:
  "(\<And>p. p_id (f p) = p_id p) \<Longrightarrow>
   find_approval i (d\<lparr>approvals := update_where q f (approvals (db w))\<rparr>) =
     map_option (\<lambda>p. if q p then f p else p) (find_approval i (db w))"
  by (simp add: find_approval_def find_update_where_key)

lemma find_approval_id: "find_approval i d = Some p \<Longrightarrow> p_id p = i"
  by (auto simp: find_approval_def dest: find_SomeD)

lemma find_other_approval [simp]:
  "find_approval i (d\<lparr>steps := x\<rparr>) = find_approval i d"
  "find_approval i (d\<lparr>runs := y\<rparr>) = find_approval i d"
  by (simp_all add: find_approval_def)

text \<open>What a decision does to the step that waits for it, and to its run.\<close>

fun after_decision :: "string \<Rightarrow> string \<Rightarrow> rat \<Rightarrow> step_row \<Rightarrow> step_row" where
  "after_decision st reason ts s =
     (if s_status s \<noteq> WaitingHuman then s
      else if st = ''APPROVED'' then released Pending ts s
      else if st = ''DENIED'' then failed_step Failed reason ''ApprovalDenied'' ts s
      else s)"

lemma find_step_other_id:
  "j \<noteq> i \<Longrightarrow> map_option (\<lambda>s. if s_id s = i then f s else s) (find_step d j) = find_step d j"
  by (cases "find_step d j") (auto dest: find_step_id)

text \<open>
  a decision is recorded on its approval and acts only on a step that waits for a person:
  approved, the step is pending again without a lease; denied, it failed; a step in any other status
  is untouched, and so is every other step.
\<close>
theorem decision_exact:
  assumes "fresh_world v" and "later v w"
    and "find_approval a (db w) = Some p" and "find_step (db w) (p_step p) = Some s"
  shows "\<exists>w'. decide_approval a st who reason w = (Inr (decided st who reason (clock w (ticks w)) p), w') \<and>
    find_step (db w') (p_step p) = Some (after_decision st reason (clock w (ticks w)) s) \<and>
    (\<forall>j. j \<noteq> p_step p \<longrightarrow> find_step (db w') j = find_step (db w) j)"
proof -
  let ?ts = "clock w (ticks w)"
  have fresh: "ids_fresh (w\<lparr>ticks := Suc (ticks w)\<rparr>)" using well_run_later [OF assms(1,2)] by (simp add: well_run_def)
  have s_id: "s_id s = p_step p" using assms(4) by (rule find_step_id)
  have p_id: "p_id p = a" using assms(3) by (rule find_approval_id)
  show ?thesis
    using assms(3,4) fresh s_id p_id
    by (cases "s_status s = WaitingHuman"; cases "st = ''APPROVED''"; cases "st = ''DENIED''")
      (simp_all add: decide_approval_def get_approval_def exec Let_def fail_step_def find_approval_update
        find_step_update_db find_run_update_db decided_def released_def failed_step_def find_step_other_id)
qed

section \<open>Reservations\<close>

lemma find_ledger_later:
  assumes "fresh_world v" and "later v w" and "later w w'" and "find_ledger k (db w) = Some l"
  shows "\<exists>l'. find_ledger k (db w') = Some l' \<and> same_reservation l l'"
proof -
  have keys: "distinct (map l_key (ledger (db w')))"
    using unique_keys.always [OF later_trans [OF assms(3,2)]] assms(1) by (simp add: keys_unique_def fresh_world_def)
  have l: "l \<in> set (ledger (db w))" "l_key l = k" using assms(4) by (auto simp: find_ledger_def dest: find_SomeD)
  obtain l' where l': "l' \<in> set (ledger (db w'))" "same_reservation l l'"
    using grows_mem [OF _ l(1)] records.always [OF assms(3)] by (auto simp: records_kept_def)
  then have "l_key l' = k" using l(2) by (simp add: same_reservation_def)
  with l' show ?thesis using find_distinct_key [OF keys l'(1)] by (auto simp: find_ledger_def)
qed

lemma find_snoc:
  "List.find p (xs @ [x]) = (case List.find p xs of None \<Rightarrow> if p x then Some x else None | Some y \<Rightarrow> Some y)"
  by (induction xs) auto

lemma new_ledger_id:
  assumes "fresh_world v" and "later v w"
  shows "''ledger'' @ ''_'' @ uuids w (drawn w) \<notin> l_id ` set (ledger (db w))"
proof
  assume "''ledger'' @ ''_'' @ uuids w (drawn w) \<in> l_id ` set (ledger (db w))"
  then obtain l where l: "l \<in> set (ledger (db w))" "l_id l = ''ledger'' @ ''_'' @ uuids w (drawn w)" by fastforce
  have ids: "ledger_ids w" and inj: "inj (uuids w)"
    using fresh_ledger.always [OF assms(2)] assms(1) later_uuids [OF assms(2)]
    by (simp_all add: ledger_ids_kept_def ledger_ids_def fresh_world_def)
  have "\<exists>n<drawn w. l_id l = ''ledger'' @ ''_'' @ uuids w n"
    using ids [unfolded ledger_ids_def] l(1) by (rule bspec)
  then obtain n where n: "n < drawn w" "l_id l = ''ledger'' @ ''_'' @ uuids w n" by iprover
  then have "uuids w n = uuids w (drawn w)" using l(2) by simp
  then have "n = drawn w" using inj by (rule injD [rotated])
  with n(1) show False by simp
qed

lemma reserve_new:
  assumes "''ledger'' @ ''_'' @ uuids w (drawn w) \<notin> l_id ` set (ledger (db w))"
    and "reserve_ledger g w = (Inr None, w')"
  shows "\<exists>l. find_ledger (g_key g) (db w') = Some l \<and> l_status l = ''RESERVED'' \<and>
    l_request_hash l = g_hash g \<and> l_tool l = g_tool g \<and> l_token l = g_token g"
proof (cases "find_ledger (g_key g) (db w)")
  case (Some l)
  with assms(2) show ?thesis by (simp add: reserve_ledger_def exec)
next
  case None
  then have "g_key g \<notin> l_key ` set (ledger (db w))"
    by (auto simp: find_ledger_def find_None_iff_all)
  with None assms show ?thesis
    by (auto simp: reserve_ledger_def exec insert_ledger_def find_ledger_def find_snoc simp del: append_Cons append_Nil)
qed

text \<open>
  C10: an idempotency key is reserved at most once. After a call of \<open>reserve_ledger\<close> got the
  reservation, every later call with that key, by any worker after any other calls, is
  handed the row of the first one, with its tool, request hash and fencing token, and writes
  nothing.
\<close>
theorem reserved_once:
  assumes "fresh_world v" and "later v w"
    and "reserve_ledger g w = (Inr None, w1)" and "later w1 w'" and "g_key h = g_key g"
  shows "\<exists>l. reserve_ledger h w' = (Inr (Some l), w') \<and> l_tool l = g_tool g \<and>
    l_request_hash l = g_hash g \<and> l_token l = g_token g"
proof -
  obtain l where l: "find_ledger (g_key g) (db w1) = Some l"
    "l_request_hash l = g_hash g" "l_tool l = g_tool g" "l_token l = g_token g"
    using reserve_new [OF new_ledger_id [OF assms(1,2)] assms(3)] by blast
  have "later w w1"
    using later_perform [of w "Reserve_Ledger g"] by (simp add: perform_def forget_def bindM_apply assms(3))
  then have "later v w1" using assms(2) by (rule later_trans)
  then obtain l' where "find_ledger (g_key g) (db w') = Some l'" "same_reservation l l'"
    using find_ledger_later [OF assms(1) _ assms(4) l(1)] by blast
  with l show ?thesis
    by (intro exI [of _ l']) (simp add: reserve_ledger_def exec assms(5) same_reservation_def)
qed

section \<open>Atomicity\<close>

lemma claim_update_none:
  assumes "step_ids w" and "claim_update u secs now row w = (Inr None, w')"
  shows "db w' = db w"
proof (cases "\<exists>s. find_step (db w) (s_id row) = Some s \<and> claimable s")
  case False
  note none = no_claim_hits [OF assms(1) False]
  then have "filter (claim_hits row) (steps (db w)) = []" by (simp add: filter_empty_conv)
  with assms(2) show ?thesis
    by (auto simp: claim_update_eq claim_rest_def Let_def update_where_none none)
next
  case True
  then have "length (filter (claim_hits row) (steps (db w))) = 1"
    using claim_hits_count [OF assms(1), of row] by auto
  then have False
    using assms(2) by (auto simp: claim_update_eq claim_rest_def claimed_def Let_def exec split: prod.splits sum.splits)
  then show ?thesis ..
qed

lemma claim_loop_atomic:
  assumes "step_ids w" and "claim_loop n u run secs w = (Inl e, w')"
  shows "db w' = db w"
  using assms
proof (induction n arbitrary: w)
  case (Suc n)
  let ?w = "w\<lparr>ticks := Suc (ticks w)\<rparr>"
  show ?case
  proof (cases "claim_select run (db w)")
    case None
    with Suc.prems show ?thesis by (simp add: exec)
  next
    case (Some row)
    obtain r w1 where r: "claim_update u secs (clock w (ticks w)) row ?w = (r, w1)" by fastforce
    have ids: "step_ids ?w" using Suc.prems(1) by (simp add: step_ids_def)
    show ?thesis
    proof (cases r)
      case (Inl x)
      with r have "db w1 = db ?w" using atomicD [OF atomic_run_operations(3)] by blast
      with Suc.prems(2) Some r Inl show ?thesis by (simp add: bindM_apply now_ts_apply select_db_apply)
    next
      case (Inr c)
      show ?thesis
      proof (cases c)
        case None
        then have "db w1 = db ?w" using claim_update_none [OF ids] r Inr by blast
        moreover have "step_ids w1" using calculation ids by (simp add: step_ids_def)
        ultimately show ?thesis
          using Suc.IH [of w1] Suc.prems(2) Some r Inr None by (simp add: bindM_apply now_ts_apply select_db_apply)
      next
        case (Some c')
        with Suc.prems(2) \<open>claim_select run (db w) = Some row\<close> r Inr show ?thesis
          by (simp add: bindM_apply now_ts_apply select_db_apply)
      qed
    qed
  qed
qed simp

text \<open>
  C30: atomicity. In every history, a call of the store that raises leaves all tables exactly as they were.
\<close>
theorem calls_atomic:
  assumes "fresh_world v" and "later v w" and "call c w = (Inl e, w')"
  shows "db w' = db w"
proof -
  have ids: "step_ids w" using well_run_later [OF assms(1,2)] by (simp add: well_run_def)
  show ?thesis
  proof (cases "\<exists>u run secs. c = Claim_Step u run secs")
    case True
    then obtain u run secs where "forget (claim_loop 64 u run secs) w = (Inl e, w')"
      using assms(3) by (auto simp: claim_step_def)
    then have "claim_loop 64 u run secs w = (Inl e, w')"
      by (auto simp: forget_def bindM_apply split: prod.splits sum.splits)
    then show ?thesis by (rule claim_loop_atomic [OF ids])
  next
    case False
    then have "atomic (call c)"
      by (cases c) (simp_all only: call.simps atomic_run_operations [THEN atomic_forget]
          atomic_records [THEN atomic_forget] atomic_decide [THEN atomic_forget]
          atomic_resolve [THEN atomic_forget] atomic_request [THEN atomic_forget]
          atomic_reserve [THEN atomic_forget] atomic_txn [THEN atomic_forget], simp)
    then show ?thesis using assms(3) by (rule atomicD)
  qed
qed

end
