(* ===== verification/Store_Examples.thy ===== *)
theory Store_Examples
  imports Outcomes
begin

text \<open>
  Concrete histories at which the properties of the store are instantiated: a run is created and
  claimed, its lease expires, it is cancelled, or it waits for an approval.
\<close>

definition run_view :: "world \<Rightarrow> (string \<times> status \<times> int \<times> json) list" where
  "run_view w = map (\<lambda>r. (r_id r, r_status r, r_version r, r_state r)) (runs (db w))"

definition attempts :: "world \<Rightarrow> int list" where
  "attempts w = map s_attempt (steps (db w))"

text \<open>What a world shows: its steps, its runs, the attempt numbers and the types of its events.\<close>

definition view :: "world \<Rightarrow> (string \<times> string \<times> status \<times> string option) list \<times>
    (string \<times> status \<times> int \<times> json) list \<times> int list \<times> string list" where
  "view w = (step_view w, run_view w, attempts w, log_types w)"

definition read_step :: "world \<Rightarrow> step_row" where
  "read_step w = hd (steps (db w))"

definition read_run :: "world \<Rightarrow> run_row" where
  "read_run w = hd (runs (db w))"


definition demo_created :: world where
  "demo_created = history [Create_Run None JNull JNull] demo_world"

definition demo_request :: approval_args where
  "demo_request = \<lparr>q_key = ''k'', q_run = ''run_0'', q_session = None, q_step = ''step_2'', q_tool = ''mail'',
     q_risk = ''high'', q_reason = None, q_hash = ''h'', q_ref = ''r'', q_by = None\<rparr>"

definition demo_waiting :: world where
  "demo_waiting = history [Request_Approval demo_request,
     Mark_Waiting_Human ''run_0'' ''step_2'' ''approve'' None] demo_claimed"

definition demo_reservation :: ledger_args where
  "demo_reservation = \<lparr>g_run = ''run_0'', g_session = None, g_step = ''step_2'', g_tool = ''mail'',
     g_tool_version = ''v1'', g_call = ''c'', g_key = ''key'', g_token = ''tok'', g_hash = ''h'', g_ref = ''r''\<rparr>"

lemma demo_later_created: "later demo_world demo_created"
  unfolding demo_created_def by (rule later_history)

lemma demo_later_waiting: "later demo_world demo_waiting"
  unfolding demo_waiting_def using later_history demo_later(1) by (rule later_trans)

lemma demo_views:
  "(view demo_created, view demo_claimed) =
   (([(''step_2'', ''run_0'', Pending, None)], [(''run_0'', Pending, 0, JObj [])], [0], [''run_created'', ''step_created'']),
    ([(''step_2'', ''run_0'', Running, Some ''lease_5'')], [(''run_0'', Running, 0, JObj [])], [1],
      [''run_created'', ''step_created'', ''step_claimed'']))"
  by code_simp

lemma demo_claim:
  "(\<lambda>w. (map (\<lambda>s. (s_retry s, s_until s)) (steps (db w)), clock w (Suc (ticks w)))) demo_claimed =
   ([(Some (JObj [(''max_attempts'', JInt 3)]), Some 33)], 6)"
  by code_simp

lemma demo_ticks: "(\<lambda>w. (clock w (ticks w), ledger (db w))) demo_claimed = (5, [])"
  by code_simp

lemma demo_waiting_view:
  "(\<lambda>w. (view w, map (\<lambda>p. (p_id p, p_step p)) (approvals (db w)))) demo_waiting =
   (([(''step_2'', ''run_0'', WaitingHuman, None)], [(''run_0'', WaitingHuman, 0, JObj [])], [1],
      [''run_created'', ''step_created'', ''step_claimed'', ''step_waiting_human'']),
    [(''approval_7'', ''step_2'')])"
  by code_simp

lemmas view_unfolded = view_def step_view_def run_view_def attempts_def

lemma demo_created_step:
  obtains s where "find_step (db demo_created) ''step_2'' = Some s" and "s_id s = ''step_2''"
    and "s_status s = Pending" and "steps (db demo_created) = [s]" and "s_attempt s = 0"
  using demo_views by (cases "steps (db demo_created)") (auto simp: view_unfolded find_step_def)

lemma demo_claimed_step:
  obtains s where "find_step (db demo_claimed) ''step_2'' = Some s" and "s \<in> set (steps (db demo_claimed))"
    and "s_run s = ''run_0''" and "s_status s = Running" and "s_lease s = Some ''lease_5''" and "s_attempt s = 1"
    and "s_retry s = Some (JObj [(''max_attempts'', JInt 3)])" and "s_until s = Some 33"
  using demo_views demo_claim by (cases "steps (db demo_claimed)") (auto simp: view_unfolded find_step_def)

lemma demo_claimed_run:
  obtains r where "find_run (db demo_claimed) ''run_0'' = Some r" and "r_status r = Running" and "r_version r = 0"
  using demo_views by (cases "runs (db demo_claimed)") (auto simp: view_unfolded find_run_def)

lemma demo_waiting_rows:
  obtains p s where "find_approval ''approval_7'' (db demo_waiting) = Some p" and "p_step p = ''step_2''"
    and "find_step (db demo_waiting) (p_step p) = Some s" and "s_status s = WaitingHuman"
  using demo_waiting_view
  by (cases "steps (db demo_waiting)"; cases "approvals (db demo_waiting)")
    (auto simp: view_unfolded find_step_def find_approval_def)

section \<open>Claims and commits\<close>

theorem claim_exact_witness:
  "\<exists>s w'. find_step (db demo_created) ''step_2'' = Some s \<and>
     claim_update ''w1'' 30 9 s demo_created = (Inr (Some (claim_of demo_created 30 9 s)), w') \<and>
     log_types w' = [''run_created'', ''step_created'', ''step_claimed'']"
proof (rule demo_created_step)
  fix s
  assume s: "find_step (db demo_created) ''step_2'' = Some s" "s_id s = ''step_2''" "s_status s = Pending"
  then show ?thesis
    using claim_exact [OF demo_fresh demo_later_created, of "''w1''" 30 9 s] demo_views
    by (auto simp: claimable_def view_def)
qed

lemma demo_claim_wins:
  obtains s c w' where "steps (db demo_created) = [s]" and "claim_update ''w1'' 30 9 s demo_created = (Inr (Some c), w')"
proof (rule demo_created_step)
  fix s
  assume s: "find_step (db demo_created) ''step_2'' = Some s" "s_id s = ''step_2''" "s_status s = Pending"
    "steps (db demo_created) = [s]"
  have "step_ids demo_created" "ids_fresh demo_created"
    using well_run_later [OF demo_fresh demo_later_created] by (simp_all add: well_run_def)
  with s that show ?thesis by (simp add: claim_update_exact claimable_def)
qed

theorem claim_race_witness:
  "\<exists>s c w'. claim_update ''w1'' 30 9 s demo_created = (Inr (Some c), w') \<and>
     fst (claim_update ''w2'' 30 10 s w') = Inr None \<and> db (snd (claim_update ''w2'' 30 10 s w')) = db w'"
proof (rule demo_claim_wins)
  fix s c w'
  assume "claim_update ''w1'' 30 9 s demo_created = (Inr (Some c), w')"
  then show ?thesis
    using claim_race [OF demo_fresh demo_later_created, where u = "''w1''" and secs = 30 and now = 9 and
      row = s and c = c and w' = w' and row' = s and u' = "''w2''" and secs' = 30 and now' = 10] by blast
qed

theorem claim_step_oldest_witness:
  "\<exists>c w'. claim_step ''w1'' None 30 demo_created = (Inr (Some c), w') \<and> k_step c = ''step_2'' \<and> k_attempt c = 1"
proof (rule demo_created_step)
  fix s
  assume s: "s_id s = ''step_2''" "s_status s = Pending" "steps (db demo_created) = [s]" "s_attempt s = 0"
  then have "claim_select None (db demo_created) = Some s"
    by (simp add: claim_select_def claimable_def for_run_def)
  with s claim_step_oldest [OF demo_fresh demo_later_created, where run = None and u = "''w1''" and secs = 30] show ?thesis by auto
qed

theorem commit_exact_witness:
  "fst (commit_state_patch ''run_0'' ''step_2'' ''lease_5'' 0 (JObj [(''a'', JInt 1)]) None demo_claimed) = Inr 1 \<and>
   (\<exists>e. fst (commit_state_patch ''run_0'' ''step_2'' ''lease_6'' 0 (JObj [(''a'', JInt 1)]) None demo_claimed) = Inl e)"
proof (rule demo_claimed_step, rule demo_claimed_run)
  fix s r
  assume s: "find_step (db demo_claimed) ''step_2'' = Some s" "s_status s = Running" "s_lease s = Some ''lease_5''"
    "s_until s = Some 33"
    and r: "find_run (db demo_claimed) ''run_0'' = Some r" "r_version r = 0"
  have "lease_holds s ''lease_5'' (clock demo_claimed (Suc (ticks demo_claimed)))"
    using s demo_claim by (simp add: lease_holds_def)
  moreover have "\<not> lease_holds s ''lease_6'' t" for t using s by (simp add: lease_holds_def)
  ultimately show ?thesis
    using commit_exact [OF demo_fresh demo_later(1), where run = "''run_0''" and i = "''step_2''"
        and tok = "''lease_5''" and ck = None and base = 0 and patch = "JObj [(''a'', JInt 1)]"]
      commit_exact [OF demo_fresh demo_later(1), where run = "''run_0''" and i = "''step_2''"
        and tok = "''lease_6''" and ck = None and base = 0 and patch = "JObj [(''a'', JInt 1)]"] s r
    by auto
qed

section \<open>Releases\<close>

text \<open>A lease that lasts no time has expired when the next call reads the clock.\<close>

definition demo_expired :: world where
  "demo_expired = history [Create_Run None JNull JNull, Claim_Step ''w1'' None 0] demo_world"

lemma demo_expired_view:
  "(map (\<lambda>s. (s_id s, s_run s, s_status s, s_until s)) (steps (db demo_expired)), map r_id (runs (db demo_expired)),
    clock demo_expired (ticks demo_expired)) = ([(''step_2'', ''run_0'', Running, Some 3)], [''run_0''], 5)"
  by code_simp

theorem recover_exact_witness:
  "\<exists>w'. recover_expired_leases demo_expired = (Inr 1, w') \<and> map s_status (steps (db w')) = [RetryScheduled] \<and>
     map r_status (runs (db w')) = [RetryScheduled] \<and>
     log_types w' = log_types demo_expired @ [''lease_expired'', ''step_retry_scheduled'']"
proof -
  obtain s where s: "steps (db demo_expired) = [s]" "s_run s = ''run_0''" "lease_expired (clock demo_expired (ticks demo_expired)) s"
    using demo_expired_view by (cases "steps (db demo_expired)") (auto simp: lease_expired_def)
  obtain r where r: "runs (db demo_expired) = [r]" "r_id r = ''run_0''"
    using demo_expired_view by (cases "runs (db demo_expired)") auto
  have "later demo_world demo_expired" unfolding demo_expired_def by (rule later_history)
  from recover_exact [OF demo_fresh this] show ?thesis using s r by auto
qed

theorem cancel_exact_witness:
  "\<exists>w'. cancel_run ''run_0'' ''stop'' demo_claimed = (Inr 1, w') \<and>
     log_types w' = log_types demo_claimed @ [''run_cancel_requested'', ''step_cancelled'', ''run_cancelled'']"
proof (rule demo_claimed_run)
  fix r
  assume r: "find_run (db demo_claimed) ''run_0'' = Some r" "r_status r = Running"
  have "length (filter (\<lambda>s. s_run s = ''run_0'' \<and> \<not> terminal (s_status s)) (steps (db demo_claimed))) = 1"
    using demo_views by (cases "steps (db demo_claimed)") (auto simp: view_unfolded)
  then obtain s where "filter (\<lambda>s. s_run s = ''run_0'' \<and> \<not> terminal (s_status s)) (steps (db demo_claimed)) = [s]"
    by (auto simp: length_Suc_conv)
  with r cancel_exact [OF demo_fresh demo_later(1), where run = "''run_0''" and reason = "''stop''"] show ?thesis
    by auto
qed

theorem cancel_fences_witness:
  "\<exists>e. fst (commit_state_patch ''run_0'' ''step_2'' ''lease_5'' 0 (JObj []) None
     (snd (cancel_run ''run_0'' ''stop'' demo_claimed))) = Inl e"
proof (rule demo_claimed_run, rule demo_claimed_step)
  fix r s
  assume "find_run (db demo_claimed) ''run_0'' = Some r" "r_status r = Running"
    "s \<in> set (steps (db demo_claimed))" "s_run s = ''run_0''" "s_lease s = Some ''lease_5''"
  then show ?thesis
    using cancel_fences [OF demo_fresh demo_later(1) _ _ _ _ _ here] by fastforce
qed

theorem retry_exact_witness:
  "\<exists>w'. mark_retry ''run_0'' ''step_2'' ''boom'' ''TimeoutError'' demo_claimed = (Inr True, w') \<and>
     run_status (db w') ''run_0'' = Some RetryScheduled"
proof (rule demo_claimed_run, rule demo_claimed_step)
  fix r s
  assume r: "find_run (db demo_claimed) ''run_0'' = Some r"
    and s: "find_step (db demo_claimed) ''step_2'' = Some s" "s_attempt s = 1"
      "s_retry s = Some (JObj [(''max_attempts'', JInt 3)])"
  have "retry_policy_for_step s = Inr \<lparr>max_attempts = 3\<rparr>"
    by (simp add: retry_policy_for_step_def s(3) retry_from_dict_def get_or_def get_def)
  with r s show ?thesis
    using retry_exact [OF demo_fresh demo_later(1) s(1) _ r, where err = "''boom''" and ty = "''TimeoutError''"]
    by (auto simp: allows_retry_after_attempt_def)
qed

section \<open>Approvals and reservations\<close>

theorem decision_exact_witness:
  "\<exists>w' p. decide_approval ''approval_7'' ''APPROVED'' ''ann'' ''fine'' demo_waiting = (Inr p, w') \<and>
     p_status p = ''APPROVED'' \<and> (\<exists>s. find_step (db w') ''step_2'' = Some s \<and> s_status s = Pending)"
proof (rule demo_waiting_rows)
  fix p s
  assume p: "find_approval ''approval_7'' (db demo_waiting) = Some p" "p_step p = ''step_2''"
    and s: "find_step (db demo_waiting) (p_step p) = Some s" "s_status s = WaitingHuman"
  show ?thesis
    using decision_exact [OF demo_fresh demo_later_waiting p(1) s(1), where st = "''APPROVED''" and who = "''ann''"
        and reason = "''fine''"] p(2) s(2)
    by (auto simp: decided_def)
qed

theorem reserved_once_witness:
  "\<exists>w1 l w2. reserve_ledger demo_reservation demo_claimed = (Inr None, w1) \<and>
     reserve_ledger (demo_reservation\<lparr>g_token := ''other''\<rparr>) w1 = (Inr (Some l), w2) \<and> l_token l = ''tok''"
proof -
  have "ledger (db demo_claimed) = []" using demo_ticks by simp
  then have "\<exists>w1. reserve_ledger demo_reservation demo_claimed = (Inr None, w1)"
    by (simp add: reserve_ledger_def exec find_ledger_def insert_ledger_def)
  then obtain w1 where w1: "reserve_ledger demo_reservation demo_claimed = (Inr None, w1)" ..
  have "\<exists>l. reserve_ledger (demo_reservation\<lparr>g_token := ''other''\<rparr>) w1 = (Inr (Some l), w1) \<and>
      l_tool l = g_tool demo_reservation \<and> l_request_hash l = g_hash demo_reservation \<and> l_token l = g_token demo_reservation"
    by (rule reserved_once [OF demo_fresh demo_later(1) w1 here]) simp
  with w1 show ?thesis by (auto simp: demo_reservation_def)
qed

theorem calls_atomic_witness:
  "\<exists>e w'. call (Cancel_Run ''run_9'' ''stop'') demo_claimed = (Inl e, w') \<and> db w' = db demo_claimed"
proof -
  have "find_run (db demo_claimed) ''run_9'' = None"
    using demo_views by (cases "runs (db demo_claimed)") (auto simp: view_unfolded find_run_def)
  then have "\<exists>e w'. call (Cancel_Run ''run_9'' ''stop'') demo_claimed = (Inl e, w')"
    by (simp add: forget_def cancel_run_def exec)
  then show ?thesis using calls_atomic [OF demo_fresh demo_later(1)] by blast
qed

end
