(* ===== verification/Gaps.thy ===== *)
theory Gaps
  imports Store_Examples
begin

text \<open>
  Behaviours of the store that the documents do not announce: what the failure operations do without a lease check, what a
  commit does whose reads are stale, and which attempt number a stale claim writes (on a history that is evaluated).
\<close>

section \<open>Late failures\<close>

lemma find_step_in: "step_ids w \<Longrightarrow> s \<in> set (steps (db w)) \<Longrightarrow> find_step (db w) (s_id s) = Some s"
  using find_distinct_key [of s_id "steps (db w)" s] by (simp add: find_step_def step_ids_def)

text \<open>A claim that finds a row takes it, and its run is running.\<close>

lemma claim_step_takes:
  assumes "well_run w" and "claim_select run (db w) = Some row" and "find_run (db w) (s_run row) = Some r"
  shows "\<exists>k w'. claim_step u run secs w = (Inr (Some k), w') \<and> k_run k = s_run row \<and> k_step k = s_id row \<and>
    k_attempt k = s_attempt row + 1 \<and> run_status (db w') (s_run row) = Some Running"
proof -
  let ?w = "w\<lparr>ticks := Suc (ticks w)\<rparr>"
  note row = claim_select_props [OF assms(2)]
  have fresh: "step_ids ?w" "ids_fresh ?w" using assms(1) by (simp_all add: well_run_def step_ids_def)
  have "find_step (db ?w) (s_id row) = Some row" using find_step_in [of w row] assms(1) row(1) by (simp add: well_run_def)
  then have "claim_update u secs (clock w (ticks w)) row ?w = (Inr (Some (claim_of ?w secs (clock w (ticks w)) row)),
      logged (claim_event ?w u secs (clock w (ticks w)) row)
        (?w\<lparr>drawn := Suc (drawn w), db := claim_db ?w u secs (clock w (ticks w)) row\<rparr>))"
    using row(2) by (simp add: claim_update_exact [OF fresh])
  moreover have "claim_step u run secs = claim_loop (Suc 63) u run secs" by (simp add: claim_step_def)
  ultimately have "claim_step u run secs w = (Inr (Some (claim_of ?w secs (clock w (ticks w)) row)),
      logged (claim_event ?w u secs (clock w (ticks w)) row)
        (?w\<lparr>drawn := Suc (drawn w), db := claim_db ?w u secs (clock w (ticks w)) row\<rparr>))"
    unfolding claim_loop.simps by (simp add: bindM_apply now_ts_apply select_db_apply assms(2))
  then show ?thesis
    using assms(3) find_run_id [OF assms(3)] by (simp add: claim_of_def run_status_def claim_db_def find_run_update_db)
qed

lemma some_claimable:
  assumes "s \<in> set (steps d)" and "claimable s" and "for_run run s"
  obtains row where "claim_select run d = Some row"
proof (cases "claim_select run d")
  case None
  with assms show thesis by (force simp: claim_select_def filter_empty_conv)
qed

text \<open>What a cancellation leaves of a step that was running.\<close>

lemma cancel_leaves:
  assumes "fresh_world v" and "later v w0" and "find_run (db w0) run = Some r" and "\<not> terminal (r_status r)"
    and "find_step (db w0) i = Some s" and "s_run s = run" and "s_status s = Running" and "cancel_run run reason w0 = (res, w)"
  shows "later v w" "run_status (db w) run = Some Cancelled" "find_step (db w) i = Some (cancelled (clock w0 (ticks w0)) s)"
    "\<exists>r'. find_run (db w) run = Some r'"
proof -
  have "perform (Cancel_Run run reason) w0 = w"
    using assms(8) by (cases res) (simp_all add: perform_def forget_def bindM_apply)
  then show "later v w" using later_trans [OF later_perform assms(2)] by metis
  have rows: "steps (db w) = update_where (\<lambda>s. s_run s = run \<and> \<not> terminal (s_status s)) (cancelled (clock w0 (ticks w0))) (steps (db w0))"
    "runs (db w) = update_where (\<lambda>r. r_id r = run) (\<lambda>r. r\<lparr>r_status := Cancelled, r_updated := clock w0 (ticks w0)\<rparr>) (runs (db w0))"
    using cancel_run_effect [OF assms(1-4), of reason] assms(8) by auto
  show "run_status (db w) run = Some Cancelled" "\<exists>r'. find_run (db w) run = Some r'"
    using assms(3) find_run_id [OF assms(3)] by (simp_all add: run_status_def find_run_def rows(2) find_update_where_key)
  show "find_step (db w) i = Some (cancelled (clock w0 (ticks w0)) s)"
    using assms(5-7) by (simp add: find_step_def rows(1) find_update_where_key)
qed

text \<open>
  C32: the failure operations ignore the lease, so a cancellation can be undone by the worker it was meant to stop. Whenever a run
  is cancelled while one of its steps is running, and the worker of that step then reports a failure its retry policy
  allows to be repeated, the report succeeds although the worker holds no lease: the cancelled step and the cancelled run are
  scheduled again, and the next worker that asks for the run gets a claim on it, after which the run is running.
\<close>
theorem late_failure_revives_cancelled_run:
  assumes "fresh_world v" and "later v w0" and "run \<noteq> []"
    and "find_run (db w0) run = Some r" and "\<not> terminal (r_status r)"
    and "find_step (db w0) i = Some s" and "s_run s = run" and "s_status s = Running"
    and "retry_policy_for_step s = Inr pol" and "allows_retry_after_attempt pol (s_attempt s)"
    and "cancel_run run reason w0 = (res, w)"
  shows "run_status (db w) run = Some Cancelled \<and> find_step (db w) i = Some (cancelled (clock w0 (ticks w0)) s) \<and>
    (\<exists>w1 s1. mark_retry run i err ty w = (Inr True, w1) \<and> run_status (db w1) run = Some RetryScheduled \<and>
       find_step (db w1) i = Some s1 \<and> s_status s1 = RetryScheduled \<and>
       (\<exists>k w2. claim_step u (Some run) secs w1 = (Inr (Some k), w2) \<and> k_run k = run \<and> run_status (db w2) run = Some Running))"
proof -
  note left = cancel_leaves [OF assms(1,2,4-8,11)]
  then obtain r' where r': "find_run (db w) run = Some r'" by blast
  let ?s = "cancelled (clock w0 (ticks w0)) s" and ?ts = "clock w (ticks w)"
  have pol: "retry_policy_for_step ?s = Inr pol" "allows_retry_after_attempt pol (s_attempt ?s)"
    using assms(9,10) by (simp_all add: cancelled_def clear_lease_def retry_policy_for_step_def)
  obtain w1 where w1: "mark_retry run i err ty w = (Inr True, w1)" "run_status (db w1) run = Some RetryScheduled"
    "find_step (db w1) i = Some (failed_step RetryScheduled err ty ?ts ?s)"
    using retry_exact [OF assms(1) left(1,3) pol(1) r', of err ty] pol(2) by (auto simp: Let_def)
  have "perform (Mark_Retry run i err ty) w = w1" using w1(1) by (simp add: perform_def forget_def bindM_apply)
  then have "later v w1" using later_trans [OF later_perform left(1)] by metis
  then have ok: "well_run w1" by (rule well_run_later [OF assms(1)])
  have "failed_step RetryScheduled err ty ?ts ?s \<in> set (steps (db w1))" using w1(3) by (rule find_step_mem)
  moreover have "claimable (failed_step RetryScheduled err ty ?ts ?s)" "for_run (Some run) (failed_step RetryScheduled err ty ?ts ?s)"
    using assms(7) by (simp_all add: claimable_def for_run_def failed_step_def cancelled_def clear_lease_def)
  ultimately obtain row where row: "claim_select (Some run) (db w1) = Some row" by (rule some_claimable)
  then have "s_run row = run" using claim_select_props(3) [OF row] assms(3) by (simp add: for_run_def)
  moreover obtain r1 where "find_run (db w1) run = Some r1" using w1(2) by (auto simp: run_status_def)
  ultimately obtain k w2 where "claim_step u (Some run) secs w1 = (Inr (Some k), w2)" "k_run k = run" "run_status (db w2) run = Some Running"
    using claim_step_takes [OF ok row, of r1 u secs] by auto
  with w1 left(2,3) failed_step_fields(2) show ?thesis by blast
qed

theorem late_failure_revives_cancelled_run_witness:
  "\<exists>n w w1 k w2. cancel_run ''run_0'' ''stop'' demo_claimed = (n, w) \<and> run_status (db w) ''run_0'' = Some Cancelled \<and>
     mark_retry ''run_0'' ''step_2'' ''timed out'' ''TimeoutError'' w = (Inr True, w1) \<and>
     claim_step ''w2'' (Some ''run_0'') 30 w1 = (Inr (Some k), w2) \<and> run_status (db w2) ''run_0'' = Some Running"
proof (rule demo_claimed_run, rule demo_claimed_step)
  fix r s
  assume r: "find_run (db demo_claimed) ''run_0'' = Some r" "r_status r = Running"
    and s: "find_step (db demo_claimed) ''step_2'' = Some s" "s_run s = ''run_0''" "s_status s = Running" "s_attempt s = 1"
      "s_retry s = Some (JObj [(''max_attempts'', JInt 3)])"
  have pol: "retry_policy_for_step s = Inr \<lparr>max_attempts = 3\<rparr>" "allows_retry_after_attempt \<lparr>max_attempts = 3\<rparr> (s_attempt s)"
    by (simp_all add: retry_policy_for_step_def s(4,5) retry_from_dict_def get_or_def get_def allows_retry_after_attempt_def)
  obtain n w where w: "cancel_run ''run_0'' ''stop'' demo_claimed = (n, w)" by fastforce
  show ?thesis
    using late_failure_revives_cancelled_run [OF demo_fresh demo_later(1) _ r(1) _ s(1-3) pol w, of "''timed out''" "''TimeoutError''" "''w2''" 30]
      r(2) w by (simp; blast)
qed

section \<open>Stale reads\<close>

text \<open>
  C33: the version check of a commit looks at the row it read, and its update looks for that version. When the reads of
  a commit were made in an earlier world and the version of the run has moved since, the commit still succeeds: it returns the next
  version, completes the step and logs \<open>state_committed\<close> and \<open>step_completed\<close>, while the run keeps the state, version
  and status it had, so the patch is lost.
\<close>
theorem stale_commit_loses_patch:
  assumes "fresh_world v" and "later v w0" and "later w0 w"
    and "find_run (db w0) run = Some r" and "find_step (db w0) i = Some s"
    and "find_run (db w) run = Some r'" and "r_version r' \<noteq> r_version r" and "find_step (db w) i = Some s'"
  shows "\<exists>w'. commit_write run i (r_version r) patch ck ts s r w = (Inr (r_version r + 1), w') \<and>
    find_run (db w') run = Some r' \<and>
    find_step (db w') i = Some (committed_step (r_version r + 1) ck ts s') \<and>
    log_types w' = log_types w @ [''state_committed'', ''step_completed'']"
proof -
  let ?d = "(db w)\<lparr>runs := update_where (\<lambda>x. r_id x = run \<and> r_version x = r_version r)
      (\<lambda>x. x\<lparr>r_state := merge_patch (r_state r) patch, r_version := r_version r + 1, r_status := Completed, r_updated := ts\<rparr>)
      (runs (db w)),
    steps := update_where (\<lambda>s. s_id s = i) (committed_step (r_version r + 1) ck ts) (steps (db w))\<rparr>"
  have fresh: "ids_fresh (w\<lparr>db := ?d\<rparr>)" using well_run_later [OF assms(1) later_trans [OF assms(3,2)]] by (simp add: well_run_def)
  have "find_run ?d run = Some r'" using assms(6,7) by (simp add: find_run_update_db)
  moreover have "find_step ?d i = Some (committed_step (r_version r + 1) ck ts s')"
    using assms(8) find_step_id [OF assms(8)] by (simp add: find_step_update_db committed_step_def)
  ultimately show ?thesis
    unfolding commit_write_def
    using fresh by (simp add: Let_def exec committed_step_def [abs_def] log_types_def new_event_def event_def)
qed

definition patched_between :: world where
  "patched_between = history [Apply_System_State_Patch ''run_0'' (JObj [(''note'', JInt 1)]) ''operator''] demo_claimed"

lemma demo_patched_between: "map (\<lambda>r. (r_id r, r_version r, r_state r)) (runs (db patched_between)) =
    [(''run_0'', 1, JObj [(''note'', JInt 1)])] \<and> map s_id (steps (db patched_between)) = [''step_2'']"
  by code_simp

theorem stale_commit_loses_patch_witness:
  "\<exists>s r r' w'. find_run (db demo_claimed) ''run_0'' = Some r \<and>
     commit_write ''run_0'' ''step_2'' 0 (JObj [(''answer'', JInt 42)]) None 9 s r patched_between = (Inr 1, w') \<and>
     find_run (db w') ''run_0'' = Some r' \<and> r_state r' = JObj [(''note'', JInt 1)]"
proof (rule demo_claimed_run, rule demo_claimed_step)
  fix r s
  assume r: "find_run (db demo_claimed) ''run_0'' = Some r" "r_version r = 0" and s: "find_step (db demo_claimed) ''step_2'' = Some s"
  obtain r' where r': "find_run (db patched_between) ''run_0'' = Some r'" "r_version r' = 1" "r_state r' = JObj [(''note'', JInt 1)]"
    using demo_patched_between by (cases "runs (db patched_between)") (auto simp: find_run_def)
  obtain s' where s': "find_step (db patched_between) ''step_2'' = Some s'"
    using demo_patched_between by (cases "steps (db patched_between)") (auto simp: find_step_def)
  have "later demo_claimed patched_between" unfolding patched_between_def by (rule later_history)
  from stale_commit_loses_patch [OF demo_fresh demo_later(1) this r(1) s r'(1) _ s', where patch = "JObj [(''answer'', JInt 42)]" and ck = None and ts = 9]
  show ?thesis using r r' by auto
qed

definition reclaimed :: world where
  "reclaimed = history [Claim_Update ''w2'' 30 50 (read_step (history [Create_Run None JNull JNull] demo_world))]
     (history [Create_Run None JNull JNull, Claim_Step ''w1'' None 0, Recover_Expired_Leases] demo_world)"

text \<open>
  a claim writes the attempt number of the row it read. If the step was claimed and recovered
  between the read and the write, the second claim repeats the number of the first: the
  step was started twice and counts one attempt.
\<close>
theorem stale_claim_repeats_attempt:
  "log_types reclaimed = [''run_created'', ''step_created'', ''step_claimed'', ''lease_expired'',
     ''step_retry_scheduled'', ''step_claimed''] \<and>
   attempts reclaimed = [1] \<and> step_view reclaimed = [(''step_2'', ''run_0'', Running, Some ''lease_9'')]"
proof -
  have "view reclaimed = ([(''step_2'', ''run_0'', Running, Some ''lease_9'')], [(''run_0'', Running, 0, JObj [])], [1],
     [''run_created'', ''step_created'', ''step_claimed'', ''lease_expired'', ''step_retry_scheduled'', ''step_claimed''])"
    by code_simp
  then show ?thesis by (simp add: view_def)
qed

end
