(* ===== verification/PyText.thy ===== *)
theory PyText
  imports Ledger
begin

text \<open>
  Operations of Python's \<open>str\<close> and of f-strings that several components use: \<open>str()\<close> and
  \<open>repr()\<close> of JSON values, case conversion, stripping, splitting into lines. Characters
  are the 8-bit ones of HOL; the three letters whose capital is not one of them (micro sign, sharp s,
  y with diaeresis) are left as they are by \<open>upper\<close>.
\<close>

section \<open>Computations that may raise\<close>

text \<open>Pure code that raises is a sum; \<open>bindE\<close> stops at the first exception.\<close>

fun bindE :: "'e + 'a \<Rightarrow> ('a \<Rightarrow> 'e + 'b) \<Rightarrow> 'e + 'b" where
  "bindE (Inl e) f = Inl e"
| "bindE (Inr x) f = f x"

fun mapE :: "('a \<Rightarrow> 'e + 'b) \<Rightarrow> 'a list \<Rightarrow> 'e + 'b list" where
  "mapE f [] = Inr []"
| "mapE f (x # xs) = bindE (f x) (\<lambda>y. bindE (mapE f xs) (\<lambda>ys. Inr (y # ys)))"

fun foldE :: "('a \<Rightarrow> 's \<Rightarrow> 'e + 's) \<Rightarrow> 'a list \<Rightarrow> 's \<Rightarrow> 'e + 's" where
  "foldE f [] s = Inr s"
| "foldE f (x # xs) s = bindE (f x s) (foldE f xs)"

lemma bindE_Inr_iff: "bindE m f = Inr y \<longleftrightarrow> (\<exists>x. m = Inr x \<and> f x = Inr y)"
  by (cases m) simp_all

lemma bindE_Inr [simp]: "bindE m Inr = m"
  by (cases m) simp_all

lemma mapE_total: "(\<And>x. x \<in> set xs \<Longrightarrow> f x = Inr (g x)) \<Longrightarrow> mapE f xs = Inr (map g xs)"
  by (induction xs) simp_all

lemma foldE_total: "(\<And>x s. x \<in> set xs \<Longrightarrow> f x s = Inr (g x s)) \<Longrightarrow> foldE f xs s = Inr (fold g xs s)"
  by (induction xs arbitrary: s) simp_all

lemma foldE_append: "foldE f (xs @ ys) s = bindE (foldE f xs s) (foldE f ys)"
proof (induction xs arbitrary: s)
  case (Cons x xs)
  then show ?case by (cases "f x s") simp_all
qed simp

text \<open>Exceptions that Python itself raises on a value of the wrong type.\<close>

definition attribute_error :: "json \<Rightarrow> string \<Rightarrow> exn" where
  "attribute_error v name = Exn (Subclass ''AttributeError'' Exception)
     (repr_str (type_name v) @ '' object has no attribute '' @ repr_str name)"

definition not_iterable :: "json \<Rightarrow> exn" where
  "not_iterable v = Exn TypeError (repr_str (type_name v) @ '' object is not iterable'')"

definition unhashable :: "json \<Rightarrow> exn" where
  "unhashable v = Exn TypeError (''unhashable type: '' @ repr_str (type_name v))"

section \<open>Printing values\<close>

fun py_repr :: "(rat \<Rightarrow> string) \<Rightarrow> json \<Rightarrow> string" where
  "py_repr fr JNull = ''None''"
| "py_repr fr (JBool b) = (if b then ''True'' else ''False'')"
| "py_repr fr (JInt i) = int_str i"
| "py_repr fr (JFloat q) = fr q"
| "py_repr fr (JStr s) = repr_str s"
| "py_repr fr (JList xs) = ''['' @ join '', '' (map (py_repr fr) xs) @ '']''"
| "py_repr fr (JObj es) =
     ''{'' @ join '', '' (map (\<lambda>e. repr_str (fst e) @ '': '' @ py_repr fr (snd e)) es) @ ''}''"

definition py_str :: "(rat \<Rightarrow> string) \<Rightarrow> json \<Rightarrow> string" where
  "py_str fr v = (case v of JStr s \<Rightarrow> s | _ \<Rightarrow> py_repr fr v)"

definition py_or :: "json \<Rightarrow> json \<Rightarrow> json" where
  "py_or a b = (if truthy a then a else b)"

abbreviation get_none :: "json \<Rightarrow> string \<Rightarrow> json" where
  "get_none j k \<equiv> get_or JNull j k"

lemma py_str_JStr [simp]: "py_str fr (JStr s) = s"
  by (simp add: py_str_def)

section \<open>Case, white space, lines\<close>

definition lower :: "string \<Rightarrow> string" where
  "lower s = map (\<lambda>c. let n = of_char c :: nat in
     if (65 \<le> n \<and> n \<le> 90) \<or> (192 \<le> n \<and> n \<le> 222 \<and> n \<noteq> 215) then char_of (n + 32) else c) s"

definition upper :: "string \<Rightarrow> string" where
  "upper s = map (\<lambda>c. let n = of_char c :: nat in
     if (97 \<le> n \<and> n \<le> 122) \<or> (224 \<le> n \<and> n \<le> 254 \<and> n \<noteq> 247) then char_of (n - 32) else c) s"

definition is_alnum :: "char \<Rightarrow> bool" where
  "is_alnum c = (let n = of_char c :: nat in
     (48 \<le> n \<and> n \<le> 57) \<or> (65 \<le> n \<and> n \<le> 90) \<or> (97 \<le> n \<and> n \<le> 122) \<or>
     n \<in> {170, 178, 179, 181, 185, 186, 188, 189, 190} \<or> (192 \<le> n \<and> n \<noteq> 215 \<and> n \<noteq> 247))"

text \<open>\<open>s.strip(chars)\<close>, and \<open>isdigit\<close>, which also holds of superscript digits.\<close>

definition strip_chars :: "string \<Rightarrow> string \<Rightarrow> string" where
  "strip_chars cs s = rev (dropWhile (\<lambda>c. c \<in> set cs) (rev (dropWhile (\<lambda>c. c \<in> set cs) s)))"

definition is_digit_like :: "char \<Rightarrow> bool" where
  "is_digit_like c \<longleftrightarrow> is_digit c \<or> (of_char c :: nat) \<in> {178, 179, 185}"

definition is_number_text :: "string \<Rightarrow> bool" where
  "is_number_text s \<longleftrightarrow> s \<noteq> [] \<and> list_all is_digit_like s"

definition rstrip :: "string \<Rightarrow> string" where
  "rstrip s = rev (dropWhile is_space (rev s))"

definition lstrip :: "string \<Rightarrow> string" where
  "lstrip s = dropWhile is_space s"

definition is_newline :: "char \<Rightarrow> bool" where
  "is_newline c = (let n = of_char c :: nat in (10 \<le> n \<and> n \<le> 13) \<or> (28 \<le> n \<and> n \<le> 30) \<or> n = 133)"

definition after_newline :: "char \<Rightarrow> string \<Rightarrow> string" where
  "after_newline c cs =
     (if of_char c = (13::nat) then (case cs of [] \<Rightarrow> [] | d # ds \<Rightarrow> if of_char d = (10::nat) then ds else cs)
      else cs)"

lemma length_after_newline: "length (after_newline c cs) \<le> length cs"
  by (cases cs) (simp_all add: after_newline_def)

text \<open>The first line of a text and the rest; a carriage return and a line feed end a line once.\<close>

fun split_line :: "string \<Rightarrow> string \<times> string" where
  "split_line [] = ([], [])"
| "split_line (c # cs) =
     (if is_newline c then ([], after_newline c cs) else (c # fst (split_line cs), snd (split_line cs)))"

lemma split_line_length: "length (snd (split_line s)) \<le> length s"
  by (induction s) (simp_all add: le_SucI length_after_newline)

lemma split_line_shorter: "s \<noteq> [] \<Longrightarrow> length (snd (split_line s)) < length s"
  by (cases s) (simp_all add: le_imp_less_Suc length_after_newline split_line_length)

function splitlines :: "string \<Rightarrow> string list" where
  "splitlines s = (if s = [] then [] else fst (split_line s) # splitlines (snd (split_line s)))"
  by pat_completeness auto
termination by (relation "measure length") (simp_all add: split_line_shorter)

declare splitlines.simps [simp del]

text \<open>\<open>s.split(c, 1)\<close>: the text before the first \<open>c\<close>, and after it when there is one.\<close>

definition split_once :: "char \<Rightarrow> string \<Rightarrow> string \<times> string option" where
  "split_once c s = (let pre = takeWhile (\<lambda>x. x \<noteq> c) s in
     (pre, if c \<in> set s then Some (drop (Suc (length pre)) s) else None))"

text \<open>\<open>s.split(c)\<close>.\<close>

fun split_all :: "char \<Rightarrow> string \<Rightarrow> string list" where
  "split_all c [] = [[]]"
| "split_all c (x # xs) =
     (if x = c then [] # split_all c xs
      else (case split_all c xs of [] \<Rightarrow> [[x]] | p # ps \<Rightarrow> (x # p) # ps))"

definition ends_with :: "char \<Rightarrow> string \<Rightarrow> bool" where
  "ends_with c s \<longleftrightarrow> s \<noteq> [] \<and> last s = c"

lemma splitlines_Nil [simp]: "splitlines [] = []"
  by (simp add: splitlines.simps)

lemma split_line_append:
  "\<forall>c\<in>set l. \<not> is_newline c \<Longrightarrow> split_line (l @ CHR 0x0A # rest) = (l, rest)"
  by (induction l) (simp_all add: is_newline_def after_newline_def)

lemma splitlines_line:
  "\<forall>c\<in>set l. \<not> is_newline c \<Longrightarrow> splitlines (l @ CHR 0x0A # rest) = l # splitlines rest"
  by (subst splitlines.simps) (simp add: split_line_append)

lemma splitlines_lines:
  "\<forall>l\<in>set ls. \<forall>c\<in>set l. \<not> is_newline c \<Longrightarrow> splitlines (concat (map (\<lambda>l. l @ [CHR 0x0A]) ls)) = ls"
proof (induction ls)
  case (Cons l ls)
  then show ?case using splitlines_line [of l "concat (map (\<lambda>l. l @ [CHR 0x0A]) ls)"] by simp
qed simp

end
