(* ===== verification/Policy.thy ===== *)
theory Policy
  imports PyText
begin

text \<open>
  The policy engine of \<open>src/agentledger/policy.py\<close>: requests, findings and decisions, the three
  built-in evaluators, the composer and the role tables. JSON-shaped fields of the dataclasses
  are JSON values; sets of names are lists of names, used by membership only. The argument \<open>fr\<close> prints floats.
  An evaluator that a user registers is code outside the program: it is a pair of functions that may
  raise.

  The lemmas show what decides the effect of a decision (denial wins over approval, approval over
  permission, whatever the order of the findings), what the role tables permit, and that the
  built-in evaluators fail closed.
\<close>

section \<open>Effects and tiers\<close>

datatype effect = Allow | RequireApproval | Deny

fun effect_text :: "effect \<Rightarrow> string" where
  "effect_text Allow = ''allow''"
| "effect_text RequireApproval = ''require_approval''"
| "effect_text Deny = ''deny''"

fun strictness :: "effect \<Rightarrow> nat" where
  "strictness Allow = 0"
| "strictness RequireApproval = 1"
| "strictness Deny = 2"

instantiation effect :: linorder
begin

definition less_eq_effect :: "effect \<Rightarrow> effect \<Rightarrow> bool" where
  "less_eq_effect a b \<longleftrightarrow> strictness a \<le> strictness b"

definition less_effect :: "effect \<Rightarrow> effect \<Rightarrow> bool" where
  "less_effect a b \<longleftrightarrow> strictness a < strictness b"

instance
proof
  fix a b :: effect
  show "a \<le> b \<Longrightarrow> b \<le> a \<Longrightarrow> a = b"
    by (cases a; cases b) (simp_all add: less_eq_effect_def)
qed (auto simp: less_eq_effect_def less_effect_def)

end

definition ACTION_TIERS :: "string list" where
  "ACTION_TIERS = [''L0'', ''L1'', ''L2'', ''L3'', ''L4'', ''L5'']"

definition HIGH_RISK_LEVELS :: "string list" where
  "HIGH_RISK_LEVELS = [''high'', ''destructive'', ''sensitive'', ''financial_or_legal'']"

definition DEFAULT_POLICY_VERSION :: string where
  "DEFAULT_POLICY_VERSION = ''local-v1''"

section \<open>Requests, findings, decisions\<close>

record role_policy =
  allow_tools :: "string list option"
  deny_tools :: "string list"
  allow_risk :: "string list option"
  deny_risk :: "string list"

record policy_control =
  ct_kind :: string
  ct_reason :: string
  ct_metadata :: json

record policy_finding =
  f_id :: string
  f_severity :: string
  f_source :: string
  f_message :: string
  f_evidence :: json

record policy_request =
  pr_stage :: string
  pr_subject :: json
  pr_action :: json
  pr_resource :: json
  pr_context :: json
  pr_signals :: json
  pr_runtime_state :: json
  pr_version :: string

record policy_decision =
  pd_effect :: effect
  pd_tier :: string
  pd_risk :: string
  pd_controls :: "policy_control list"
  pd_reasons :: "string list"
  pd_findings :: "policy_finding list"
  pd_version :: string
  pd_scope :: "string option"
  pd_delegation :: "bool option"

definition control_to_dict :: "policy_control \<Rightarrow> json" where
  "control_to_dict c = JObj [(''kind'', JStr (ct_kind c)), (''reason'', JStr (ct_reason c)), (''metadata'', ct_metadata c)]"

definition finding_to_dict :: "policy_finding \<Rightarrow> json" where
  "finding_to_dict f = JObj [(''id'', JStr (f_id f)), (''severity'', JStr (f_severity f)),
     (''source'', JStr (f_source f)), (''message'', JStr (f_message f)), (''evidence'', f_evidence f)]"

text \<open>A finding whose evidence is a dict display.\<close>

definition finding :: "string \<Rightarrow> string \<Rightarrow> string \<Rightarrow> string \<Rightarrow> dict \<Rightarrow> policy_finding" where
  "finding i severity source message evidence = \<lparr>f_id = i, f_severity = severity, f_source = source,
     f_message = message, f_evidence = JObj evidence\<rparr>"

definition request_to_dict :: "policy_request \<Rightarrow> json" where
  "request_to_dict r = JObj [(''stage'', JStr (pr_stage r)), (''subject'', pr_subject r), (''action'', pr_action r),
     (''resource'', pr_resource r), (''context'', pr_context r), (''signals'', pr_signals r),
     (''runtime_state'', pr_runtime_state r), (''policy_version'', JStr (pr_version r))]"

text \<open>\<open>dict.update\<close>: known keys keep their place, new ones are appended.\<close>

definition dict_update :: "dict \<Rightarrow> dict \<Rightarrow> dict" where
  "dict_update es ps = fold (\<lambda>p. AList.update (fst p) (snd p)) ps es"

record tool_request =
  tr_role :: string
  tr_tool :: string
  tr_risk :: string
  tr_side_effect :: string
  tr_approval_required :: bool
  tr_sandbox_required :: bool
  tr_idempotency_required :: bool
  tr_subject :: json
  tr_resource :: json
  tr_context :: json
  tr_signals :: json
  tr_runtime_state :: json
  tr_version :: string

text \<open>The keyword arguments of \<open>for_tool\<close> with their defaults (\<open>JNull\<close> stands for \<open>None\<close>).\<close>

definition tool_request :: "string \<Rightarrow> string \<Rightarrow> string \<Rightarrow> string \<Rightarrow> tool_request" where
  "tool_request role tool risk version =
     \<lparr>tr_role = role, tr_tool = tool, tr_risk = risk, tr_side_effect = ''none'', tr_approval_required = False,
      tr_sandbox_required = False, tr_idempotency_required = False, tr_subject = JNull, tr_resource = JNull,
      tr_context = JNull, tr_signals = JNull, tr_runtime_state = JNull, tr_version = version\<rparr>"

definition for_tool :: "tool_request \<Rightarrow> policy_request" where
  "for_tool t =
     \<lparr>pr_stage = ''tool'',
      pr_subject = JObj (dict_update [(''kind'', JStr ''agent''), (''role'', JStr (tr_role t))]
        (entries (py_or (tr_subject t) (JObj [])))),
      pr_action = JObj [(''kind'', JStr ''tool''), (''name'', JStr (tr_tool t)), (''risk_level'', JStr (tr_risk t)),
        (''side_effect'', JStr (tr_side_effect t)), (''approval_required'', JBool (tr_approval_required t)),
        (''sandbox_required'', JBool (tr_sandbox_required t)),
        (''idempotency_required'', JBool (tr_idempotency_required t))],
      pr_resource = py_or (tr_resource t) (JObj [(''kind'', JStr ''tool''), (''name'', JStr (tr_tool t))]),
      pr_context = py_or (tr_context t) (JObj []),
      pr_signals = py_or (tr_signals t) (JObj []),
      pr_runtime_state = py_or (tr_runtime_state t) (JObj []),
      pr_version = tr_version t\<rparr>"

definition allowed :: "policy_decision \<Rightarrow> bool" where
  "allowed d \<longleftrightarrow> pd_effect d = Allow"

definition requires_control :: "policy_decision \<Rightarrow> string \<Rightarrow> bool" where
  "requires_control d kind \<longleftrightarrow> (\<exists>c\<in>set (pd_controls d). ct_kind c = kind)"

definition requires_approval :: "policy_decision \<Rightarrow> bool" where
  "requires_approval d \<longleftrightarrow> pd_effect d = RequireApproval \<or> requires_control d ''approval''"

definition requires_sandbox :: "policy_decision \<Rightarrow> bool" where
  "requires_sandbox d \<longleftrightarrow> requires_control d ''sandbox''"

definition primary_reason :: "policy_decision \<Rightarrow> string" where
  "primary_reason d =
     (case pd_reasons d of
        r # _ \<Rightarrow> r
      | [] \<Rightarrow> (case pd_effect d of Allow \<Rightarrow> ''policy allowed'' | RequireApproval \<Rightarrow> ''approval required''
               | Deny \<Rightarrow> ''policy denied''))"

definition decision_to_dict :: "policy_decision \<Rightarrow> json" where
  "decision_to_dict d = JObj ([(''effect'', JStr (effect_text (pd_effect d))), (''allowed'', JBool (allowed d)),
     (''action_tier'', JStr (pd_tier d)), (''risk_level'', JStr (pd_risk d)),
     (''controls'', JList (map control_to_dict (pd_controls d))), (''reasons'', JList (map JStr (pd_reasons d))),
     (''findings'', JList (map finding_to_dict (pd_findings d))), (''policy_version'', JStr (pd_version d))] @
     (case pd_scope d of None \<Rightarrow> [] | Some s \<Rightarrow> [(''subject_scope'', JStr s)]) @
     (case pd_delegation d of None \<Rightarrow> [] | Some b \<Rightarrow> [(''delegation_allowed'', JBool b)]))"

section \<open>Tiers\<close>

text \<open>The truthy value among two entries of the request, as \<open>bool(a or b)\<close>.\<close>

definition flagged :: "policy_request \<Rightarrow> string \<Rightarrow> bool" where
  "flagged r key \<longleftrightarrow> truthy (py_or (get_none (pr_action r) key) (get_none (pr_signals r) key))"

fun explicit_tier :: "json \<Rightarrow> string option" where
  "explicit_tier (JStr s) = (if s \<in> set ACTION_TIERS then Some s else None)"
| "explicit_tier _ = None"

definition infer_action_tier :: "(rat \<Rightarrow> string) \<Rightarrow> policy_request \<Rightarrow> string" where
  "infer_action_tier fr r =
     (case explicit_tier (py_or (get_none (pr_action r) ''action_tier'') (get_none (pr_signals r) ''action_tier'')) of
        Some t \<Rightarrow> t
      | None \<Rightarrow>
          let action_kind = lower (py_str fr (py_or (get_none (pr_action r) ''kind'') (JStr (pr_stage r))));
              side_effect = lower (py_str fr (py_or (get_none (pr_action r) ''side_effect'') (JStr ''none''))) in
          if flagged r ''sandbox_required'' then ''L5''
          else if action_kind \<in> set [''code'', ''browser'', ''shell''] then ''L5''
          else if side_effect \<in> set [''external_write'', ''external'', ''destructive'', ''financial_or_legal''] then ''L4''
          else if side_effect \<in> set [''local_write'', ''artifact_write''] then ''L3''
          else if action_kind \<in> set [''rag'', ''retrieval''] then ''L1''
          else if action_kind \<in> set [''answer'', ''model'', ''model_call''] then ''L0''
          else ''L2'')"

text \<open>\<open>ACTION_TIERS.index\<close>; \<open>None\<close> is its \<open>ValueError\<close>.\<close>

fun index_of :: "string list \<Rightarrow> string \<Rightarrow> nat option" where
  "index_of [] x = None"
| "index_of (y # ys) x = (if y = x then Some 0 else map_option Suc (index_of ys x))"

definition max_action_tier :: "string \<Rightarrow> string \<Rightarrow> string" where
  "max_action_tier left right =
     (case (index_of ACTION_TIERS left, index_of ACTION_TIERS right) of
        (Some i, Some j) \<Rightarrow> if j \<le> i then left else right
      | _ \<Rightarrow> left)"

fun dedupe_from :: "string list \<Rightarrow> string list \<Rightarrow> string list" where
  "dedupe_from seen [] = []"
| "dedupe_from seen (v # vs) =
     (if v \<noteq> [] \<and> v \<notin> set seen then v # dedupe_from (v # seen) vs else dedupe_from seen vs)"

definition dedupe_preserve_order :: "string list \<Rightarrow> string list" where
  "dedupe_preserve_order vs = dedupe_from [] vs"

section \<open>Role tables\<close>

record policy_tables =
  allowed_tools :: "(string \<times> string list) list"
  roles :: "(string \<times> role_policy) list"
  default_by_risk :: dict
  table_version :: string

definition empty_role :: role_policy where
  "empty_role = \<lparr>allow_tools = None, deny_tools = [], allow_risk = None, deny_risk = []\<rparr>"

definition empty_tables :: policy_tables where
  "empty_tables = \<lparr>allowed_tools = [], roles = [], default_by_risk = [], table_version = DEFAULT_POLICY_VERSION\<rparr>"

definition add_name :: "string \<Rightarrow> string list \<Rightarrow> string list" where
  "add_name x xs = (if x \<in> set xs then xs else xs @ [x])"

definition allow_tool :: "string \<Rightarrow> string \<Rightarrow> policy_tables \<Rightarrow> policy_tables" where
  "allow_tool role tool_name t =
     (let names = (case map_of (allowed_tools t) role of None \<Rightarrow> [] | Some xs \<Rightarrow> xs);
          pol = (case map_of (roles t) role of None \<Rightarrow> empty_role\<lparr>allow_tools := Some []\<rparr> | Some p \<Rightarrow> p);
          mine = (case allow_tools pol of None \<Rightarrow> [] | Some xs \<Rightarrow> xs) in
      t\<lparr>allowed_tools := AList.update role (add_name tool_name names) (allowed_tools t),
        roles := AList.update role (pol\<lparr>allow_tools := Some (add_name tool_name mine)\<rparr>) (roles t)\<rparr>)"

record verdict =
  vd_allowed :: bool
  vd_reason :: string
  vd_rule :: string

definition role_policy_for :: "policy_tables \<Rightarrow> string \<Rightarrow> role_policy option" where
  "role_policy_for t role =
     (case map_of (roles t) role of
        Some p \<Rightarrow> Some p
      | None \<Rightarrow> map_option (\<lambda>names. empty_role\<lparr>allow_tools := Some names\<rparr>) (map_of (allowed_tools t) role))"

definition names_of :: "string list option \<Rightarrow> string list" where
  "names_of x = (case x of None \<Rightarrow> [] | Some xs \<Rightarrow> xs)"

definition check_role :: "string \<Rightarrow> string \<Rightarrow> string \<Rightarrow> role_policy \<Rightarrow> verdict option" where
  "check_role role tool_name risk p =
     (if tool_name \<in> set (deny_tools p)
        then Some \<lparr>vd_allowed = False, vd_reason = ''tool '' @ tool_name @ '' explicitly denied for role '' @ role,
                   vd_rule = ''role_deny_tool''\<rparr>
      else if tool_name \<in> set (names_of (allow_tools p))
        then Some \<lparr>vd_allowed = True, vd_reason = ''allowed by role policy'', vd_rule = ''role_allow_tool''\<rparr>
      else if risk \<in> set (deny_risk p)
        then Some \<lparr>vd_allowed = False, vd_reason = ''risk level '' @ risk @ '' denied for role '' @ role,
                   vd_rule = ''role_deny_risk''\<rparr>
      else if risk \<in> set (names_of (allow_risk p))
        then Some \<lparr>vd_allowed = True, vd_reason = ''risk level '' @ risk @ '' allowed for role '' @ role,
                   vd_rule = ''role_allow_risk''\<rparr>
      else if allow_tools p \<noteq> None \<or> allow_risk p \<noteq> None
        then Some \<lparr>vd_allowed = False, vd_reason = ''tool '' @ tool_name @ '' not allowed for role '' @ role,
                   vd_rule = ''role_allowlist_miss''\<rparr>
      else None)"

definition check_default :: "string \<Rightarrow> dict \<Rightarrow> verdict" where
  "check_default risk defaults =
     (let dflt = map_of defaults risk in
      if dflt = Some (JStr ''allow'')
        then \<lparr>vd_allowed = True, vd_reason = ''risk level '' @ risk @ '' allowed by default policy'',
              vd_rule = ''default_allow_risk''\<rparr>
      else if dflt = Some (JStr ''deny'')
        then \<lparr>vd_allowed = False, vd_reason = ''risk level '' @ risk @ '' denied by default policy'',
              vd_rule = ''default_deny_risk''\<rparr>
      else if risk \<in> set HIGH_RISK_LEVELS
        then \<lparr>vd_allowed = False, vd_reason = ''high-risk tool denied by default'', vd_rule = ''default_deny_high_risk''\<rparr>
      else \<lparr>vd_allowed = True, vd_reason = ''default allow for low/medium risk in local runtime'',
             vd_rule = ''default_allow_low_medium''\<rparr>)"

definition check_tool_policy :: "policy_tables \<Rightarrow> string \<Rightarrow> string \<Rightarrow> string \<Rightarrow> verdict" where
  "check_tool_policy t role tool_name risk =
     (case Option.bind (role_policy_for t role) (check_role role tool_name risk) of
        Some v \<Rightarrow> v
      | None \<Rightarrow> check_default risk (default_by_risk t))"

section \<open>Evaluators\<close>

record evaluator =
  ev_applies :: "policy_request \<Rightarrow> exn + bool"
  ev_evaluate :: "policy_request \<Rightarrow> exn + policy_finding list"

record policy_engine =
  en_tables :: policy_tables
  en_evaluators :: "evaluator list"

definition approval_status :: "(rat \<Rightarrow> string) \<Rightarrow> policy_request \<Rightarrow> string" where
  "approval_status fr r = upper (py_str fr (py_or (get_none (pr_runtime_state r) ''approval_status'') (JStr ''NONE'')))"

definition risk_level :: "(rat \<Rightarrow> string) \<Rightarrow> policy_request \<Rightarrow> string" where
  "risk_level fr r = py_str fr (py_or (get_none (pr_action r) ''risk_level'') (JStr ''low''))"

definition strs :: "string list \<Rightarrow> json" where
  "strs xs = JList (map JStr xs)"

definition eval_role_capability :: "(rat \<Rightarrow> string) \<Rightarrow> policy_tables \<Rightarrow> policy_request \<Rightarrow> policy_finding list" where
  "eval_role_capability fr t r =
     (let role = py_str fr (py_or (get_none (pr_subject r) ''role'') (py_or (get_none (pr_subject r) ''id'') (JStr [])));
          tool_name = py_str fr (py_or (get_none (pr_action r) ''name'') (JStr []));
          risk = risk_level fr r;
          result = check_tool_policy t role tool_name risk;
          (ok, effect, severity, controls, reason) =
            (if vd_rule result = ''default_deny_high_risk'' \<and> flagged r ''approval_required'' then
               (if approval_status fr r = ''APPROVED''
                then (True, Allow, ''info'', [''audit''], ''high-risk action approved by policy gate'')
                else (vd_allowed result, RequireApproval, ''warning'', [''approval'', ''audit''],
                  ''high-risk action requires approval by default''))
             else if vd_allowed result then (True, Allow, ''info'', [], vd_reason result)
             else (False, Deny, ''critical'', [''deny'', ''audit''], vd_reason result)) in
      [finding (vd_rule result) severity ''role_capability'' reason
        [(''role'', JStr role), (''tool'', JStr tool_name), (''risk_level'', JStr risk),
         (''allowed'', JBool ok), (''decision_effect'', JStr (effect_text effect)), (''controls'', strs controls),
         (''matched_rule'', JStr (vd_rule result))]])"

definition eval_action_boundary :: "(rat \<Rightarrow> string) \<Rightarrow> policy_request \<Rightarrow> policy_finding list" where
  "eval_action_boundary fr r =
     (let tier = infer_action_tier fr r; risk = risk_level fr r; approval = flagged r ''approval_required'';
          status = approval_status fr r;
          mk = (\<lambda>i sev msg ev. finding i sev ''action_boundary'' msg ev) in
      [mk ''action_tier_inferred'' ''info'' (''action tier inferred as '' @ tier) [(''action_tier'', JStr tier)]] @
      (if status = ''DENIED'' then
         [mk ''approval_denied'' ''critical'' ''approval denied for action''
            [(''decision_effect'', JStr ''deny''), (''controls'', strs [''deny'', ''audit'']),
             (''approval_status'', JStr status)]]
       else if approval \<and> status \<noteq> ''APPROVED'' then
         [mk ''approval_required'' ''warning'' ''approval required before action execution''
            [(''decision_effect'', JStr ''require_approval''), (''controls'', strs [''approval'', ''audit'']),
             (''approval_status'', JStr status), (''risk_level'', JStr risk)]]
       else if approval \<and> status = ''APPROVED'' then
         [mk ''approval_satisfied'' ''info'' ''approval already satisfied''
            [(''approval_status'', JStr status), (''controls'', strs [''audit''])]]
       else []) @
      (if flagged r ''sandbox_required'' then
         [mk ''sandbox_required'' ''info'' ''sandbox boundary required for action''
            [(''controls'', strs [''sandbox'', ''audit''])]]
       else []))"

text \<open>Values that can be members of a set or keys of a dict.\<close>

fun hashable :: "json \<Rightarrow> bool" where
  "hashable (JList _) = False"
| "hashable (JObj _) = False"
| "hashable _ = True"

definition runtime_state_findings :: "(rat \<Rightarrow> string) \<Rightarrow> policy_request \<Rightarrow> policy_finding list" where
  "runtime_state_findings fr r =
     (let mode = lower (py_str fr (py_or (get_none (pr_runtime_state r) ''execution_mode'') (JStr [])));
          side_effect = py_str fr (py_or (get_none (pr_action r) ''side_effect'') (JStr ''none''));
          kind = get_none (pr_resource r) ''kind'';
          mk = (\<lambda>i msg ev. finding i ''info'' ''runtime_state'' msg ev) in
      (if mode = ''shadow'' \<and> side_effect \<noteq> ''none'' then
         [mk ''shadow_side_effect_boundary'' ''shadow mode requires side-effect replay or blocking''
           [(''controls'', strs [''audit'']), (''execution_mode'', JStr mode), (''side_effect'', JStr side_effect)]]
       else []) @
      (if truthy (get_none (pr_context r) ''parent_run_id'') \<or> get_none (pr_subject r) ''kind'' = JStr ''sub_agent'' then
         [mk ''delegation_context_present'' ''delegated or child-agent context included in policy request''
           [(''parent_run_id'', get_none (pr_context r) ''parent_run_id''),
            (''parent_step_id'', get_none (pr_context r) ''parent_step_id''),
            (''delegated_by'', get_none (pr_context r) ''delegated_by'')]]
       else []) @
      (if kind = JStr ''media_artifact'' \<or> kind = JStr ''stream_checkpoint'' then
         [mk ''media_resource_boundary'' ''media or stream resource is governed as a durable runtime reference''
           [(''resource_kind'', kind), (''controls'', strs [''audit''])]]
       else []))"

definition eval_runtime_state :: "(rat \<Rightarrow> string) \<Rightarrow> policy_request \<Rightarrow> exn + policy_finding list" where
  "eval_runtime_state fr r =
     (if hashable (get_none (pr_resource r) ''kind'') then Inr (runtime_state_findings fr r)
      else Inl (unhashable (get_none (pr_resource r) ''kind'')))"

definition always_applies :: "policy_request \<Rightarrow> exn + bool" where
  "always_applies r = Inr True"

definition default_evaluators :: "(rat \<Rightarrow> string) \<Rightarrow> policy_tables \<Rightarrow> evaluator list" where
  "default_evaluators fr t =
     [\<lparr>ev_applies = always_applies, ev_evaluate = (\<lambda>r. Inr (eval_role_capability fr t r))\<rparr>,
      \<lparr>ev_applies = always_applies, ev_evaluate = (\<lambda>r. Inr (eval_action_boundary fr r))\<rparr>,
      \<lparr>ev_applies = always_applies, ev_evaluate = eval_runtime_state fr\<rparr>]"

section \<open>Composition\<close>

text \<open>The strings met when Python iterates over \<open>v or []\<close>.\<close>

fun iter_strings :: "json \<Rightarrow> exn + string list" where
  "iter_strings (JList xs) = Inr (concat (map (\<lambda>x. case x of JStr s \<Rightarrow> [s] | _ \<Rightarrow> []) xs))"
| "iter_strings (JStr s) = Inr (map (\<lambda>c. [c]) s)"
| "iter_strings (JObj es) = Inr (map fst es)"
| "iter_strings v = (if truthy v then Inl (not_iterable v) else Inr [])"

record composing =
  cm_effect :: effect
  cm_controls :: "(string \<times> policy_control) list"
  cm_reasons :: "string list"
  cm_tier :: string

definition control :: "string \<Rightarrow> string \<Rightarrow> policy_control" where
  "control kind reason = \<lparr>ct_kind = kind, ct_reason = reason, ct_metadata = JObj []\<rparr>"

definition setdefault :: "'k \<Rightarrow> 'v \<Rightarrow> ('k \<times> 'v) list \<Rightarrow> ('k \<times> 'v) list" where
  "setdefault k v m = (if map_of m k = None then m @ [(k, v)] else m)"

definition decision_effect :: "policy_finding \<Rightarrow> effect" where
  "decision_effect f =
     (if get_none (f_evidence f) ''decision_effect'' = JStr ''deny'' then Deny
      else if get_none (f_evidence f) ''decision_effect'' = JStr ''require_approval'' then RequireApproval
      else Allow)"

definition join_effect :: "effect \<Rightarrow> effect \<Rightarrow> effect" where
  "join_effect found effect =
     (if found = Deny then Deny
      else if found = RequireApproval \<and> effect \<noteq> Deny then RequireApproval
      else effect)"

definition compose_finding :: "policy_finding \<Rightarrow> composing \<Rightarrow> exn + composing" where
  "compose_finding f c =
     bindE (iter_strings (get_none (f_evidence f) ''controls'')) (\<lambda>kinds.
     Inr \<lparr>cm_effect = join_effect (decision_effect f) (cm_effect c),
          cm_controls = fold (\<lambda>k. setdefault k (control k (f_message f))) kinds (cm_controls c),
          cm_reasons = cm_reasons c @ [f_message f],
          cm_tier = (case get_none (f_evidence f) ''action_tier'' of
             JStr t \<Rightarrow> max_action_tier (cm_tier c) t | _ \<Rightarrow> cm_tier c)\<rparr>)"

definition compose :: "(rat \<Rightarrow> string) \<Rightarrow> policy_request \<Rightarrow> policy_finding list \<Rightarrow> string \<Rightarrow> exn + policy_decision" where
  "compose fr r findings version =
     bindE (foldE compose_finding findings
       \<lparr>cm_effect = Allow, cm_controls = [(''audit'', control ''audit'' ''runtime decision must be recorded'')],
        cm_reasons = [], cm_tier = infer_action_tier fr r\<rparr>) (\<lambda>c.
     let c1 = (if cm_effect c = Deny
               then setdefault ''deny'' (control ''deny'' ''policy decision denied the action'') (cm_controls c)
               else cm_controls c);
         c2 = (if cm_effect c = RequireApproval
               then setdefault ''approval'' (control ''approval'' ''policy decision requires approval'') c1 else c1);
         scope = py_str fr (py_or (get_none (pr_subject r) ''role'') (py_or (get_none (pr_subject r) ''kind'') (JStr [])))
     in Inr \<lparr>pd_effect = cm_effect c, pd_tier = cm_tier c, pd_risk = risk_level fr r,
          pd_controls = map snd (sort_key fst c2), pd_reasons = dedupe_preserve_order (cm_reasons c),
          pd_findings = findings, pd_version = version, pd_scope = (if scope = [] then None else Some scope),
          pd_delegation = (case get_none (pr_context r) ''delegation_allowed'' of JBool b \<Rightarrow> Some b | _ \<Rightarrow> None)\<rparr>)"

section \<open>The engine\<close>

definition register_evaluator :: "evaluator \<Rightarrow> policy_engine \<Rightarrow> policy_engine" where
  "register_evaluator e en = en\<lparr>en_evaluators := en_evaluators en @ [e]\<rparr>"

definition run_evaluator :: "policy_request \<Rightarrow> evaluator \<Rightarrow> policy_finding list \<Rightarrow> exn + policy_finding list" where
  "run_evaluator r e findings =
     bindE (ev_applies e r) (\<lambda>applies.
     if applies then bindE (ev_evaluate e r) (\<lambda>more. Inr (findings @ more)) else Inr findings)"

definition evaluate :: "(rat \<Rightarrow> string) \<Rightarrow> policy_engine \<Rightarrow> policy_request \<Rightarrow> exn + policy_decision" where
  "evaluate fr en r =
     (let evaluators = (if en_evaluators en \<noteq> [] then en_evaluators en else default_evaluators fr (en_tables en)) in
      bindE (foldE (run_evaluator r) evaluators []) (\<lambda>findings.
      compose fr r findings (if pr_version r \<noteq> [] then pr_version r else table_version (en_tables en))))"

definition check_tool :: "(rat \<Rightarrow> string) \<Rightarrow> policy_engine \<Rightarrow> string \<Rightarrow> string \<Rightarrow> string \<Rightarrow> exn + bool \<times> string" where
  "check_tool fr en role tool_name risk =
     bindE (evaluate fr en (for_tool (tool_request role tool_name risk (table_version (en_tables en)))))
       (\<lambda>d. Inr (allowed d, primary_reason d))"

definition explain :: "(rat \<Rightarrow> string) \<Rightarrow> policy_engine \<Rightarrow> string \<Rightarrow> string \<Rightarrow> string \<Rightarrow> exn + json" where
  "explain fr en role tool_name risk =
     bindE (evaluate fr en (for_tool (tool_request role tool_name risk (table_version (en_tables en)))))
       (\<lambda>d. Inr (JObj [(''role'', JStr role), (''tool'', JStr tool_name), (''risk_level'', JStr risk),
          (''allowed'', JBool (allowed d)), (''reason'', JStr (primary_reason d)), (''decision'', decision_to_dict d)]))"

section \<open>Tables from documents\<close>

text \<open>\<open>set(v or [])\<close>; names that are not strings match no tool and are left out.\<close>

fun name_set :: "json \<Rightarrow> exn + string list" where
  "name_set (JList xs) =
     (case List.find (\<lambda>x. \<not> hashable x) xs of Some x \<Rightarrow> Inl (unhashable x) | None \<Rightarrow> iter_strings (JList xs))"
| "name_set v = iter_strings v"

definition optional_set :: "json \<Rightarrow> exn + string list option" where
  "optional_set v = (if v = JNull then Inr None else bindE (name_set v) (\<lambda>xs. Inr (Some xs)))"

text \<open>\<open>v.get(key)\<close> on something that may not be a dict.\<close>

fun get_attr :: "json \<Rightarrow> string \<Rightarrow> exn + json" where
  "get_attr (JObj es) k = Inr (get_none (JObj es) k)"
| "get_attr v k = Inl (attribute_error v ''get'')"

definition role_from_dict :: "json \<Rightarrow> exn + role_policy" where
  "role_from_dict value =
     (let v = py_or value (JObj []) in
      bindE (bindE (get_attr v ''allow_tools'') optional_set) (\<lambda>atools.
      bindE (bindE (get_attr v ''deny_tools'') name_set) (\<lambda>dt.
      bindE (bindE (get_attr v ''allow_risk'') optional_set) (\<lambda>ar.
      bindE (bindE (get_attr v ''deny_risk'') name_set) (\<lambda>dr.
      Inr \<lparr>allow_tools = atools, deny_tools = dt, allow_risk = ar, deny_risk = dr\<rparr>)))))"

text \<open>The elements a \<open>for\<close> loop sees.\<close>

fun iterate :: "json \<Rightarrow> exn + json list" where
  "iterate (JList xs) = Inr xs"
| "iterate (JStr s) = Inr (map (\<lambda>c. JStr [c]) s)"
| "iterate (JObj es) = Inr (map (\<lambda>e. JStr (fst e)) es)"
| "iterate v = Inl (not_iterable v)"

text \<open>
  \<open>dict(v)\<close>: a dict, or pairs. A pair is anything with two elements; a key that is no string is left out, as no risk level
  finds it.
\<close>

definition update_pair :: "nat \<Rightarrow> json \<Rightarrow> dict \<Rightarrow> exn + dict" where
  "update_pair i x acc =
     (case iterate x of
        Inl _ \<Rightarrow> Inl (Exn TypeError (''cannot convert dictionary update sequence element #'' @ nat_str i @ '' to a sequence''))
      | Inr ys \<Rightarrow>
          if length ys \<noteq> 2 then
            Inl (Exn ValueError (''dictionary update sequence element #'' @ nat_str i @ '' has length '' @ nat_str (length ys) @ ''; 2 is required''))
          else if \<not> hashable (ys ! 0) then Inl (unhashable (ys ! 0))
          else Inr (case ys ! 0 of JStr k \<Rightarrow> AList.update k (ys ! 1) acc | _ \<Rightarrow> acc))"

fun dict_of_pairs :: "nat \<Rightarrow> json list \<Rightarrow> dict \<Rightarrow> exn + dict" where
  "dict_of_pairs i [] acc = Inr acc"
| "dict_of_pairs i (x # xs) acc = bindE (update_pair i x acc) (dict_of_pairs (Suc i) xs)"

fun py_dict :: "json \<Rightarrow> exn + dict" where
  "py_dict (JObj es) = Inr es"
| "py_dict v = bindE (iterate v) (\<lambda>xs. dict_of_pairs 0 xs [])"

definition from_dict :: "(rat \<Rightarrow> string) \<Rightarrow> dict \<Rightarrow> exn + policy_engine" where
  "from_dict fr data =
     (let defaults = py_or (get_none (JObj data) ''defaults'') (JObj []);
          roles_data = py_or (get_none (JObj data) ''roles'') (JObj []) in
      case roles_data of
        JObj rs \<Rightarrow>
          bindE (mapE (\<lambda>r. bindE (role_from_dict (snd r)) (\<lambda>p. Inr (fst r, p))) rs) (\<lambda>tables.
          bindE (py_dict defaults) (\<lambda>ds.
          Inr \<lparr>en_tables = \<lparr>allowed_tools = [], roles = tables, default_by_risk = ds,
              table_version = py_str fr (py_or (get_none (JObj data) ''version'') (JStr DEFAULT_POLICY_VERSION))\<rparr>,
            en_evaluators = []\<rparr>))
      | v \<Rightarrow> Inl (attribute_error v ''items''))"

end
