(* ===== verification/Policy_Spec.thy ===== *)
theory Policy_Spec
  imports Policy
begin

text \<open>
  What the policy engine decides. The effect of a composed decision is the strictest one any finding
  asks for, so it does not depend on their order; the built-in evaluators make it a table of four
  questions; role tables give deny lists precedence; and what a registered evaluator replaces.
\<close>

section \<open>Composition\<close>

lemma join_effect_max: "join_effect a b = max a b"
  by (cases a; cases b) (simp_all add: join_effect_def max_def less_eq_effect_def)

lemma effect_bounds: "Allow \<le> e" "e \<le> Deny"
  by (cases e; simp add: less_eq_effect_def)+

lemma compose_finding_effect:
  "compose_finding f c = Inr c' \<Longrightarrow> cm_effect c' = max (decision_effect f) (cm_effect c)"
  by (auto simp: compose_finding_def bindE_Inr_iff join_effect_max)

lemma Max_insert_max:
  "finite S \<Longrightarrow> Max (insert (max a b) S) = Max (insert b (insert a S))"
  by (cases "S = {}") (simp_all add: ac_simps)

lemma compose_all_effect:
  "foldE compose_finding fs c = Inr c' \<Longrightarrow> cm_effect c' = Max (insert (cm_effect c) (decision_effect ` set fs))"
proof (induction fs arbitrary: c)
  case (Cons f fs)
  then obtain d where d: "compose_finding f c = Inr d" "foldE compose_finding fs d = Inr c'"
    by (auto simp: bindE_Inr_iff)
  have "cm_effect c' = Max (insert (cm_effect d) (decision_effect ` set fs))" using Cons.IH d(2) by blast
  also have "\<dots> = Max (insert (cm_effect c) (decision_effect ` set (f # fs)))"
    by (simp only: compose_finding_effect [OF d(1)] Max_insert_max finite_imageI finite_set list.set image_insert)
  finally show ?case .
qed simp

lemma compose_effect:
  "compose fr r fs v = Inr d \<Longrightarrow> pd_effect d = Max (insert Allow (decision_effect ` set fs))"
  by (auto simp: compose_def bindE_Inr_iff Let_def dest: compose_all_effect)

text \<open>
  The strictest finding decides: the effect of a decision is the maximum, in the order
  allow, require approval, deny, of what the findings ask for, and allow if none asks for anything.
  The order of the findings does not matter.
\<close>
theorem strictest_finding_decides:
  assumes "compose fr r fs v = Inr d"
  shows "pd_effect d = Max (insert Allow (decision_effect ` set fs)) \<and>
    (mset gs = mset fs \<and> compose fr r gs v' = Inr d' \<longrightarrow> pd_effect d' = pd_effect d)"
  using compose_effect [OF assms] by (auto dest!: compose_effect mset_eq_setD)

text \<open>What a finding does to the controls: it only adds.\<close>

lemma setdefault_keys: "fst ` set (setdefault k v m) = insert k (fst ` set m)"
  by (auto simp: setdefault_def map_of_eq_None_iff)

lemma setdefault_distinct: "distinct (map fst m) \<Longrightarrow> distinct (map fst (setdefault k v m))"
  by (auto simp: setdefault_def map_of_eq_None_iff)

definition named :: "(string \<times> policy_control) list \<Rightarrow> bool" where
  "named m \<longleftrightarrow> distinct (map fst m) \<and> (\<forall>p\<in>set m. ct_kind (snd p) = fst p)"

lemma named_setdefault: "named m \<Longrightarrow> named (setdefault k (control k why) m)"
  unfolding named_def by (auto simp: setdefault_distinct) (auto simp: setdefault_def control_def split: if_splits)

lemma named_fold: "named m \<Longrightarrow> named (fold (\<lambda>k. setdefault k (control k why)) ks m)"
  by (induction ks arbitrary: m) (simp_all add: named_setdefault)

lemma fold_setdefault_keys:
  "fst ` set (fold (\<lambda>k. setdefault k (g k)) ks m) = set ks \<union> fst ` set m"
  by (induction ks arbitrary: m) (auto simp: setdefault_keys)

lemma compose_all_controls:
  "foldE compose_finding fs c = Inr c' \<Longrightarrow> named (cm_controls c) \<Longrightarrow>
    named (cm_controls c') \<and> fst ` set (cm_controls c) \<subseteq> fst ` set (cm_controls c')"
proof (induction fs arbitrary: c)
  case (Cons f fs)
  then obtain d where d: "compose_finding f c = Inr d" "foldE compose_finding fs d = Inr c'"
    by (auto simp: bindE_Inr_iff)
  from d(1) obtain ks where "cm_controls d = fold (\<lambda>k. setdefault k (control k (f_message f))) ks (cm_controls c)"
    by (auto simp: compose_finding_def bindE_Inr_iff)
  with Cons.prems(2) have "named (cm_controls d) \<and> fst ` set (cm_controls c) \<subseteq> fst ` set (cm_controls d)"
    by (simp add: named_fold fold_setdefault_keys)
  with Cons.IH [OF d(2)] show ?case by blast
qed simp

lemma sorted_controls:
  assumes "named m"
  shows "map ct_kind (map snd (sort_key fst m)) = map fst (sort_key fst m)"
    and "sorted_wrt (<) (map fst (sort_key fst m))"
proof -
  show "map ct_kind (map snd (sort_key fst m)) = map fst (sort_key fst m)"
    using assms by (simp add: named_def)
  have "mset (map fst (sort_key fst m)) = mset (map fst m)" by simp
  then have "distinct (map fst (sort_key fst m))"
    using assms by (metis mset_eq_imp_distinct_iff named_def)
  then show "sorted_wrt (<) (map fst (sort_key fst m))" by (simp add: strict_sorted_iff)
qed

text \<open>
  Every decision orders the audit record, a denial also the deny control and a demand for approval the
  approval control; the controls are sorted by kind, without repetition.
\<close>
theorem decision_controls:
  assumes "compose fr r fs v = Inr d"
  shows "requires_control d ''audit'' \<and>
    (pd_effect d = Deny \<longrightarrow> requires_control d ''deny'') \<and>
    (pd_effect d = RequireApproval \<longrightarrow> requires_control d ''approval'') \<and>
    sorted_wrt (<) (map ct_kind (pd_controls d))"
proof -
  obtain c where c: "foldE compose_finding fs
       \<lparr>cm_effect = Allow, cm_controls = [(''audit'', control ''audit'' ''runtime decision must be recorded'')],
        cm_reasons = [], cm_tier = infer_action_tier fr r\<rparr> = Inr c"
    using assms by (auto simp: compose_def bindE_Inr_iff)
  let ?c1 = "if cm_effect c = Deny
             then setdefault ''deny'' (control ''deny'' ''policy decision denied the action'') (cm_controls c)
             else cm_controls c"
  let ?c2 = "if cm_effect c = RequireApproval
             then setdefault ''approval'' (control ''approval'' ''policy decision requires approval'') ?c1 else ?c1"
  have "named (cm_controls c) \<and> ''audit'' \<in> fst ` set (cm_controls c)"
    using compose_all_controls [OF c] by (simp add: named_def control_def)
  then have named: "named ?c2" and audit: "''audit'' \<in> fst ` set ?c2"
    by (auto simp: named_setdefault setdefault_keys)
  have d: "pd_controls d = map snd (sort_key fst ?c2)" "pd_effect d = cm_effect c"
    using assms c by (auto simp: compose_def Let_def)
  have kinds: "requires_control d k \<longleftrightarrow> k \<in> fst ` set ?c2" for k
  proof -
    have "requires_control d k \<longleftrightarrow> k \<in> set (map ct_kind (pd_controls d))"
      by (auto simp: requires_control_def)
    also have "\<dots> \<longleftrightarrow> k \<in> fst ` set ?c2"
      unfolding d(1) sorted_controls(1) [OF named] by (simp only: set_map set_sort)
    finally show ?thesis .
  qed
  have "sorted_wrt (<) (map ct_kind (pd_controls d))"
    unfolding d(1) sorted_controls(1) [OF named] by (rule sorted_controls(2) [OF named])
  with audit show ?thesis unfolding kinds d(2) by (auto simp: setdefault_keys)
qed

section \<open>The built-in evaluators\<close>

lemma iter_strings_strs: "iter_strings (strs xs) = Inr xs"
proof -
  have "concat (map (\<lambda>x. case x of JStr s \<Rightarrow> [s] | _ \<Rightarrow> []) (map JStr xs)) = xs" by (induction xs) simp_all
  then show ?thesis by (simp add: strs_def)
qed

text \<open>Findings whose controls the composer can read.\<close>

definition readable :: "policy_finding \<Rightarrow> bool" where
  "readable f \<longleftrightarrow> (\<exists>ks. iter_strings (get_none (f_evidence f) ''controls'') = Inr ks)"

lemma compose_readable:
  assumes "\<forall>f\<in>set fs. readable f"
  shows "\<exists>d. compose fr r fs v = Inr d"
proof -
  have "\<exists>c'. foldE compose_finding fs c = Inr c'" for c
    using assms by (induction fs arbitrary: c) (auto simp: readable_def compose_finding_def)
  then obtain c' where "foldE compose_finding fs
     \<lparr>cm_effect = Allow, cm_controls = [(''audit'', control ''audit'' ''runtime decision must be recorded'')],
      cm_reasons = [], cm_tier = infer_action_tier fr r\<rparr> = Inr c'" by blast
  then show ?thesis by (simp add: compose_def Let_def)
qed

definition the_role :: "(rat \<Rightarrow> string) \<Rightarrow> policy_request \<Rightarrow> string" where
  "the_role fr r = py_str fr (py_or (get_none (pr_subject r) ''role'') (py_or (get_none (pr_subject r) ''id'') (JStr [])))"

definition the_tool :: "(rat \<Rightarrow> string) \<Rightarrow> policy_request \<Rightarrow> string" where
  "the_tool fr r = py_str fr (py_or (get_none (pr_action r) ''name'') (JStr []))"

definition table_verdict :: "(rat \<Rightarrow> string) \<Rightarrow> policy_tables \<Rightarrow> policy_request \<Rightarrow> verdict" where
  "table_verdict fr t r = check_tool_policy t (the_role fr r) (the_tool fr r) (risk_level fr r)"

definition role_answer :: "(rat \<Rightarrow> string) \<Rightarrow> policy_tables \<Rightarrow> policy_request \<Rightarrow> effect" where
  "role_answer fr t r =
     (let v = table_verdict fr t r in
     if vd_rule v = ''default_deny_high_risk'' \<and> flagged r ''approval_required''
     then (if approval_status fr r = ''APPROVED'' then Allow else RequireApproval)
     else if vd_allowed v then Allow else Deny)"

lemma readable_finding:
  "readable (finding i sev src msg es) \<longleftrightarrow> (\<exists>ks. iter_strings (get_none (JObj es) ''controls'') = Inr ks)"
  by (simp add: readable_def finding_def)

lemma effect_finding:
  "decision_effect (finding i sev src msg es) =
    (if map_of es ''decision_effect'' = Some (JStr ''deny'') then Deny
     else if map_of es ''decision_effect'' = Some (JStr ''require_approval'') then RequireApproval
     else Allow)"
  by (simp add: decision_effect_def finding_def get_or_JObj split: option.split)

lemma role_evidence:
  defines "es role tool_name risk ok effect controls rule \<equiv>
    [(''role'', JStr role), (''tool'', JStr tool_name), (''risk_level'', JStr risk),
     (''allowed'', JBool ok), (''decision_effect'', JStr (effect_text effect)), (''controls'', strs controls),
     (''matched_rule'', JStr rule)]"
  shows "readable (finding i sev src msg (es role tool_name risk ok effect controls rule))"
    and "decision_effect (finding i sev src msg (es role tool_name risk ok effect controls rule)) = effect"
  by (simp add: readable_finding es_def get_or_JObj iter_strings_strs)
    (cases effect; simp add: effect_finding es_def)

lemma role_finding:
  "\<exists>f. eval_role_capability fr t r = [f] \<and> readable f \<and> decision_effect f = role_answer fr t r"
proof -
  define v where "v = table_verdict fr t r"
  have v: "check_tool_policy t (py_str fr (py_or (get_none (pr_subject r) ''role'')
      (py_or (get_none (pr_subject r) ''id'') (JStr [])))) (py_str fr (py_or (get_none (pr_action r) ''name'') (JStr [])))
      (risk_level fr r) = v"
    by (simp add: v_def table_verdict_def the_role_def the_tool_def)
  show ?thesis
    unfolding eval_role_capability_def Let_def v role_answer_def v_def [symmetric]
    by (cases "vd_rule v = ''default_deny_high_risk'' \<and> flagged r ''approval_required''";
        cases "approval_status fr r = ''APPROVED''"; cases "vd_allowed v";
        simp add: role_evidence del: effect_text.simps)
qed

lemma ball_if_list:
  "(\<forall>f\<in>set (if c then xs else ys). P f) = (if c then \<forall>f\<in>set xs. P f else \<forall>f\<in>set ys. P f)"
  by simp

lemma boundary_findings: "\<forall>f\<in>set (eval_action_boundary fr r). readable f"
  unfolding eval_action_boundary_def Let_def set_append ball_Un ball_if_list
  by (simp add: readable_finding get_or_JObj iter_strings_strs)

lemma runtime_findings: "\<forall>f\<in>set (runtime_state_findings fr r). readable f \<and> decision_effect f = Allow"
  unfolding runtime_state_findings_def Let_def set_append ball_Un ball_if_list
  by (simp add: readable_finding effect_finding get_or_JObj iter_strings_strs)

lemma Max_effects:
  "finite A \<Longrightarrow> finite B \<Longrightarrow> Max (insert Allow (A \<union> B)) = max (Max (insert Allow A)) (Max (insert (Allow :: effect) B))"
proof -
  assume "finite A" "finite B"
  then have "Max (insert Allow A \<union> insert Allow B) = max (Max (insert Allow A)) (Max (insert (Allow :: effect) B))"
    by (intro Max_Un) simp_all
  then show ?thesis by simp
qed

lemma Max_three_effects:
  assumes "finite A" and "finite B"
  shows "Max (insert Allow (insert x (A \<union> B))) = max x (max (Max (insert Allow A)) (Max (insert Allow B)))"
proof -
  have "Max (insert Allow ({x} \<union> (A \<union> B))) = max (Max (insert Allow {x})) (Max (insert Allow (A \<union> B)))"
    using assms by (intro Max_effects) simp_all
  also have "Max (insert Allow {x}) = x" by (simp add: max_def effect_bounds)
  finally show ?thesis using assms by (simp add: Max_effects)
qed

lemma boundary_effect:
  "Max (insert Allow (decision_effect ` set (eval_action_boundary fr r))) =
    (if approval_status fr r = ''DENIED'' then Deny
     else if flagged r ''approval_required'' \<and> approval_status fr r \<noteq> ''APPROVED'' then RequireApproval
     else Allow)"
  unfolding eval_action_boundary_def Let_def
  by (cases "approval_status fr r = ''DENIED''"; cases "flagged r ''approval_required''";
      cases "approval_status fr r = ''APPROVED''"; cases "flagged r ''sandbox_required''";
      simp add: effect_finding max_def less_eq_effect_def)

text \<open>The decision of the built-in evaluators as a table.\<close>

definition builtin_effect :: "(rat \<Rightarrow> string) \<Rightarrow> policy_tables \<Rightarrow> policy_request \<Rightarrow> effect" where
  "builtin_effect fr t r =
     (let v = table_verdict fr t r; approval = flagged r ''approval_required''; status = approval_status fr r in
      if status = ''DENIED'' then Deny
      else if \<not> vd_allowed v \<and> \<not> (vd_rule v = ''default_deny_high_risk'' \<and> approval) then Deny
      else if approval \<and> status \<noteq> ''APPROVED'' then RequireApproval
      else Allow)"

lemma check_role_rule:
  "case check_role role tool_name risk p of None \<Rightarrow> True | Some v \<Rightarrow> vd_rule v \<noteq> ''default_deny_high_risk''"
  unfolding check_role_def by (simp split: if_split)

lemma check_default_denies:
  "vd_rule (check_default risk ds) = ''default_deny_high_risk'' \<longrightarrow> \<not> vd_allowed (check_default risk ds)"
  unfolding check_default_def Let_def by (simp split: if_split)

lemma check_default_rule:
  assumes "vd_rule (check_tool_policy t role tool_name risk) = ''default_deny_high_risk''"
  shows "\<not> vd_allowed (check_tool_policy t role tool_name risk)"
proof (cases "Option.bind (role_policy_for t role) (check_role role tool_name risk)")
  case None
  with assms check_default_denies [of risk "default_by_risk t"] show ?thesis
    by (simp only: check_tool_policy_def option.case not_False_eq_True simp_thms)
next
  case (Some v)
  then obtain p where "check_role role tool_name risk p = Some v" by (auto simp: bind_eq_Some_conv)
  then have "vd_rule v \<noteq> ''default_deny_high_risk''" using check_role_rule [of role tool_name risk p] by (simp only: option.case not_False_eq_True)
  moreover have "check_tool_policy t role tool_name risk = v"
    unfolding check_tool_policy_def Some option.case by (rule refl)
  ultimately show ?thesis using assms by metis
qed

lemma evaluate_builtin:
  assumes "en_evaluators en = []"
  shows "evaluate fr en r =
    (if hashable (get_none (pr_resource r) ''kind'') then
       compose fr r (eval_role_capability fr (en_tables en) r @ eval_action_boundary fr r @ runtime_state_findings fr r)
         (if pr_version r \<noteq> [] then pr_version r else table_version (en_tables en))
     else Inl (unhashable (get_none (pr_resource r) ''kind'')))"
  using assms
  by (simp add: evaluate_def default_evaluators_def run_evaluator_def always_applies_def eval_runtime_state_def)

lemma evaluate_builtin_effect:
  assumes "en_evaluators en = []" and "evaluate fr en r = Inr d"
  shows "pd_effect d = builtin_effect fr (en_tables en) r"
proof -
  let ?rs = "runtime_state_findings fr r"
  obtain f where f: "eval_role_capability fr (en_tables en) r = [f]"
    "decision_effect f = role_answer fr (en_tables en) r" using role_finding by blast
  have "decision_effect ` set ?rs \<subseteq> {Allow}" using runtime_findings by blast
  then have rs_max: "Max (insert Allow (decision_effect ` set ?rs)) = Allow"
    by (metis Max_singleton insert_absorb2 insert_absorb subset_singleton_iff)
  obtain v where "compose fr r ([f] @ eval_action_boundary fr r @ ?rs) v = Inr d"
    using assms(2) unfolding evaluate_builtin [OF assms(1)] f(1) by (auto split: if_splits)
  then have "pd_effect d = Max (insert Allow (decision_effect ` set ([f] @ eval_action_boundary fr r @ ?rs)))"
    by (rule compose_effect)
  also have "set ([f] @ eval_action_boundary fr r @ ?rs) = insert f (set (eval_action_boundary fr r) \<union> set ?rs)"
    by simp
  also have "Max (insert Allow (decision_effect ` \<dots>)) =
    max (role_answer fr (en_tables en) r) (if approval_status fr r = ''DENIED'' then Deny
     else if flagged r ''approval_required'' \<and> approval_status fr r \<noteq> ''APPROVED'' then RequireApproval else Allow)"
    unfolding image_insert image_Un
    by (simp only: Max_three_effects finite_imageI finite_set boundary_effect rs_max f(2))
      (simp add: max_def less_eq_effect_def)
  also have "\<dots> = builtin_effect fr (en_tables en) r"
    using check_default_rule [of "en_tables en" "the_role fr r" "the_tool fr r" "risk_level fr r"]
    by (auto simp: builtin_effect_def role_answer_def table_verdict_def Let_def max_def less_eq_effect_def)
  finally show ?thesis .
qed

text \<open>
  C5: The built-in evaluators decide by four questions and always decide: a denied approval denies; what the
  role tables forbid is denied unless it is the high-risk default and the tool asks for approval;
  what needs approval and has none waits for it; the rest is allowed.
\<close>
theorem builtin_policy_table:
  assumes "en_evaluators en = []" and "hashable (get_none (pr_resource r) ''kind'')"
  shows "\<exists>d. evaluate fr en r = Inr d \<and> pd_effect d = builtin_effect fr (en_tables en) r"
proof -
  obtain f where f: "eval_role_capability fr (en_tables en) r = [f]" "readable f" using role_finding by blast
  have "\<forall>g\<in>set ([f] @ eval_action_boundary fr r @ runtime_state_findings fr r). readable g"
    using f(2) boundary_findings runtime_findings by auto
  then obtain d where "evaluate fr en r = Inr d"
    using assms(2) f(1) compose_readable unfolding evaluate_builtin [OF assms(1)] by fastforce
  with evaluate_builtin_effect [OF assms(1)] show ?thesis by blast
qed

section \<open>Role tables\<close>

definition default_allows :: "string \<Rightarrow> dict \<Rightarrow> bool" where
  "default_allows risk defaults \<longleftrightarrow> map_of defaults risk = Some (JStr ''allow'') \<or>
     (map_of defaults risk \<noteq> Some (JStr ''deny'') \<and> risk \<notin> set HIGH_RISK_LEVELS)"

lemma check_default_allows: "vd_allowed (check_default risk defaults) \<longleftrightarrow> default_allows risk defaults"
  unfolding check_default_def default_allows_def Let_def by simp

text \<open>
  A role's tables, as a formula: a tool on the deny list is denied whatever else the role may do; then the allow list,
  denied risks and allowed risks decide in this order; a role with any allow list gets nothing else; the defaults
  by risk decide the rest, and high risks are denied by default.
\<close>
theorem role_table_verdict:
  "vd_allowed (check_tool_policy t role tool_name risk) \<longleftrightarrow>
     (case role_policy_for t role of
        None \<Rightarrow> default_allows risk (default_by_risk t)
      | Some p \<Rightarrow> tool_name \<notin> set (deny_tools p) \<and>
          (tool_name \<in> set (names_of (allow_tools p)) \<or>
           risk \<notin> set (deny_risk p) \<and>
           (risk \<in> set (names_of (allow_risk p)) \<or>
            allow_tools p = None \<and> allow_risk p = None \<and> default_allows risk (default_by_risk t))))"
  by (cases "role_policy_for t role")
    (simp_all add: check_tool_policy_def check_role_def check_default_allows names_of_def)

lemma map_of_update: "map_of (AList.update k v m) = (map_of m)(k \<mapsto> v)"
  by (rule update_conv')

text \<open>
  \<open>allow_tool\<close> permits the tool to the role whatever its risk, unless the role's deny list names it, and
  changes the verdict of no other role.
\<close>
theorem allow_tool_allows:
  assumes "\<forall>p. map_of (roles t) role = Some p \<longrightarrow> tool_name \<notin> set (deny_tools p)"
  shows "vd_allowed (check_tool_policy (allow_tool role tool_name t) role tool_name risk) \<and>
    (other \<noteq> role \<longrightarrow> check_tool_policy (allow_tool role tool_name t) other x risk = check_tool_policy t other x risk)"
proof
  let ?t = "allow_tool role tool_name t"
  have other: "other \<noteq> role \<Longrightarrow> role_policy_for ?t other = role_policy_for t other"
    and defaults: "default_by_risk ?t = default_by_risk t"
    unfolding role_policy_for_def allow_tool_def Let_def by (simp_all add: map_of_update cong: option.case_cong)
  obtain p where p: "role_policy_for ?t role = Some p" "tool_name \<in> set (names_of (allow_tools p))"
    "tool_name \<notin> set (deny_tools p)"
    using assms by (cases "map_of (roles t) role")
      (auto simp: role_policy_for_def allow_tool_def Let_def map_of_update names_of_def add_name_def empty_role_def)
  then have "check_role role tool_name risk p = Some \<lparr>vd_allowed = True, vd_reason = ''allowed by role policy'', vd_rule = ''role_allow_tool''\<rparr>"
    by (simp add: check_role_def)
  with p show "vd_allowed (check_tool_policy ?t role tool_name risk)"
    by (simp add: check_tool_policy_def)
  show "other \<noteq> role \<longrightarrow> check_tool_policy ?t other x risk = check_tool_policy t other x risk"
    by (simp add: check_tool_policy_def other defaults cong: option.case_cong)
qed

section \<open>Tiers and reasons\<close>

lemma max_tier_ge:
  "index_of ACTION_TIERS left = Some i \<Longrightarrow> \<exists>j. index_of ACTION_TIERS (max_action_tier left right) = Some j \<and> i \<le> j"
  by (auto simp: max_action_tier_def split: option.split)

lemma infer_tier_known: "\<exists>i. index_of ACTION_TIERS (infer_action_tier fr r) = Some i"
proof -
  have index: "s \<in> set ts \<Longrightarrow> \<exists>i. index_of ts s = Some i" for s ts by (induction ts) auto
  have "infer_action_tier fr r \<in> set ACTION_TIERS"
  proof (cases "explicit_tier (py_or (get_none (pr_action r) ''action_tier'') (get_none (pr_signals r) ''action_tier''))")
    case None
    then show ?thesis unfolding infer_action_tier_def None option.case Let_def by (simp add: ACTION_TIERS_def)
  next
    case (Some s)
    then have "s \<in> set ACTION_TIERS" by (auto elim!: explicit_tier.elims split: if_splits)
    then show ?thesis unfolding infer_action_tier_def Some option.case .
  qed
  then show ?thesis by (rule index)
qed

lemma compose_tier:
  "foldE compose_finding fs c = Inr c' \<Longrightarrow> index_of ACTION_TIERS (cm_tier c) = Some i \<Longrightarrow>
    \<exists>j. index_of ACTION_TIERS (cm_tier c') = Some j \<and> i \<le> j"
proof (induction fs arbitrary: c i)
  case (Cons f fs)
  then obtain d where d: "compose_finding f c = Inr d" "foldE compose_finding fs d = Inr c'"
    by (auto simp: bindE_Inr_iff)
  have "\<exists>j. index_of ACTION_TIERS (cm_tier d) = Some j \<and> i \<le> j"
    using d(1) Cons.prems(2) max_tier_ge
    by (auto simp: compose_finding_def bindE_Inr_iff split: json.splits)
  with Cons.IH [OF d(2)] show ?case using order_trans by blast
qed simp

text \<open>
  No finding lowers the action tier: the tier of a decision is a known one and at least the one inferred
  from the request.
\<close>
theorem tier_never_lowered:
  assumes "compose fr r fs v = Inr d"
  shows "\<exists>i j. index_of ACTION_TIERS (infer_action_tier fr r) = Some i \<and>
    index_of ACTION_TIERS (pd_tier d) = Some j \<and> i \<le> j"
proof -
  obtain i where i: "index_of ACTION_TIERS (infer_action_tier fr r) = Some i" using infer_tier_known by blast
  obtain c where c: "foldE compose_finding fs
       \<lparr>cm_effect = Allow, cm_controls = [(''audit'', control ''audit'' ''runtime decision must be recorded'')],
        cm_reasons = [], cm_tier = infer_action_tier fr r\<rparr> = Inr c" and d: "pd_tier d = cm_tier c"
    using assms by (auto simp: compose_def bindE_Inr_iff Let_def)
  from compose_tier [OF c] i show ?thesis unfolding d by simp
qed

lemma dedupe_from_props:
  "distinct (dedupe_from seen vs) \<and> set (dedupe_from seen vs) = {v \<in> set vs. v \<noteq> [] \<and> v \<notin> set seen}"
  by (induction seen vs rule: dedupe_from.induct) auto

section \<open>Registered evaluators\<close>

definition silent_evaluator :: evaluator where
  "silent_evaluator = \<lparr>ev_applies = always_applies, ev_evaluate = (\<lambda>r. Inr [])\<rparr>"

text \<open>
  A registered evaluator replaces the built-in ones. On an engine without evaluators of its own, registering one
  that finds nothing makes every decision an allow: role tables, the high-risk default and
  denied or missing approvals no longer count.
\<close>
theorem registered_evaluator_disables_builtins:
  assumes "en_evaluators en = []"
  shows "\<exists>d. evaluate fr (register_evaluator silent_evaluator en) r = Inr d \<and> pd_effect d = Allow"
  using assms
  by (simp add: evaluate_def register_evaluator_def silent_evaluator_def run_evaluator_def always_applies_def
      compose_def Let_def)

end
