(* ===== verification/Policy_Roundtrip.thy ===== *)
theory Policy_Roundtrip
  imports Policy_Yaml Policy_Spec
begin

text \<open>
  Role tables printed as a policy document are read back as the same tables, and the engine
  built from the document decides as the tables say.
\<close>

section \<open>Lines\<close>

definition content_ok :: "string \<Rightarrow> bool" where
  "content_ok c \<longleftrightarrow> c \<noteq> [] \<and> CHR ''#'' \<notin> set c \<and> \<not> is_space (hd c) \<and> \<not> is_space (last c)"

lemma space_is_space: "is_space CHR '' ''"
  by (simp add: is_space_def)

lemma dropWhile_keeps: "xs \<noteq> [] \<Longrightarrow> \<not> P (hd xs) \<Longrightarrow> dropWhile P xs = xs"
  by (cases xs) simp_all

lemma strip_content: "content_ok c \<Longrightarrow> strip c = c"
  by (simp add: content_ok_def strip_def dropWhile_keeps hd_rev)

lemma strip_indented: "content_ok c \<Longrightarrow> strip (indented n c) = c"
proof -
  assume c: "content_ok c"
  have "dropWhile is_space (indented n c) = dropWhile is_space c"
    unfolding indented_def by (induction n) (simp_all add: space_is_space)
  then have "strip (indented n c) = strip c" by (simp add: strip_def)
  then show ?thesis using c by (simp add: strip_content)
qed

lemma rstrip_indented: "content_ok c \<Longrightarrow> rstrip (indented n c) = indented n c"
  by (cases c rule: rev_cases) (auto simp: content_ok_def rstrip_def indented_def)

lemma indent_indented: "content_ok c \<Longrightarrow> length (takeWhile (\<lambda>x. x = CHR '' '') (indented n c)) = n"
proof -
  assume c: "content_ok c"
  then obtain x xs where x: "c = x # xs" "\<not> is_space x" by (cases c) (auto simp: content_ok_def)
  then have "x \<noteq> CHR '' ''" by (auto simp: space_is_space)
  with x(1) show ?thesis unfolding indented_def by (induction n) simp_all
qed

lemma split_once_absent: "c \<notin> set s \<Longrightarrow> split_once c s = (s, None)"
  by (simp add: split_once_def takeWhile_eq_all_conv Let_def) (metis)

lemma hash_indented: "content_ok c \<Longrightarrow> CHR ''#'' \<notin> set (indented n c)"
  by (auto simp: content_ok_def indented_def)

lemma yaml_line_indented:
  "content_ok c \<Longrightarrow> yaml_line fr (indented n c) y =
     (if n = 0 then yaml_top c y else yaml_nested fr (indented n c) n c y)"
  unfolding yaml_line_def Let_def split_once_absent [OF hash_indented] fst_conv rstrip_indented indent_indented strip_indented
  by (auto simp: content_ok_def)

lemma clean_not_space: "clean s \<Longrightarrow> c \<in> set s \<Longrightarrow> \<not> is_space c"
  by (simp add: clean_def clean_char_def)

lemma clean_no_colon: "clean s \<Longrightarrow> CHR '':'' \<notin> set s"
  by (auto simp: clean_def clean_char_def)

lemma clean_ends: "clean s \<Longrightarrow> s \<noteq> [] \<and> \<not> is_space (hd s) \<and> \<not> is_space (last s) \<and> CHR ''#'' \<notin> set s"
  by (auto simp: clean_def clean_char_def)

lemma clean_content: "clean s \<Longrightarrow> content_ok s"
  using clean_ends [of s] by (simp add: content_ok_def)

lemma colon_content: "clean s \<Longrightarrow> content_ok (s @ '':'')"
  using clean_ends [of s] by (simp add: content_ok_def is_space_def)

lemma item_content: "clean s \<Longrightarrow> content_ok (''- '' @ s)"
  using clean_ends [of s] by (simp add: content_ok_def is_space_def)

lemma pair_content: "clean k \<Longrightarrow> clean v \<Longrightarrow> content_ok (k @ '': '' @ v)"
  using clean_ends [of k] clean_ends [of v] by (simp add: content_ok_def)

lemma strip_pad: "clean v \<Longrightarrow> strip (CHR '' '' # v) = v"
  using strip_indented [OF clean_content, of v 1] by (simp add: indented_def)

lemma colon_header: "ends_with CHR '':'' (s @ '':'')" "without_colon (s @ '':'') = s"
  by (simp_all add: ends_with_def without_colon_def)

lemma pair_no_header: "clean v \<Longrightarrow> \<not> ends_with CHR '':'' (k @ '': '' @ v)"
  using clean_no_colon [of v] clean_ends [of v] by (simp add: ends_with_def) (metis last_in_set)

lemma takeWhile_colon: "clean k \<Longrightarrow> takeWhile (\<lambda>x. x \<noteq> CHR '':'') (k @ CHR '':'' # v) = k"
  using clean_no_colon [of k] by (induction k) (auto simp: takeWhile_append)

lemma split_once_pair: "clean k \<Longrightarrow> split_once CHR '':'' (k @ '':'' @ v) = (k, Some v)"
  by (simp add: split_once_def Let_def takeWhile_colon)

lemma strip_chars_clean: "clean v \<Longrightarrow> strip_chars [CHR 0x22, CHR 0x27] v = v"
proof -
  assume v: "clean v"
  then have "c \<in> set v \<Longrightarrow> c \<notin> set [CHR 0x22, CHR 0x27]" for c by (auto simp: clean_def clean_char_def)
  then have "dropWhile (\<lambda>c. c \<in> set [CHR 0x22, CHR 0x27]) u = u" if "set u \<subseteq> set v" for u
    using that by (cases u) auto
  then show ?thesis unfolding strip_chars_def by simp
qed

lemma split_scalar_pair:
  assumes "clean k" and "plain v"
  shows "split_scalar (k @ '': '' @ v) = Inr (k, JStr v)"
proof -
  have v: "clean v" using assms(2) by (simp add: plain_def)
  have "split_once CHR '':'' (k @ '': '' @ v) = (k, Some (CHR '' '' # v))"
    using split_once_pair [OF assms(1), of "CHR '' '' # v"] by simp
  moreover have "scalar v = Inr (JStr v)"
    using assms(2) v unfolding scalar_def plain_def by (simp only: strip_chars_clean if_False simp_thms)
  ultimately show ?thesis
    unfolding split_scalar_def by (simp only: prod.case option.case strip_pad [OF v] bindE.simps
        strip_content [OF clean_content [OF assms(1)]])
qed

section \<open>Sections\<close>

lemma update_last: "k \<notin> fst ` set pre \<Longrightarrow> AList.update k v (pre @ [(k, u)]) = pre @ [(k, v)]"
  by (induction pre) auto

lemma update_new: "k \<notin> fst ` set pre \<Longrightarrow> AList.update k v pre = pre @ [(k, v)]"
  by (induction pre) auto

lemma map_of_last: "k \<notin> fst ` set pre \<Longrightarrow> map_of (pre @ [(k, u)]) k = Some u"
  by (induction pre) auto

lemma setdefault_new: "k \<notin> fst ` set pre \<Longrightarrow> setdefault k v pre = pre @ [(k, v)]"
  by (simp add: setdefault_def map_of_eq_None_iff)

lemma setdefault_last: "k \<notin> fst ` set pre \<Longrightarrow> setdefault k v (pre @ [(k, u)]) = pre @ [(k, u)]"
  by (simp add: setdefault_def map_of_last del: map_of_append)

lemma in_section_last:
  "k \<notin> fst ` set pre \<Longrightarrow>
   in_section k err f (pre @ [(k, JObj es)]) = bindE (f es) (\<lambda>es'. Inr (pre @ [(k, JObj es')]))"
  by (simp add: in_section_def setdefault_last get_or_JObj map_of_last update_last del: map_of_append)

lemma append_item_last:
  "k \<notin> fst ` set pre \<Longrightarrow> append_item k x (pre @ [(k, JList xs)]) = Inr (pre @ [(k, JList (xs @ [JStr x]))])"
  by (simp add: append_item_def setdefault_last get_or_JObj map_of_last update_last del: map_of_append)

section \<open>Tables\<close>

text \<open>The parser inside a list of a role of the roles section.\<close>

definition inside :: "dict \<Rightarrow> dict \<Rightarrow> string \<Rightarrow> dict \<Rightarrow> string option \<Rightarrow> yaml" where
  "inside pre rs role es l = \<lparr>y_data = pre @ [(''roles'', JObj (rs @ [(role, JObj es)]))],
     y_section = Some ''roles'', y_role = Some role, y_list = l\<rparr>"

lemma update_role_inside:
  assumes "''roles'' \<notin> fst ` set pre" and "role \<notin> fst ` set rs"
  shows "update_role role f (pre @ [(''roles'', JObj (rs @ [(role, JObj es)]))]) =
     bindE (f es) (\<lambda>es'. Inr (pre @ [(''roles'', JObj (rs @ [(role, JObj es')]))]))"
  unfolding update_role_def in_section_last [OF assms(1)] in_section_last [OF assms(2)]
  by (cases "f es") simp_all

lemma role_header_line:
  assumes "''roles'' \<notin> fst ` set pre" and "clean role" and "role \<notin> fst ` set rs"
    and "y_section y = Some ''roles''" and "y_data y = pre @ [(''roles'', JObj rs)]"
  shows "yaml_line fr (indented 2 (role @ '':'')) y = Inr (inside pre rs role [] None)"
  unfolding yaml_line_indented [OF colon_content [OF assms(2)]] yaml_nested_def Let_def assms(5)
    colon_header in_section_last [OF assms(1)]
  using assms(4) by (cases y) (simp add: colon_header setdefault_new [OF assms(3)] inside_def)

lemma list_header_line:
  assumes "''roles'' \<notin> fst ` set pre" and "clean role" and "role \<notin> fst ` set rs"
    and "clean l" and "l \<notin> fst ` set es"
  shows "yaml_line fr (indented 4 (l @ '':'')) (inside pre rs role es x) =
    Inr (inside pre rs role (es @ [(l, JList [])]) (Some l))"
proof -
  have "nonempty (Some role)" using assms(2) by (simp add: nonempty_def clean_def)
  then show ?thesis
    unfolding yaml_line_indented [OF colon_content [OF assms(4)]] yaml_nested_def Let_def inside_def
    by (simp add: colon_header update_role_inside [OF assms(1,3)] setdefault_new [OF assms(5)])
qed

lemma item_line:
  assumes "''roles'' \<notin> fst ` set pre" and "clean role" and "role \<notin> fst ` set rs"
    and "clean l" and "l \<notin> fst ` set es" and "clean x"
  shows "yaml_line fr (indented 6 (''- '' @ x)) (inside pre rs role (es @ [(l, JList xs)]) (Some l)) =
    Inr (inside pre rs role (es @ [(l, JList (xs @ [JStr x]))]) (Some l))"
proof -
  have "nonempty (Some role)" "nonempty (Some l)" using assms(2,4) by (simp_all add: nonempty_def clean_def)
  moreover have "starts_with ''-'' (''- '' @ x)" by (simp add: starts_with_def)
  ultimately show ?thesis
    unfolding yaml_line_indented [OF item_content [OF assms(6)]] yaml_nested_def Let_def inside_def
    by (simp add: update_role_inside [OF assms(1,3)] append_item_last [OF assms(5)] strip_pad [OF assms(6)])
qed

lemma items_lines:
  assumes "''roles'' \<notin> fst ` set pre" and "clean role" and "role \<notin> fst ` set rs"
    and "clean l" and "l \<notin> fst ` set es" and "\<forall>x\<in>set xs. clean x"
  shows "foldE (yaml_line fr) (map (\<lambda>x. indented 6 (''- '' @ x)) xs) (inside pre rs role (es @ [(l, JList ys)]) (Some l)) =
    Inr (inside pre rs role (es @ [(l, JList (ys @ map JStr xs))]) (Some l))"
  using assms(6)
proof (induction xs arbitrary: ys)
  case (Cons x xs)
  then have "clean x" "\<forall>x\<in>set xs. clean x" by simp_all
  then show ?case
    using Cons.IH [of "ys @ [JStr x]"] by (simp add: item_line [OF assms(1-5)] del: append_Cons) simp
qed simp

definition lists_dict :: "(string \<times> string list) list \<Rightarrow> dict" where
  "lists_dict ls = map (\<lambda>l. (fst l, strs (snd l))) ls"

definition clean_lists :: "(string \<times> string list) list \<Rightarrow> bool" where
  "clean_lists ls \<longleftrightarrow> distinct (map fst ls) \<and> (\<forall>l\<in>set ls. clean (fst l) \<and> (\<forall>x\<in>set (snd l). clean x))"

lemma lists_lines:
  assumes "''roles'' \<notin> fst ` set pre" and "clean role" and "role \<notin> fst ` set rs"
    and "clean_lists ls" and "fst ` set es \<inter> fst ` set ls = {}"
  shows "\<exists>z. foldE (yaml_line fr) (concat (map list_lines ls)) (inside pre rs role es y) =
    Inr (inside pre rs role (es @ lists_dict ls) z)"
  using assms(4,5)
proof (induction ls arbitrary: es y)
  case (Cons l ls)
  have l: "clean (fst l)" "fst l \<notin> fst ` set es" "\<forall>x\<in>set (snd l). clean x"
    using Cons.prems by (auto simp: clean_lists_def)
  let ?es = "es @ [(fst l, strs (snd l))]"
  have "foldE (yaml_line fr) (list_lines l) (inside pre rs role es y) = Inr (inside pre rs role ?es (Some (fst l)))"
    using items_lines [OF assms(1-3) l(1,2,3), of fr "[]"]
    by (simp add: list_lines_def list_header_line [OF assms(1-3) l(1,2)] strs_def)
  moreover have "clean_lists ls" "fst ` set ?es \<inter> fst ` set ls = {}"
    using Cons.prems by (auto simp: clean_lists_def)
  from Cons.IH [OF this] obtain z where
    "foldE (yaml_line fr) (concat (map list_lines ls)) (inside pre rs role ?es (Some (fst l))) =
     Inr (inside pre rs role (?es @ lists_dict ls) z)" by blast
  ultimately show ?case by (auto simp: foldE_append lists_dict_def)
qed (auto simp: lists_dict_def inside_def)

definition clean_role :: "string \<times> role_policy \<Rightarrow> bool" where
  "clean_role r \<longleftrightarrow> clean (fst r) \<and> clean_lists (role_lists (snd r))"

definition role_dict :: "string \<times> role_policy \<Rightarrow> string \<times> json" where
  "role_dict r = (fst r, JObj (lists_dict (role_lists (snd r))))"

lemma roles_lines:
  assumes "''roles'' \<notin> fst ` set pre"
    and "\<forall>r\<in>set rs. clean_role r" and "distinct (map fst rs)" and "fst ` set ds \<inter> fst ` set rs = {}"
    and "y_section y = Some ''roles''" and "y_data y = pre @ [(''roles'', JObj ds)]"
  shows "\<exists>z. foldE (yaml_line fr) (concat (map role_lines rs)) y = Inr z \<and>
    y_data z = pre @ [(''roles'', JObj (ds @ map role_dict rs))]"
  using assms(2-)
proof (induction rs arbitrary: ds y)
  case (Cons r rs)
  have r: "clean (fst r)" "clean_lists (role_lists (snd r))" "fst r \<notin> fst ` set ds"
    using Cons.prems by (auto simp: clean_role_def)
  obtain z where z: "foldE (yaml_line fr) (role_lines r) y = Inr (inside pre ds (fst r) (lists_dict (role_lists (snd r))) z)"
    using lists_lines [OF assms(1) r(1,3,2), of "[]" fr None]
    by (auto simp: role_lines_def role_header_line [OF assms(1) r(1,3) Cons.prems(4,5)])
  have "\<exists>x. foldE (yaml_line fr) (concat (map role_lines rs))
      (inside pre ds (fst r) (lists_dict (role_lists (snd r))) z) = Inr x \<and>
    y_data x = pre @ [(''roles'', JObj ((ds @ [role_dict r]) @ map role_dict rs))]"
    by (rule Cons.IH) (use Cons.prems in \<open>auto simp: inside_def role_dict_def\<close>)
  then show ?case by (auto simp: foldE_append z)
qed simp

definition defaults_dict :: "(string \<times> string) list \<Rightarrow> dict" where
  "defaults_dict ds = map (\<lambda>d. (fst d, JStr (snd d))) ds"

lemma defaults_lines:
  assumes "''defaults'' \<notin> fst ` set pre"
    and "\<forall>d\<in>set ds. clean (fst d) \<and> plain (snd d)" and "distinct (map fst ds)" and "fst ` set es \<inter> fst ` set ds = {}"
  shows "foldE (yaml_line fr) (map default_line ds)
      \<lparr>y_data = pre @ [(''defaults'', JObj es)], y_section = Some ''defaults'', y_role = r, y_list = l\<rparr> =
    Inr \<lparr>y_data = pre @ [(''defaults'', JObj (es @ defaults_dict ds))], y_section = Some ''defaults'', y_role = r, y_list = l\<rparr>"
  using assms(2-)
proof (induction ds arbitrary: es)
  case (Cons d ds)
  have d: "clean (fst d)" "plain (snd d)" "fst d \<notin> fst ` set es" using Cons.prems by auto
  then have v: "clean (snd d)" by (simp add: plain_def)
  let ?y = "\<lambda>es. \<lparr>y_data = pre @ [(''defaults'', JObj es)], y_section = Some ''defaults'', y_role = r, y_list = l\<rparr>"
  have "yaml_line fr (default_line d) (?y es) = Inr (?y (es @ [(fst d, JStr (snd d))]))"
    unfolding default_line_def yaml_line_indented [OF pair_content [OF d(1) v]] yaml_nested_def
    by (simp add: split_scalar_pair [OF d(1,2)] in_section_last [OF assms(1)] update_new [OF d(3)] del: append_Cons)
  moreover have "foldE (yaml_line fr) (map default_line ds) (?y (es @ [(fst d, JStr (snd d))])) =
    Inr (?y ((es @ [(fst d, JStr (snd d))]) @ defaults_dict ds))"
    by (rule Cons.IH) (use Cons.prems in auto)
  ultimately show ?case by (simp add: defaults_dict_def)
qed (simp add: defaults_dict_def)

section \<open>Documents\<close>

definition clean_tables :: "string \<Rightarrow> (string \<times> string) list \<Rightarrow> (string \<times> role_policy) list \<Rightarrow> bool" where
  "clean_tables version ds rs \<longleftrightarrow> plain version \<and>
     distinct (map fst ds) \<and> (\<forall>d\<in>set ds. clean (fst d) \<and> plain (snd d)) \<and>
     distinct (map fst rs) \<and> (\<forall>r\<in>set rs. clean_role r)"

definition document :: "string \<Rightarrow> (string \<times> string) list \<Rightarrow> (string \<times> role_policy) list \<Rightarrow> dict" where
  "document version ds rs =
     [(''version'', JStr version), (''defaults'', JObj (defaults_dict ds)), (''roles'', JObj (map role_dict rs))]"

lemma version_line:
  assumes "plain version"
  shows "yaml_line fr (''version: '' @ version) yaml_start =
    Inr \<lparr>y_data = [(''version'', JStr version)], y_section = None, y_role = None, y_list = None\<rparr>"
proof -
  have v: "clean version" using assms by (simp add: plain_def)
  have k: "clean ''version''" by code_simp
  have "yaml_line fr (indented 0 (''version'' @ '': '' @ version)) yaml_start =
    Inr \<lparr>y_data = [(''version'', JStr version)], y_section = None, y_role = None, y_list = None\<rparr>"
    unfolding yaml_line_indented [OF pair_content [OF k v]] yaml_top_def split_scalar_pair [OF k assms]
    using pair_no_header [OF v, of "''version''"] by (simp add: yaml_start_def del: append_Cons)
  then show ?thesis by (simp add: indented_def)
qed

lemma section_line:
  assumes "clean s" and "s \<notin> fst ` set (y_data y)"
  shows "yaml_line fr (s @ '':'') y =
    Inr \<lparr>y_data = y_data y @ [(s, JObj [])], y_section = Some s, y_role = None, y_list = None\<rparr>"
proof -
  have "yaml_line fr (indented 0 (s @ '':'')) y =
    Inr \<lparr>y_data = y_data y @ [(s, JObj [])], y_section = Some s, y_role = None, y_list = None\<rparr>"
    unfolding yaml_line_indented [OF colon_content [OF assms(1)]] yaml_top_def
    by (simp add: colon_header setdefault_new [OF assms(2)])
  then show ?thesis by (simp add: indented_def)
qed

lemma table_lines_read:
  assumes "clean_tables version ds rs"
  shows "\<exists>y. foldE (yaml_line fr) (table_lines version ds rs) yaml_start = Inr y \<and> y_data y = document version ds rs"
proof -
  have v: "plain version" and ds: "\<forall>d\<in>set ds. clean (fst d) \<and> plain (snd d)" "distinct (map fst ds)"
    and rs: "\<forall>r\<in>set rs. clean_role r" "distinct (map fst rs)"
    using assms by (auto simp: clean_tables_def)
  have names: "clean ''defaults''" "clean ''roles''" by code_simp+
  let ?y = "\<lambda>d s. \<lparr>y_data = d, y_section = s, y_role = None, y_list = None\<rparr>"
  let ?v = "[(''version'', JStr version)]"
  let ?d = "?v @ [(''defaults'', JObj (defaults_dict ds))]"
  have 1: "yaml_line fr ''defaults:'' (?y ?v None) = Inr (?y (?v @ [(''defaults'', JObj [])]) (Some ''defaults''))"
    using section_line [OF names(1), of "?y ?v None" fr] by simp
  have 2: "foldE (yaml_line fr) (map default_line ds) (?y (?v @ [(''defaults'', JObj [])]) (Some ''defaults'')) =
    Inr (?y ?d (Some ''defaults''))"
    using defaults_lines [of ?v ds "[]" fr None None] ds by simp
  have 3: "yaml_line fr ''roles:'' (?y ?d (Some ''defaults'')) = Inr (?y (?d @ [(''roles'', JObj [])]) (Some ''roles''))"
    using section_line [OF names(2), of "?y ?d (Some ''defaults'')" fr] by simp
  obtain z where 4: "foldE (yaml_line fr) (concat (map role_lines rs)) (?y (?d @ [(''roles'', JObj [])]) (Some ''roles'')) = Inr z"
    "y_data z = ?d @ [(''roles'', JObj (map role_dict rs))]"
    using roles_lines [of ?d rs "[]" "?y (?d @ [(''roles'', JObj [])]) (Some ''roles'')" fr] rs by auto
  have "foldE (yaml_line fr) (table_lines version ds rs) yaml_start = Inr z"
    unfolding table_lines_def foldE_append foldE.simps version_line [OF v] bindE.simps 1 2 3 4(1) ..
  with 4(2) show ?thesis by (simp add: document_def)
qed

definition smooth :: "string \<Rightarrow> bool" where
  "smooth s \<longleftrightarrow> (\<forall>c\<in>set s. \<not> is_newline c)"

lemma smooth_parts [simp]:
  "smooth []" "smooth (c # s) \<longleftrightarrow> \<not> is_newline c \<and> smooth s" "smooth (s @ t) \<longleftrightarrow> smooth s \<and> smooth t"
  by (auto simp: smooth_def)

lemma smooth_indented [simp]: "smooth (indented n s) \<longleftrightarrow> smooth s"
  unfolding indented_def by (induction n) (simp_all add: is_newline_def)

lemma smooth_clean: "clean s \<Longrightarrow> smooth s"
  by (simp add: clean_def clean_char_def smooth_def)

lemma smooth_plain: "plain s \<Longrightarrow> smooth s"
  by (simp add: plain_def smooth_clean)

lemma smooth_role: "clean_role r \<Longrightarrow> \<forall>l\<in>set (role_lines r). smooth l"
  by (auto simp: role_lines_def list_lines_def clean_role_def clean_lists_def is_newline_def smooth_clean)

lemma no_newline_lines:
  assumes "clean_tables version ds rs"
  shows "\<forall>l\<in>set (table_lines version ds rs). \<forall>c\<in>set l. \<not> is_newline c"
  using assms smooth_role unfolding smooth_def [symmetric]
  by (auto simp: clean_tables_def table_lines_def default_line_def smooth_clean smooth_plain is_newline_def)

lemma document_read:
  assumes "clean_tables version ds rs"
  shows "parse_policy_yaml fr (table_text version ds rs) = Inr (document version ds rs)"
proof -
  obtain y where "foldE (yaml_line fr) (table_lines version ds rs) yaml_start = Inr y" "y_data y = document version ds rs"
    using table_lines_read [OF assms] by blast
  then show ?thesis
    unfolding parse_policy_yaml_def table_text_def splitlines_lines [OF no_newline_lines [OF assms]] by simp
qed

section \<open>Engines from documents\<close>

lemma name_set_strs: "name_set (strs xs) = Inr xs"
proof -
  have "List.find (\<lambda>x. \<not> hashable x) (map JStr xs) = None" by (auto simp: find_None_iff)
  then show ?thesis using iter_strings_strs [of xs] by (simp add: strs_def)
qed

lemma optional_set_strs: "optional_set (strs xs) = Inr (Some xs)"
  unfolding optional_set_def name_set_strs by (simp add: strs_def)

lemma role_read: "role_from_dict (JObj (lists_dict (role_lists p))) = Inr p"
proof -
  have nonempty: "lists_dict (role_lists p) \<noteq> []" by (simp add: lists_dict_def role_lists_def)
  have "map_of (lists_dict (role_lists p)) ''allow_tools'' = map_option strs (allow_tools p)"
    "map_of (lists_dict (role_lists p)) ''deny_tools'' = Some (strs (deny_tools p))"
    "map_of (lists_dict (role_lists p)) ''allow_risk'' = map_option strs (allow_risk p)"
    "map_of (lists_dict (role_lists p)) ''deny_risk'' = Some (strs (deny_risk p))"
    by (cases "allow_tools p"; cases "allow_risk p"; simp add: lists_dict_def role_lists_def)+
  moreover have "py_or (JObj (lists_dict (role_lists p))) (JObj []) = JObj (lists_dict (role_lists p))"
    using nonempty by (simp add: py_or_def)
  moreover have "optional_set JNull = Inr None" by (simp add: optional_set_def)
  ultimately show ?thesis
    unfolding role_from_dict_def Let_def
    by (cases "allow_tools p"; cases "allow_risk p"; cases p)
      (simp_all add: get_or_JObj name_set_strs optional_set_strs)
qed

lemma roles_read: "mapE (\<lambda>r. bindE (role_from_dict (snd r)) (\<lambda>p. Inr (fst r, p))) (map role_dict rs) = Inr rs"
  by (induction rs) (simp_all add: role_dict_def role_read)

lemma engine_read:
  "version \<noteq> [] \<Longrightarrow> from_dict fr (document version ds rs) =
     Inr \<lparr>en_tables = \<lparr>allowed_tools = [], roles = rs, default_by_risk = defaults_dict ds, table_version = version\<rparr>,
       en_evaluators = []\<rparr>"
  unfolding from_dict_def Let_def document_def
  by (cases rs; cases ds) (simp_all add: get_or_JObj py_or_def defaults_dict_def roles_read [unfolded list.map]
      role_read role_dict_def roles_read)

text \<open>
  C34: A policy document round trip: the text of role tables, defaults and a version, over names without
  white space, colons, quotes or comments, is parsed and loaded into an engine with exactly these tables.
\<close>
theorem policy_document_roundtrip:
  assumes "clean_tables version ds rs"
  shows "bindE (parse_policy_yaml fr (table_text version ds rs)) (from_dict fr) =
     Inr \<lparr>en_tables = \<lparr>allowed_tools = [], roles = rs, default_by_risk = defaults_dict ds, table_version = version\<rparr>,
       en_evaluators = []\<rparr>"
proof -
  have "version \<noteq> []" using assms by (simp add: clean_tables_def plain_def clean_def)
  then show ?thesis by (simp add: document_read [OF assms] engine_read)
qed

text \<open>A line the parser does not know is refused with its text, so a misplaced rule is never dropped silently.\<close>

lemma unknown_line_refused:
  assumes "content_ok c" and "0 < n" and "n \<notin> {2, 4, 6} \<or> y_section y \<notin> {Some ''defaults'', Some ''roles''}"
  shows "yaml_line fr (indented n c) y = Inl (Exn ValueError (''unsupported policy YAML line: '' @ indented n c))"
  using assms(2,3) unfolding yaml_line_indented [OF assms(1)] yaml_nested_def by auto

end
