(* ===== verification/Policy_Examples.thy ===== *)
theory Policy_Examples
  imports Policy_Roundtrip
begin

text \<open>
  A role that may read files and must not delete them, an approved and a pending payment, and a media resource with an
  unhashable kind: the inputs at which the properties of the policy engine are applied.
\<close>

definition no_floats :: "rat \<Rightarrow> string" where
  "no_floats q = ''''"

definition clerk_tables :: policy_tables where
  "clerk_tables = empty_tables\<lparr>roles := [(''clerk'',
     \<lparr>allow_tools = Some [''read_file'', ''delete_file''], deny_tools = [''delete_file''], allow_risk = None, deny_risk = []\<rparr>)]\<rparr>"

definition clerk_engine :: policy_engine where
  "clerk_engine = \<lparr>en_tables = clerk_tables, en_evaluators = []\<rparr>"

definition payment :: "string \<Rightarrow> policy_request" where
  "payment status = for_tool ((tool_request ''teller'' ''pay'' ''destructive'' ''v1'')
     \<lparr>tr_approval_required := True, tr_runtime_state := JObj [(''approval_status'', JStr status)]\<rparr>)"

definition effect_of :: "exn + policy_decision \<Rightarrow> (effect \<times> string) option" where
  "effect_of d = (case d of Inl _ \<Rightarrow> None | Inr d \<Rightarrow> Some (pd_effect d, pd_tier d))"

lemma effect_of_Some: "effect_of x = Some (e, t) \<Longrightarrow> \<exists>d. x = Inr d \<and> pd_effect d = e \<and> pd_tier d = t"
  by (cases x) (auto simp: effect_of_def)

definition ask :: "string \<Rightarrow> policy_finding" where
  "ask e = finding ''rule'' ''info'' ''custom'' ''asked'' [(''decision_effect'', JStr e)]"

lemma composed:
  "effect_of (compose no_floats (payment ''NONE'') [ask ''deny'', ask ''require_approval''] ''v'') = Some (Deny, ''L2'') \<and>
   effect_of (compose no_floats (payment ''NONE'') [ask ''require_approval'', ask ''deny''] ''v'') = Some (Deny, ''L2'')"
  by code_simp

lemma evaluated:
  "effect_of (evaluate no_floats clerk_engine (payment ''APPROVED'')) = Some (Allow, ''L2'') \<and>
   effect_of (evaluate no_floats clerk_engine (payment ''NONE'')) = Some (RequireApproval, ''L2'')"
  by code_simp

theorem strictest_finding_decides_witness:
  "\<exists>d. compose no_floats (payment ''NONE'') [ask ''deny'', ask ''require_approval''] ''v'' = Inr d \<and> pd_effect d = Deny \<and>
     pd_effect d = Max (insert Allow (decision_effect ` set [ask ''deny'', ask ''require_approval'']))"
  using strictest_finding_decides effect_of_Some [OF conjunct1 [OF composed]] by blast

theorem decision_controls_witness:
  "\<exists>d. compose no_floats (payment ''NONE'') [ask ''deny'', ask ''require_approval''] ''v'' = Inr d \<and> requires_control d ''deny''"
  using decision_controls effect_of_Some [OF conjunct1 [OF composed]] by blast

theorem tier_never_lowered_witness:
  "\<exists>d i j. compose no_floats (payment ''NONE'') [ask ''deny'', ask ''require_approval''] ''v'' = Inr d \<and>
     index_of ACTION_TIERS (pd_tier d) = Some j \<and> i \<le> j"
  using tier_never_lowered effect_of_Some [OF conjunct1 [OF composed]] by blast

lemma clerk_builtin: "en_evaluators clerk_engine = []"
  by (simp add: clerk_engine_def)

lemma payment_hashable: "hashable (get_none (pr_resource (payment s)) ''kind'')"
  by (simp add: payment_def for_tool_def tool_request_def get_or_JObj py_or_def)

theorem builtin_policy_table_witness:
  "\<exists>d. evaluate no_floats clerk_engine (payment ''NONE'') = Inr d \<and> pd_effect d = RequireApproval"
  using builtin_policy_table [OF clerk_builtin payment_hashable [of "''NONE''"], where fr = no_floats]
    effect_of_Some [OF conjunct2 [OF evaluated]] by blast

theorem allow_tool_allows_witness:
  "vd_allowed (check_tool_policy (allow_tool ''clerk'' ''drop_table'' clerk_tables) ''clerk'' ''drop_table'' ''destructive'')"
  using allow_tool_allows [where t = clerk_tables and role = "''clerk''" and tool_name = "''drop_table''"]
  by (simp add: clerk_tables_def)

theorem registered_evaluator_disables_builtins_witness:
  "\<exists>d. evaluate no_floats (register_evaluator silent_evaluator clerk_engine) (payment ''DENIED'') = Inr d \<and> pd_effect d = Allow"
  by (rule registered_evaluator_disables_builtins [OF clerk_builtin])

theorem policy_document_roundtrip_witness:
  "bindE (parse_policy_yaml no_floats (table_text ''v1'' [(''high'', ''deny'')] (roles clerk_tables))) (from_dict no_floats) =
     Inr \<lparr>en_tables = clerk_tables\<lparr>default_by_risk := [(''high'', JStr ''deny'')], table_version := ''v1''\<rparr>, en_evaluators = []\<rparr>"
proof -
  have "clean_tables ''v1'' [(''high'', ''deny'')] (roles clerk_tables)" by code_simp
  from policy_document_roundtrip [OF this] show ?thesis
    by (simp add: clerk_tables_def empty_tables_def defaults_dict_def)
qed

end
