(* ===== verification/Schema.thy ===== *)
theory Schema
  imports Policy
begin

text \<open>
  The JSON Schema subset of \<open>src/agentledger/tools.py\<close>: \<open>validate_tool_schema\<close> and its helpers. A
  schema is a dict, a value a JSON value. Regular expressions are a parameter: \<open>rx pattern text\<close>
  is whether \<open>re.search\<close> finds the pattern, or the exception it raises. Numbers are exact, so
  the rounding of float division in \<open>multipleOf\<close> is not modelled.

  A schema with a keyword of the wrong shape makes Python raise \<open>TypeError\<close> in the middle of the validation;
  these branches are modelled too.
\<close>

section \<open>Sequences of checks\<close>

definition thenE :: "'e + unit \<Rightarrow> 'e + 'a \<Rightarrow> 'e + 'a" where
  "thenE m n = bindE m (\<lambda>_. n)"

fun forE :: "('a \<Rightarrow> 'e + unit) \<Rightarrow> 'a list \<Rightarrow> 'e + unit" where
  "forE f [] = Inr ()"
| "forE f (x # xs) = thenE (f x) (forE f xs)"

fun anyE :: "('a \<Rightarrow> 'e + bool) \<Rightarrow> 'a list \<Rightarrow> 'e + bool" where
  "anyE f [] = Inr False"
| "anyE f (x # xs) = bindE (f x) (\<lambda>b. if b then Inr True else anyE f xs)"

fun countE :: "('a \<Rightarrow> 'e + bool) \<Rightarrow> 'a list \<Rightarrow> 'e + nat" where
  "countE f [] = Inr 0"
| "countE f (x # xs) = bindE (f x) (\<lambda>b. bindE (countE f xs) (\<lambda>n. Inr (if b then Suc n else n)))"

lemma thenE_simps [simp]: "thenE (Inl e) n = Inl e" "thenE (Inr u) n = n"
  by (simp_all add: thenE_def)

lemma bindE_cong [fundef_cong]:
  "m = m' \<Longrightarrow> (\<And>x. m' = Inr x \<Longrightarrow> f x = f' x) \<Longrightarrow> bindE m f = bindE m' f'"
  by (cases m') simp_all

lemma thenE_cong [fundef_cong]: "m = m' \<Longrightarrow> n = n' \<Longrightarrow> thenE m n = thenE m' n'"
  by simp

lemma forE_cong [fundef_cong]: "xs = ys \<Longrightarrow> (\<And>x. x \<in> set ys \<Longrightarrow> f x = g x) \<Longrightarrow> forE f xs = forE g ys"
  by (induction ys arbitrary: xs) simp_all

lemma anyE_cong [fundef_cong]: "xs = ys \<Longrightarrow> (\<And>x. x \<in> set ys \<Longrightarrow> f x = g x) \<Longrightarrow> anyE f xs = anyE g ys"
  by (induction ys arbitrary: xs) (simp_all cong: bindE_cong if_cong)

lemma countE_cong [fundef_cong]: "xs = ys \<Longrightarrow> (\<And>x. x \<in> set ys \<Longrightarrow> f x = g x) \<Longrightarrow> countE f xs = countE g ys"
  by (induction ys arbitrary: xs) (simp_all cong: bindE_cong if_cong)

definition require_valid :: "bool \<Rightarrow> string \<Rightarrow> exn + unit" where
  "require_valid ok msg = (if ok then Inr () else Inl (Exn ToolValidationError msg))"

section \<open>Types, bounds, enumerations\<close>

fun matches_json_type :: "json \<Rightarrow> json \<Rightarrow> bool" where
  "matches_json_type value (JList ts) = (\<exists>t\<in>set ts. matches_json_type value t)"
| "matches_json_type value (JStr t) =
     (if t = ''object'' then is_obj value
      else if t = ''array'' then (case value of JList _ \<Rightarrow> True | _ \<Rightarrow> False)
      else if t = ''string'' then (case value of JStr _ \<Rightarrow> True | _ \<Rightarrow> False)
      else if t = ''integer'' then (case value of JInt _ \<Rightarrow> True | _ \<Rightarrow> False)
      else if t = ''number'' then (case value of JInt _ \<Rightarrow> True | JFloat _ \<Rightarrow> True | _ \<Rightarrow> False)
      else if t = ''boolean'' then (case value of JBool _ \<Rightarrow> True | _ \<Rightarrow> False)
      else if t = ''null'' then value = JNull
      else True)"
| "matches_json_type value _ = True"

definition json_type_name :: "json \<Rightarrow> string" where
  "json_type_name v =
     (case v of JNull \<Rightarrow> ''null'' | JBool _ \<Rightarrow> ''boolean'' | JObj _ \<Rightarrow> ''object'' | JList _ \<Rightarrow> ''array''
      | JStr _ \<Rightarrow> ''string'' | JInt _ \<Rightarrow> ''integer'' | JFloat _ \<Rightarrow> ''number'')"

text \<open>The comparison that refuses a value, and its operator in Python.\<close>

fun out_of_bound :: "string \<Rightarrow> rat \<Rightarrow> rat \<Rightarrow> bool" where
  "out_of_bound rel value limit =
     (if rel = ''>='' then value < limit else if rel = ''<='' then limit < value
      else if rel = ''>'' then value \<le> limit else rel = ''<'' \<and> limit \<le> value)"

definition refusing :: "string \<Rightarrow> string" where
  "refusing rel = (if rel = ''>='' then ''<'' else if rel = ''<='' then ''>'' else if rel = ''>'' then ''<='' else ''>='')"

definition not_supported :: "string \<Rightarrow> json \<Rightarrow> json \<Rightarrow> exn" where
  "not_supported operator a b = Exn TypeError (repr_str operator @ '' not supported between instances of '' @
     repr_str (type_name a) @ '' and '' @ repr_str (type_name b))"

definition check_bound :: "(rat \<Rightarrow> string) \<Rightarrow> dict \<Rightarrow> string \<Rightarrow> json \<Rightarrow> string \<Rightarrow> string \<Rightarrow> exn + unit" where
  "check_bound fr schema key value path rel =
     (case map_of schema key of
        None \<Rightarrow> Inr ()
      | Some limit \<Rightarrow>
          (case (number_of value, number_of limit) of
             (Some v, Some l) \<Rightarrow> require_valid (\<not> out_of_bound rel v l)
               (path @ '' must be '' @ rel @ '' '' @ py_str fr limit)
           | _ \<Rightarrow> Inl (not_supported (refusing rel) value limit)))"

text \<open>Python's \<open>value in container\<close>.\<close>

fun substring_of :: "string \<Rightarrow> string \<Rightarrow> bool" where
  "substring_of x [] = (x = [])"
| "substring_of x (c # cs) = (starts_with x (c # cs) \<or> substring_of x cs)"

fun py_in :: "json \<Rightarrow> json \<Rightarrow> exn + bool" where
  "py_in value (JList xs) = Inr (\<exists>x\<in>set xs. py_eq value x)"
| "py_in value (JStr s) = (case value of JStr x \<Rightarrow> Inr (substring_of x s)
     | _ \<Rightarrow> Inl (Exn TypeError (repr_str ''in <string>'' @ '' requires string as left operand, not '' @ type_name value)))"
| "py_in value (JObj es) = (if hashable value then Inr (\<exists>e\<in>set es. value = JStr (fst e)) else Inl (unhashable value))"
| "py_in value c = Inl (Exn TypeError (''argument of type '' @ repr_str (type_name c) @ '' is not iterable''))"

section \<open>Validation\<close>

definition subschemas :: "string \<Rightarrow> dict \<Rightarrow> exn + dict list" where
  "subschemas keyword schema =
     bindE (iterate (py_or (get_or (JList []) (JObj schema) keyword) (JList []))) (\<lambda>xs.
     Inr (map entries (filter is_obj xs)))"

definition required_key :: "(rat \<Rightarrow> string) \<Rightarrow> dict \<Rightarrow> string \<Rightarrow> json \<Rightarrow> exn + unit" where
  "required_key fr value path key =
     (if \<not> hashable key then Inl (unhashable key)
      else require_valid (\<exists>e\<in>set value. key = JStr (fst e)) (path @ ''.'' @ py_str fr key @ '' is required''))"

definition check_constants :: "(rat \<Rightarrow> string) \<Rightarrow> dict \<Rightarrow> json \<Rightarrow> string \<Rightarrow> exn + unit" where
  "check_constants fr schema value path =
     thenE (case map_of schema ''const'' of
              None \<Rightarrow> Inr ()
            | Some c \<Rightarrow> require_valid (py_eq value c) (path @ '' must equal '' @ py_repr fr c)) (
     thenE (case map_of schema ''enum'' of
              None \<Rightarrow> Inr ()
            | Some c \<Rightarrow> bindE (py_in value c) (\<lambda>ok. require_valid ok (path @ '' must be one of '' @ py_repr fr c))) (
     case get_none (JObj schema) ''type'' of
       JNull \<Rightarrow> Inr ()
     | t \<Rightarrow> require_valid (matches_json_type value t)
         (path @ '' expected type '' @ py_repr fr t @ '', got '' @ repr_str (json_type_name value))))"

definition required_keys :: "(rat \<Rightarrow> string) \<Rightarrow> dict \<Rightarrow> json \<Rightarrow> string \<Rightarrow> exn + unit" where
  "required_keys fr schema value path =
     (case value of
        JObj es \<Rightarrow> bindE (iterate (get_or (JList []) (JObj schema) ''required'')) (forE (required_key fr es path))
      | _ \<Rightarrow> require_valid (map_of schema ''required'' = None) (path @ '' expected object for required properties''))"

definition extra_keys :: "dict \<Rightarrow> dict \<Rightarrow> string list" where
  "extra_keys properties value = sort (filter (\<lambda>k. k \<notin> set (map fst properties)) (map fst value))"

fun repeated :: "string list \<Rightarrow> bool" where
  "repeated [] = False"
| "repeated (x # xs) = (x \<in> set xs \<or> repeated xs)"

definition check_unique :: "(rat \<Rightarrow> string) \<Rightarrow> dict \<Rightarrow> json list \<Rightarrow> string \<Rightarrow> exn + unit" where
  "check_unique fr schema items path =
     require_valid (get_none (JObj schema) ''uniqueItems'' \<noteq> JBool True \<or> \<not> repeated (map (canonical_json fr) items))
       (path @ '' must contain unique items'')"

definition bounds2 :: "(rat \<Rightarrow> string) \<Rightarrow> dict \<Rightarrow> string \<Rightarrow> string \<Rightarrow> nat \<Rightarrow> string \<Rightarrow> exn + unit" where
  "bounds2 fr schema least most n path =
     thenE (check_bound fr schema least (JInt (int n)) path ''>='')
       (check_bound fr schema most (JInt (int n)) path ''<='')"

definition check_text :: "(rat \<Rightarrow> string) \<Rightarrow> (string \<Rightarrow> string \<Rightarrow> exn + bool) \<Rightarrow> dict \<Rightarrow> string \<Rightarrow> string \<Rightarrow> exn + unit" where
  "check_text fr rx schema s path =
     thenE (bounds2 fr schema ''minLength'' ''maxLength'' (length s) path)
     (case get_none (JObj schema) ''pattern'' of
        JStr p \<Rightarrow> bindE (rx p s) (\<lambda>found. require_valid found (path @ '' must match pattern '' @ repr_str p))
      | _ \<Rightarrow> Inr ())"

definition check_multiple :: "(rat \<Rightarrow> string) \<Rightarrow> dict \<Rightarrow> json \<Rightarrow> rat \<Rightarrow> string \<Rightarrow> exn + unit" where
  "check_multiple fr schema value v path =
     (let multiple = get_none (JObj schema) ''multipleOf'' in
      if \<not> truthy multiple then Inr ()
      else case number_of multiple of
        None \<Rightarrow> Inl (Exn TypeError (''unsupported operand type(s) for /: '' @ repr_str (type_name value) @ '' and '' @
          repr_str (type_name multiple)))
      | Some m \<Rightarrow>
          let quotient = v / m in
          require_valid (\<bar>quotient - of_int (round quotient)\<bar> \<le> 1 / 10 ^ 12)
            (path @ '' must be a multiple of '' @ py_str fr multiple))"

definition check_number :: "(rat \<Rightarrow> string) \<Rightarrow> dict \<Rightarrow> json \<Rightarrow> rat \<Rightarrow> string \<Rightarrow> exn + unit" where
  "check_number fr schema value v path =
     thenE (check_bound fr schema ''minimum'' value path ''>='') (
     thenE (check_bound fr schema ''maximum'' value path ''<='') (
     thenE (check_bound fr schema ''exclusiveMinimum'' value path ''>'') (
     thenE (check_bound fr schema ''exclusiveMaximum'' value path ''<'')
     (check_multiple fr schema value v path))))"

definition check_scalar :: "(rat \<Rightarrow> string) \<Rightarrow> (string \<Rightarrow> string \<Rightarrow> exn + bool) \<Rightarrow> dict \<Rightarrow> json \<Rightarrow> string \<Rightarrow> exn + unit" where
  "check_scalar fr rx schema value path =
     (case value of
        JStr s \<Rightarrow> check_text fr rx schema s path
      | JInt i \<Rightarrow> check_number fr schema value (of_int i) path
      | JFloat q \<Rightarrow> check_number fr schema value q path
      | _ \<Rightarrow> Inr ())"

definition passes :: "exn + unit \<Rightarrow> exn + bool" where
  "passes m = (case m of Inr _ \<Rightarrow> Inr True | Inl e \<Rightarrow> if isinstance e ToolValidationError then Inr False else Inl e)"

definition index_path :: "string \<Rightarrow> nat \<Rightarrow> string" where
  "index_path path i = path @ ''['' @ nat_str i @ '']''"

lemma iterate_obj:
  "iterate v = Inr ys \<Longrightarrow> y \<in> set ys \<Longrightarrow> is_obj y \<Longrightarrow> v = JList ys"
  by (cases v) auto

lemma get_or_list: "py_or (get_or (JList []) (JObj d) k) (JList []) = JList zs \<Longrightarrow> y \<in> set zs \<Longrightarrow> map_of d k = Some (JList zs)"
  by (cases "map_of d k") (auto simp: get_or_JObj py_or_def split: if_splits)

lemma size_subschema:
  assumes "subschemas k schema = Inr xs" and "s \<in> set xs"
  shows "size (JObj s) < size (JObj schema)"
proof -
  obtain ys y where v: "iterate (py_or (get_or (JList []) (JObj schema) k) (JList [])) = Inr ys"
    and y: "y \<in> set ys" "is_obj y" "s = entries y"
    using assms by (auto simp: subschemas_def bindE_Inr_iff)
  then have js: "JObj s \<in> set ys" using entries_JObj_iff by metis
  have zs: "map_of schema k = Some (JList ys)" by (rule get_or_list [OF iterate_obj [OF v y(1,2)] y(1)])
  have "size (JObj s) \<le> size_list size ys" by (rule size_list_estimation' [OF js]) simp
  moreover have "size (JList ys) < size (JObj schema)" using size_snd_lt [OF map_of_SomeD [OF zs]] by simp
  ultimately show ?thesis by simp
qed

lemma size_member:
  assumes "map_of schema k = Some v"
  shows "size v < size (JObj schema)"
  using size_snd_lt [OF map_of_SomeD [OF assms]] by simp

lemma size_none_member: "get_none (JObj schema) k = JObj s \<Longrightarrow> size (JObj s) < size (JObj schema)"
  by (cases "map_of schema k") (auto simp: get_or_JObj dest: size_member)

lemma size_property:
  assumes "get_or (JObj []) (JObj schema) k = JObj ps" and "(key, JObj s) \<in> set ps"
  shows "size (JObj s) < size (JObj schema)"
proof -
  have "map_of schema k = Some (JObj ps)" using assms by (cases "map_of schema k") (auto simp: get_or_JObj)
  from size_member [OF this] size_snd_lt [OF assms(2)] show ?thesis by simp
qed

definition member_path :: "string \<Rightarrow> string \<Rightarrow> string" where
  "member_path path key = path @ ''.'' @ key"

definition value_at :: "dict \<Rightarrow> string \<Rightarrow> json" where
  "value_at value key = the (map_of value key)"

lemma size_additional: "get_or (JBool True) (JObj schema) k = JObj s \<Longrightarrow> size (JObj s) < size (JObj schema)"
  by (cases "map_of schema k") (auto simp: get_or_JObj dest: size_member)

function validate_tool_schema ::
  "(rat \<Rightarrow> string) \<Rightarrow> (string \<Rightarrow> string \<Rightarrow> exn + bool) \<Rightarrow> dict \<Rightarrow> json \<Rightarrow> string \<Rightarrow> exn + unit" where
  "validate_tool_schema fr rx schema value path =
     (if schema = [] then Inr ()
      else
        thenE (bindE (subschemas ''allOf'' schema) (\<lambda>ss. forE (\<lambda>s. validate_tool_schema fr rx s value path) ss)) (
        thenE (bindE (subschemas ''anyOf'' schema) (\<lambda>ss.
          if ss = [] then Inr ()
          else bindE (anyE (\<lambda>s. passes (validate_tool_schema fr rx s value path)) ss) (\<lambda>ok.
            require_valid ok (path @ '' must match at least one anyOf schema'')))) (
        thenE (bindE (subschemas ''oneOf'' schema) (\<lambda>ss.
          if ss = [] then Inr ()
          else bindE (countE (\<lambda>s. passes (validate_tool_schema fr rx s value path)) ss) (\<lambda>matches.
            require_valid (matches = 1)
              (path @ '' must match exactly one oneOf schema, matched '' @ nat_str matches)))) (
        thenE (case get_none (JObj schema) ''not'' of
            JObj s \<Rightarrow> bindE (passes (validate_tool_schema fr rx s value path)) (\<lambda>p.
              require_valid (\<not> p) (path @ '' must not match forbidden schema''))
          | _ \<Rightarrow> Inr ()) (
        thenE (check_constants fr schema value path) (
        thenE (required_keys fr schema value path) (
        thenE (case value of
            JObj es \<Rightarrow>
              thenE (case get_or (JObj []) (JObj schema) ''properties'' of
                  JObj ps \<Rightarrow>
                    thenE (forE (\<lambda>p. case p of (key, sub) \<Rightarrow> (case sub of
                        JObj s \<Rightarrow> if map_of es key = None then Inr ()
                          else validate_tool_schema fr rx s (value_at es key) (member_path path key)
                      | _ \<Rightarrow> Inr ())) ps) (
                    let extra = extra_keys ps es in
                    (case get_or (JBool True) (JObj schema) ''additionalProperties'' of
                       JBool b \<Rightarrow> require_valid (b \<or> extra = [])
                         (path @ '' has unexpected properties '' @ py_repr fr (strs extra))
                     | JObj s \<Rightarrow> forE (\<lambda>key. validate_tool_schema fr rx s (value_at es key) (member_path path key)) extra
                     | _ \<Rightarrow> Inr ()))
                | _ \<Rightarrow> Inr ())
              (bounds2 fr schema ''minProperties'' ''maxProperties'' (length es) path)
          | JList xs \<Rightarrow>
              thenE (case get_none (JObj schema) ''items'' of
                  JObj s \<Rightarrow> forE (\<lambda>i. validate_tool_schema fr rx s (xs ! i) (index_path path i)) [0..<length xs]
                | _ \<Rightarrow> Inr ()) (
              thenE (check_unique fr schema xs path)
              (bounds2 fr schema ''minItems'' ''maxItems'' (length xs) path))
          | _ \<Rightarrow> Inr ())
        (check_scalar fr rx schema value path))))))))"
  by pat_completeness auto

termination
  by (relation "measure (\<lambda>(fr, rx, schema, value, path). size (JObj schema))")
    (simp_all only: wf_measure in_measure prod.case size_subschema size_none_member size_additional, metis size_property)

declare validate_tool_schema.simps [simp del]

text \<open>Equations by cases on the schema, so that evaluation does not unfold the validator under a binder.\<close>

lemmas validate_code [code] = validate_tool_schema.simps [of _ _ "[]"] validate_tool_schema.simps [of _ _ "e # es" for e es]

end
