(* ===== verification/Schema_Spec.thy ===== *)
theory Schema_Spec
  imports Schema
begin

text \<open>
  What the validator decides. \<open>conforms\<close> says when a value conforms to a schema, keyword by keyword, without
  paths, messages or order; \<open>well_shaped\<close> says that the keywords hold values of the right kind. On a
  well-shaped schema the validator returns exactly for the conforming values and
  raises \<open>ToolValidationError\<close>, never anything else, for the others.
\<close>

section \<open>Reference semantics\<close>

definition subs :: "string \<Rightarrow> dict \<Rightarrow> dict list" where
  "subs k schema = (case subschemas k schema of Inl _ \<Rightarrow> [] | Inr xs \<Rightarrow> xs)"

lemma size_subs: "s \<in> set (subs k schema) \<Longrightarrow> size (JObj s) < size (JObj schema)"
  by (cases "subschemas k schema") (simp_all add: subs_def size_subschema del: json.size)

fun meets :: "string \<Rightarrow> rat \<Rightarrow> rat \<Rightarrow> bool" where
  "meets rel value limit \<longleftrightarrow>
     (rel = ''>='' \<longrightarrow> limit \<le> value) \<and> (rel = ''<='' \<longrightarrow> value \<le> limit) \<and>
     (rel = ''>'' \<longrightarrow> limit < value) \<and> (rel = ''<'' \<longrightarrow> value < limit)"

definition in_bound :: "dict \<Rightarrow> string \<Rightarrow> string \<Rightarrow> rat \<Rightarrow> bool" where
  "in_bound schema key rel q \<longleftrightarrow>
     (case map_of schema key of None \<Rightarrow> True
      | Some l \<Rightarrow> (case number_of l of None \<Rightarrow> True | Some m \<Rightarrow> meets rel q m))"

definition size_ok :: "dict \<Rightarrow> string \<Rightarrow> string \<Rightarrow> nat \<Rightarrow> bool" where
  "size_ok schema least most n \<longleftrightarrow> in_bound schema least ''>='' (of_nat n) \<and> in_bound schema most ''<='' (of_nat n)"

definition number_ok :: "dict \<Rightarrow> rat \<Rightarrow> bool" where
  "number_ok schema q \<longleftrightarrow>
     in_bound schema ''minimum'' ''>='' q \<and> in_bound schema ''maximum'' ''<='' q \<and>
     in_bound schema ''exclusiveMinimum'' ''>'' q \<and> in_bound schema ''exclusiveMaximum'' ''<'' q \<and>
     (case number_of (get_none (JObj schema) ''multipleOf'') of
        None \<Rightarrow> True
      | Some m \<Rightarrow> m = 0 \<or> \<bar>q / m - of_int (round (q / m))\<bar> \<le> 1 / 10 ^ 12)"

definition constants_ok :: "dict \<Rightarrow> json \<Rightarrow> bool" where
  "constants_ok schema value \<longleftrightarrow>
     (case map_of schema ''const'' of None \<Rightarrow> True | Some c \<Rightarrow> py_eq value c) \<and>
     (case map_of schema ''enum'' of None \<Rightarrow> True
      | Some (JList xs) \<Rightarrow> \<exists>x\<in>set xs. py_eq value x
      | Some _ \<Rightarrow> True) \<and>
     (case map_of schema ''type'' of None \<Rightarrow> True | Some JNull \<Rightarrow> True | Some t \<Rightarrow> matches_json_type value t)"

definition required_names :: "dict \<Rightarrow> string list" where
  "required_names schema =
     (case get_or (JList []) (JObj schema) ''required'' of
        JList xs \<Rightarrow> concat (map (\<lambda>x. case x of JStr s \<Rightarrow> [s] | _ \<Rightarrow> []) xs) | _ \<Rightarrow> [])"

definition required_ok :: "dict \<Rightarrow> json \<Rightarrow> bool" where
  "required_ok schema value \<longleftrightarrow>
     (case value of JObj es \<Rightarrow> \<forall>k\<in>set (required_names schema). map_of es k \<noteq> None
      | _ \<Rightarrow> map_of schema ''required'' = None)"

definition scalar_ok :: "(string \<Rightarrow> string \<Rightarrow> bool) \<Rightarrow> dict \<Rightarrow> json \<Rightarrow> bool" where
  "scalar_ok found schema value \<longleftrightarrow>
     (case value of
        JStr s \<Rightarrow> size_ok schema ''minLength'' ''maxLength'' (length s) \<and>
          (case get_none (JObj schema) ''pattern'' of JStr p \<Rightarrow> found p s | _ \<Rightarrow> True)
      | JInt i \<Rightarrow> number_ok schema (of_int i)
      | JFloat q \<Rightarrow> number_ok schema q
      | _ \<Rightarrow> True)"

function conforms :: "(rat \<Rightarrow> string) \<Rightarrow> (string \<Rightarrow> string \<Rightarrow> bool) \<Rightarrow> dict \<Rightarrow> json \<Rightarrow> bool" where
  "conforms fr found schema value \<longleftrightarrow> schema = [] \<or>
     (\<forall>s\<in>set (subs ''allOf'' schema). conforms fr found s value) \<and>
     (subs ''anyOf'' schema = [] \<or> (\<exists>s\<in>set (subs ''anyOf'' schema). conforms fr found s value)) \<and>
     (subs ''oneOf'' schema = [] \<or> length (filter (\<lambda>s. conforms fr found s value) (subs ''oneOf'' schema)) = 1) \<and>
     (case get_none (JObj schema) ''not'' of JObj s \<Rightarrow> \<not> conforms fr found s value | _ \<Rightarrow> True) \<and>
     constants_ok schema value \<and> required_ok schema value \<and>
     (case value of
        JObj es \<Rightarrow>
          (case get_or (JObj []) (JObj schema) ''properties'' of
             JObj ps \<Rightarrow>
               (\<forall>p\<in>set ps. case p of (key, sub) \<Rightarrow> (case sub of
                  JObj s \<Rightarrow> map_of es key = None \<or> conforms fr found s (value_at es key) | _ \<Rightarrow> True)) \<and>
               (case get_or (JBool True) (JObj schema) ''additionalProperties'' of
                  JBool b \<Rightarrow> b \<or> set (map fst es) \<subseteq> set (map fst ps)
                | JObj s \<Rightarrow> \<forall>key\<in>set (extra_keys ps es). conforms fr found s (value_at es key)
                | _ \<Rightarrow> True)
           | _ \<Rightarrow> True) \<and>
          size_ok schema ''minProperties'' ''maxProperties'' (length es)
      | JList xs \<Rightarrow>
          (case get_none (JObj schema) ''items'' of JObj s \<Rightarrow> \<forall>x\<in>set xs. conforms fr found s x | _ \<Rightarrow> True) \<and>
          (get_none (JObj schema) ''uniqueItems'' = JBool True \<longrightarrow> distinct (map (canonical_json fr) xs)) \<and>
          size_ok schema ''minItems'' ''maxItems'' (length xs)
      | _ \<Rightarrow> True) \<and>
     scalar_ok found schema value"
  by pat_completeness auto

termination
  by (relation "measure (\<lambda>(fr, found, schema, value). size (JObj schema))")
    (simp_all only: wf_measure in_measure prod.case size_subs size_none_member size_additional, metis size_property)

declare conforms.simps [simp del]

lemmas conforms_code [code] = conforms.simps [of _ _ "[]"] conforms.simps [of _ _ "e # es" for e es]

section \<open>Well-shaped schemas\<close>

definition numeric :: "dict \<Rightarrow> string \<Rightarrow> bool" where
  "numeric schema k \<longleftrightarrow> (case map_of schema k of None \<Rightarrow> True | Some v \<Rightarrow> number_of v \<noteq> None)"

definition listed :: "dict \<Rightarrow> string \<Rightarrow> bool" where
  "listed schema k \<longleftrightarrow> (case map_of schema k of None \<Rightarrow> True | Some (JList _) \<Rightarrow> True | Some _ \<Rightarrow> False)"

definition shaped :: "dict \<Rightarrow> bool" where
  "shaped schema \<longleftrightarrow>
     (\<forall>k\<in>set [''minProperties'', ''maxProperties'', ''minItems'', ''maxItems'', ''minLength'', ''maxLength'', ''minimum'',
        ''maximum'', ''exclusiveMinimum'', ''exclusiveMaximum'', ''multipleOf'']. numeric schema k) \<and>
     (\<forall>k\<in>set [''allOf'', ''anyOf'', ''oneOf'', ''enum'', ''required'']. listed schema k) \<and>
     (\<forall>x\<in>set (case get_or (JList []) (JObj schema) ''required'' of JList xs \<Rightarrow> xs | _ \<Rightarrow> []).
        case x of JStr _ \<Rightarrow> True | _ \<Rightarrow> False)"

function well_shaped :: "dict \<Rightarrow> bool" where
  "well_shaped schema \<longleftrightarrow> shaped schema \<and>
     (\<forall>s\<in>set (subs ''allOf'' schema). well_shaped s) \<and> (\<forall>s\<in>set (subs ''anyOf'' schema). well_shaped s) \<and>
     (\<forall>s\<in>set (subs ''oneOf'' schema). well_shaped s) \<and>
     (case get_none (JObj schema) ''not'' of JObj s \<Rightarrow> well_shaped s | _ \<Rightarrow> True) \<and>
     (case get_none (JObj schema) ''items'' of JObj s \<Rightarrow> well_shaped s | _ \<Rightarrow> True) \<and>
     (case get_or (JBool True) (JObj schema) ''additionalProperties'' of JObj s \<Rightarrow> well_shaped s | _ \<Rightarrow> True) \<and>
     (case get_or (JObj []) (JObj schema) ''properties'' of
        JObj ps \<Rightarrow> (\<forall>p\<in>set ps. case p of (key, sub) \<Rightarrow> (case sub of JObj s \<Rightarrow> well_shaped s | _ \<Rightarrow> True)) | _ \<Rightarrow> True)"
  by pat_completeness auto

termination
  by (relation "measure (\<lambda>schema. size (JObj schema))")
    (simp_all only: wf_measure in_measure prod.case size_subs size_none_member size_additional, metis size_property)

declare well_shaped.simps [simp del]

lemmas well_shaped_code [code] = well_shaped.simps [of "[]"] well_shaped.simps [of "e # es" for e es]

section \<open>Checks that decide a condition\<close>

definition decides :: "exn + unit \<Rightarrow> bool \<Rightarrow> bool" where
  "decides m P \<longleftrightarrow> (if P then m = Inr () else (\<exists>msg. m = Inl (Exn ToolValidationError msg)))"

lemma decides_require: "decides (require_valid P msg) P"
  by (simp add: decides_def require_valid_def)

lemma decides_ok: "decides (Inr ()) True"
  by (simp add: decides_def)

lemma decides_then: "decides m P \<Longrightarrow> (P \<Longrightarrow> decides n Q) \<Longrightarrow> decides (thenE m n) (P \<and> Q)"
  by (auto simp: decides_def split: if_splits)

lemma decides_for: "(\<And>x. x \<in> set xs \<Longrightarrow> decides (f x) (P x)) \<Longrightarrow> decides (forE f xs) (\<forall>x\<in>set xs. P x)"
proof (induction xs)
  case (Cons x xs)
  then have "decides (thenE (f x) (forE f xs)) (P x \<and> (\<forall>x\<in>set xs. P x))" by (intro decides_then) simp_all
  then show ?case by simp
qed (simp add: decides_def)

lemma passes_decides: "decides m P \<Longrightarrow> passes m = Inr P"
  by (auto simp: decides_def passes_def isinstance_def split: if_splits)

lemma anyE_total: "(\<And>x. x \<in> set xs \<Longrightarrow> f x = Inr (P x)) \<Longrightarrow> anyE f xs = Inr (\<exists>x\<in>set xs. P x)"
  by (induction xs) simp_all

lemma countE_total: "(\<And>x. x \<in> set xs \<Longrightarrow> f x = Inr (P x)) \<Longrightarrow> countE f xs = Inr (length (filter P xs))"
  by (induction xs) simp_all

section \<open>Keywords without recursion\<close>

lemma out_of_bound_meets: "\<not> out_of_bound rel v l \<longleftrightarrow> meets rel v l"
  by auto

lemma decides_bound:
  assumes "numeric schema key" and "number_of value = Some q"
  shows "decides (check_bound fr schema key value path rel) (in_bound schema key rel q)"
  using assms
  by (auto simp: check_bound_def in_bound_def numeric_def decides_ok decides_require out_of_bound_meets
      simp del: out_of_bound.simps meets.simps split: option.splits)

lemma decides_bounds2:
  "numeric schema least \<Longrightarrow> numeric schema most \<Longrightarrow>
   decides (bounds2 fr schema least most n path) (size_ok schema least most n)"
  unfolding bounds2_def size_ok_def by (intro decides_then decides_bound) simp_all

lemma shaped_numeric:
  "shaped schema \<Longrightarrow> k \<in> set [''minProperties'', ''maxProperties'', ''minItems'', ''maxItems'', ''minLength'', ''maxLength'', ''minimum'',
     ''maximum'', ''exclusiveMinimum'', ''exclusiveMaximum'', ''multipleOf''] \<Longrightarrow> numeric schema k"
  unfolding shaped_def by blast

lemma shaped_listed:
  "shaped schema \<Longrightarrow> k \<in> set [''allOf'', ''anyOf'', ''oneOf'', ''enum'', ''required''] \<Longrightarrow> listed schema k"
  unfolding shaped_def by blast

lemma decides_multiple:
  assumes "numeric schema ''multipleOf''"
  shows "decides (check_multiple fr schema value q path)
    (case number_of (get_none (JObj schema) ''multipleOf'') of
       None \<Rightarrow> True | Some m \<Rightarrow> m = 0 \<or> \<bar>q / m - of_int (round (q / m))\<bar> \<le> 1 / 10 ^ 12)"
proof (cases "map_of schema ''multipleOf''")
  case None
  then show ?thesis by (simp add: check_multiple_def get_or_JObj decides_ok)
next
  case (Some v)
  with assms obtain m where m: "number_of v = Some m" by (auto simp: numeric_def)
  then have "truthy v \<longleftrightarrow> m \<noteq> 0" by (cases v) (auto split: if_splits)
  with Some m show ?thesis
    by (auto simp: check_multiple_def get_or_JObj Let_def decides_require decides_ok)
qed

lemma decides_number:
  assumes "shaped schema" and "number_of value = Some q"
  shows "decides (check_number fr schema value q path) (number_ok schema q)"
  unfolding check_number_def number_ok_def
  by (intro decides_then decides_bound decides_multiple shaped_numeric [OF assms(1)] assms(2)) simp_all

lemma decides_scalar:
  assumes "shaped schema"
  shows "decides (check_scalar fr (\<lambda>p s. Inr (found p s)) schema value path) (scalar_ok found schema value)"
proof (cases "value")
  case (JStr s)
  have "decides (check_text fr (\<lambda>p s. Inr (found p s)) schema s path)
    (size_ok schema ''minLength'' ''maxLength'' (length s) \<and>
     (case get_none (JObj schema) ''pattern'' of JStr p \<Rightarrow> found p s | _ \<Rightarrow> True))"
    unfolding check_text_def
    by (intro decides_then decides_bounds2 shaped_numeric [OF assms]) (auto simp: decides_require decides_ok split: json.split)
  with JStr show ?thesis by (simp add: check_scalar_def scalar_ok_def)
qed (simp_all add: check_scalar_def scalar_ok_def decides_ok decides_number [OF assms])

lemma decides_constants:
  assumes "shaped schema"
  shows "decides (check_constants fr schema value path) (constants_ok schema value)"
  unfolding check_constants_def constants_ok_def
proof (intro decides_then)
  show "decides (case map_of schema ''const'' of None \<Rightarrow> Inr ()
      | Some c \<Rightarrow> require_valid (py_eq value c) (path @ '' must equal '' @ py_repr fr c))
    (case map_of schema ''const'' of None \<Rightarrow> True | Some c \<Rightarrow> py_eq value c)"
    by (simp add: decides_ok decides_require split: option.split)
  have "listed schema ''enum''" by (rule shaped_listed [OF assms]) simp
  then show "decides (case map_of schema ''enum'' of None \<Rightarrow> Inr ()
      | Some c \<Rightarrow> bindE (py_in value c) (\<lambda>ok. require_valid ok (path @ '' must be one of '' @ py_repr fr c)))
    (case map_of schema ''enum'' of None \<Rightarrow> True | Some (JList xs) \<Rightarrow> \<exists>x\<in>set xs. py_eq value x | Some _ \<Rightarrow> True)"
    unfolding listed_def by (simp add: decides_ok decides_require split: option.splits json.splits)
  show "decides (case get_none (JObj schema) ''type'' of JNull \<Rightarrow> Inr ()
      | t \<Rightarrow> require_valid (matches_json_type value t)
         (path @ '' expected type '' @ py_repr fr t @ '', got '' @ repr_str (json_type_name value)))
    (case map_of schema ''type'' of None \<Rightarrow> True | Some JNull \<Rightarrow> True | Some t \<Rightarrow> matches_json_type value t)"
    by (cases "map_of schema ''type''"; cases "the (map_of schema ''type'')")
      (simp_all add: get_or_JObj decides_ok decides_require)
qed

lemma decides_required:
  assumes "shaped schema"
  shows "decides (required_keys fr schema value path) (required_ok schema value)"
proof (cases "\<exists>es. value = JObj es")
  case True
  then obtain es where obj: "value = JObj es" by blast
  obtain xs where xs: "get_or (JList []) (JObj schema) ''required'' = JList xs"
    using shaped_listed [OF assms, of "''required''"]
    by (auto simp: listed_def get_or_JObj split: option.splits json.splits)
  have strings: "\<forall>x\<in>set xs. \<exists>s. x = JStr s"
    using assms unfolding shaped_def xs by (auto split: json.splits)
  have "decides (forE (required_key fr es path) xs) (\<forall>x\<in>set xs. \<exists>e\<in>set es. x = JStr (fst e))"
  proof (rule decides_for)
    fix x
    assume "x \<in> set xs"
    then obtain s where "x = JStr s" using strings by blast
    then show "decides (required_key fr es path x) (\<exists>e\<in>set es. x = JStr (fst e))"
      by (simp add: required_key_def decides_require)
  qed
  moreover have "(\<forall>x\<in>set xs. \<exists>e\<in>set es. x = JStr (fst e)) \<longleftrightarrow> required_ok schema value"
    using strings
    by (fastforce simp: obj required_ok_def required_names_def xs map_of_eq_None_iff image_iff)
  ultimately show ?thesis by (simp add: obj required_keys_def xs)
next
  case False
  then show ?thesis by (cases "value") (simp_all add: required_keys_def required_ok_def decides_require)
qed

lemma repeated_distinct: "repeated xs \<longleftrightarrow> \<not> distinct xs"
  by (induction xs) simp_all

lemma decides_unique:
  "decides (check_unique fr schema xs path)
    (get_none (JObj schema) ''uniqueItems'' = JBool True \<longrightarrow> distinct (map (canonical_json fr) xs))"
proof -
  have "(get_none (JObj schema) ''uniqueItems'' = JBool True \<longrightarrow> distinct (map (canonical_json fr) xs)) \<longleftrightarrow>
    get_none (JObj schema) ''uniqueItems'' \<noteq> JBool True \<or> \<not> repeated (map (canonical_json fr) xs)"
    unfolding repeated_distinct by blast
  then show ?thesis unfolding check_unique_def by (simp only: decides_require)
qed

section \<open>The validator decides conformance\<close>

lemma subschemas_listed: "listed schema k \<Longrightarrow> subschemas k schema = Inr (subs k schema)"
  by (cases "map_of schema k") (auto simp: subs_def subschemas_def listed_def get_or_JObj py_or_def split: json.splits)

lemma decides_any:
  assumes "\<And>s. s \<in> set ss \<Longrightarrow> decides (f s) (P s)"
  shows "decides (if ss = [] then Inr () else bindE (anyE (\<lambda>s. passes (f s)) ss) (\<lambda>ok. require_valid ok msg))
    (ss = [] \<or> (\<exists>s\<in>set ss. P s))"
proof -
  have "anyE (\<lambda>s. passes (f s)) ss = Inr (\<exists>s\<in>set ss. P s)" by (rule anyE_total) (simp add: passes_decides assms)
  then show ?thesis by (simp add: decides_ok decides_require)
qed

lemma decides_one:
  assumes "\<And>s. s \<in> set ss \<Longrightarrow> decides (f s) (P s)"
  shows "decides (if ss = [] then Inr () else bindE (countE (\<lambda>s. passes (f s)) ss) (\<lambda>n. require_valid (n = 1) (msg n)))
    (ss = [] \<or> length (filter P ss) = 1)"
proof -
  have "countE (\<lambda>s. passes (f s)) ss = Inr (length (filter P ss))" by (rule countE_total) (simp add: passes_decides assms)
  then show ?thesis by (simp add: decides_ok decides_require)
qed

lemma decides_not:
  "decides m P \<Longrightarrow> decides (bindE (passes m) (\<lambda>p. require_valid (\<not> p) msg)) (\<not> P)"
  by (simp add: passes_decides decides_require)

lemma extra_keys_empty: "extra_keys ps es = [] \<longleftrightarrow> set (map fst es) \<subseteq> set (map fst ps)"
proof -
  have "extra_keys ps es = [] \<longleftrightarrow> set (extra_keys ps es) = {}" by simp
  also have "\<dots> \<longleftrightarrow> set (map fst es) \<subseteq> set (map fst ps)" by (auto simp: extra_keys_def)
  finally show ?thesis .
qed

lemma decides_properties:
  assumes "\<And>key s v p. (key, JObj s) \<in> set ps \<Longrightarrow> decides (f s v p) (P s v)"
  shows "decides (forE (\<lambda>p. case p of (key, sub) \<Rightarrow> (case sub of
        JObj s \<Rightarrow> if map_of es key = None then Inr () else f s (value_at es key) (member_path path key)
      | _ \<Rightarrow> Inr ())) ps)
    (\<forall>p\<in>set ps. case p of (key, sub) \<Rightarrow> (case sub of
        JObj s \<Rightarrow> map_of es key = None \<or> P s (value_at es key) | _ \<Rightarrow> True))"
proof (rule decides_for)
  fix p
  assume p: "p \<in> set ps"
  obtain key sub where "p = (key, sub)" by fastforce
  with p show "decides (case p of (key, sub) \<Rightarrow> (case sub of
        JObj s \<Rightarrow> if map_of es key = None then Inr () else f s (value_at es key) (member_path path key)
      | _ \<Rightarrow> Inr ())) (case p of (key, sub) \<Rightarrow> (case sub of
        JObj s \<Rightarrow> map_of es key = None \<or> P s (value_at es key) | _ \<Rightarrow> True))"
    by (cases sub) (auto simp: decides_ok intro: assms)
qed

lemma decides_additional:
  assumes "\<And>s v p. a = JObj s \<Longrightarrow> decides (f s v p) (P s v)"
  shows "decides (let extra = extra_keys ps es in
      (case a of
         JBool b \<Rightarrow> require_valid (b \<or> extra = []) (msg extra)
       | JObj s \<Rightarrow> forE (\<lambda>key. f s (value_at es key) (member_path path key)) extra
       | _ \<Rightarrow> Inr ()))
    (case a of
       JBool b \<Rightarrow> b \<or> set (map fst es) \<subseteq> set (map fst ps)
     | JObj s \<Rightarrow> \<forall>key\<in>set (extra_keys ps es). P s (value_at es key)
     | _ \<Rightarrow> True)"
  unfolding Let_def extra_keys_empty [symmetric]
  by (cases a) (simp_all add: decides_ok decides_require decides_for assms)

lemma decides_items:
  assumes "\<And>s v p. a = JObj s \<Longrightarrow> decides (f s v p) (P s v)"
  shows "decides (case a of JObj s \<Rightarrow> forE (\<lambda>i. f s (xs ! i) (index_path path i)) [0..<length xs] | _ \<Rightarrow> Inr ())
    (case a of JObj s \<Rightarrow> \<forall>x\<in>set xs. P s x | _ \<Rightarrow> True)"
proof (cases a)
  case (JObj s)
  have "decides (forE (\<lambda>i. f s (xs ! i) (index_path path i)) [0..<length xs]) (\<forall>i\<in>set [0..<length xs]. P s (xs ! i))"
    by (rule decides_for) (rule assms [OF JObj])
  moreover have "(\<forall>i\<in>set [0..<length xs]. P s (xs ! i)) \<longleftrightarrow> (\<forall>x\<in>set xs. P s x)"
    by (auto simp: all_set_conv_all_nth)
  ultimately show ?thesis by (simp add: JObj)
qed (simp_all add: decides_ok)

lemma decides_case_not:
  assumes "\<And>s. a = JObj s \<Longrightarrow> decides (f s) (P s)"
  shows "decides (case a of JObj s \<Rightarrow> bindE (passes (f s)) (\<lambda>p. require_valid (\<not> p) msg) | _ \<Rightarrow> Inr ())
    (case a of JObj s \<Rightarrow> \<not> P s | _ \<Rightarrow> True)"
  by (cases a) (simp_all add: decides_ok decides_not assms)

lemma decides_object:
  assumes "\<And>ps key s v p. get_or (JObj []) (JObj schema) ''properties'' = JObj ps \<Longrightarrow> (key, JObj s) \<in> set ps \<Longrightarrow>
      decides (f s v p) (P s v)"
    and "\<And>s v p. get_or (JBool True) (JObj schema) ''additionalProperties'' = JObj s \<Longrightarrow> decides (f s v p) (P s v)"
  shows "decides (case get_or (JObj []) (JObj schema) ''properties'' of
        JObj ps \<Rightarrow>
          thenE (forE (\<lambda>p. case p of (key, sub) \<Rightarrow> (case sub of
              JObj s \<Rightarrow> if map_of es key = None then Inr () else f s (value_at es key) (member_path path key)
            | _ \<Rightarrow> Inr ())) ps) (
          let extra = extra_keys ps es in
          (case get_or (JBool True) (JObj schema) ''additionalProperties'' of
             JBool b \<Rightarrow> require_valid (b \<or> extra = []) (msg extra)
           | JObj s \<Rightarrow> forE (\<lambda>key. f s (value_at es key) (member_path path key)) extra
           | _ \<Rightarrow> Inr ()))
      | _ \<Rightarrow> Inr ())
    (case get_or (JObj []) (JObj schema) ''properties'' of
       JObj ps \<Rightarrow>
         (\<forall>p\<in>set ps. case p of (key, sub) \<Rightarrow> (case sub of
            JObj s \<Rightarrow> map_of es key = None \<or> P s (value_at es key) | _ \<Rightarrow> True)) \<and>
         (case get_or (JBool True) (JObj schema) ''additionalProperties'' of
            JBool b \<Rightarrow> b \<or> set (map fst es) \<subseteq> set (map fst ps)
          | JObj s \<Rightarrow> \<forall>key\<in>set (extra_keys ps es). P s (value_at es key)
          | _ \<Rightarrow> True)
     | _ \<Rightarrow> True)"
proof (cases "get_or (JObj []) (JObj schema) ''properties''")
  case (JObj ps)
  have "decides (f s v p) (P s v)" if "(key, JObj s) \<in> set ps" for key s v p using assms(1) JObj that by blast
  then show ?thesis unfolding JObj json.case by (intro decides_then decides_properties decides_additional) (simp_all add: assms(2))
qed (simp_all add: decides_ok)

text \<open>The conditions on the members of an object and the elements of a list, over any recursive call.\<close>

lemma decides_parts:
  assumes shaped: "shaped schema"
    and "\<And>ps key s v p. get_or (JObj []) (JObj schema) ''properties'' = JObj ps \<Longrightarrow> (key, JObj s) \<in> set ps \<Longrightarrow>
      decides (f s v p) (P s v)"
    and "\<And>s v p. get_or (JBool True) (JObj schema) ''additionalProperties'' = JObj s \<Longrightarrow> decides (f s v p) (P s v)"
    and "\<And>s v p. get_none (JObj schema) ''items'' = JObj s \<Longrightarrow> decides (f s v p) (P s v)"
  shows "decides (case value of
      JObj es \<Rightarrow>
        thenE (case get_or (JObj []) (JObj schema) ''properties'' of
            JObj ps \<Rightarrow>
              thenE (forE (\<lambda>p. case p of (key, sub) \<Rightarrow> (case sub of
                  JObj s \<Rightarrow> if map_of es key = None then Inr () else f s (value_at es key) (member_path path key)
                | _ \<Rightarrow> Inr ())) ps) (
              let extra = extra_keys ps es in
              (case get_or (JBool True) (JObj schema) ''additionalProperties'' of
                 JBool b \<Rightarrow> require_valid (b \<or> extra = []) (msg extra)
               | JObj s \<Rightarrow> forE (\<lambda>key. f s (value_at es key) (member_path path key)) extra
               | _ \<Rightarrow> Inr ()))
          | _ \<Rightarrow> Inr ())
        (bounds2 fr schema ''minProperties'' ''maxProperties'' (length es) path)
    | JList xs \<Rightarrow>
        thenE (case get_none (JObj schema) ''items'' of
            JObj s \<Rightarrow> forE (\<lambda>i. f s (xs ! i) (index_path path i)) [0..<length xs]
          | _ \<Rightarrow> Inr ()) (
        thenE (check_unique fr schema xs path)
        (bounds2 fr schema ''minItems'' ''maxItems'' (length xs) path))
    | _ \<Rightarrow> Inr ())
    (case value of
      JObj es \<Rightarrow>
        (case get_or (JObj []) (JObj schema) ''properties'' of
           JObj ps \<Rightarrow>
             (\<forall>p\<in>set ps. case p of (key, sub) \<Rightarrow> (case sub of
                JObj s \<Rightarrow> map_of es key = None \<or> P s (value_at es key) | _ \<Rightarrow> True)) \<and>
             (case get_or (JBool True) (JObj schema) ''additionalProperties'' of
                JBool b \<Rightarrow> b \<or> set (map fst es) \<subseteq> set (map fst ps)
              | JObj s \<Rightarrow> \<forall>key\<in>set (extra_keys ps es). P s (value_at es key)
              | _ \<Rightarrow> True)
         | _ \<Rightarrow> True) \<and>
        size_ok schema ''minProperties'' ''maxProperties'' (length es)
    | JList xs \<Rightarrow>
        (case get_none (JObj schema) ''items'' of JObj s \<Rightarrow> \<forall>x\<in>set xs. P s x | _ \<Rightarrow> True) \<and>
        (get_none (JObj schema) ''uniqueItems'' = JBool True \<longrightarrow> distinct (map (canonical_json fr) xs)) \<and>
        size_ok schema ''minItems'' ''maxItems'' (length xs)
    | _ \<Rightarrow> True)"
proof (cases "value")
  case (JObj es)
  show ?thesis
    unfolding JObj json.case
    by (intro decides_then decides_object assms(2,3) decides_bounds2 shaped_numeric [OF shaped]) simp_all
next
  case (JList xs)
  show ?thesis
    unfolding JList json.case
    by (intro decides_then decides_items decides_unique decides_bounds2 shaped_numeric [OF shaped]) (simp_all add: assms(4))
qed (simp_all add: decides_ok)

lemma validator_decides:
  "well_shaped schema \<Longrightarrow> decides (validate_tool_schema fr (\<lambda>p s. Inr (found p s)) schema value path) (conforms fr found schema value)"
proof (induction "size (JObj schema)" arbitrary: schema "value" path rule: less_induct)
  case less
  let ?f = "\<lambda>s. validate_tool_schema fr (\<lambda>p s. Inr (found p s)) s" and ?P = "conforms fr found"
  have shaped: "shaped schema" using less.prems unfolding well_shaped.simps [of schema] by blast
  have subs: "decides (?f s v p) (?P s v)" if "s \<in> set (subs k schema)" "k \<in> set [''allOf'', ''anyOf'', ''oneOf'']" for k s v p
    using that less.prems by (intro less.hyps size_subs [OF that(1)]) (auto simp: well_shaped.simps [of schema])
  have sub_any: "decides (?f s v p) (?P s v)" if "s \<in> set (subs ''anyOf'' schema)" for s v p
    using that by (rule subs) simp
  have sub_one: "decides (?f s v p) (?P s v)" if "s \<in> set (subs ''oneOf'' schema)" for s v p
    using that by (rule subs) simp
  have sub_not: "decides (?f s v p) (?P s v)" if "get_none (JObj schema) ''not'' = JObj s" for s v p
    using less.prems that by (intro less.hyps size_none_member [OF that]) (simp add: well_shaped.simps [of schema])
  have sub_items: "decides (?f s v p) (?P s v)" if "get_none (JObj schema) ''items'' = JObj s" for s v p
    using less.prems that by (intro less.hyps size_none_member [OF that]) (simp add: well_shaped.simps [of schema])
  have sub_more: "decides (?f s v p) (?P s v)" if "get_or (JBool True) (JObj schema) ''additionalProperties'' = JObj s" for s v p
    using less.prems that by (intro less.hyps size_additional [OF that]) (simp add: well_shaped.simps [of schema])
  have sub_prop: "decides (?f s v p) (?P s v)"
    if "get_or (JObj []) (JObj schema) ''properties'' = JObj ps" "(key, JObj s) \<in> set ps" for ps key s v p
    using less.prems that by (intro less.hyps size_property [OF that]) (force simp: well_shaped.simps [of schema])
  have keyword: "subschemas k schema = Inr (subs k schema)" if "k \<in> set [''allOf'', ''anyOf'', ''oneOf'']" for k
    by (rule subschemas_listed [OF shaped_listed [OF shaped]]) (use that in auto)
  show ?case
  proof (cases "schema = []")
    case False
    have all_of: "decides (forE (\<lambda>s. ?f s value path) (subs ''allOf'' schema)) (\<forall>s\<in>set (subs ''allOf'' schema). ?P s value)"
      by (rule decides_for) (simp add: subs)
    note any_of = decides_any [of "subs ''anyOf'' schema" "\<lambda>s. ?f s value path" "\<lambda>s. ?P s value", OF sub_any]
    note one_of = decides_one [of "subs ''oneOf'' schema" "\<lambda>s. ?f s value path" "\<lambda>s. ?P s value", OF sub_one]
    note not_of = decides_case_not [of "get_none (JObj schema) ''not''" "\<lambda>s. ?f s value path" "\<lambda>s. ?P s value", OF sub_not]
    note parts = decides_parts [of schema ?f ?P, OF shaped sub_prop sub_more sub_items]
    show ?thesis
      unfolding validate_tool_schema.simps [of fr _ schema] conforms.simps [of fr found schema] if_not_P [OF False]
        eq_False [THEN iffD2, OF False] simp_thms if_False keyword [of "''allOf''", simplified] keyword [of "''anyOf''", simplified]
        keyword [of "''oneOf''", simplified] bindE.simps
      by (intro decides_then all_of any_of one_of not_of parts decides_constants decides_required decides_scalar shaped)
  qed (simp add: validate_tool_schema.simps [of fr _ "[]"] conforms.simps [of fr found "[]"] decides_ok)
qed

text \<open>
  C12: The validator decides conformance: on a well-shaped schema it returns exactly for the values that conform to
  it, and raises \<open>ToolValidationError\<close> for all others. In particular the verdict does not depend on the
  path, and no other exception escapes.
\<close>
theorem validation_decides_conformance:
  assumes "well_shaped schema"
  shows "(validate_tool_schema fr (\<lambda>p s. Inr (found p s)) schema value path = Inr () \<longleftrightarrow> conforms fr found schema value) \<and>
    (\<not> conforms fr found schema value \<longrightarrow>
      (\<exists>msg. validate_tool_schema fr (\<lambda>p s. Inr (found p s)) schema value path = Inl (Exn ToolValidationError msg)))"
  using validator_decides [OF assms, of fr found "value" path] unfolding decides_def by (auto split: if_splits)

section \<open>An example\<close>

definition weather_schema :: dict where
  "weather_schema =
     [(''type'', JStr ''object''), (''required'', JList [JStr ''city'']), (''additionalProperties'', JBool False),
      (''properties'', JObj
        [(''city'', JObj [(''type'', JStr ''string''), (''minLength'', JInt 1)]),
         (''days'', JObj [(''type'', JStr ''integer''), (''minimum'', JInt 1)])])]"

definition weather :: "string \<Rightarrow> int \<Rightarrow> json" where
  "weather city n = JObj [(''city'', JStr city), (''days'', JInt n)]"

lemma weather_checked:
  "well_shaped weather_schema \<and> conforms (\<lambda>_. []) (\<lambda>_ _. True) weather_schema (weather ''Oslo'' 3) \<and>
   \<not> conforms (\<lambda>_. []) (\<lambda>_ _. True) weather_schema (weather [] 0)"
  by code_simp

theorem validation_decides_conformance_witness:
  "validate_tool_schema (\<lambda>_. []) (\<lambda>p s. Inr True) weather_schema (weather ''Oslo'' 3) ''args'' = Inr () \<and>
   (\<exists>msg. validate_tool_schema (\<lambda>_. []) (\<lambda>p s. Inr True) weather_schema (weather [] 0) ''args'' = Inl (Exn ToolValidationError msg))"
  using validation_decides_conformance [where schema = weather_schema and fr = "\<lambda>_. []" and found = "\<lambda>_ _. True" and path = "''args''"]
    weather_checked by blast


end
