(* ===== verification/Sandbox.thy ===== *)
theory Sandbox
  imports Policy_Yaml Schema
begin

text \<open>
  The sandbox boundary of \<open>src/agentledger/sandbox.py\<close>: policies, the configuration and its YAML subset,
  the local, disabled and external executors, and the router that chooses among them.

  The operating system is a parameter, the record \<open>host\<close>: which binaries exist, and what a process that
  is started prints and returns, given the history of calls so far. Every process that starts is recorded in that
  history, as every call of a tool function is. Fields of a policy or configuration that come from a
  document unchecked are JSON values. Executors injected by the caller are not modelled.
\<close>

section \<open>Policies and results\<close>

record sandbox_policy =
  sp_tool :: string
  sp_run :: string
  sp_step :: string
  sp_executor :: json
  sp_isolation :: string
  sp_network :: json
  sp_filesystem :: json
  sp_timeout :: json
  sp_env :: "(string \<times> string) list"
  sp_limits :: dict
  sp_extra :: dict

text \<open>The keyword arguments of \<open>with_overrides\<close>; \<open>JNull\<close> and \<open>None\<close> leave a field as it is.\<close>

record overrides =
  o_executor :: json
  o_isolation :: "string option"
  o_network :: json
  o_filesystem :: json
  o_timeout :: json
  o_limits :: "dict option"
  o_extra :: "dict option"

definition override :: "json \<Rightarrow> json \<Rightarrow> json" where
  "override new old = (if new = JNull then old else new)"

definition override_opt :: "'a option \<Rightarrow> 'a \<Rightarrow> 'a" where
  "override_opt new old = (case new of None \<Rightarrow> old | Some x \<Rightarrow> x)"

definition with_overrides :: "overrides \<Rightarrow> sandbox_policy \<Rightarrow> sandbox_policy" where
  "with_overrides o' p = p\<lparr>sp_executor := override (o_executor o') (sp_executor p),
     sp_isolation := override_opt (o_isolation o') (sp_isolation p),
     sp_network := override (o_network o') (sp_network p),
     sp_filesystem := override (o_filesystem o') (sp_filesystem p),
     sp_timeout := override (o_timeout o') (sp_timeout p),
     sp_limits := override_opt (o_limits o') (sp_limits p),
     sp_extra := override_opt (o_extra o') (sp_extra p)\<rparr>"

definition sandbox_policy_to_dict :: "sandbox_policy \<Rightarrow> json" where
  "sandbox_policy_to_dict p = JObj [(''tool_name'', JStr (sp_tool p)), (''run_id'', JStr (sp_run p)),
     (''step_id'', JStr (sp_step p)), (''executor'', sp_executor p), (''isolation_level'', JStr (sp_isolation p)),
     (''network'', sp_network p), (''filesystem'', sp_filesystem p), (''timeout_seconds'', sp_timeout p),
     (''env_keys'', strs (sort (map fst (sp_env p)))), (''resource_limits'', JObj (sp_limits p)),
     (''extra'', JObj (sp_extra p))]"

record sandbox_result =
  sr_ok :: bool
  sr_output :: json
  sr_error_type :: "string option"
  sr_error :: "string option"
  sr_metadata :: json

definition sandbox_result_to_dict :: "sandbox_result \<Rightarrow> json" where
  "sandbox_result_to_dict r = JObj [(''ok'', JBool (sr_ok r)), (''error_type'', opt_str (sr_error_type r)),
     (''error'', opt_str (sr_error r)), (''metadata'', sr_metadata r)]"

definition sandbox_ok :: "json \<Rightarrow> dict \<Rightarrow> sandbox_result" where
  "sandbox_ok output metadata =
     \<lparr>sr_ok = True, sr_output = output, sr_error_type = None, sr_error = None, sr_metadata = JObj metadata\<rparr>"

definition sandbox_error :: "json \<Rightarrow> string \<Rightarrow> string \<Rightarrow> dict \<Rightarrow> sandbox_result" where
  "sandbox_error output error_type error metadata =
     \<lparr>sr_ok = False, sr_output = output, sr_error_type = Some error_type, sr_error = Some error, sr_metadata = JObj metadata\<rparr>"

section \<open>Configuration\<close>

record tool_rule =
  ru_required :: json
  ru_executor :: json
  ru_network :: json
  ru_filesystem :: json
  ru_timeout :: json
  ru_limits :: dict
  ru_extra :: dict

record sandbox_config =
  sc_default :: string
  sc_fail_closed :: bool
  sc_executors :: "(string \<times> dict) list"
  sc_tools :: "(string \<times> tool_rule) list"

text \<open>\<open>dict(v or {})\<close>; anything but a mapping is refused.\<close>

definition as_dict :: "json \<Rightarrow> exn + dict" where
  "as_dict v = (case py_or v (JObj []) of JObj es \<Rightarrow> Inr es
     | u \<Rightarrow> Inl (Exn TypeError (repr_str (type_name u) @ '' object is not a mapping'')))"

definition rule_keys :: "string list" where
  "rule_keys = [''required'', ''executor'', ''network'', ''filesystem'', ''timeout_seconds'', ''resource_limits'']"

definition rule_from_dict :: "json \<Rightarrow> exn + tool_rule" where
  "rule_from_dict data =
     (case py_or data (JObj []) of
        JObj d \<Rightarrow> bindE (as_dict (get_none (JObj d) ''resource_limits'')) (\<lambda>limits.
          Inr \<lparr>ru_required = get_none (JObj d) ''required'', ru_executor = get_none (JObj d) ''executor'',
               ru_network = get_none (JObj d) ''network'', ru_filesystem = get_none (JObj d) ''filesystem'',
               ru_timeout = get_none (JObj d) ''timeout_seconds'', ru_limits = limits,
               ru_extra = filter (\<lambda>e. fst e \<notin> set rule_keys) d\<rparr>)
      | v \<Rightarrow> Inl (attribute_error v ''get''))"

definition items_of :: "json \<Rightarrow> exn + dict" where
  "items_of v = (case py_or v (JObj []) of JObj es \<Rightarrow> Inr es | u \<Rightarrow> Inl (attribute_error u ''items''))"

definition config_from_dict :: "(rat \<Rightarrow> string) \<Rightarrow> dict \<Rightarrow> exn + sandbox_config" where
  "config_from_dict fr data =
     bindE (bindE (items_of (get_none (JObj data) ''executors''))
       (mapE (\<lambda>e. bindE (as_dict (snd e)) (\<lambda>d. Inr (fst e, d))))) (\<lambda>executors.
     bindE (bindE (items_of (get_none (JObj data) ''tools''))
       (mapE (\<lambda>e. bindE (rule_from_dict (snd e)) (\<lambda>r. Inr (fst e, r))))) (\<lambda>tools.
     Inr \<lparr>sc_default = py_str fr (get_or (JStr ''local'') (JObj data) ''default_executor''),
          sc_fail_closed = truthy (get_or (JBool True) (JObj data) ''fail_closed''),
          sc_executors = executors, sc_tools = tools\<rparr>))"

definition rule_to_dict :: "tool_rule \<Rightarrow> json" where
  "rule_to_dict r = JObj (dict_update [(''required'', ru_required r), (''executor'', ru_executor r),
     (''network'', ru_network r), (''filesystem'', ru_filesystem r), (''timeout_seconds'', ru_timeout r),
     (''resource_limits'', JObj (ru_limits r))] (ru_extra r))"

definition config_to_dict :: "sandbox_config \<Rightarrow> dict" where
  "config_to_dict c = [(''default_executor'', JStr (sc_default c)), (''fail_closed'', JBool (sc_fail_closed c)),
     (''executors'', JObj (map (\<lambda>e. (fst e, JObj (snd e))) (sc_executors c))),
     (''tools'', JObj (map (\<lambda>t. (fst t, rule_to_dict (snd t))) (sc_tools c)))]"

section \<open>The YAML subset\<close>

record sandbox_yaml =
  z_data :: dict
  z_section :: "string option"
  z_name :: "string option"
  z_map :: "string option"

definition sandbox_split_scalar :: "string \<Rightarrow> exn + string \<times> json" where
  "sandbox_split_scalar content =
     (case split_once CHR '':'' content of
        (key, None) \<Rightarrow> Inl (Exn ValueError (''expected key: value, got '' @ repr_str content))
      | (key, Some v) \<Rightarrow>
          bindE (if strip v = [] then Inr (JObj []) else scalar (strip v)) (\<lambda>p. Inr (strip key, p)))"

definition named_sections :: "string option list" where
  "named_sections = [Some ''executors'', Some ''tools'']"

definition no_setdefault :: "json \<Rightarrow> exn" where
  "no_setdefault v = attribute_error v ''setdefault''"

definition update_entry :: "string \<Rightarrow> string \<Rightarrow> (dict \<Rightarrow> exn + dict) \<Rightarrow> dict \<Rightarrow> exn + dict" where
  "update_entry sec name f = in_section sec no_setdefault (in_section name no_setdefault f)"

definition sandbox_top :: "string \<Rightarrow> sandbox_yaml \<Rightarrow> exn + sandbox_yaml" where
  "sandbox_top content y =
     (if ends_with CHR '':'' content then
        Inr \<lparr>z_data = setdefault (without_colon content) (JObj []) (z_data y),
             z_section = Some (without_colon content), z_name = None, z_map = None\<rparr>
      else bindE (sandbox_split_scalar content) (\<lambda>(key, v).
        Inr \<lparr>z_data = AList.update key v (z_data y), z_section = None, z_name = None, z_map = None\<rparr>))"

definition sandbox_nested :: "string \<Rightarrow> nat \<Rightarrow> string \<Rightarrow> sandbox_yaml \<Rightarrow> exn + sandbox_yaml" where
  "sandbox_nested raw indent content y =
     (let sec = the (z_section y); name = the (z_name y) in
      if z_section y \<in> set named_sections \<and> indent = 2 then
        (let entry = (if ends_with CHR '':'' content then without_colon content else content) in
         bindE (in_section sec no_setdefault (\<lambda>es. Inr (setdefault entry (JObj []) es)) (z_data y)) (\<lambda>d.
         Inr (y\<lparr>z_data := d, z_name := Some entry, z_map := None\<rparr>)))
      else if z_section y \<in> set named_sections \<and> nonempty (z_name y) \<and> indent = 4 then
        bindE (sandbox_split_scalar content) (\<lambda>(key, v).
          if v = JObj [] then
            bindE (update_entry sec name (\<lambda>es. Inr (setdefault key (JObj []) es)) (z_data y)) (\<lambda>d.
            Inr (y\<lparr>z_data := d, z_map := Some key\<rparr>))
          else
            bindE (update_entry sec name (\<lambda>es. Inr (AList.update key v es)) (z_data y)) (\<lambda>d.
            Inr (y\<lparr>z_data := d\<rparr>)))
      else if z_section y \<in> set named_sections \<and> nonempty (z_name y) \<and> nonempty (z_map y) \<and> indent = 6 then
        bindE (sandbox_split_scalar content) (\<lambda>(key, v).
        bindE (update_entry sec name (in_section (the (z_map y)) no_assignment (\<lambda>es. Inr (AList.update key v es)))
          (z_data y)) (\<lambda>d.
        Inr (y\<lparr>z_data := d\<rparr>)))
      else Inl (Exn ValueError (''unsupported sandbox YAML line: '' @ raw)))"

definition sandbox_line :: "string \<Rightarrow> sandbox_yaml \<Rightarrow> exn + sandbox_yaml" where
  "sandbox_line raw y =
     (let line = rstrip (fst (split_once CHR ''#'' raw));
          indent = length (takeWhile (\<lambda>c. c = CHR '' '') line);
          content = strip line in
      if content = [] then Inr y
      else if indent = 0 then sandbox_top content y
      else sandbox_nested raw indent content y)"

definition parse_sandbox_yaml :: "string \<Rightarrow> exn + dict" where
  "parse_sandbox_yaml source =
     bindE (foldE sandbox_line (splitlines source) \<lparr>z_data = [], z_section = None, z_name = None, z_map = None\<rparr>)
       (\<lambda>y. Inr (z_data y))"

definition config_from_file :: "(rat \<Rightarrow> string) \<Rightarrow> (string \<Rightarrow> exn + dict) \<Rightarrow> string \<Rightarrow> exn + sandbox_config" where
  "config_from_file fr json_loads source =
     bindE (if starts_with ''{'' (lstrip source) then json_loads source else parse_sandbox_yaml source)
       (config_from_dict fr)"

section \<open>Processes\<close>

datatype process = Finished string string int | Timed_out | Not_started exn

record host =
  h_which :: "string \<Rightarrow> string option"
  h_exists :: "string \<Rightarrow> bool"
  h_path :: string
  h_temp :: string
  h_spawn :: "(string \<times> json) list \<Rightarrow> string list \<Rightarrow> (string \<times> string) list \<Rightarrow> string option \<Rightarrow> json \<Rightarrow> process"
  h_loads :: "string \<Rightarrow> exn + json"

text \<open>Run a process with an environment, a directory and a time limit; one that starts is recorded.\<close>

definition spawn :: "host \<Rightarrow> string list \<Rightarrow> (string \<times> string) list \<Rightarrow> string option \<Rightarrow> json \<Rightarrow> process act" where
  "spawn h argv environment cwd timeout = (\<lambda>w.
     let p = h_spawn h (calls w) argv environment cwd timeout in
     (Inr p, case p of Not_started _ \<Rightarrow> w | _ \<Rightarrow> w\<lparr>calls := calls w @ [(''exec'', strs argv)]\<rparr>))"

datatype backend = Bubblewrap | Docker | Kubernetes | E2B | Firecracker | Remote

fun backend_type :: "backend \<Rightarrow> string" where
  "backend_type Bubblewrap = ''bubblewrap''"
| "backend_type Docker = ''docker''"
| "backend_type Kubernetes = ''kubernetes''"
| "backend_type E2B = ''e2b''"
| "backend_type Firecracker = ''firecracker''"
| "backend_type Remote = ''custom''"

fun isolation_level :: "backend \<Rightarrow> string" where
  "isolation_level Bubblewrap = ''process''"
| "isolation_level Docker = ''container''"
| "isolation_level Kubernetes = ''pod''"
| "isolation_level E2B = ''remote-vm''"
| "isolation_level Firecracker = ''microvm''"
| "isolation_level Remote = ''remote''"

record external =
  x_backend :: backend
  x_name :: string
  x_config :: dict

definition cfg :: "external \<Rightarrow> string \<Rightarrow> json" where
  "cfg x key = get_none (JObj (x_config x)) key"

definition cfg_str :: "(rat \<Rightarrow> string) \<Rightarrow> external \<Rightarrow> string \<Rightarrow> string \<Rightarrow> string" where
  "cfg_str fr x key dflt = py_str fr (get_or (JStr dflt) (JObj (x_config x)) key)"

definition is_argv :: "json list \<Rightarrow> bool" where
  "is_argv xs \<longleftrightarrow> xs \<noteq> [] \<and> (\<forall>x\<in>set xs. case x of JStr s \<Rightarrow> s \<noteq> [] | _ \<Rightarrow> False)"

definition texts :: "json list \<Rightarrow> string list" where
  "texts xs = concat (map (\<lambda>x. case x of JStr s \<Rightarrow> [s] | _ \<Rightarrow> []) xs)"

definition extract_command :: "(rat \<Rightarrow> string) \<Rightarrow> external \<Rightarrow> dict \<Rightarrow> exn + string list option" where
  "extract_command fr x args =
     (case get_or (get_none (JObj args) ''command'') (JObj args) ''_sandbox_command'' of
        JNull \<Rightarrow> Inr None
      | JStr raw \<Rightarrow>
          if \<not> truthy (cfg x ''allow_shell'')
          then Inl (Exn ValueError
            ''string commands require allow_shell=true; pass argv list in `_sandbox_command` instead'')
          else Inr (Some [cfg_str fr x ''shell'' ''/bin/sh'', ''-lc'', raw])
      | JList xs \<Rightarrow>
          if is_argv xs then Inr (Some (texts xs))
          else Inl (Exn ValueError ''_sandbox_command must be a non-empty list[str]'')
      | _ \<Rightarrow> Inl (Exn ValueError ''_sandbox_command must be a non-empty list[str]''))"

text \<open>The command of the arguments when it is valid and there is one.\<close>

definition command_of :: "(rat \<Rightarrow> string) \<Rightarrow> external \<Rightarrow> dict \<Rightarrow> string list option" where
  "command_of fr x args = (case extract_command fr x args of Inl _ \<Rightarrow> None | Inr c \<Rightarrow> c)"

definition placeholder :: "string list option \<Rightarrow> string list" where
  "placeholder c = (case c of Some (a # as) \<Rightarrow> a # as | _ \<Rightarrow> [''<tool-command>''])"

definition safe_config :: "external \<Rightarrow> dict" where
  "safe_config x = map (\<lambda>e. if \<exists>token\<in>set [''secret'', ''token'', ''key'', ''password'']. substring_of token (lower (fst e))
     then (fst e, JStr ''<redacted>'') else e) (x_config x)"

definition base_manifest :: "(rat \<Rightarrow> string) \<Rightarrow> external \<Rightarrow> sandbox_policy \<Rightarrow> dict \<Rightarrow> dict" where
  "base_manifest fr x p args =
     [(''backend'', JStr (backend_type (x_backend x))), (''executor'', JStr (x_name x)),
      (''isolation_level'', JStr (isolation_level (x_backend x))), (''tool_name'', JStr (sp_tool p)),
      (''run_id'', JStr (sp_run p)), (''step_id'', JStr (sp_step p)), (''network'', sp_network p),
      (''filesystem'', sp_filesystem p), (''timeout_seconds'', sp_timeout p),
      (''resource_limits'', JObj (sp_limits p)), (''config'', JObj (safe_config x)),
      (''arg_keys'', strs (sort (map fst args))), (''command_style'', JBool (command_of fr x args \<noteq> None))]"

section \<open>Command lines\<close>

definition bubblewrap_argv ::
  "(rat \<Rightarrow> string) \<Rightarrow> external \<Rightarrow> sandbox_policy \<Rightarrow> string list \<Rightarrow> string option \<Rightarrow> exn + string list" where
  "bubblewrap_argv fr x p command binary =
     bindE (iterate (get_or (strs [''/usr'', ''/bin'', ''/lib'', ''/lib64'']) (JObj (x_config x)) ''ro_bind'')) (\<lambda>paths.
     Inr ([case binary of Some b \<Rightarrow> b | None \<Rightarrow> cfg_str fr x ''binary'' ''bwrap'', ''--unshare-all'', ''--die-with-parent''] @
       (if sp_network p = JStr ''deny'' then [''--unshare-net''] else []) @
       concat (map (\<lambda>path. [''--ro-bind'', path, path]) (texts paths)) @
       [''--proc'', ''/proc'', ''--dev'', ''/dev'', ''--tmpfs'', ''/tmp'', ''--''] @ command))"

definition limit_of :: "external \<Rightarrow> sandbox_policy \<Rightarrow> string \<Rightarrow> json" where
  "limit_of x p key = py_or (get_none (JObj (sp_limits p)) key) (cfg x key)"

definition flag :: "(rat \<Rightarrow> string) \<Rightarrow> string \<Rightarrow> json \<Rightarrow> string list" where
  "flag fr name v = (if truthy v then [name, py_str fr v] else [])"

definition docker_argv :: "(rat \<Rightarrow> string) \<Rightarrow> external \<Rightarrow> sandbox_policy \<Rightarrow> string list \<Rightarrow> string option \<Rightarrow> string list" where
  "docker_argv fr x p command binary =
     [case binary of Some b \<Rightarrow> b | None \<Rightarrow> cfg_str fr x ''binary'' ''docker'', ''run'', ''--rm'', ''--network'',
      if sp_network p = JStr ''deny'' then ''none'' else py_str fr (sp_network p), ''--read-only''] @
     flag fr ''--memory'' (limit_of x p ''memory'') @ flag fr ''--cpus'' (limit_of x p ''cpus'') @
     [cfg_str fr x ''image'' ''python:3.11-slim''] @ command"

definition dns_part :: "string \<Rightarrow> string" where
  "dns_part v =
     (let safe = concat (map (\<lambda>c. if is_alnum c then lower [c] else ''-'') v);
          joined = join ''-'' (filter (\<lambda>part. part \<noteq> []) (split_all CHR ''-'' safe));
          cut = strip_chars ''-'' (take 40 (if joined = [] then ''tool'' else joined)) in
      if cut = [] then ''tool'' else cut)"

definition label_value :: "string \<Rightarrow> string" where
  "label_value v =
     (let safe = strip_chars ''-_.'' (map (\<lambda>c. if is_alnum c \<or> c \<in> set ''-_.'' then c else CHR ''-'') v);
          cut = strip_chars ''-_.'' (take 63 (if safe = [] then ''value'' else safe)) in
      if cut = [] then ''value'' else cut)"

definition labels :: "(rat \<Rightarrow> string) \<Rightarrow> sandbox_policy \<Rightarrow> json" where
  "labels fr p = JObj [(''app.kubernetes.io/name'', JStr ''agentledger''),
     (''app.kubernetes.io/component'', JStr ''sandbox''),
     (''agentledger.dev/run-id'', JStr (label_value (sp_run p))),
     (''agentledger.dev/step-id'', JStr (label_value (sp_step p))),
     (''agentledger.dev/tool-name'', JStr (label_value (sp_tool p))),
     (''agentledger.dev/network'', JStr (label_value (py_str fr (sp_network p))))]"

definition job_resources :: "(rat \<Rightarrow> string) \<Rightarrow> external \<Rightarrow> sandbox_policy \<Rightarrow> json" where
  "job_resources fr x p =
     (case cfg x ''resources'' of
        JObj es \<Rightarrow> JObj es
      | _ \<Rightarrow>
          let configured = (case cfg x ''resource_limits'' of JObj es \<Rightarrow> JObj es | _ \<Rightarrow> JObj []);
              memory = py_or (get_none (JObj (sp_limits p)) ''memory'') (py_or (get_none configured ''memory'') (cfg x ''memory''));
              cpu = py_or (get_none (JObj (sp_limits p)) ''cpu'') (py_or (get_none (JObj (sp_limits p)) ''cpus'')
                (py_or (get_none configured ''cpu'') (py_or (get_none configured ''cpus'')
                (py_or (cfg x ''cpu'') (cfg x ''cpus'')))));
              limits = (if truthy memory then [(''memory'', JStr (py_str fr memory))] else []) @
                       (if truthy cpu then [(''cpu'', JStr (py_str fr cpu))] else []) in
          if limits = [] then JObj [] else JObj [(''limits'', JObj limits)])"

definition kubectl_base :: "(rat \<Rightarrow> string) \<Rightarrow> external \<Rightarrow> string \<Rightarrow> string \<Rightarrow> string list" where
  "kubectl_base fr x binary namespace =
     binary # flag fr ''--context'' (cfg x ''context'') @ flag fr ''--kubeconfig'' (cfg x ''kubeconfig'') @
     (if namespace = [] then [] else [''--namespace'', namespace])"

definition kubectl_binary :: "(rat \<Rightarrow> string) \<Rightarrow> external \<Rightarrow> string" where
  "kubectl_binary fr x = py_str fr (get_or (get_or (JStr ''kubectl'') (JObj (x_config x)) ''binary'') (JObj (x_config x)) ''kubectl'')"

definition job_namespace :: "(rat \<Rightarrow> string) \<Rightarrow> external \<Rightarrow> string" where
  "job_namespace fr x = cfg_str fr x ''namespace'' ''agentledger-sandbox''"

definition pod_spec :: "(rat \<Rightarrow> string) \<Rightarrow> external \<Rightarrow> sandbox_policy \<Rightarrow> string list \<Rightarrow> dict" where
  "pod_spec fr x p command =
     [(''serviceAccountName'', JStr (cfg_str fr x ''service_account'' ''agentledger-sandbox'')),
      (''automountServiceAccountToken'', JBool (truthy (cfg x ''automount_service_account_token''))),
      (''restartPolicy'', JStr ''Never''),
      (''containers'', JList [JObj [(''name'', JStr (cfg_str fr x ''container_name'' ''tool'')),
         (''image'', JStr (cfg_str fr x ''image'' ''agentledger/sandbox:latest'')),
         (''command'', strs (take 1 command)), (''args'', strs (drop 1 command)),
         (''resources'', job_resources fr x p),
         (''securityContext'', JObj [(''allowPrivilegeEscalation'', JBool False), (''readOnlyRootFilesystem'', JBool True),
            (''capabilities'', JObj [(''drop'', strs [''ALL''])])])]]),
      (''securityContext'', JObj [(''runAsNonRoot'', JBool True),
         (''seccompProfile'', JObj [(''type'', JStr (cfg_str fr x ''seccomp_profile'' ''RuntimeDefault''))])])] @
     (if truthy (cfg x ''runtime_class'') then [(''runtimeClassName'', cfg x ''runtime_class'')] else [])"

definition kubernetes_job :: "(rat \<Rightarrow> string) \<Rightarrow> external \<Rightarrow> sandbox_policy \<Rightarrow> string list \<Rightarrow> exn + json" where
  "kubernetes_job fr x p command =
     (let annotations = JObj [(''agentledger.dev/run-id'', JStr (sp_run p)), (''agentledger.dev/step-id'', JStr (sp_step p)),
            (''agentledger.dev/tool-name'', JStr (sp_tool p)), (''agentledger.dev/network'', sp_network p),
            (''agentledger.dev/filesystem'', sp_filesystem p)];
          ttl = cfg x ''ttl_seconds_after_finished'' in
      bindE (py_int (get_or (JInt 0) (JObj (x_config x)) ''backoff_limit'')) (\<lambda>backoff.
      bindE (py_int (get_or (sp_timeout p) (JObj (x_config x)) ''active_deadline_seconds'')) (\<lambda>deadline.
      bindE (if ttl = JNull then Inr [] else bindE (py_int ttl) (\<lambda>n. Inr [(''ttlSecondsAfterFinished'', JInt n)])) (\<lambda>after.
      Inr (JObj [(''apiVersion'', JStr ''batch/v1''), (''kind'', JStr ''Job''),
        (''metadata'', JObj [(''generateName'', JStr (''agentledger-'' @ dns_part (sp_tool p) @ ''-'')),
           (''namespace'', JStr (job_namespace fr x)), (''labels'', labels fr p), (''annotations'', annotations)]),
        (''spec'', JObj ([(''backoffLimit'', JInt backoff), (''activeDeadlineSeconds'', JInt deadline),
           (''template'', JObj [(''metadata'', JObj [(''labels'', labels fr p), (''annotations'', annotations)]),
              (''spec'', JObj (pod_spec fr x p command))])] @ after))])))))"

definition kubectl_preview :: "(rat \<Rightarrow> string) \<Rightarrow> external \<Rightarrow> string list" where
  "kubectl_preview fr x = kubectl_base fr x (kubectl_binary fr x) (job_namespace fr x) @ [''create'', ''-f'', ''<job.json>'', ''-o'', ''json'']"

definition build_manifest :: "(rat \<Rightarrow> string) \<Rightarrow> external \<Rightarrow> sandbox_policy \<Rightarrow> dict \<Rightarrow> exn + dict" where
  "build_manifest fr x p args =
     (let base = base_manifest fr x p args; command = placeholder (command_of fr x args) in
      case x_backend x of
        Bubblewrap \<Rightarrow> bindE (bubblewrap_argv fr x p command None) (\<lambda>argv. Inr (base @ [(''command'', strs argv)]))
      | Docker \<Rightarrow> Inr (base @ [(''command'', strs (docker_argv fr x p command None))])
      | Kubernetes \<Rightarrow> bindE (kubernetes_job fr x p command) (\<lambda>job.
          Inr (base @ [(''kubernetes_job'', job), (''kubectl'', strs (kubectl_preview fr x))]))
      | Remote \<Rightarrow> Inr (base @ [(''endpoint'', cfg x ''endpoint'')])
      | _ \<Rightarrow> Inr base)"


section \<open>Executors\<close>

definition resolve :: "host \<Rightarrow> string \<Rightarrow> string option" where
  "resolve h binary = (if CHR ''/'' \<notin> set binary then h_which h binary else if h_exists h binary then Some binary else None)"

definition tagged :: "external \<Rightarrow> dict \<Rightarrow> dict" where
  "tagged x manifest = [(''executor'', JStr (x_name x)), (''manifest'', JObj manifest)]"

definition adapter_not_installed :: "external \<Rightarrow> dict \<Rightarrow> string \<Rightarrow> sandbox_result" where
  "adapter_not_installed x manifest reason =
     sandbox_error JNull ''SandboxAdapterNotInstalled'' reason
       [(''executor'', JStr (x_name x)), (''isolation_level'', JStr (isolation_level (x_backend x))), (''manifest'', JObj manifest)]"

definition binary_missing :: "external \<Rightarrow> dict \<Rightarrow> string \<Rightarrow> string \<Rightarrow> sandbox_result" where
  "binary_missing x manifest what binary =
     sandbox_error JNull ''SandboxBinaryMissing'' (what @ '' binary not found: '' @ binary) (tagged x manifest)"

definition cwd_of :: "sandbox_policy \<Rightarrow> string option" where
  "cwd_of p = (case get_none (JObj (sp_extra p)) ''cwd'' of JStr s \<Rightarrow> Some s | _ \<Rightarrow> None)"

definition run_subprocess ::
  "host \<Rightarrow> external \<Rightarrow> string list \<Rightarrow> sandbox_policy \<Rightarrow> dict \<Rightarrow> string option \<Rightarrow> sandbox_result act" where
  "run_subprocess h x argv p manifest fallback =
     bindM (getsM repr_float) (\<lambda>fr.
     let environment = fold (\<lambda>e. AList.update (fst e) (snd e)) (sp_env p) [(''PATH'', h_path h)];
         timed_out = sandbox_error JNull ''SandboxTimeout''
           (''sandbox command timed out after '' @ py_str fr (sp_timeout p) @ ''s'') (tagged x manifest) in
     bindM (spawn h argv environment (cwd_of p) (sp_timeout p)) (\<lambda>proc.
     case proc of
       Timed_out \<Rightarrow> retM timed_out
     | Not_started e \<Rightarrow>
         if isinstance e TimeoutError then retM timed_out
         else if isinstance e FileNotFoundError
           then retM (sandbox_error JNull ''SandboxBinaryMissing'' (str_exn e) (tagged x manifest))
         else if isinstance e Exception
           then retM (sandbox_error JNull (class_name (class_of e)) (repr_exn e) (tagged x manifest))
         else raiseM e
     | Finished out err code \<Rightarrow>
         let output = JObj [(''stdout'', JStr out), (''stderr'', JStr err), (''returncode'', JInt code)];
             level = (case fallback of Some l \<Rightarrow> l | None \<Rightarrow> isolation_level (x_backend x));
             metadata = [(''executor'', JStr (x_name x)), (''isolation_level'', JStr level),
                 (''manifest'', JObj manifest), (''executed'', JBool True)] @
               (case fallback of Some l \<Rightarrow> [(''fallback_isolation'', JStr l)] | None \<Rightarrow> []) in
         if code \<noteq> 0
         then retM (sandbox_error output ''SandboxCommandFailed'' (''sandbox command exited with '' @ int_str code) metadata)
         else retM (sandbox_ok output metadata)))"

definition run_bubblewrap :: "host \<Rightarrow> external \<Rightarrow> string list \<Rightarrow> sandbox_policy \<Rightarrow> dict \<Rightarrow> sandbox_result act" where
  "run_bubblewrap h x command p manifest =
     bindM (getsM repr_float) (\<lambda>fr.
     let binary = cfg_str fr x ''binary'' ''bwrap'' in
     case resolve h binary of
       None \<Rightarrow>
         if truthy (cfg x ''fallback_without_bwrap'')
         then run_subprocess h x command p
           (dict_update manifest [(''fallback_reason'', JStr ''bubblewrap binary not found''), (''fallback_command'', strs command)])
           (Some ''none'')
         else retM (binary_missing x manifest ''bubblewrap'' binary)
     | Some b \<Rightarrow>
         bindM (liftM (bubblewrap_argv fr x p command (Some b))) (\<lambda>argv. run_subprocess h x argv p manifest None))"

definition run_docker :: "host \<Rightarrow> external \<Rightarrow> string list \<Rightarrow> sandbox_policy \<Rightarrow> dict \<Rightarrow> sandbox_result act" where
  "run_docker h x command p manifest =
     bindM (getsM repr_float) (\<lambda>fr.
     let binary = cfg_str fr x ''binary'' ''docker'' in
     case resolve h binary of
       None \<Rightarrow> retM (binary_missing x manifest ''docker'' binary)
     | Some b \<Rightarrow> run_subprocess h x (docker_argv fr x p command (Some b)) p manifest None)"

definition run_kubectl :: "host \<Rightarrow> (rat \<Rightarrow> string) \<Rightarrow> string list \<Rightarrow> json \<Rightarrow> json act" where
  "run_kubectl h fr argv timeout =
     (let entry = (\<lambda>out err code. [(''argv'', strs argv), (''stdout'', JStr out), (''stderr'', JStr err), (''returncode'', JInt code)]);
          timed_out = JObj (entry [] (''kubectl command timed out after '' @ py_str fr timeout @ ''s'') (-1) @ [(''timeout'', JBool True)]) in
      bindM (spawn h argv [(''PATH'', h_path h)] None timeout) (\<lambda>proc.
      case proc of
        Finished out err code \<Rightarrow> retM (JObj (entry out err code))
      | Timed_out \<Rightarrow> retM timed_out
      | Not_started e \<Rightarrow> if isinstance e TimeoutError then retM timed_out else raiseM e))"

definition kubectl_failed :: "external \<Rightarrow> string \<Rightarrow> json \<Rightarrow> dict \<Rightarrow> sandbox_result" where
  "kubectl_failed x error_type output manifest =
     sandbox_error output error_type
       (case get_none output ''stderr'' of JStr s \<Rightarrow> if s = [] then error_type else s | _ \<Rightarrow> error_type) (tagged x manifest)"

definition exit_failed :: "json \<Rightarrow> bool" where
  "exit_failed r \<longleftrightarrow> r \<noteq> JNull \<and> get_none r ''returncode'' \<noteq> JInt 0"

text \<open>The steps after the job exists: wait, read the logs, delete; each may be switched off.\<close>

definition follow_job ::
  "host \<Rightarrow> external \<Rightarrow> (rat \<Rightarrow> string) \<Rightarrow> string \<Rightarrow> sandbox_policy \<Rightarrow> dict \<Rightarrow> json \<Rightarrow> json \<Rightarrow> sandbox_result act" where
  "follow_job h x fr resolved p manifest create job_name =
     (let base = kubectl_base fr x resolved (job_namespace fr x); job = ''job/'' @ py_str fr job_name;
          enabled = (\<lambda>key. truthy (get_or (JBool True) (JObj (x_config x)) key)) in
      bindM (if enabled ''wait'' then
          bindM (liftM (py_int (get_or (sp_timeout p) (JObj (x_config x)) ''wait_timeout_seconds''))) (\<lambda>n.
          run_kubectl h fr (base @ [''wait'', ''--for=condition=complete'', ''--timeout='' @ int_str n @ ''s'', job])
            (py_or (JInt (n + 5)) (sp_timeout p)))
        else retM JNull) (\<lambda>waited.
      bindM (if enabled ''capture_logs'' then run_kubectl h fr (base @ [''logs'', job]) (sp_timeout p) else retM JNull) (\<lambda>logs.
      bindM (if enabled ''cleanup''
        then run_kubectl h fr (base @ [''delete'', job, ''--ignore-not-found=true'']) (sp_timeout p) else retM JNull) (\<lambda>cleanup.
      let output = JObj [(''job_name'', job_name), (''created'', create), (''wait'', waited), (''logs'', logs),
            (''cleanup'', cleanup), (''stdout'', get_or (JStr []) logs ''stdout''),
            (''stderr'', get_or (JStr []) (py_or logs (py_or waited create)) ''stderr'')] in
      if exit_failed waited then retM (kubectl_failed x ''KubernetesJobFailed'' output manifest)
      else if exit_failed logs then retM (kubectl_failed x ''KubernetesLogsFailed'' output manifest)
      else retM (sandbox_ok output [(''executor'', JStr (x_name x)),
        (''isolation_level'', JStr (isolation_level (x_backend x))), (''manifest'', JObj manifest),
        (''executed'', JBool True), (''job_name'', job_name)])))))"

definition run_kubernetes :: "host \<Rightarrow> external \<Rightarrow> sandbox_policy \<Rightarrow> dict \<Rightarrow> sandbox_result act" where
  "run_kubernetes h x p manifest =
     bindM (getsM repr_float) (\<lambda>fr.
     let binary = kubectl_binary fr x in
     case resolve h binary of
       None \<Rightarrow> retM (binary_missing x manifest ''kubectl'' binary)
     | Some resolved \<Rightarrow>
         catchM
           (bindM (run_kubectl h fr (kubectl_base fr x resolved (job_namespace fr x) @
               [''create'', ''-f'', h_temp h, ''-o'', ''json'']) (sp_timeout p)) (\<lambda>create.
            if exit_failed create then retM (kubectl_failed x ''KubernetesJobCreateFailed'' create manifest)
            else
              bindM (liftM (h_loads h (case get_none create ''stdout'' of JStr s \<Rightarrow> if s = [] then ''{}'' else s | _ \<Rightarrow> ''{}''))) (\<lambda>created.
              bindM (liftM (case created of JObj es \<Rightarrow> get_attr (get_or (JObj []) created ''metadata'') ''name''
                | v \<Rightarrow> Inl (attribute_error v ''get''))) (\<lambda>job_name.
              if \<not> truthy job_name
              then retM (sandbox_error create ''KubernetesJobNameMissing'' ''kubectl create did not return a job name'' (tagged x manifest))
              else follow_job h x fr resolved p manifest create job_name))))
           (\<lambda>e. if isinstance e TimeoutError then retM (sandbox_error JNull ''SandboxTimeout'' (repr_exn e) (tagged x manifest))
                else if isinstance e Exception
                  then retM (sandbox_error JNull (class_name (class_of e)) (repr_exn e) (tagged x manifest))
                else raiseM e))"

definition run_command :: "host \<Rightarrow> external \<Rightarrow> string list \<Rightarrow> sandbox_policy \<Rightarrow> dict \<Rightarrow> sandbox_result act" where
  "run_command h x command p manifest =
     (case x_backend x of
        Bubblewrap \<Rightarrow> run_bubblewrap h x command p manifest
      | Docker \<Rightarrow> run_docker h x command p manifest
      | Kubernetes \<Rightarrow> run_kubernetes h x p manifest
      | _ \<Rightarrow> retM (adapter_not_installed x manifest ''no command runner is implemented for this executor''))"

definition run_with_manifest :: "host \<Rightarrow> (rat \<Rightarrow> string) \<Rightarrow> external \<Rightarrow> dict \<Rightarrow> sandbox_policy \<Rightarrow> dict \<Rightarrow> sandbox_result act" where
  "run_with_manifest h fr x args p manifest =
     (case extract_command fr x args of
        Inl e \<Rightarrow> retM (sandbox_error JNull ''InvalidSandboxCommand'' (str_exn e) (tagged x manifest))
      | Inr None \<Rightarrow> retM (adapter_not_installed x manifest
          ''external sandbox tools require a command-style `_sandbox_command` arg'')
      | Inr (Some command) \<Rightarrow>
          if x_backend x = Kubernetes \<and> truthy (cfg x ''dry_run'')
          then retM (sandbox_ok (JObj [(''dry_run'', JBool True), (''kubernetes_job'', get_none (JObj manifest) ''kubernetes_job'')])
            [(''executor'', JStr (x_name x)), (''isolation_level'', JStr (isolation_level Kubernetes)),
             (''manifest'', JObj manifest), (''dry_run'', JBool True), (''executed'', JBool False)])
          else if \<not> truthy (cfg x ''allow_command_execution'')
          then retM (adapter_not_installed x manifest
            (if x_backend x = Kubernetes then ''kubernetes command execution is not enabled for this executor''
             else ''command execution is not enabled for this executor''))
          else run_command h x command p manifest)"

definition external_run :: "host \<Rightarrow> external \<Rightarrow> json \<Rightarrow> sandbox_policy \<Rightarrow> sandbox_result act" where
  "external_run h x args p =
     bindM (getsM repr_float) (\<lambda>fr.
     case args of
       JObj es \<Rightarrow> bindM (liftM (build_manifest fr x p es)) (run_with_manifest h fr x es p)
     | v \<Rightarrow> raiseM (attribute_error v ''keys''))"

datatype executor = Local | Disabled string bool | External external

definition local_metadata :: "sandbox_policy \<Rightarrow> dict" where
  "local_metadata p = [(''executor'', JStr ''local''), (''isolation_level'', JStr ''none''), (''policy'', sandbox_policy_to_dict p)]"

text \<open>\<open>run_tool\<close> of the executors; \<open>func\<close> is the tool function applied to its arguments.\<close>

fun executor_run :: "host \<Rightarrow> executor \<Rightarrow> json act \<Rightarrow> json \<Rightarrow> sandbox_policy \<Rightarrow> sandbox_result act" where
  "executor_run h Local func args p =
     catchM (bindM func (\<lambda>result. retM (sandbox_ok result (local_metadata p))))
       (\<lambda>e. if isinstance e Exception
            then retM (sandbox_error JNull (class_name (class_of e)) (repr_exn e) (local_metadata p)) else raiseM e)"
| "executor_run h (Disabled name fail_closed) func args p =
     retM (sandbox_error JNull ''SandboxDisabled'' (''sandbox executor '' @ repr_str name @ '' is disabled'')
       [(''executor'', JStr name), (''isolation_level'', JStr ''none''), (''fail_closed'', JBool fail_closed),
        (''policy'', sandbox_policy_to_dict p)])"
| "executor_run h (External x) func args p = external_run h x args p"

section \<open>The router\<close>

record router =
  ro_config :: sandbox_config
  ro_executors :: "(string \<times> executor) list"

definition executor_for :: "(rat \<Rightarrow> string) \<Rightarrow> bool \<Rightarrow> string \<Rightarrow> dict \<Rightarrow> executor" where
  "executor_for fr fail_closed name raw =
     (let kind = lower (py_str fr (get_or (JStr name) (JObj raw) ''type''));
          x = (\<lambda>b. External \<lparr>x_backend = b, x_name = name, x_config = raw\<rparr>) in
      if kind = ''local'' then Local
      else if kind \<in> set [''none'', ''disabled''] then Disabled name fail_closed
      else if kind \<in> set [''bubblewrap'', ''bwrap''] then x Bubblewrap
      else if kind = ''docker'' then x Docker
      else if kind \<in> set [''kubernetes'', ''k8s''] then x Kubernetes
      else if kind = ''e2b'' then x E2B
      else if kind = ''firecracker'' then x Firecracker
      else x Remote)"

definition install_executors :: "(rat \<Rightarrow> string) \<Rightarrow> sandbox_config \<Rightarrow> (string \<times> executor) list" where
  "install_executors fr c =
     fold (\<lambda>e. setdefault (fst e) (executor_for fr (sc_fail_closed c) (fst e) (snd e))) (sc_executors c)
       [(''local'', Local), (''none'', Disabled ''none'' (sc_fail_closed c)), (''disabled'', Disabled ''disabled'' (sc_fail_closed c))]"

definition create_sandbox_executor :: "(rat \<Rightarrow> string) \<Rightarrow> sandbox_config \<Rightarrow> router" where
  "create_sandbox_executor fr c = \<lparr>ro_config = c, ro_executors = install_executors fr c\<rparr>"

definition lookup_executor :: "router \<Rightarrow> json \<Rightarrow> exn + executor option" where
  "lookup_executor r name =
     (if \<not> hashable name then Inl (unhashable name)
      else Inr (case name of JStr s \<Rightarrow> map_of (ro_executors r) s | _ \<Rightarrow> None))"

fun level_of :: "executor option \<Rightarrow> string" where
  "level_of None = ''unavailable''"
| "level_of (Some Local) = ''none''"
| "level_of (Some (Disabled n b)) = ''unknown''"
| "level_of (Some (External x)) = isolation_level (x_backend x)"

definition policy_for :: "router \<Rightarrow> sandbox_policy \<Rightarrow> exn + sandbox_policy" where
  "policy_for r base =
     (if \<not> hashable (sp_executor base) then Inl (unhashable (sp_executor base))
      else
        let executor = (if sp_executor base \<in> set [JStr [], JStr ''default''] then JStr (sc_default (ro_config r)) else sp_executor base);
            none = \<lparr>o_executor = executor, o_isolation = None, o_network = JNull, o_filesystem = JNull, o_timeout = JNull,
              o_limits = None, o_extra = None\<rparr>;
            ov = (case map_of (sc_tools (ro_config r)) (sp_tool base) of
                None \<Rightarrow> none
              | Some rule \<Rightarrow> none\<lparr>o_executor := py_or (ru_executor rule) executor, o_network := ru_network rule,
                  o_filesystem := ru_filesystem rule, o_timeout := ru_timeout rule,
                  o_limits := (if ru_limits rule = [] then None else Some (ru_limits rule)),
                  o_extra := Some (dict_update (sp_extra base) (ru_extra rule))\<rparr>) in
        bindE (lookup_executor r (o_executor ov)) (\<lambda>found.
        let (ov', found') = (if found = None \<and> \<not> sc_fail_closed (ro_config r)
              then (ov\<lparr>o_executor := JStr ''local''\<rparr>, map_of (ro_executors r) ''local'') else (ov, found)) in
        Inr (with_overrides (ov'\<lparr>o_isolation := Some (level_of found')\<rparr>) base)))"

definition route :: "host \<Rightarrow> router \<Rightarrow> json act \<Rightarrow> json \<Rightarrow> sandbox_policy \<Rightarrow> sandbox_result act" where
  "route h r func args p =
     bindM (getsM repr_float) (\<lambda>fr.
     bindM (liftM (lookup_executor r (sp_executor p))) (\<lambda>found.
     case found of
       Some e \<Rightarrow> executor_run h e func args p
     | None \<Rightarrow>
         if sc_fail_closed (ro_config r)
         then retM (sandbox_error JNull ''SandboxExecutorMissing''
           (''sandbox executor '' @ py_repr fr (sp_executor p) @ '' is not configured'')
           [(''executor'', sp_executor p), (''policy'', sandbox_policy_to_dict p)])
         else executor_run h Local func args p))"

definition describe_router :: "router \<Rightarrow> json" where
  "describe_router r = JObj [(''default_executor'', JStr (sc_default (ro_config r))),
     (''fail_closed'', JBool (sc_fail_closed (ro_config r))),
     (''executors'', strs (sort (map fst (ro_executors r)))),
     (''tools'', JObj (map (\<lambda>t. (fst t, ru_executor (snd t))) (sc_tools (ro_config r))))]"


end
