(* ===== verification/Sandbox_Spec.thy ===== *)
theory Sandbox_Spec
  imports Sandbox
begin

text \<open>
  What the sandbox boundary guarantees: it fails closed (a missing, disabled or not permitted executor
  runs neither the tool function nor a command), the command lines of external executors keep the isolation flags
  the policy asks for, Kubernetes labels are well formed, and the configuration survives a round trip.
\<close>

section \<open>Failing closed\<close>

text \<open>Executors that may not run anything: disabled, or external without permission to run commands.\<close>

fun barred :: "executor \<Rightarrow> bool" where
  "barred Local = False"
| "barred (Disabled n b) = True"
| "barred (External x) = (\<not> truthy (cfg x ''allow_command_execution''))"

definition not_executed :: "sandbox_result \<Rightarrow> bool" where
  "not_executed r \<longleftrightarrow> \<not> sr_ok r \<or> get_none (sr_metadata r) ''executed'' = JBool False"

lemma sandbox_error_not_executed: "not_executed (sandbox_error out t m d)"
  by (simp add: not_executed_def sandbox_error_def)

lemma adapter_not_executed: "not_executed (adapter_not_installed x m r)"
  by (simp add: adapter_not_installed_def sandbox_error_not_executed)

definition inert :: "world \<Rightarrow> (exn + sandbox_result) \<times> world \<Rightarrow> bool" where
  "inert w out \<longleftrightarrow> snd out = w \<and> (case fst out of Inl _ \<Rightarrow> True | Inr r \<Rightarrow> not_executed r)"

lemma inert_ret: "not_executed r \<Longrightarrow> inert w (retM r w)"
  by (simp add: inert_def)

lemma inert_pair [simp]: "inert w (Inr r, w) = not_executed r" "inert w (Inl e, w)"
  by (simp_all add: inert_def)

lemma inert_raise: "inert w (raiseM e w)"
  by (simp add: inert_def)

lemma inert_lift: "(\<And>v. r = Inr v \<Longrightarrow> inert w (f v w)) \<Longrightarrow> inert w (bindM (liftM r) f w)"
  by (cases r) (simp_all add: inert_def exec)

lemma inert_fr: "inert w (f (repr_float w) w) \<Longrightarrow> inert w (bindM (getsM repr_float) f w)"
  by (simp add: exec)

lemma manifest_inert:
  assumes "\<not> truthy (cfg x ''allow_command_execution'')"
  shows "inert w (run_with_manifest h fr x es p manifest w)"
proof -
  have dry: "not_executed (sandbox_ok out [(''executor'', a), (''isolation_level'', b), (''manifest'', c), (''dry_run'', d),
      (''executed'', JBool False)])" for out a b c d
    by (simp add: not_executed_def sandbox_ok_def get_or_JObj)
  show ?thesis
  proof (cases "extract_command fr x es")
    case (Inr c)
    show ?thesis
    proof (cases c)
      case None
      show ?thesis unfolding run_with_manifest_def Inr sum.case None option.case by (rule inert_ret [OF adapter_not_executed])
    next
      case (Some command)
      show ?thesis
        unfolding run_with_manifest_def Inr sum.case Some option.case
        using assms by (cases "x_backend x = Kubernetes \<and> truthy (cfg x ''dry_run'')")
          (simp_all only: if_True if_False simp_thms inert_ret dry adapter_not_executed)
    qed
  qed (simp only: run_with_manifest_def sum.case inert_ret sandbox_error_not_executed)
qed

lemma external_inert:
  "\<not> truthy (cfg x ''allow_command_execution'') \<Longrightarrow> inert w (external_run h x args p w)"
  unfolding external_run_def
  by (rule inert_fr, cases args) (auto intro!: inert_lift manifest_inert)

lemma executor_inert: "barred e \<Longrightarrow> inert w (executor_run h e func args p w)"
  by (cases e) (simp_all add: external_inert inert_ret sandbox_error_not_executed)

text \<open>
  C36: The sandbox fails closed. When the executor a policy names is missing and the configuration fails closed,
  or is disabled, or is external without permission to run commands, then neither the tool function nor any
  command runs and nothing changes: the call raises, or its result is an error or says it was not executed.
\<close>
theorem sandbox_fails_closed:
  assumes "case lookup_executor r (sp_executor p) of
      Inl _ \<Rightarrow> True | Inr None \<Rightarrow> sc_fail_closed (ro_config r) | Inr (Some e) \<Rightarrow> barred e"
  shows "inert w (route h r func args p w)"
  unfolding route_def
  by (rule inert_fr, rule inert_lift)
    (use assms in \<open>auto simp: executor_inert inert_ret sandbox_error_not_executed split: option.splits\<close>)

section \<open>Isolation flags\<close>

lemma docker_denies_network:
  "sp_network p = JStr ''deny'' \<Longrightarrow>
   \<exists>pre post. docker_argv fr x p command b = pre @ [''--network'', ''none'', ''--read-only''] @ post @ command"
  by (rule exI [of _ "[case b of Some b \<Rightarrow> b | None \<Rightarrow> cfg_str fr x ''binary'' ''docker'', ''run'', ''--rm'']"])
    (simp add: docker_argv_def)

lemma bubblewrap_denies_network:
  "sp_network p = JStr ''deny'' \<Longrightarrow> bubblewrap_argv fr x p command b = Inr argv \<Longrightarrow>
   \<exists>binary post. argv = [binary, ''--unshare-all'', ''--die-with-parent'', ''--unshare-net''] @ post @ [''--''] @ command"
  by (auto simp: bubblewrap_argv_def bindE_Inr_iff)

section \<open>Labels\<close>

lemma strip_chars_props:
  "set (strip_chars cs s) \<subseteq> set s" "length (strip_chars cs s) \<le> length s"
  "strip_chars cs s \<noteq> [] \<Longrightarrow> hd (strip_chars cs s) \<notin> set cs \<and> last (strip_chars cs s) \<notin> set cs"
proof -
  let ?d = "dropWhile (\<lambda>c. c \<in> set cs)"
  have sub: "set (?d xs) \<subseteq> set xs" for xs by (meson set_dropWhileD subsetI)
  show "set (strip_chars cs s) \<subseteq> set s"
    unfolding strip_chars_def set_rev using sub [of s] sub [of "rev (?d s)"] unfolding set_rev by blast
  show "length (strip_chars cs s) \<le> length s"
    unfolding strip_chars_def by (simp add: le_trans [OF length_dropWhile_le])
  assume ne: "strip_chars cs s \<noteq> []"
  then have d: "?d (rev (?d s)) \<noteq> []" by (simp add: strip_chars_def)
  have "last (strip_chars cs s) = hd (?d (rev (?d s)))" using d by (simp add: strip_chars_def last_rev)
  moreover have "hd (?d (rev (?d s))) \<notin> set cs" using hd_dropWhile [OF d] by simp
  moreover have "hd (strip_chars cs s) \<notin> set cs"
  proof -
    have ds: "?d s \<noteq> []" using d by (metis dropWhile.simps(1) rev.simps(1))
    obtain k where "?d (rev (?d s)) = drop k (rev (?d s))" using dropWhile_eq_drop by blast
    then have "strip_chars cs s = take (length (?d s) - k) (?d s)" by (simp add: strip_chars_def rev_drop)
    then have "hd (strip_chars cs s) = hd (?d s)" using ne by (cases "?d s"; cases "length (?d s) - k") auto
    then show ?thesis using hd_dropWhile [OF ds] by simp
  qed
  ultimately show "hd (strip_chars cs s) \<notin> set cs \<and> last (strip_chars cs s) \<notin> set cs" by simp
qed

definition ascii_alnum :: "char \<Rightarrow> bool" where
  "ascii_alnum c = (let n = of_char c :: nat in (48 \<le> n \<and> n \<le> 57) \<or> (65 \<le> n \<and> n \<le> 90) \<or> (97 \<le> n \<and> n \<le> 122))"

text \<open>The values Kubernetes accepts as labels: at most 63 characters, a letter or digit at both ends.\<close>

definition kube_label :: "string \<Rightarrow> bool" where
  "kube_label s \<longleftrightarrow> s \<noteq> [] \<and> length s \<le> 63 \<and> ascii_alnum (hd s) \<and> ascii_alnum (last s) \<and>
     (\<forall>c\<in>set s. ascii_alnum c \<or> c \<in> set ''-_.'')"

lemma kube_label_value: "kube_label ''value''"
  by code_simp

text \<open>
  C37: Label values are well formed: from ASCII identifiers \<open>_label_value\<close> always makes a label Kubernetes accepts.
\<close>
theorem label_value_valid:
  assumes "\<forall>c\<in>set v. (of_char c :: nat) < 128"
  shows "kube_label (label_value v)"
proof -
  define safe where "safe = strip_chars ''-_.'' (map (\<lambda>c. if is_alnum c \<or> c \<in> set ''-_.'' then c else CHR ''-'') v)"
  define safe' where "safe' = (if safe = [] then ''value'' else safe)"
  define cut where "cut = strip_chars ''-_.'' (take 63 safe')"
  have alnum: "is_alnum c \<Longrightarrow> (of_char c :: nat) < 128 \<Longrightarrow> ascii_alnum c" for c
    by (auto simp: is_alnum_def ascii_alnum_def Let_def)
  have "\<forall>c\<in>set safe. ascii_alnum c \<or> c \<in> set ''-_.''"
    using assms alnum strip_chars_props(1) [of "''-_.''" "map (\<lambda>c. if is_alnum c \<or> c \<in> set ''-_.'' then c else CHR ''-'') v"]
    unfolding safe_def by (force split: if_splits)
  moreover have "\<forall>c\<in>set ''value''. ascii_alnum c" using kube_label_value unfolding kube_label_def by auto
  ultimately have safe': "\<forall>c\<in>set safe'. ascii_alnum c \<or> c \<in> set ''-_.''" unfolding safe'_def by (simp split: if_split)
  have cut: "\<forall>c\<in>set cut. ascii_alnum c \<or> c \<in> set ''-_.''"
    using safe' strip_chars_props(1) [of "''-_.''" "take 63 safe'"] set_take_subset [of 63 safe'] unfolding cut_def by blast
  have "length cut \<le> 63"
    using strip_chars_props(2) [of "''-_.''" "take 63 safe'"] unfolding cut_def by simp
  moreover have "label_value v = (if cut = [] then ''value'' else cut)"
    by (simp only: label_value_def Let_def safe_def [symmetric] safe'_def [symmetric] cut_def [symmetric])
  moreover have "cut \<noteq> [] \<Longrightarrow> ascii_alnum (hd cut) \<and> ascii_alnum (last cut)"
    using cut strip_chars_props(3) [of "''-_.''" "take 63 safe'"] hd_in_set last_in_set unfolding cut_def by metis
  ultimately show ?thesis using cut kube_label_value by (auto simp: kube_label_def)
qed

section \<open>Configuration\<close>

lemma dict_update_disjoint:
  "distinct (map fst ps) \<Longrightarrow> fst ` set es \<inter> fst ` set ps = {} \<Longrightarrow> dict_update es ps = es @ ps"
proof (induction ps arbitrary: es)
  case (Cons p ps)
  have "AList.update (fst p) (snd p) es = es @ [p]" using Cons.prems(2) by (induction es) auto
  moreover have "dict_update (es @ [p]) ps = (es @ [p]) @ ps"
    by (rule Cons.IH) (use Cons.prems in auto)
  ultimately show ?case by (simp add: dict_update_def)
qed (simp add: dict_update_def)

definition plain_rule :: "tool_rule \<Rightarrow> bool" where
  "plain_rule r \<longleftrightarrow> distinct (map fst (ru_extra r)) \<and> set (map fst (ru_extra r)) \<inter> set rule_keys = {}"

lemma py_or_JObj: "py_or (JObj es) (JObj []) = JObj es"
  by (cases es) (simp_all add: py_or_def)

lemma as_dict_JObj: "as_dict (JObj es) = Inr es"
  by (simp only: as_dict_def py_or_JObj json.case)

lemma rule_roundtrip:
  assumes "plain_rule r"
  shows "rule_from_dict (rule_to_dict r) = Inr r"
proof -
  have extra: "distinct (map fst (ru_extra r))" "\<forall>e\<in>set (ru_extra r). fst e \<notin> set rule_keys"
    using assms by (auto simp: plain_rule_def)
  let ?base = "[(''required'', ru_required r), (''executor'', ru_executor r), (''network'', ru_network r),
     (''filesystem'', ru_filesystem r), (''timeout_seconds'', ru_timeout r), (''resource_limits'', JObj (ru_limits r))]"
  have base: "fst ` set ?base = set rule_keys" by (simp add: rule_keys_def)
  have "fst ` set ?base \<inter> fst ` set (ru_extra r) = {}" unfolding base using extra(2) by blast
  then have dict: "rule_to_dict r = JObj (?base @ ru_extra r)"
    unfolding rule_to_dict_def by (simp only: dict_update_disjoint [OF extra(1)])
  have "filter (\<lambda>e. fst e \<notin> set rule_keys) (?base @ ru_extra r) = ru_extra r"
    using extra(2) by (simp add: rule_keys_def)
  then show ?thesis
    unfolding rule_from_dict_def dict py_or_JObj json.case
    by (cases r) (simp add: get_or_JObj as_dict_JObj)
qed

text \<open>
  A sandbox configuration survives a round trip through its dictionary, if the extra settings of its tool rules
  are none of the known ones.
\<close>
theorem sandbox_config_roundtrip:
  assumes "\<forall>t\<in>set (sc_tools c). plain_rule (snd t)"
  shows "config_from_dict fr (config_to_dict c) = Inr c"
proof -
  have executors: "mapE (\<lambda>e. bindE (as_dict (snd e)) (\<lambda>d. Inr (fst e, d))) (map (\<lambda>e. (fst e, JObj (snd e))) es) = Inr es" for es
    by (induction es) (simp_all add: as_dict_JObj)
  have rules: "mapE (\<lambda>e. bindE (rule_from_dict (snd e)) (\<lambda>r. Inr (fst e, r))) (map (\<lambda>t. (fst t, rule_to_dict (snd t))) ts) = Inr ts"
    if "\<forall>t\<in>set ts. plain_rule (snd t)" for ts
    using that by (induction ts) (simp_all add: rule_roundtrip)
  show ?thesis
    by (simp add: config_from_dict_def config_to_dict_def get_or_JObj items_of_def py_or_JObj executors rules [OF assms])
qed

section \<open>Examples\<close>

definition docker_config :: sandbox_config where
  "docker_config = \<lparr>sc_default = ''docker'', sc_fail_closed = True,
     sc_executors = [(''docker'', [(''image'', JStr ''python'')])],
     sc_tools = [(''pay'', \<lparr>ru_required = JBool True, ru_executor = JStr ''gvisor'', ru_network = JNull, ru_filesystem = JNull,
       ru_timeout = JInt 5, ru_limits = [], ru_extra = [(''cwd'', JStr ''/srv'')]\<rparr>)]\<rparr>"

definition docker_router :: router where
  "docker_router = create_sandbox_executor (\<lambda>_. []) docker_config"

definition pay_policy :: "string \<Rightarrow> sandbox_policy" where
  "pay_policy executor = \<lparr>sp_tool = ''pay'', sp_run = ''run_1'', sp_step = ''step_1'', sp_executor = JStr executor,
     sp_isolation = ''none'', sp_network = JStr ''deny'', sp_filesystem = JStr ''read-only'', sp_timeout = JInt 30,
     sp_env = [], sp_limits = [], sp_extra = []\<rparr>"

lemma docker_lookup:
  "lookup_executor docker_router (JStr ''gvisor'') = Inr None \<and> sc_fail_closed (ro_config docker_router) \<and>
   lookup_executor docker_router (JStr ''docker'') =
     Inr (Some (External \<lparr>x_backend = Docker, x_name = ''docker'', x_config = [(''image'', JStr ''python'')]\<rparr>))"
  by code_simp

theorem sandbox_fails_closed_witness:
  "\<forall>h func args w. inert w (route h docker_router func args (pay_policy ''gvisor'') w) \<and>
     inert w (route h docker_router func args (pay_policy ''docker'') w)"
proof (intro allI conjI)
  fix h func args w
  show "inert w (route h docker_router func args (pay_policy ''gvisor'') w)"
    by (rule sandbox_fails_closed) (simp add: pay_policy_def docker_lookup)
  show "inert w (route h docker_router func args (pay_policy ''docker'') w)"
    by (rule sandbox_fails_closed) (simp add: pay_policy_def docker_lookup cfg_def get_or_JObj)
qed

theorem label_value_valid_witness: "kube_label (label_value ''pay:eur/2024.'')"
  by (rule label_value_valid) code_simp

theorem sandbox_config_roundtrip_witness:
  "\<forall>fr. config_from_dict fr (config_to_dict docker_config) = Inr docker_config"
proof
  fix fr
  show "config_from_dict fr (config_to_dict docker_config) = Inr docker_config"
    by (rule sandbox_config_roundtrip) (simp add: docker_config_def plain_rule_def rule_keys_def)
qed


end
