(* ===== verification/Cost.thy ===== *)
theory Cost
  imports PyText
begin

text \<open>
  Budgets and cost attribution, \<open>src/agentledger/cost.py\<close>. A budget check reads the usage recorded in the
  store, so all workers of a run share it. The report sums the cost records of a run by agent, step,
  category and name.
\<close>

section \<open>Budgets\<close>

record budget_limits =
  max_tool_calls :: "int option"
  max_model_tokens :: "int option"
  max_total_usd :: "rat option"

definition no_budget :: budget_limits where
  "no_budget = \<lparr>max_tool_calls = None, max_model_tokens = None, max_total_usd = None\<rparr>"

definition budget_exceeded :: "string \<Rightarrow> exn" where
  "budget_exceeded m = Exn BudgetExceeded m"

definition check_usd :: "budget_limits \<Rightarrow> string \<Rightarrow> unit act" where
  "check_usd b run =
     bindM (getsM repr_float) (\<lambda>fr.
     case max_total_usd b of
       None \<Rightarrow> retM ()
     | Some limit \<Rightarrow>
         bindM (select_db (cost_summary_of run)) (\<lambda>s.
         if limit < total_usd s
         then raiseM (budget_exceeded (''cost budget exceeded: '' @ fr (total_usd s) @ ''/'' @ fr limit @ '' USD''))
         else retM ()))"

definition before_tool_call :: "budget_limits \<Rightarrow> string \<Rightarrow> unit act" where
  "before_tool_call b run =
     (case max_tool_calls b of
        None \<Rightarrow> retM ()
      | Some limit \<Rightarrow>
          bindM (select_db (cost_summary_of run)) (\<lambda>s.
          let used = trunc_rat (tool_calls s) in
          if limit \<le> used
          then raiseM (budget_exceeded (''tool call budget exceeded: '' @ int_str used @ ''/'' @ int_str limit))
          else retM ()))"

definition before_model_call :: "budget_limits \<Rightarrow> string \<Rightarrow> int \<Rightarrow> unit act" where
  "before_model_call b run estimated =
     seqM (case max_model_tokens b of
        None \<Rightarrow> retM ()
      | Some limit \<Rightarrow>
          bindM (select_db (cost_summary_of run)) (\<lambda>s.
          let used = trunc_rat (model_tokens s) in
          if limit < used + max estimated 0
          then raiseM (budget_exceeded (''model token budget exceeded: '' @ int_str used @ ''+'' @ int_str estimated @
            ''/'' @ int_str limit))
          else retM ()))
     (check_usd b run)"

definition after_cost_recorded :: "budget_limits \<Rightarrow> string \<Rightarrow> unit act" where
  "after_cost_recorded b run = check_usd b run"

section \<open>Cost attribution\<close>

type_synonym totals = "(string \<times> rat) list"

definition empty_totals :: totals where
  "empty_totals = [(''tool_calls'', 0), (''model_tokens'', 0), (''total_usd'', 0)]"

definition add_amount :: "string \<Rightarrow> string \<Rightarrow> rat \<Rightarrow> totals \<Rightarrow> totals" where
  "add_amount category units amount t =
     (let t1 = (if (category = ''tool'' \<or> category = ''tool_shadow'') \<and> units = ''call'' then add_to ''tool_calls'' amount t else t);
          t2 = (if category = ''model'' \<and> units = ''token'' then add_to ''model_tokens'' amount t1 else t1);
          t3 = (if units = ''usd'' then add_to ''total_usd'' amount t2 else t2) in
      add_to (category @ '':'' @ units) amount t3)"

definition add_row :: "cost_row \<Rightarrow> totals \<Rightarrow> totals" where
  "add_row c t = add_amount (c_category c) (c_unit c) (c_amount c) t"

record cost_report =
  cr_run :: string
  cr_total :: totals
  cr_agent :: "(string \<times> totals) list"
  cr_step :: "(string \<times> string \<times> totals) list"
  cr_category :: "(string \<times> totals) list"
  cr_name :: "(string \<times> totals) list"

definition totals_dict :: "totals \<Rightarrow> dict" where
  "totals_dict t = map (\<lambda>e. (fst e, JFloat (snd e))) t"

definition buckets_dict :: "(string \<times> totals) list \<Rightarrow> json" where
  "buckets_dict bs = JObj (map (\<lambda>b. (fst b, JObj (totals_dict (snd b)))) bs)"

definition cost_report_to_dict :: "cost_report \<Rightarrow> json" where
  "cost_report_to_dict r = JObj [(''run_id'', JStr (cr_run r)), (''total'', JObj (totals_dict (cr_total r))),
     (''by_agent'', buckets_dict (cr_agent r)),
     (''by_step'', JObj (map (\<lambda>(s, role, t). (s, JObj ((''agent_role'', JStr role) # totals_dict t))) (cr_step r))),
     (''by_category'', buckets_dict (cr_category r)), (''by_name'', buckets_dict (cr_name r))]"

text \<open>\<open>_add_amount(d.setdefault(k, start), \<dots>)\<close>.\<close>

definition in_bucket :: "'k \<Rightarrow> 'v \<Rightarrow> ('v \<Rightarrow> 'v) \<Rightarrow> ('k \<times> 'v) list \<Rightarrow> ('k \<times> 'v) list" where
  "in_bucket k start f bs = AList.update k (f (case map_of bs k of None \<Rightarrow> start | Some v \<Rightarrow> v)) bs"

definition step_agent_roles :: "event_row list \<Rightarrow> (string option \<times> string) list" where
  "step_agent_roles es =
     fold (\<lambda>e roles. case e_role e of None \<Rightarrow> roles
       | Some r \<Rightarrow> if r = [] then roles else AList.update (e_step e) r roles) es []"

definition step_name :: "cost_row \<Rightarrow> string" where
  "step_name c = (case c_step c of None \<Rightarrow> ''<run>'' | Some s \<Rightarrow> if s = [] then ''<run>'' else s)"

definition agent_name :: "(string option \<times> string) list \<Rightarrow> cost_row \<Rightarrow> string" where
  "agent_name roles c = (case map_of roles (c_step c) of None \<Rightarrow> ''<unknown>'' | Some r \<Rightarrow> r)"

definition report_row :: "(string option \<times> string) list \<Rightarrow> cost_row \<Rightarrow> cost_report \<Rightarrow> cost_report" where
  "report_row roles c r =
     r\<lparr>cr_total := add_row c (cr_total r),
       cr_agent := in_bucket (agent_name roles c) empty_totals (add_row c) (cr_agent r),
       cr_step := in_bucket (step_name c) (agent_name roles c, empty_totals) (map_prod id (add_row c)) (cr_step r),
       cr_category := in_bucket (c_category c) empty_totals (add_row c) (cr_category r),
       cr_name := in_bucket (c_name c) empty_totals (add_row c) (cr_name r)\<rparr>"

definition cost_report_of :: "string \<Rightarrow> db \<Rightarrow> cost_report" where
  "cost_report_of run d =
     fold (report_row (step_agent_roles (events_of run d))) (costs_of run d)
       \<lparr>cr_run = run, cr_total = empty_totals, cr_agent = [], cr_step = [], cr_category = [], cr_name = []\<rparr>"

section \<open>What the report says\<close>

definition total_at :: "totals \<Rightarrow> string \<Rightarrow> rat" where
  "total_at t k = (case map_of t k of None \<Rightarrow> 0 | Some a \<Rightarrow> a)"

lemma total_add_to: "total_at (add_to k a t) k' = total_at t k' + (if k = k' then a else 0)"
  by (simp add: total_at_def add_to_def update_conv' split: option.split)

text \<open>What one record adds to an entry of a table of totals.\<close>

definition share :: "string \<Rightarrow> cost_row \<Rightarrow> rat" where
  "share k c =
     (if (c_category c = ''tool'' \<or> c_category c = ''tool_shadow'') \<and> c_unit c = ''call'' \<and> k = ''tool_calls'' then c_amount c else 0) +
     (if c_category c = ''model'' \<and> c_unit c = ''token'' \<and> k = ''model_tokens'' then c_amount c else 0) +
     (if c_unit c = ''usd'' \<and> k = ''total_usd'' then c_amount c else 0) +
     (if c_category c @ '':'' @ c_unit c = k then c_amount c else 0)"

lemma total_add_row: "total_at (add_row c t) k = total_at t k + share k c"
  by (simp add: add_row_def add_amount_def Let_def total_add_to share_def)

lemma total_fold: "total_at (fold add_row cs t) k = total_at t k + sum_list (map (share k) cs)"
  by (induction cs arbitrary: t) (simp_all add: total_add_row)

text \<open>The sum of an entry over all buckets.\<close>

definition over :: "('v \<Rightarrow> totals) \<Rightarrow> ('k \<times> 'v) list \<Rightarrow> string \<Rightarrow> rat" where
  "over tot bs k = sum_list (map (\<lambda>b. total_at (tot (snd b)) k) bs)"

lemma over_update:
  "distinct (map fst bs) \<Longrightarrow> over tot (AList.update key v bs) k =
     over tot bs k - (case map_of bs key of None \<Rightarrow> 0 | Some u \<Rightarrow> total_at (tot u) k) + total_at (tot v) k"
proof (induction bs)
  case (Cons b bs)
  then show ?case by (cases "fst b = key") (auto simp: over_def split: option.splits)
qed (simp add: over_def)

lemma over_bucket:
  assumes "distinct (map fst bs)" and "\<And>v. total_at (tot (f v)) k = total_at (tot v) k + a" and "total_at (tot start) k = 0"
  shows "over tot (in_bucket key start f bs) k = over tot bs k + a"
  using assms by (simp add: in_bucket_def over_update split: option.split)

lemma distinct_bucket: "distinct (map fst bs) \<Longrightarrow> distinct (map fst (in_bucket key start f bs))"
  unfolding in_bucket_def by (rule distinct_update)

definition balanced :: "cost_report \<Rightarrow> bool" where
  "balanced r \<longleftrightarrow> distinct (map fst (cr_agent r)) \<and> distinct (map fst (cr_step r)) \<and>
     distinct (map fst (cr_category r)) \<and> distinct (map fst (cr_name r)) \<and>
     (\<forall>k. over id (cr_agent r) k = total_at (cr_total r) k \<and> over snd (cr_step r) k = total_at (cr_total r) k \<and>
          over id (cr_category r) k = total_at (cr_total r) k \<and> over id (cr_name r) k = total_at (cr_total r) k)"

lemma empty_totals_zero: "total_at empty_totals k = 0"
  by (simp add: total_at_def empty_totals_def)

lemma report_row_balanced: "balanced r \<Longrightarrow> balanced (report_row roles c r)"
  by (simp add: balanced_def report_row_def distinct_bucket over_bucket [where a = "share k c" for k]
      total_add_row empty_totals_zero)

lemma fold_balanced: "balanced r \<Longrightarrow> balanced (fold (report_row roles) cs r)"
  by (induction cs arbitrary: r) (simp_all add: report_row_balanced)

lemma fold_total: "cr_total (fold (report_row roles) cs r) = fold add_row cs (cr_total r)"
  by (induction cs arbitrary: r) (simp_all add: report_row_def)

lemma sum_share:
  "sum_list (map (\<lambda>c. if P c then c_amount c else 0) cs) = sum_where P cs"
  by (induction cs) (simp_all add: sum_where_def)

lemma key_has_colon: "CHR '':'' \<in> set (a @ '':'' @ b)"
  by simp

lemma headline_keys:
  "c_category c @ '':'' @ c_unit c \<noteq> ''tool_calls''" "c_category c @ '':'' @ c_unit c \<noteq> ''model_tokens''"
  "c_category c @ '':'' @ c_unit c \<noteq> ''total_usd''"
proof -
  have "CHR '':'' \<notin> set ''tool_calls''" "CHR '':'' \<notin> set ''model_tokens''" "CHR '':'' \<notin> set ''total_usd''"
    by simp_all
  then show "c_category c @ '':'' @ c_unit c \<noteq> ''tool_calls''" "c_category c @ '':'' @ c_unit c \<noteq> ''model_tokens''"
    "c_category c @ '':'' @ c_unit c \<noteq> ''total_usd''"
    using key_has_colon [of "c_category c" "c_unit c"] by metis+
qed

lemma share_headlines:
  "share ''tool_calls'' = (\<lambda>c. if (c_category c = ''tool'' \<or> c_category c = ''tool_shadow'') \<and> c_unit c = ''call'' then c_amount c else 0)"
  "share ''model_tokens'' = (\<lambda>c. if c_category c = ''model'' \<and> c_unit c = ''token'' then c_amount c else 0)"
  "share ''total_usd'' = (\<lambda>c. if c_unit c = ''usd'' then c_amount c else 0)"
  unfolding share_def if_not_P [OF headline_keys(1)] if_not_P [OF headline_keys(2)] if_not_P [OF headline_keys(3)]
  by (rule ext; simp)+

text \<open>
  The attribution report is complete and agrees with the summary the budgets are checked against: its
  headline totals are those of the store's cost summary, and the amounts of agents, of steps, of categories and of names
  each add up to the total, entry by entry.
\<close>
theorem cost_report_balances:
  "let r = cost_report_of run d; s = cost_summary_of run d in
   total_at (cr_total r) ''tool_calls'' = tool_calls s \<and> total_at (cr_total r) ''model_tokens'' = model_tokens s \<and>
   total_at (cr_total r) ''total_usd'' = total_usd s \<and>
   (\<forall>k. over id (cr_agent r) k = total_at (cr_total r) k \<and> over snd (cr_step r) k = total_at (cr_total r) k \<and>
        over id (cr_category r) k = total_at (cr_total r) k \<and> over id (cr_name r) k = total_at (cr_total r) k)"
proof -
  let ?start = "\<lparr>cr_run = run, cr_total = empty_totals, cr_agent = [], cr_step = [], cr_category = [], cr_name = []\<rparr>"
  have "balanced ?start" by (simp add: balanced_def over_def empty_totals_zero)
  then have "balanced (cost_report_of run d)" unfolding cost_report_of_def by (rule fold_balanced)
  moreover have "total_at (cr_total (cost_report_of run d)) k = sum_list (map (share k) (costs_of run d))" for k
    by (simp add: cost_report_of_def fold_total total_fold empty_totals_zero)
  ultimately show ?thesis
    by (simp add: Let_def balanced_def cost_summary_of_def share_headlines sum_share)
qed

end
