(* ===== verification/Gateway.thy ===== *)
theory Gateway
  imports Cost Sandbox
begin

text \<open>
  The tool gateway of \<open>src/agentledger/tools.py\<close>: tool specifications and their registry, the keys of a call,
  and \<open>ToolGateway.call\<close> from validation through policy, approval, budget, reservation and
  execution to the recorded response. \<open>CausalToken\<close> is that of \<open>src/agentledger/ids.py\<close>.

  A tool function is code outside the program: it is a function of the history of calls and its arguments that returns a
  JSON value or raises. Running it appends the call to the history, so a repeated side effect is visible there. The
  context is an \<open>AgentContext\<close>, which has no parent run and no worker identifier of its own.
\<close>

section \<open>Tools\<close>

record tool_spec =
  t_name :: string
  t_func :: "(string \<times> json) list \<Rightarrow> json \<Rightarrow> exn + json"
  t_version :: string
  t_description :: string
  t_input :: dict
  t_output :: dict
  t_side_effect :: string
  t_risk :: string
  t_idempotent :: bool
  t_approval :: bool
  t_sandbox :: bool
  t_executor :: "string option"
  t_policy :: dict

text \<open>The decorator \<open>tool\<close> and its keyword arguments, in the order of the code.\<close>

definition tool_decorator ::
  "string \<Rightarrow> string \<Rightarrow> string \<Rightarrow> string \<Rightarrow> bool \<Rightarrow> bool \<Rightarrow> bool \<Rightarrow> string option \<Rightarrow> dict option \<Rightarrow> dict option \<Rightarrow>
   dict option \<Rightarrow> string \<Rightarrow> ((string \<times> json) list \<Rightarrow> json \<Rightarrow> exn + json) \<Rightarrow> tool_spec" where
  "tool_decorator name description side_effect risk idempotency approval sandbox executor policy input output version func =
     (let or_empty = (\<lambda>d. case d of None \<Rightarrow> [] | Some es \<Rightarrow> es) in
      \<lparr>t_name = name, t_func = func, t_version = version, t_description = description, t_input = or_empty input,
       t_output = or_empty output, t_side_effect = side_effect, t_risk = risk, t_idempotent = idempotency,
       t_approval = approval, t_sandbox = sandbox, t_executor = executor, t_policy = or_empty policy\<rparr>)"

definition spec_to_dict :: "tool_spec \<Rightarrow> json" where
  "spec_to_dict t = JObj [(''name'', JStr (t_name t)), (''version'', JStr (t_version t)),
     (''description'', JStr (t_description t)), (''input_schema'', JObj (t_input t)), (''output_schema'', JObj (t_output t)),
     (''side_effect'', JStr (t_side_effect t)), (''risk_level'', JStr (t_risk t)),
     (''idempotency_required'', JBool (t_idempotent t)), (''approval_required'', JBool (t_approval t)),
     (''sandbox_required'', JBool (t_sandbox t)), (''sandbox_executor'', opt_str (t_executor t)),
     (''sandbox_policy'', JObj (t_policy t))]"

definition to_openai_tool :: "tool_spec \<Rightarrow> json" where
  "to_openai_tool t = JObj [(''type'', JStr ''function''),
     (''function'', JObj [(''name'', JStr (t_name t)), (''description'', JStr (t_description t)),
        (''parameters'', JObj (if t_input t = [] then [(''type'', JStr ''object''), (''properties'', JObj [])] else t_input t))])]"

type_synonym registry = "(string \<times> tool_spec) list"

definition register_tool :: "tool_spec \<Rightarrow> registry \<Rightarrow> registry" where
  "register_tool t reg = AList.update (t_name t) t reg"

definition registry_get :: "registry \<Rightarrow> string \<Rightarrow> exn + tool_spec" where
  "registry_get reg name =
     (case map_of reg name of None \<Rightarrow> Inl (Exn KeyError (''tool not registered: '' @ name)) | Some t \<Rightarrow> Inr t)"

definition list_tools :: "registry \<Rightarrow> tool_spec list" where
  "list_tools reg = map snd (sort_key fst reg)"

definition registry_manifest :: "registry \<Rightarrow> json" where
  "registry_manifest reg = JObj [(''tools'', JList (map spec_to_dict (list_tools reg)))]"

definition openai_tools :: "registry \<Rightarrow> json list" where
  "openai_tools reg = map to_openai_tool (list_tools reg)"

section \<open>The context and the gateway\<close>

record agent_context =
  cx_run :: string
  cx_session :: string
  cx_step :: string
  cx_role :: string
  cx_lease :: string
  cx_attempt :: int
  cx_version :: int
  cx_mode :: string
  cx_source :: "string option"
  cx_patch :: dict

record gateway =
  gw_registry :: registry
  gw_policy :: policy_engine
  gw_budget :: budget_limits
  gw_router :: router
  gw_host :: host
  gw_rx :: "string \<Rightarrow> string \<Rightarrow> exn + bool"

text \<open>\<open>json.dumps\<close> with its default of escaping what is not ASCII.\<close>

definition escape_ascii :: "string \<Rightarrow> string" where
  "escape_ascii s = concat (map (\<lambda>c. let n = of_char c :: nat in
     if 128 \<le> n then [char_of (92::nat)] @ ''u00'' @ [hex_digit (n div 16), hex_digit (n mod 16)] else [c]) s)"

definition causal_token :: "(rat \<Rightarrow> string) \<Rightarrow> agent_context \<Rightarrow> string" where
  "causal_token fr c = escape_ascii (canonical_json fr (JObj [(''run_id'', JStr (cx_run c)), (''step_id'', JStr (cx_step c)),
     (''attempt'', JInt (cx_attempt c)), (''state_version'', JInt (cx_version c)), (''event_seq'', JNull),
     (''lease_token'', JStr (cx_lease c))]))"

definition logical_operation :: "json \<Rightarrow> json" where
  "logical_operation args = (case args of JObj es \<Rightarrow> get_none (JObj es) ''_logical_operation'' | _ \<Rightarrow> JNull)"

definition key_prefix :: "agent_context \<Rightarrow> tool_spec \<Rightarrow> string" where
  "key_prefix c t = cx_run c @ '':'' @ cx_step c @ '':'' @ t_name t @ '':''"

definition idempotency_key :: "(rat \<Rightarrow> string) \<Rightarrow> agent_context \<Rightarrow> tool_spec \<Rightarrow> json \<Rightarrow> string \<Rightarrow> string" where
  "idempotency_key fr c t args request_hash = key_prefix c t @ py_str fr (py_or (logical_operation args) (JStr request_hash))"

definition approval_key :: "agent_context \<Rightarrow> tool_spec \<Rightarrow> string \<Rightarrow> string" where
  "approval_key c t request_hash = key_prefix c t @ request_hash"

definition managed :: "tool_spec \<Rightarrow> bool" where
  "managed t \<longleftrightarrow> t_side_effect t \<noteq> ''none'' \<or> t_idempotent t"

text \<open>An event of the step the context belongs to; a record update adds token, hash and reference.\<close>

definition ctx_event :: "agent_context \<Rightarrow> string \<Rightarrow> json \<Rightarrow> event_args" where
  "ctx_event c type payload = (event (cx_run c) (Some (cx_session c)) (Some (cx_step c)) type payload)
     \<lparr>v_role := Some (cx_role c), v_version := Some (cx_version c)\<rparr>"

definition emit :: "event_args \<Rightarrow> unit act" where
  "emit v = bindM (append_event v) (\<lambda>_. retM ())"

definition charge :: "agent_context \<Rightarrow> string \<Rightarrow> string \<Rightarrow> json \<Rightarrow> unit act" where
  "charge c category name metadata =
     bindM (record_cost (cx_run c) (Some (cx_session c)) (Some (cx_step c)) category name 1 ''call'' metadata) (\<lambda>_. retM ())"

section \<open>Validation and policy\<close>

definition wrap_invalid :: "string \<Rightarrow> string \<Rightarrow> exn + unit \<Rightarrow> exn + unit" where
  "wrap_invalid what name m =
     (case m of
        Inr u \<Rightarrow> Inr u
      | Inl e \<Rightarrow> if isinstance e ToolValidationError
          then Inl (Exn ToolValidationError (''invalid '' @ what @ '' for tool '' @ name @ '': '' @ str_exn e)) else Inl e)"

definition validate_input :: "(rat \<Rightarrow> string) \<Rightarrow> gateway \<Rightarrow> tool_spec \<Rightarrow> json \<Rightarrow> exn + unit" where
  "validate_input fr g t args =
     wrap_invalid ''input'' (t_name t) (validate_tool_schema fr (gw_rx g) (t_input t) args ''args'')"

definition validate_output :: "(rat \<Rightarrow> string) \<Rightarrow> gateway \<Rightarrow> tool_spec \<Rightarrow> json \<Rightarrow> exn + unit" where
  "validate_output fr g t result =
     wrap_invalid ''output'' (t_name t) (validate_tool_schema fr (gw_rx g) (t_output t) result ''result'')"

definition gateway_request :: "gateway \<Rightarrow> agent_context \<Rightarrow> tool_spec \<Rightarrow> string \<Rightarrow> string option \<Rightarrow> policy_request" where
  "gateway_request g c t tool_name approval =
     for_tool \<lparr>tr_role = cx_role c, tr_tool = tool_name, tr_risk = t_risk t, tr_side_effect = t_side_effect t,
       tr_approval_required = t_approval t, tr_sandbox_required = t_sandbox t, tr_idempotency_required = t_idempotent t,
       tr_subject = JObj [(''kind'', JStr ''agent''), (''role'', JStr (cx_role c)), (''worker_id'', JNull)],
       tr_resource = JObj [(''kind'', JStr ''tool''), (''name'', JStr tool_name), (''version'', JStr (t_version t))],
       tr_context = JObj [(''run_id'', JStr (cx_run c)), (''session_id'', JStr (cx_session c)), (''step_id'', JStr (cx_step c)),
         (''attempt'', JInt (cx_attempt c)), (''state_version'', JInt (cx_version c))],
       tr_signals = JObj [(''managed_side_effect'', JBool (managed t)), (''approval_required'', JBool (t_approval t)),
         (''sandbox_required'', JBool (t_sandbox t)), (''idempotency_required'', JBool (t_idempotent t))],
       tr_runtime_state = JObj [(''approval_status'', opt_str approval), (''execution_mode'', JStr (cx_mode c)),
         (''source_run_id'', opt_str (cx_source c))],
       tr_version = table_version (en_tables (gw_policy g))\<rparr>"

definition record_permission :: "agent_context \<Rightarrow> string \<Rightarrow> policy_decision \<Rightarrow> string \<Rightarrow> unit act" where
  "record_permission c tool_name d token =
     emit ((ctx_event c ''tool_permission_decided'' (JObj [(''tool'', JStr tool_name), (''allowed'', JBool (allowed d)),
       (''reason'', JStr (primary_reason d)), (''decision'', decision_to_dict d)]))\<lparr>v_token := Some token\<rparr>)"

section \<open>Execution\<close>

definition tool_call :: "tool_spec \<Rightarrow> json \<Rightarrow> json act" where
  "tool_call t args = (\<lambda>w. (t_func t (calls w) args, w\<lparr>calls := calls w @ [(t_name t, args)]\<rparr>))"

definition sandbox_keys :: "string list" where
  "sandbox_keys = [''executor'', ''network'', ''filesystem'', ''timeout_seconds'', ''resource_limits'']"

definition sandbox_policy_of :: "agent_context \<Rightarrow> tool_spec \<Rightarrow> exn + sandbox_policy" where
  "sandbox_policy_of c t =
     (let raw = (\<lambda>dflt key. get_or dflt (JObj (t_policy t)) key) in
      bindE (py_int (raw (JInt 30) ''timeout_seconds'')) (\<lambda>timeout.
      bindE (as_dict (raw JNull ''resource_limits'')) (\<lambda>limits.
      Inr \<lparr>sp_tool = t_name t, sp_run = cx_run c, sp_step = cx_step c,
           sp_executor = (case t_executor t of Some e \<Rightarrow> if e \<noteq> [] then JStr e else raw (JStr ''default'') ''executor''
             | None \<Rightarrow> raw (JStr ''default'') ''executor''),
           sp_isolation = ''none'', sp_network = raw (JStr ''deny'') ''network'',
           sp_filesystem = raw (JStr ''read-only'') ''filesystem'', sp_timeout = JInt timeout, sp_env = [],
           sp_limits = limits, sp_extra = filter (\<lambda>e. fst e \<notin> set sandbox_keys) (t_policy t)\<rparr>)))"

definition execute_tool :: "gateway \<Rightarrow> agent_context \<Rightarrow> tool_spec \<Rightarrow> json \<Rightarrow> string \<Rightarrow> json act" where
  "execute_tool g c t args token =
     (if \<not> t_sandbox t then tool_call t args
      else
        bindM (liftM (bindE (sandbox_policy_of c t) (policy_for (gw_router g)))) (\<lambda>p.
        seqM (emit ((ctx_event c ''sandbox_started'' (sandbox_policy_to_dict p))\<lparr>v_token := Some token\<rparr>)) (
        bindM (route (gw_host g) (gw_router g) (tool_call t args) args p) (\<lambda>r.
        seqM (emit ((ctx_event c ''sandbox_completed'' (sandbox_result_to_dict r))\<lparr>v_token := Some token\<rparr>))
        (if sr_ok r then retM (sr_output r)
         else raiseM (Exn RuntimeError (case sr_error r of Some m \<Rightarrow> if m \<noteq> [] then m else ''sandboxed tool failed''
           | None \<Rightarrow> ''sandboxed tool failed'')))))))"

text \<open>A value bound to the text column \<open>external_id\<close>.\<close>

definition sql_text :: "(rat \<Rightarrow> string) \<Rightarrow> json \<Rightarrow> exn + string option" where
  "sql_text fr v =
     (case v of
        JNull \<Rightarrow> Inr None
      | JStr s \<Rightarrow> Inr (Some s)
      | JBool b \<Rightarrow> Inr (Some (if b then ''1'' else ''0''))
      | JInt i \<Rightarrow> Inr (Some (int_str i))
      | JFloat q \<Rightarrow> Inr (Some (fr q))
      | _ \<Rightarrow> Inl (Exn (Subclass ''ProgrammingError'' Exception) (''type '' @ repr_str (type_name v) @ '' is not supported'')))"

definition settle_success :: "string \<Rightarrow> json \<Rightarrow> string \<Rightarrow> string \<Rightarrow> unit act" where
  "settle_success key result response_hash response_ref =
     bindM (getsM repr_float) (\<lambda>fr.
     case sql_text fr (case result of JObj es \<Rightarrow> get_none (JObj es) ''external_id'' | _ \<Rightarrow> JNull) of
       Inl e \<Rightarrow> bindM now_ts (\<lambda>_. raiseM e)
     | Inr external \<Rightarrow> update_ledger key ''SUCCEEDED'' external (Some response_hash) (Some response_ref) None)"

definition completed_event :: "agent_context \<Rightarrow> dict \<Rightarrow> string \<Rightarrow> string option \<Rightarrow> string option \<Rightarrow> event_args" where
  "completed_event c payload token response_hash response_ref =
     (ctx_event c ''tool_call_completed'' (JObj payload))
       \<lparr>v_token := Some token, v_hash := response_hash, v_ref := response_ref\<rparr>"

definition attempt_tool :: "gateway \<Rightarrow> agent_context \<Rightarrow> tool_spec \<Rightarrow> string \<Rightarrow> json \<Rightarrow> string \<Rightarrow> string \<Rightarrow> json act" where
  "attempt_tool g c t tool_name args key token =
     bindM (getsM repr_float) (\<lambda>fr.
     bindM (execute_tool g c t args token) (\<lambda>result.
     seqM (liftM (validate_output fr g t result)) (
     bindM (put_json result) (\<lambda>(response_hash, response_ref).
     seqM (if managed t then settle_success key result response_hash response_ref else retM ()) (
     seqM (emit (completed_event c [(''tool'', JStr tool_name), (''idempotency_key'', JStr key)] token
       (Some response_hash) (Some response_ref))) (
     seqM (charge c ''tool'' tool_name (JObj [(''side_effect'', JStr (t_side_effect t)), (''sandboxed'', JBool (t_sandbox t)),
       (''sandbox_executor'', opt_str (t_executor t))]))
     (retM result)))))))"

definition tool_failed :: "agent_context \<Rightarrow> tool_spec \<Rightarrow> string \<Rightarrow> string \<Rightarrow> string \<Rightarrow> exn \<Rightarrow> json act" where
  "tool_failed c t tool_name key token e =
     (if \<not> isinstance e Exception then raiseM e
      else
        seqM (if managed t
          then update_ledger key ''PENDING_VERIFICATION'' None None None (Some (class_name (class_of e))) else retM ()) (
        seqM (emit ((ctx_event c ''tool_call_failed'' (JObj [(''tool'', JStr tool_name), (''error'', JStr (repr_exn e))]))
          \<lparr>v_token := Some token\<rparr>))
        (raiseM e)))"

definition run_guarded :: "gateway \<Rightarrow> agent_context \<Rightarrow> tool_spec \<Rightarrow> string \<Rightarrow> json \<Rightarrow> string \<Rightarrow> string \<Rightarrow> json act" where
  "run_guarded g c t tool_name args key token =
     catchM (attempt_tool g c t tool_name args key token) (tool_failed c t tool_name key token)"

section \<open>Replies that run nothing\<close>

definition get_json_opt :: "string option \<Rightarrow> json act" where
  "get_json_opt ref = (case ref of None \<Rightarrow> raiseM (attribute_error JNull ''startswith'') | Some r \<Rightarrow> get_json r)"

definition replay_ledger :: "agent_context \<Rightarrow> string \<Rightarrow> string \<Rightarrow> string \<Rightarrow> ledger_row \<Rightarrow> json act" where
  "replay_ledger c tool_name key token row =
     bindM (get_json_opt (l_response_ref row)) (\<lambda>response.
     seqM (emit (completed_event c [(''tool'', JStr tool_name), (''replayed_from_ledger'', JBool True),
       (''idempotency_key'', JStr key)] token (l_response_hash row) (l_response_ref row))) (
     seqM (charge c ''tool'' tool_name (JObj [(''replayed_from_ledger'', JBool True)]))
     (retM response)))"

definition shadow_response :: "agent_context \<Rightarrow> tool_spec \<Rightarrow> json \<Rightarrow> string \<Rightarrow> string \<Rightarrow> json act" where
  "shadow_response c t args request_hash token =
     bindM (getsM repr_float) (\<lambda>fr.
     let blocked = (\<lambda>payload. emit ((ctx_event c ''tool_call_blocked'' (JObj payload))\<lparr>v_token := Some token\<rparr>)) in
     if \<not> nonempty (cx_source c) then
       seqM (blocked [(''tool'', JStr (t_name t)), (''reason'', JStr ''shadow mode has no source_run_id'')])
       (raiseM (Exn PermissionDenied ''shadow mode blocks side effects without source_run_id''))
     else
       let logical = logical_operation args; source = the (cx_source c) in
       bindM (select_db (find_succeeded_ledger_response source (t_name t)
         (if truthy logical then Some (py_str fr logical) else None) request_hash)) (\<lambda>existing.
       case existing of
         None \<Rightarrow>
           seqM (blocked [(''tool'', JStr (t_name t)),
             (''reason'', JStr ''no archived side-effect response in source run''), (''source_run_id'', JStr source)])
           (raiseM (Exn PermissionDenied ''shadow mode blocks unmanaged side effect''))
       | Some row \<Rightarrow>
           bindM (get_json_opt (l_response_ref row)) (\<lambda>response.
           seqM (emit (completed_event c [(''tool'', JStr (t_name t)), (''shadow_replayed_from_run'', JStr source),
             (''source_ledger_id'', JStr (l_id row))] token (l_response_hash row) (l_response_ref row)))
           (retM response))))"

definition shadow_call :: "agent_context \<Rightarrow> tool_spec \<Rightarrow> string \<Rightarrow> json \<Rightarrow> string \<Rightarrow> string \<Rightarrow> json act" where
  "shadow_call c t tool_name args request_hash token =
     bindM (shadow_response c t args request_hash token) (\<lambda>response.
     seqM (charge c ''tool_shadow'' tool_name (JObj [(''source_run_id'', opt_str (cx_source c)), (''side_effect_blocked'', JBool True)]))
     (retM response))"

section \<open>The call\<close>

record call_info =
  ci_name :: string
  ci_args :: json
  ci_hash :: string
  ci_ref :: string
  ci_token :: string
  ci_call :: string
  ci_key :: string
  ci_approval :: string

definition ledger_args_of :: "agent_context \<Rightarrow> tool_spec \<Rightarrow> call_info \<Rightarrow> ledger_args" where
  "ledger_args_of c t i = \<lparr>g_run = cx_run c, g_session = Some (cx_session c), g_step = cx_step c, g_tool = ci_name i,
     g_tool_version = t_version t, g_call = ci_call i, g_key = ci_key i, g_token = ci_token i, g_hash = ci_hash i,
     g_ref = ci_ref i\<rparr>"

text \<open>The reservation: a key that is taken replays, or refuses, and runs nothing.\<close>

definition managed_call :: "gateway \<Rightarrow> agent_context \<Rightarrow> tool_spec \<Rightarrow> call_info \<Rightarrow> json act" where
  "managed_call g c t i =
     bindM (reserve_ledger (ledger_args_of c t i)) (\<lambda>existing.
     let run = seqM (update_ledger (ci_key i) ''RUNNING'' None None None None)
           (run_guarded g c t (ci_name i) (ci_args i) (ci_key i) (ci_token i)) in
     case existing of
       None \<Rightarrow> run
     | Some row \<Rightarrow>
         if l_status row = ''SUCCEEDED'' then replay_ledger c (ci_name i) (ci_key i) (ci_token i) row
         else if l_status row = ''PENDING_VERIFICATION'' then raiseM (Exn RuntimeError ''tool side effect pending verification'')
         else if l_status row \<in> set [''RESERVED'', ''RUNNING''] then raiseM (Exn RuntimeError ''tool side effect already in progress'')
         else run)"

definition await_approval :: "agent_context \<Rightarrow> tool_spec \<Rightarrow> call_info \<Rightarrow> policy_decision \<Rightarrow> json act" where
  "await_approval c t i d =
     bindM (request_approval \<lparr>q_key = ci_approval i, q_run = cx_run c, q_session = Some (cx_session c), q_step = cx_step c,
       q_tool = ci_name i, q_risk = t_risk t, q_reason = Some (primary_reason d), q_hash = ci_hash i, q_ref = ci_ref i,
       q_by = Some (cx_role c)\<rparr>) (\<lambda>approval.
     seqM (record_permission c (ci_name i) d (ci_token i)) (
     seqM (emit ((ctx_event c ''tool_approval_required'' (JObj [(''tool'', JStr (ci_name i)), (''approval_id'', JStr (p_id approval)),
       (''approval_key'', JStr (ci_approval i)), (''risk_level'', JStr (t_risk t)), (''decision'', decision_to_dict d)]))
       \<lparr>v_token := Some (ci_token i)\<rparr>))
     (raiseM (Approval_Required (p_id approval) (''approval required for tool '' @ ci_name i)
       (JObj [(''tool'', JStr (ci_name i)), (''approval_key'', JStr (ci_approval i))])))))"

definition permitted_call :: "gateway \<Rightarrow> agent_context \<Rightarrow> tool_spec \<Rightarrow> call_info \<Rightarrow> json act" where
  "permitted_call g c t i =
     (if cx_mode c = ''shadow'' \<and> managed t then shadow_call c t (ci_name i) (ci_args i) (ci_hash i) (ci_token i)
      else if managed t then managed_call g c t i
      else run_guarded g c t (ci_name i) (ci_args i) (ci_key i) (ci_token i))"

definition decided_call :: "gateway \<Rightarrow> agent_context \<Rightarrow> tool_spec \<Rightarrow> call_info \<Rightarrow> policy_decision \<Rightarrow> json act" where
  "decided_call g c t i d =
     (case pd_effect d of
        Deny \<Rightarrow> seqM (record_permission c (ci_name i) d (ci_token i)) (raiseM (Exn PermissionDenied (primary_reason d)))
      | RequireApproval \<Rightarrow> await_approval c t i d
      | Allow \<Rightarrow> seqM (record_permission c (ci_name i) d (ci_token i)) (
          seqM (before_tool_call (gw_budget g) (cx_run c)) (permitted_call g c t i)))"

text \<open>The steps before the decision: archive the request, draw the call's identifier, announce the call.\<close>

definition prepare_call :: "agent_context \<Rightarrow> tool_spec \<Rightarrow> string \<Rightarrow> json \<Rightarrow> call_info act" where
  "prepare_call c t tool_name args =
     bindM (getsM repr_float) (\<lambda>fr.
     let request = JObj [(''tool'', JStr tool_name), (''args'', args)] in
     bindM (put_json request) (\<lambda>(request_hash, request_ref).
     bindM (new_id ''toolcall'') (\<lambda>call_id.
     let i = \<lparr>ci_name = tool_name, ci_args = args, ci_hash = request_hash, ci_ref = request_ref, ci_token = causal_token fr c,
           ci_call = call_id, ci_key = idempotency_key fr c t args request_hash, ci_approval = approval_key c t request_hash\<rparr> in
     seqM (emit ((ctx_event c ''tool_call_requested'' request)
       \<lparr>v_token := Some (ci_token i), v_hash := Some request_hash, v_ref := Some request_ref\<rparr>))
     (retM i))))"

definition judge_call :: "gateway \<Rightarrow> agent_context \<Rightarrow> tool_spec \<Rightarrow> call_info \<Rightarrow> json act" where
  "judge_call g c t i =
     bindM (getsM repr_float) (\<lambda>fr.
     bindM (select_db (approval_for_key (ci_approval i))) (\<lambda>row.
     bindM (liftM (evaluate fr (gw_policy g) (gateway_request g c t (ci_name i) (map_option p_status row))))
       (decided_call g c t i)))"

definition gateway_call :: "gateway \<Rightarrow> agent_context \<Rightarrow> string \<Rightarrow> json \<Rightarrow> json act" where
  "gateway_call g c tool_name args =
     bindM (getsM repr_float) (\<lambda>fr.
     bindM (liftM (registry_get (gw_registry g) tool_name)) (\<lambda>t.
     seqM (liftM (validate_input fr g t args)) (
     bindM (prepare_call c t tool_name args) (judge_call g c t))))"

end
