(* ===== verification/Gateway_Law.thy ===== *)
theory Gateway_Law
  imports Gateway Outcomes
begin

text \<open>
  The interface between the tool gateway and the store, as a relation on worlds. \<open>gateway_relation\<close>
  asks that the store calls the gateway makes, its blobs, clock readings and identifiers respect the relation; everything the
  gateway does without running a tool then does. \<open>effect_relation\<close> asks the same of a recorded tool
  call or process, and then whole gateway calls respect it.

  Interpreted here: the history relation \<open>later\<close> (a gateway call is a history of store calls, so every
  law of histories holds across it), the record of tool calls (what runs nothing leaves it alone), and the state of one
  ledger row (once busy or settled it stays so).
\<close>

section \<open>The interface\<close>

definition settled_status :: "string list" where
  "settled_status = [''RESERVED'', ''RUNNING'', ''SUCCEEDED'', ''PENDING_VERIFICATION'']"

fun gateway_op :: "store_op \<Rightarrow> bool" where
  "gateway_op (Append_Event v) = True"
| "gateway_op (Request_Approval q) = True"
| "gateway_op (Reserve_Ledger g) = True"
| "gateway_op (Update_Ledger key st x h r e) = (st \<in> set settled_status)"
| "gateway_op (Record_Cost run sess step cat name amount u m) = True"
| "gateway_op (Create_Artifact run step name hash ref m) = True"
| "gateway_op _ = False"

lemma snd_forget: "snd (forget m w) = snd (m w)"
  by (simp add: forget_def exec split: prod.split sum.split)

locale gateway_relation =
  fixes R :: "world \<Rightarrow> world \<Rightarrow> bool"
  assumes G_refl: "R w w"
    and G_trans: "R w1 w2 \<Longrightarrow> R w2 w3 \<Longrightarrow> R w1 w3"
    and G_op: "gateway_op c \<Longrightarrow> R w (perform c w)"
    and G_blobs: "R w (w\<lparr>blobs := b\<rparr>)"
    and G_tick: "R w (w\<lparr>ticks := n\<rparr>)"
    and G_draw: "R w (w\<lparr>drawn := Suc (drawn w)\<rparr>)"
begin

sublocale step_preorder R
  by unfold_locales (fact G_refl, fact G_trans)

lemma op_stays: "gateway_op c \<Longrightarrow> stays R (call c)"
  using G_op by (simp add: stays_def perform_def)

lemma stays_forget_iff: "stays R (forget m) \<Longrightarrow> stays R m"
  by (simp add: stays_def snd_forget)

lemma stays_ops:
  "stays R (append_event v)"
  "stays R (request_approval q)"
  "stays R (reserve_ledger g)"
  "stays R (record_cost run sess step cat name amount u m)"
  "stays R (create_artifact run' step' name' hash ref m')"
  using op_stays [of "Append_Event v"] op_stays [of "Request_Approval q"] op_stays [of "Reserve_Ledger g"]
    op_stays [of "Record_Cost run sess step cat name amount u m"] op_stays [of "Create_Artifact run' step' name' hash ref m'"]
  by (simp_all add: stays_forget_iff)

lemma stays_update_ledger: "st \<in> set settled_status \<Longrightarrow> stays R (update_ledger key st x h r e)"
  using op_stays [of "Update_Ledger key st x h r e"] by (simp add: stays_forget_iff)

lemma stays_world:
  "stays R now_ts" "stays R (new_id p)" "stays R (select_db f)" "stays R (put_json j)" "stays R (get_json ref)"
  by (simp_all add: stays_def exec put_json_def get_json_def Let_def G_refl G_tick G_draw G_blobs split: option.split)

lemmas gateway_rules = stays_rules stays_ops stays_world

lemma stays_emit: "stays R (emit v)"
  unfolding emit_def by (intro gateway_rules)

lemma stays_charge: "stays R (charge c category name m)"
  unfolding charge_def by (intro gateway_rules)

lemma stays_check_usd: "stays R (check_usd b run)"
  unfolding check_usd_def by (intro gateway_rules)

lemma stays_budget: "stays R (before_tool_call b run)" "stays R (before_model_call b run n)" "stays R (after_cost_recorded b run)"
  unfolding before_tool_call_def before_model_call_def after_cost_recorded_def by (intro gateway_rules stays_check_usd)+

lemma stays_get_json_opt: "stays R (get_json_opt ref)"
  unfolding get_json_opt_def by (intro gateway_rules)

lemma stays_permission: "stays R (record_permission c n d token)"
  unfolding record_permission_def by (intro stays_emit)

lemma stays_prepare: "stays R (prepare_call c t n args)"
  unfolding prepare_call_def Let_def by (intro gateway_rules stays_emit)

lemma stays_replay: "stays R (replay_ledger c n key token row)"
  unfolding replay_ledger_def by (intro gateway_rules stays_get_json_opt stays_emit stays_charge)

lemma stays_shadow_response: "stays R (shadow_response c t args h token)"
  unfolding shadow_response_def Let_def by (intro gateway_rules stays_get_json_opt stays_emit)

lemma stays_shadow: "stays R (shadow_call c t n args h token)"
  unfolding shadow_call_def by (intro gateway_rules stays_shadow_response stays_charge)

lemma stays_await: "stays R (await_approval c t i d)"
  unfolding await_approval_def by (intro gateway_rules stays_permission stays_emit)

lemma stays_failed: "stays R (tool_failed c t n key token e)"
  unfolding tool_failed_def
  by (intro gateway_rules stays_update_ledger stays_emit) (simp_all add: settled_status_def)

lemma stays_settle: "stays R (settle_success key result h r)"
proof -
  have "stays R (case x of Inl e \<Rightarrow> bindM now_ts (\<lambda>_. raiseM e)
      | Inr ext \<Rightarrow> update_ledger key ''SUCCEEDED'' ext (Some h) (Some r) None)" for x
    by (cases x) (auto intro!: gateway_rules stays_update_ledger simp: settled_status_def)
  then show ?thesis unfolding settle_success_def by (intro gateway_rules)
qed

end

locale effect_relation = gateway_relation +
  assumes G_effect: "R w (w\<lparr>calls := calls w @ [e]\<rparr>)"
begin

lemma stays_spawn: "stays R (spawn h argv environment cwd timeout)"
  by (simp add: stays_def spawn_def Let_def G_refl G_effect split: process.split)

lemma stays_process: "stays R m \<Longrightarrow> (\<And>e. stays R (f e)) \<Longrightarrow> (\<And>a b c. stays R (g a b c)) \<Longrightarrow>
    stays R (case p of Finished a b c \<Rightarrow> g a b c | Timed_out \<Rightarrow> m | Not_started e \<Rightarrow> f e)"
  by (cases p) simp_all

lemma stays_subprocess: "stays R (run_subprocess h x argv p manifest fallback)"
  unfolding run_subprocess_def Let_def by (intro gateway_rules stays_spawn stays_process)

lemma stays_kubectl: "stays R (run_kubectl h fr argv timeout)"
  unfolding run_kubectl_def Let_def by (intro gateway_rules stays_spawn stays_process)

lemma stays_follow: "stays R (follow_job h x fr resolved p manifest create job_name)"
  unfolding follow_job_def Let_def by (intro gateway_rules stays_kubectl)

lemma stays_command: "stays R (run_command h x command p manifest)"
  unfolding run_command_def run_bubblewrap_def run_docker_def run_kubernetes_def Let_def
  by (cases "x_backend x"; simp only: backend.case; intro gateway_rules stays_subprocess stays_kubectl stays_follow)

lemma stays_manifest: "stays R (run_with_manifest h fr x args p manifest)"
proof (cases "extract_command fr x args")
  case (Inr c)
  show ?thesis
    unfolding run_with_manifest_def Inr sum.case by (intro gateway_rules stays_command)
qed (simp add: run_with_manifest_def stays_ret)

lemma stays_external: "stays R (external_run h x args p)"
  unfolding external_run_def by (cases args) (auto intro!: gateway_rules stays_manifest)

lemma stays_executor: "stays R func \<Longrightarrow> stays R (executor_run h e func args p)"
  by (cases e) (auto intro!: gateway_rules stays_external)

lemma stays_route: "stays R func \<Longrightarrow> stays R (route h r func args p)"
  unfolding route_def by (intro gateway_rules stays_executor)

lemma stays_tool_call: "stays R (tool_call t args)"
  by (simp add: stays_def tool_call_def G_effect)

lemma stays_execute: "stays R (execute_tool g c t args token)"
  unfolding execute_tool_def by (intro gateway_rules stays_emit stays_route stays_tool_call)

lemma stays_attempt: "stays R (attempt_tool g c t n args key token)"
  unfolding attempt_tool_def by (intro gateway_rules stays_execute stays_settle stays_emit stays_charge)

lemma stays_guarded: "stays R (run_guarded g c t n args key token)"
  unfolding run_guarded_def by (intro stays_catch stays_attempt stays_failed)

lemma stays_managed: "stays R (managed_call g c t i)"
  unfolding managed_call_def Let_def
  by (intro gateway_rules stays_update_ledger stays_guarded stays_replay) (simp_all add: settled_status_def)

lemma stays_permitted: "stays R (permitted_call g c t i)"
  unfolding permitted_call_def by (intro gateway_rules stays_shadow stays_managed stays_guarded)

lemma stays_decided: "stays R (decided_call g c t i d)"
  unfolding decided_call_def
  by (cases "pd_effect d"; simp only: effect.case; intro gateway_rules stays_permission stays_await stays_budget stays_permitted)

lemma stays_gateway: "stays R (gateway_call g c n args)"
  unfolding gateway_call_def judge_call_def by (intro gateway_rules stays_prepare stays_decided)

end

section \<open>Histories\<close>

lemma later_quiet: "db w' = db w \<Longrightarrow> uuids w' = uuids w \<Longrightarrow> drawn w \<le> drawn w' \<Longrightarrow> later w w'"
  by (rule later.outside [OF later.here])

interpretation recorded: effect_relation later
  by unfold_locales (rule later.here, erule later_trans, assumption, rule later_perform, simp_all add: later_quiet)

section \<open>What runs nothing\<close>

text \<open>What the statements of the store cannot touch, no store call touches.\<close>

locale outside_relation = store_preorder R for R :: "world \<Rightarrow> world \<Rightarrow> bool" +
  assumes R_db: "R w (w\<lparr>db := d\<rparr>)"
begin

lemma stays_statements:
  "stays R (on_db f)"
  "stays R (update_runs p' f')"
  "stays R (update_steps p'' f'')"
  "stays R (update_approvals q g)"
  "stays R (set_ledger k st x h r e t)"
  "stays R (insert_run a1)"
  "stays R (insert_step a2)"
  "stays R (insert_event a3)"
  "stays R (insert_ledger a4)"
  "stays R (insert_approval a5)"
  "stays R (insert_artifact a6)"
  "stays R (insert_cost a7)"
  "stays R (get_run i)"
  "stays R (get_step j)"
  unfolding stays_def
  by (simp_all add: exec set_ledger_def insert_run_def insert_step_def insert_event_def insert_ledger_def insert_approval_def
      insert_artifact_def insert_cost_def R_db refl split: option.split)

lemma stays_logging: "stays R (append_event_in_tx v)" "stays R (log_event v)"
  unfolding log_event_def append_event_in_tx_def by (intro store_rules stays_statements)+

lemmas outside_rules = store_rules stays_statements stays_logging

lemma stays_claim_update: "stays R (claim_update u n t row)"
  unfolding claim_update_def claimed_def by (intro outside_rules)

lemma stays_claim_loop: "stays R (claim_loop n u run secs)"
  by (induction n) (simp_all only: claim_loop.simps, (intro outside_rules stays_claim_update | assumption)+)

lemma stays_recover_rows: "stays R (recover_rows t rows)"
  by (induction rows) (simp_all only: recover_rows.simps, (intro outside_rules | assumption)+)

lemma stays_call: "stays R (call c)"
  by (cases c; simp only: call.simps forget_def create_run_def create_external_step_def claim_step_def heartbeat_def
      recover_expired_leases_def cancel_run_def mark_waiting_human_def commit_state_patch_def commit_write_def
      apply_system_state_patch_def mark_retry_def mark_failed_def fail_step_def append_event_def validate_lease_def
      request_approval_def decide_approval_def reserve_ledger_def update_ledger_def resolve_ledger_def get_approval_def
      get_ledger_def create_artifact_def record_cost_def Let_def;
    intro outside_rules stays_claim_loop stays_recover_rows stays_claim_update)

end

definition same_calls :: "world \<Rightarrow> world \<Rightarrow> bool" where
  "same_calls w w' \<longleftrightarrow> calls w' = calls w"

interpretation no_calls: outside_relation same_calls
  by unfold_locales (simp_all add: same_calls_def restore_def)

interpretation idle: gateway_relation same_calls
  by unfold_locales (simp_all add: same_calls_def, metis no_calls.stays_call perform_stays same_calls_def)

section \<open>Digests and number texts\<close>

definition same_texts :: "world \<Rightarrow> world \<Rightarrow> bool" where
  "same_texts w w' \<longleftrightarrow> sha w' = sha w \<and> repr_float w' = repr_float w"

interpretation texts: outside_relation same_texts
  by unfold_locales (simp_all add: same_texts_def restore_def)

interpretation texts: effect_relation same_texts
  by unfold_locales (simp_all add: same_texts_def, metis texts.stays_call perform_stays same_texts_def)

lemma same_texts_history: "same_texts w (history cs w)"
proof (induction cs rule: rev_induct)
  case (snoc c cs)
  then show ?case using perform_stays [OF texts.stays_call] by (auto simp: history_def intro: texts.trans)
qed (simp add: history_def same_texts_def)

section \<open>One row of the ledger\<close>

definition busy :: "string \<Rightarrow> world \<Rightarrow> bool" where
  "busy key w \<longleftrightarrow> (case find_ledger key (db w) of None \<Rightarrow> False | Some l \<Rightarrow> l_status l \<in> set settled_status)"

definition busy_kept :: "string \<Rightarrow> world \<Rightarrow> world \<Rightarrow> bool" where
  "busy_kept key w w' \<longleftrightarrow> (busy key w \<longrightarrow> busy key w')"

lemma busy_same_ledger: "ledger (db w') = ledger (db w) \<Longrightarrow> busy_kept key w w'"
  by (simp add: busy_kept_def busy_def find_ledger_def)

text \<open>Every store call keeps a busy row busy, unless it sets a status outside the list.\<close>

abbreviation "stays_settled \<equiv> sets_status (\<lambda>st. st \<in> set settled_status)"

interpretation kept: record_relation "busy_kept key" "\<lambda>st. st \<in> set settled_status" for key
  by unfold_locales
    (auto simp: busy_kept_def busy_def restore_def find_update_where_key find_snoc find_ledger_def split: option.split)

interpretation held: effect_relation "busy_kept key" for key
proof
  fix c and w :: world
  assume "gateway_op c"
  then have "stays_settled c" by (cases c) simp_all
  then show "busy_kept key w (perform c w)" by (rule perform_stays [OF kept.record_call])
qed (auto intro: busy_same_ledger kept.trans)

end
