(* ===== verification/Gateway_Spec.thy ===== *)
theory Gateway_Spec
  imports Gateway_Law Policy_Spec
begin

text \<open>
  What a call through the gateway guarantees: it is a history of store calls; a tool runs only if the policy allows it;
  in shadow mode no managed tool runs; and a managed side effect runs at most once for its key, whatever
  happens between two attempts, unless an operator resolves the ledger row as having had no effect.
\<close>

text \<open>
  A gateway call, whether it returns or raises, is a history of store calls and readings of the outside world. So the log
  stays append-only, versions move with states, leases stay exclusive, and every other law of histories
  holds across it.
\<close>
theorem gateway_call_is_history: "later w (snd (gateway_call g c n args w))"
  by (rule staysD [OF recorded.stays_gateway surjective_pairing])

section \<open>What runs no tool\<close>

lemma calm: "stays same_calls m \<Longrightarrow> calls (snd (m w)) = calls w"
  by (simp add: stays_def same_calls_def)

text \<open>\<open>P\<close> holds of the world before and after the steps that run nothing, so it holds where the last step starts.\<close>

lemma after_calm:
  assumes "stays same_calls m" and "stays (busy_kept key) m" and "busy key w"
    and "\<And>x w'. busy key w' \<Longrightarrow> calls (snd (f x w')) = calls w'"
  shows "calls (snd (bindM m f w)) = calls w"
proof (cases "m w")
  case (Pair r w')
  have "calls w' = calls w" using calm [OF assms(1), of w] Pair by simp
  moreover have "busy key w'" using assms(2,3) Pair by (metis busy_kept_def staysD)
  ultimately show ?thesis using assms(4) [of w'] Pair by (cases r) (simp_all add: exec)
qed

lemma after_calm_seq:
  "stays same_calls m \<Longrightarrow> stays (busy_kept key) m \<Longrightarrow> busy key w \<Longrightarrow>
   (\<And>w'. busy key w' \<Longrightarrow> calls (snd (n w')) = calls w') \<Longrightarrow> calls (snd (seqM m n w)) = calls w"
  unfolding seqM_def by (rule after_calm)

lemma reserve_busy: "busy key w \<Longrightarrow> g_key a = key \<Longrightarrow>
    \<exists>row. reserve_ledger a w = (Inr (Some row), w) \<and> l_status row \<in> set settled_status"
  by (simp add: busy_def reserve_ledger_def exec split: option.splits)

lemma managed_busy:
  assumes "busy (ci_key i) w"
  shows "calls (snd (managed_call g c t i w)) = calls w"
proof -
  obtain row where row: "reserve_ledger (ledger_args_of c t i) w = (Inr (Some row), w)"
    "l_status row \<in> set settled_status"
    using reserve_busy [OF assms, of "ledger_args_of c t i"] by (auto simp: ledger_args_of_def)
  show ?thesis
    unfolding managed_call_def Let_def bindM_ok [of "reserve_ledger (ledger_args_of c t i)", OF row(1)] option.case
    using row(2) calm [OF idle.stays_replay] by (auto simp: settled_status_def)
qed

definition blocked :: "gateway \<Rightarrow> agent_context \<Rightarrow> tool_spec \<Rightarrow> call_info \<Rightarrow> policy_decision \<Rightarrow> world \<Rightarrow> bool" where
  "blocked g c t i d w \<longleftrightarrow> \<not> allowed d \<or> managed t \<and> (cx_mode c = ''shadow'' \<or> busy (ci_key i) w)"

lemma permitted_blocked:
  assumes "managed t" and "cx_mode c = ''shadow'' \<or> busy (ci_key i) w"
  shows "calls (snd (permitted_call g c t i w)) = calls w"
  using assms calm [OF idle.stays_shadow] managed_busy by (auto simp: permitted_call_def)

lemma decided_blocked:
  assumes "blocked g c t i d w"
  shows "calls (snd (decided_call g c t i d w)) = calls w"
proof (cases "pd_effect d")
  case Allow
  then have b: "managed t" "cx_mode c = ''shadow'' \<or> busy (ci_key i) w"
    using assms by (auto simp: blocked_def allowed_def)
  show ?thesis
  proof (cases "cx_mode c = ''shadow''")
    case True
    have "stays same_calls (seqM (record_permission c (ci_name i) d (ci_token i))
        (seqM (before_tool_call (gw_budget g) (cx_run c)) (permitted_call g c t i)))"
      unfolding permitted_call_def using True b(1)
      by (auto intro!: idle.gateway_rules idle.stays_permission idle.stays_budget idle.stays_shadow)
    then show ?thesis unfolding decided_call_def Allow effect.case by (rule calm)
  next
    case False
    with b have "busy (ci_key i) w" by simp
    then show ?thesis
      unfolding decided_call_def Allow effect.case
      by (intro after_calm_seq [where key = "ci_key i"] idle.stays_permission held.stays_permission idle.stays_budget
          held.stays_budget permitted_blocked [OF b(1)]) simp_all
  qed
next
  case RequireApproval
  then show ?thesis unfolding decided_call_def by (simp add: calm [OF idle.stays_await])
next
  case Deny
  have "stays same_calls (seqM (record_permission c (ci_name i) d (ci_token i)) (raiseM (Exn PermissionDenied (primary_reason d)) :: json act))"
    by (intro idle.gateway_rules idle.stays_permission)
  with Deny show ?thesis unfolding decided_call_def effect.case by (simp add: calm)
qed

section \<open>The parts of a call\<close>

definition same_approvals :: "world \<Rightarrow> world \<Rightarrow> bool" where
  "same_approvals w w' \<longleftrightarrow> approvals (db w') = approvals (db w) \<and> repr_float w' = repr_float w"

interpretation approvals_fixed: store_preorder same_approvals
  by unfold_locales (simp_all add: same_approvals_def restore_def)

lemma approvals_emit: "stays same_approvals (emit v)"
proof -
  have "stays same_approvals (insert_event e)" "stays same_approvals (put_json j)" for e j
    by (simp_all add: stays_def same_approvals_def insert_event_def put_json_def Let_def)
  then show ?thesis
    unfolding emit_def append_event_def append_event_in_tx_def by (intro approvals_fixed.store_rules)
qed

definition call_request :: "string \<Rightarrow> json \<Rightarrow> json" where
  "call_request n args = JObj [(''tool'', JStr n), (''args'', args)]"

definition call_key :: "agent_context \<Rightarrow> tool_spec \<Rightarrow> string \<Rightarrow> json \<Rightarrow> world \<Rightarrow> string" where
  "call_key c t n args w = idempotency_key (repr_float w) c t args (hash_of w (call_request n args))"

definition call_approval :: "agent_context \<Rightarrow> tool_spec \<Rightarrow> string \<Rightarrow> json \<Rightarrow> world \<Rightarrow> string" where
  "call_approval c t n args w = approval_key c t (hash_of w (call_request n args))"

lemma prepare_call_result:
  assumes "prepare_call c t n args w = (Inr i, w')"
  shows "ci_key i = call_key c t n args w" and "ci_approval i = call_approval c t n args w" and "ci_name i = n"
    and "calls w' = calls w" and "later w w'" and "busy_kept k w w'" and "same_approvals w w'"
proof -
  obtain r1 w1 where put: "put_json (call_request n args) w = (Inr (hash_of w (call_request n args), r1), w1)"
    by (simp add: put_json_def Let_def)
  have put': "put_json (JObj [(''tool'', JStr n), (''args'', args)]) w = (Inr (hash_of w (call_request n args), r1), w1)"
    using put by (simp add: call_request_def)
  from assms show "ci_key i = call_key c t n args w" "ci_approval i = call_approval c t n args w" "ci_name i = n"
    by (auto simp: prepare_call_def exec put' call_key_def call_approval_def Let_def split: prod.splits sum.splits)
  show "calls w' = calls w" using calm [OF idle.stays_prepare, of c t n args w] assms by simp
  show "later w w'" using staysD [OF recorded.stays_prepare assms] .
  show "busy_kept k w w'" using staysD [OF held.stays_prepare assms] .
  have "stays same_approvals (put_json j)" for j
    by (simp add: stays_def same_approvals_def put_json_def Let_def)
  then have "stays same_approvals (prepare_call c t n args)"
    unfolding prepare_call_def Let_def by (intro approvals_fixed.store_rules approvals_emit)
  from staysD [OF this assms] show "same_approvals w w'" .
qed

text \<open>If a call ran something, it was prepared, decided in favour, and the deciding step ran it.\<close>

lemma gateway_call_ran:
  assumes "calls (snd (gateway_call g c n args w)) \<noteq> calls w" and "map_of (gw_registry g) n = Some t"
  obtains i d w' where "prepare_call c t n args w = (Inr i, w')"
    and "gateway_call g c n args w = decided_call g c t i d w'"
    and "evaluate (repr_float w) (gw_policy g)
      (gateway_request g c t n (map_option p_status (approval_for_key (call_approval c t n args w) (db w)))) = Inr d"
    and "\<not> blocked g c t i d w'"
proof -
  have reg: "registry_get (gw_registry g) n = Inr t" by (simp add: registry_get_def assms(2))
  have "validate_input (repr_float w) g t args = Inr ()"
    using assms(1) reg by (cases "validate_input (repr_float w) g t args") (simp_all add: gateway_call_def exec)
  then have run: "gateway_call g c n args w = bindM (prepare_call c t n args) (judge_call g c t) w"
    by (simp add: gateway_call_def reg exec)
  obtain i w' where i: "prepare_call c t n args w = (Inr i, w')"
  proof (cases "prepare_call c t n args w")
    case (Pair r w')
    then show ?thesis
    proof (cases r)
      case (Inl e)
      then show ?thesis using assms(1) calm [OF idle.stays_prepare, of c t n args w] Pair by (simp add: run exec)
    qed (use that in blast)
  qed
  note props = prepare_call_result [OF i]
  let ?e = "evaluate (repr_float w) (gw_policy g)
      (gateway_request g c t n (map_option p_status (approval_for_key (call_approval c t n args w) (db w))))"
  have "judge_call g c t i w' = bindM (liftM ?e) (decided_call g c t i) w'"
    using props(2,3,7) by (simp add: judge_call_def exec same_approvals_def approval_for_key_def)
  then have judged: "gateway_call g c n args w = bindM (liftM ?e) (decided_call g c t i) w'"
    by (simp add: run i)
  show ?thesis
  proof (cases ?e)
    case (Inl e)
    then show ?thesis using assms(1) props(4) by (simp add: judged exec)
  next
    case (Inr d)
    then have decided: "gateway_call g c n args w = decided_call g c t i d w'" by (simp add: judged exec)
    moreover from this have "\<not> blocked g c t i d w'" using assms(1) decided_blocked props(4) by metis
    ultimately show ?thesis using that [OF i _ Inr] by blast
  qed
qed

text \<open>
  C35: A tool runs only when it may: whenever a call changes the history of tool calls and processes, the tool is registered and
  the policy allowed it on the approval recorded for this request; it is not a managed tool in shadow mode; and
  no earlier attempt with its key is recorded as running, succeeded or unverified.
\<close>
theorem tool_runs_only_when_allowed:
  assumes "calls (snd (gateway_call g c n args w)) \<noteq> calls w"
  shows "\<exists>t d. map_of (gw_registry g) n = Some t \<and>
    evaluate (repr_float w) (gw_policy g)
      (gateway_request g c t n (map_option p_status (approval_for_key (call_approval c t n args w) (db w)))) = Inr d \<and>
    allowed d \<and> \<not> (managed t \<and> (cx_mode c = ''shadow'' \<or> busy (call_key c t n args w) w))"
proof (cases "map_of (gw_registry g) n")
  case None
  with assms show ?thesis by (simp add: gateway_call_def registry_get_def exec)
next
  case (Some t)
  from gateway_call_ran [OF assms Some] obtain i d w' where i: "prepare_call c t n args w = (Inr i, w')"
    and d: "evaluate (repr_float w) (gw_policy g)
      (gateway_request g c t n (map_option p_status (approval_for_key (call_approval c t n args w) (db w)))) = Inr d"
    and nb: "\<not> blocked g c t i d w'" by metis
  have "busy (call_key c t n args w) w \<Longrightarrow> busy (ci_key i) w'"
    using prepare_call_result(1,6) [OF i] by (simp add: busy_kept_def)
  with nb have "allowed d \<and> \<not> (managed t \<and> (cx_mode c = ''shadow'' \<or> busy (call_key c t n args w) w))"
    by (auto simp: blocked_def)
  with Some d show ?thesis by blast
qed

section \<open>At most once\<close>

lemma ran_after:
  assumes "stays same_calls m" and "calls (snd (seqM m n w)) \<noteq> calls w"
  obtains w' where "m w = (Inr (), w')" and "seqM m n w = n w'" and "calls (snd (n w')) \<noteq> calls w'"
proof (cases "m w")
  case (Pair r w')
  then have "calls w' = calls w" using calm [OF assms(1), of w] by simp
  with Pair assms(2) that show ?thesis by (cases r) (simp_all add: exec)
qed

lemma running_is_busy:
  assumes "find_ledger key (db w) \<noteq> None" and "update_ledger key ''RUNNING'' x h r e w = (y, w')"
  shows "busy key w'"
  using assms by (auto simp: update_ledger_def set_ledger_def exec busy_def find_ledger_def find_update_where_key settled_status_def
      dest: find_SomeD)

lemma managed_ran_busy:
  assumes "fresh_world v" and "later v w" and "calls (snd (managed_call g c t i w)) \<noteq> calls w"
  shows "busy (ci_key i) (snd (managed_call g c t i w))"
proof -
  obtain r w1 where reserve: "reserve_ledger (ledger_args_of c t i) w = (r, w1)" by fastforce
  have same: "calls w1 = calls w" using calm [OF idle.stays_ops(3), of "ledger_args_of c t i" w] reserve by simp
  let ?run = "seqM (update_ledger (ci_key i) ''RUNNING'' None None None None)
    (run_guarded g c t (ci_name i) (ci_args i) (ci_key i) (ci_token i))"
  have run: "busy (ci_key i) (snd (?run w1))" if row: "find_ledger (ci_key i) (db w1) \<noteq> None"
  proof -
    obtain y w2 where up: "update_ledger (ci_key i) ''RUNNING'' None None None None w1 = (y, w2)" by fastforce
    then have "busy (ci_key i) w2" using row by (rule running_is_busy [rotated])
    moreover have "busy_kept (ci_key i) w2 (snd (run_guarded g c t (ci_name i) (ci_args i) (ci_key i) (ci_token i) w2))"
      by (rule staysD [OF held.stays_guarded surjective_pairing])
    ultimately show ?thesis by (cases y) (simp_all add: exec up busy_kept_def)
  qed
  show ?thesis
  proof (cases r)
    case (Inl e)
    with assms(3) reserve same show ?thesis by (simp add: managed_call_def exec)
  next
    case (Inr existing)
    show ?thesis
    proof (cases existing)
      case None
      then obtain l where "find_ledger (ci_key i) (db w1) = Some l"
        using reserve_new [OF new_ledger_id [OF assms(1,2)], of "ledger_args_of c t i" w1] reserve Inr
        by (auto simp: ledger_args_of_def)
      with run reserve Inr None show ?thesis by (simp add: managed_call_def bindM_ok)
    next
      case (Some row)
      have free: "l_status row \<notin> set settled_status"
        using assms(3) calm [OF idle.stays_replay] reserve Inr Some same
        by (auto simp: managed_call_def bindM_ok settled_status_def)
      moreover have "find_ledger (ci_key i) (db w1) \<noteq> None"
        using reserve Inr Some
        by (auto simp: reserve_ledger_def ledger_args_of_def exec split: option.splits sum.splits prod.splits if_splits)
      ultimately show ?thesis using run reserve Inr Some
        by (auto simp: managed_call_def bindM_ok settled_status_def)
    qed
  qed
qed

text \<open>
  What may happen between two attempts: gateway calls of any agents, and store calls of anyone but an operator who resolves
  a ledger row as having had no effect.
\<close>

inductive onward :: "world \<Rightarrow> world \<Rightarrow> bool" where
  start: "onward w w"
| agent: "onward w w' \<Longrightarrow> onward w (snd (gateway_call g c n args w'))"
| store: "onward w w' \<Longrightarrow> stays_settled op \<Longrightarrow> onward w (perform op w')"
| outside: "onward w w' \<Longrightarrow> db w'' = db w' \<Longrightarrow> onward w w''"

lemma onward_busy: "onward w w' \<Longrightarrow> busy_kept key w w'"
proof (induction rule: onward.induct)
  case (start w)
  show ?case by (rule kept.refl)
next
  case (agent w w' g c n args)
  have "busy_kept key w' (snd (gateway_call g c n args w'))" by (rule staysD [OF held.stays_gateway surjective_pairing])
  with agent.IH show ?case by (rule kept.trans)
next
  case (store w w' op)
  with perform_stays [OF kept.record_call] show ?case by (blast intro: kept.trans)
next
  case (outside w w' w'')
  show ?case by (rule kept.trans [OF outside.IH busy_same_ledger]) (simp add: outside.hyps)
qed

lemma managed_call_settles:
  assumes "fresh_world v" and "later v w" and "map_of (gw_registry g) n = Some t" and "managed t"
    and "calls (snd (gateway_call g c n args w)) \<noteq> calls w"
  shows "busy (call_key c t n args w) (snd (gateway_call g c n args w))"
proof -
  from gateway_call_ran [OF assms(5,3)] obtain i d w' where i: "prepare_call c t n args w = (Inr i, w')"
    and call: "gateway_call g c n args w = decided_call g c t i d w'" and nb: "\<not> blocked g c t i d w'" by metis
  note props = prepare_call_result [OF i]
  from nb assms(4) have allow: "pd_effect d = Allow" and live: "cx_mode c \<noteq> ''shadow''"
    by (auto simp: blocked_def allowed_def)
  let ?rest = "seqM (before_tool_call (gw_budget g) (cx_run c)) (permitted_call g c t i)"
  have step: "gateway_call g c n args w = seqM (record_permission c (ci_name i) d (ci_token i)) ?rest w'"
    by (simp add: call decided_call_def allow)
  obtain w1 where w1: "record_permission c (ci_name i) d (ci_token i) w' = (Inr (), w1)"
    "gateway_call g c n args w = ?rest w1" "calls (snd (?rest w1)) \<noteq> calls w1"
    using ran_after [OF idle.stays_permission] assms(5) props(4) unfolding step by metis
  obtain w2 where w2: "before_tool_call (gw_budget g) (cx_run c) w1 = (Inr (), w2)"
    "?rest w1 = permitted_call g c t i w2" "calls (snd (permitted_call g c t i w2)) \<noteq> calls w2"
    using ran_after [OF idle.stays_budget(1) w1(3)] .
  have managed: "permitted_call g c t i w2 = managed_call g c t i w2" using live assms(4) by (simp add: permitted_call_def)
  have "later v w2"
    using recorded.G_trans [OF recorded.G_trans [OF recorded.G_trans [OF assms(2) props(5)]
          staysD [OF recorded.stays_permission w1(1)]] staysD [OF recorded.stays_budget(1) w2(1)]] .
  from managed_ran_busy [OF assms(1) this, of g c t i] show ?thesis using w1(2) w2(2,3) props(1) by (simp add: managed)
qed

text \<open>
  C3: A managed side effect happens at most once. After a gateway call that really ran a managed tool, whether it
  returned, raised, or left the step to be retried, no later call with the same idempotency key, by
  any worker under any policy, runs anything, as long as no operator records that the effect did not happen.
\<close>
theorem side_effect_at_most_once:
  assumes "fresh_world v" and "later v w"
    and "map_of (gw_registry g) n = Some t" and "managed t"
    and "calls (snd (gateway_call g c n args w)) \<noteq> calls w"
    and "onward (snd (gateway_call g c n args w)) w'"
    and "map_of (gw_registry g') n' = Some t'" and "managed t'"
    and "call_key c' t' n' args' w' = call_key c t n args w"
  shows "calls (snd (gateway_call g' c' n' args' w')) = calls w'"
proof (rule ccontr)
  assume "calls (snd (gateway_call g' c' n' args' w')) \<noteq> calls w'"
  from gateway_call_ran [OF this assms(7)] obtain i d w2 where i: "prepare_call c' t' n' args' w' = (Inr i, w2)"
    and nb: "\<not> blocked g' c' t' i d w2" by metis
  have "busy (call_key c t n args w) w'"
    using managed_call_settles [OF assms(1-5)] onward_busy [OF assms(6)] by (simp add: busy_kept_def)
  then have "busy (ci_key i) w2"
    using prepare_call_result(1,6) [OF i] assms(9) by (simp add: busy_kept_def)
  with nb assms(8) show False by (simp add: blocked_def)
qed

section \<open>Approval\<close>

lemma gateway_approval:
  "approval_status fr (gateway_request g c t n a) = upper (case a of None \<Rightarrow> ''NONE'' | Some s \<Rightarrow> if s = [] then ''NONE'' else s)"
  by (simp add: approval_status_def gateway_request_def for_tool_def get_or_JObj py_or_def split: option.split)

lemma gateway_flagged: "flagged (gateway_request g c t n a) ''approval_required'' = t_approval t"
  by (simp add: flagged_def gateway_request_def for_tool_def get_or_JObj py_or_def)

text \<open>
  C6: A tool that asks for approval never runs without it: under the built-in policy a call that ran something was made
  when the approval row of exactly this request (run, step, tool and request hash) said approved; and
  no tool runs on a request a person denied.
\<close>
theorem approval_needed:
  assumes "en_evaluators (gw_policy g) = []" and "map_of (gw_registry g) n = Some t"
    and "calls (snd (gateway_call g c n args w)) \<noteq> calls w"
  shows "(t_approval t \<longrightarrow> (\<exists>p. approval_for_key (call_approval c t n args w) (db w) = Some p \<and> upper (p_status p) = ''APPROVED'')) \<and>
    (\<forall>p. approval_for_key (call_approval c t n args w) (db w) = Some p \<longrightarrow> upper (p_status p) \<noteq> ''DENIED'')"
proof -
  let ?a = "approval_for_key (call_approval c t n args w) (db w)"
  let ?r = "gateway_request g c t n (map_option p_status ?a)"
  from gateway_call_ran [OF assms(3,2)] obtain i d w' where
    d: "evaluate (repr_float w) (gw_policy g) ?r = Inr d" and nb: "\<not> blocked g c t i d w'" by metis
  from nb have "pd_effect d = Allow" by (simp add: blocked_def allowed_def)
  then have "builtin_effect (repr_float w) (en_tables (gw_policy g)) ?r = Allow"
    using evaluate_builtin_effect [OF assms(1) d] by simp
  then have "approval_status (repr_float w) ?r \<noteq> ''DENIED''"
    and "t_approval t \<Longrightarrow> approval_status (repr_float w) ?r = ''APPROVED''"
    by (simp_all add: builtin_effect_def gateway_flagged Let_def split: if_splits)
  then show ?thesis
    by (cases ?a) (auto simp: gateway_approval upper_def split: if_splits)
qed

section \<open>What may run, runs\<close>

lemma emit_ok:
  assumes "fresh_world v" and "later v w"
  obtains w' where "emit e w = (Inr (), w')" and "later v w'" and "calls w' = calls w" and "ledger (db w') = ledger (db w)"
    and "repr_float w' = repr_float w" and "approvals (db w') = approvals (db w)"
proof
  have "ids_fresh w" using well_run_later [OF assms] by (simp add: well_run_def)
  then show eq: "emit e w = (Inr (), logged e w)"
    by (simp add: emit_def append_event_def exec append_event_in_tx_ok)
  show "later v (logged e w)" using recorded.G_trans [OF assms(2) staysD [OF recorded.stays_emit eq]] .
qed simp_all

lemma guarded_runs:
  assumes "\<not> t_sandbox t"
  shows "calls (snd (run_guarded g c t n args key token w)) = calls w @ [(t_name t, args)]"
proof -
  let ?w = "w\<lparr>calls := calls w @ [(t_name t, args)]\<rparr>"
  define rest where "rest fr result = seqM (liftM (validate_output fr g t result)) (
     bindM (put_json result) (\<lambda>(response_hash, response_ref).
     seqM (if managed t then settle_success key result response_hash response_ref else retM ()) (
     seqM (emit (completed_event c [(''tool'', JStr n), (''idempotency_key'', JStr key)] token
       (Some response_hash) (Some response_ref))) (
     seqM (charge c ''tool'' n (JObj [(''side_effect'', JStr (t_side_effect t)), (''sandboxed'', JBool (t_sandbox t)),
       (''sandbox_executor'', opt_str (t_executor t))]))
     (retM result)))))" for fr result
  have "stays same_calls (rest fr result)" for fr result
    unfolding rest_def by (intro idle.gateway_rules idle.stays_settle idle.stays_emit idle.stays_charge)
  then have rest: "calls (snd (rest fr result w')) = calls w'" for fr result w' by (rule calm)
  have attempt: "attempt_tool g c t n args key token w =
      (case t_func t (calls w) args of Inl e \<Rightarrow> (Inl e, ?w) | Inr result \<Rightarrow> rest (repr_float w) result ?w)"
    using assms by (simp add: attempt_tool_def execute_tool_def tool_call_def rest_def exec split: sum.split)
  have "calls (snd (attempt_tool g c t n args key token w)) = calls ?w"
    unfolding attempt by (simp add: rest split: sum.split)
  moreover have "calls (snd (catchM m (tool_failed c t n key token) w)) = calls (snd (m w))" for m
  proof (cases "m w")
    case (Pair r w')
    then show ?thesis using calm [OF idle.stays_failed, of c t n key token _ w'] by (cases r) (simp_all add: catchM_def)
  qed
  ultimately show ?thesis by (simp add: run_guarded_def)
qed

lemma reserve_free:
  assumes "fresh_world v" and "later v w" and "\<not> busy (g_key a) w"
  obtains r w' where "reserve_ledger a w = (Inr r, w')" and "calls w' = calls w"
    and "\<And>row. r = Some row \<Longrightarrow> l_status row \<notin> set settled_status"
proof (cases "find_ledger (g_key a) (db w)")
  case None
  then have "g_key a \<notin> l_key ` set (ledger (db w))" by (auto simp: find_ledger_def find_None_iff_all)
  then have "\<exists>w'. reserve_ledger a w = (Inr None, w') \<and> calls w' = calls w"
    using None new_ledger_id [OF assms(1,2)]
    by (simp add: reserve_ledger_def exec insert_ledger_def del: append_Cons append_Nil)
  with that show ?thesis by blast
next
  case (Some row)
  then have "reserve_ledger a w = (Inr (Some row), w)" by (simp add: reserve_ledger_def exec)
  moreover have "l_status row \<notin> set settled_status" using assms(3) Some by (simp add: busy_def)
  ultimately show ?thesis using that by blast
qed

lemma managed_runs:
  assumes "fresh_world v" and "later v w" and "\<not> busy (ci_key i) w" and "\<not> t_sandbox t"
  shows "calls (snd (managed_call g c t i w)) = calls w @ [(t_name t, ci_args i)]"
proof -
  have "\<not> busy (g_key (ledger_args_of c t i)) w" using assms(3) by (simp add: ledger_args_of_def)
  from reserve_free [OF assms(1,2) this] obtain r w' where r: "reserve_ledger (ledger_args_of c t i) w = (Inr r, w')"
    "calls w' = calls w" "\<And>row. r = Some row \<Longrightarrow> l_status row \<notin> set settled_status" by metis
  obtain w2 where up: "update_ledger (ci_key i) ''RUNNING'' None None None None w' = (Inr (), w2)" "calls w2 = calls w'"
    by (simp add: update_ledger_def set_ledger_def exec)
  have "managed_call g c t i w = run_guarded g c t (ci_name i) (ci_args i) (ci_key i) (ci_token i) w2"
    using r(3) by (auto simp: managed_call_def exec r(1) up(1) settled_status_def Let_def split: option.split)
  then show ?thesis using guarded_runs [OF assms(4)] r(2) up(2) by simp
qed

lemma gateway_call_runs:
  assumes "fresh_world v" and "later v w" and "map_of (gw_registry g) n = Some t"
    and "validate_input (repr_float w) g t args = Inr ()"
    and "evaluate (repr_float w) (gw_policy g)
      (gateway_request g c t n (map_option p_status (approval_for_key (call_approval c t n args w) (db w)))) = Inr d"
    and "pd_effect d = Allow" and "gw_budget g = no_budget" and "\<not> t_sandbox t"
    and "managed t \<longrightarrow> cx_mode c \<noteq> ''shadow'' \<and> \<not> busy (call_key c t n args w) w"
  shows "calls (snd (gateway_call g c n args w)) = calls w @ [(t_name t, args)]"
proof -
  obtain i w1 where i: "prepare_call c t n args w = (Inr i, w1)" "ci_args i = args" "ledger (db w1) = ledger (db w)"
  proof -
    let ?hash = "hash_of w (call_request n args)" and ?ref = "''blob://'' @ blob_path w (call_request n args)"
    obtain w0 where put: "put_json (call_request n args) w = (Inr (?hash, ?ref), w0)" and w0: "db w0 = db w" "later w w0"
      using staysD [OF recorded.stays_world(4)] by (fastforce simp: put_json_def Let_def)
    define w1 where "w1 = w0\<lparr>drawn := Suc (drawn w0)\<rparr>"
    define i where "i = \<lparr>ci_name = n, ci_args = args, ci_hash = ?hash, ci_ref = ?ref, ci_token = causal_token (repr_float w) c,
      ci_call = ''toolcall'' @ ''_'' @ uuids w0 (drawn w0), ci_key = idempotency_key (repr_float w) c t args ?hash,
      ci_approval = approval_key c t ?hash\<rparr>"
    define e where "e = (ctx_event c ''tool_call_requested'' (call_request n args))
      \<lparr>v_token := Some (ci_token i), v_hash := Some ?hash, v_ref := Some ?ref\<rparr>"
    have "prepare_call c t n args w = seqM (emit e) (retM i) w1"
      using put by (simp add: prepare_call_def call_request_def exec Let_def i_def e_def w1_def)
    moreover have "later v w1"
      unfolding w1_def using recorded.G_trans [OF recorded.G_trans [OF assms(2) w0(2)] recorded.G_draw] .
    from emit_ok [OF assms(1) this, of e] obtain w2 where "emit e w1 = (Inr (), w2)" "ledger (db w2) = ledger (db w1)" by metis
    ultimately show ?thesis using that [of i w2] w0(1) by (simp add: exec i_def w1_def)
  qed
  note props = prepare_call_result [OF i(1)]
  have l1: "later v w1" using recorded.G_trans [OF assms(2) props(5)] .
  obtain w2 where w2: "record_permission c (ci_name i) d (ci_token i) w1 = (Inr (), w2)" "later v w2" "calls w2 = calls w1"
    "ledger (db w2) = ledger (db w1)"
    unfolding record_permission_def using emit_ok [OF assms(1) l1] by metis
  have "gateway_call g c n args w = bindM (prepare_call c t n args) (judge_call g c t) w"
    by (simp add: gateway_call_def registry_get_def assms(3,4) exec)
  also have "\<dots> = judge_call g c t i w1" by (simp add: bindM_ok [of "prepare_call c t n args", OF i(1)])
  also have "\<dots> = decided_call g c t i d w1"
    using props(2,3,7) assms(5) by (simp add: judge_call_def exec same_approvals_def approval_for_key_def)
  also have "\<dots> = permitted_call g c t i w2"
    by (simp add: decided_call_def assms(6,7) exec w2(1) before_tool_call_def no_budget_def check_usd_def)
  finally have run: "gateway_call g c n args w = permitted_call g c t i w2" .
  have "calls (snd (permitted_call g c t i w2)) = calls w2 @ [(t_name t, args)]"
  proof (cases "managed t")
    case True
    have "busy (ci_key i) w2 = busy (call_key c t n args w) w"
      using w2(4) i(3) props(1) by (simp add: busy_def find_ledger_def)
    with True assms(9) managed_runs [OF assms(1) w2(2) _ assms(8)] i(2) show ?thesis by (simp add: permitted_call_def)
  qed (use guarded_runs [OF assms(8)] i(2) in \<open>simp add: permitted_call_def\<close>)
  with run w2(3) props(4) show ?thesis by simp
qed

end
