(* ===== verification/Gateway_Examples.thy ===== *)
theory Gateway_Examples
  imports Gateway_Spec
begin

text \<open>
  A teller calls two tools: \<open>mail\<close>, which acts on the outside at low risk, and \<open>pay\<close>, which asks for approval.
  The same call is made twice, and the payment before and after its approval.
\<close>

definition demo_tool :: "string \<Rightarrow> bool \<Rightarrow> tool_spec" where
  "demo_tool name approval = \<lparr>t_name = name, t_func = \<lambda>past args. Inr (JStr ''done''), t_version = ''v1'', t_description = [],
     t_input = [], t_output = [], t_side_effect = ''write'', t_risk = ''low'', t_idempotent = False, t_approval = approval,
     t_sandbox = False, t_executor = None, t_policy = []\<rparr>"

definition demo_gateway :: gateway where
  "demo_gateway = \<lparr>gw_registry = [(''mail'', demo_tool ''mail'' False), (''pay'', demo_tool ''pay'' True)],
     gw_policy = \<lparr>en_tables = empty_tables, en_evaluators = []\<rparr>, gw_budget = no_budget,
     gw_router = \<lparr>ro_config = \<lparr>sc_default = ''none'', sc_fail_closed = True, sc_executors = [], sc_tools = []\<rparr>, ro_executors = []\<rparr>,
     gw_host = \<lparr>h_which = \<lambda>_. None, h_exists = \<lambda>_. False, h_path = [], h_temp = [], h_spawn = \<lambda>_ _ _ _ _. Timed_out,
       h_loads = \<lambda>_. Inr JNull\<rparr>,
     gw_rx = \<lambda>_ _. Inr False\<rparr>"

definition demo_context :: agent_context where
  "demo_context = \<lparr>cx_run = ''run_0'', cx_session = ''sess'', cx_step = ''step_2'', cx_role = ''teller'', cx_lease = ''lease_5'',
     cx_attempt = 1, cx_version = 0, cx_mode = ''live'', cx_source = None, cx_patch = []\<rparr>"

definition demo_args :: json where
  "demo_args = JObj [(''to'', JStr ''ann'')]"

definition mail_tool :: tool_spec where
  "mail_tool = demo_tool ''mail'' False"

definition pay_tool :: tool_spec where
  "pay_tool = demo_tool ''pay'' True"

definition demo_approval :: approval_args where
  "demo_approval = \<lparr>q_key = call_approval demo_context pay_tool ''pay'' demo_args demo_world, q_run = ''run_0'', q_session = None,
     q_step = ''step_2'', q_tool = ''pay'', q_risk = ''low'', q_reason = None, q_hash = ''h'', q_ref = ''r'', q_by = None\<rparr>"

definition demo_approved :: world where
  "demo_approved = history [Request_Approval demo_approval, Decide_Approval ''approval_0'' ''APPROVED'' ''boss'' ''fine''] demo_world"

definition mailed :: world where
  "mailed = snd (gateway_call demo_gateway demo_context ''mail'' demo_args demo_world)"

definition approval_of :: "tool_spec \<Rightarrow> world \<Rightarrow> string option" where
  "approval_of t w = map_option p_status (approval_for_key (call_approval demo_context t (t_name t) demo_args w) (db w))"

definition verdict :: "tool_spec \<Rightarrow> string option \<Rightarrow> effect option" where
  "verdict t a = (case evaluate (\<lambda>_. ''0.0'') (gw_policy demo_gateway) (gateway_request demo_gateway demo_context t (t_name t) a) of
     Inl _ \<Rightarrow> None | Inr d \<Rightarrow> Some (pd_effect d))"

lemma demo_approvals: "(approval_of mail_tool demo_world, approval_of pay_tool demo_approved) = (None, Some ''APPROVED'')"
  by code_simp

lemma demo_verdicts: "(verdict mail_tool None, verdict pay_tool (Some ''APPROVED'')) = (Some Allow, Some Allow)"
  by code_simp

lemma demo_tools: "map_of (gw_registry demo_gateway) ''mail'' = Some mail_tool" "map_of (gw_registry demo_gateway) ''pay'' = Some pay_tool"
  "managed mail_tool" "t_name mail_tool = ''mail''" "t_name pay_tool = ''pay''" "\<not> t_sandbox mail_tool" "\<not> t_sandbox pay_tool" "t_approval pay_tool"
  "validate_input fr demo_gateway mail_tool demo_args = Inr ()" "validate_input fr demo_gateway pay_tool demo_args = Inr ()"
  "gw_budget demo_gateway = no_budget" "cx_mode demo_context = ''live''" "en_evaluators (gw_policy demo_gateway) = []"
  by (simp_all add: demo_gateway_def mail_tool_def pay_tool_def demo_tool_def managed_def validate_input_def wrap_invalid_def
      validate_tool_schema.simps [of _ _ "[]"] demo_context_def)

lemma demo_no_ledger: "ledger (db demo_world) = []" "ledger (db demo_approved) = []"
  by code_simp+

lemma verdict_allow: "verdict t a = Some Allow \<Longrightarrow> \<exists>d. evaluate (\<lambda>_. ''0.0'') (gw_policy demo_gateway)
    (gateway_request demo_gateway demo_context t (t_name t) a) = Inr d \<and> pd_effect d = Allow"
  by (auto simp: verdict_def split: sum.splits)

lemma demo_later_approved: "later demo_world demo_approved"
  unfolding demo_approved_def by (rule later_history)

lemma demo_floats: "repr_float demo_world = (\<lambda>_. ''0.0'')" "repr_float demo_approved = (\<lambda>_. ''0.0'')"
proof -
  show "repr_float demo_world = (\<lambda>_. ''0.0'')" by (simp add: demo_world_def)
  with same_texts_history show "repr_float demo_approved = (\<lambda>_. ''0.0'')"
    by (simp add: demo_approved_def same_texts_def)
qed

lemma demo_mails: "calls (snd (gateway_call demo_gateway demo_context ''mail'' demo_args demo_world)) = [(''mail'', demo_args)]"
proof -
  obtain d where d: "evaluate (\<lambda>_. ''0.0'') (gw_policy demo_gateway)
      (gateway_request demo_gateway demo_context mail_tool ''mail'' (approval_of mail_tool demo_world)) = Inr d" "pd_effect d = Allow"
    using verdict_allow [of mail_tool "approval_of mail_tool demo_world"] demo_verdicts demo_approvals by (auto simp: demo_tools)
  have "calls (snd (gateway_call demo_gateway demo_context ''mail'' demo_args demo_world)) = calls demo_world @ [(t_name mail_tool, demo_args)]"
    by (rule gateway_call_runs [OF demo_fresh later.here demo_tools(1) _ _ d(2)])
      (use d(1) in \<open>simp_all add: demo_tools demo_floats approval_of_def busy_def find_ledger_def demo_no_ledger\<close>)
  then show ?thesis by (simp add: demo_tools demo_world_def)
qed

lemma demo_pays: "calls (snd (gateway_call demo_gateway demo_context ''pay'' demo_args demo_approved)) \<noteq> calls demo_approved"
proof -
  obtain d where d: "evaluate (\<lambda>_. ''0.0'') (gw_policy demo_gateway)
      (gateway_request demo_gateway demo_context pay_tool ''pay'' (approval_of pay_tool demo_approved)) = Inr d" "pd_effect d = Allow"
    using verdict_allow [of pay_tool "approval_of pay_tool demo_approved"] demo_verdicts demo_approvals by (auto simp: demo_tools)
  have "calls (snd (gateway_call demo_gateway demo_context ''pay'' demo_args demo_approved)) = calls demo_approved @ [(t_name pay_tool, demo_args)]"
    by (rule gateway_call_runs [OF demo_fresh demo_later_approved demo_tools(2) _ _ d(2)])
      (use d(1) in \<open>simp_all add: demo_tools demo_floats approval_of_def busy_def find_ledger_def demo_no_ledger\<close>)
  then show ?thesis by simp
qed

theorem tool_runs_only_when_allowed_witness:
  "\<exists>t d. map_of (gw_registry demo_gateway) ''mail'' = Some t \<and> allowed d \<and> managed t \<and>
     \<not> busy (call_key demo_context t ''mail'' demo_args demo_world) demo_world"
  using tool_runs_only_when_allowed [of demo_gateway demo_context "''mail''" demo_args demo_world] demo_mails
  by (auto simp: demo_tools demo_world_def)

theorem approval_needed_witness:
  "\<exists>p. approval_for_key (call_approval demo_context pay_tool ''pay'' demo_args demo_approved) (db demo_approved) = Some p \<and>
     upper (p_status p) = ''APPROVED''"
  using approval_needed [OF demo_tools(13) demo_tools(2) demo_pays] demo_tools(8) by blast

lemma demo_same_key: "call_key demo_context mail_tool ''mail'' demo_args mailed = call_key demo_context mail_tool ''mail'' demo_args demo_world"
proof -
  have "same_texts demo_world mailed"
    unfolding mailed_def by (rule staysD [OF texts.stays_gateway surjective_pairing])
  then show ?thesis by (simp add: same_texts_def call_key_def hash_of_def)
qed

theorem side_effect_at_most_once_witness:
  "calls mailed = [(''mail'', demo_args)] \<and>
   calls (snd (gateway_call demo_gateway demo_context ''mail'' demo_args mailed)) = [(''mail'', demo_args)]"
proof -
  have ran: "calls (snd (gateway_call demo_gateway demo_context ''mail'' demo_args demo_world)) \<noteq> calls demo_world"
    using demo_mails by (simp add: demo_world_def)
  have "calls (snd (gateway_call demo_gateway demo_context ''mail'' demo_args mailed)) = calls mailed"
    unfolding mailed_def
    by (rule side_effect_at_most_once [OF demo_fresh later.here demo_tools(1,3) ran onward.start demo_tools(1,3)])
      (rule demo_same_key [unfolded mailed_def])
  then show ?thesis using demo_mails by (simp add: mailed_def)
qed

end
