(* ===== verification/Media.thy ===== *)
theory Media
  imports Schema
begin

text \<open>
  The manifests of \<open>src/agentledger/media.py\<close>: media artifacts, their lineage and metadata, stream chunks and stream
  checkpoints, all of which are references to payloads kept elsewhere. An optional field is a JSON value,
  \<open>JNull\<close> when it was not given; the constructors' \<open>__post_init__\<close> checks are the definitions \<open>new_*\<close>.

  The lemmas say what every manifest that is built contains: its schema version and kind, no null entries, and a kind that is
  one of the nine.
\<close>

section \<open>Helpers\<close>

definition MEDIA_SCHEMA_VERSION :: string where
  "MEDIA_SCHEMA_VERSION = ''agentledger.media.v0''"

definition STREAM_SCHEMA_VERSION :: string where
  "STREAM_SCHEMA_VERSION = ''agentledger.stream.v0''"

definition MEDIA_KINDS :: "string list" where
  "MEDIA_KINDS = [''image'', ''audio'', ''video'', ''frame'', ''audio_segment'', ''video_segment'', ''transcript'',
     ''embedding'', ''derived'']"

definition drop_none :: "dict \<Rightarrow> dict" where
  "drop_none es = filter (\<lambda>e. snd e \<noteq> JNull) es"

text \<open>A parameter that is \<open>None\<close>, an object with \<open>to_dict\<close>, or any other value.\<close>

datatype 'a dict_like = Object 'a | Value json

fun as_dict_with :: "('a \<Rightarrow> dict) \<Rightarrow> 'a dict_like \<Rightarrow> exn + dict" where
  "as_dict_with to_dict (Object x) = Inr (to_dict x)"
| "as_dict_with to_dict (Value v) =
     (case v of
        JNull \<Rightarrow> Inr []
      | JObj es \<Rightarrow> Inr es
      | _ \<Rightarrow> Inl (Exn TypeError (''expected dict-like value, got '' @ type_name v)))"

definition validate_non_negative :: "string \<Rightarrow> json \<Rightarrow> exn + unit" where
  "validate_non_negative name v =
     (if v = JNull then Inr ()
      else case number_of v of
        None \<Rightarrow> Inl (not_supported ''<'' v (JInt 0))
      | Some q \<Rightarrow> if q < 0 then Inl (Exn ValueError (name @ '' must be non-negative'')) else Inr ())"

definition validate_media_kind :: "string \<Rightarrow> exn + string" where
  "validate_media_kind kind =
     (if kind \<notin> set MEDIA_KINDS
      then Inl (Exn ValueError (''unsupported media kind '' @ repr_str kind @ ''; expected one of: '' @ join '', '' (sort MEDIA_KINDS)))
      else Inr kind)"

definition or_none :: "dict \<Rightarrow> json" where
  "or_none es = (if es = [] then JNull else JObj es)"

section \<open>Lineage and metadata\<close>

record artifact_lineage =
  li_artifacts :: "string list"
  li_blobs :: "string list"
  li_tool_calls :: "string list"
  li_events :: "string list"
  li_metadata :: dict

definition lineage_to_dict :: "artifact_lineage \<Rightarrow> dict" where
  "lineage_to_dict l = drop_none [(''source_artifact_ids'', strs (li_artifacts l)), (''source_blob_refs'', strs (li_blobs l)),
     (''tool_call_ids'', strs (li_tool_calls l)), (''event_ids'', strs (li_events l)), (''metadata'', JObj (li_metadata l))]"

record media_metadata =
  mm_kind :: string
  mm_mime_type :: json
  mm_codec :: json
  mm_duration_seconds :: json
  mm_fps :: json
  mm_sample_rate_hz :: json
  mm_width :: json
  mm_height :: json
  mm_channels :: json
  mm_timestamp_start :: json
  mm_timestamp_end :: json
  mm_frame_index :: json
  mm_segment_index :: json
  mm_language :: json
  mm_embedding_model :: json
  mm_source_uri :: json
  mm_checksum :: json
  mm_extra :: dict

definition plain_metadata :: "string \<Rightarrow> media_metadata" where
  "plain_metadata kind = \<lparr>mm_kind = kind, mm_mime_type = JNull, mm_codec = JNull, mm_duration_seconds = JNull, mm_fps = JNull,
     mm_sample_rate_hz = JNull, mm_width = JNull, mm_height = JNull, mm_channels = JNull, mm_timestamp_start = JNull,
     mm_timestamp_end = JNull, mm_frame_index = JNull, mm_segment_index = JNull, mm_language = JNull,
     mm_embedding_model = JNull, mm_source_uri = JNull, mm_checksum = JNull, mm_extra = []\<rparr>"

definition checked_numbers :: "media_metadata \<Rightarrow> dict" where
  "checked_numbers x = [(''duration_seconds'', mm_duration_seconds x), (''fps'', mm_fps x),
     (''sample_rate_hz'', mm_sample_rate_hz x), (''width'', mm_width x), (''height'', mm_height x),
     (''channels'', mm_channels x), (''timestamp_start_seconds'', mm_timestamp_start x),
     (''timestamp_end_seconds'', mm_timestamp_end x), (''frame_index'', mm_frame_index x),
     (''segment_index'', mm_segment_index x)]"

definition new_media_metadata :: "media_metadata \<Rightarrow> exn + media_metadata" where
  "new_media_metadata x =
     bindE (validate_media_kind (mm_kind x)) (\<lambda>_.
     thenE (forE (\<lambda>e. validate_non_negative (fst e) (snd e)) (checked_numbers x)) (Inr x))"

definition metadata_to_dict :: "media_metadata \<Rightarrow> dict" where
  "metadata_to_dict x =
     drop_none [(''schema_version'', JStr MEDIA_SCHEMA_VERSION), (''kind'', JStr (mm_kind x)),
       (''mime_type'', mm_mime_type x), (''codec'', mm_codec x), (''duration_seconds'', mm_duration_seconds x),
       (''fps'', mm_fps x), (''sample_rate_hz'', mm_sample_rate_hz x), (''width'', mm_width x), (''height'', mm_height x),
       (''channels'', mm_channels x), (''timestamp_start_seconds'', mm_timestamp_start x),
       (''timestamp_end_seconds'', mm_timestamp_end x), (''frame_index'', mm_frame_index x),
       (''segment_index'', mm_segment_index x), (''transcript_language'', mm_language x),
       (''embedding_model'', mm_embedding_model x), (''source_uri'', mm_source_uri x), (''checksum'', mm_checksum x)] @
     (if mm_extra x = [] then [] else [(''extra'', JObj (mm_extra x))])"

section \<open>Media artifacts\<close>

record media_artifact =
  me_kind :: string
  me_uri :: json
  me_content_ref :: json
  me_metadata :: "media_metadata dict_like"
  me_lineage :: "artifact_lineage dict_like"
  me_derived :: dict

definition new_media_artifact :: "media_artifact \<Rightarrow> exn + media_artifact" where
  "new_media_artifact a = bindE (validate_media_kind (me_kind a)) (\<lambda>_. Inr a)"

definition stamped_metadata :: "string \<Rightarrow> dict \<Rightarrow> exn + dict" where
  "stamped_metadata kind metadata =
     (if metadata = [] then bindE (new_media_metadata (plain_metadata kind)) (\<lambda>x. Inr (metadata_to_dict x))
      else Inr (AList.update ''kind'' (JStr kind)
        (dict_update [(''schema_version'', get_or (JStr MEDIA_SCHEMA_VERSION) (JObj metadata) ''schema_version'')] metadata)))"

definition media_to_content :: "media_artifact \<Rightarrow> exn + dict" where
  "media_to_content a =
     bindE (as_dict_with metadata_to_dict (me_metadata a)) (\<lambda>given.
     bindE (stamped_metadata (me_kind a) given) (\<lambda>metadata.
     bindE (as_dict_with lineage_to_dict (me_lineage a)) (\<lambda>lineage.
     Inr (drop_none [(''schema_version'', JStr MEDIA_SCHEMA_VERSION), (''kind'', JStr (me_kind a)), (''uri'', me_uri a),
       (''content_ref'', me_content_ref a), (''metadata'', JObj metadata), (''lineage'', JObj lineage),
       (''derived_outputs'', or_none (me_derived a))]))))"

definition media_to_artifact_metadata :: "media_artifact \<Rightarrow> exn + dict" where
  "media_to_artifact_metadata a =
     bindE (media_to_content a) (\<lambda>content.
     Inr [(''agentledger_media'', JObj (drop_none [(''schema_version'', JStr MEDIA_SCHEMA_VERSION), (''kind'', JStr (me_kind a)),
       (''uri'', me_uri a), (''content_ref'', me_content_ref a),
       (''metadata'', get_or (JObj []) (JObj content) ''metadata''), (''lineage'', get_or (JObj []) (JObj content) ''lineage''),
       (''derived_outputs'', get_or (JObj []) (JObj content) ''derived_outputs'')]))])"

section \<open>Streams\<close>

record stream_chunk =
  sk_stream :: string
  sk_chunk :: string
  sk_offset :: json
  sk_content_ref :: json
  sk_content_hash :: json
  sk_sequence :: json
  sk_event_time :: json
  sk_metadata :: dict

text \<open>Only an offset that is an \<open>int\<close> is checked; a \<open>bool\<close> is one, and never negative.\<close>

definition validate_offset :: "json \<Rightarrow> exn + unit" where
  "validate_offset v = (case v of JInt i \<Rightarrow> validate_non_negative ''offset'' v | _ \<Rightarrow> Inr ())"

definition new_stream_chunk :: "stream_chunk \<Rightarrow> exn + stream_chunk" where
  "new_stream_chunk k =
     thenE (validate_offset (sk_offset k)) (thenE (validate_non_negative ''sequence'' (sk_sequence k)) (Inr k))"

definition chunk_to_dict :: "stream_chunk \<Rightarrow> dict" where
  "chunk_to_dict k = drop_none [(''schema_version'', JStr STREAM_SCHEMA_VERSION), (''stream_id'', JStr (sk_stream k)),
     (''chunk_id'', JStr (sk_chunk k)), (''offset'', sk_offset k), (''content_ref'', sk_content_ref k),
     (''content_hash'', sk_content_hash k), (''sequence'', sk_sequence k), (''event_time'', sk_event_time k),
     (''metadata'', or_none (sk_metadata k))]"

record stream_checkpoint =
  cp_stream :: string
  cp_consumer :: string
  cp_offset :: json
  cp_watermark :: json
  cp_chunk :: "stream_chunk dict_like"
  cp_partial_ref :: json
  cp_backpressure :: dict
  cp_metadata :: dict

definition new_stream_checkpoint :: "stream_checkpoint \<Rightarrow> exn + stream_checkpoint" where
  "new_stream_checkpoint p = thenE (validate_offset (cp_offset p)) (Inr p)"

definition checkpoint_to_content :: "stream_checkpoint \<Rightarrow> exn + dict" where
  "checkpoint_to_content p =
     bindE (as_dict_with chunk_to_dict (cp_chunk p)) (\<lambda>chunk.
     Inr (drop_none [(''schema_version'', JStr STREAM_SCHEMA_VERSION), (''stream_id'', JStr (cp_stream p)),
       (''consumer_id'', JStr (cp_consumer p)), (''offset'', cp_offset p), (''watermark'', cp_watermark p),
       (''chunk'', JObj chunk), (''partial_result_ref'', cp_partial_ref p),
       (''backpressure'', or_none (cp_backpressure p)), (''metadata'', or_none (cp_metadata p))]))"

definition checkpoint_to_artifact_metadata :: "stream_checkpoint \<Rightarrow> exn + dict" where
  "checkpoint_to_artifact_metadata p =
     bindE (checkpoint_to_content p) (\<lambda>content.
     Inr [(''agentledger_stream'', JObj (drop_none [(''schema_version'', JStr STREAM_SCHEMA_VERSION),
       (''stream_id'', JStr (cp_stream p)), (''consumer_id'', JStr (cp_consumer p)), (''offset'', cp_offset p),
       (''watermark'', cp_watermark p), (''chunk'', get_or (JObj []) (JObj content) ''chunk''),
       (''partial_result_ref'', cp_partial_ref p),
       (''backpressure'', get_or (JObj []) (JObj content) ''backpressure'')]))])"

section \<open>What a manifest contains\<close>

lemma drop_none_simps [simp]:
  "drop_none [] = []"
  "drop_none ((k, v) # es) = (if v = JNull then drop_none es else (k, v) # drop_none es)"
  by (simp_all add: drop_none_def)

lemma stamped_kind:
  assumes "stamped_metadata kind given = Inr m"
  shows "map_of m ''kind'' = Some (JStr kind)"
proof (cases "given = []")
  case True
  then have "m = metadata_to_dict (plain_metadata kind)"
    using assms by (auto simp: stamped_metadata_def new_media_metadata_def thenE_def bindE_Inr_iff)
  then show ?thesis by (simp add: metadata_to_dict_def plain_metadata_def)
next
  case False
  then obtain es where "m = AList.update ''kind'' (JStr kind) es" using assms by (auto simp: stamped_metadata_def)
  then show ?thesis by (simp add: update_conv')
qed

lemma manifest_entries:
  "map_of (drop_none ((''schema_version'', JStr v) # (''kind'', JStr k) # (''uri'', u) # (''content_ref'', r) # (''metadata'', JObj m) # es))
     ''metadata'' = Some (JObj m)"
  by (cases "u = JNull"; cases "r = JNull") simp_all

text \<open>
  A media manifest that is written carries its kind twice, in the manifest and in its metadata, and they agree; the
  kind is one of the nine, the schema version is set, and no entry is null.
\<close>
theorem media_manifest_consistent:
  assumes "new_media_artifact a = Inr a'" and "media_to_content a' = Inr c"
  shows "me_kind a \<in> set MEDIA_KINDS \<and> map_of c ''kind'' = Some (JStr (me_kind a)) \<and>
    map_of c ''schema_version'' = Some (JStr MEDIA_SCHEMA_VERSION) \<and>
    (\<exists>m. map_of c ''metadata'' = Some (JObj m) \<and> map_of m ''kind'' = Some (JStr (me_kind a))) \<and>
    (\<forall>e\<in>set c. snd e \<noteq> JNull)"
proof -
  have a: "a' = a" "me_kind a \<in> set MEDIA_KINDS"
    using assms(1) by (auto simp: new_media_artifact_def validate_media_kind_def split: if_splits)
  obtain m l given where m: "stamped_metadata (me_kind a) given = Inr m"
    and c: "c = drop_none [(''schema_version'', JStr MEDIA_SCHEMA_VERSION), (''kind'', JStr (me_kind a)), (''uri'', me_uri a),
       (''content_ref'', me_content_ref a), (''metadata'', JObj m), (''lineage'', JObj l),
       (''derived_outputs'', or_none (me_derived a))]"
    using assms(2) unfolding a(1) media_to_content_def bindE_Inr_iff by auto
  have "\<forall>e\<in>set c. snd e \<noteq> JNull" unfolding c drop_none_def by simp
  moreover have "map_of c ''metadata'' = Some (JObj m)" unfolding c by (rule manifest_entries)
  moreover have "map_of c ''kind'' = Some (JStr (me_kind a))" "map_of c ''schema_version'' = Some (JStr MEDIA_SCHEMA_VERSION)"
    unfolding c by simp_all
  ultimately show ?thesis using a(2) stamped_kind [OF m] by blast
qed

end
