(* ===== verification/Model.thy ===== *)
theory Model
  imports Gateway Media
begin

text \<open>
  The evidence of model calls, \<open>src/agentledger/model.py\<close>: the payloads that are archived for a call, a failure
  and a proposed tool call, and the token count read from a provider's usage report. Python's \<open>float(\<dots>)\<close> on JSON
  values is here too; the rounding of floats is not modelled, and neither are infinities and NaN.
\<close>

section \<open>Python's float\<close>

definition digit_count :: "string \<Rightarrow> nat" where
  "digit_count s = length (filter is_digit s)"

text \<open>The two halves of a decimal around its point; one of them may be empty.\<close>

definition decimal_of_text :: "string \<Rightarrow> rat option" where
  "decimal_of_text s =
     (case split_once CHR ''.'' s of
        (whole, None) \<Rightarrow> map_option rat_of_nat (nat_of_text whole)
      | (whole, Some part) \<Rightarrow>
          if whole = [] \<and> part = [] then None
          else case (if whole = [] then Some 0 else nat_of_text whole, if part = [] then Some 0 else nat_of_text part) of
            (Some i, Some f) \<Rightarrow> Some (rat_of_nat i + rat_of_nat f / 10 ^ digit_count part)
          | _ \<Rightarrow> None)"

definition scaled :: "rat \<Rightarrow> int \<Rightarrow> rat" where
  "scaled q e = (if 0 \<le> e then q * 10 ^ nat e else q / 10 ^ nat (- e))"

definition unsigned_float :: "string \<Rightarrow> rat option" where
  "unsigned_float s =
     (case split_once CHR ''e'' (lower s) of
        (m, None) \<Rightarrow> decimal_of_text m
      | (m, Some x) \<Rightarrow>
          (case (decimal_of_text m, int_of_text x) of (Some q, Some e) \<Rightarrow> Some (scaled q e) | _ \<Rightarrow> None))"

definition float_of_text :: "string \<Rightarrow> rat option" where
  "float_of_text s =
     (case s of
        [] \<Rightarrow> None
      | c # cs \<Rightarrow>
          if c = CHR ''-'' then map_option uminus (unsigned_float cs)
          else if c = CHR ''+'' then unsigned_float cs
          else unsigned_float s)"

fun py_float :: "json \<Rightarrow> exn + rat" where
  "py_float (JInt i) = Inr (rat_of_int i)"
| "py_float (JBool b) = Inr (if b then 1 else 0)"
| "py_float (JFloat q) = Inr q"
| "py_float (JStr s) =
     (case float_of_text (strip s) of
        None \<Rightarrow> Inl (Exn ValueError (''could not convert string to float: '' @ repr_str s))
      | Some q \<Rightarrow> Inr q)"
| "py_float v = Inl (Exn TypeError (''float() argument must be a string or a real number, not '' @ repr_str (type_name v)))"

text \<open>\<open>v.get(k, dflt)\<close> on a value that need not be a dict.\<close>

fun attr_get :: "json \<Rightarrow> json \<Rightarrow> string \<Rightarrow> exn + json" where
  "attr_get dflt (JObj es) k = Inr (get_or dflt (JObj es) k)"
| "attr_get dflt v k = Inl (attribute_error v ''get'')"

section \<open>Records\<close>

definition MODEL_EVIDENCE_SCHEMA_VERSION :: string where
  "MODEL_EVIDENCE_SCHEMA_VERSION = ''agentledger.model.evidence.v1''"

record model_call_record =
  mc_provider :: string
  mc_model :: string
  mc_request :: "dict option"
  mc_response :: "dict option"
  mc_usage :: dict
  mc_usd :: rat
  mc_metadata :: dict

definition or_empty :: "dict option \<Rightarrow> dict" where
  "or_empty d = (case d of None \<Rightarrow> [] | Some es \<Rightarrow> es)"

definition request_payload :: "string \<Rightarrow> string \<Rightarrow> dict option \<Rightarrow> dict \<Rightarrow> json" where
  "request_payload provider model request metadata =
     JObj [(''schema_version'', JStr MODEL_EVIDENCE_SCHEMA_VERSION), (''provider'', JStr provider), (''model'', JStr model),
       (''request'', JObj (or_empty request)), (''metadata'', JObj metadata)]"

definition call_request_payload :: "model_call_record \<Rightarrow> json" where
  "call_request_payload r = request_payload (mc_provider r) (mc_model r) (mc_request r) (mc_metadata r)"

text \<open>An entry that is there only when its value was given.\<close>

definition given_str :: "string \<Rightarrow> string option \<Rightarrow> dict" where
  "given_str k v = (case v of None \<Rightarrow> [] | Some s \<Rightarrow> [(k, JStr s)])"

definition response_payload :: "model_call_record \<Rightarrow> string option \<Rightarrow> string option \<Rightarrow> json" where
  "response_payload r request_ref request_hash =
     JObj ([(''schema_version'', JStr MODEL_EVIDENCE_SCHEMA_VERSION), (''provider'', JStr (mc_provider r)),
       (''model'', JStr (mc_model r)), (''response'', JObj (or_empty (mc_response r))), (''usage'', JObj (mc_usage r)),
       (''total_usd'', JFloat (mc_usd r)), (''metadata'', JObj (mc_metadata r))] @
       given_str ''request_ref'' request_ref @ given_str ''request_hash'' request_hash)"

record model_failure_record =
  mf_provider :: string
  mf_model :: string
  mf_error_type :: string
  mf_message :: string
  mf_retryable :: "bool option"
  mf_request :: "dict option"
  mf_usage :: dict
  mf_usd :: rat
  mf_metadata :: dict

definition failure_request_payload :: "model_failure_record \<Rightarrow> json" where
  "failure_request_payload r = request_payload (mf_provider r) (mf_model r) (mf_request r) (mf_metadata r)"

definition failure_payload :: "model_failure_record \<Rightarrow> string option \<Rightarrow> string option \<Rightarrow> json" where
  "failure_payload r request_ref request_hash =
     JObj ([(''schema_version'', JStr MODEL_EVIDENCE_SCHEMA_VERSION), (''provider'', JStr (mf_provider r)),
       (''model'', JStr (mf_model r)), (''error_type'', JStr (mf_error_type r)), (''error'', JStr (mf_message r)),
       (''usage'', JObj (mf_usage r)), (''total_usd'', JFloat (mf_usd r)), (''metadata'', JObj (mf_metadata r))] @
       (case mf_retryable r of None \<Rightarrow> [] | Some b \<Rightarrow> [(''retryable'', JBool b)]) @
       given_str ''request_ref'' request_ref @ given_str ''request_hash'' request_hash)"

record tool_call_proposal =
  tp_tool :: string
  tp_arguments :: dict
  tp_provider :: "string option"
  tp_model :: "string option"
  tp_call_ref :: "string option"
  tp_confidence :: "rat option"
  tp_reason :: "string option"
  tp_metadata :: dict

definition proposal_to_payload :: "tool_call_proposal \<Rightarrow> json" where
  "proposal_to_payload p =
     JObj ([(''schema_version'', JStr MODEL_EVIDENCE_SCHEMA_VERSION), (''tool'', JStr (tp_tool p)),
       (''args'', JObj (tp_arguments p)), (''metadata'', JObj (tp_metadata p))] @
       given_str ''provider'' (tp_provider p) @ given_str ''model'' (tp_model p) @ given_str ''model_call_ref'' (tp_call_ref p) @
       (case tp_confidence p of None \<Rightarrow> [] | Some q \<Rightarrow> [(''confidence'', JFloat q)]) @
       given_str ''reason'' (tp_reason p))"

section \<open>Token counts\<close>

definition usage_total_tokens :: "json \<Rightarrow> exn + int" where
  "usage_total_tokens usage =
     (case usage of
        JObj es \<Rightarrow>
          (let int_or_zero = (\<lambda>v. py_int (py_or v (JInt 0)));
               pick = (\<lambda>a b c. get_or (get_or (get_or (JInt 0) usage c) usage b) usage a) in
           case filter (\<lambda>v. v \<noteq> JNull) (map (get_none usage) [''total_tokens'', ''totalTokens'', ''tokens'']) of
             v # vs \<Rightarrow> int_or_zero v
           | [] \<Rightarrow>
               bindE (int_or_zero (pick ''input_tokens'' ''prompt_tokens'' ''inputTokens'')) (\<lambda>i.
               bindE (int_or_zero (pick ''output_tokens'' ''completion_tokens'' ''outputTokens'')) (\<lambda>n. Inr (i + n))))
      | _ \<Rightarrow> Inr 0)"

end
