(* ===== verification/Context.thy ===== *)
theory Context
  imports Model
begin

text \<open>
  The agent context of \<open>src/agentledger/context.py\<close>: what an agent can do. Every method is a definition on the
  context and the world; \<open>context_op\<close> has a constructor per method and \<open>perform_op\<close> runs it.

  The context's \<open>store\<close>, \<open>gateway\<close>, \<open>blobs\<close> and \<open>budget\<close> are the world and the \<open>gateway\<close> record, whose budget the
  runtime shares with the context. The pending patch is the one attribute that changes (\<open>after_op\<close>). A provider that
  \<open>call_model\<close> finds in its request is bound to a text column: what SQLite refuses there is raised, and a
  number is recorded under its text.
\<close>

section \<open>Events and costs of a step\<close>

definition emit_blob :: "agent_context \<Rightarrow> string \<Rightarrow> json \<Rightarrow> string \<Rightarrow> string \<Rightarrow> unit act" where
  "emit_blob c type payload hash ref = emit ((ctx_event c type payload)\<lparr>v_hash := Some hash, v_ref := Some ref\<rparr>)"

definition model_cost :: "agent_context \<Rightarrow> string \<Rightarrow> rat \<Rightarrow> string \<Rightarrow> json \<Rightarrow> unit act" where
  "model_cost c name amount units metadata =
     bindM (record_cost (cx_run c) (Some (cx_session c)) (Some (cx_step c)) ''model'' name amount units metadata) (\<lambda>_. retM ())"

definition record_model_cost :: "gateway \<Rightarrow> agent_context \<Rightarrow> string \<Rightarrow> string \<Rightarrow> dict \<Rightarrow> rat \<Rightarrow> unit act" where
  "record_model_cost g c provider model usage usd =
     bindM (liftM (usage_total_tokens (JObj usage))) (\<lambda>tokens.
     let metadata = JObj [(''provider'', JStr provider), (''model'', JStr model), (''usage'', JObj usage)] in
     seqM (if tokens \<noteq> 0 then model_cost c model (rat_of_int tokens) ''token'' metadata else retM ())
     (if usd \<noteq> 0 then seqM (model_cost c model usd ''usd'' metadata) (after_cost_recorded (gw_budget g) (cx_run c))
      else retM ()))"

section \<open>Model calls\<close>

definition usage_hint :: "json \<Rightarrow> json" where
  "usage_hint request = (if is_obj request then get_or (JObj []) request ''mock_usage'' else JObj [])"

definition estimated_tokens :: "json \<Rightarrow> exn + int" where
  "estimated_tokens request =
     bindE (attr_get (if is_obj request then get_or (JInt 0) request ''estimated_tokens'' else JInt 0)
       (usage_hint request) ''total_tokens'') (\<lambda>v. py_int (py_or v (JInt 0)))"

definition mock_response :: "json \<Rightarrow> exn + dict" where
  "mock_response request =
     bindE (attr_get (JStr []) request ''mock_response'') (\<lambda>content.
     bindE (attr_get (JStr ''mock'') request ''provider'') (\<lambda>provider.
     Inr [(''content'', content), (''provider'', provider),
       (''usage'', py_or (usage_hint request) (JObj [(''total_tokens'', JInt 0)]))]))"

text \<open>Recording a cost under a name of any type.\<close>

definition named_cost :: "agent_context \<Rightarrow> json \<Rightarrow> rat \<Rightarrow> string \<Rightarrow> json \<Rightarrow> unit act" where
  "named_cost c name amount units metadata =
     bindM (getsM repr_float) (\<lambda>fr.
     let refused = (\<lambda>e. bindM (new_id ''cost'') (\<lambda>_. bindM now_ts (\<lambda>_. raiseM e))) in
     case sql_text fr name of
       Inl e \<Rightarrow> refused e
     | Inr None \<Rightarrow> refused (integrity_error ''cost_records.name'')
     | Inr (Some text) \<Rightarrow> model_cost c text amount units metadata)"

definition call_model :: "gateway \<Rightarrow> agent_context \<Rightarrow> json \<Rightarrow> json act" where
  "call_model g c request =
     bindM (liftM (estimated_tokens request)) (\<lambda>estimated.
     seqM (before_model_call (gw_budget g) (cx_run c) estimated) (
     bindM (put_json request) (\<lambda>(request_hash, request_ref).
     seqM (emit_blob c ''model_call_requested'' (JObj [(''request_ref'', JStr request_ref)]) request_hash request_ref) (
     bindM (liftM (mock_response request)) (\<lambda>response.
     let provider = get_none (JObj response) ''provider''; usage = get_none (JObj response) ''usage'';
         metadata = JObj [(''usage'', usage)] in
     bindM (put_json (JObj response)) (\<lambda>(response_hash, response_ref).
     seqM (emit_blob c ''model_call_completed'' (JObj [(''response_ref'', JStr response_ref)]) response_hash response_ref) (
     bindM (liftM (bindE (attr_get (JInt 0) usage ''total_tokens'') (\<lambda>v. py_int (py_or v (JInt 0))))) (\<lambda>total.
     seqM (if total \<noteq> 0 then named_cost c provider (rat_of_int total) ''token'' metadata else retM ()) (
     bindM (liftM (bindE (attr_get (JFloat 0) request ''mock_cost_usd'') (\<lambda>v. py_float (py_or v (JFloat 0))))) (\<lambda>usd.
     seqM (if usd \<noteq> 0
       then seqM (named_cost c provider usd ''usd'' metadata) (after_cost_recorded (gw_budget g) (cx_run c)) else retM ())
     (retM (JObj response))))))))))))"

definition ref_result :: "(string \<times> string option) list \<Rightarrow> json" where
  "ref_result es = JObj (map (\<lambda>e. (fst e, opt_str (snd e))) es)"

definition record_model_call :: "gateway \<Rightarrow> agent_context \<Rightarrow> model_call_record \<Rightarrow> json act" where
  "record_model_call g c r =
     bindM (liftM (usage_total_tokens (JObj (mc_usage r)))) (\<lambda>estimated.
     seqM (before_model_call (gw_budget g) (cx_run c) estimated) (
     let who = [(''provider'', JStr (mc_provider r)), (''model'', JStr (mc_model r))] in
     bindM (put_json (call_request_payload r)) (\<lambda>(request_hash, request_ref).
     seqM (emit_blob c ''model_call_requested'' (JObj (who @ [(''request_ref'', JStr request_ref)])) request_hash request_ref) (
     bindM (put_json (response_payload r (Some request_ref) (Some request_hash))) (\<lambda>(response_hash, response_ref).
     seqM (emit_blob c ''model_call_completed''
       (JObj (who @ [(''response_ref'', JStr response_ref), (''request_ref'', JStr request_ref), (''usage'', JObj (mc_usage r)),
         (''total_usd'', JFloat (mc_usd r))])) response_hash response_ref) (
     seqM (record_model_cost g c (mc_provider r) (mc_model r) (mc_usage r) (mc_usd r))
     (retM (ref_result [(''request_ref'', Some request_ref), (''request_hash'', Some request_hash),
       (''response_ref'', Some response_ref), (''response_hash'', Some response_hash)]))))))))"

definition record_model_failure :: "gateway \<Rightarrow> agent_context \<Rightarrow> model_failure_record \<Rightarrow> json act" where
  "record_model_failure g c r =
     bindM (case mf_request r of
         None \<Rightarrow> retM (None, None)
       | Some q \<Rightarrow> bindM (put_json (failure_request_payload r)) (\<lambda>(h, ref). retM (Some h, Some ref))) (\<lambda>(request_hash, request_ref).
     let payload = failure_payload r request_ref request_hash in
     bindM (put_json payload) (\<lambda>(failure_hash, failure_ref).
     seqM (emit_blob c ''model_call_failed'' payload failure_hash failure_ref) (
     seqM (record_model_cost g c (mf_provider r) (mf_model r) (mf_usage r) (mf_usd r))
     (retM (ref_result [(''request_ref'', request_ref), (''request_hash'', request_hash),
       (''failure_ref'', Some failure_ref), (''failure_hash'', Some failure_hash)])))))"

definition record_tool_call_proposal :: "agent_context \<Rightarrow> tool_call_proposal \<Rightarrow> json act" where
  "record_tool_call_proposal c p =
     (let payload = proposal_to_payload p in
      bindM (put_json payload) (\<lambda>(payload_hash, payload_ref).
      seqM (emit_blob c ''tool_call_proposed'' payload payload_hash payload_ref)
      (retM (JStr payload_ref))))"

section \<open>State and artifacts\<close>

definition write_state_patch :: "agent_context \<Rightarrow> string \<Rightarrow> json \<Rightarrow> json act" where
  "write_state_patch c key patch =
     seqM (emit (ctx_event c ''state_patch_proposed'' (JObj [(''key'', JStr key), (''patch'', patch)]))) (retM JNull)"

definition new_artifact :: "agent_context \<Rightarrow> string \<Rightarrow> json \<Rightarrow> json \<Rightarrow> json act" where
  "new_artifact c name content metadata =
     bindM (put_json content) (\<lambda>(digest, ref).
     bindM (create_artifact (cx_run c) (Some (cx_step c)) name digest ref metadata) (\<lambda>artifact_id.
     seqM (emit_blob c ''artifact_created'' (JObj [(''artifact_id'', JStr artifact_id), (''name'', JStr name)]) digest ref)
     (retM (JStr artifact_id))))"

definition create_media_artifact :: "agent_context \<Rightarrow> string \<Rightarrow> media_artifact \<Rightarrow> dict option \<Rightarrow> json act" where
  "create_media_artifact c name a metadata =
     bindM (liftM (new_media_artifact a)) (\<lambda>artifact.
     bindM (liftM (media_to_artifact_metadata artifact)) (\<lambda>extra.
     bindM (liftM (media_to_content artifact)) (\<lambda>content.
     new_artifact c name (JObj content) (JObj (dict_update (or_empty metadata) extra)))))"

definition create_stream_checkpoint :: "agent_context \<Rightarrow> string \<Rightarrow> stream_checkpoint \<Rightarrow> json act" where
  "create_stream_checkpoint c name p =
     bindM (liftM (new_stream_checkpoint p)) (\<lambda>checkpoint.
     bindM (liftM (checkpoint_to_artifact_metadata checkpoint)) (\<lambda>metadata.
     bindM (liftM (checkpoint_to_content checkpoint)) (\<lambda>content.
     new_artifact c name (JObj content) (JObj metadata))))"

definition yield_result :: "string \<Rightarrow> string option \<Rightarrow> json" where
  "yield_result reason next_intent =
     JObj [(''status'', JStr ''yield''), (''reason'', JStr reason), (''next_intent'', opt_str next_intent)]"

definition extend_lease :: "agent_context \<Rightarrow> int \<Rightarrow> json act" where
  "extend_lease c lease_seconds = bindM (heartbeat (cx_step c) (cx_lease c) lease_seconds) (\<lambda>until. retM (JFloat until))"

section \<open>The operations of a context\<close>

datatype context_op =
    Call_Tool string json
  | Extend_Lease int
  | Call_Model json
  | Record_Model_Call model_call_record
  | Record_Model_Failure model_failure_record
  | Record_Proposal tool_call_proposal
  | Write_State_Patch string json
  | New_Artifact string json "dict option"
  | New_Media_Artifact string media_artifact "dict option"
  | New_Stream_Checkpoint string stream_checkpoint
  | Yield_Step string "string option"
  | Log_Event string json

fun perform_op :: "gateway \<Rightarrow> agent_context \<Rightarrow> context_op \<Rightarrow> json act" where
  "perform_op g c (Call_Tool name args) = gateway_call g c name args"
| "perform_op g c (Extend_Lease secs) = extend_lease c secs"
| "perform_op g c (Call_Model request) = call_model g c request"
| "perform_op g c (Record_Model_Call r) = record_model_call g c r"
| "perform_op g c (Record_Model_Failure r) = record_model_failure g c r"
| "perform_op g c (Record_Proposal p) = record_tool_call_proposal c p"
| "perform_op g c (Write_State_Patch key patch) = write_state_patch c key patch"
| "perform_op g c (New_Artifact name content metadata) = new_artifact c name content (JObj (or_empty metadata))"
| "perform_op g c (New_Media_Artifact name a metadata) = create_media_artifact c name a metadata"
| "perform_op g c (New_Stream_Checkpoint name p) = create_stream_checkpoint c name p"
| "perform_op g c (Yield_Step reason next_intent) = retM (yield_result reason next_intent)"
| "perform_op g c (Log_Event type payload) = seqM (emit (ctx_event c type payload)) (retM JNull)"

text \<open>The patch is noted before the event is written, so it stays when that raises.\<close>

fun after_op :: "context_op \<Rightarrow> agent_context \<Rightarrow> agent_context" where
  "after_op (Write_State_Patch key patch) c = c\<lparr>cx_patch := AList.update key patch (cx_patch c)\<rparr>"
| "after_op _ c = c"

end
