(* ===== verification/Runtime.thy ===== *)
theory Runtime
  imports Context Reach
begin

text \<open>
  The runtime of \<open>src/agentledger/runtime.py\<close> and the simple interface of \<open>src/agentledger/simple.py\<close>: one claimed step
  is executed by an agent and ends in a commit, a wait, a retry or a failure.

  An agent is code outside the program. It is a \<open>program\<close>: it performs operations of its context, one after the
  other, reads what each returned or raised, and finishes with a value or an exception. Between two operations
  anything else may happen: \<open>Meanwhile\<close> is a store call or a gateway call made by somebody else. So a theorem about all
  programs is a theorem about all interleavings of whole calls. A program is a finite tree, an agent that returns.
\<close>

section \<open>Agents\<close>

datatype other_call = By_Store store_op | By_Gateway gateway agent_context string json

fun other_step :: "other_call \<Rightarrow> world \<Rightarrow> world" where
  "other_step (By_Store op) w = perform op w"
| "other_step (By_Gateway g c n args) w = snd (gateway_call g c n args w)"

datatype program =
    Finish "exn + json"
  | Perform context_op "exn + json \<Rightarrow> program"
  | Meanwhile other_call program

primrec run_program :: "gateway \<Rightarrow> program \<Rightarrow> agent_context \<Rightarrow> world \<Rightarrow> (exn + json) \<times> agent_context \<times> world" where
  "run_program g (Finish r) = (\<lambda>c w. (r, c, w))"
| "run_program g (Perform op k) =
     (\<lambda>c w. case perform_op g c op w of (r, w') \<Rightarrow> run_program g (k r) (after_op op c) w')"
| "run_program g (Meanwhile e p) = (\<lambda>c w. run_program g p c (other_step e w))"

type_synonym agent_func = "json \<Rightarrow> program"

section \<open>The runtime\<close>

definition checkpoint_name :: "step_claim \<Rightarrow> string" where
  "checkpoint_name k = ''ckpt:'' @ k_run k @ '':'' @ k_step k @ '':'' @ int_str (k_attempt k)"

definition new_context :: "step_claim \<Rightarrow> string \<Rightarrow> int \<Rightarrow> string \<Rightarrow> string \<Rightarrow> string option \<Rightarrow> agent_context" where
  "new_context k session version role mode source =
     \<lparr>cx_run = k_run k, cx_session = session, cx_step = k_step k, cx_role = role, cx_lease = k_lease k,
      cx_attempt = k_attempt k, cx_version = version, cx_mode = mode, cx_source = source, cx_patch = []\<rparr>"

definition agent_started :: "agent_context \<Rightarrow> unit act" where
  "agent_started c = emit (ctx_event c ''agent_started'' (JObj [(''agent_role'', JStr (cx_role c)),
     (''attempt'', JInt (cx_attempt c)), (''execution_mode'', JStr (cx_mode c)), (''source_run_id'', opt_str (cx_source c))]))"

text \<open>The body of the \<open>try\<close>: run the agent, commit what it proposed.\<close>

definition commit_context :: "step_claim \<Rightarrow> agent_context \<Rightarrow> bool act" where
  "commit_context k c =
     bindM (commit_state_patch (k_run k) (k_step k) (k_lease k) (cx_version c) (JObj (cx_patch c)) (Some (checkpoint_name k)))
       (\<lambda>_. retM True)"

definition attempt_step :: "gateway \<Rightarrow> step_claim \<Rightarrow> program \<Rightarrow> agent_context \<Rightarrow> bool act" where
  "attempt_step g k p c = (\<lambda>w. case run_program g p c w of
     (Inl e, c', w') \<Rightarrow> (Inl e, w')
   | (Inr r, c', w') \<Rightarrow> commit_context k c' w')"

text \<open>The \<open>except\<close> branches, in their order.\<close>

definition step_failed :: "step_claim \<Rightarrow> exn \<Rightarrow> bool act" where
  "step_failed k e =
     (let retry = (\<lambda>error error_type. bindM (mark_retry (k_run k) (k_step k) error error_type) (\<lambda>_. retM False));
          name = class_name (class_of e) in
      if isinstance e ApprovalRequired then
        seqM (mark_waiting_human (k_run k) (k_step k) (str_exn e)
          (case e of Approval_Required i m d \<Rightarrow> Some i | _ \<Rightarrow> None)) (retM False)
      else if isinstance e SimulatedCrash then retry (''SimulatedCrash: '' @ str_exn e) ''SimulatedCrash''
      else if isinstance e RetryableAgentError then retry (str_exn e) name
      else if isinstance e Exception then
        (let failure = classify_exception e in
         if fc_retryable failure then retry (fc_message failure) (fc_error_type failure)
         else seqM (mark_failed (k_run k) (k_step k) (repr_exn e) name) (raiseM e))
      else raiseM e)"

definition execute_claim :: "gateway \<Rightarrow> agent_func \<Rightarrow> string \<Rightarrow> string \<Rightarrow> string option \<Rightarrow> step_claim \<Rightarrow> bool act" where
  "execute_claim g agent role mode source k =
     bindM (load_state (k_run k)) (\<lambda>(state, version, session).
     let c = new_context k session version role mode source in
     seqM (agent_started c)
     (catchM (attempt_step g k (agent state) c) (step_failed k)))"

definition run_once ::
  "gateway \<Rightarrow> agent_func \<Rightarrow> string option \<Rightarrow> string \<Rightarrow> string \<Rightarrow> string \<Rightarrow> string option \<Rightarrow> int \<Rightarrow> bool act" where
  "run_once g agent run worker role mode source lease_seconds =
     bindM (claim_step worker run lease_seconds) (\<lambda>claim.
     case claim of None \<Rightarrow> retM False | Some k \<Rightarrow> execute_claim g agent role mode source k)"

text \<open>The runtime owns its registry: registering a tool changes what the gateway finds.\<close>

definition runtime_register_tool :: "tool_spec \<Rightarrow> gateway \<Rightarrow> gateway" where
  "runtime_register_tool t g = g\<lparr>gw_registry := register_tool t (gw_registry g)\<rparr>"

section \<open>Simple agents\<close>

text \<open>A user's function and the arguments it is called with; its signature decides how many.\<close>

datatype argument = The_Context | The_State json

record user_function =
  uf_positional :: nat
  uf_varargs :: bool
  uf_name :: string
  uf_body :: "argument list \<Rightarrow> program"

record simple_agent =
  sa_func :: user_function
  sa_role :: string
  sa_name :: "string option"

definition display_name :: "simple_agent \<Rightarrow> string" where
  "display_name a = (case sa_name a of Some n \<Rightarrow> if n = [] then uf_name (sa_func a) else n | None \<Rightarrow> uf_name (sa_func a))"

definition invoke :: "simple_agent \<Rightarrow> json \<Rightarrow> program" where
  "invoke a state =
     (let f = sa_func a in
      if uf_varargs f \<or> 2 \<le> uf_positional f then uf_body f [The_Context, The_State state]
      else if uf_positional f = 1 then uf_body f [The_Context]
      else uf_body f [])"

text \<open>Continue a program with what it returned; an exception ends it.\<close>

primrec then_do :: "program \<Rightarrow> (json \<Rightarrow> program) \<Rightarrow> program" where
  "then_do (Finish r) f = (case r of Inl e \<Rightarrow> Finish (Inl e) | Inr v \<Rightarrow> f v)"
| "then_do (Perform op k) f = Perform op (\<lambda>r. then_do (k r) f)"
| "then_do (Meanwhile e p) f = Meanwhile e (then_do p f)"

definition do_op :: "context_op \<Rightarrow> program" where
  "do_op op = Perform op Finish"

definition as_agent :: "simple_agent \<Rightarrow> agent_func" where
  "as_agent a state =
     then_do (invoke a state) (\<lambda>result.
     if result = JNull then Finish (Inr JNull)
     else then_do (do_op (Log_Event ''agent_result_returned'' (JObj [(''agent'', JStr (display_name a))]))) (\<lambda>_.
       then_do (do_op (Write_State_Patch ''output'' result)) (\<lambda>_. Finish (Inr JNull))))"

datatype agent_like = Simple simple_agent | Has_As_Agent agent_func "string option" | Function user_function | Not_An_Agent

definition or_role :: "string option \<Rightarrow> string \<Rightarrow> string" where
  "or_role given dflt = (case given of Some r \<Rightarrow> if r = [] then dflt else r | None \<Rightarrow> dflt)"

definition coerce_agent :: "agent_like \<Rightarrow> string option \<Rightarrow> exn + agent_func \<times> string" where
  "coerce_agent a role =
     (case a of
        Simple s \<Rightarrow> Inr (as_agent s, or_role role (sa_role s))
      | Has_As_Agent f r \<Rightarrow> Inr (f, or_role role (case r of Some x \<Rightarrow> x | None \<Rightarrow> ''Agent''))
      | Function f \<Rightarrow>
          let s = \<lparr>sa_func = f, sa_role = or_role role ''Agent'', sa_name = None\<rparr> in Inr (as_agent s, sa_role s)
      | Not_An_Agent \<Rightarrow>
          Inl (Exn TypeError ''agentledger.run() expects a callable, SimpleAgent, or object with as_agent()''))"

record run_result =
  rr_run :: string
  rr_session :: string
  rr_ok :: bool
  rr_output :: json
  rr_state :: json

definition arun ::
  "gateway \<Rightarrow> agent_like \<Rightarrow> json \<Rightarrow> string option \<Rightarrow> string option \<Rightarrow> string \<Rightarrow> int \<Rightarrow> json \<Rightarrow> run_result act" where
  "arun g a initial session role worker lease_seconds retry =
     bindM (liftM (coerce_agent a role)) (\<lambda>(agent, the_role).
     bindM (create_run session initial retry) (\<lambda>(run_id, step_id).
     bindM (run_once g agent (Some run_id) worker the_role ''normal'' None lease_seconds) (\<lambda>ok.
     bindM (final_state run_id) (\<lambda>state.
     bindM (get_run run_id) (\<lambda>row.
     bindM (liftM (attr_get JNull state ''output'')) (\<lambda>output.
     retM \<lparr>rr_run = run_id, rr_session = r_session row, rr_ok = ok, rr_output = output, rr_state = state\<rparr>))))))"

end
