(* ===== verification/Worker.thy ===== *)
theory Worker
  imports Runtime
begin

text \<open>
  The scheduler facade of \<open>src/agentledger/scheduler.py\<close> and the workers of \<open>src/agentledger/worker.py\<close>: a local worker
  that drains a run for a bounded number of iterations, the service that repeats it until it is asked to stop, and the
  deployment plan for several of them.

  What other processes do between two rounds of a service, and the stop requests that arrive during a round, are
  arguments: a theorem for all of them holds for every schedule of the environment. The service may serve for ever,
  so its loop has fuel and \<open>None\<close> is a loop that is still running.
\<close>

section \<open>The scheduler\<close>

definition scheduler_recover :: "nat act" where
  "scheduler_recover = recover_expired_leases"

definition recovery_summary :: "nat \<Rightarrow> json" where
  "recovery_summary n = JObj [(''recovered_steps'', JInt (int n))]"

definition scheduler_cancel :: "string \<Rightarrow> string \<Rightarrow> nat act" where
  "scheduler_cancel run reason = cancel_run run reason"

definition opt_time :: "rat option \<Rightarrow> json" where
  "opt_time t = (case t of None \<Rightarrow> JNull | Some q \<Rightarrow> JFloat q)"

definition step_status_dict :: "step_row \<Rightarrow> json" where
  "step_status_dict s = JObj [(''step_id'', JStr (s_id s)), (''status'', JStr (status_text (s_status s))),
     (''owner'', opt_str (s_owner s)), (''attempt'', JInt (s_attempt s)), (''lease_until'', opt_time (s_until s)),
     (''last_error_type'', opt_str (s_error_type s))]"

definition cost_summary_dict :: "cost_summary \<Rightarrow> json" where
  "cost_summary_dict c = JObj [(''tool_calls'', JFloat (tool_calls c)), (''model_tokens'', JFloat (model_tokens c)),
     (''total_usd'', JFloat (total_usd c)), (''by_category'', JObj (map (\<lambda>e. (fst e, JFloat (snd e))) (by_category c)))]"

definition scheduler_status :: "string \<Rightarrow> json act" where
  "scheduler_status run =
     bindM (get_run run) (\<lambda>row.
     bindM (select_db (steps_of run)) (\<lambda>rows.
     bindM (select_db (cost_summary_of run)) (\<lambda>costs.
     retM (JObj [(''run_id'', JStr run), (''run_status'', JStr (status_text (r_status row))),
       (''state_version'', JInt (r_version row)), (''steps'', JList (map step_status_dict rows)),
       (''cost_summary'', cost_summary_dict costs)]))))"

section \<open>The local worker\<close>

record worker =
  wk_id :: string
  wk_role :: string
  wk_lease :: int
  wk_recover :: bool

record worker_summary =
  ws_worker :: string
  ws_run :: "string option"
  ws_iterations :: int
  ws_attempts :: nat
  ws_succeeded :: nat
  ws_recovered :: nat
  ws_final :: "status option"
  ws_stopped :: string

definition opt_status :: "status option \<Rightarrow> json" where
  "opt_status st = (case st of None \<Rightarrow> JNull | Some x \<Rightarrow> JStr (status_text x))"

definition worker_summary_to_dict :: "worker_summary \<Rightarrow> json" where
  "worker_summary_to_dict s = JObj [(''worker_id'', JStr (ws_worker s)), (''run_id'', opt_str (ws_run s)),
     (''iterations'', JInt (ws_iterations s)), (''attempts'', JInt (int (ws_attempts s))),
     (''succeeded_attempts'', JInt (int (ws_succeeded s))), (''recovered_leases'', JInt (int (ws_recovered s))),
     (''final_status'', opt_status (ws_final s)), (''stopped_reason'', JStr (ws_stopped s))]"

text \<open>\<open>if run_id\<close>: the empty string names no run either.\<close>

definition named_run :: "string option \<Rightarrow> string option" where
  "named_run run = (case run of None \<Rightarrow> None | Some r \<Rightarrow> if r = [] then None else Some r)"

definition worker_run_status :: "string option \<Rightarrow> status option act" where
  "worker_run_status run =
     (case run of None \<Rightarrow> retM None | Some r \<Rightarrow> bindM (get_run r) (\<lambda>row. retM (Some (r_status row))))"

definition has_claimable_step :: "string \<Rightarrow> db \<Rightarrow> bool" where
  "has_claimable_step run d \<longleftrightarrow> (\<exists>s \<in> set (steps_of run d). claimable s)"

definition claims_of :: "string \<Rightarrow> db \<Rightarrow> nat" where
  "claims_of run d = length (filter (\<lambda>e. e_type e = ''step_claimed'') (events_of run d))"

definition has_recent_attempt :: "string \<Rightarrow> nat \<Rightarrow> db \<Rightarrow> bool" where
  "has_recent_attempt run previous d \<longleftrightarrow> previous < claims_of run d"

definition ended :: "status option \<Rightarrow> bool" where
  "ended st = (case st of None \<Rightarrow> False | Some x \<Rightarrow> terminal x)"

text \<open>Why an iteration ends the loop before it claims anything.\<close>

definition stop_before :: "string option \<Rightarrow> string option act" where
  "stop_before run =
     (case named_run run of
        None \<Rightarrow> retM None
      | Some r \<Rightarrow>
          bindM (worker_run_status (Some r)) (\<lambda>st.
          if ended st then retM (Some ''terminal_status'')
          else bindM (select_db (has_claimable_step r)) (\<lambda>c. retM (if c then None else Some ''idle''))))"

text \<open>The loop counters: attempts, succeeded attempts, recovered leases.\<close>

record tally =
  ta_attempts :: nat
  ta_succeeded :: nat
  ta_recovered :: nat

definition no_tally :: tally where
  "no_tally = \<lparr>ta_attempts = 0, ta_succeeded = 0, ta_recovered = 0\<rparr>"

definition worker_iteration ::
  "gateway \<Rightarrow> agent_func \<Rightarrow> 'x worker_scheme \<Rightarrow> string option \<Rightarrow> tally \<Rightarrow> (string option \<times> tally) act" where
  "worker_iteration g agent wk run t =
     bindM (if wk_recover wk then scheduler_recover else retM 0) (\<lambda>n.
     let t = t\<lparr>ta_recovered := ta_recovered t + n\<rparr> in
     bindM (stop_before run) (\<lambda>stop.
     case stop of
       Some reason \<Rightarrow> retM (Some reason, t)
     | None \<Rightarrow>
         bindM (run_once g agent run (wk_id wk) (wk_role wk) ''normal'' None (wk_lease wk)) (\<lambda>ok.
         bindM (select_db (\<lambda>d. case run of None \<Rightarrow> False | Some r \<Rightarrow> has_recent_attempt r (ta_attempts t) d)) (\<lambda>recent.
         if \<not> ok \<and> \<not> recent then retM (Some ''idle'', t)
         else retM (None, t\<lparr>ta_attempts := ta_attempts t + 1, ta_succeeded := ta_succeeded t + (if ok then 1 else 0)\<rparr>)))))"

text \<open>The remaining iterations; \<open>i\<close> is the value the loop variable had last.\<close>

fun worker_loop ::
  "nat \<Rightarrow> gateway \<Rightarrow> agent_func \<Rightarrow> 'x worker_scheme \<Rightarrow> string option \<Rightarrow> int \<Rightarrow> tally \<Rightarrow> (string option \<times> int \<times> tally) act" where
  "worker_loop 0 g agent wk run i t = retM (None, i, t)"
| "worker_loop (Suc n) g agent wk run i t =
     bindM (worker_iteration g agent wk run t) (\<lambda>(stop, t').
     case stop of Some reason \<Rightarrow> retM (Some reason, i + 1, t') | None \<Rightarrow> worker_loop n g agent wk run (i + 1) t')"

definition stopped_because :: "string \<Rightarrow> status option \<Rightarrow> string" where
  "stopped_because reason final = (if ended final then ''terminal_status'' else reason)"

definition run_until_idle ::
  "gateway \<Rightarrow> agent_func \<Rightarrow> 'x worker_scheme \<Rightarrow> string option \<Rightarrow> int \<Rightarrow> worker_summary act" where
  "run_until_idle g agent wk run max_iterations =
     bindM (worker_loop (nat max_iterations) g agent wk run 0 no_tally) (\<lambda>(stop, i, t).
     bindM (worker_run_status (named_run run)) (\<lambda>final.
     retM \<lparr>ws_worker = wk_id wk, ws_run = run, ws_iterations = (case stop of None \<Rightarrow> max_iterations | Some _ \<Rightarrow> i),
       ws_attempts = ta_attempts t, ws_succeeded = ta_succeeded t, ws_recovered = ta_recovered t, ws_final = final,
       ws_stopped = stopped_because (case stop of None \<Rightarrow> ''max_iterations'' | Some reason \<Rightarrow> reason) final\<rparr>))"

section \<open>The service\<close>

record service = worker +
  sv_requested :: bool
  sv_reason :: string

definition new_service :: "worker \<Rightarrow> service" where
  "new_service wk = worker.extend wk \<lparr>sv_requested = False, sv_reason = ''stop_requested''\<rparr>"

definition request_stop :: "string \<Rightarrow> service \<Rightarrow> service" where
  "request_stop reason sv = sv\<lparr>sv_requested := True, sv_reason := reason\<rparr>"

definition signal_handler :: "string \<Rightarrow> service \<Rightarrow> service" where
  "signal_handler name = request_stop (''signal:'' @ name)"

record service_summary =
  ss_worker :: string
  ss_run :: "string option"
  ss_loops :: nat
  ss_attempts :: nat
  ss_succeeded :: nat
  ss_recovered :: nat
  ss_idle :: nat
  ss_stopped :: string
  ss_final :: "status option"
  ss_requested :: bool

definition service_summary_to_dict :: "service_summary \<Rightarrow> json" where
  "service_summary_to_dict s = JObj [(''worker_id'', JStr (ss_worker s)), (''run_id'', opt_str (ss_run s)),
     (''loops'', JInt (int (ss_loops s))), (''attempts'', JInt (int (ss_attempts s))),
     (''succeeded_attempts'', JInt (int (ss_succeeded s))), (''recovered_leases'', JInt (int (ss_recovered s))),
     (''idle_polls'', JInt (int (ss_idle s))), (''stopped_reason'', JStr (ss_stopped s)),
     (''final_status'', opt_status (ss_final s)), (''stop_requested'', JBool (ss_requested s))]"

text \<open>
  The environment of a service: the stop requests that arrive before the first round and during each round, and the
  calls other processes make after each round, while the service sleeps or before it goes on.
\<close>

record surroundings =
  en_stops :: "nat \<Rightarrow> string list"
  en_others :: "nat \<Rightarrow> other_call list"

definition arrivals :: "surroundings \<Rightarrow> nat \<Rightarrow> service \<Rightarrow> service" where
  "arrivals e n sv = fold request_stop (en_stops e n) sv"

definition others_act :: "surroundings \<Rightarrow> nat \<Rightarrow> world \<Rightarrow> world" where
  "others_act e n w = fold other_step (en_others e n) w"

record loop_state =
  lo_loops :: nat
  lo_idle :: nat
  lo_tally :: tally

definition add_round :: "worker_summary \<Rightarrow> tally \<Rightarrow> tally" where
  "add_round s t = \<lparr>ta_attempts = ta_attempts t + ws_attempts s, ta_succeeded = ta_succeeded t + ws_succeeded s,
     ta_recovered = ta_recovered t + ws_recovered s\<rparr>"

text \<open>What a round decides: break with a reason, or go on with the new number of idle polls.\<close>

definition round_verdict :: "int option \<Rightarrow> worker_summary \<Rightarrow> nat \<Rightarrow> string option \<times> nat" where
  "round_verdict max_idle s idle =
     (if ended (ws_final s) then (Some ''terminal_status'', idle)
      else if ws_attempts s = 0 then
        (case max_idle of Some m \<Rightarrow> if m \<le> int (idle + 1) then (Some ''idle'', idle + 1) else (None, idle + 1)
         | None \<Rightarrow> (None, idle + 1))
      else (None, 0))"

definition loops_done :: "int option \<Rightarrow> nat \<Rightarrow> bool" where
  "loops_done max_loops n = (case max_loops of None \<Rightarrow> False | Some m \<Rightarrow> m \<le> int n)"

fun serve_loop ::
  "nat \<Rightarrow> gateway \<Rightarrow> agent_func \<Rightarrow> surroundings \<Rightarrow> string option \<Rightarrow> int option \<Rightarrow> int option \<Rightarrow> service \<Rightarrow> loop_state \<Rightarrow> world \<Rightarrow>
   ((exn + string \<times> service \<times> loop_state) \<times> world) option" where
  "serve_loop 0 g agent e run max_loops max_idle sv st w = None"
| "serve_loop (Suc fuel) g agent e run max_loops max_idle sv st w =
     (if loops_done max_loops (lo_loops st) then Some (Inr (''max_loops'', sv, st), w)
      else if sv_requested sv then Some (Inr (sv_reason sv, sv, st), w)
      else
        let n = lo_loops st + 1 in
        case run_until_idle g agent sv run 1 w of
          (Inl x, w') \<Rightarrow> Some (Inl x, w')
        | (Inr s, w') \<Rightarrow>
            let sv' = arrivals e n sv; t = add_round s (lo_tally st) in
            case round_verdict max_idle s (lo_idle st) of
              (Some reason, idle) \<Rightarrow> Some (Inr (reason, sv', \<lparr>lo_loops = n, lo_idle = idle, lo_tally = t\<rparr>), w')
            | (None, idle) \<Rightarrow>
                serve_loop fuel g agent e run max_loops max_idle sv' \<lparr>lo_loops = n, lo_idle = idle, lo_tally = t\<rparr>
                  (others_act e n w'))"

definition service_result ::
  "string option \<Rightarrow> string \<times> service \<times> loop_state \<Rightarrow> service_summary act" where
  "service_result run = (\<lambda>(reason, sv, st).
     bindM (worker_run_status (named_run run)) (\<lambda>final.
     retM \<lparr>ss_worker = wk_id sv, ss_run = run, ss_loops = lo_loops st, ss_attempts = ta_attempts (lo_tally st),
       ss_succeeded = ta_succeeded (lo_tally st), ss_recovered = ta_recovered (lo_tally st), ss_idle = lo_idle st,
       ss_stopped = (if sv_requested sv \<and> reason = ''max_loops'' then sv_reason sv else reason), ss_final = final,
       ss_requested = sv_requested sv\<rparr>))"

definition serve ::
  "nat \<Rightarrow> gateway \<Rightarrow> agent_func \<Rightarrow> surroundings \<Rightarrow> service \<Rightarrow> string option \<Rightarrow> int option \<Rightarrow> int option \<Rightarrow> world \<Rightarrow>
   ((exn + service_summary) \<times> world) option" where
  "serve fuel g agent e sv run max_loops max_idle w =
     (case serve_loop fuel g agent e run max_loops max_idle (arrivals e 0 sv) \<lparr>lo_loops = 0, lo_idle = 0, lo_tally = no_tally\<rparr> w of
        None \<Rightarrow> None
      | Some (Inl x, w') \<Rightarrow> Some (Inl x, w')
      | Some (Inr r, w') \<Rightarrow> Some (service_result run r w'))"

section \<open>Deployment plans\<close>

record deployment_plan =
  dp_entrypoint :: string
  dp_root :: string
  dp_backend :: string
  dp_replicas :: int
  dp_prefix :: string
  dp_lease :: int
  dp_max_idle :: "int option"
  dp_sleep :: rat
  dp_commands :: "string list list"
  dp_checks :: "string list list"
  dp_shutdown :: dict
  dp_notes :: "string list"

definition strings :: "string list \<Rightarrow> json" where
  "strings xs = JList (map JStr xs)"

definition plan_to_dict :: "deployment_plan \<Rightarrow> json" where
  "plan_to_dict p = JObj [(''agent_entrypoint'', JStr (dp_entrypoint p)), (''root'', JStr (dp_root p)),
     (''backend'', JStr (dp_backend p)), (''replicas'', JInt (dp_replicas p)), (''worker_id_prefix'', JStr (dp_prefix p)),
     (''lease_seconds'', JInt (dp_lease p)),
     (''max_idle_polls'', case dp_max_idle p of None \<Rightarrow> JNull | Some m \<Rightarrow> JInt m), (''idle_sleep_seconds'', JFloat (dp_sleep p)),
     (''commands'', JList (map strings (dp_commands p))), (''readiness_checks'', JList (map strings (dp_checks p))),
     (''shutdown'', JObj (dp_shutdown p)), (''notes'', strings (dp_notes p))]"

definition replica_id :: "string \<Rightarrow> nat \<Rightarrow> string" where
  "replica_id pre index = pre @ ''-'' @ int_str (int index + 1)"

definition worker_command :: "(rat \<Rightarrow> string) \<Rightarrow> deployment_plan \<Rightarrow> nat \<Rightarrow> string list" where
  "worker_command float_str p index =
     [''agentledger'', ''--root'', dp_root p, ''worker'', ''serve'', dp_entrypoint p,
      ''--worker-id'', replica_id (dp_prefix p) index, ''--lease-seconds'', int_str (dp_lease p),
      ''--idle-sleep-seconds'', float_str (dp_sleep p), ''--install-signal-handlers''] @
     (case dp_max_idle p of None \<Rightarrow> [''--max-idle-polls'', ''0''] | Some m \<Rightarrow> [''--max-idle-polls'', int_str m])"

definition plan_checks :: "string \<Rightarrow> string \<Rightarrow> string list list" where
  "plan_checks root_dir backend =
     [[''agentledger'', ''--root'', root_dir, ''doctor''],
      [''agentledger'', ''--root'', root_dir, ''worker'', ''conformance'', ''--backend'', backend],
      [''agentledger'', ''--root'', root_dir, ''migrate'', ''status''] @
        (if backend \<in> {''postgres'', ''mysql''} then [''--dialect'', backend] else [])]"

definition plan_shutdown :: dict where
  "plan_shutdown =
     [(''signal_handling'', JStr ''SIGINT/SIGTERM request graceful stop''),
      (''lease_behavior'', JStr ''uncommitted leased steps become recoverable after lease expiry''),
      (''safe_restart'', JStr ''start replacement workers before or after stopping old workers; lease fencing prevents stale commits'')]"

definition plan_notes :: "string list" where
  "plan_notes =
     [''run state-store conformance before increasing replicas'',
      ''lease_seconds should exceed normal step duration or agents should heartbeat'',
      ''workers are stateless executors; durable run state stays in the StateStore'',
      ''do not point conformance commands at real application data'']"

text \<open>\<open>build_worker_deployment_plan\<close>; \<open>float_str\<close> is Python's \<open>str\<close> of a float.\<close>

definition build_worker_deployment_plan ::
  "(rat \<Rightarrow> string) \<Rightarrow> string \<Rightarrow> string \<Rightarrow> string \<Rightarrow> int \<Rightarrow> string \<Rightarrow> int \<Rightarrow> int option \<Rightarrow> rat \<Rightarrow> exn + deployment_plan" where
  "build_worker_deployment_plan float_str entrypoint root_dir backend replicas pre lease max_idle idle_sleep =
     (if replicas < 1 then Inl (Exn ValueError ''replicas must be >= 1'')
      else if lease \<le> 0 then Inl (Exn ValueError ''lease_seconds must be > 0'')
      else if (case max_idle of None \<Rightarrow> False | Some m \<Rightarrow> m < 1) then Inl (Exn ValueError ''max_idle_polls must be >= 1 or omitted'')
      else if idle_sleep < 0 then Inl (Exn ValueError ''idle_sleep_seconds must be >= 0'')
      else
        let p = \<lparr>dp_entrypoint = entrypoint, dp_root = root_dir, dp_backend = backend, dp_replicas = replicas, dp_prefix = pre,
              dp_lease = lease, dp_max_idle = max_idle, dp_sleep = idle_sleep, dp_commands = [],
              dp_checks = plan_checks root_dir backend, dp_shutdown = plan_shutdown, dp_notes = plan_notes\<rparr>
        in Inr (p\<lparr>dp_commands := map (worker_command float_str p) [0..<nat replicas]\<rparr>))"

end
