(* ===== verification/Runtime_Law.thy ===== *)
theory Runtime_Law
  imports Runtime Gateway_Law
begin

text \<open>
  The interface between the runtime and the layers below, as a relation on worlds: \<open>context_relation\<close> asks that the
  gateway calls and heartbeats an agent makes respect the relation, and names the gateways, modes and foreign calls for
  which they do; then every context operation and every agent does. \<open>runtime_relation\<close> asks it of the store calls of
  the runtime too; then every \<open>run_once\<close> does.

  Interpreted here: histories (\<open>run_once\<close> is one, whatever the agent does), the ledger row of a side effect (no agent
  frees it), the record of tool calls for shadow runs (nothing managed runs in them), and digests.
\<close>

section \<open>The interface\<close>

fun runtime_op :: "store_op \<Rightarrow> bool" where
  "runtime_op (Create_Run sess st pol) = True"
| "runtime_op (Claim_Step u run secs) = True"
| "runtime_op (Heartbeat i tok secs) = True"
| "runtime_op Recover_Expired_Leases = True"
| "runtime_op (Mark_Waiting_Human run i reason a) = True"
| "runtime_op (Commit_State_Patch run i tok base patch ck) = True"
| "runtime_op (Mark_Retry run i err ty) = True"
| "runtime_op (Mark_Failed run i err ty) = True"
| "runtime_op _ = False"

primrec foreign_calls :: "(other_call \<Rightarrow> bool) \<Rightarrow> program \<Rightarrow> bool" where
  "foreign_calls ok (Finish r) = True"
| "foreign_calls ok (Perform op k) = (\<forall>r. foreign_calls ok (k r))"
| "foreign_calls ok (Meanwhile e p) = (ok e \<and> foreign_calls ok p)"

locale context_relation = gateway_relation +
  fixes may_call :: "gateway \<Rightarrow> string \<Rightarrow> bool" and foreign :: "other_call \<Rightarrow> bool"
  assumes R_heartbeat: "R w (perform (Heartbeat i tok secs) w)"
    and R_gateway: "may_call g (cx_mode c) \<Longrightarrow> R w (snd (gateway_call g c n args w))"
    and R_foreign: "foreign e \<Longrightarrow> R w (other_step e w)"
begin

lemma stays_heartbeat: "stays R (heartbeat i tok secs)"
  using R_heartbeat [of _ i tok secs] by (simp add: stays_def perform_def snd_forget)

lemmas context_rules = gateway_rules stays_heartbeat stays_emit stays_budget

lemma stays_sum: "(\<And>e. stays R (f e)) \<Longrightarrow> (\<And>x. stays R (h x)) \<Longrightarrow> stays R (case r of Inl e \<Rightarrow> f e | Inr x \<Rightarrow> h x)"
  by (cases r) simp_all

lemma stays_emit_blob: "stays R (emit_blob c type payload hash ref)"
  unfolding emit_blob_def by (rule stays_emit)

lemma stays_model_cost: "stays R (model_cost c name amount units metadata)"
  unfolding model_cost_def by (intro gateway_rules)

lemma stays_record_model_cost: "stays R (record_model_cost g c provider model usage usd)"
  unfolding record_model_cost_def by (intro context_rules stays_model_cost)

lemma stays_named_cost: "stays R (named_cost c name amount units metadata)"
  unfolding named_cost_def by (intro context_rules stays_sum stays_model_cost)

lemma stays_call_model: "stays R (call_model g c request)"
  unfolding call_model_def by (intro context_rules stays_emit_blob stays_named_cost)

lemma stays_records:
  "stays R (record_model_call g c r)" "stays R (record_model_failure g c f)" "stays R (record_tool_call_proposal c p)"
  unfolding record_model_call_def record_model_failure_def record_tool_call_proposal_def
  by (intro context_rules stays_emit_blob stays_record_model_cost)+

lemma stays_new_artifact: "stays R (new_artifact c name content metadata)"
  unfolding new_artifact_def by (intro context_rules stays_emit_blob)

lemma stays_artifacts: "stays R (create_media_artifact c name a metadata)" "stays R (create_stream_checkpoint c name p)"
  unfolding create_media_artifact_def create_stream_checkpoint_def by (intro context_rules stays_new_artifact)+

lemma stays_gateway_call: "may_call g (cx_mode c) \<Longrightarrow> stays R (gateway_call g c n args)"
  by (simp add: stays_def R_gateway)

lemma stays_perform_op: "may_call g (cx_mode c) \<Longrightarrow> stays R (perform_op g c op)"
  by (cases op) (simp_all only: perform_op.simps write_state_patch_def extend_lease_def,
      (intro context_rules stays_call_model stays_records stays_new_artifact stays_artifacts stays_gateway_call | assumption)+)

lemma after_op_mode: "cx_mode (after_op op c) = cx_mode c"
  by (cases op) simp_all

lemma program_stays:
  "may_call g (cx_mode c) \<Longrightarrow> foreign_calls foreign p \<Longrightarrow> R w (snd (snd (run_program g p c w)))"
proof (induction p arbitrary: c w)
  case (Perform op k)
  obtain r w' where op: "perform_op g c op w = (r, w')" by fastforce
  have "R w w'" using stays_perform_op [OF Perform.prems(1)] op by (rule staysD)
  moreover have "R w' (snd (snd (run_program g (k r) (after_op op c) w')))"
    using Perform by (auto simp: after_op_mode)
  ultimately show ?case by (auto simp: op intro: G_trans)
next
  case (Meanwhile e p)
  then have "R w (other_step e w)" by (simp add: R_foreign)
  moreover have "R (other_step e w) (snd (snd (run_program g p c (other_step e w))))" using Meanwhile by simp
  ultimately show ?case by (auto intro: G_trans)
qed (simp add: G_refl)

end

locale runtime_relation = context_relation +
  assumes R_runtime_op: "runtime_op op \<Longrightarrow> R w (perform op w)"
begin

lemma runtime_stays: "runtime_op op \<Longrightarrow> stays R (call op)"
  using R_runtime_op by (simp add: stays_def perform_def)

lemma stays_runtime_ops:
  "stays R (create_run sess st pol)"
  "stays R (claim_step u run' secs)"
  "stays R (heartbeat i tok secs')"
  "stays R recover_expired_leases"
  "stays R (mark_waiting_human run'' j reason a)"
  "stays R (commit_state_patch run0 k tok' base patch ck)"
  "stays R (mark_retry run1 l err ty)"
  "stays R (mark_failed run2 m err' ty')"
  using runtime_stays [of "Create_Run sess st pol"] runtime_stays [of "Claim_Step u run' secs"]
    runtime_stays [of "Heartbeat i tok secs'"] runtime_stays [of Recover_Expired_Leases]
    runtime_stays [of "Mark_Waiting_Human run'' j reason a"] runtime_stays [of "Commit_State_Patch run0 k tok' base patch ck"]
    runtime_stays [of "Mark_Retry run1 l err ty"] runtime_stays [of "Mark_Failed run2 m err' ty'"]
  by (simp_all add: stays_forget_iff)

lemma stays_reads: "stays R (get_run i)" "stays R (load_state i)" "stays R (final_state i)"
proof -
  show run: "stays R (get_run i)" for i by (simp add: stays_def exec G_refl split: option.split)
  show load: "stays R (load_state i)" for i unfolding load_state_def by (intro gateway_rules run)
  show "stays R (final_state i)" unfolding final_state_def by (intro gateway_rules load)
qed

lemmas runtime_rules = context_rules stays_runtime_ops stays_reads

lemma stays_step_failed: "stays R (step_failed k e)"
  unfolding step_failed_def by (intro runtime_rules)

lemma stays_commit: "stays R (commit_context k c)"
  unfolding commit_context_def by (intro runtime_rules)

lemma stays_attempt_step:
  assumes "may_call g (cx_mode c)" and "foreign_calls foreign p"
  shows "stays R (attempt_step g k p c)"
  unfolding stays_def
proof
  fix w
  obtain r c' w' where p: "run_program g p c w = (r, c', w')" by (cases "run_program g p c w") auto
  then have "R w w'" using program_stays [OF assms, of w] by simp
  moreover have "R w' (snd (commit_context k c' w'))" by (rule staysD [OF stays_commit surjective_pairing])
  ultimately show "R w (snd (attempt_step g k p c w))"
    by (cases r) (auto simp: attempt_step_def p intro: G_trans)
qed

lemma stays_run_once:
  assumes "may_call g mode" and "\<And>state. foreign_calls foreign (agent state)"
  shows "stays R (run_once g agent run worker role mode source secs)"
  unfolding run_once_def execute_claim_def agent_started_def Let_def
  by (intro runtime_rules stays_attempt_step stays_step_failed) (simp_all add: assms new_context_def)

lemma stays_arun:
  assumes "may_call g ''normal''" and "\<And>agent role' state. coerce_agent a role = Inr (agent, role') \<Longrightarrow> foreign_calls foreign (agent state)"
  shows "stays R (arun g a initial session role worker secs retry)"
proof (cases "coerce_agent a role")
  case (Inl e)
  then show ?thesis by (simp add: arun_def stays_def exec G_refl)
next
  case (Inr x)
  obtain agent role' where x: "x = (agent, role')" by fastforce
  have once: "stays R (run_once g agent r worker role' ''normal'' None secs)" for r
    using assms Inr x by (intro stays_run_once) auto
  have lift: "liftM (coerce_agent a role) = retM (agent, role')" by (simp add: liftM_def retM_def Inr x)
  have ret: "bindM (retM (agent, role')) f = f (agent, role')" for f :: "agent_func \<times> string \<Rightarrow> run_result act"
    by (rule ext) (simp add: exec)
  show ?thesis unfolding arun_def lift ret prod.case by (intro runtime_rules once)
qed

end

section \<open>Interpretations\<close>

interpretation executed: runtime_relation later "\<lambda>_ _. True" "\<lambda>_. True"
proof
  fix i tok secs and w :: world
  show "later w (perform (Heartbeat i tok secs) w)" by (rule later_perform)
next
  fix op and w :: world
  show "later w (perform op w)" by (rule later_perform)
next
  fix g c n args and w :: world
  show step: "later w (snd (gateway_call g c n args w))" by (rule staysD [OF recorded.stays_gateway surjective_pairing])
next
  fix e and w :: world
  show "later w (other_step e w)"
    by (cases e) (auto intro: later_perform staysD [OF recorded.stays_gateway surjective_pairing])
qed

lemma any_foreign: "foreign_calls (\<lambda>_. True) p"
  by (induction p) simp_all

text \<open>Foreign calls that declare no effect undone.\<close>

fun foreign_settled :: "other_call \<Rightarrow> bool" where
  "foreign_settled (By_Store op) = stays_settled op"
| "foreign_settled (By_Gateway g c n args) = True"

interpretation secured: runtime_relation "busy_kept key" "\<lambda>_ _. True" foreign_settled for key
proof
  fix i tok secs and w :: world
  show "busy_kept key w (perform (Heartbeat i tok secs) w)" by (rule perform_stays [OF kept.record_call]) simp
next
  fix op and w :: world
  assume "runtime_op op"
  then have "stays_settled op" by (cases op) simp_all
  then show "busy_kept key w (perform op w)" by (rule perform_stays [OF kept.record_call])
next
  fix g c n args and w :: world
  show "busy_kept key w (snd (gateway_call g c n args w))" by (rule staysD [OF held.stays_gateway surjective_pairing])
next
  fix e and w :: world
  assume "foreign_settled e"
  then show "busy_kept key w (other_step e w)"
    by (cases e) (auto intro: perform_stays [OF kept.record_call] staysD [OF held.stays_gateway surjective_pairing])
qed

interpretation unmoved: runtime_relation same_texts "\<lambda>_ _. True" "\<lambda>_. True"
proof
  fix i tok secs and w :: world
  show "same_texts w (perform (Heartbeat i tok secs) w)" by (rule perform_stays [OF texts.stays_call])
next
  fix op and w :: world
  show "same_texts w (perform op w)" by (rule perform_stays [OF texts.stays_call])
next
  fix g c n args and w :: world
  show "same_texts w (snd (gateway_call g c n args w))" by (rule staysD [OF texts.stays_gateway surjective_pairing])
next
  fix e and w :: world
  show "same_texts w (other_step e w)"
    by (cases e) (auto intro: perform_stays [OF texts.stays_call] staysD [OF texts.stays_gateway surjective_pairing])
qed

end
