(* ===== verification/Runtime_Spec.thy ===== *)
theory Runtime_Spec
  imports Runtime_Law Store_Spec
begin

text \<open>
  What an execution of a step guarantees: it commits exactly what the agent
  proposed on the state it read, or changes no state at all; exceptions decide how the step ends; and a worker that lost
  its lease fails the step of its successor.
\<close>

section \<open>The state and version of a run\<close>

definition run_data :: "db \<Rightarrow> string \<Rightarrow> (json \<times> int) option" where
  "run_data d run = map_option (\<lambda>r. (r_state r, r_version r)) (find_run d run)"

definition same_data :: "world \<Rightarrow> world \<Rightarrow> bool" where
  "same_data w w' \<longleftrightarrow> run_data (db w') = run_data (db w)"

interpretation data_fixed: store_preorder same_data
  by unfold_locales (simp_all add: same_data_def restore_def)

lemma data_status: "stays same_data (update_runs p (\<lambda>r. r\<lparr>r_status := st, r_updated := t\<rparr>))"
  by (simp add: stays_def exec same_data_def run_data_def find_run_update fun_eq_iff option.map_comp comp_def if_distrib cong: if_cong)

lemma data_other:
  "stays same_data (update_steps p f)" "stays same_data (get_step i)" "stays same_data (log_event v)"
proof -
  show "stays same_data (update_steps p f)"
    by (simp add: stays_def exec same_data_def run_data_def find_run_def fun_eq_iff)
  show "stays same_data (get_step i)"
    by (simp add: stays_def exec same_data_def split: option.split)
  have "same_data w (snd (log_event v w))" for w
    by (rule log_event_cases [of v w]) (simp_all add: same_data_def run_data_def fun_eq_iff)
  then show "stays same_data (log_event v)" by (simp add: stays_def)
qed

lemmas data_rules = data_fixed.store_rules data_status data_other

lemma data_step_failed: "stays same_data (step_failed k e)"
  unfolding step_failed_def mark_retry_def mark_failed_def mark_waiting_human_def fail_step_def Let_def
  by (intro data_rules)

lemma list_all2_find:
  "list_all2 P xs ys \<Longrightarrow> (\<And>x y. P x y \<Longrightarrow> k y = k x) \<Longrightarrow>
   rel_option P (List.find (\<lambda>x. k x = a) xs) (List.find (\<lambda>x. k x = a) ys)"
  by (induction rule: list_all2_induct) auto

lemma find_append_some: "List.find p xs = Some x \<Longrightarrow> List.find p (xs @ ys) = Some x"
  by (induction xs) auto

lemma grows_find:
  assumes "grows P xs ys" and "\<And>x y. P x y \<Longrightarrow> k y = k x" and "List.find (\<lambda>x. k x = a) xs = Some x"
  shows "\<exists>y. List.find (\<lambda>x. k x = a) ys = Some y \<and> P x y"
proof -
  have "rel_option P (List.find (\<lambda>x. k x = a) xs) (List.find (\<lambda>x. k x = a) (take (length xs) ys))"
    using assms(1,2) by (intro list_all2_find) (auto simp: grows_def)
  then obtain y where "List.find (\<lambda>x. k x = a) (take (length xs) ys) = Some y" "P x y"
    using assms(3) by (auto simp: option_rel_Some1)
  then show ?thesis using find_append_some [of _ "take (length xs) ys" y "drop (length xs) ys"] by auto
qed

lemma find_run_later:
  assumes "later w w'" and "find_run (db w) i = Some r"
  shows "\<exists>r'. find_run (db w') i = Some r' \<and> run_evolves r r'"
  using grows_find [OF versions.always [OF assms(1)], of r_id i r] assms(2)
  by (auto simp: find_run_def run_evolves_def)

section \<open>Commit or nothing\<close>

lemma after_op_version: "cx_version (after_op op c) = cx_version c"
  by (cases op) simp_all

lemma program_version: "cx_version (fst (snd (run_program g p c w))) = cx_version c"
  by (induction p arbitrary: c w) (simp_all add: after_op_version split: prod.split)

text \<open>When a context may commit: it holds its lease before the deadline, and nobody moved the version.\<close>

definition may_commit :: "step_claim \<Rightarrow> int \<Rightarrow> world \<Rightarrow> bool" where
  "may_commit k version w \<longleftrightarrow>
     (\<exists>s. find_step (db w) (k_step k) = Some s \<and> lease_holds s (k_lease k) (clock w (Suc (ticks w)))) \<and>
     (\<exists>r. find_run (db w) (k_run k) = Some r \<and> r_version r = version)"

lemma world_db_ticks: "db (w\<lparr>ticks := n\<rparr>) = db w"
  by simp

lemma commit_context_ok:
  assumes "fresh_world v" and "later v w" and "may_commit k (cx_version c) w" and "find_run (db w) (k_run k) = Some r"
  shows "\<exists>w'. commit_context k c w = (Inr True, w') \<and>
    find_run (db w') (k_run k) = Some (committed_run (JObj (cx_patch c)) (clock w (ticks w)) r) \<and>
    (\<exists>s. find_step (db w') (k_step k) = Some s \<and> s_status s = Completed)"
proof -
  let ?w = "w\<lparr>ticks := Suc (ticks w)\<rparr>"
  obtain s where s: "find_step (db w) (k_step k) = Some s" "lease_holds s (k_lease k) (clock w (Suc (ticks w)))"
    and r: "r_version r = cx_version c" using assms(3,4) by (auto simp: may_commit_def)
  obtain vr n where val: "validate_lease (k_step k) (k_lease k) ?w = (vr, w\<lparr>ticks := n\<rparr>)"
    using validate_lease_world [of "k_step k" "k_lease k" ?w] by (cases "validate_lease (k_step k) (k_lease k) ?w") auto
  have "vr = fst (validate_lease (k_step k) (k_lease k) ?w)" by (simp add: val)
  then have vr: "vr = Inr s" using s by (simp add: validate_lease_result) (simp add: lease_holds_def)
  have fresh: "ids_fresh (w\<lparr>ticks := n\<rparr>)" using well_run_later [OF assms(1,2)] by (simp add: well_run_def)
  let ?m = "commit_write (k_run k) (k_step k) (cx_version c) (JObj (cx_patch c)) (Some (checkpoint_name k)) (clock w (ticks w)) s r"
  have "\<exists>w'. ?m (w\<lparr>ticks := n\<rparr>) = (Inr (cx_version c + 1), w') \<and>
    find_run (db w') (k_run k) = Some (committed_run (JObj (cx_patch c)) (clock w (ticks w)) r) \<and>
    find_step (db w') (k_step k) = Some (committed_step (cx_version c + 1) (Some (checkpoint_name k)) (clock w (ticks w)) s)"
    using commit_write_exact [of "w\<lparr>ticks := n\<rparr>" "k_run k" r "cx_version c" "k_step k" s "JObj (cx_patch c)"
        "Some (checkpoint_name k)" "clock w (ticks w)"] fresh assms(4) r s(1)
    by (simp only: find_step_ticks env.select_convs world_db_ticks simp_thms) blast
  then obtain w' where w': "?m (w\<lparr>ticks := n\<rparr>) = (Inr (cx_version c + 1), w')"
    "find_run (db w') (k_run k) = Some (committed_run (JObj (cx_patch c)) (clock w (ticks w)) r)"
    "find_step (db w') (k_step k) = Some (committed_step (cx_version c + 1) (Some (checkpoint_name k)) (clock w (ticks w)) s)"
    by blast
  have "commit_state_patch (k_run k) (k_step k) (k_lease k) (cx_version c) (JObj (cx_patch c)) (Some (checkpoint_name k)) w =
    (Inr (cx_version c + 1), w')"
    unfolding commit_result [OF val] vr sum.case assms(4) option.case w'(1) prod.case ..
  then show ?thesis using w'(2,3) by (simp add: commit_context_def exec committed_step_def)
qed

lemma commit_context_refused:
  assumes "\<not> may_commit k (cx_version c) w"
  shows "\<exists>e w'. commit_context k c w = (Inl e, w') \<and> db w' = db w"
proof -
  let ?w = "w\<lparr>ticks := Suc (ticks w)\<rparr>"
  let ?m = "commit_state_patch (k_run k) (k_step k) (k_lease k) (cx_version c) (JObj (cx_patch c)) (Some (checkpoint_name k))"
  obtain vr n where val: "validate_lease (k_step k) (k_lease k) ?w = (vr, w\<lparr>ticks := n\<rparr>)"
    using validate_lease_world [of "k_step k" "k_lease k" ?w] by (cases "validate_lease (k_step k) (k_lease k) ?w") auto
  note res = commit_result [OF val, of "k_run k" "cx_version c" "JObj (cx_patch c)" "Some (checkpoint_name k)"]
  have vr: "vr = fst (validate_lease (k_step k) (k_lease k) ?w)" by (simp add: val)
  have "\<exists>e. fst (?m w) = Inl e"
  proof (cases vr)
    case (Inl e)
    with res show ?thesis by simp
  next
    case (Inr s)
    then have "find_step (db w) (k_step k) = Some s" "lease_holds s (k_lease k) (clock w (Suc (ticks w)))"
      unfolding vr validate_lease_result by (auto split: option.splits if_splits)
    with assms have "find_run (db w) (k_run k) = Some r \<longrightarrow> r_version r \<noteq> cx_version c" for r
      by (auto simp: may_commit_def)
    then show ?thesis using res Inr by (auto simp: commit_write_def Let_def split: option.split)
  qed
  then obtain e w' where m: "?m w = (Inl e, w')" by (cases "?m w") auto
  moreover have "db w' = db w" using atomicD [OF atomic_run_operations(8) m] .
  ultimately show ?thesis by (simp add: commit_context_def exec)
qed

text \<open>
  C1: An execution commits or changes nothing. If the agent returns while the step's lease is still held before its deadline
  and no one moved the version it read, \<open>run_once\<close> returns true and the run's new state is exactly the
  agent's patch merged into the state it was given, one version up, whatever others did meanwhile. In every other case
  (the agent raised, the lease was lost or expired, the version moved) it does not return true
  and no run's state or version differs from what it was when the agent ended.
\<close>
theorem run_once_commits_or_nothing:
  assumes "fresh_world v" and "later v w"
    and "claim_step worker run secs w = (Inr (Some k), w1)" and "find_run (db w1) (k_run k) = Some r"
    and "agent_started (new_context k (r_session r) (r_version r) role mode source) w1 = (Inr (), w2)"
    and "run_program g (agent (r_state r)) (new_context k (r_session r) (r_version r) role mode source) w2 = (x, c, w3)"
    and "run_once g agent run worker role mode source secs w = (result, w')"
  shows "if (\<exists>a. x = Inr a) \<and> may_commit k (r_version r) w3
    then result = Inr True \<and>
      run_data (db w') (k_run k) = Some (merge_patch (r_state r) (JObj (cx_patch c)), r_version r + 1) \<and>
      (\<exists>s. find_step (db w') (k_step k) = Some s \<and> s_status s = Completed)
    else result \<noteq> Inr True \<and> run_data (db w') = run_data (db w3)"
proof -
  let ?c = "new_context k (r_session r) (r_version r) role mode source"
  have load: "load_state (k_run k) w1 = (Inr (r_state r, r_version r, r_session r), w1)"
    using assms(4) by (simp add: load_state_def exec)
  have run: "(result, w') = catchM (attempt_step g k (agent (r_state r)) ?c) (step_failed k) w2"
    using assms(7) by (simp add: run_once_def execute_claim_def Let_def bindM_apply seqM_apply assms(3,5) load)
  have no_true: "fst (step_failed k e u) \<noteq> Inr True" for e u
    unfolding step_failed_def Let_def by (auto simp: exec split: prod.splits sum.splits)
  have failed: "result \<noteq> Inr True \<and> run_data (db w') = run_data (db w3)"
    if "attempt_step g k (agent (r_state r)) ?c w2 = (Inl e, w4)" and "db w4 = db w3" for e w4
  proof -
    have "(result, w') = step_failed k e w4" using run that(1) by (simp add: catchM_def)
    then show ?thesis
      using no_true [of e w4] staysD [OF data_step_failed, of k e w4 result w'] that(2)
      by (metis fst_conv same_data_def)
  qed
  have version: "cx_version c = r_version r" using program_version [of g "agent (r_state r)" ?c w2] assms(6) by (simp add: new_context_def)
  show ?thesis
  proof (cases x)
    case (Inl e)
    then show ?thesis using failed [of e w3] by (simp add: attempt_step_def assms(6))
  next
    case (Inr a)
    then have attempt: "attempt_step g k (agent (r_state r)) ?c w2 = commit_context k c w3"
      by (simp add: attempt_step_def assms(6))
    show ?thesis
    proof (cases "may_commit k (r_version r) w3")
      case False
      then show ?thesis
        using commit_context_refused [of k c w3] failed attempt version by auto
    next
      case True
      have l1: "later w w1" using executed.stays_runtime_ops(2) assms(3) by (rule staysD)
      have l2: "later w1 w2" using assms(5) unfolding agent_started_def by (rule staysD [OF recorded.stays_emit])
      have l3: "later w2 w3" using executed.program_stays [OF TrueI any_foreign, of w2] assms(6) by (metis snd_conv)
      have l: "later v w3" "later w1 w3"
        using recorded.G_trans [OF recorded.G_trans [OF recorded.G_trans [OF assms(2) l1] l2] l3] recorded.G_trans [OF l2 l3] by simp_all
      obtain r3 where r3: "find_run (db w3) (k_run k) = Some r3" "run_evolves r r3"
        using find_run_later [OF l(2) assms(4)] by blast
      then have same: "r_version r3 = r_version r" "r_state r3 = r_state r"
        using True by (auto simp: may_commit_def run_evolves_def)
      obtain w4 where w4: "commit_context k c w3 = (Inr True, w4)"
        "find_run (db w4) (k_run k) = Some (committed_run (JObj (cx_patch c)) (clock w3 (ticks w3)) r3)"
        "\<exists>s. find_step (db w4) (k_step k) = Some s \<and> s_status s = Completed"
        using commit_context_ok [OF assms(1) l(1) _ r3(1), of c] True version by auto
      have "result = Inr True \<and> w' = w4" using run attempt w4(1) by (simp add: catchM_def)
      then show ?thesis using True Inr w4(2,3) same by (simp add: run_data_def committed_run_def)
    qed
  qed
qed

section \<open>How a step ends\<close>

definition retryable :: "exn \<Rightarrow> bool" where
  "retryable e \<longleftrightarrow> isinstance e SimulatedCrash \<or> isinstance e RetryableAgentError \<or>
     (isinstance e Exception \<and> fc_retryable (classify_exception e))"

definition outcome :: "exn \<Rightarrow> retry_policy \<Rightarrow> step_row \<Rightarrow> status" where
  "outcome e pol s =
     (if isinstance e ApprovalRequired then WaitingHuman
      else if retryable e then (if allows_retry_after_attempt pol (s_attempt s) then RetryScheduled else Failed)
      else if isinstance e Exception then Failed
      else s_status s)"

definition step_state :: "db \<Rightarrow> string \<Rightarrow> (status \<times> string option) option" where
  "step_state d i = map_option (\<lambda>s. (s_status s, s_lease s)) (find_step d i)"

lemma mark_waiting_result:
  assumes "ids_fresh w" and "find_step (db w) i = Some s"
  shows "\<exists>w'. mark_waiting_human run i reason a w = (Inr (), w') \<and> step_state (db w') i = Some (WaitingHuman, None)"
  using assms find_step_id [OF assms(2)]
  by (simp add: mark_waiting_human_def exec find_step_update_db step_state_def)

lemma mark_failed_result:
  assumes "ids_fresh w" and "find_step (db w) i = Some s"
  shows "\<exists>w'. mark_failed run i err ty w = (Inr (), w') \<and> step_state (db w') i = Some (Failed, None)"
  using assms find_step_id [OF assms(2)]
  by (simp add: mark_failed_def exec fail_step_def Let_def find_step_update_db step_state_def)

lemma mark_retry_result:
  assumes "ids_fresh w" and "find_step (db w) i = Some s" and "retry_policy_for_step s = Inr pol"
  shows "\<exists>w'. mark_retry run i err ty w = (Inr (allows_retry_after_attempt pol (s_attempt s)), w') \<and> step_state (db w') i =
    Some (if allows_retry_after_attempt pol (s_attempt s) then RetryScheduled else Failed, None)"
  using assms find_step_id [OF assms(2)]
  by (cases "allows_retry_after_attempt pol (s_attempt s)")
    (simp_all add: mark_retry_def exec fail_step_def Let_def find_step_update_db step_state_def)

lemma retryable_retries:
  assumes "\<not> isinstance e ApprovalRequired" and "retryable e"
  shows "\<exists>err ty. step_failed k e = bindM (mark_retry (k_run k) (k_step k) err ty) (\<lambda>_. retM False)"
proof (cases "isinstance e SimulatedCrash")
  case True
  then show ?thesis using assms(1) unfolding step_failed_def Let_def by (simp only: simp_thms if_True if_False) blast
next
  case crash: False
  show ?thesis
  proof (cases "isinstance e RetryableAgentError")
    case True
    then show ?thesis using assms(1) crash unfolding step_failed_def Let_def by (simp only: simp_thms if_True if_False) blast
  next
    case False
    then have "isinstance e Exception" "fc_retryable (classify_exception e)"
      using assms(2) crash by (simp_all add: retryable_def)
    then show ?thesis using assms(1) crash False unfolding step_failed_def Let_def
      by (simp only: simp_thms if_True if_False) blast
  qed
qed

lemma step_failed_outcome:
  assumes fresh: "ids_fresh w" and "find_step (db w) (k_step k) = Some s" and "retry_policy_for_step s = Inr pol"
  shows "\<exists>w'. step_failed k e w =
      (if isinstance e ApprovalRequired \<or> retryable e then Inr False else Inl e, w') \<and>
    step_state (db w') (k_step k) =
      Some (outcome e pol s, if isinstance e ApprovalRequired \<or> isinstance e Exception \<or> retryable e then None else s_lease s)"
proof -
  note retry = mark_retry_result [OF assms]
  consider "isinstance e ApprovalRequired"
    | "\<not> isinstance e ApprovalRequired" "retryable e"
    | "\<not> isinstance e ApprovalRequired" "\<not> retryable e" "isinstance e Exception"
    | "\<not> isinstance e ApprovalRequired" "\<not> retryable e" "\<not> isinstance e Exception" by blast
  then show ?thesis
  proof cases
    case 1
    from mark_waiting_result [OF fresh assms(2), of "k_run k" "str_exn e" "case e of Approval_Required i m d \<Rightarrow> Some i | _ \<Rightarrow> None"]
    show ?thesis using 1 by (auto simp: step_failed_def exec outcome_def)
  next
    case 2
    obtain err ty where "step_failed k e = bindM (mark_retry (k_run k) (k_step k) err ty) (\<lambda>_. retM False)"
      using retryable_retries [OF 2] by blast
    then show ?thesis using retry [of "k_run k" err ty] 2 by (auto simp: outcome_def exec)
  next
    case 3
    from mark_failed_result [OF fresh assms(2), of "k_run k" "repr_exn e" "class_name (class_of e)"]
    show ?thesis using 3 by (auto simp: step_failed_def exec outcome_def retryable_def Let_def)
  next
    case 4
    then show ?thesis using assms(2) by (simp add: step_failed_def exec outcome_def retryable_def step_state_def)
  qed
qed

text \<open>
  C13: An exception decides how the step ends: an approval that is missing makes it wait for a person, a crash, a retryable
  error or a timeout schedules a retry until the attempts are used up, any other exception fails it and is
  raised again, and what is not an \<open>Exception\<close> (a cancellation) is raised and leaves the step to the expiry of its lease.
\<close>
theorem exception_decides_outcome:
  assumes "fresh_world v" and "later v w" and "find_step (db w) (k_step k) = Some s" and "retry_policy_for_step s = Inr pol"
  shows "\<exists>w'. step_failed k e w =
      (if isinstance e ApprovalRequired \<or> retryable e then Inr False else Inl e, w') \<and>
    step_state (db w') (k_step k) =
      Some (outcome e pol s, if isinstance e ApprovalRequired \<or> isinstance e Exception \<or> retryable e then None else s_lease s)"
  using step_failed_outcome well_run_later [OF assms(1,2)] assms(3,4) by (simp add: well_run_def)

text \<open>
  C40: A worker that lost its lease fails the step of its successor. When the step was recovered and claimed by another worker
  while the agent ran, the commit is refused, as it should be; but the refusal is then reported with
  \<open>mark_failed\<close>, which checks no lease: the step is failed and its lease is taken from the worker that holds it.
\<close>
theorem late_worker_fails_successor:
  assumes "fresh_world v" and "later v w"
    and "claim_step worker run secs w = (Inr (Some k), w1)" and "find_run (db w1) (k_run k) = Some r"
    and "agent_started (new_context k (r_session r) (r_version r) role mode source) w1 = (Inr (), w2)"
    and "run_program g (agent (r_state r)) (new_context k (r_session r) (r_version r) role mode source) w2 = (Inr a, c, w3)"
    and "step_state (db w3) (k_step k) = Some (Running, Some other)" and "other \<noteq> k_lease k"
  shows "\<exists>w'. run_once g agent run worker role mode source secs w =
      (Inl (Exn RuntimeError ''invalid or stale lease token''), w') \<and> step_state (db w') (k_step k) = Some (Failed, None)"
proof -
  let ?c = "new_context k (r_session r) (r_version r) role mode source"
  let ?e = "Exn RuntimeError ''invalid or stale lease token''" and ?w = "w3\<lparr>ticks := Suc (ticks w3)\<rparr>"
  obtain s where s: "find_step (db w3) (k_step k) = Some s" "s_lease s = Some other"
    using assms(7) by (auto simp: step_state_def)
  have "validate_lease (k_step k) (k_lease k) ?w = (Inl ?e, ?w)"
    using s assms(8) by (simp add: validate_lease_def exec)
  from commit_result [OF this]
  have refused: "commit_context k c w3 = (Inl ?e, ?w)" by (simp add: commit_context_def exec)
  have l1: "later w w1" using executed.stays_runtime_ops(2) assms(3) by (rule staysD)
  have l2: "later w1 w2" using assms(5) unfolding agent_started_def by (rule staysD [OF recorded.stays_emit])
  have l3: "later w2 w3" using executed.program_stays [OF TrueI any_foreign, of w2] assms(6) by (metis snd_conv)
  have "later v w3" using recorded.G_trans [OF recorded.G_trans [OF recorded.G_trans [OF assms(2) l1] l2] l3] .
  then have "ids_fresh ?w" using well_run_later [OF assms(1)] by (simp add: well_run_def)
  from mark_failed_result [OF this, of "k_step k" s "k_run k" "repr_exn ?e" "class_name (class_of ?e)"] s(1)
  obtain w' where failed: "mark_failed (k_run k) (k_step k) (repr_exn ?e) (class_name (class_of ?e)) ?w = (Inr (), w')"
    "step_state (db w') (k_step k) = Some (Failed, None)" by (simp only: world_db_ticks) blast
  have "step_failed k ?e ?w = (Inl ?e, w')"
    using failed(1) by (simp add: step_failed_def isinstance_def classify_exception_def Let_def exec)
  moreover have "load_state (k_run k) w1 = (Inr (r_state r, r_version r, r_session r), w1)"
    using assms(4) by (simp add: load_state_def exec)
  ultimately have "run_once g agent run worker role mode source secs w = (Inl ?e, w')"
    using assms(3,5,6) refused
    by (simp add: run_once_def execute_claim_def attempt_step_def Let_def bindM_apply seqM_apply catchM_def)
  with failed(2) show ?thesis by blast
qed

end
