(* ===== verification/Worker_Spec.thy ===== *)
theory Worker_Spec
  imports Worker Runtime_Spec
begin

text \<open>
  What workers guarantee: the counters of a summary, histories, termination of the service and its reaction to stop
  requests.
\<close>

section \<open>Counters\<close>

lemma worker_iteration_counts:
  assumes "worker_iteration g agent wk run t w = (Inr (stop, t'), w')"
  shows "ta_attempts t' = ta_attempts t + (if stop = None then 1 else 0) \<and>
    ta_succeeded t \<le> ta_succeeded t' \<and> ta_succeeded t' - ta_succeeded t \<le> ta_attempts t' - ta_attempts t \<and>
    stop \<in> {None, Some ''idle'', Some ''terminal_status''}"
  using assms
  by (auto simp: worker_iteration_def stop_before_def Let_def bindM_apply
      split: prod.splits sum.splits if_splits option.splits)

lemma worker_loop_counts:
  assumes "worker_loop n g agent wk run i t w = (Inr (stop, j, t'), w')"
  shows "j \<le> i + int n \<and> int (ta_attempts t') = int (ta_attempts t) + (j - i) - (if stop = None then 0 else 1) \<and>
    i \<le> j \<and> ta_succeeded t \<le> ta_succeeded t' \<and> ta_succeeded t' - ta_succeeded t \<le> ta_attempts t' - ta_attempts t \<and>
    (stop = None \<longrightarrow> j = i + int n) \<and> (stop \<noteq> None \<longrightarrow> i < j) \<and> stop \<in> {None, Some ''idle'', Some ''terminal_status''}"
  using assms
proof (induction n arbitrary: i t w)
  case (Suc n)
  obtain s1 t1 w1 where one: "worker_iteration g agent wk run t w = (Inr (s1, t1), w1)"
    using Suc.prems by (auto simp: bindM_apply split: prod.splits sum.splits)
  note counts = worker_iteration_counts [OF one]
  show ?case
  proof (cases s1)
    case (Some reason)
    then show ?thesis using Suc.prems counts by (auto simp: bindM_apply one)
  next
    case None
    then have "worker_loop n g agent wk run (i + 1) t1 w1 = (Inr (stop, j, t'), w')"
      using Suc.prems by (simp add: bindM_apply one)
    from Suc.IH [OF this] counts None show ?thesis by auto
  qed
qed simp

text \<open>
  The summary of a worker is consistent: it never exceeds the iterations it was given, it counts no more successes than
  attempts and no more attempts than iterations; with the reason \<open>max_iterations\<close> every iteration was an attempt, and a run
  that has ended is reported as \<open>terminal_status\<close>.
\<close>
theorem worker_summary_consistent:
  assumes "run_until_idle g agent wk run max_iterations w = (Inr s, w')"
  shows "ws_succeeded s \<le> ws_attempts s \<and> int (ws_attempts s) \<le> max 0 (ws_iterations s) \<and> ws_iterations s \<le> max_iterations \<and>
    (ws_stopped s = ''max_iterations'' \<longrightarrow> ws_iterations s = max_iterations \<and> int (ws_attempts s) = max 0 max_iterations) \<and>
    (ended (ws_final s) \<longrightarrow> ws_stopped s = ''terminal_status'') \<and>
    ws_stopped s \<in> {''max_iterations'', ''idle'', ''terminal_status''}"
proof -
  obtain stop j t w1 final where loop: "worker_loop (nat max_iterations) g agent wk run 0 no_tally w = (Inr (stop, j, t), w1)"
    and s: "s = \<lparr>ws_worker = wk_id wk, ws_run = run, ws_iterations = (case stop of None \<Rightarrow> max_iterations | Some _ \<Rightarrow> j),
       ws_attempts = ta_attempts t, ws_succeeded = ta_succeeded t, ws_recovered = ta_recovered t, ws_final = final,
       ws_stopped = stopped_because (case stop of None \<Rightarrow> ''max_iterations'' | Some reason \<Rightarrow> reason) final\<rparr>"
    using assms by (auto simp: run_until_idle_def bindM_apply split: prod.splits sum.splits)
  show ?thesis using worker_loop_counts [OF loop]
    by (cases stop) (auto simp: s stopped_because_def no_tally_def split: if_splits)
qed

lemma unnamed_loop_counts:
  assumes "worker_loop n g agent wk None i t w = (Inr (stop, j, t'), w')"
  shows "ta_attempts t' - ta_attempts t = ta_succeeded t' - ta_succeeded t \<and> ta_attempts t \<le> ta_attempts t' \<and>
    ta_succeeded t \<le> ta_succeeded t'"
  using assms
proof (induction n arbitrary: i t w)
  case (Suc n)
  obtain s1 t1 w1 where one: "worker_iteration g agent wk None t w = (Inr (s1, t1), w1)"
    using Suc.prems by (auto simp: bindM_apply split: prod.splits sum.splits)
  then have step: "ta_attempts t1 - ta_attempts t = ta_succeeded t1 - ta_succeeded t \<and> ta_attempts t \<le> ta_attempts t1 \<and>
      ta_succeeded t \<le> ta_succeeded t1"
    by (auto simp: worker_iteration_def stop_before_def named_run_def Let_def bindM_apply select_db_apply
        split: prod.splits sum.splits if_splits option.splits)
  show ?case
  proof (cases s1)
    case (Some reason)
    then show ?thesis using Suc.prems step by (auto simp: bindM_apply one)
  next
    case None
    then have "worker_loop n g agent wk None (i + 1) t1 w1 = (Inr (stop, j, t'), w')"
      using Suc.prems by (simp add: bindM_apply one)
    from Suc.IH [OF this] step show ?thesis by auto
  qed
qed simp

text \<open>
  A worker without a run counts only successes: an attempt that failed, even if it claimed a step and scheduled a retry,
  ends the loop as \<open>idle\<close> and is not counted.
\<close>
theorem unnamed_worker_hides_failures:
  assumes "run_until_idle g agent wk None max_iterations w = (Inr s, w')"
  shows "ws_attempts s = ws_succeeded s"
proof -
  obtain stop j t w1 where "worker_loop (nat max_iterations) g agent wk None 0 no_tally w = (Inr (stop, j, t), w1)"
    and "ws_attempts s = ta_attempts t" "ws_succeeded s = ta_succeeded t"
    using assms by (auto simp: run_until_idle_def bindM_apply split: prod.splits sum.splits)
  then show ?thesis using unnamed_loop_counts by (fastforce simp: no_tally_def)
qed

section \<open>Histories\<close>

lemma worker_stays:
  "stays later (worker_iteration g agent wk run t)"
  "stays later (worker_loop n g agent wk run i t')"
  "stays later (run_until_idle g agent wk run m)"
proof -
  have once: "stays later (run_once g agent run worker role ''normal'' None secs)" for run worker role secs
    by (intro executed.stays_run_once any_foreign TrueI)
  have status: "stays later (worker_run_status r)" for r
    unfolding worker_run_status_def by (intro executed.runtime_rules)
  show iteration: "stays later (worker_iteration g agent wk run t)" for t
    unfolding worker_iteration_def stop_before_def scheduler_recover_def Let_def
    by (intro executed.runtime_rules once status)
  show loop: "stays later (worker_loop n g agent wk run i t')" for n i t'
    by (induction n arbitrary: i t')
      (simp_all only: worker_loop.simps, (intro executed.runtime_rules iteration | assumption)+)
  show "stays later (run_until_idle g agent wk run m)"
    unfolding run_until_idle_def by (intro executed.runtime_rules loop status)
qed

lemma later_others: "later w (others_act e n w)"
proof -
  have "later w (fold other_step xs w)" for xs
  proof (induction xs arbitrary: w)
    case (Cons x xs)
    have "later w (other_step x w)" by (rule executed.R_foreign) (rule TrueI)
    then show ?case using Cons [of "other_step x w"] by (simp, blast intro: recorded.G_trans)
  qed (simp add: later.here)
  then show ?thesis by (simp add: others_act_def)
qed

lemma serve_loop_later:
  "serve_loop fuel g agent e run max_loops max_idle sv st w = Some (r, w') \<Longrightarrow> later w w'"
proof (induction fuel arbitrary: sv st w)
  case (Suc fuel)
  obtain x w1 where round: "run_until_idle g agent sv run 1 w = (x, w1)" by fastforce
  have l: "later w w1" using worker_stays(3) round by (rule staysD)
  have next_round: "later w w'"
    if "serve_loop fuel g agent e run max_loops max_idle sv' st' (others_act e n w1) = Some (r, w')" for sv' st' n
    using Suc.IH [OF that] later_others [of w1 e n] l by (blast intro: recorded.G_trans)
  show ?case
    using Suc.prems l next_round
    by (auto simp: round Let_def later.here split: if_splits sum.splits prod.splits option.splits)
qed simp

text \<open>
  A service, whatever its agent, the other processes and the signals do, is a history of store calls: every law of
  histories holds from its start to its end.
\<close>
theorem serve_is_history:
  assumes "serve fuel g agent e sv run max_loops max_idle w = Some (r, w')"
  shows "later w w'"
proof -
  have status: "stays later (service_result run x)" for x
    unfolding service_result_def worker_run_status_def
    by (cases x) (simp only: prod.case, intro executed.runtime_rules)
  obtain x w1 where x: "serve_loop fuel g agent e run max_loops max_idle (arrivals e 0 sv)
      \<lparr>lo_loops = 0, lo_idle = 0, lo_tally = no_tally\<rparr> w = Some (x, w1)"
    using assms by (auto simp: serve_def split: option.splits)
  have l: "later w w1" using x by (rule serve_loop_later)
  show ?thesis
  proof (cases x)
    case (Inl y)
    then show ?thesis using assms l by (simp add: serve_def x)
  next
    case (Inr y)
    then have "service_result run y w1 = (r, w')" using assms by (simp add: serve_def x)
    then have "later w1 w'" by (rule staysD [OF status])
    with l show ?thesis by (rule recorded.G_trans)
  qed
qed

section \<open>Termination\<close>

lemma requested_fold: "sv_requested (fold request_stop rs sv) \<longleftrightarrow> sv_requested sv \<or> rs \<noteq> []"
  by (induction rs arbitrary: sv) (auto simp: request_stop_def)

lemma requested_arrivals: "sv_requested (arrivals e n sv) \<longleftrightarrow> sv_requested sv \<or> en_stops e n \<noteq> []"
  by (simp add: arrivals_def requested_fold)

text \<open>The loop ends at round \<open>n\<close> at the latest.\<close>

definition ends_by :: "surroundings \<Rightarrow> int option \<Rightarrow> service \<Rightarrow> nat \<Rightarrow> nat \<Rightarrow> bool" where
  "ends_by e max_loops sv done n \<longleftrightarrow>
     loops_done max_loops n \<or> sv_requested sv \<or> (\<exists>k. done < k \<and> k \<le> n \<and> en_stops e k \<noteq> [])"

lemma serve_loop_stopped:
  assumes "loops_done max_loops (lo_loops st) \<or> sv_requested sv"
  shows "\<exists>r. (\<forall>fuel>d. serve_loop fuel g agent e run max_loops max_idle sv st w = Some r) \<and>
    (\<forall>x. fst r = Inr x \<longrightarrow> lo_loops (snd (snd x)) \<le> lo_loops st)"
proof (cases "loops_done max_loops (lo_loops st)")
  case True
  then show ?thesis
    by (intro exI [of _ "(Inr (''max_loops'', sv, st), w)"]) (auto dest!: less_imp_Suc_add)
next
  case False
  then show ?thesis using assms
    by (intro exI [of _ "(Inr (sv_reason sv, sv, st), w)"]) (auto dest!: less_imp_Suc_add)
qed

lemma serve_loop_ends:
  assumes "ends_by e max_loops sv (lo_loops st) (lo_loops st + d)"
  shows "\<exists>r. (\<forall>fuel>d. serve_loop fuel g agent e run max_loops max_idle sv st w = Some r) \<and>
    (\<forall>x. fst r = Inr x \<longrightarrow> lo_loops (snd (snd x)) \<le> lo_loops st + d)"
  using assms
proof (induction d arbitrary: sv st w)
  case 0
  then have "loops_done max_loops (lo_loops st) \<or> sv_requested sv" by (auto simp: ends_by_def)
  from serve_loop_stopped [OF this] show ?case by simp
next
  case (Suc d)
  let ?n = "Suc (lo_loops st)"
  show ?case
  proof (cases "loops_done max_loops (lo_loops st) \<or> sv_requested sv")
    case True
    from serve_loop_stopped [OF this] show ?thesis by (meson trans_le_add1)
  next
    case False
    obtain x w1 where round: "run_until_idle g agent sv run 1 w = (x, w1)" by fastforce
    show ?thesis
    proof (cases x)
      case (Inl y)
      then show ?thesis using False round by (intro exI [of _ "(Inl y, w1)"]) (auto simp: Suc_less_eq2 Let_def)
    next
      case (Inr s)
      obtain verdict idle where v: "round_verdict max_idle s (lo_idle st) = (verdict, idle)" by fastforce
      let ?st = "\<lparr>lo_loops = ?n, lo_idle = idle, lo_tally = add_round s (lo_tally st)\<rparr>"
      show ?thesis
      proof (cases verdict)
        case (Some reason)
        then show ?thesis using False round Inr v
          by (intro exI [of _ "(Inr (reason, arrivals e ?n sv, ?st), w1)"]) (auto simp: Suc_less_eq2 Let_def)
      next
        case None
        have "ends_by e max_loops (arrivals e ?n sv) (lo_loops ?st) (lo_loops ?st + d)"
          using Suc.prems False unfolding ends_by_def requested_arrivals
          by (auto simp: less_Suc_eq_le) (metis Suc_leI le_neq_implies_less)
        from Suc.IH [OF this, of "others_act e ?n w1"] obtain r where
          r: "\<And>fuel. d < fuel \<Longrightarrow> serve_loop fuel g agent e run max_loops max_idle (arrivals e ?n sv) ?st (others_act e ?n w1) = Some r"
          and n: "\<And>x. fst r = Inr x \<Longrightarrow> lo_loops (snd (snd x)) \<le> ?n + d" by auto
        show ?thesis
          using False round Inr v None r n by (intro exI [of _ r]) (auto simp: Suc_less_eq2 Let_def)
      qed
    qed
  qed
qed

text \<open>
  C14: A service returns. With a limit of \<open>n\<close> rounds, or with a stop request that arrives before or during round \<open>n\<close>, it
  returns (or raises what its agent raised) within \<open>n\<close> rounds, whatever the agent and the other processes do: every fuel
  beyond \<open>n\<close> gives this result.
\<close>
theorem serve_returns:
  assumes "(\<exists>m. max_loops = Some m \<and> m \<le> int n) \<or> (\<exists>k\<le>n. en_stops e k \<noteq> [])"
  shows "\<exists>r. (\<forall>fuel>n. serve fuel g agent e sv run max_loops max_idle w = Some r) \<and>
    (\<forall>s. fst r = Inr s \<longrightarrow> ss_loops s \<le> n)"
proof -
  let ?sv = "arrivals e 0 sv" and ?st = "\<lparr>lo_loops = 0, lo_idle = 0, lo_tally = no_tally\<rparr>"
  have "ends_by e max_loops ?sv (lo_loops ?st) (lo_loops ?st + n)"
    using assms by (auto simp: ends_by_def loops_done_def requested_arrivals)
  from serve_loop_ends [OF this, of g agent run max_idle w] obtain r where
    r: "\<And>fuel. n < fuel \<Longrightarrow> serve_loop fuel g agent e run max_loops max_idle ?sv ?st w = Some r"
    and n: "\<And>x. fst r = Inr x \<Longrightarrow> lo_loops (snd (snd x)) \<le> n" by auto
  obtain x w1 where x: "r = (x, w1)" by fastforce
  show ?thesis
  proof (cases x)
    case (Inl y)
    then show ?thesis using r x by (intro exI [of _ "(Inl y, w1)"]) (simp add: serve_def)
  next
    case (Inr y)
    have "ss_loops s \<le> n" if "fst (service_result run y w1) = Inr s" for s
      using that n x Inr by (auto simp: service_result_def bindM_apply split: prod.splits sum.splits)
    then show ?thesis using r x Inr by (intro exI [of _ "service_result run y w1"]) (simp add: serve_def)
  qed
qed

end
