(* ===== verification/Row_Law.thy ===== *)
theory Row_Law
  imports Runtime_Law Store_Spec
begin

text \<open>
  Laws on step rows for code that creates no step. A reflexive and transitive relation \<open>P\<close> on rows is lifted to worlds
  row by row (\<open>rows_rel\<close>); statements on other tables keep it, and an update of steps does when \<open>P\<close> relates each row
  it hits to what it becomes (\<open>row_relation\<close>). If \<open>P\<close> allows heartbeats, every agent that is left alone respects it
  (\<open>beat_relation\<close>).

  Interpreted here: an agent left alone changes of a step at most its deadline (\<open>same_work\<close>); the end of a step changes
  the status of that step only (\<open>only_step\<close>); recovery makes no step heavier, where the weight of a step bounds the
  attempts it has left (\<open>lighter\<close>).
\<close>

section \<open>The interface\<close>

definition rows_rel :: "(step_row \<Rightarrow> step_row \<Rightarrow> bool) \<Rightarrow> world \<Rightarrow> world \<Rightarrow> bool" where
  "rows_rel P w w' \<longleftrightarrow> list_all2 P (steps (db w)) (steps (db w'))"

lemma list_all2_update: "(\<And>s. s \<in> set xs \<Longrightarrow> P s (if p s then f s else s)) \<Longrightarrow> list_all2 P xs (update_where p f xs)"
  by (induction xs) simp_all

locale row_relation =
  fixes P :: "step_row \<Rightarrow> step_row \<Rightarrow> bool"
  assumes P_refl: "P s s" and P_trans: "P s t \<Longrightarrow> P t u \<Longrightarrow> P s u"
begin

lemma rows_refl: "list_all2 P xs xs"
  by (simp add: list.rel_refl P_refl)

lemma rows_same: "steps (db w') = steps (db w) \<Longrightarrow> rows_rel P w w'"
  by (simp add: rows_rel_def rows_refl)

sublocale store_preorder "rows_rel P"
proof
  fix w1 w2 w3
  assume "rows_rel P w1 w2" "rows_rel P w2 w3"
  then show "rows_rel P w1 w3"
    unfolding rows_rel_def by (rule list_all2_trans [rotated]) (rule P_trans)
qed (simp_all add: rows_same restore_def)

lemma stays_update: "(\<And>s. p s \<Longrightarrow> P s (f s)) \<Longrightarrow> stays (rows_rel P) (update_steps p f)"
  by (auto simp: stays_def exec rows_rel_def P_refl intro!: list_all2_update)

lemma stays_same_rows: "(\<And>w. steps (db (snd (m w))) = steps (db w)) \<Longrightarrow> stays (rows_rel P) m"
  by (simp add: stays_def rows_same)

lemma stays_statements:
  "stays (rows_rel P) (update_runs p f)"
  "stays (rows_rel P) (update_approvals p'' f'')"
  "stays (rows_rel P) (set_ledger k st x h r e t)"
  "stays (rows_rel P) (insert_event v)"
  "stays (rows_rel P) (insert_ledger l)"
  "stays (rows_rel P) (insert_approval a)"
  "stays (rows_rel P) (insert_artifact b)"
  "stays (rows_rel P) (insert_cost c)"
  "stays (rows_rel P) (get_run i)"
  "stays (rows_rel P) (get_step j)"
  by (rule stays_same_rows, simp add: exec set_ledger_def insert_event_def
      insert_ledger_def insert_approval_def insert_artifact_def insert_cost_def split: option.split)+

lemma stays_logging: "stays (rows_rel P) (log_event v)" "stays (rows_rel P) (append_event_in_tx v)"
  unfolding log_event_def append_event_in_tx_def by (intro store_rules stays_statements)+

lemmas row_rules = store_rules stays_statements stays_logging

lemma stays_validate_lease: "stays (rows_rel P) (validate_lease i t)"
  unfolding validate_lease_def by (intro row_rules)

lemma stays_gateway_ops: "gateway_op c \<Longrightarrow> stays (rows_rel P) (call c)"
  by (cases c; simp only: call.simps forget_def gateway_op.simps append_event_def request_approval_def reserve_ledger_def
      update_ledger_def record_cost_def create_artifact_def Let_def;
    intro row_rules)

end

locale beat_relation = row_relation +
  assumes P_beat: "P s (s\<lparr>s_until := u, s_heartbeat := h, s_updated := t\<rparr>)"
begin

sublocale effect_relation "rows_rel P"
proof
  fix c and w :: world
  assume "gateway_op c"
  then show "rows_rel P w (perform c w)" by (rule perform_stays [OF stays_gateway_ops])
qed (rule refl, erule (1) trans, simp_all add: rows_same)

lemma stays_beat: "stays (rows_rel P) (heartbeat i tok secs)"
  unfolding heartbeat_def by (intro row_rules stays_validate_lease stays_update P_beat)

sublocale alone: context_relation "rows_rel P" "\<lambda>_ _. True" "\<lambda>_. False"
proof
  fix i tok secs and w :: world
  show "rows_rel P w (perform (Heartbeat i tok secs) w)"
    by (rule perform_stays) (simp add: stays_forget stays_beat)
next
  fix g c n args and w :: world
  show "rows_rel P w (snd (gateway_call g c n args w))" by (rule staysD [OF stays_gateway surjective_pairing])
qed simp

end

section \<open>Interpretations\<close>

definition same_work :: "step_row \<Rightarrow> step_row \<Rightarrow> bool" where
  "same_work s s' \<longleftrightarrow> s_id s' = s_id s \<and> s_run s' = s_run s \<and> s_status s' = s_status s \<and> s_attempt s' = s_attempt s \<and>
     s_retry s' = s_retry s"

interpretation left_alone: beat_relation same_work
  by unfold_locales (simp_all add: same_work_def)

definition only_step :: "string \<Rightarrow> step_row \<Rightarrow> step_row \<Rightarrow> bool" where
  "only_step i s s' \<longleftrightarrow> s_id s' = s_id s \<and> s_run s' = s_run s \<and> s_attempt s' = s_attempt s \<and> s_retry s' = s_retry s \<and>
     (s_id s \<noteq> i \<longrightarrow> s_status s' = s_status s)"

interpretation one_step: row_relation "only_step i" for i
  by unfold_locales (simp_all add: only_step_def)

definition policy_attempts :: "step_row \<Rightarrow> int" where
  "policy_attempts s = (case retry_policy_for_step s of Inl e \<Rightarrow> 0 | Inr p \<Rightarrow> max_attempts p)"

definition weight :: "step_row \<Rightarrow> nat" where
  "weight s = (if claimable s \<or> s_status s = Running then Suc (nat (policy_attempts s - s_attempt s)) else 0)"

definition lighter :: "step_row \<Rightarrow> step_row \<Rightarrow> bool" where
  "lighter s s' \<longleftrightarrow> s_id s' = s_id s \<and> s_run s' = s_run s \<and> s_retry s' = s_retry s \<and> weight s' \<le> weight s"

interpretation weighing: row_relation lighter
  by unfold_locales (auto simp: lighter_def)

lemma lighter_recovered: "s_status s = Running \<Longrightarrow> lighter s ((clear_lease s)\<lparr>s_status := RetryScheduled, s_updated := t\<rparr>)"
  by (simp add: lighter_def weight_def claimable_def policy_attempts_def retry_policy_for_step_def clear_lease_def)

lemma lighter_recover: "stays (rows_rel lighter) recover_expired_leases"
proof -
  have rows: "stays (rows_rel lighter) (recover_rows t rows)" for t rows
    by (induction rows)
      (simp_all only: recover_rows.simps Let_def,
        (intro weighing.row_rules weighing.stays_update lighter_recovered | assumption | simp)+)
  show ?thesis unfolding recover_expired_leases_def by (intro weighing.row_rules rows)
qed

text \<open>The attempts a run has left, at most.\<close>

definition attempts_left :: "string \<Rightarrow> db \<Rightarrow> nat" where
  "attempts_left run d = sum_list (map weight (filter (\<lambda>s. s_run s = run) (steps d)))"

lemma sum_weights_le:
  "list_all2 lighter xs ys \<Longrightarrow>
   sum_list (map weight (filter (\<lambda>s. s_run s = run) ys)) \<le> sum_list (map weight (filter (\<lambda>s. s_run s = run) xs))"
  by (induction rule: list_all2_induct) (auto simp: lighter_def)

lemma sum_weights_less:
  assumes "list_all2 lighter xs ys" and "(x, y) \<in> set (zip xs ys)" and "s_run x = run" and "weight y < weight x"
  shows "sum_list (map weight (filter (\<lambda>s. s_run s = run) ys)) < sum_list (map weight (filter (\<lambda>s. s_run s = run) xs))"
  using assms(1,2)
proof (induction rule: list_all2_induct)
  case (Cons a as b bs)
  have le: "sum_list (map weight (filter (\<lambda>s. s_run s = run) bs)) \<le> sum_list (map weight (filter (\<lambda>s. s_run s = run) as))"
    using Cons(2) by (rule sum_weights_le)
  show ?case
  proof (cases "(x, y) = (a, b)")
    case True
    then show ?thesis using Cons(1) le assms(3,4) by (auto simp: lighter_def)
  next
    case False
    then show ?thesis using Cons by (auto simp: lighter_def)
  qed
qed simp

lemma attempts_left_mono: "rows_rel lighter w w' \<Longrightarrow> attempts_left run (db w') \<le> attempts_left run (db w)"
  by (simp add: attempts_left_def rows_rel_def sum_weights_le)

end
