(* ===== verification/Drain.thy ===== *)
theory Drain
  imports Worker_Spec Row_Law
begin

text \<open>
  A worker that is left alone drains a run. Every execution of a claimed step lowers the attempts the run has left
  (\<open>attempts_left\<close>, a sum of weights over its steps), and recovery never raises them; so the loop ends, and when it ends
  the run has ended or nothing in it can be claimed.
\<close>

section \<open>The claim\<close>

lemma earliest_some: "xs \<noteq> [] \<Longrightarrow> \<exists>x. earliest k xs = Some x"
  by (cases xs) (auto split: option.split)

lemma claim_select_some:
  assumes "has_claimable_step run d" and "run \<noteq> []"
  shows "\<exists>row. claim_select (Some run) d = Some row \<and> row \<in> set (steps d) \<and> claimable row \<and> s_run row = run"
proof -
  obtain s where "s \<in> set (steps d)" "s_run s = run" "claimable s"
    using assms(1) by (auto simp: has_claimable_step_def steps_of_def)
  then have "filter (\<lambda>s. claimable s \<and> for_run (Some run) s) (steps d) \<noteq> []"
    by (auto simp: filter_empty_conv for_run_def)
  then obtain row where row: "claim_select (Some run) d = Some row"
    using earliest_some unfolding claim_select_def by blast
  from claim_select_props [OF row] assms(2) show ?thesis by (auto simp: row for_run_def)
qed

lemma claim_step_effect:
  assumes "well_run w" and row: "claim_select run (db w) = Some row"
  shows "\<exists>k w1. claim_step u run secs w = (Inr (Some k), w1) \<and> k_step k = s_id row \<and> k_run k = s_run row \<and>
    (\<exists>t l n. steps (db w1) = update_where (claim_hits row) (taken u l t n (s_attempt row + 1)) (steps (db w))) \<and>
    claims_of (s_run row) (db w1) = Suc (claims_of (s_run row) (db w)) \<and>
    (find_run (db w) (s_run row) \<noteq> None \<longrightarrow> find_run (db w1) (s_run row) \<noteq> None)"
proof -
  let ?w = "w\<lparr>ticks := Suc (ticks w)\<rparr>" and ?now = "clock w (ticks w)"
  have loop: "claim_step u run secs = claim_loop (Suc 63) u run secs" by (simp add: claim_step_def)
  have fresh: "step_ids ?w" "ids_fresh ?w" and ids: "step_ids w"
    using assms(1) by (simp_all add: well_run_def step_ids_def)
  note props = claim_select_props [OF row]
  have "find_step (db ?w) (s_id row) = Some row"
    using find_distinct_key [of s_id "steps (db w)" row] ids props(1) by (simp add: find_step_def step_ids_def)
  then have "claim_update u secs ?now row ?w = (Inr (Some (claim_of ?w secs ?now row)),
      logged (claim_event ?w u secs ?now row) (?w\<lparr>drawn := Suc (drawn ?w), db := claim_db ?w u secs ?now row\<rparr>))"
    using props(2) by (simp add: claim_update_exact [OF fresh])
  then have step: "claim_step u run secs w = (Inr (Some (claim_of ?w secs ?now row)),
      logged (claim_event ?w u secs ?now row) (?w\<lparr>drawn := Suc (drawn ?w), db := claim_db ?w u secs ?now row\<rparr>))"
    unfolding loop claim_loop.simps by (simp add: bindM_apply now_ts_apply select_db_apply row)
  show ?thesis
    by (intro exI conjI, rule step)
      (auto simp: claim_of_def claim_db_def claims_of_def events_of_def new_event_def claim_event_def event_def
        find_run_update_db filter_sort)
qed

section \<open>The end of an execution\<close>

text \<open>A row after an execution: it weighs nothing, or it is scheduled for one of the attempts it has left.\<close>

definition at_rest :: "step_row \<Rightarrow> bool" where
  "at_rest s \<longleftrightarrow> s_status s \<in> {Completed, WaitingHuman, Failed} \<or> (s_status s = RetryScheduled \<and> s_attempt s < policy_attempts s)"

lemma rows_find:
  assumes "rows_rel P w w'" and "\<And>x y. P x y \<Longrightarrow> s_id y = s_id x" and "find_step (db w) i = Some s"
  shows "\<exists>s'. find_step (db w') i = Some s' \<and> P s s'"
  using list_all2_find [OF assms(1) [unfolded rows_rel_def], of s_id i] assms(2,3)
  by (auto simp: find_step_def option_rel_Some1)

lemma ends_of_step:
  "stays (rows_rel (only_step (k_step k))) (step_failed k e)"
  "stays (rows_rel (only_step (k_step k))) (commit_context k c)"
proof -
  have reads: "stays (rows_rel (only_step (k_step k))) (validate_lease i tok)" for i tok
    by (rule one_step.stays_validate_lease)
  show "stays (rows_rel (only_step (k_step k))) (step_failed k e)"
    unfolding step_failed_def mark_retry_def mark_failed_def mark_waiting_human_def fail_step_def Let_def
    by (intro one_step.row_rules one_step.stays_update) (simp_all add: only_step_def clear_lease_def)
  show "stays (rows_rel (only_step (k_step k))) (commit_context k c)"
    unfolding commit_context_def commit_state_patch_def commit_write_def Let_def
    by (intro one_step.row_rules one_step.stays_update reads) (simp_all add: only_step_def)
qed

lemma failed_step_rests:
  assumes "ids_fresh w" and "find_step (db w) (k_step k) = Some s" and "retry_policy_for_step s = Inr pol"
    and "step_failed k e w = (x, w')"
  shows "rows_rel (only_step (k_step k)) w w' \<and> (\<exists>s'. find_step (db w') (k_step k) = Some s' \<and>
    (case x of Inr b \<Rightarrow> at_rest s' | Inl e' \<Rightarrow> isinstance e' Exception \<longrightarrow> s_status s' = Failed))"
proof -
  have rel: "rows_rel (only_step (k_step k)) w w'" using ends_of_step(1) assms(4) by (rule staysD)
  obtain s' where s': "find_step (db w') (k_step k) = Some s'" "only_step (k_step k) s s'"
    using rows_find [OF rel _ assms(2)] by (auto simp: only_step_def)
  then have same: "s_attempt s' = s_attempt s" "policy_attempts s' = max_attempts pol"
    using assms(3) by (simp_all add: only_step_def policy_attempts_def retry_policy_for_step_def)
  have "x = (if isinstance e ApprovalRequired \<or> retryable e then Inr False else Inl e)" and "s_status s' = outcome e pol s"
    using step_failed_outcome [OF assms(1-3), of e] assms(4) s'(1) by (auto simp: step_state_def)
  then show ?thesis using rel s'(1) same
    by (auto simp: outcome_def at_rest_def allows_retry_after_attempt_def)
qed

lemma attempt_rests:
  assumes "fresh_world v" and "later v w" and "find_step (db w) (k_step k) = Some s" and "retry_policy_for_step s = Inr pol"
    and "foreign_calls (\<lambda>_. False) p" and "catchM (attempt_step g k p c) (step_failed k) w = (x, w')"
  shows "rows_rel (only_step (k_step k)) w w' \<and> (\<exists>s'. find_step (db w') (k_step k) = Some s' \<and>
    (case x of Inr b \<Rightarrow> at_rest s' | Inl e' \<Rightarrow> isinstance e' Exception \<longrightarrow> s_status s' = Failed))"
proof -
  obtain y c' w3 where p: "run_program g p c w = (y, c', w3)" by (cases "run_program g p c w") auto
  have work: "rows_rel same_work w w3"
    using left_alone.alone.program_stays [OF TrueI assms(5), of w g c] by (simp add: p)
  then have rel: "rows_rel (only_step (k_step k)) w w3"
    unfolding rows_rel_def by (rule list_all2_mono) (simp add: same_work_def only_step_def)
  obtain s3 where s3: "find_step (db w3) (k_step k) = Some s3" "same_work s s3"
    using rows_find [OF work _ assms(3)] by (auto simp: same_work_def)
  then have pol: "retry_policy_for_step s3 = Inr pol"
    using assms(4) by (simp add: same_work_def retry_policy_for_step_def)
  have "later w w3" using executed.program_stays [OF TrueI any_foreign, of w g p c] by (simp add: p)
  with assms(2) have l3: "later v w3" by (rule recorded.G_trans)
  have fresh3: "ids_fresh w3" using well_run_later [OF assms(1) l3] by (simp add: well_run_def)
  have failed: ?thesis if "attempt_step g k p c w = (Inl e, w4)" and "db w4 = db w3" and "ids_fresh w4" for e w4
  proof -
    have "step_failed k e w4 = (x, w')" using assms(6) that(1) by (simp add: catchM_apply)
    then have "rows_rel (only_step (k_step k)) w4 w' \<and> (\<exists>s'. find_step (db w') (k_step k) = Some s' \<and>
        (case x of Inr b \<Rightarrow> at_rest s' | Inl e' \<Rightarrow> isinstance e' Exception \<longrightarrow> s_status s' = Failed))"
      using failed_step_rests [OF that(3) _ pol] s3(1) that(2) by simp
    moreover have "rows_rel (only_step (k_step k)) w w4" using rel that(2) by (simp add: rows_rel_def)
    ultimately show ?thesis using one_step.trans by blast
  qed
  show ?thesis
  proof (cases y)
    case (Inl e)
    then show ?thesis using failed [of e w3] fresh3 by (simp add: attempt_step_def p)
  next
    case (Inr a)
    obtain r4 w4 where commit: "commit_context k c' w3 = (r4, w4)" by fastforce
    have attempt: "attempt_step g k p c w = (r4, w4)" by (simp add: attempt_step_def p Inr commit)
    show ?thesis
    proof (cases r4)
      case (Inl e)
      have "db w4 = db w3" using commit_context_refused [of k c' w3] commit Inl
        by (metis commit_context_ok fst_conv l3 assms(1) may_commit_def snd_conv sum.distinct(1) prod.inject)
      moreover have "ids_fresh w4"
        using well_run_later [OF assms(1) recorded.G_trans [OF l3]] staysD [OF executed.stays_commit commit] by (simp add: well_run_def)
      ultimately show ?thesis using failed [of e w4] attempt Inl by simp
    next
      case (Inr b)
      then have x: "x = Inr b" "w' = w4" using assms(6) attempt by (simp_all add: catchM_apply)
      have may: "may_commit k (cx_version c') w3"
        using commit_context_refused [of k c' w3] commit Inr by auto
      then obtain r where "find_run (db w3) (k_run k) = Some r" by (auto simp: may_commit_def)
      from commit_context_ok [OF assms(1) l3 may this] commit
      obtain s' where s': "find_step (db w4) (k_step k) = Some s'" "s_status s' = Completed" by auto
      have "rows_rel (only_step (k_step k)) w3 w4" using ends_of_step(2) commit by (rule staysD)
      with rel have "rows_rel (only_step (k_step k)) w w'" unfolding x by (rule one_step.trans)
      then show ?thesis using s' x by (simp add: at_rest_def)
    qed
  qed
qed

section \<open>One execution\<close>

definition worked :: "string \<Rightarrow> step_row \<Rightarrow> step_row \<Rightarrow> bool" where
  "worked i s s' \<longleftrightarrow> s_id s' = s_id s \<and> s_run s' = s_run s \<and> s_retry s' = s_retry s \<and>
     (if s_id s = i then s_attempt s' = s_attempt s + 1 else s_attempt s' = s_attempt s \<and> s_status s' = s_status s)"

lemma claim_worked:
  assumes "distinct (map s_id xs)" and "row \<in> set xs" and "claimable row"
  shows "list_all2 (worked (s_id row)) xs (update_where (claim_hits row) (taken u l t n (s_attempt row + 1)) xs)"
proof (rule list_all2_update)
  fix s assume "s \<in> set xs"
  then have "s_id s = s_id row \<longrightarrow> s = row" using assms(1,2) by (auto simp: distinct_map dest: inj_onD)
  then show "worked (s_id row) s (if claim_hits row s then taken u l t n (s_attempt row + 1) s else s)"
    using assms(3) by (auto simp: worked_def claim_hits_def taken_def)
qed

lemma worked_only: "worked i s t \<Longrightarrow> only_step i t u \<Longrightarrow> worked i s u"
  by (auto simp: worked_def only_step_def)

lemma zip_find:
  assumes "list_all2 P xs ys" and "\<And>x y. P x y \<Longrightarrow> s_id y = s_id x" and "x \<in> set xs" and "distinct (map s_id ys)"
    and "List.find (\<lambda>s. s_id s = s_id x) ys = Some y"
  shows "(x, y) \<in> set (zip xs ys)"
proof -
  obtain y' where y': "(x, y') \<in> set (zip xs ys)" "P x y'"
    using assms(1,3) by (auto simp: list_all2_iff set_zip in_set_conv_nth)
  then have "y' \<in> set ys" "s_id y' = s_id x" using assms(2) by (auto dest: set_zip_rightD)
  then have "y' = y" using find_distinct_key [of s_id ys y'] assms(4,5) by simp
  with y'(1) show ?thesis by simp
qed

lemma rest_is_lighter:
  assumes "list_all2 (worked (s_id row)) xs ys" and "distinct (map s_id xs)" and "distinct (map s_id ys)"
    and "row \<in> set xs" and "claimable row" and "List.find (\<lambda>s. s_id s = s_id row) ys = Some s'"
    and "at_rest s' \<or> s_status s' = Failed" and "s_run row = run"
  shows "sum_list (map weight (filter (\<lambda>s. s_run s = run) ys)) < sum_list (map weight (filter (\<lambda>s. s_run s = run) xs))"
proof (rule sum_weights_less [where x = row and y = s'])
  have row': "(row, s') \<in> set (zip xs ys)"
    by (rule zip_find [OF assms(1) _ assms(4,3,6)]) (simp add: worked_def)
  then show "(row, s') \<in> set (zip xs ys)" .
  have "worked (s_id row) row s'" using assms(1) row' by (auto simp: list_all2_iff)
  then have s': "s_attempt s' = s_attempt row + 1" "policy_attempts s' = policy_attempts row"
    by (simp_all add: worked_def policy_attempts_def retry_policy_for_step_def)
  then show "weight s' < weight row"
    using assms(5,7) by (auto simp: weight_def at_rest_def claimable_def)
  have "lighter x y" if xy: "(x, y) \<in> set (zip xs ys)" for x y
  proof (cases "s_id x = s_id row")
    case True
    then have "x = row" using xy assms(2,4) by (auto simp: distinct_map dest: inj_onD set_zip_leftD)
    moreover have "y = s'"
    proof -
      have "worked (s_id row) x y" "worked (s_id row) row s'" using assms(1) xy row' by (auto simp: list_all2_iff)
      then have "s_id y = s_id s'" using True by (simp add: worked_def)
      with set_zip_rightD [OF xy] set_zip_rightD [OF row'] show ?thesis
        using assms(3) by (auto simp: distinct_map dest: inj_onD)
    qed
    ultimately show ?thesis
      using \<open>weight s' < weight row\<close> \<open>worked (s_id row) row s'\<close> by (simp add: lighter_def worked_def)
  next
    case False
    then show ?thesis using assms(1) xy
      by (auto simp: list_all2_iff worked_def lighter_def weight_def claimable_def policy_attempts_def retry_policy_for_step_def)
  qed
  then show "list_all2 lighter xs ys" using assms(1) by (auto simp: list_all2_iff)
qed (rule assms(8))

definition policies_parse :: "string \<Rightarrow> db \<Rightarrow> bool" where
  "policies_parse run d \<longleftrightarrow> (\<forall>s\<in>set (steps d). s_run s = run \<longrightarrow> (\<exists>p. retry_policy_for_step s = Inr p))"

lemma policies_kept:
  assumes "list_all2 P xs (steps d')" and "\<And>x y. P x y \<Longrightarrow> s_run y = s_run x \<and> s_retry y = s_retry x"
    and "policies_parse run d" and "xs = steps d"
  shows "policies_parse run d'"
  unfolding policies_parse_def
proof (intro ballI impI)
  fix y assume "y \<in> set (steps d')" "s_run y = run"
  then obtain i where i: "i < length (steps d')" "y = steps d' ! i" by (auto simp: in_set_conv_nth)
  then obtain x where "x \<in> set xs" "P x y"
    using that list_all2_nthD2 [OF assms(1), of i] list_all2_lengthD [OF assms(1)] nth_mem [of i xs] by metis
  then show "\<exists>p. retry_policy_for_step y = Inr p"
    using assms(2) [of x y] assms(3,4) \<open>s_run y = run\<close> by (auto simp: policies_parse_def retry_policy_for_step_def)
qed

definition quiet :: "agent_func \<Rightarrow> bool" where
  "quiet agent \<longleftrightarrow> (\<forall>state. foreign_calls (\<lambda>_. False) (agent state))"

text \<open>What a worker may rely on, and what a round leaves of it.\<close>

definition ready :: "world \<Rightarrow> string \<Rightarrow> world \<Rightarrow> bool" where
  "ready v run w \<longleftrightarrow> later v w \<and> find_run (db w) run \<noteq> None \<and> policies_parse run (db w)"

lemma claims_later: "later w w' \<Longrightarrow> claims_of run (db w) \<le> claims_of run (db w')"
  using append_only.always [of w w']
  by (auto simp: claims_of_def events_of_def filter_sort prefix_def)

lemma emit_logged: "ids_fresh w \<Longrightarrow> emit e w = (Inr (), logged e w)"
  by (simp add: emit_def append_event_def exec append_event_in_tx_ok)

lemma run_once_progress:
  assumes fresh: "fresh_world v" and "ready v run w" and "run \<noteq> []" and "quiet agent"
    and "has_claimable_step run (db w)"
    and once: "run_once g agent (Some run) worker role mode source secs w = (x, w')"
  shows "ready v run w' \<and> (case x of
      Inr b \<Rightarrow> attempts_left run (db w') < attempts_left run (db w) \<and> claims_of run (db w) < claims_of run (db w')
    | Inl e \<Rightarrow> isinstance e Exception \<longrightarrow> (\<exists>s\<in>set (steps (db w')). s_run s = run \<and> s_status s = Failed))"
proof -
  have lw: "later v w" and parse: "policies_parse run (db w)" and found: "find_run (db w) run \<noteq> None"
    using assms(2) by (simp_all add: ready_def)
  have well: "well_run w" using well_run_later [OF fresh lw] .
  obtain row where row: "claim_select (Some run) (db w) = Some row" "row \<in> set (steps (db w))" "claimable row" "s_run row = run"
    using claim_select_some [OF assms(5,3)] by blast
  obtain k w1 u l t n where claim: "claim_step worker (Some run) secs w = (Inr (Some k), w1)" "k_step k = s_id row" "k_run k = run"
    and s1: "steps (db w1) = update_where (claim_hits row) (taken u l t n (s_attempt row + 1)) (steps (db w))"
    and c1: "claims_of run (db w1) = Suc (claims_of run (db w))" and f1: "find_run (db w1) run \<noteq> None"
    using claim_step_effect [OF well row(1), of worker secs] row(4) found by blast
  have l1: "later v w1"
    using recorded.G_trans [OF lw] executed.stays_runtime_ops(2) claim(1) by (blast dest: staysD)
  have well1: "well_run w1" using well_run_later [OF fresh l1] .
  have worked1: "list_all2 (worked (s_id row)) (steps (db w)) (steps (db w1))"
    unfolding s1 using well row(2,3) by (intro claim_worked) (simp_all add: well_run_def step_ids_def)
  obtain r where r: "find_run (db w1) run = Some r" using f1 by blast
  let ?c = "new_context k (r_session r) (r_version r) role mode source"
  have load: "load_state (k_run k) w1 = (Inr (r_state r, r_version r, r_session r), w1)"
    using r claim(3) by (simp add: load_state_def exec)
  obtain w2 where start: "agent_started ?c w1 = (Inr (), w2)"
    using well1 by (auto simp: agent_started_def emit_logged well_run_def)
  have l2: "later v w2"
    using recorded.G_trans [OF l1] staysD [OF recorded.stays_emit start [unfolded agent_started_def]] by blast
  have s2: "steps (db w2) = steps (db w1)"
    using start well1 by (auto simp: agent_started_def emit_logged well_run_def)
  have attempt: "catchM (attempt_step g k (agent (r_state r)) ?c) (step_failed k) w2 = (x, w')"
    using once by (simp add: run_once_def execute_claim_def Let_def bindM_apply seqM_apply claim(1) load start)
  have old: "find_step (db w) (s_id row) = Some row"
    using find_distinct_key [of s_id "steps (db w)" row] well row(2) by (simp add: find_step_def well_run_def step_ids_def)
  have "rows_rel (worked (s_id row)) w w2" using worked1 by (simp add: rows_rel_def s2)
  from rows_find [OF this _ old] obtain s where s: "find_step (db w2) (k_step k) = Some s" "worked (s_id row) row s"
    unfolding claim(2) by (auto simp only: worked_def)
  obtain pol where pol: "retry_policy_for_step s = Inr pol"
    using parse row(2,4) s(2) by (auto simp: policies_parse_def worked_def retry_policy_for_step_def)
  obtain s' where rel: "rows_rel (only_step (s_id row)) w2 w'" and s': "find_step (db w') (s_id row) = Some s'"
    and rest: "case x of Inr b \<Rightarrow> at_rest s' | Inl e' \<Rightarrow> isinstance e' Exception \<longrightarrow> s_status s' = Failed"
    using attempt_rests [OF fresh l2 s(1) pol _ attempt] assms(4) claim(2) by (auto simp: quiet_def)
  have worked2: "list_all2 (worked (s_id row)) (steps (db w)) (steps (db w'))"
    using worked1 rel unfolding rows_rel_def s2 by (rule list_all2_trans [rotated]) (rule worked_only)
  have "stays later (catchM (attempt_step g k (agent (r_state r)) ?c) (step_failed k))"
    by (intro executed.runtime_rules executed.stays_attempt_step executed.stays_step_failed any_foreign TrueI)
  then have l2': "later w2 w'" using attempt by (rule staysD)
  have l1': "later w1 w'"
    using recorded.G_trans [OF staysD [OF recorded.stays_emit start [unfolded agent_started_def]] l2'] .
  have l': "later v w'" using l1 l1' by (rule recorded.G_trans)
  have "policies_parse run (db w')" by (rule policies_kept [OF worked2 _ parse]) (simp_all add: worked_def)
  moreover have "find_run (db w') run \<noteq> None" using find_run_later [OF l1' r] by auto
  ultimately have ready': "ready v run w'" using l' by (simp add: ready_def)
  have distinct: "distinct (map s_id (steps (db w)))" "distinct (map s_id (steps (db w')))"
    using well well_run_later [OF fresh l'] by (simp_all add: well_run_def step_ids_def)
  have found': "List.find (\<lambda>s. s_id s = s_id row) (steps (db w')) = Some s'" using s' by (simp add: find_step_def)
  show ?thesis
  proof (cases x)
    case (Inl e)
    have "(row, s') \<in> set (zip (steps (db w)) (steps (db w')))"
      by (rule zip_find [OF worked2 _ row(2) distinct(2) found']) (simp add: worked_def)
    then have "s_run s' = run" using worked2 row(4) by (auto simp: list_all2_iff worked_def)
    then show ?thesis using ready' rest Inl find_step_mem [OF s'] by auto
  next
    case (Inr b)
    then have "attempts_left run (db w') < attempts_left run (db w)"
      unfolding attempts_left_def using rest row(4)
      by (intro rest_is_lighter [OF worked2 distinct row(2,3) found']) simp_all
    moreover have "claims_of run (db w) < claims_of run (db w')" using claims_later [OF l1', of run] c1 by simp
    ultimately show ?thesis using ready' Inr by simp
  qed
qed

section \<open>The loop\<close>

definition drained :: "string \<Rightarrow> world \<Rightarrow> string option \<Rightarrow> bool" where
  "drained run w stop \<longleftrightarrow> (case stop of
     None \<Rightarrow> True
   | Some reason \<Rightarrow> (\<exists>r. find_run (db w) run = Some r \<and> terminal (r_status r)) \<or>
       reason = ''idle'' \<and> \<not> has_claimable_step run (db w))"

definition failed_step :: "string \<Rightarrow> world \<Rightarrow> exn \<Rightarrow> bool" where
  "failed_step run w e \<longleftrightarrow> (isinstance e Exception \<longrightarrow> (\<exists>s\<in>set (steps (db w)). s_run s = run \<and> s_status s = Failed))"

lemma recover_returns:
  assumes "fresh_world v" and "later v w"
  shows "\<exists>n. fst (recover_expired_leases w) = Inr n"
proof -
  let ?w = "w\<lparr>ticks := Suc (ticks w)\<rparr>" and ?rows = "filter (lease_expired (clock w (ticks w))) (steps (db w))"
  have "step_ids w" "ids_fresh w" using well_run_later [OF assms] by (simp_all add: well_run_def)
  then have "ids_fresh ?w" "step_ids ?w" "distinct (map s_id ?rows)" by (simp_all add: step_ids_def distinct_map_filter)
  moreover have "\<forall>row\<in>set ?rows. row \<in> set (steps (db ?w)) \<and> s_status row = Running" by (auto simp: lease_expired_def)
  ultimately obtain w' where "recover_rows (clock w (ticks w)) ?rows ?w = (Inr (length ?rows), w')"
    using recover_rows_exact by blast
  then show ?thesis by (simp add: recover_expired_leases_def exec)
qed

lemma recover_round:
  assumes "fresh_world v" and "ready v run w" and "(if wk_recover wk then scheduler_recover else retM 0) w = (x, w')"
  shows "(\<exists>n. x = Inr n) \<and> ready v run w' \<and> attempts_left run (db w') \<le> attempts_left run (db w) \<and>
    claims_of run (db w) \<le> claims_of run (db w')"
proof (cases "wk_recover wk")
  case True
  then have x: "recover_expired_leases w = (x, w')" using assms(3) by (simp add: scheduler_recover_def)
  have l: "later v w" and found: "find_run (db w) run \<noteq> None" and parse: "policies_parse run (db w)"
    using assms(2) by (simp_all add: ready_def)
  have l': "later w w'" using executed.stays_runtime_ops(4) x by (rule staysD)
  have rel: "rows_rel lighter w w'" using lighter_recover x by (rule staysD)
  have "policies_parse run (db w')"
    by (rule policies_kept [OF rel [unfolded rows_rel_def] _ parse refl]) (simp add: lighter_def)
  moreover obtain r where "find_run (db w) run = Some r" using found by blast
  with find_run_later [OF l'] have "find_run (db w') run \<noteq> None" by blast
  ultimately have "ready v run w'" using recorded.G_trans [OF l l'] by (simp add: ready_def)
  moreover have "\<exists>n. x = Inr n" using recover_returns [OF assms(1) l] x by auto
  ultimately show ?thesis using attempts_left_mono [OF rel] claims_later [OF l'] by simp
qed (use assms in auto)

lemma worker_iteration_progress:
  assumes "fresh_world v" and "ready v run w" and "run \<noteq> []" and "quiet agent"
    and "ta_attempts t \<le> claims_of run (db w)"
    and it: "worker_iteration g agent wk (Some run) t w = (x, w')"
  shows "case x of
      Inl e \<Rightarrow> failed_step run w' e
    | Inr (stop, t') \<Rightarrow> ready v run w' \<and> drained run w' stop \<and> ta_attempts t' \<le> claims_of run (db w') \<and>
        attempts_left run (db w') + (if stop = None then 1 else 0) \<le> attempts_left run (db w)"
proof -
  obtain x0 w0 where recover: "(if wk_recover wk then scheduler_recover else retM 0) w = (x0, w0)" by fastforce
  note round = recover_round [OF assms(1,2) recover]
  then obtain n where n: "x0 = Inr n" by blast
  let ?t = "t\<lparr>ta_recovered := ta_recovered t + n\<rparr>"
  obtain r where r: "find_run (db w0) run = Some r" using round by (auto simp: ready_def)
  let ?stop = "if terminal (r_status r) then Some ''terminal_status''
    else if has_claimable_step run (db w0) then None else Some ''idle''"
  have stop: "stop_before (Some run) w0 = (Inr ?stop, w0)"
    using r assms(3) by (simp add: stop_before_def named_run_def worker_run_status_def ended_def exec)
  show ?thesis
  proof (cases ?stop)
    case (Some reason)
    have "worker_iteration g agent wk (Some run) t w = (Inr (Some reason, ?t), w0)"
      unfolding worker_iteration_def bindM_apply recover n prod.case sum.case Let_def stop Some option.case by simp
    then have "x = Inr (Some reason, ?t)" "w' = w0" using it by simp_all
    then show ?thesis using round r Some assms(5) by (auto simp: drained_def split: if_splits)
  next
    case None
    then have open_run: "\<not> terminal (r_status r)" "has_claimable_step run (db w0)" by (simp_all split: if_splits)
    obtain y w1 where once: "run_once g agent (Some run) (wk_id wk) (wk_role wk) ''normal'' None (wk_lease wk) w0 = (y, w1)"
      by fastforce
    note progress = run_once_progress [OF assms(1) _ assms(3,4) open_run(2) once]
    show ?thesis
    proof (cases y)
      case (Inl e)
      have "worker_iteration g agent wk (Some run) t w = (Inl e, w1)"
        unfolding worker_iteration_def bindM_apply recover n prod.case sum.case Let_def stop None option.case once Inl by simp
      then have "x = Inl e" "w' = w1" using it by simp_all
      then show ?thesis using progress round Inl by (simp add: failed_step_def)
    next
      case (Inr ok)
      have p: "ready v run w1" "attempts_left run (db w1) < attempts_left run (db w0)" "claims_of run (db w0) < claims_of run (db w1)"
        using progress round Inr by simp_all
      then have recent: "has_recent_attempt run (ta_attempts ?t) (db w1)"
        using assms(5) round by (simp add: has_recent_attempt_def)
      have "worker_iteration g agent wk (Some run) t w =
          (Inr (None, ?t\<lparr>ta_attempts := ta_attempts ?t + 1, ta_succeeded := ta_succeeded ?t + (if ok then 1 else 0)\<rparr>), w1)"
        unfolding worker_iteration_def bindM_apply recover n prod.case sum.case Let_def stop None option.case once Inr
          select_db_apply using recent by simp
      then have "x = Inr (None, ?t\<lparr>ta_attempts := ta_attempts ?t + 1, ta_succeeded := ta_succeeded ?t + (if ok then 1 else 0)\<rparr>)"
        "w' = w1" using it by simp_all
      then show ?thesis using p round assms(5) by (simp add: drained_def)
    qed
  qed
qed

lemma worker_loop_progress:
  assumes "fresh_world v" and "run \<noteq> []" and "quiet agent"
    and "ready v run w" and "ta_attempts t \<le> claims_of run (db w)"
    and "worker_loop n g agent wk (Some run) i t w = (x, w')"
  shows "case x of
      Inl e \<Rightarrow> failed_step run w' e
    | Inr (stop, j, t') \<Rightarrow> ready v run w' \<and> drained run w' stop \<and>
        attempts_left run (db w') + (ta_attempts t' - ta_attempts t) \<le> attempts_left run (db w)"
  using assms(4-6)
proof (induction n arbitrary: i t w)
  case (Suc n)
  obtain y w1 where one: "worker_iteration g agent wk (Some run) t w = (y, w1)" by fastforce
  note progress = worker_iteration_progress [OF assms(1) Suc.prems(1) assms(2,3) Suc.prems(2) one]
  show ?case
  proof (cases y)
    case (Inl e)
    then show ?thesis using progress Suc.prems(3) by (auto simp: bindM_apply one)
  next
    case (Inr p)
    obtain stop t1 where p: "p = (stop, t1)" by fastforce
    have counts: "ta_attempts t1 = ta_attempts t + (if stop = None then 1 else 0)"
      using worker_iteration_counts one Inr p by blast
    show ?thesis
    proof (cases stop)
      case (Some reason)
      then show ?thesis using progress Suc.prems(3) Inr p counts by (auto simp: bindM_apply one)
    next
      case None
      then have rest: "worker_loop n g agent wk (Some run) (i + 1) t1 w1 = (x, w')"
        using Suc.prems(3) Inr p by (simp add: bindM_apply one)
      have pre: "ready v run w1" "ta_attempts t1 \<le> claims_of run (db w1)"
        and less: "attempts_left run (db w1) + 1 \<le> attempts_left run (db w)"
        using progress Inr p None by simp_all
      show ?thesis using Suc.IH [OF pre rest] less counts None by (auto split: sum.splits)
    qed
  qed
qed (auto simp: drained_def)

text \<open>
  C4: A worker drains a run. Let its agent be left alone (no calls of others in between), whatever it does with its context,
  and let the retry policies of the run be readable. Given more iterations than the run has attempts left, the worker comes to an end
  by itself: it makes at most that many attempts, and then the run has ended or none of its steps can be claimed. The one
  other way out is an exception: then a step of the run has failed, or it is no \<open>Exception\<close> at all (a cancellation).
\<close>
theorem worker_drains_run:
  assumes "fresh_world v" and "later v w" and "find_run (db w) run \<noteq> None" and "run \<noteq> []"
    and "policies_parse run (db w)" and "quiet agent" and "int (attempts_left run (db w)) < max_iterations"
  shows "case run_until_idle g agent wk (Some run) max_iterations w of
      (Inl e, w') \<Rightarrow> failed_step run w' e
    | (Inr s, w') \<Rightarrow> ws_attempts s \<le> attempts_left run (db w) \<and>
        (ended (ws_final s) \<or> ws_stopped s = ''idle'' \<and> \<not> has_claimable_step run (db w'))"
proof -
  have ready: "ready v run w" using assms(2,3,5) by (simp add: ready_def)
  obtain x w1 where loop: "worker_loop (nat max_iterations) g agent wk (Some run) 0 no_tally w = (x, w1)" by fastforce
  have none: "ta_attempts no_tally = 0" by (simp add: no_tally_def)
  note progress = worker_loop_progress [OF assms(1,4,6) ready _ loop, unfolded none]
  show ?thesis
  proof (cases x)
    case (Inl e)
    then show ?thesis using progress by (simp add: run_until_idle_def bindM_apply loop)
  next
    case (Inr p)
    obtain stop j t where p: "p = (stop, j, t)" by (cases p) auto
    have after: "ready v run w1" "drained run w1 stop" "ta_attempts t \<le> attempts_left run (db w)"
      using progress Inr p by simp_all
    have "stop \<noteq> None"
      using worker_loop_counts [OF loop [unfolded Inr p]] after(3) assms(7) by (auto simp: none)
    then obtain reason where reason: "stop = Some reason" by blast
    obtain r where r: "find_run (db w1) run = Some r" using after(1) by (auto simp: ready_def)
    have "run_until_idle g agent wk (Some run) max_iterations w =
      (Inr \<lparr>ws_worker = wk_id wk, ws_run = Some run, ws_iterations = j, ws_attempts = ta_attempts t,
         ws_succeeded = ta_succeeded t, ws_recovered = ta_recovered t, ws_final = Some (r_status r),
         ws_stopped = stopped_because reason (Some (r_status r))\<rparr>, w1)"
      using assms(4) r by (simp add: run_until_idle_def loop Inr p reason named_run_def worker_run_status_def exec)
    then show ?thesis using after(2,3) r by (auto simp: drained_def reason stopped_because_def ended_def)
  qed
qed

end
