(* ===== verification/Runtime_Examples.thy ===== *)
theory Runtime_Examples
  imports Runtime_Spec Gateway_Examples Store_Examples
begin

text \<open>
  Concrete executions of a step: an agent that proposes a patch and commits it, exceptions of each kind, and a worker
  whose lease expires while its agent runs and whose step is taken over by another worker.
\<close>

definition demo_agent :: agent_func where
  "demo_agent state = Perform (Write_State_Patch ''a'' (JInt 1)) (\<lambda>_. Finish (Inr JNull))"

definition demo_k :: step_claim where
  "demo_k = \<lparr>k_run = ''run_0'', k_session = ''sess_1'', k_step = ''step_2'', k_attempt = 1, k_lease = ''lease_5'',
     k_version = 0, k_until = 33\<rparr>"

definition worker_claims :: world where
  "worker_claims = snd (claim_step ''w1'' None 30 demo_created)"

definition demo_ctx :: agent_context where
  "demo_ctx = new_context demo_k ''sess_1'' 0 ''Agent'' ''normal'' None"

definition agent_runs :: world where
  "agent_runs = snd (agent_started demo_ctx worker_claims)"

definition patch_proposed :: world where
  "patch_proposed = snd (write_state_patch demo_ctx ''a'' (JInt 1) agent_runs)"

lemma demo_worker_claims: "fst (claim_step ''w1'' None 30 demo_created) = Inr (Some demo_k)"
  by code_simp

lemma demo_agent_runs:
  "(fst (agent_started demo_ctx worker_claims), map (\<lambda>r. (r_id r, r_session r, r_version r, r_state r)) (runs (db worker_claims))) =
   (Inr (), [(''run_0'', ''sess_1'', 0, JObj [])])"
  by code_simp

lemma demo_running: "map (\<lambda>s. (s_id s, s_attempt s, s_retry s)) (steps (db agent_runs)) =
   [(''step_2'', 1, Some (JObj [(''max_attempts'', JInt 3)]))]"
  by code_simp

lemma demo_patched: "(fst (write_state_patch demo_ctx ''a'' (JInt 1) agent_runs), view patch_proposed,
    map s_until (steps (db patch_proposed)), clock patch_proposed (Suc (ticks patch_proposed))) =
   (Inr JNull, ([(''step_2'', ''run_0'', Running, Some ''lease_5'')], [(''run_0'', Running, 0, JObj [])], [1],
      [''run_created'', ''step_created'', ''step_claimed'', ''agent_started'', ''state_patch_proposed'']), [Some 33], 8)"
  by code_simp

lemma demo_rows:
  obtains r where "find_run (db worker_claims) ''run_0'' = Some r" and "r_session r = ''sess_1''" and "r_version r = 0"
    and "r_state r = JObj []"
  using demo_agent_runs by (cases "runs (db worker_claims)") (auto simp: find_run_def)

lemma demo_may_commit: "may_commit demo_k 0 patch_proposed"
  using demo_patched
  by (cases "steps (db patch_proposed)"; cases "runs (db patch_proposed)")
    (auto simp: may_commit_def demo_k_def find_step_def find_run_def lease_holds_def view_unfolded)

lemma demo_claimed_now: "claim_step ''w1'' None 30 demo_created = (Inr (Some demo_k), worker_claims)"
  using demo_worker_claims by (simp add: worker_claims_def prod_eq_iff)

lemma demo_started: "agent_started demo_ctx worker_claims = (Inr (), agent_runs)"
  using demo_agent_runs by (simp add: agent_runs_def prod_eq_iff)

lemma demo_names: "k_run demo_k = ''run_0''" "k_step demo_k = ''step_2''" "k_lease demo_k = ''lease_5''"
  by (simp_all add: demo_k_def)

theorem run_once_commits_or_nothing_witness:
  "\<exists>w'. run_once demo_gateway demo_agent None ''w1'' ''Agent'' ''normal'' None 30 demo_created = (Inr True, w') \<and>
     run_data (db w') ''run_0'' = Some (JObj [(''a'', JInt 1)], 1)"
proof (rule demo_rows)
  fix r
  assume r: "find_run (db worker_claims) ''run_0'' = Some r" "r_session r = ''sess_1''" "r_version r = 0" "r_state r = JObj []"
  let ?c = "demo_ctx\<lparr>cx_patch := [(''a'', JInt 1)]\<rparr>"
  have ran: "run_program demo_gateway (demo_agent (JObj [])) demo_ctx agent_runs = (Inr JNull, ?c, patch_proposed)"
    by (simp add: demo_agent_def patch_proposed_def demo_ctx_def new_context_def split: prod.split)
  have once: "run_once demo_gateway demo_agent None ''w1'' ''Agent'' ''normal'' None 30 demo_created =
    (fst (run_once demo_gateway demo_agent None ''w1'' ''Agent'' ''normal'' None 30 demo_created),
     snd (run_once demo_gateway demo_agent None ''w1'' ''Agent'' ''normal'' None 30 demo_created))" by simp
  have "new_context demo_k (r_session r) (r_version r) ''Agent'' ''normal'' None = demo_ctx" using r by (simp add: demo_ctx_def)
  then show ?thesis
    using run_once_commits_or_nothing [OF demo_fresh demo_later_created demo_claimed_now _ _ _ once, where r = r and ?w2.0 = agent_runs
        and x = "Inr JNull" and c = ?c and ?w3.0 = patch_proposed] r demo_started ran demo_may_commit
    by (simp add: demo_names merge_patch.simps) (metis prod.collapse)
qed

lemma demo_policy: "s_retry s = Some (JObj [(''max_attempts'', JInt 3)]) \<Longrightarrow> retry_policy_for_step s = Inr \<lparr>max_attempts = 3\<rparr>"
  by (simp add: retry_policy_for_step_def retry_from_dict_def get_or_def get_def)

theorem exception_decides_outcome_witness:
  "\<exists>w'. step_failed demo_k (Exn TimeoutError ''slow'') demo_claimed = (Inr False, w') \<and>
     step_state (db w') ''step_2'' = Some (RetryScheduled, None)"
proof (rule demo_claimed_step)
  fix s
  assume s: "find_step (db demo_claimed) ''step_2'' = Some s" "s_attempt s = 1"
    "s_retry s = Some (JObj [(''max_attempts'', JInt 3)])"
  have e: "retryable (Exn TimeoutError ''slow'')" "\<not> isinstance (Exn TimeoutError ''slow'') ApprovalRequired"
    by (simp_all add: retryable_def isinstance_def classify_exception_def)
  show ?thesis
    using exception_decides_outcome [OF demo_fresh demo_later(1), of demo_k s "\<lparr>max_attempts = 3\<rparr>" "Exn TimeoutError ''slow''"]
      s demo_policy e by (simp add: demo_names outcome_def allows_retry_after_attempt_def)
qed

section \<open>A late worker\<close>

text \<open>The lease lasts no time; it expires, and another worker takes the step.\<close>

definition slow_agent :: agent_func where
  "slow_agent state = Meanwhile (By_Store Recover_Expired_Leases)
     (Meanwhile (By_Store (Claim_Step ''w2'' None 30)) (Finish (Inr JNull)))"

definition short_claim :: world where
  "short_claim = snd (claim_step ''w1'' None 0 demo_created)"

definition short_started :: world where
  "short_started = snd (agent_started demo_ctx short_claim)"

definition taken_over :: world where
  "taken_over = perform (Claim_Step ''w2'' None 30) (perform Recover_Expired_Leases short_started)"

lemma short_lease:
  "(map_sum id (map_option (\<lambda>k. k\<lparr>k_until := 33\<rparr>)) (fst (claim_step ''w1'' None 0 demo_created)),
    map (\<lambda>r. (r_id r, r_session r, r_version r, r_state r)) (runs (db short_claim)),
    fst (agent_started demo_ctx short_claim)) =
   (Inr (Some demo_k), [(''run_0'', ''sess_1'', 0, JObj [])], Inr ())"
  by code_simp

lemma taken_over_view: "step_state (db taken_over) ''step_2'' = Some (Running, Some ''lease_10'')"
  by code_simp

theorem late_worker_fails_successor_witness:
  "\<exists>w'. run_once demo_gateway slow_agent None ''w1'' ''Agent'' ''normal'' None 0 demo_created =
     (Inl (Exn RuntimeError ''invalid or stale lease token''), w') \<and>
   step_state (db taken_over) ''step_2'' = Some (Running, Some ''lease_10'') \<and> step_state (db w') ''step_2'' = Some (Failed, None)"
proof -
  obtain k where claim: "claim_step ''w1'' None 0 demo_created = (Inr (Some k), short_claim)" and k: "k\<lparr>k_until := 33\<rparr> = demo_k"
    using short_lease unfolding short_claim_def
    by (cases "claim_step ''w1'' None 0 demo_created"; cases "fst (claim_step ''w1'' None 0 demo_created)") auto
  obtain r where r: "find_run (db short_claim) ''run_0'' = Some r" "r_session r = ''sess_1''" "r_version r = 0"
    using short_lease by (cases "runs (db short_claim)") (auto simp: find_run_def)
  have names: "k_run k = ''run_0''" "k_step k = ''step_2''" "k_lease k = ''lease_5''" "k_attempt k = 1"
    using arg_cong [OF k, of k_run] arg_cong [OF k, of k_step] arg_cong [OF k, of k_lease] arg_cong [OF k, of k_attempt]
    by (simp_all add: demo_k_def)
  then have ctx: "new_context k (r_session r) (r_version r) ''Agent'' ''normal'' None = demo_ctx"
    using r by (simp add: demo_ctx_def new_context_def demo_k_def)
  have started: "agent_started demo_ctx short_claim = (Inr (), short_started)"
    using short_lease by (simp add: short_started_def prod_eq_iff)
  have ran: "run_program demo_gateway (slow_agent (r_state r)) demo_ctx short_started = (Inr JNull, demo_ctx, taken_over)"
    by (simp add: slow_agent_def taken_over_def)
  show ?thesis
    using taken_over_view
      late_worker_fails_successor [OF demo_fresh demo_later_created claim, where r = r and role = "''Agent''" and mode = "''normal''"
        and source = None and ?w2.0 = short_started and agent = slow_agent and a = JNull and c = demo_ctx and ?w3.0 = taken_over
        and other = "''lease_10''" and g = demo_gateway]
      r ctx started ran names by simp
qed

end
