(* ===== verification/Worker_Examples.thy ===== *)
theory Worker_Examples
  imports Drain Runtime_Examples
begin

text \<open>
  Workers at concrete histories: one that drains the run it is given, one without a run whose attempt times out, and a
  service that is asked to stop.
\<close>

definition demo_worker :: worker where
  "demo_worker = \<lparr>wk_id = ''w1'', wk_role = ''Agent'', wk_lease = 30, wk_recover = False\<rparr>"

definition timing_out :: agent_func where
  "timing_out state = Finish (Inl (Exn TimeoutError ''slow''))"

lemma demo_work:
  "(attempts_left ''run_0'' (db demo_created), map r_id (runs (db demo_created)), map s_retry (steps (db demo_created))) =
   (4, [''run_0''], [Some (JObj [(''max_attempts'', JInt 3)])])"
  by code_simp

theorem worker_drains_run_witness:
  "attempts_left ''run_0'' (db demo_created) = 4 \<and>
   (case run_until_idle demo_gateway demo_agent demo_worker (Some ''run_0'') 5 demo_created of
      (Inl e, w') \<Rightarrow> failed_step ''run_0'' w' e
    | (Inr s, w') \<Rightarrow> ws_attempts s \<le> attempts_left ''run_0'' (db demo_created) \<and>
        (ended (ws_final s) \<or> ws_stopped s = ''idle'' \<and> \<not> has_claimable_step ''run_0'' (db w')))"
proof -
  have left: "attempts_left ''run_0'' (db demo_created) = 4" using demo_work by simp
  have "find_run (db demo_created) ''run_0'' \<noteq> None"
    using demo_work by (cases "runs (db demo_created)") (auto simp: find_run_def)
  moreover have "policies_parse ''run_0'' (db demo_created)"
    using demo_work demo_policy by (cases "steps (db demo_created)") (auto simp: policies_parse_def)
  moreover have "quiet demo_agent" by (simp add: quiet_def demo_agent_def)
  ultimately show ?thesis
    using worker_drains_run [OF demo_fresh demo_later_created, of "''run_0''" demo_agent 5 demo_gateway demo_worker] left by simp
qed

lemma timed_out_once:
  "\<exists>w'. run_once demo_gateway timing_out None ''w1'' ''Agent'' ''normal'' None 30 demo_created = (Inr False, w') \<and>
     step_state (db w') ''step_2'' = Some (RetryScheduled, None)"
proof (rule demo_rows)
  fix r
  assume r: "find_run (db worker_claims) ''run_0'' = Some r" "r_session r = ''sess_1''" "r_version r = 0"
  let ?e = "Exn TimeoutError ''slow''"
  have e: "retryable ?e" "\<not> isinstance ?e ApprovalRequired"
    by (simp_all add: retryable_def isinstance_def classify_exception_def)
  have load: "load_state (k_run demo_k) worker_claims = (Inr (r_state r, r_version r, r_session r), worker_claims)"
    using r by (simp add: load_state_def exec demo_names)
  have ctx: "new_context demo_k (r_session r) (r_version r) ''Agent'' ''normal'' None = demo_ctx"
    using r by (simp add: demo_ctx_def)
  have run: "run_once demo_gateway timing_out None ''w1'' ''Agent'' ''normal'' None 30 demo_created = step_failed demo_k ?e agent_runs"
    by (simp add: run_once_def execute_claim_def Let_def bindM_apply seqM_apply demo_claimed_now load ctx demo_started
        catchM_apply attempt_step_def timing_out_def)
  have l: "later demo_world agent_runs"
    using recorded.G_trans [OF demo_later_created recorded.G_trans
        [OF staysD [OF executed.stays_runtime_ops(2) demo_claimed_now]
          staysD [OF recorded.stays_emit demo_started [unfolded agent_started_def]]]] .
  then have fresh: "ids_fresh agent_runs" using well_run_later [OF demo_fresh] by (simp add: well_run_def)
  have "\<exists>s. find_step (db agent_runs) ''step_2'' = Some s \<and> s_attempt s = 1 \<and> s_retry s = Some (JObj [(''max_attempts'', JInt 3)])"
    using demo_running by (cases "steps (db agent_runs)") (auto simp: find_step_def)
  then obtain s where s: "find_step (db agent_runs) (k_step demo_k) = Some s" "s_attempt s = 1"
    "s_retry s = Some (JObj [(''max_attempts'', JInt 3)])" by (auto simp: demo_names)
  show ?thesis
    using step_failed_outcome [OF fresh s(1) demo_policy [OF s(3)], of ?e] s(2) e
    by (simp add: run outcome_def allows_retry_after_attempt_def demo_names)
qed

lemma timed_out_worker:
  "\<exists>s w'. run_until_idle demo_gateway timing_out demo_worker None 1 demo_created = (Inr s, w') \<and>
     ws_attempts s = 0 \<and> ws_iterations s = 1 \<and> ws_stopped s = ''idle'' \<and>
     step_state (db w') ''step_2'' = Some (RetryScheduled, None)"
proof -
  obtain w' where w': "run_once demo_gateway timing_out None ''w1'' ''Agent'' ''normal'' None 30 demo_created = (Inr False, w')"
    "step_state (db w') ''step_2'' = Some (RetryScheduled, None)" using timed_out_once by blast
  have "worker_iteration demo_gateway timing_out demo_worker None no_tally demo_created = (Inr (Some ''idle'', no_tally), w')"
    by (simp add: worker_iteration_def stop_before_def named_run_def demo_worker_def bindM_apply select_db_apply w'(1)
        no_tally_def Let_def)
  then show ?thesis using w'(2)
    by (simp add: run_until_idle_def named_run_def worker_run_status_def bindM_apply stopped_because_def ended_def no_tally_def)
qed

theorem unnamed_worker_hides_failures_witness:
  "\<exists>s w'. run_until_idle demo_gateway timing_out demo_worker None 1 demo_created = (Inr s, w') \<and>
     ws_attempts s = ws_succeeded s \<and> ws_stopped s = ''idle'' \<and> step_state (db w') ''step_2'' = Some (RetryScheduled, None)"
  using timed_out_worker unnamed_worker_hides_failures [of demo_gateway timing_out demo_worker 1 demo_created] by blast

theorem worker_summary_consistent_witness:
  "\<exists>s w'. run_until_idle demo_gateway timing_out demo_worker None 1 demo_created = (Inr s, w') \<and>
     ws_iterations s = 1 \<and> ws_succeeded s \<le> ws_attempts s \<and> int (ws_attempts s) \<le> max 0 (ws_iterations s)"
  using timed_out_worker worker_summary_consistent [of demo_gateway timing_out demo_worker None 1 demo_created] by blast

definition demo_surroundings :: surroundings where
  "demo_surroundings = \<lparr>en_stops = (\<lambda>n. if n = 1 then [''signal:SIGTERM''] else []), en_others = (\<lambda>_. [])\<rparr>"

theorem serve_returns_witness:
  "\<exists>r. (\<forall>fuel>1. serve fuel demo_gateway demo_agent demo_surroundings (new_service demo_worker) None None None demo_created = Some r) \<and>
     (\<forall>s. fst r = Inr s \<longrightarrow> ss_loops s \<le> 1)"
  by (rule serve_returns) (auto simp: demo_surroundings_def)

end
