(* ===== verification/Evidence.thy ===== *)
theory Evidence
  imports Worker
begin

text \<open>
  The evidence of a run: rows of the tables as dicts, the bundle of \<open>src/agentledger/evidence.py\<close>, the summary a replay
  gives (\<open>replay.py\<close>) and retention plans (\<open>retention.py\<close>). The comparison of two bundles is in \<open>Diff\<close>.

  A column with JSON text is written by \<open>json.dumps\<close> and read back by \<open>json.loads\<close>: the model keeps the value, and the
  text where a dict shows it. The parser of a text that is neither (a payload reference the caller chose) is an argument.
\<close>

section \<open>Rows as dicts\<close>

text \<open>\<open>json.dumps(value, ensure_ascii=False)\<close>: the order of the entries is kept, separators have a blank.\<close>

fun json_text :: "(rat \<Rightarrow> string) \<Rightarrow> json \<Rightarrow> string" where
  "json_text fr JNull = ''null''"
| "json_text fr (JBool b) = (if b then ''true'' else ''false'')"
| "json_text fr (JInt i) = int_str i"
| "json_text fr (JFloat q) = fr q"
| "json_text fr (JStr s) = quote s"
| "json_text fr (JList xs) = ''['' @ join '', '' (map (json_text fr) xs) @ '']''"
| "json_text fr (JObj es) = ''{'' @ join '', '' (map (\<lambda>e. quote (fst e) @ '': '' @ json_text fr (snd e)) es) @ ''}''"

definition opt_int :: "int option \<Rightarrow> json" where
  "opt_int i = (case i of None \<Rightarrow> JNull | Some n \<Rightarrow> JInt n)"

definition run_dict :: "(rat \<Rightarrow> string) \<Rightarrow> run_row \<Rightarrow> dict" where
  "run_dict fr r = [(''run_id'', JStr (r_id r)), (''session_id'', JStr (r_session r)), (''status'', JStr (status_text (r_status r))),
     (''state_json'', JStr (json_text fr (r_state r))), (''state_version'', JInt (r_version r)),
     (''created_at'', JFloat (r_created r)), (''updated_at'', JFloat (r_updated r))]"

definition step_dict :: "(rat \<Rightarrow> string) \<Rightarrow> step_row \<Rightarrow> dict" where
  "step_dict fr s = [(''step_id'', JStr (s_id s)), (''run_id'', JStr (s_run s)), (''session_id'', JStr (s_session s)),
     (''status'', JStr (status_text (s_status s))), (''owner'', opt_str (s_owner s)), (''lease_token'', opt_str (s_lease s)),
     (''lease_until'', opt_time (s_until s)), (''attempt'', JInt (s_attempt s)), (''state_version'', JInt (s_version s)),
     (''checkpoint_id'', opt_str (s_checkpoint s)), (''next_wake_condition'', JNull), (''created_at'', JFloat (s_created s)),
     (''updated_at'', JFloat (s_updated s)), (''last_heartbeat_at'', opt_time (s_heartbeat s)),
     (''retry_policy_json'', opt_str (map_option (json_text fr) (s_retry s))), (''last_error_type'', opt_str (s_error_type s)),
     (''last_error'', opt_str (s_error s)), (''cancelled_at'', opt_time (s_cancelled s))]"

definition payload_ref :: "(rat \<Rightarrow> string) \<Rightarrow> payload \<Rightarrow> string" where
  "payload_ref fr p = (case p of Inline j \<Rightarrow> json_text fr j | Ref r \<Rightarrow> r)"

definition event_dict :: "(rat \<Rightarrow> string) \<Rightarrow> event_row \<Rightarrow> dict" where
  "event_dict fr e = [(''event_id'', JStr (e_id e)), (''run_id'', JStr (e_run e)), (''session_id'', opt_str (e_session e)),
     (''step_id'', opt_str (e_step e)), (''seq'', JInt (e_seq e)), (''type'', JStr (e_type e)), (''timestamp'', JFloat (e_time e)),
     (''agent_role'', opt_str (e_role e)), (''state_version'', opt_int (e_version e)), (''causal_token'', opt_str (e_token e)),
     (''payload_hash'', opt_str (e_hash e)), (''payload_ref'', JStr (payload_ref fr (e_payload e)))]"

definition ledger_dict :: "ledger_row \<Rightarrow> dict" where
  "ledger_dict l = [(''ledger_id'', JStr (l_id l)), (''run_id'', JStr (l_run l)), (''session_id'', opt_str (l_session l)),
     (''step_id'', JStr (l_step l)), (''tool_name'', JStr (l_tool l)), (''tool_version'', JStr (l_tool_version l)),
     (''tool_call_id'', JStr (l_call l)), (''idempotency_key'', JStr (l_key l)), (''causal_token'', JStr (l_token l)),
     (''request_hash'', JStr (l_request_hash l)), (''request_ref'', JStr (l_request_ref l)), (''status'', JStr (l_status l)),
     (''external_id'', opt_str (l_external l)), (''response_hash'', opt_str (l_response_hash l)),
     (''response_ref'', opt_str (l_response_ref l)), (''error_type'', opt_str (l_error_type l)),
     (''created_at'', JFloat (l_created l)), (''updated_at'', JFloat (l_updated l))]"

definition approval_dict :: "approval_row \<Rightarrow> dict" where
  "approval_dict p = [(''approval_id'', JStr (p_id p)), (''approval_key'', JStr (p_key p)), (''run_id'', JStr (p_run p)),
     (''session_id'', opt_str (p_session p)), (''step_id'', JStr (p_step p)), (''tool_name'', JStr (p_tool p)),
     (''risk_level'', JStr (p_risk p)), (''status'', JStr (p_status p)), (''reason'', opt_str (p_reason p)),
     (''request_hash'', JStr (p_request_hash p)), (''request_ref'', JStr (p_request_ref p)),
     (''requested_by'', opt_str (p_requested_by p)), (''approved_by'', opt_str (p_approved_by p)),
     (''decision_reason'', opt_str (p_decision_reason p)), (''created_at'', JFloat (p_created p)), (''updated_at'', JFloat (p_updated p))]"

definition artifact_dict :: "(rat \<Rightarrow> string) \<Rightarrow> artifact_row \<Rightarrow> dict" where
  "artifact_dict fr a = [(''artifact_id'', JStr (a_id a)), (''run_id'', JStr (a_run a)), (''step_id'', opt_str (a_step a)),
     (''name'', JStr (a_name a)), (''blob_hash'', JStr (a_hash a)), (''blob_ref'', JStr (a_ref a)),
     (''metadata_json'', JStr (json_text fr (a_metadata a))), (''created_at'', JFloat (a_created a))]"

definition cost_dict :: "(rat \<Rightarrow> string) \<Rightarrow> cost_row \<Rightarrow> dict" where
  "cost_dict fr c = [(''cost_id'', JStr (c_id c)), (''run_id'', JStr (c_run c)), (''session_id'', opt_str (c_session c)),
     (''step_id'', opt_str (c_step c)), (''category'', JStr (c_category c)), (''name'', JStr (c_name c)),
     (''amount'', JFloat (c_amount c)), (''unit'', JStr (c_unit c)), (''metadata_json'', JStr (json_text fr (c_metadata c))),
     (''created_at'', JFloat (c_created c))]"

section \<open>Bundles\<close>

text \<open>The decoded payload: inline text is read back, a blob is fetched, any other text is parsed or kept.\<close>

definition decode_payload :: "(string \<Rightarrow> json option) \<Rightarrow> payload \<Rightarrow> json act" where
  "decode_payload loads p =
     (case p of
        Inline j \<Rightarrow> retM j
      | Ref r \<Rightarrow>
          if starts_with ''blob://'' r then get_json r
          else retM (case loads r of None \<Rightarrow> JStr r | Some j \<Rightarrow> j))"

definition exported_event :: "(string \<Rightarrow> json option) \<Rightarrow> event_row \<Rightarrow> (event_row \<times> json) act" where
  "exported_event loads e = bindM (decode_payload loads (e_payload e)) (\<lambda>p. retM (e, p))"

fun mapM :: "('a \<Rightarrow> ('w, 'e, 'b) action) \<Rightarrow> 'a list \<Rightarrow> ('w, 'e, 'b list) action" where
  "mapM f [] = retM []"
| "mapM f (x # xs) = bindM (f x) (\<lambda>y. bindM (mapM f xs) (\<lambda>ys. retM (y # ys)))"

definition exported_event_dict :: "(rat \<Rightarrow> string) \<Rightarrow> event_row \<times> json \<Rightarrow> json" where
  "exported_event_dict fr ep = JObj (event_dict fr (fst ep) @ [(''payload'', snd ep)])"

text \<open>The state the last \<open>run_created\<close> event carries.\<close>

definition initial_state_of :: "(event_row \<times> json) list \<Rightarrow> json" where
  "initial_state_of es =
     fold (\<lambda>(e, p) state. if e_type e = ''run_created'' \<and> is_obj p then get_or (JObj []) p ''initial_state'' else state) es (JObj [])"

definition media_entry :: "artifact_row \<Rightarrow> exn + json option" where
  "media_entry a =
     bindE (attr_get JNull (a_metadata a) ''agentledger_media'') (\<lambda>m.
     if \<not> is_obj m then Inr None
     else Inr (Some (JObj [(''artifact_id'', JStr (a_id a)), (''name'', JStr (a_name a)), (''blob_hash'', JStr (a_hash a)),
       (''blob_ref'', JStr (a_ref a)), (''kind'', get_or JNull m ''kind''), (''uri'', get_or JNull m ''uri''),
       (''content_ref'', get_or JNull m ''content_ref''), (''metadata'', get_or (JObj []) m ''metadata''),
       (''lineage'', get_or (JObj []) m ''lineage''), (''derived_outputs'', get_or (JObj []) m ''derived_outputs'')])))"

definition checkpoint_entry :: "artifact_row \<Rightarrow> exn + json option" where
  "checkpoint_entry a =
     bindE (attr_get JNull (a_metadata a) ''agentledger_stream'') (\<lambda>m.
     if \<not> is_obj m then Inr None
     else Inr (Some (JObj [(''artifact_id'', JStr (a_id a)), (''name'', JStr (a_name a)), (''blob_hash'', JStr (a_hash a)),
       (''blob_ref'', JStr (a_ref a)), (''stream_id'', get_or JNull m ''stream_id''), (''consumer_id'', get_or JNull m ''consumer_id''),
       (''offset'', get_or JNull m ''offset''), (''watermark'', get_or JNull m ''watermark''), (''chunk'', get_or (JObj []) m ''chunk''),
       (''partial_result_ref'', get_or JNull m ''partial_result_ref''), (''backpressure'', get_or (JObj []) m ''backpressure'')])))"

definition exported_artifact :: "(rat \<Rightarrow> string) \<Rightarrow> artifact_row \<Rightarrow> json" where
  "exported_artifact fr a = JObj (artifact_dict fr a @ [(''metadata'', a_metadata a)])"

definition somes :: "'a option list \<Rightarrow> 'a list" where
  "somes xs = map the (filter (\<lambda>x. x \<noteq> None) xs)"

definition evidence_summary ::
  "db \<Rightarrow> string \<Rightarrow> json list \<Rightarrow> json list \<Rightarrow> json" where
  "evidence_summary d run media streams =
     JObj [(''event_count'', JInt (int (length (events_of run d)))), (''step_count'', JInt (int (length (steps_of run d)))),
       (''tool_ledger_count'', JInt (int (length (ledger_of run d)))), (''artifact_count'', JInt (int (length (artifacts_of run d)))),
       (''media_artifact_count'', JInt (int (length media))), (''stream_checkpoint_count'', JInt (int (length streams))),
       (''approval_count'', JInt (int (length (approval_requests (Some run) d)))),
       (''has_pending_approvals'', JBool (\<exists>p\<in>set (approval_requests (Some run) d). p_status p = ''PENDING'')),
       (''cost_summary'', cost_summary_dict (cost_summary_of run d)),
       (''has_pending_verification'', JBool (\<exists>l\<in>set (ledger_of run d). l_status l = ''PENDING_VERIFICATION'')),
       (''has_failed_steps'', JBool (\<exists>s\<in>set (steps_of run d). s_status s = Failed))]"

text \<open>The entries of a bundle but for its hash; the second list is what follows the hash.\<close>

definition bundle_head :: dict where
  "bundle_head = [(''schema_version'', JStr ''agentledger.evidence.v1'')]"

definition bundle_rest ::
  "(rat \<Rightarrow> string) \<Rightarrow> db \<Rightarrow> run_row \<Rightarrow> (event_row \<times> json) list \<Rightarrow> json list \<Rightarrow> json list \<Rightarrow> json \<Rightarrow> dict" where
  "bundle_rest fr d row es media streams final =
     (let run = r_id row in
      [(''run'', JObj (run_dict fr row @ [(''initial_state'', initial_state_of es)])),
       (''steps'', JList (map (\<lambda>s. JObj (step_dict fr s)) (steps_of run d))), (''events'', JList (map (exported_event_dict fr) es)),
       (''tool_ledger'', JList (map (\<lambda>l. JObj (ledger_dict l)) (ledger_of run d))),
       (''approval_requests'', JList (map (\<lambda>p. JObj (approval_dict p)) (approval_requests (Some run) d))),
       (''artifacts'', JList (map (exported_artifact fr) (artifacts_of run d))), (''media_artifacts'', JList media),
       (''stream_checkpoints'', JList streams), (''cost_records'', JList (map (\<lambda>c. JObj (cost_dict fr c)) (costs_of run d))),
       (''summary'', evidence_summary d run media streams), (''final_state'', final)])"

definition export_evidence :: "(string \<Rightarrow> json option) \<Rightarrow> string \<Rightarrow> dict act" where
  "export_evidence loads run =
     bindM (get_run run) (\<lambda>row.
     bindM (select_db (events_of run)) (\<lambda>rows.
     bindM (mapM (exported_event loads) rows) (\<lambda>es.
     bindM (select_db (artifacts_of run)) (\<lambda>arts.
     bindM (liftM (mapE media_entry arts)) (\<lambda>media.
     bindM (liftM (mapE checkpoint_entry arts)) (\<lambda>streams.
     bindM (final_state run) (\<lambda>final.
     bindM (getsM (\<lambda>w. bundle_rest (repr_float w) (db w) row es (somes media) (somes streams) final)) (\<lambda>rest.
     bindM (getsM (\<lambda>w. hash_of w (JObj (bundle_head @ rest)))) (\<lambda>digest.
     retM (bundle_head @ [(''bundle_hash'', JStr digest)] @ rest))))))))))"

section \<open>Replay\<close>

record replay_summary =
  rp_run :: string
  rp_events :: nat
  rp_tool_calls :: nat
  rp_state :: json
  rp_hash :: string
  rp_safe :: bool
  rp_artifacts :: nat
  rp_media :: nat
  rp_streams :: nat

definition needs_blob :: "string \<Rightarrow> unit act" where
  "needs_blob ref = (if starts_with ''blob://'' ref then bindM (get_json ref) (\<lambda>_. retM ()) else retM ())"

definition digest_entry :: "(rat \<Rightarrow> string) \<Rightarrow> event_row \<Rightarrow> json" where
  "digest_entry fr e = JObj [(''seq'', JInt (e_seq e)), (''type'', JStr (e_type e)), (''payload_hash'', opt_str (e_hash e)),
     (''payload_ref'', JStr (payload_ref fr (e_payload e)))]"

text \<open>\<open>_decode_metadata\<close>: whatever is not a dict counts as the empty one.\<close>

definition metadata_of :: "artifact_row \<Rightarrow> dict" where
  "metadata_of a = entries (a_metadata a)"

definition has_key :: "string \<Rightarrow> dict \<Rightarrow> bool" where
  "has_key k es \<longleftrightarrow> k \<in> set (map fst es)"

definition replay :: "string \<Rightarrow> replay_summary act" where
  "replay run =
     bindM (getsM repr_float) (\<lambda>fr.
     bindM (select_db (events_of run)) (\<lambda>es.
     seqM (forM es (\<lambda>e. needs_blob (payload_ref fr (e_payload e)))) (
     bindM (select_db (artifacts_of run)) (\<lambda>arts.
     seqM (forM arts (\<lambda>a. needs_blob (a_ref a))) (
     bindM (final_state run) (\<lambda>state.
     bindM (getsM (\<lambda>w. hash_of w (JList (map (digest_entry fr) es)))) (\<lambda>digest.
     retM \<lparr>rp_run = run, rp_events = length es, rp_tool_calls = length (filter (\<lambda>e. starts_with ''tool_call_'' (e_type e)) es),
       rp_state = state, rp_hash = digest, rp_safe = True, rp_artifacts = length arts,
       rp_media = length (filter (\<lambda>a. has_key ''agentledger_media'' (metadata_of a)) arts),
       rp_streams = length (filter (\<lambda>a. has_key ''agentledger_stream'' (metadata_of a)) arts)\<rparr>)))))))"

section \<open>Retention\<close>

record retention_plan =
  rt_run :: string
  rt_events :: nat
  rt_artifacts :: nat
  rt_media :: nat
  rt_streams :: nat
  rt_protected :: nat
  rt_ledger :: nat
  rt_bytes :: nat
  rt_actions :: "string list"
  rt_destructive :: bool

definition retention_to_dict :: "retention_plan \<Rightarrow> json" where
  "retention_to_dict p = JObj [(''run_id'', JStr (rt_run p)), (''event_count'', JInt (int (rt_events p))),
     (''artifact_count'', JInt (int (rt_artifacts p))), (''media_artifact_count'', JInt (int (rt_media p))),
     (''stream_checkpoint_count'', JInt (int (rt_streams p))), (''protected_blob_ref_count'', JInt (int (rt_protected p))),
     (''ledger_count'', JInt (int (rt_ledger p))), (''estimated_event_bytes'', JInt (int (rt_bytes p))),
     (''actions'', strings (rt_actions p)), (''destructive'', JBool (rt_destructive p))]"

text \<open>The blob references anywhere in a value.\<close>

fun blob_refs :: "json \<Rightarrow> string list" where
  "blob_refs (JObj es) = concat (map (\<lambda>e. blob_refs (snd e)) es)"
| "blob_refs (JList xs) = concat (map blob_refs xs)"
| "blob_refs (JStr s) = (if starts_with ''blob://'' s then [s] else [])"
| "blob_refs v = []"

definition retention_actions :: "string list" where
  "retention_actions =
     [''export evidence bundle before destructive retention'', ''snapshot final state and manifest'',
      ''keep tool ledger and approval records until external retention policy expires'',
      ''preserve media/stream nested blob refs until evidence export and replay validation pass'',
      ''mark compacted runs before any physical deletion'']"

definition plan_retention :: "string \<Rightarrow> retention_plan act" where
  "plan_retention run =
     bindM (getsM repr_float) (\<lambda>fr.
     bindM (select_db (events_of run)) (\<lambda>es.
     bindM (select_db (artifacts_of run)) (\<lambda>arts.
     bindM (select_db (ledger_of run)) (\<lambda>rows.
     retM \<lparr>rt_run = run, rt_events = length es, rt_artifacts = length arts,
       rt_media = length (filter (\<lambda>a. has_key ''agentledger_media'' (metadata_of a)) arts),
       rt_streams = length (filter (\<lambda>a. has_key ''agentledger_stream'' (metadata_of a)) arts),
       rt_protected = card (set (concat (map (\<lambda>a. blob_refs (JObj (metadata_of a))) arts))),
       rt_ledger = length rows,
       rt_bytes = sum_list (map (\<lambda>e. length (json_text fr (JObj (event_dict fr e)))) es),
       rt_actions = retention_actions, rt_destructive = False\<rparr>))))"

definition mark_compacted :: "string \<Rightarrow> string \<Rightarrow> int act" where
  "mark_compacted run reason =
     bindM now_ts (\<lambda>t.
     apply_system_state_patch run
       (JObj [(''_agentledger'', JObj [(''retention'', JObj [(''compacted'', JBool True), (''reason'', JStr reason), (''timestamp'', JFloat t)])])])
       ''retention compaction marker'')"

end
