(* ===== verification/Diff.thy ===== *)
theory Diff
  imports Evidence
begin

text \<open>
  Comparison of two evidence bundles: \<open>src/agentledger/diff.py\<close>, and \<open>diff_dicts\<close> of \<open>shadow.py\<close>. A bundle is a dict as the
  exporter makes it. Where a loaded bundle has a value of another type in place of a dict or a list, the model does what
  Python does with it: it is iterated if it can be, and the first attribute it lacks raises.
\<close>

section \<open>Differences of dicts and sequences\<close>

definition need_dict :: "json \<Rightarrow> exn + dict" where
  "need_dict v = (case v of JObj es \<Rightarrow> Inr es | _ \<Rightarrow> Inl (attribute_error v ''get''))"

definition need_list :: "json \<Rightarrow> exn + json list" where
  "need_list v = iterate v"

text \<open>\<open>d.get(k)\<close>: a missing entry is \<open>None\<close>.\<close>

definition entry :: "dict \<Rightarrow> string \<Rightarrow> json" where
  "entry d k = (case map_of d k of None \<Rightarrow> JNull | Some v \<Rightarrow> v)"

definition entry_or :: "json \<Rightarrow> dict \<Rightarrow> string \<Rightarrow> json" where
  "entry_or dflt d k = (case map_of d k of None \<Rightarrow> dflt | Some v \<Rightarrow> v)"

definition all_keys :: "dict \<Rightarrow> dict \<Rightarrow> string list" where
  "all_keys left right = sort (remdups (map fst left @ map fst right))"

definition changed_keys :: "dict \<Rightarrow> dict \<Rightarrow> string list" where
  "changed_keys left right = filter (\<lambda>k. \<not> py_eq (entry left k) (entry right k)) (all_keys left right)"

definition changes_named :: "string \<Rightarrow> string \<Rightarrow> dict \<Rightarrow> dict \<Rightarrow> dict" where
  "changes_named l r left right =
     map (\<lambda>k. (k, JObj [(l, entry left k), (r, entry right k)])) (changed_keys left right)"

definition diff_dict :: "dict \<Rightarrow> dict \<Rightarrow> dict" where
  "diff_dict left right =
     (let changed = changes_named ''left'' ''right'' left right in
      [(''changed_count'', JInt (int (length changed))), (''changed'', JObj changed)])"

text \<open>
  \<open>diff_dict\<close> on any two values: the keys are what \<open>set()\<close> makes of them, so two values without elements have no difference.
  Which pair of elements \<open>sorted\<close> cannot compare is up to the order of a Python set; the message leaves their types out.
\<close>

definition key_values :: "json \<Rightarrow> exn + json list" where
  "key_values v = bindE (iterate v) (\<lambda>xs.
     case List.find (\<lambda>x. \<not> hashable x) xs of Some x \<Rightarrow> Inl (unhashable x) | None \<Rightarrow> Inr xs)"

definition sortable :: "json list \<Rightarrow> bool" where
  "sortable xs \<longleftrightarrow> list_all (\<lambda>x. case x of JStr _ \<Rightarrow> True | _ \<Rightarrow> False) xs \<or>
     list_all (\<lambda>x. case x of JInt _ \<Rightarrow> True | JFloat _ \<Rightarrow> True | JBool _ \<Rightarrow> True | _ \<Rightarrow> False) xs \<or>
     list_all (\<lambda>x. py_eq x (hd xs)) xs"

definition diff_values :: "json \<Rightarrow> json \<Rightarrow> exn + dict" where
  "diff_values left right =
     (case (left, right) of
        (JObj l, JObj r) \<Rightarrow> Inr (diff_dict l r)
      | _ \<Rightarrow>
          bindE (key_values left) (\<lambda>ls.
          bindE (key_values right) (\<lambda>rs.
          if ls @ rs = [] then Inr (diff_dict [] [])
          else if \<not> sortable (ls @ rs) then Inl (Exn TypeError ''values cannot be ordered'')
          else Inl (attribute_error (if is_obj left then right else left) ''get''))))"

definition shadow_diff :: "dict \<Rightarrow> dict \<Rightarrow> dict" where
  "shadow_diff left right =
     (let changed = changes_named ''source'' ''shadow'' left right in
      [(''changed'', JObj changed), (''changed_count'', JInt (int (length changed)))])"

definition item :: "json list \<Rightarrow> nat \<Rightarrow> json" where
  "item xs i = (if i < length xs then xs ! i else JNull)"

definition changed_places :: "json list \<Rightarrow> json list \<Rightarrow> nat list" where
  "changed_places left right = filter (\<lambda>i. \<not> py_eq (item left i) (item right i)) [0..<max (length left) (length right)]"

definition diff_sequence :: "json list \<Rightarrow> json list \<Rightarrow> dict" where
  "diff_sequence left right =
     (let changed = map (\<lambda>i. JObj [(''index'', JInt (int i)), (''left'', item left i), (''right'', item right i)]) (changed_places left right) in
      [(''left_count'', JInt (int (length left))), (''right_count'', JInt (int (length right))),
       (''changed_count'', JInt (int (length changed))), (''changed'', JList changed)])"

section \<open>Fingerprints\<close>

text \<open>The rows under a key of the bundle, and some columns of each.\<close>

definition rows_under :: "string \<Rightarrow> dict \<Rightarrow> exn + dict list" where
  "rows_under k evidence = bindE (need_list (entry_or (JList []) evidence k)) (mapE need_dict)"

definition project :: "string list \<Rightarrow> dict \<Rightarrow> json" where
  "project ks row = JObj (map (\<lambda>k. (k, entry row k)) ks)"

definition fingerprints :: "string \<Rightarrow> string list \<Rightarrow> dict \<Rightarrow> exn + json list" where
  "fingerprints k ks evidence = bindE (rows_under k evidence) (\<lambda>rows. Inr (map (project ks) rows))"

definition artifact_fingerprints :: "dict \<Rightarrow> exn + json list" where
  "artifact_fingerprints = fingerprints ''artifacts'' [''name'', ''blob_hash'', ''metadata_json'']"

definition media_fingerprints :: "dict \<Rightarrow> exn + json list" where
  "media_fingerprints = fingerprints ''media_artifacts'' [''name'', ''kind'', ''uri'', ''content_ref'', ''blob_hash'', ''lineage'']"

definition stream_fingerprints :: "dict \<Rightarrow> exn + json list" where
  "stream_fingerprints =
     fingerprints ''stream_checkpoints'' [''name'', ''stream_id'', ''consumer_id'', ''offset'', ''watermark'', ''chunk'', ''partial_result_ref'']"

definition ledger_fingerprints :: "dict \<Rightarrow> exn + json list" where
  "ledger_fingerprints =
     fingerprints ''tool_ledger'' [''tool_name'', ''status'', ''external_id'', ''error_type'', ''request_hash'', ''response_hash'']"

definition column :: "string \<Rightarrow> string \<Rightarrow> dict \<Rightarrow> exn + json list" where
  "column k c evidence = bindE (rows_under k evidence) (\<lambda>rows. Inr (map (\<lambda>row. entry row c) rows))"

definition model_output :: "json \<Rightarrow> json" where
  "model_output payload =
     (case payload of
        JObj es \<Rightarrow> project [''provider'', ''content'', ''usage''] es
      | _ \<Rightarrow> JObj [(''payload'', payload)])"

definition model_outputs :: "dict \<Rightarrow> exn + json list" where
  "model_outputs evidence =
     bindE (rows_under ''events'' evidence) (\<lambda>rows.
     Inr (map (\<lambda>e. model_output (entry e ''payload'')) (filter (\<lambda>e. py_eq (entry e ''type'') (JStr ''model_call_completed'')) rows)))"

section \<open>The comparisons\<close>

text \<open>The same part of both bundles, compared.\<close>

definition both :: "(dict \<Rightarrow> exn + 'a) \<Rightarrow> ('a \<Rightarrow> 'a \<Rightarrow> exn + dict) \<Rightarrow> dict \<Rightarrow> dict \<Rightarrow> exn + dict" where
  "both part diff left right = bindE (part left) (\<lambda>l. bindE (part right) (diff l))"

definition diff_lists :: "json list \<Rightarrow> json list \<Rightarrow> exn + dict" where
  "diff_lists left right = Inr (diff_sequence left right)"

definition dict_under :: "string \<Rightarrow> dict \<Rightarrow> exn + dict" where
  "dict_under k evidence = need_dict (entry_or (JObj []) evidence k)"

text \<open>The value under a key, and the costs in the summary.\<close>

definition value_under :: "string \<Rightarrow> dict \<Rightarrow> exn + json" where
  "value_under k evidence = Inr (entry_or (JObj []) evidence k)"

definition cost_under :: "dict \<Rightarrow> exn + json" where
  "cost_under evidence = bindE (dict_under ''summary'' evidence) (value_under ''cost_summary'')"

definition run_name :: "dict \<Rightarrow> exn + json" where
  "run_name evidence = bindE (dict_under ''run'' evidence) (\<lambda>r. Inr (entry r ''run_id''))"

definition changed_count :: "dict \<Rightarrow> bool" where
  "changed_count d = truthy (entry_or (JInt 0) d ''changed_count'')"

record diff_report =
  dr_left :: json
  dr_right :: json
  dr_same :: bool
  dr_hash_changed :: bool
  dr_changes :: "(string \<times> dict) list"

definition diff_report_to_dict :: "diff_report \<Rightarrow> json" where
  "diff_report_to_dict r = JObj [(''left_run_id'', dr_left r), (''right_run_id'', dr_right r), (''same'', JBool (dr_same r)),
     (''changes'', JObj ((''bundle_hash_changed'', JBool (dr_hash_changed r)) # map (\<lambda>c. (fst c, JObj (snd c))) (dr_changes r)))]"

fun named :: "(string \<times> (exn + dict)) list \<Rightarrow> exn + (string \<times> dict) list" where
  "named [] = Inr []"
| "named ((k, x) # xs) = bindE x (\<lambda>d. bindE (named xs) (\<lambda>ds. Inr ((k, d) # ds)))"

definition differ_parts :: "dict \<Rightarrow> dict \<Rightarrow> (string \<times> (exn + dict)) list" where
  "differ_parts left right =
     [(''summary'', both (value_under ''summary'') diff_values left right),
      (''final_state'', both (value_under ''final_state'') diff_values left right),
      (''event_types'', both (column ''events'' ''type'') diff_lists left right),
      (''tool_ledger'', both (column ''tool_ledger'' ''status'') diff_lists left right),
      (''media_artifacts'', both media_fingerprints diff_lists left right),
      (''stream_checkpoints'', both stream_fingerprints diff_lists left right),
      (''cost_summary'', both cost_under diff_values left right)]"

definition compare_evidence :: "dict \<Rightarrow> dict \<Rightarrow> exn + diff_report" where
  "compare_evidence left right =
     (let hash_changed = (\<not> py_eq (entry left ''bundle_hash'') (entry right ''bundle_hash'')) in
      bindE (named (differ_parts left right)) (\<lambda>changes.
      bindE (run_name left) (\<lambda>l.
      bindE (run_name right) (\<lambda>r.
      Inr \<lparr>dr_left = l, dr_right = r, dr_same = (\<not> (hash_changed \<or> (\<exists>c\<in>set changes. changed_count (snd c)))),
        dr_hash_changed = hash_changed, dr_changes = changes\<rparr>))))"

record divergence_report =
  dv_left :: json
  dv_right :: json
  dv_same :: bool
  dv_changed :: "string list"
  dv_dimensions :: "(string \<times> dict) list"

definition divergence_to_dict :: "divergence_report \<Rightarrow> json" where
  "divergence_to_dict r = JObj [(''left_run_id'', dv_left r), (''right_run_id'', dv_right r), (''same'', JBool (dv_same r)),
     (''changed_dimensions'', strings (dv_changed r)), (''dimensions'', JObj (map (\<lambda>c. (fst c, JObj (snd c))) (dv_dimensions r)))]"

definition dimension_parts :: "dict \<Rightarrow> dict \<Rightarrow> (string \<times> (exn + dict)) list" where
  "dimension_parts left right =
     [(''events'', both (column ''events'' ''type'') diff_lists left right),
      (''state'', both (value_under ''final_state'') diff_values left right),
      (''artifacts'', both artifact_fingerprints diff_lists left right),
      (''media_artifacts'', both media_fingerprints diff_lists left right),
      (''stream_checkpoints'', both stream_fingerprints diff_lists left right),
      (''ledger'', both ledger_fingerprints diff_lists left right),
      (''cost'', both cost_under diff_values left right),
      (''model_outputs'', both model_outputs diff_lists left right)]"

definition report_divergence :: "dict \<Rightarrow> dict \<Rightarrow> exn + divergence_report" where
  "report_divergence left right =
     bindE (named (dimension_parts left right)) (\<lambda>dimensions.
     let changed = map fst (filter (\<lambda>c. changed_count (snd c)) dimensions) in
     bindE (run_name left) (\<lambda>l.
     bindE (run_name right) (\<lambda>r.
     Inr \<lparr>dv_left = l, dv_right = r, dv_same = (changed = []), dv_changed = changed, dv_dimensions = dimensions\<rparr>)))"

section \<open>Laws\<close>

lemma entry_outside: "k \<notin> set (map fst d) \<Longrightarrow> entry d k = JNull"
  using map_of_eq_None_iff [of d k] by (simp add: entry_def)

lemma changed_none: "changed_keys left right = [] \<longleftrightarrow> (\<forall>k. py_eq (entry left k) (entry right k))"
proof
  assume none: "changed_keys left right = []"
  show "\<forall>k. py_eq (entry left k) (entry right k)"
  proof
    fix k
    show "py_eq (entry left k) (entry right k)"
    proof (cases "k \<in> set (map fst left) \<union> set (map fst right)")
      case True
      then show ?thesis using none by (auto simp: changed_keys_def all_keys_def filter_empty_conv)
    next
      case False
      then show ?thesis by (simp add: entry_outside)
    qed
  qed
qed (simp add: changed_keys_def)

lemma diff_dict_unchanged: "changed_count (diff_dict left right) \<longleftrightarrow> \<not> (\<forall>k. py_eq (entry left k) (entry right k))"
  by (simp add: changed_count_def diff_dict_def entry_or_def changes_named_def Let_def flip: changed_none)

lemma diff_sequence_unchanged:
  "changed_count (diff_sequence left right) \<longleftrightarrow>
   \<not> (\<forall>i<max (length left) (length right). py_eq (item left i) (item right i))"
  by (auto simp: changed_count_def diff_sequence_def entry_or_def changed_places_def filter_empty_conv Let_def)

lemma py_eq_refl: "wf_json v \<Longrightarrow> py_eq v v"
proof (induction v)
  case (JList xs)
  then show ?case by (simp, induction xs) auto
next
  case (JObj es)
  have "py_eq_entries xs es" if "set xs \<subseteq> set es" for xs
    using that
  proof (induction xs)
    case (Cons x xs)
    then have x: "x \<in> set es" by simp
    then have "map_of es (fst x) = Some (snd x)" using JObj.prems by (cases x) auto
    moreover have "py_eq (snd x) (snd x)"
      using JObj.IH [of x "snd x"] JObj.prems x by (cases x) auto
    ultimately show ?case using Cons by (cases x) auto
  qed simp
  then show ?case by simp
qed simp_all

text \<open>Every entry of a bundle has distinct keys.\<close>

definition wf_dict :: "dict \<Rightarrow> bool" where
  "wf_dict d = wf_json (JObj d)"

lemma wf_entry: "wf_dict d \<Longrightarrow> wf_json (entry d k)"
  by (auto simp: wf_dict_def entry_def dest: map_of_SomeD split: option.split)

lemma wf_entry_or: "wf_dict d \<Longrightarrow> wf_json dflt \<Longrightarrow> wf_json (entry_or dflt d k)"
  by (auto simp: wf_dict_def entry_or_def dest: map_of_SomeD split: option.split)

lemma wf_need_dict: "wf_json v \<Longrightarrow> need_dict v = Inr d \<Longrightarrow> wf_dict d"
  by (cases v) (auto simp: need_dict_def wf_dict_def)

lemma wf_dict_under: "wf_dict b \<Longrightarrow> dict_under k b = Inr d \<Longrightarrow> wf_dict d"
  using wf_need_dict [of "entry_or (JObj []) b k" d] by (simp add: dict_under_def wf_entry_or)

lemma wf_value_under: "wf_dict b \<Longrightarrow> value_under k b = Inr v \<Longrightarrow> wf_json v"
  using wf_entry_or [of b "JObj []" k] by (simp add: value_under_def)

lemma wf_cost_under: "wf_dict b \<Longrightarrow> cost_under b = Inr v \<Longrightarrow> wf_json v"
  by (auto simp: cost_under_def bindE_Inr_iff dest: wf_dict_under wf_value_under)

lemma dict_under_value: "dict_under k b = Inr d \<Longrightarrow> value_under k b = Inr (JObj d)"
  by (auto simp: dict_under_def value_under_def need_dict_def split: json.splits)

lemma mapE_all:
  assumes "mapE f xs = Inr ys" and "y \<in> set ys"
  shows "\<exists>x\<in>set xs. f x = Inr y"
  using assms by (induction xs arbitrary: ys) (auto simp: bindE_Inr_iff)

lemma wf_iterate: "wf_json v \<Longrightarrow> iterate v = Inr xs \<Longrightarrow> x \<in> set xs \<Longrightarrow> wf_json x"
  by (cases v) auto

lemma wf_rows_under: "wf_dict b \<Longrightarrow> rows_under k b = Inr rows \<Longrightarrow> row \<in> set rows \<Longrightarrow> wf_dict row"
proof -
  assume b: "wf_dict b" and rows: "rows_under k b = Inr rows" "row \<in> set rows"
  then obtain xs where xs: "iterate (entry_or (JList []) b k) = Inr xs" "mapE need_dict xs = Inr rows"
    by (auto simp: rows_under_def need_list_def bindE_Inr_iff)
  then obtain x where "x \<in> set xs" "need_dict x = Inr row" using mapE_all rows(2) by metis
  then show "wf_dict row" using wf_iterate [OF wf_entry_or [OF b, of "JList []" k] xs(1)] by (auto intro: wf_need_dict)
qed

lemma wf_project: "wf_dict row \<Longrightarrow> distinct ks \<Longrightarrow> wf_json (project ks row)"
  by (auto simp: project_def wf_entry comp_def)

lemma item_refl: "\<forall>x\<in>set xs. wf_json x \<Longrightarrow> py_eq (item xs i) (item xs i)"
  by (auto simp: item_def intro: py_eq_refl)

lemma diff_values_refl:
  assumes "wf_json v" and "diff_values v v = Inr d"
  shows "\<not> changed_count d"
proof -
  have "\<not> changed_count (diff_dict [] [])" by (simp add: diff_dict_unchanged entry_def)
  then show ?thesis
    using assms by (cases v)
      (auto simp: diff_values_def bindE_Inr_iff diff_dict_unchanged wf_dict_def intro!: py_eq_refl wf_entry split: if_splits)
qed

lemma both_value_refl:
  assumes "\<And>v. part b = Inr v \<Longrightarrow> wf_json v" and "both part diff_values b b = Inr d"
  shows "\<not> changed_count d"
  using assms by (auto simp: both_def bindE_Inr_iff dest: diff_values_refl)

lemma both_sequence_refl:
  assumes "\<And>xs. part b = Inr xs \<Longrightarrow> \<forall>x\<in>set xs. wf_json x" and "both part diff_lists b b = Inr d"
  shows "\<not> changed_count d"
  using assms by (auto simp: both_def diff_lists_def bindE_Inr_iff diff_sequence_unchanged item_refl)

lemma wf_column: "wf_dict b \<Longrightarrow> column k c b = Inr xs \<Longrightarrow> \<forall>x\<in>set xs. wf_json x"
  using wf_rows_under [of b k] by (auto simp: column_def bindE_Inr_iff intro!: wf_entry)

lemma wf_fingerprints: "wf_dict b \<Longrightarrow> distinct ks \<Longrightarrow> fingerprints k ks b = Inr xs \<Longrightarrow> \<forall>x\<in>set xs. wf_json x"
  using wf_rows_under [of b k] by (auto simp: fingerprints_def bindE_Inr_iff intro!: wf_project)

lemma wf_model_output: "wf_json p \<Longrightarrow> wf_json (model_output p)"
  by (cases p) (auto simp: model_output_def wf_dict_def intro: wf_project)

lemma wf_model_outputs: "wf_dict b \<Longrightarrow> model_outputs b = Inr xs \<Longrightarrow> \<forall>x\<in>set xs. wf_json x"
  using wf_rows_under [of b "''events''"] by (auto simp: model_outputs_def bindE_Inr_iff intro!: wf_model_output wf_entry)

lemma named_mem: "named xs = Inr ds \<Longrightarrow> (k, d) \<in> set ds \<Longrightarrow> (k, Inr d) \<in> set xs"
proof (induction xs arbitrary: ds)
  case (Cons x xs)
  then show ?case by (cases x) (auto simp: bindE_Inr_iff)
qed simp

lemma fingerprints_wf:
  assumes "wf_dict b"
  shows "artifact_fingerprints b = Inr xs \<Longrightarrow> \<forall>x\<in>set xs. wf_json x"
    "media_fingerprints b = Inr xs \<Longrightarrow> \<forall>x\<in>set xs. wf_json x"
    "stream_fingerprints b = Inr xs \<Longrightarrow> \<forall>x\<in>set xs. wf_json x"
    "ledger_fingerprints b = Inr xs \<Longrightarrow> \<forall>x\<in>set xs. wf_json x"
  unfolding artifact_fingerprints_def media_fingerprints_def stream_fingerprints_def ledger_fingerprints_def
  by (erule wf_fingerprints [OF assms, rotated], simp)+

lemma parts_refl:
  assumes "wf_dict b"
  shows "both (value_under k) diff_values b b = Inr d \<Longrightarrow> \<not> changed_count d"
    "both cost_under diff_values b b = Inr d \<Longrightarrow> \<not> changed_count d"
    "both (column k c) diff_lists b b = Inr d \<Longrightarrow> \<not> changed_count d"
    "both artifact_fingerprints diff_lists b b = Inr d \<Longrightarrow> \<not> changed_count d"
    "both media_fingerprints diff_lists b b = Inr d \<Longrightarrow> \<not> changed_count d"
    "both stream_fingerprints diff_lists b b = Inr d \<Longrightarrow> \<not> changed_count d"
    "both ledger_fingerprints diff_lists b b = Inr d \<Longrightarrow> \<not> changed_count d"
    "both model_outputs diff_lists b b = Inr d \<Longrightarrow> \<not> changed_count d"
  by (erule both_value_refl [rotated], erule wf_value_under [OF assms])
    (erule both_value_refl [rotated], erule wf_cost_under [OF assms],
     erule both_sequence_refl [rotated], erule wf_column [OF assms],
     (erule both_sequence_refl [rotated], erule fingerprints_wf [OF assms])+,
     erule both_sequence_refl [rotated], erule wf_model_outputs [OF assms])

lemma differ_refl: "wf_dict b \<Longrightarrow> (k, Inr d) \<in> set (differ_parts b b) \<Longrightarrow> \<not> changed_count d"
  unfolding differ_parts_def by (auto dest!: sym [of "Inr d"] dest: parts_refl)

lemma dimensions_refl: "wf_dict b \<Longrightarrow> (k, Inr d) \<in> set (dimension_parts b b) \<Longrightarrow> \<not> changed_count d"
  unfolding dimension_parts_def by (auto dest!: sym [of "Inr d"] dest: parts_refl)

lemma named_all:
  assumes "named xs = Inr ds" and "(k, x) \<in> set xs"
  shows "\<exists>d. x = Inr d \<and> (k, d) \<in> set ds"
  using assms
proof (induction xs arbitrary: ds)
  case (Cons y xs)
  then show ?case by (cases y) (fastforce simp: bindE_Inr_iff)
qed simp

lemma compare_Inr:
  assumes "compare_evidence left right = Inr report"
  obtains changes where "named (differ_parts left right) = Inr changes"
    and "dr_hash_changed report \<longleftrightarrow> \<not> py_eq (entry left ''bundle_hash'') (entry right ''bundle_hash'')"
    and "dr_same report \<longleftrightarrow> \<not> dr_hash_changed report \<and> (\<forall>c\<in>set changes. \<not> changed_count (snd c))"
  using assms by (auto simp: compare_evidence_def bindE_Inr_iff Let_def)

lemma same_parts:
  assumes "compare_evidence left right = Inr report" and "dr_same report"
  shows "dict_under ''final_state'' left = Inr l \<Longrightarrow> dict_under ''final_state'' right = Inr r \<Longrightarrow> py_eq (entry l k) (entry r k)"
    and "column ''events'' ''type'' left = Inr xs \<Longrightarrow> column ''events'' ''type'' right = Inr ys \<Longrightarrow> py_eq (item xs i) (item ys i)"
proof -
  obtain changes where changes: "named (differ_parts left right) = Inr changes" "\<forall>c\<in>set changes. \<not> changed_count (snd c)"
    using compare_Inr [OF assms(1)] assms(2) by metis
  have part: "\<exists>d. x = Inr d \<and> \<not> changed_count d" if "(n, x) \<in> set (differ_parts left right)" for n x
    using named_all [OF changes(1) that] changes(2) by auto
  show "py_eq (entry l k) (entry r k)"
    if "dict_under ''final_state'' left = Inr l" "dict_under ''final_state'' right = Inr r"
    using part [of "''final_state''" "both (value_under ''final_state'') diff_values left right"] that
    by (auto simp: differ_parts_def both_def diff_values_def diff_dict_unchanged dest!: dict_under_value)
  show "py_eq (item xs i) (item ys i)"
    if "column ''events'' ''type'' left = Inr xs" "column ''events'' ''type'' right = Inr ys"
    using part [of "''event_types''" "both (column ''events'' ''type'') diff_lists left right"] that
    by (cases "i < max (length xs) (length ys)") (auto simp: differ_parts_def both_def diff_lists_def diff_sequence_unchanged item_def)
qed

lemma compare_refl:
  assumes "wf_dict b" and "compare_evidence b b = Inr report"
  shows "dr_same report \<and> \<not> dr_hash_changed report"
proof -
  obtain changes where changes: "named (differ_parts b b) = Inr changes"
    "dr_hash_changed report \<longleftrightarrow> \<not> py_eq (entry b ''bundle_hash'') (entry b ''bundle_hash'')"
    "dr_same report \<longleftrightarrow> \<not> dr_hash_changed report \<and> (\<forall>c\<in>set changes. \<not> changed_count (snd c))"
    using compare_Inr [OF assms(2)] by metis
  moreover have "\<not> changed_count (snd c)" if "c \<in> set changes" for c
    using differ_refl [OF assms(1)] named_mem [OF changes(1), of "fst c" "snd c"] that by simp
  ultimately show ?thesis using py_eq_refl [OF wf_entry [OF assms(1)]] by simp
qed

lemma divergence_refl:
  assumes "wf_dict b" and "report_divergence b b = Inr report"
  shows "dv_same report \<and> dv_changed report = []"
proof -
  obtain ds where ds: "named (dimension_parts b b) = Inr ds"
    and changed: "dv_changed report = map fst (filter (\<lambda>c. changed_count (snd c)) ds)" "dv_same report \<longleftrightarrow> dv_changed report = []"
    using assms(2) by (auto simp: report_divergence_def bindE_Inr_iff Let_def)
  have "\<not> changed_count (snd c)" if "c \<in> set ds" for c
    using dimensions_refl [OF assms(1)] named_mem [OF ds, of "fst c" "snd c"] that by simp
  then have "filter (\<lambda>c. changed_count (snd c)) ds = []" by (simp add: filter_empty_conv)
  with changed show ?thesis by simp
qed

text \<open>
  C23: A comparison of a bundle with itself reports nothing, and a comparison that reports nothing means it: the bundle hashes
  are equal, the final states agree on every key and the event types agree one by one.
\<close>
theorem comparison_is_faithful:
  assumes "wf_dict left"
  shows "(compare_evidence left left = Inr report \<longrightarrow> dr_same report \<and> \<not> dr_hash_changed report) \<and>
    (report_divergence left left = Inr report' \<longrightarrow> dv_same report' \<and> dv_changed report' = []) \<and>
    (compare_evidence left right = Inr report \<longrightarrow> dr_same report \<longrightarrow>
      py_eq (entry left ''bundle_hash'') (entry right ''bundle_hash'') \<and>
      (\<forall>k l r. dict_under ''final_state'' left = Inr l \<longrightarrow> dict_under ''final_state'' right = Inr r \<longrightarrow> py_eq (entry l k) (entry r k)) \<and>
      (\<forall>i l r. column ''events'' ''type'' left = Inr l \<longrightarrow> column ''events'' ''type'' right = Inr r \<longrightarrow> py_eq (item l i) (item r i)))"
proof (intro conjI impI allI)
  assume report: "compare_evidence left right = Inr report" and same: "dr_same report"
  show "py_eq (entry left ''bundle_hash'') (entry right ''bundle_hash'')"
    by (rule compare_Inr [OF report]) (use same in blast)
  fix k l r
  assume "dict_under ''final_state'' left = Inr l" "dict_under ''final_state'' right = Inr r"
  then show "py_eq (entry l k) (entry r k)" by (rule same_parts(1) [OF report same])
next
  fix i l r
  assume "compare_evidence left right = Inr report" "dr_same report"
    "column ''events'' ''type'' left = Inr l" "column ''events'' ''type'' right = Inr r"
  then show "py_eq (item l i) (item r i)" by (rule same_parts(2))
qed (use compare_refl [OF assms] divergence_refl [OF assms] in blast)+

end
