(* ===== verification/Evidence_Spec.thy ===== *)
theory Evidence_Spec
  imports Diff
begin

text \<open>
  Exports, replays and retention plans only read: they leave the world as it is and call nothing. A bundle is sealed by the
  hash of everything else in it; a replay succeeds exactly when every blob its events and artifacts refer to is there.
\<close>

section \<open>Reading\<close>

interpretation reading: step_preorder "(=)"
  by unfold_locales simp_all

lemma reads_stay:
  "stays (=) (get_run i)" "stays (=) (select_db f)" "stays (=) (get_json ref)" "stays (=) (final_state j)" "stays (=) (load_state l)"
proof -
  show run: "stays (=) (get_run i)" for i by (simp add: stays_def exec split: option.split)
  show "stays (=) (select_db f)" "stays (=) (get_json ref)"
    by (simp_all add: stays_def exec get_json_def split: option.split)
  show load: "stays (=) (load_state l)" for l unfolding load_state_def by (intro reading.stays_rules run)
  show "stays (=) (final_state j)" unfolding final_state_def by (intro reading.stays_rules load)
qed

lemma mapM_stays: "(\<And>x. stays (=) (f x)) \<Longrightarrow> stays (=) (mapM f xs)"
proof (induction xs)
  case (Cons x xs)
  show ?case unfolding mapM.simps by (intro reading.stays_rules Cons)
qed (simp add: reading.stays_rules)

lemma decode_stays: "stays (=) (exported_event loads e)" "stays (=) (needs_blob ref)"
  unfolding exported_event_def decode_payload_def needs_blob_def
  by (cases "e_payload e"; simp only: payload.case; intro reading.stays_rules reads_stay)
    (intro reading.stays_rules reads_stay)

lemmas reading_rules = reading.stays_rules reads_stay mapM_stays decode_stays

lemma readers:
  "stays (=) (export_evidence loads run)" "stays (=) (replay run)" "stays (=) (plan_retention run)"
  unfolding export_evidence_def replay_def plan_retention_def by (intro reading_rules)+

section \<open>Bundles\<close>

lemma mapM_events:
  assumes "mapM (exported_event loads) es w = (Inr eps, w')"
  shows "map fst eps = es"
  using assms
  by (induction es arbitrary: w eps)
    (auto simp: exec exported_event_def split: prod.splits sum.splits)

lemma mapM_decoded:
  assumes "mapM (exported_event loads) es w = (Inr eps, w')"
  shows "\<exists>ps. eps = zip es ps \<and> list_all2 (\<lambda>e p. decode_payload loads (e_payload e) w = (Inr p, w)) es ps"
  using assms
proof (induction es arbitrary: eps w')
  case (Cons e es)
  obtain ep w1 where ep: "exported_event loads e w = (Inr ep, w1)"
    and rest: "bindM (mapM (exported_event loads) es) (\<lambda>ys. retM (ep # ys)) w1 = (Inr eps, w')"
    by (rule bindM_okE [OF Cons.prems [unfolded mapM.simps]]) (rule that)
  have w1: "w1 = w" using staysD [OF decode_stays(1) ep] by simp
  obtain p where p: "decode_payload loads (e_payload e) w = (Inr p, w)" "ep = (e, p)"
    by (rule bindM_okE [OF ep [unfolded exported_event_def w1]]) (rule that, auto)
  obtain eps1 where "mapM (exported_event loads) es w = (Inr eps1, w')" "eps = ep # eps1"
    by (rule bindM_okE [OF rest [unfolded w1]]) (rule that, auto)
  moreover from Cons.IH [OF this(1)] obtain ps where "eps1 = zip es ps"
    "list_all2 (\<lambda>e p. decode_payload loads (e_payload e) w = (Inr p, w)) es ps" by blast
  ultimately show ?case using p by (intro exI [of _ "p # ps"]) simp
qed simp

lemma mapE_all2: "mapE f xs = Inr ys \<Longrightarrow> list_all2 (\<lambda>x y. f x = Inr y) xs ys"
  by (induction xs arbitrary: ys) (auto simp: bindE_Inr_iff)

text \<open>The initial state of a run is what its last \<open>run_created\<close> event with an object for a payload says.\<close>

definition created_state :: "(event_row \<times> json) list \<Rightarrow> json" where
  "created_state es =
     (let created = filter (\<lambda>(e, p). e_type e = ''run_created'' \<and> is_obj p) es in
      if created = [] then JObj [] else get_or (JObj []) (snd (last created)) ''initial_state'')"

lemma initial_state_created: "initial_state_of es = created_state es"
  by (induction es rule: rev_induct) (auto simp: initial_state_of_def created_state_def Let_def split: prod.split)

text \<open>
  C21: An exported bundle is sealed and complete, and exporting changes nothing. Its entries are the thirteen of the schema, and the
  hash it carries is the hash of all the others. Its run is the row of the run with the state the run was created with; its events are
  the log of the run in order, each with its decoded payload; its steps, tool ledger, approvals, artifacts and costs are exactly the rows of
  the run; media artifacts and stream checkpoints are those the artifacts hold; the summary counts the rows, and the final state is
  the state of the run.
\<close>
theorem evidence_sealed:
  assumes "export_evidence loads run w = (Inr b, w')"
  shows "w' = w \<and>
    map fst b = [''schema_version'', ''bundle_hash'', ''run'', ''steps'', ''events'', ''tool_ledger'', ''approval_requests'', ''artifacts'',
      ''media_artifacts'', ''stream_checkpoints'', ''cost_records'', ''summary'', ''final_state''] \<and>
    entry b ''bundle_hash'' = JStr (hash_of w (JObj (filter (\<lambda>e. fst e \<noteq> ''bundle_hash'') b))) \<and>
    (\<exists>row ps ms cs. find_run (db w) run = Some row \<and>
      list_all2 (\<lambda>e p. decode_payload loads (e_payload e) w = (Inr p, w)) (events_of run (db w)) ps \<and>
      list_all2 (\<lambda>a m. media_entry a = Inr m) (artifacts_of run (db w)) ms \<and>
      list_all2 (\<lambda>a c. checkpoint_entry a = Inr c) (artifacts_of run (db w)) cs \<and>
      b = [(''schema_version'', JStr ''agentledger.evidence.v1''), (''bundle_hash'', entry b ''bundle_hash''),
        (''run'', JObj (run_dict (repr_float w) row @ [(''initial_state'', created_state (zip (events_of run (db w)) ps))])),
        (''steps'', JList (map (\<lambda>s. JObj (step_dict (repr_float w) s)) (steps_of run (db w)))),
        (''events'', JList (map (\<lambda>(e, p). JObj (event_dict (repr_float w) e @ [(''payload'', p)])) (zip (events_of run (db w)) ps))),
        (''tool_ledger'', JList (map (\<lambda>l. JObj (ledger_dict l)) (ledger_of run (db w)))),
        (''approval_requests'', JList (map (\<lambda>p. JObj (approval_dict p)) (approval_requests (Some run) (db w)))),
        (''artifacts'', JList (map (\<lambda>a. JObj (artifact_dict (repr_float w) a @ [(''metadata'', a_metadata a)])) (artifacts_of run (db w)))),
        (''media_artifacts'', JList (somes ms)), (''stream_checkpoints'', JList (somes cs)),
        (''cost_records'', JList (map (\<lambda>c. JObj (cost_dict (repr_float w) c)) (costs_of run (db w)))),
        (''summary'', JObj [(''event_count'', JInt (int (length (events_of run (db w))))),
          (''step_count'', JInt (int (length (steps_of run (db w))))), (''tool_ledger_count'', JInt (int (length (ledger_of run (db w))))),
          (''artifact_count'', JInt (int (length (artifacts_of run (db w))))), (''media_artifact_count'', JInt (int (length (somes ms)))),
          (''stream_checkpoint_count'', JInt (int (length (somes cs)))),
          (''approval_count'', JInt (int (length (approval_requests (Some run) (db w))))),
          (''has_pending_approvals'', JBool (\<exists>p\<in>set (approval_requests (Some run) (db w)). p_status p = ''PENDING'')),
          (''cost_summary'', cost_summary_dict (cost_summary_of run (db w))),
          (''has_pending_verification'', JBool (\<exists>l\<in>set (ledger_of run (db w)). l_status l = ''PENDING_VERIFICATION'')),
          (''has_failed_steps'', JBool (\<exists>s\<in>set (steps_of run (db w)). s_status s = Failed))]),
        (''final_state'', r_state row)])"
proof -
  have w': "w' = w" using staysD [OF readers(1) assms] by simp
  obtain row es w1 where row: "find_run (db w) run = Some row" and es: "mapM (exported_event loads) (events_of run (db w)) w = (Inr es, w1)"
    using assms by (auto simp: export_evidence_def exec split: option.splits prod.splits sum.splits)
  have w1: "w1 = w" using staysD [OF mapM_stays [OF decode_stays(1)] es] by simp
  from assms obtain ms cs where ms: "mapE media_entry (artifacts_of run (db w)) = Inr ms"
    and cs: "mapE checkpoint_entry (artifacts_of run (db w)) = Inr cs"
    and b: "b = bundle_head @
      [(''bundle_hash'', JStr (hash_of w (JObj (bundle_head @ bundle_rest (repr_float w) (db w) row es (somes ms) (somes cs) (r_state row)))))] @
      bundle_rest (repr_float w) (db w) row es (somes ms) (somes cs) (r_state row)"
    by (auto simp: export_evidence_def exec row es w1 final_state_def load_state_def split: sum.splits)
  obtain ps where ps: "es = zip (events_of run (db w)) ps"
    "list_all2 (\<lambda>e p. decode_payload loads (e_payload e) w = (Inr p, w)) (events_of run (db w)) ps"
    using mapM_decoded [OF es] by blast
  have shown: "exported_event_dict fr = (\<lambda>(e, p). JObj (event_dict fr e @ [(''payload'', p)]))" for fr
    by (auto simp: exported_event_dict_def)
  have "r_id row = run" using row by (rule find_run_id)
  note shape = b bundle_head_def bundle_rest_def entry_def Let_def ps(1) initial_state_created evidence_summary_def shown
    exported_artifact_def this
  show ?thesis
    by (intro conjI exI [of _ row] exI [of _ ps] exI [of _ ms] exI [of _ cs] w' row ps(2) mapE_all2 [OF ms] mapE_all2 [OF cs])
      (simp_all add: shape)
qed

section \<open>Replays\<close>

definition retrievable :: "world \<Rightarrow> string \<Rightarrow> bool" where
  "retrievable w ref \<longleftrightarrow> (starts_with ''blob://'' ref \<longrightarrow> map_of (blobs w) (drop 7 ref) \<noteq> None)"

lemma needs_blob_result: "needs_blob ref w = (if retrievable w ref then Inr () else Inl (Exn FileNotFoundError (drop 7 ref)), w)"
  by (auto simp: needs_blob_def retrievable_def get_json_def exec split: option.split)

lemma forM_needs:
  "\<exists>r. forM xs (\<lambda>x. needs_blob (f x)) w = (r, w) \<and> (r = Inr () \<longleftrightarrow> (\<forall>x\<in>set xs. retrievable w (f x)))"
  by (induction xs) (auto simp: exec needs_blob_result)

text \<open>
  C22: A replay changes nothing and calls no tool, model or process. It succeeds exactly when the run is there and every blob its
  events and artifacts refer to can be read; then it counts them, gives the state of the run, and the same run has the
  same digest as long as its log is the same.
\<close>
theorem replay_exact:
  "snd (replay run w) = w \<and>
   ((\<exists>s. fst (replay run w) = Inr s) \<longleftrightarrow>
     find_run (db w) run \<noteq> None \<and> (\<forall>e\<in>set (events_of run (db w)). retrievable w (payload_ref (repr_float w) (e_payload e))) \<and>
     (\<forall>a\<in>set (artifacts_of run (db w)). retrievable w (a_ref a))) \<and>
   (case fst (replay run w) of Inl e \<Rightarrow> True | Inr s \<Rightarrow>
     rp_events s = length (events_of run (db w)) \<and> rp_artifacts s = length (artifacts_of run (db w)) \<and>
     (\<exists>r. find_run (db w) run = Some r \<and> rp_state s = r_state r) \<and>
     rp_hash s = hash_of w (JList (map (digest_entry (repr_float w)) (events_of run (db w)))))"
proof -
  let ?es = "events_of run (db w)" and ?arts = "artifacts_of run (db w)"
  obtain r1 where r1: "forM ?es (\<lambda>e. needs_blob (payload_ref (repr_float w) (e_payload e))) w = (r1, w)"
    "r1 = Inr () \<longleftrightarrow> (\<forall>e\<in>set ?es. retrievable w (payload_ref (repr_float w) (e_payload e)))"
    using forM_needs [of ?es "\<lambda>e. payload_ref (repr_float w) (e_payload e)" w] by blast
  obtain r2 where r2: "forM ?arts (\<lambda>a. needs_blob (a_ref a)) w = (r2, w)"
    "r2 = Inr () \<longleftrightarrow> (\<forall>a\<in>set ?arts. retrievable w (a_ref a))"
    using forM_needs [of ?arts a_ref w] by blast
  have unchanged: "snd (replay run w) = w" using staysD [OF readers(2) surjective_pairing] by metis
  show ?thesis
  proof (cases "r1 = Inr () \<and> r2 = Inr ()")
    case True
    then show ?thesis using unchanged r1 r2
      by (cases "find_run (db w) run") (auto simp: replay_def exec final_state_def load_state_def)
  next
    case False
    then have "\<exists>e. fst (replay run w) = Inl e"
      by (cases r1; cases r2) (auto simp: replay_def exec r1(1) r2(1))
    then show ?thesis using unchanged False r1(2) r2(2) by auto
  qed
qed

end
