(* ===== verification/Shadow.thy ===== *)
theory Shadow
  imports Diff Gateway_Spec Runtime_Law
begin

text \<open>
  Shadow runs of \<open>src/agentledger/shadow.py\<close>: a candidate agent runs on the initial state of an archived run, in shadow mode,
  and the two final states are compared. Managed tools are answered from the ledger of the source run: a shadow run calls
  none of them.
\<close>

record shadow_report =
  sh_source :: string
  sh_shadow :: string
  sh_ok :: bool
  sh_diff :: dict

definition shadow_report_to_dict :: "shadow_report \<Rightarrow> json" where
  "shadow_report_to_dict r = JObj [(''source_run_id'', JStr (sh_source r)), (''shadow_run_id'', JStr (sh_shadow r)),
     (''ok'', JBool (sh_ok r)), (''state_diff'', JObj (sh_diff r))]"

definition run_shadow ::
  "(string \<Rightarrow> json option) \<Rightarrow> gateway \<Rightarrow> agent_func \<Rightarrow> string \<Rightarrow> string \<Rightarrow> shadow_report act" where
  "run_shadow loads g agent source role =
     bindM (export_evidence loads source) (\<lambda>evidence.
     bindM (liftM (dict_under ''run'' evidence)) (\<lambda>row.
     bindM (create_run None (entry_or (JObj []) row ''initial_state'') JNull) (\<lambda>(shadow_run, _).
     bindM (run_once g agent (Some shadow_run) ''worker-local'' role ''shadow'' (Some source) 60) (\<lambda>ok.
     bindM (final_state source) (\<lambda>source_final.
     bindM (final_state shadow_run) (\<lambda>shadow_final.
     bindM (liftM (need_dict source_final)) (\<lambda>s.
     bindM (liftM (need_dict shadow_final)) (\<lambda>t.
     retM \<lparr>sh_source = source, sh_shadow = shadow_run, sh_ok = ok, sh_diff = shadow_diff s t\<rparr>))))))))"

section \<open>Nothing managed runs\<close>

definition only_managed :: "gateway \<Rightarrow> bool" where
  "only_managed g \<longleftrightarrow> (\<forall>n t. map_of (gw_registry g) n = Some t \<longrightarrow> managed t)"

fun store_call :: "other_call \<Rightarrow> bool" where
  "store_call (By_Store op) = True"
| "store_call (By_Gateway g c n args) = False"

lemma shadow_call_runs_nothing:
  assumes "cx_mode c = ''shadow''" and "only_managed g"
  shows "calls (snd (gateway_call g c n args w)) = calls w"
proof (rule ccontr)
  assume ran: "calls (snd (gateway_call g c n args w)) \<noteq> calls w"
  show False
  proof (cases "map_of (gw_registry g) n")
    case None
    with ran show False by (simp add: gateway_call_def registry_get_def exec)
  next
    case (Some t)
    from gateway_call_ran [OF ran Some] obtain i d w' where "\<not> blocked g c t i d w'" by metis
    moreover have "managed t" using assms(2) Some by (auto simp: only_managed_def)
    ultimately show False using assms(1) by (simp add: blocked_def)
  qed
qed

interpretation shadowed: runtime_relation same_calls "\<lambda>g mode. mode = ''shadow'' \<and> only_managed g" store_call
proof
  fix i tok secs and w :: world
  show "same_calls w (perform (Heartbeat i tok secs) w)" by (rule perform_stays [OF no_calls.stays_call])
next
  fix g n args and c :: agent_context and w :: world
  assume "cx_mode c = ''shadow'' \<and> only_managed g"
  then show "same_calls w (snd (gateway_call g c n args w))" by (simp add: same_calls_def shadow_call_runs_nothing)
next
  fix e and w :: world
  assume "store_call e"
  then show "same_calls w (other_step e w)" by (cases e) (auto intro: perform_stays [OF no_calls.stays_call])
next
  fix op and w :: world
  show "same_calls w (perform op w)" by (rule perform_stays [OF no_calls.stays_call])
qed

lemma mapM_keeps:
  assumes "\<And>x. stays same_calls (f x)"
  shows "stays same_calls (mapM f xs)"
proof (induction xs)
  case (Cons x xs)
  show ?case unfolding mapM.simps by (intro shadowed.runtime_rules assms Cons)
qed (simp only: mapM.simps, intro shadowed.runtime_rules)

lemma export_keeps: "stays same_calls (export_evidence loads run)"
proof -
  have "stays same_calls (exported_event loads e)" for e
    unfolding exported_event_def decode_payload_def
    by (cases "e_payload e"; simp only: payload.case; intro shadowed.runtime_rules)
  then show ?thesis unfolding export_evidence_def by (intro shadowed.runtime_rules mapM_keeps)
qed

text \<open>
  C24: A shadow run calls nothing. When every tool of the registry is managed, running any agent as the shadow of a run makes no
  tool call and starts no process, whatever it asks for and whatever store calls others make meanwhile; also when the agent or
  the comparison raises.
\<close>
theorem shadow_run_calls_nothing:
  assumes "only_managed g" and "\<And>state. foreign_calls store_call (agent state)"
  shows "calls (snd (run_shadow loads g agent source role w)) = calls w"
proof -
  have once: "stays same_calls (run_once g agent run worker role ''shadow'' src secs)" for run worker src secs
    using assms by (intro shadowed.stays_run_once) auto
  have "stays same_calls (run_shadow loads g agent source role)"
    unfolding run_shadow_def by (intro shadowed.runtime_rules export_keeps once)
  then show ?thesis by (simp add: stays_def same_calls_def)
qed

end
