(* ===== verification/Evidence_Examples.thy ===== *)
theory Evidence_Examples
  imports Evidence_Spec Shadow Runtime_Examples
begin

text \<open>Evidence of a concrete run, compared with itself, and a shadow of it whose agent asks for a tool.\<close>

definition demo_bundle :: dict where
  "demo_bundle = [(''bundle_hash'', JStr ''h''), (''run'', JObj [(''run_id'', JStr ''run_0'')]),
     (''summary'', JObj [(''event_count'', JInt 1), (''cost_summary'', JObj [(''total_usd'', JFloat 0)])]),
     (''events'', JList [JObj [(''type'', JStr ''run_created''), (''payload'', JNull)]]), (''final_state'', JObj [(''a'', JInt 1)])]"

definition other_bundle :: dict where
  "other_bundle = [(''bundle_hash'', JStr ''h''), (''run'', JObj [(''run_id'', JStr ''run_1'')]),
     (''summary'', JObj [(''event_count'', JInt 1), (''cost_summary'', JObj [(''total_usd'', JFloat 0)])]),
     (''events'', JList [JObj [(''type'', JStr ''run_created''), (''payload'', JNull)]]), (''final_state'', JObj [(''a'', JInt 1)])]"

definition outcome_of :: "exn + diff_report \<Rightarrow> bool option" where
  "outcome_of r = (case r of Inl e \<Rightarrow> None | Inr x \<Rightarrow> Some (dr_same x))"

lemma demo_comparisons:
  "(outcome_of (compare_evidence demo_bundle demo_bundle), outcome_of (compare_evidence demo_bundle other_bundle),
    map_sum id dv_same (report_divergence demo_bundle demo_bundle)) = (Some True, Some True, Inr True)"
  by code_simp

lemma outcome_some: "outcome_of r = Some b \<Longrightarrow> \<exists>x. r = Inr x \<and> dr_same x = b"
  by (auto simp: outcome_of_def split: sum.splits)

theorem comparison_is_faithful_witness:
  "\<exists>report. compare_evidence demo_bundle other_bundle = Inr report \<and> dr_same report \<and>
     py_eq (entry demo_bundle ''bundle_hash'') (entry other_bundle ''bundle_hash'')"
proof -
  have "wf_dict demo_bundle" by (simp add: wf_dict_def demo_bundle_def)
  moreover obtain x where "compare_evidence demo_bundle other_bundle = Inr x" "dr_same x"
    using demo_comparisons outcome_some [of "compare_evidence demo_bundle other_bundle" True] by auto
  ultimately show ?thesis using comparison_is_faithful [of demo_bundle x _ other_bundle] by blast
qed

fun inline :: "payload \<Rightarrow> bool" where
  "inline (Inline j) = True"
| "inline (Ref r) = False"

lemma inline_events: "\<forall>e\<in>set es. inline (e_payload e) \<Longrightarrow> \<exists>eps. mapM (exported_event loads) es w = (Inr eps, w)"
proof (induction es)
  case (Cons e es)
  then show ?case by (cases "e_payload e") (auto simp: exec exported_event_def decode_payload_def)
qed simp

lemma inline_export:
  assumes "find_run (db w) run = Some row" and "\<forall>e\<in>set (events (db w)). inline (e_payload e)" and "artifacts (db w) = []"
  shows "\<exists>b. export_evidence loads run w = (Inr b, w)"
proof -
  obtain eps where "mapM (exported_event loads) (events_of run (db w)) w = (Inr eps, w)"
    using inline_events [of "events_of run (db w)" loads w] assms(2) by (auto simp: events_of_def)
  then show ?thesis
    using assms(1,3) by (simp add: export_evidence_def exec final_state_def load_state_def artifacts_of_def)
qed

lemma demo_log: "(map (\<lambda>e. inline (e_payload e)) (events (db demo_claimed)), artifacts (db demo_claimed)) = ([True, True, True], [])"
  by code_simp

theorem evidence_sealed_witness:
  "\<exists>b. export_evidence (\<lambda>_. None) ''run_0'' demo_claimed = (Inr b, demo_claimed) \<and>
     entry b ''bundle_hash'' = JStr (hash_of demo_claimed (JObj (filter (\<lambda>e. fst e \<noteq> ''bundle_hash'') b)))"
proof (rule demo_claimed_run)
  fix r
  assume r: "find_run (db demo_claimed) ''run_0'' = Some r"
  have "\<forall>e\<in>set (events (db demo_claimed)). inline (e_payload e)"
    using demo_log by (auto simp: map_eq_Cons_conv)
  with inline_export [OF r] demo_log
  obtain b where b: "export_evidence (\<lambda>_. None) ''run_0'' demo_claimed = (Inr b, demo_claimed)" by blast
  from evidence_sealed [OF b] b show ?thesis by blast
qed

definition mailing_agent :: agent_func where
  "mailing_agent state = Perform (Call_Tool ''mail'' demo_args) (\<lambda>_. Finish (Inr JNull))"

theorem shadow_run_calls_nothing_witness:
  "calls (snd (run_shadow (\<lambda>_. None) demo_gateway mailing_agent ''run_0'' ''Agent'' demo_claimed)) = calls demo_claimed"
proof (rule shadow_run_calls_nothing)
  show "only_managed demo_gateway" by (auto simp: only_managed_def demo_gateway_def managed_def demo_tool_def split: if_splits)
  show "foreign_calls store_call (mailing_agent state)" for state by (simp add: mailing_agent_def)
qed


lemma demo_readable:
  "map (\<lambda>e. retrievable demo_claimed (payload_ref (repr_float demo_claimed) (e_payload e))) (events_of ''run_0'' (db demo_claimed)) = [True, True, True]"
  by code_simp

theorem replay_exact_witness:
  "\<exists>s. replay ''run_0'' demo_claimed = (Inr s, demo_claimed) \<and> rp_events s = length (events_of ''run_0'' (db demo_claimed)) \<and>
     rp_hash s = hash_of demo_claimed (JList (map (digest_entry (repr_float demo_claimed)) (events_of ''run_0'' (db demo_claimed))))"
proof (rule demo_claimed_run)
  fix r
  assume r: "find_run (db demo_claimed) ''run_0'' = Some r"
  have "\<forall>e\<in>set (events_of ''run_0'' (db demo_claimed)). retrievable demo_claimed (payload_ref (repr_float demo_claimed) (e_payload e))"
    using demo_readable by (auto simp: map_eq_Cons_conv)
  moreover have "artifacts_of ''run_0'' (db demo_claimed) = []" using demo_log by (simp add: artifacts_of_def)
  ultimately obtain s where s: "fst (replay ''run_0'' demo_claimed) = Inr s"
    using replay_exact [of "''run_0''" demo_claimed] r by auto
  moreover have "snd (replay ''run_0'' demo_claimed) = demo_claimed" using replay_exact [of "''run_0''" demo_claimed] by blast
  ultimately show ?thesis using replay_exact [of "''run_0''" demo_claimed] by (cases "replay ''run_0'' demo_claimed") auto
qed

end
