(* ===== verification/Failure.thy ===== *)
theory Failure
  imports Diff "HOL-Library.Product_Lexorder"
begin

text \<open>
  The failure read model of \<open>src/agentledger/failure.py\<close>: envelopes that normalize what failed, made from the rows of a
  run, and their life cycle. Every builder takes dicts, as the code does; the text of a float is the parameter \<open>fr\<close>.
\<close>

section \<open>Text\<close>

text \<open>\<open>_safe_dict\<close>, \<open>_text\<close>, \<open>_message\<close>, and \<open>str(row.get(k) or "")\<close>.\<close>

definition safe_dict :: "json \<Rightarrow> dict" where
  "safe_dict v = (case v of JObj es \<Rightarrow> es | _ \<Rightarrow> [])"

definition has_text :: "json \<Rightarrow> bool" where
  "has_text v \<longleftrightarrow> v \<noteq> JNull \<and> v \<noteq> JStr []"

definition text_of :: "(rat \<Rightarrow> string) \<Rightarrow> json \<Rightarrow> string option" where
  "text_of fr v = (if has_text v then Some (py_str fr v) else None)"

definition message :: "(rat \<Rightarrow> string) \<Rightarrow> json list \<Rightarrow> string" where
  "message fr vs = (case filter has_text vs of [] \<Rightarrow> ''failure signal'' | v # _ \<Rightarrow> py_str fr v)"

definition word :: "(rat \<Rightarrow> string) \<Rightarrow> dict \<Rightarrow> string \<Rightarrow> string" where
  "word fr d k = py_str fr (py_or (entry d k) (JStr []))"

text \<open>
  \<open>_slug\<close>: letters and digits in lower case, everything else a dash, no dash at the ends, and pairs of dashes replaced as
  long as there is one.
\<close>

fun dash_pair :: "string \<Rightarrow> bool" where
  "dash_pair (c # d # s) = (c = CHR ''-'' \<and> d = CHR ''-'' \<or> dash_pair (d # s))"
| "dash_pair _ = False"

fun replace_pairs :: "string \<Rightarrow> string" where
  "replace_pairs (c # d # s) =
     (if c = CHR ''-'' \<and> d = CHR ''-'' then CHR ''-'' # replace_pairs s else c # replace_pairs (d # s))"
| "replace_pairs s = s"

lemma replace_pairs_length: "length (replace_pairs s) \<le> length s"
  by (induction s rule: replace_pairs.induct) auto

lemma replace_pairs_shorter: "dash_pair s \<Longrightarrow> length (replace_pairs s) < length s"
proof (induction s rule: replace_pairs.induct)
  case (1 c d s)
  then show ?case using replace_pairs_length [of s] by (auto simp: le_imp_less_Suc less_Suc_eq_le)
qed simp_all

function squeeze :: "string \<Rightarrow> string" where
  "squeeze s = (if dash_pair s then squeeze (replace_pairs s) else s)"
  by pat_completeness auto
termination by (relation "measure length") (simp_all add: replace_pairs_shorter)

declare squeeze.simps [simp del]

lemma squeeze_code [code]: "squeeze s = (case dash_pair s of True \<Rightarrow> squeeze (replace_pairs s) | False \<Rightarrow> s)"
  by (simp add: squeeze.simps [of s] split: bool.split)

definition slug :: "string \<Rightarrow> string" where
  "slug s =
     (let squeezed = squeeze (strip_chars ''-'' (lower (map (\<lambda>c. if is_alnum c then c else CHR ''-'') s))) in
      if squeezed = [] then ''unknown'' else squeezed)"

definition failure_id :: "string \<Rightarrow> string \<Rightarrow> string \<Rightarrow> string" where
  "failure_id run kind source = ''failure-'' @ join ''-'' (map slug (filter (\<lambda>part. part \<noteq> []) [run, kind, source]))"

fun mentions :: "string \<Rightarrow> string \<Rightarrow> bool" where
  "mentions [] p = (p = [])"
| "mentions (c # s) p = (starts_with p (c # s) \<or> mentions s p)"

definition category_from_text :: "(rat \<Rightarrow> string) \<Rightarrow> json list \<Rightarrow> string \<Rightarrow> string" where
  "category_from_text fr vs dflt =
     (let text = join '' '' (map (\<lambda>v. lower (py_str fr v)) (filter (\<lambda>v. v \<noteq> JNull) vs)) in
      case filter (mentions text) [''sandbox'', ''budget'', ''policy'', ''model'', ''tool'', ''runtime''] of
        category # _ \<Rightarrow> category
      | [] \<Rightarrow>
          if mentions text ''approval'' \<or> mentions text ''permission'' \<or> mentions text ''denied'' then ''policy''
          else if mentions text ''lease'' \<or> mentions text ''worker'' then ''runtime''
          else if mentions text ''cancel'' then ''cancellation''
          else if mentions text ''retry'' then ''retry''
          else dflt)"

section \<open>References\<close>

definition ref_dict :: "string \<Rightarrow> string \<Rightarrow> json" where
  "ref_dict kind v = JObj [(''kind'', JStr kind), (''value'', JStr v)]"

definition refs_of :: "(rat \<Rightarrow> string) \<Rightarrow> (string \<times> json) list \<Rightarrow> json list" where
  "refs_of fr kvs = map (\<lambda>e. ref_dict (fst e) (py_str fr (snd e))) (filter (\<lambda>e. has_text (snd e)) kvs)"

text \<open>The keyword arguments of \<open>_refs\<close> in their order.\<close>

definition refs :: "(rat \<Rightarrow> string) \<Rightarrow> json \<Rightarrow> json \<Rightarrow> json \<Rightarrow> json \<Rightarrow> json \<Rightarrow> json list" where
  "refs fr step_id tool_name approval_id event_seq blob_ref =
     refs_of fr [(''step'', step_id), (''tool'', tool_name), (''approval'', approval_id), (''event'', event_seq), (''blob'', blob_ref)]"

definition ref_key :: "(rat \<Rightarrow> string) \<Rightarrow> json \<Rightarrow> (string \<times> string) list" where
  "ref_key fr ref =
     (case ref of
        JObj es \<Rightarrow> if entry es ''kind'' = JNull \<or> entry es ''value'' = JNull then []
          else [(py_str fr (entry es ''kind''), py_str fr (entry es ''value''))]
      | _ \<Rightarrow> [])"

definition list_items :: "json \<Rightarrow> json list" where
  "list_items v = (case v of JList xs \<Rightarrow> xs | _ \<Rightarrow> [])"

text \<open>The first of all items that have the same key.\<close>

fun first_seen :: "('a \<Rightarrow> 'b) \<Rightarrow> 'b list \<Rightarrow> 'a list \<Rightarrow> 'a list" where
  "first_seen key seen [] = []"
| "first_seen key seen (x # xs) =
     (if key x \<in> set seen then first_seen key seen xs else x # first_seen key (key x # seen) xs)"

definition merge_refs :: "(rat \<Rightarrow> string) \<Rightarrow> json list \<Rightarrow> json list" where
  "merge_refs fr vs =
     map (\<lambda>k. ref_dict (fst k) (snd k)) (first_seen id [] (concat (map (\<lambda>v. concat (map (ref_key fr) (list_items v))) vs)))"

section \<open>Envelopes\<close>

definition FAILURE_ENVELOPE_SCHEMA_VERSION :: string where
  "FAILURE_ENVELOPE_SCHEMA_VERSION = ''agentledger.failure.envelope.v1''"

definition FAILURE_EVENT_TYPES :: "string list" where
  "FAILURE_EVENT_TYPES = [''failure_classified'', ''error_raised'', ''step_failed'', ''step_retry_scheduled'', ''step_waiting_human'',
     ''lease_expired'', ''run_cancel_requested'', ''run_cancelled'', ''step_cancelled'', ''model_call_failed'', ''tool_call_failed'',
     ''tool_approval_required'', ''tool_call_blocked'']"

text \<open>The keyword arguments of \<open>_envelope\<close>.\<close>

record signal =
  f_run :: string
  f_kind :: string
  f_source :: string
  f_category :: string
  f_status :: string
  f_severity :: string
  f_recoverability :: string
  f_retryability :: string
  f_owner :: string
  f_message :: string
  f_step :: "string option"
  f_tool :: "string option"
  f_approval :: "string option"
  f_seq :: json
  f_type :: "string option"
  f_time :: json
  f_causal :: "json list"
  f_evidence :: "json list"
  f_details :: dict

definition envelope :: "signal \<Rightarrow> dict" where
  "envelope s =
     [(''schema_version'', JStr FAILURE_ENVELOPE_SCHEMA_VERSION), (''failure_id'', JStr (failure_id (f_run s) (f_kind s) (f_source s))),
      (''run_id'', JStr (f_run s)), (''source_kind'', JStr (f_kind s)), (''source_id'', JStr (f_source s)),
      (''category'', JStr (f_category s)), (''status'', JStr (f_status s)), (''severity'', JStr (f_severity s)),
      (''recoverability'', JStr (f_recoverability s)), (''retryability'', JStr (f_retryability s)), (''owner'', JStr (f_owner s)),
      (''message'', JStr (f_message s)), (''causal_refs'', JList (f_causal s)), (''evidence_refs'', JList (f_evidence s))] @
     drop_none [(''step_id'', opt_str (f_step s)), (''tool_name'', opt_str (f_tool s)), (''approval_id'', opt_str (f_approval s)),
      (''event_seq'', f_seq s), (''event_type'', opt_str (f_type s)), (''occurred_at'', f_time s)] @
     (if f_details s = [] then [] else [(''details'', JObj (f_details s))])"

definition ended_badly :: "string \<Rightarrow> bool" where
  "ended_badly run_status \<longleftrightarrow> run_status \<in> {''failed'', ''cancelled''}"

definition happened_at :: "dict \<Rightarrow> json" where
  "happened_at row = py_or (entry row ''updated_at'') (entry row ''created_at'')"

definition or_else :: "string option \<Rightarrow> string \<Rightarrow> string" where
  "or_else x y = (case x of Some s \<Rightarrow> s | None \<Rightarrow> y)"

definition from_step :: "(rat \<Rightarrow> string) \<Rightarrow> string \<Rightarrow> string \<Rightarrow> dict \<Rightarrow> signal" where
  "from_step fr run run_status row =
     (let status = word fr row ''status'';
          (failure_status, severity, recoverability, retryability) =
            (if status = ''retry_scheduled'' then (''recovery_scheduled'', ''warn'', ''auto_retry'', ''retryable'')
             else if status = ''waiting_human'' then (''waiting_human'', ''warn'', ''human_required'', ''unknown'')
             else if ended_badly run_status then (''terminal'', ''risk'', ''terminal'', ''not_retryable'')
             else (''failed'', ''risk'', ''recoverable'', ''unknown''));
          step = text_of fr (entry row ''step_id'');
          where_refs = refs fr (opt_str step) JNull JNull JNull JNull in
      \<lparr>f_run = run, f_kind = ''step'', f_source = or_else step run,
       f_category = category_from_text fr [entry row ''last_error_type'', entry row ''last_error''] ''agent'',
       f_status = failure_status, f_severity = severity, f_recoverability = recoverability, f_retryability = retryability,
       f_owner = ''agent'', f_message = message fr [entry row ''last_error'', entry row ''last_error_type'', JStr ''step failure''],
       f_step = step, f_tool = None, f_approval = None, f_seq = JNull, f_type = None, f_time = happened_at row,
       f_causal = where_refs, f_evidence = where_refs,
       f_details = [(''attempt'', entry row ''attempt''), (''last_error_type'', entry row ''last_error_type''),
         (''last_error'', entry row ''last_error''), (''step_status'', entry row ''status'')]\<rparr>)"


definition from_ledger :: "(rat \<Rightarrow> string) \<Rightarrow> string \<Rightarrow> dict \<Rightarrow> signal" where
  "from_ledger fr run row =
     (let terminal = word fr row ''status'' \<in> {''FAILED'', ''ERROR''};
          step = text_of fr (entry row ''step_id''); tool = text_of fr (entry row ''tool_name'') in
      \<lparr>f_run = run, f_kind = ''tool_ledger'',
       f_source = or_else (text_of fr (entry row ''ledger_id'')) (or_else tool (or_else step run)), f_category = ''tool'',
       f_status = (if terminal then ''terminal'' else ''unknown_side_effect''), f_severity = (if terminal then ''risk'' else ''warn''),
       f_recoverability = (if terminal then ''terminal'' else ''manual_verification''),
       f_retryability = (if terminal then ''not_retryable'' else ''unknown''), f_owner = ''tool'',
       f_message = message fr [entry row ''error'', entry row ''error_type'', JStr ''tool side effect requires verification''],
       f_step = step, f_tool = tool, f_approval = None, f_seq = JNull, f_type = None, f_time = happened_at row,
       f_causal = refs fr (opt_str step) (opt_str tool) JNull JNull JNull,
       f_evidence = refs fr (opt_str step) (opt_str tool) JNull JNull (entry row ''response_ref''),
       f_details = [(''ledger_status'', entry row ''status''), (''error_type'', entry row ''error_type''),
         (''idempotency_key'', entry row ''idempotency_key''), (''external_id'', entry row ''external_id'')]\<rparr>)"

definition from_approval :: "(rat \<Rightarrow> string) \<Rightarrow> string \<Rightarrow> string \<Rightarrow> dict \<Rightarrow> signal" where
  "from_approval fr run run_status row =
     (let denied = (word fr row ''status'' = ''DENIED'');
          step = text_of fr (entry row ''step_id''); tool = text_of fr (entry row ''tool_name'');
          approval = text_of fr (entry row ''approval_id'');
          where_refs = refs fr (opt_str step) (opt_str tool) (opt_str approval) JNull JNull in
      \<lparr>f_run = run, f_kind = ''approval'', f_source = or_else approval (or_else tool (or_else step run)),
       f_category = (if denied then ''policy'' else ''approval''), f_status = (if denied then ''blocked'' else ''waiting_human''),
       f_severity = (if denied then ''risk'' else ''warn''),
       f_recoverability = (if denied \<and> ended_badly run_status then ''terminal'' else ''human_required''),
       f_retryability = (if denied then ''not_retryable'' else ''unknown''), f_owner = ''policy'',
       f_message = message fr [entry row ''decision_reason'', entry row ''reason'',
         JStr (if \<not> denied then ''approval is pending'' else ''approval denied'')],
       f_step = step, f_tool = tool, f_approval = approval, f_seq = JNull, f_type = None, f_time = happened_at row,
       f_causal = where_refs, f_evidence = where_refs,
       f_details = [(''approval_status'', entry row ''status''), (''risk_level'', entry row ''risk_level''),
         (''requested_by'', entry row ''requested_by''), (''approved_by'', entry row ''approved_by'')]\<rparr>)"

text \<open>How an event is read.\<close>

definition category_from_event :: "(rat \<Rightarrow> string) \<Rightarrow> string \<Rightarrow> dict \<Rightarrow> string" where
  "category_from_event fr event_type payload =
     (if event_type = ''model_call_failed'' then ''model''
      else if event_type \<in> {''tool_call_failed'', ''tool_call_blocked'', ''tool_approval_required''} then ''tool''
      else if event_type \<in> {''run_cancel_requested'', ''run_cancelled'', ''step_cancelled''} then ''cancellation''
      else if event_type = ''lease_expired'' then ''runtime''
      else if event_type = ''step_retry_scheduled'' then ''retry''
      else if event_type = ''step_waiting_human'' then ''approval''
      else category_from_text fr [JStr event_type, entry payload ''error_type'', entry payload ''error'', entry payload ''reason''] ''agent'')"

definition event_failure_status :: "string \<Rightarrow> dict \<Rightarrow> string \<Rightarrow> string" where
  "event_failure_status event_type payload run_status =
     (if event_type \<in> {''step_failed'', ''run_cancelled'', ''step_cancelled''} \<or> ended_badly run_status \<and> event_type = ''error_raised''
      then ''terminal''
      else if event_type = ''tool_call_blocked'' then ''blocked''
      else if event_type \<in> {''step_retry_scheduled'', ''lease_expired''} then ''recovery_scheduled''
      else if event_type \<in> {''step_waiting_human'', ''tool_approval_required''} then ''waiting_human''
      else if event_type = ''failure_classified'' then ''classified''
      else if entry payload ''retryable'' = JBool True then ''recoverable''
      else ''failed'')"

definition event_recoverability :: "string \<Rightarrow> dict \<Rightarrow> string \<Rightarrow> string" where
  "event_recoverability event_type payload run_status =
     (if ended_badly run_status \<and> event_type \<in> {''step_failed'', ''run_cancelled'', ''step_cancelled''} then ''terminal''
      else if event_type \<in> {''step_retry_scheduled'', ''lease_expired''} then ''auto_retry''
      else if event_type \<in> {''step_waiting_human'', ''tool_approval_required''} then ''human_required''
      else if event_type = ''tool_call_blocked'' then ''manual_intervention''
      else if entry payload ''retryable'' = JBool True then ''recoverable''
      else ''unknown'')"

definition event_retryability :: "string \<Rightarrow> dict \<Rightarrow> string \<Rightarrow> string" where
  "event_retryability event_type payload recoverability =
     (if entry payload ''retryable'' = JBool True \<or> recoverability = ''auto_retry'' then ''retryable''
      else if entry payload ''retryable'' = JBool False \<or> event_type \<in> {''tool_call_blocked'', ''run_cancelled'', ''step_cancelled''}
      then ''not_retryable''
      else ''unknown'')"

definition owner_for_category :: "string \<Rightarrow> string" where
  "owner_for_category category =
     (if category \<in> {''tool'', ''model'', ''policy'', ''sandbox'', ''budget'', ''runtime''} then category
      else if category \<in> {''approval'', ''cancellation'', ''retry''} then ''runtime''
      else ''agent'')"

definition from_event :: "(rat \<Rightarrow> string) \<Rightarrow> string \<Rightarrow> string \<Rightarrow> dict \<Rightarrow> signal" where
  "from_event fr run run_status ev =
     (let payload = safe_dict (entry ev ''payload'');
          event_type = word fr ev ''type'';
          category = category_from_event fr event_type payload;
          status = event_failure_status event_type payload run_status;
          recoverability = event_recoverability event_type payload run_status;
          step = text_of fr (py_or (entry ev ''step_id'') (entry payload ''step_id''));
          tool = text_of fr (py_or (entry payload ''tool_name'') (py_or (entry payload ''tool'') (entry payload ''name'')));
          approval = text_of fr (entry payload ''approval_id'');
          seq = entry ev ''seq'' in
      \<lparr>f_run = run, f_kind = ''event'', f_source = (if seq \<noteq> JNull then py_str fr seq else event_type), f_category = category,
       f_status = status, f_severity = (if status \<in> {''terminal'', ''blocked'', ''failed''} then ''risk'' else ''warn''),
       f_recoverability = recoverability, f_retryability = event_retryability event_type payload recoverability,
       f_owner = owner_for_category category,
       f_message = message fr [entry payload ''error'', entry payload ''reason'', entry payload ''error_type'', JStr event_type],
       f_step = step, f_tool = tool, f_approval = approval, f_seq = seq, f_type = Some event_type, f_time = entry ev ''timestamp'',
       f_causal = refs fr (opt_str step) (opt_str tool) (opt_str approval) seq JNull,
       f_evidence = refs fr (opt_str step) (opt_str tool) (opt_str approval) seq (entry ev ''payload_ref''),
       f_details = (if payload = [] then [] else [(''payload'', JObj payload)])\<rparr>)"

definition cancelled_run :: "string \<Rightarrow> signal" where
  "cancelled_run run =
     \<lparr>f_run = run, f_kind = ''run'', f_source = run, f_category = ''cancellation'', f_status = ''terminal'', f_severity = ''risk'',
      f_recoverability = ''terminal'', f_retryability = ''not_retryable'', f_owner = ''runtime'', f_message = ''run was cancelled'',
      f_step = None, f_tool = None, f_approval = None, f_seq = JNull, f_type = None, f_time = JNull,
      f_causal = [ref_dict ''run'' run], f_evidence = [], f_details = []\<rparr>"

definition dedupe_envelopes :: "(rat \<Rightarrow> string) \<Rightarrow> dict list \<Rightarrow> dict list" where
  "dedupe_envelopes fr es = first_seen (\<lambda>e. word fr e ''failure_id'') [] (filter (\<lambda>e. word fr e ''failure_id'' \<noteq> []) es)"

definition with_status :: "(rat \<Rightarrow> string) \<Rightarrow> string list \<Rightarrow> dict list \<Rightarrow> dict list" where
  "with_status fr statuses = filter (\<lambda>row. word fr row ''status'' \<in> set statuses)"

text \<open>The signals of the rows in the order of the code, before the ones of the same failure id are dropped.\<close>

definition row_signals ::
  "(rat \<Rightarrow> string) \<Rightarrow> string \<Rightarrow> string \<Rightarrow> dict list \<Rightarrow> dict list \<Rightarrow> dict list \<Rightarrow> dict list \<Rightarrow> signal list" where
  "row_signals fr run run_status srows lrows prows erows =
     map (from_step fr run run_status) (with_status fr [''failed'', ''retry_scheduled'', ''waiting_human''] srows) @
     map (from_ledger fr run) (with_status fr [''PENDING_VERIFICATION'', ''FAILED'', ''ERROR''] lrows) @
     map (from_approval fr run run_status) (with_status fr [''PENDING'', ''DENIED''] prows) @
     map (from_event fr run run_status) (filter (\<lambda>e. word fr e ''type'' \<in> set FAILURE_EVENT_TYPES) erows)"

definition failure_envelopes ::
  "(rat \<Rightarrow> string) \<Rightarrow> string \<Rightarrow> string \<Rightarrow> dict list \<Rightarrow> dict list \<Rightarrow> dict list \<Rightarrow> dict list \<Rightarrow> dict list" where
  "failure_envelopes fr run run_status srows lrows prows erows =
     (let signals = row_signals fr run run_status srows lrows prows erows;
          more = (if run_status = ''cancelled'' \<and> \<not> (\<exists>s\<in>set signals. f_category s = ''cancellation'') then [cancelled_run run] else []) in
      dedupe_envelopes fr (map envelope (signals @ more)))"

section \<open>Life cycles\<close>

definition FAILURE_LIFECYCLE_SCHEMA_VERSION :: string where
  "FAILURE_LIFECYCLE_SCHEMA_VERSION = ''agentledger.failure.lifecycle.v1''"

definition lifecycle_event ::
  "string \<Rightarrow> string \<Rightarrow> string option \<Rightarrow> string \<Rightarrow> json \<Rightarrow> json \<Rightarrow> string \<Rightarrow> json list \<Rightarrow> dict \<Rightarrow> dict" where
  "lifecycle_event stage run failure msg seq occurred severity where_refs env =
     [(''schema_version'', JStr FAILURE_LIFECYCLE_SCHEMA_VERSION), (''stage'', JStr stage), (''run_id'', JStr run),
      (''message'', JStr msg), (''severity'', JStr severity), (''causal_refs'', JList where_refs)] @
     filter (\<lambda>e. has_text (snd e)) [(''failure_id'', opt_str failure), (''event_seq'', seq), (''occurred_at'', occurred)] @
     (if env = [] then []
      else map (\<lambda>k. (k, entry env k)) [''category'', ''recoverability'', ''retryability'', ''owner''])"

definition recovery_message :: "dict \<Rightarrow> string" where
  "recovery_message env =
     (if entry env ''status'' = JStr ''unknown_side_effect'' \<or> entry env ''recoverability'' = JStr ''manual_verification''
      then ''manual side-effect verification required''
      else if entry env ''status'' = JStr ''waiting_human'' \<or> entry env ''recoverability'' = JStr ''human_required''
      then ''human approval required before resume''
      else ''recovery scheduled'')"

definition word_or :: "(rat \<Rightarrow> string) \<Rightarrow> dict \<Rightarrow> string \<Rightarrow> string \<Rightarrow> string" where
  "word_or fr d k dflt = py_str fr (py_or (entry d k) (JStr dflt))"

definition lifecycle_stages :: "(rat \<Rightarrow> string) \<Rightarrow> string \<Rightarrow> dict \<Rightarrow> (string \<times> string \<times> string) list" where
  "lifecycle_stages fr run_status env =
     (let severity = word_or fr env ''severity'' ''warn''; status = word fr env ''status''; recoverability = word fr env ''recoverability'' in
      [(''failure_detected'', word_or fr env ''message'' ''failure detected'', severity)] @
      (if truthy (entry env ''category'') \<or> entry env ''status'' = JStr ''classified''
       then [(''failure_classified'', word_or fr env ''category'' ''classified'', severity)] else []) @
      (if status = ''recovery_scheduled'' \<or> recoverability = ''auto_retry''
       then [(''failure_recovery_scheduled'', ''runtime recovery scheduled'', ''warn'')] else []) @
      (if status \<in> {''waiting_human'', ''unknown_side_effect''} \<or> recoverability \<in> {''human_required'', ''manual_verification''}
       then [(''failure_recovery_scheduled'', recovery_message env, ''warn'')] else []) @
      (if status = ''recovered'' \<or> run_status = ''completed'' \<and> recoverability \<in> {''auto_retry'', ''recoverable''}
       then [(''failure_recovered'', ''failure recovered'', ''info'')] else []) @
      (if status \<in> {''terminal'', ''blocked''} \<or> recoverability = ''terminal''
       then [(''failure_terminal'', word_or fr env ''message'' ''terminal failure'', ''risk'')] else []))"

definition events_for_envelope :: "(rat \<Rightarrow> string) \<Rightarrow> string \<Rightarrow> dict \<Rightarrow> dict list" where
  "events_for_envelope fr run_status env =
     map (\<lambda>(stage, msg, severity).
       lifecycle_event stage (word fr env ''run_id'') (Some (word fr env ''failure_id'')) msg (entry env ''event_seq'')
         (entry env ''occurred_at'') severity (merge_refs fr [entry env ''causal_refs'', entry env ''evidence_refs'']) env)
       (lifecycle_stages fr run_status env)"

definition regression_event :: "(rat \<Rightarrow> string) \<Rightarrow> string \<Rightarrow> dict \<Rightarrow> dict" where
  "regression_event fr run ev =
     (let payload = safe_dict (entry ev ''payload'') in
      lifecycle_event ''failure_regressed'' run (text_of fr (entry payload ''failure_id''))
        (message fr [entry payload ''message'', JStr ''failure regressed'']) (entry ev ''seq'') (entry ev ''timestamp'') ''risk''
        (refs fr JNull JNull JNull (entry ev ''seq'') JNull) [])"

text \<open>The sort key: time and number default to zero where Python cannot read them.\<close>

definition right_or :: "'a \<Rightarrow> 'e + 'a \<Rightarrow> 'a" where
  "right_or d r = (case r of Inl e \<Rightarrow> d | Inr x \<Rightarrow> x)"

definition lifecycle_sort_key :: "(rat \<Rightarrow> string) \<Rightarrow> dict \<Rightarrow> rat \<times> int \<times> string \<times> string" where
  "lifecycle_sort_key fr row =
     (right_or 0 (py_float (entry row ''occurred_at'')), right_or 0 (py_int (entry row ''event_seq'')),
      word fr row ''stage'', word fr row ''failure_id'')"

definition dedupe_lifecycle_events :: "(rat \<Rightarrow> string) \<Rightarrow> dict list \<Rightarrow> dict list" where
  "dedupe_lifecycle_events fr = first_seen (\<lambda>e. (word fr e ''stage'', word fr e ''failure_id'', word fr e ''event_seq'')) []"

definition count_in :: "string \<Rightarrow> dict \<Rightarrow> dict" where
  "count_in k d = AList.update k (JInt (right_or 0 (py_int (entry_or (JInt 0) d k)) + 1)) d"

definition has_stage :: "string list \<Rightarrow> dict list \<Rightarrow> bool" where
  "has_stage stages rows \<longleftrightarrow> (\<exists>row\<in>set rows. \<exists>s\<in>set stages. entry row ''stage'' = JStr s)"

definition lifecycle_rows :: "(rat \<Rightarrow> string) \<Rightarrow> string \<Rightarrow> string \<Rightarrow> dict list \<Rightarrow> dict list \<Rightarrow> dict list" where
  "lifecycle_rows fr run run_status envs erows =
     dedupe_lifecycle_events fr (sort_key (lifecycle_sort_key fr)
       (concat (map (events_for_envelope fr run_status) envs) @
        map (regression_event fr run) (filter (\<lambda>e. word fr e ''type'' = ''failure_regressed'') erows)))"

definition failure_lifecycle :: "(rat \<Rightarrow> string) \<Rightarrow> string \<Rightarrow> string \<Rightarrow> dict list \<Rightarrow> dict list \<Rightarrow> dict" where
  "failure_lifecycle fr run run_status envs erows =
     (let rows = lifecycle_rows fr run run_status envs erows in
      [(''schema_version'', JStr FAILURE_LIFECYCLE_SCHEMA_VERSION), (''run_id'', JStr run), (''run_status'', JStr run_status),
       (''events'', JList (map JObj rows)), (''stage_counts'', JObj (fold (\<lambda>row. count_in (word fr row ''stage'')) rows [])),
       (''terminal'', JBool (has_stage [''failure_terminal''] rows)),
       (''recoverable'', JBool (has_stage [''failure_recovery_scheduled'', ''failure_recovered''] rows)),
       (''regressed'', JBool (has_stage [''failure_regressed''] rows))])"

end
