(* ===== verification/Failure_Report.thy ===== *)
theory Failure_Report
  imports Failure
begin

text \<open>
  What is derived from failure envelopes in \<open>src/agentledger/failure.py\<close>: the causal graph, the replay plan, alerts, the
  comparison of two sets of failures, the export to other tools, and \<open>FailureAttributionReporter.report\<close>, which builds all
  of them from the tables.
\<close>

definition objs :: "dict list \<Rightarrow> json" where
  "objs ds = JList (map JObj ds)"

definition num :: "'a list \<Rightarrow> json" where
  "num xs = JInt (int (length xs))"

section \<open>The causal graph\<close>

text \<open>Nodes by key in the order they were added, and edges as (source, target, kind).\<close>

record graph =
  g_nodes :: "(string \<times> dict) list"
  g_edges :: "(string \<times> string \<times> string) list"

definition node_key :: "(rat \<Rightarrow> string) \<Rightarrow> string \<Rightarrow> json \<Rightarrow> string" where
  "node_key fr kind v = kind @ '':'' @ slug (py_str fr (if has_text v then v else JStr ''unknown''))"

definition add_node :: "(rat \<Rightarrow> string) \<Rightarrow> string \<Rightarrow> json \<Rightarrow> dict \<Rightarrow> graph \<Rightarrow> graph" where
  "add_node fr kind v attrs g =
     (let key = node_key fr kind v in
      if map_of (g_nodes g) key \<noteq> None then g
      else g\<lparr>g_nodes := g_nodes g @ [(key, [(''id'', JStr key), (''kind'', JStr kind)] @ drop_none attrs)]\<rparr>)"

definition add_edge :: "string \<Rightarrow> string \<Rightarrow> string \<Rightarrow> graph \<Rightarrow> graph" where
  "add_edge source target kind g =
     (if (source, target, kind) \<in> set (g_edges g) then g else g\<lparr>g_edges := g_edges g @ [(source, target, kind)]\<rparr>)"

text \<open>A node below the run, and an edge from its step when it names one.\<close>

definition add_below ::
  "(rat \<Rightarrow> string) \<Rightarrow> string \<Rightarrow> string \<Rightarrow> json \<Rightarrow> dict \<Rightarrow> string \<Rightarrow> string \<Rightarrow> json \<Rightarrow> graph \<Rightarrow> graph" where
  "add_below fr run_node kind v attrs run_edge step_edge step g =
     (let key = node_key fr kind v; g1 = add_edge run_node key run_edge (add_node fr kind v attrs g) in
      if truthy step then add_edge (node_key fr ''step'' step) key step_edge g1 else g1)"

definition add_step :: "(rat \<Rightarrow> string) \<Rightarrow> string \<Rightarrow> dict \<Rightarrow> graph \<Rightarrow> graph" where
  "add_step fr run_node step =
     add_below fr run_node ''step'' (entry step ''step_id'') [(''status'', entry step ''status''), (''attempt'', entry step ''attempt'')]
       ''contains_step'' [] JNull"

definition add_event :: "(rat \<Rightarrow> string) \<Rightarrow> string \<Rightarrow> dict \<Rightarrow> graph \<Rightarrow> graph" where
  "add_event fr run_node ev =
     add_below fr run_node ''event'' (entry ev ''seq'') [(''event_type'', entry ev ''type''), (''step_id'', entry ev ''step_id'')]
       ''emitted_event'' ''step_emitted_event'' (entry ev ''step_id'')"

definition add_ledger :: "(rat \<Rightarrow> string) \<Rightarrow> string \<Rightarrow> dict \<Rightarrow> graph \<Rightarrow> graph" where
  "add_ledger fr run_node row =
     add_below fr run_node ''tool'' (entry row ''tool_name'') [(''status'', entry row ''status'')]
       ''used_tool'' ''step_used_tool'' (entry row ''step_id'')"

definition add_approval :: "(rat \<Rightarrow> string) \<Rightarrow> string \<Rightarrow> dict \<Rightarrow> graph \<Rightarrow> graph" where
  "add_approval fr run_node row =
     add_below fr run_node ''approval'' (entry row ''approval_id'') [(''status'', entry row ''status''), (''tool_name'', entry row ''tool_name'')]
       ''requested_approval'' ''step_requested_approval'' (entry row ''step_id'')"

definition cost_node_id :: "(rat \<Rightarrow> string) \<Rightarrow> dict \<Rightarrow> json" where
  "cost_node_id fr row =
     py_or (entry row ''cost_id'') (JStr (py_str fr (entry row ''category'') @ '':'' @ py_str fr (entry row ''name'')))"

definition add_cost :: "(rat \<Rightarrow> string) \<Rightarrow> string \<Rightarrow> dict \<Rightarrow> graph \<Rightarrow> graph" where
  "add_cost fr run_node row =
     add_below fr run_node ''cost'' (cost_node_id fr row) (map (\<lambda>k. (k, entry row k)) [''category'', ''name'', ''amount'', ''unit''])
       ''recorded_cost'' ''step_recorded_cost'' (entry row ''step_id'')"

definition add_ref :: "(rat \<Rightarrow> string) \<Rightarrow> string \<Rightarrow> json \<Rightarrow> graph \<Rightarrow> graph" where
  "add_ref fr failure_node ref g =
     (let d = safe_dict ref; kind = word_or fr d ''kind'' ''ref'' in
      add_edge (node_key fr kind (entry d ''value'')) failure_node ''caused_or_evidenced'' (add_node fr kind (entry d ''value'') [] g))"

definition add_failure :: "(rat \<Rightarrow> string) \<Rightarrow> string \<Rightarrow> dict \<Rightarrow> graph \<Rightarrow> graph" where
  "add_failure fr run_node env g =
     (let key = node_key fr ''failure'' (entry env ''failure_id'') in
      fold (add_ref fr key) (merge_refs fr [entry env ''causal_refs'', entry env ''evidence_refs''])
        (add_edge run_node key ''has_failure''
          (add_node fr ''failure'' (entry env ''failure_id'') (map (\<lambda>k. (k, entry env k)) [''category'', ''status'', ''owner'']) g)))"

definition causal_graph ::
  "(rat \<Rightarrow> string) \<Rightarrow> string \<Rightarrow> string \<Rightarrow> dict list \<Rightarrow> dict list \<Rightarrow> dict list \<Rightarrow> dict list \<Rightarrow> dict list \<Rightarrow> dict list \<Rightarrow> graph" where
  "causal_graph fr run run_status envs srows lrows prows erows crows =
     (let run_node = node_key fr ''run'' (JStr run) in
      (fold (add_failure fr run_node) envs \<circ> fold (add_cost fr run_node) crows \<circ> fold (add_approval fr run_node) prows \<circ>
       fold (add_ledger fr run_node) lrows \<circ> fold (add_event fr run_node) erows \<circ> fold (add_step fr run_node) srows)
        (add_node fr ''run'' (JStr run) [(''status'', JStr run_status)] \<lparr>g_nodes = [], g_edges = []\<rparr>))"

definition FAILURE_CAUSAL_GRAPH_SCHEMA_VERSION :: string where
  "FAILURE_CAUSAL_GRAPH_SCHEMA_VERSION = ''agentledger.failure.causal_graph.v1''"

definition edge_dict :: "string \<times> string \<times> string \<Rightarrow> dict" where
  "edge_dict e = [(''source'', JStr (fst e)), (''target'', JStr (fst (snd e))), (''kind'', JStr (snd (snd e)))]"

definition graph_to_dict :: "(rat \<Rightarrow> string) \<Rightarrow> string \<Rightarrow> graph \<Rightarrow> dict" where
  "graph_to_dict fr run g =
     [(''schema_version'', JStr FAILURE_CAUSAL_GRAPH_SCHEMA_VERSION), (''run_id'', JStr run),
      (''nodes'', objs (sort_key (\<lambda>row. py_str fr (entry row ''id'')) (map snd (g_nodes g)))),
      (''edges'', objs (map edge_dict (sort (g_edges g)))),
      (''summary'', JObj [(''node_count'', num (g_nodes g)), (''edge_count'', num (g_edges g)),
         (''failure_node_count'', num (filter (\<lambda>n. entry (snd n) ''kind'' = JStr ''failure'') (g_nodes g)))])]"

section \<open>The replay plan\<close>

definition FAILURE_REPLAY_PLAN_SCHEMA_VERSION :: string where
  "FAILURE_REPLAY_PLAN_SCHEMA_VERSION = ''agentledger.failure.replay_plan.v1''"

text \<open>\<open>d.update(u)\<close>.\<close>

definition updated :: "dict \<Rightarrow> dict \<Rightarrow> dict" where
  "updated d u = fold (\<lambda>e. AList.update (fst e) (snd e)) u d"

definition plain_action :: "string \<Rightarrow> string \<Rightarrow> dict \<Rightarrow> dict" where
  "plain_action category status env =
     [(''failure_id'', entry env ''failure_id''), (''category'', JStr category), (''status'', JStr status),
      (''replay_action'', JStr ''reuse_recorded_evidence''), (''replay_safe'', JBool True), (''requires_manual_verification'', JBool False),
      (''reason'', JStr ''recorded runtime evidence can be inspected without calling external systems'')]"

definition status_update :: "string \<Rightarrow> string \<Rightarrow> dict" where
  "status_update status recoverability =
     (if status = ''unknown_side_effect'' \<or> recoverability = ''manual_verification'' then
        [(''replay_action'', JStr ''manual_verify_side_effect''), (''replay_safe'', JBool False), (''requires_manual_verification'', JBool True),
         (''reason'', JStr ''Tool Ledger recorded an unknown side-effect state; replay must not call the external tool again automatically'')]
      else if status = ''waiting_human'' \<or> recoverability = ''human_required'' then
        [(''replay_action'', JStr ''resume_after_approval''),
         (''reason'', JStr ''runtime can resume after human approval without repeating completed side effects'')]
      else if status = ''recovery_scheduled'' \<or> recoverability = ''auto_retry'' then
        [(''replay_action'', JStr ''retry_from_checkpoint''),
         (''reason'', JStr ''runtime retry is guarded by checkpoint, lease, and Tool Ledger evidence'')]
      else if status \<in> {''terminal'', ''blocked''} then
        [(''replay_action'', JStr ''terminal_stop''),
         (''reason'', JStr ''terminal failure should be replayed as evidence only unless the operator starts a new run'')]
      else [])"

definition boundary_update :: "string \<Rightarrow> string \<Rightarrow> dict \<Rightarrow> dict" where
  "boundary_update category status env =
     (if category \<in> {''tool'', ''sandbox''} \<and> status \<in> {''failed'', ''terminal''} \<and> \<not> truthy (entry env ''evidence_refs'') then
        [(''replay_safe'', JBool False), (''requires_manual_verification'', JBool True),
         (''reason'', JStr ''external boundary failure lacks evidence refs for automatic replay'')]
      else [])"

definition action_for_envelope :: "(rat \<Rightarrow> string) \<Rightarrow> dict \<Rightarrow> dict" where
  "action_for_envelope fr env =
     (let status = word fr env ''status''; category = word fr env ''category'' in
      updated (updated (plain_action category status env) (status_update status (word fr env ''recoverability'')))
        (boundary_update category status env))"

definition replay_plan :: "(rat \<Rightarrow> string) \<Rightarrow> string \<Rightarrow> dict list \<Rightarrow> dict list \<Rightarrow> dict list \<Rightarrow> dict" where
  "replay_plan fr run envs lrows erows =
     (let actions = map (action_for_envelope fr) envs;
          unsafe = filter (\<lambda>a. \<not> truthy (entry a ''replay_safe'')) actions;
          manual = filter (\<lambda>a. truthy (entry a ''requires_manual_verification'')) actions in
      [(''schema_version'', JStr FAILURE_REPLAY_PLAN_SCHEMA_VERSION), (''run_id'', JStr run), (''mode'', JStr ''evidence_only''),
       (''safe_to_replay'', JBool (unsafe = [])), (''unsafe_side_effect_count'', num unsafe), (''manual_verification_count'', num manual),
       (''recorded_tool_call_count'', num lrows), (''recorded_event_count'', num erows), (''actions'', objs actions)])"

section \<open>Alerts\<close>

definition FAILURE_ALERT_SCHEMA_VERSION :: string where
  "FAILURE_ALERT_SCHEMA_VERSION = ''agentledger.failure.alerts.v1''"

text \<open>Round half to even, and \<open>f"{x:.6f}"\<close> of a non-negative number.\<close>

definition round_even :: "rat \<Rightarrow> int" where
  "round_even q =
     (let f = \<lfloor>q\<rfloor>; d = q - of_int f in
      if d < 1 / 2 then f else if 1 / 2 < d then f + 1 else if even f then f else f + 1)"

definition padded :: "nat \<Rightarrow> string \<Rightarrow> string" where
  "padded n s = replicate (n - length s) CHR ''0'' @ s"

definition fixed6 :: "rat \<Rightarrow> string" where
  "fixed6 q = (let n = nat (round_even (q * 1000000)) in nat_str (n div 1000000) @ ''.'' @ padded 6 (nat_str (n mod 1000000)))"

definition alert_head :: "string \<Rightarrow> string \<Rightarrow> string \<Rightarrow> string \<Rightarrow> json list \<Rightarrow> dict" where
  "alert_head run kind severity msg where_refs =
     [(''schema_version'', JStr FAILURE_ALERT_SCHEMA_VERSION), (''run_id'', JStr run), (''kind'', JStr kind),
      (''severity'', JStr severity), (''message'', JStr msg), (''refs'', JList where_refs)]"

definition failure_refs :: "(rat \<Rightarrow> string) \<Rightarrow> dict list \<Rightarrow> json list" where
  "failure_refs fr envs =
     map (\<lambda>e. ref_dict ''failure'' (py_str fr (entry e ''failure_id''))) (filter (\<lambda>e. truthy (entry e ''failure_id'')) envs)"

definition status_alert ::
  "(rat \<Rightarrow> string) \<Rightarrow> string \<Rightarrow> dict list \<Rightarrow> string \<Rightarrow> string \<Rightarrow> string \<Rightarrow> string \<Rightarrow> dict list" where
  "status_alert fr run envs status kind severity what =
     (let hit = filter (\<lambda>e. entry e ''status'' = JStr status) envs in
      if hit = [] then [] else [alert_head run kind severity (nat_str (length hit) @ what) (failure_refs fr hit)])"

definition total_usd :: "dict list \<Rightarrow> exn + rat" where
  "total_usd crows =
     bindE (mapE (\<lambda>row. py_float (py_or (entry row ''amount'') (JInt 0))) (filter (\<lambda>row. entry row ''unit'' = JStr ''usd'') crows))
       (\<lambda>xs. Inr (sum_list xs))"

definition failure_alerts :: "(rat \<Rightarrow> string) \<Rightarrow> string \<Rightarrow> dict list \<Rightarrow> dict \<Rightarrow> dict list \<Rightarrow> exn + dict" where
  "failure_alerts fr run envs plan crows =
     bindE (total_usd crows) (\<lambda>usd.
     let terminal = status_alert fr run envs ''terminal'' ''terminal_failure'' ''risk'' '' terminal failure(s) recorded'';
         unknown = status_alert fr run envs ''unknown_side_effect'' ''unknown_side_effect'' ''risk'' '' tool side-effect state(s) require manual verification'';
         blocked = status_alert fr run envs ''blocked'' ''policy_or_tool_blocked'' ''warn'' '' failure(s) blocked by policy/tool gateway'';
         costly = (if 0 < usd \<and> terminal \<noteq> [] then
             [alert_head run ''costly_failure'' ''warn'' (''terminal failure consumed $'' @ fixed6 usd) [ref_dict ''run'' run] @
              [(''total_usd'', JFloat (of_int (round_even (usd * 1000000)) / 1000000))]] else []);
         unsafe = entry_or (JInt 0) plan ''unsafe_side_effect_count'';
         stopped = (if truthy unsafe then
             [alert_head run ''unsafe_replay_blocked'' ''risk'' ''failure replay plan blocks unsafe automatic replay'' [ref_dict ''run'' run] @
              [(''unsafe_side_effect_count'', unsafe)]] else []);
         alerts = terminal @ unknown @ blocked @ costly @ stopped in
     Inr [(''schema_version'', JStr FAILURE_ALERT_SCHEMA_VERSION), (''run_id'', JStr run), (''alerts'', objs alerts), (''alert_count'', num alerts)])"


section \<open>Regressions\<close>

definition FAILURE_REGRESSION_SCHEMA_VERSION :: string where
  "FAILURE_REGRESSION_SCHEMA_VERSION = ''agentledger.failure.regression.v1''"

definition failure_signature :: "(rat \<Rightarrow> string) \<Rightarrow> dict \<Rightarrow> string" where
  "failure_signature fr env =
     join ''|'' (map (word fr env) [''category'', ''status'', ''owner'', ''step_id'', ''tool_name'', ''event_type'', ''message''])"

text \<open>The items that are dicts; \<open>_extract_envelopes\<close> of a list, of an export or of a report with an export.\<close>

definition dicts :: "json list \<Rightarrow> dict list" where
  "dicts xs = map entries (filter is_obj xs)"

fun is_list :: "json \<Rightarrow> bool" where
  "is_list (JList xs) = True"
| "is_list _ = False"

lemma entry_smaller: "is_obj (entry es k) \<Longrightarrow> size (entry es k) < size (JObj es)"
  by (induction es) (auto simp: entry_def)

function (sequential) extract_envelopes :: "json \<Rightarrow> dict list" where
  "extract_envelopes (JList xs) = dicts xs"
| "extract_envelopes (JObj es) =
     (if is_list (entry es ''failure_envelopes'') then dicts (list_items (entry es ''failure_envelopes''))
      else if is_list (entry es ''envelopes'') then dicts (list_items (entry es ''envelopes''))
      else if is_obj (entry es ''failure_export'') then extract_envelopes (entry es ''failure_export'')
      else [])"
| "extract_envelopes _ = []"
  by pat_completeness auto
termination by (relation "measure size") (auto dest: entry_smaller)

text \<open>A dict by signature: the last envelope of a signature stays.\<close>

definition by_signature :: "(rat \<Rightarrow> string) \<Rightarrow> dict list \<Rightarrow> string \<Rightarrow> dict option" where
  "by_signature fr envs = map_of (rev (map (\<lambda>e. (failure_signature fr e, e)) envs))"

definition named_failures :: "(rat \<Rightarrow> string) \<Rightarrow> dict list \<Rightarrow> string list \<Rightarrow> dict list" where
  "named_failures fr envs sigs = map (\<lambda>sig. the (by_signature fr envs sig)) sigs"

definition signatures :: "(rat \<Rightarrow> string) \<Rightarrow> dict list \<Rightarrow> string list" where
  "signatures fr envs = sort (remdups (map (failure_signature fr) envs))"

record regression =
  rg_same :: bool
  rg_recurring :: "dict list"
  rg_fixed :: "dict list"
  rg_new :: "dict list"
  rg_baseline :: nat
  rg_current :: nat

definition compare_failures :: "(rat \<Rightarrow> string) \<Rightarrow> json \<Rightarrow> json \<Rightarrow> regression" where
  "compare_failures fr baseline current =
     (let before = extract_envelopes baseline; now = extract_envelopes current;
          recurring = filter (\<lambda>s. s \<in> set (signatures fr now)) (signatures fr before);
          fixed = filter (\<lambda>s. s \<notin> set (signatures fr now)) (signatures fr before);
          new = filter (\<lambda>s. s \<notin> set (signatures fr before)) (signatures fr now) in
      \<lparr>rg_same = (new = [] \<and> fixed = []), rg_recurring = named_failures fr now recurring, rg_fixed = named_failures fr before fixed,
       rg_new = named_failures fr now new, rg_baseline = length before, rg_current = length now\<rparr>)"

definition regression_to_dict :: "regression \<Rightarrow> json" where
  "regression_to_dict r = JObj [(''schema_version'', JStr FAILURE_REGRESSION_SCHEMA_VERSION), (''same'', JBool (rg_same r)),
     (''recurring_failures'', objs (rg_recurring r)), (''fixed_failures'', objs (rg_fixed r)), (''new_failures'', objs (rg_new r)),
     (''summary'', JObj [(''baseline_failure_count'', JInt (int (rg_baseline r))), (''current_failure_count'', JInt (int (rg_current r))),
        (''recurring_failure_count'', num (rg_recurring r)), (''fixed_failure_count'', num (rg_fixed r)),
        (''new_failure_count'', num (rg_new r))])]"

section \<open>Model calls and tool proposals\<close>

text \<open>The rows by model call, and the call each step waits for.\<close>

record call_refs =
  cr_rows :: "(string \<times> dict) list"
  cr_pending :: "(string \<times> string) list"

definition call_ref :: "(rat \<Rightarrow> string) \<Rightarrow> string \<Rightarrow> string \<Rightarrow> dict \<Rightarrow> string option" where
  "call_ref fr k event_type ev =
     text_of fr (py_or (entry (safe_dict (entry ev ''payload'')) k)
       (if word fr ev ''type'' = event_type then entry ev ''payload_ref'' else JNull))"

definition put :: "string \<Rightarrow> json \<Rightarrow> dict \<Rightarrow> dict" where
  "put k v d = AList.update k v d"

definition put_some :: "string \<Rightarrow> string option \<Rightarrow> dict \<Rightarrow> dict" where
  "put_some k v d = (case v of None \<Rightarrow> d | Some s \<Rightarrow> put k (JStr s) d)"

definition keep_or :: "string \<Rightarrow> json \<Rightarrow> dict \<Rightarrow> dict" where
  "keep_or k v d = put k (py_or (entry d k) v) d"

definition add_call :: "(rat \<Rightarrow> string) \<Rightarrow> dict \<Rightarrow> call_refs \<Rightarrow> call_refs" where
  "add_call fr ev st =
     (let event_type = word fr ev ''type''; payload = safe_dict (entry ev ''payload'');
          request = call_ref fr ''request_ref'' ''model_call_requested'' ev;
          response = call_ref fr ''response_ref'' ''model_call_completed'' ev;
          failure = call_ref fr ''failure_ref'' ''model_call_failed'' ev;
          step_key = or_else (text_of fr (entry ev ''step_id'')) ''-'';
          waiting = (if event_type = ''model_call_completed'' then map_of (cr_pending st) step_key else None);
          call = or_else request (or_else waiting (or_else response (or_else failure (''event:'' @ py_str fr (entry ev ''seq'')))));
          row0 = (case map_of (cr_rows st) call of Some row \<Rightarrow> row | None \<Rightarrow>
            [(''model_call_id'', JStr call), (''status'', JStr ''requested''), (''provider'', entry payload ''provider''),
             (''model'', entry payload ''model''), (''step_id'', entry ev ''step_id''), (''request_ref'', opt_str request),
             (''response_ref'', opt_str response), (''failure_ref'', opt_str failure), (''requested_seq'', JNull),
             (''completed_seq'', JNull), (''failed_seq'', JNull)]);
          row1 = keep_or ''step_id'' (entry ev ''step_id'')
            (keep_or ''model'' (entry payload ''model'') (keep_or ''provider'' (entry payload ''provider'') row0));
          row2 = put_some ''failure_ref'' failure (put_some ''response_ref'' response (put_some ''request_ref'' request row1));
          row3 =
            (if event_type = ''model_call_requested'' then put ''requested_seq'' (entry ev ''seq'') row2
             else if event_type = ''model_call_completed'' then
               put ''status'' (JStr ''completed'') (put ''completed_seq'' (entry ev ''seq'') row2)
             else put ''retryable'' (entry payload ''retryable'') (put ''error_type'' (entry payload ''error_type'')
               (put ''status'' (JStr ''failed'') (put ''failed_seq'' (entry ev ''seq'') row2)))) in
      \<lparr>cr_rows = AList.update call row3 (cr_rows st),
       cr_pending = (if event_type = ''model_call_requested'' then AList.update step_key call (cr_pending st)
         else if event_type = ''model_call_completed'' then AList.delete step_key (cr_pending st) else cr_pending st)\<rparr>)"

definition model_evidence_refs :: "(rat \<Rightarrow> string) \<Rightarrow> dict list \<Rightarrow> dict list" where
  "model_evidence_refs fr erows =
     map snd (cr_rows (fold (add_call fr)
       (filter (\<lambda>ev. word fr ev ''type'' \<in> {''model_call_requested'', ''model_call_completed'', ''model_call_failed''}) erows)
       \<lparr>cr_rows = [], cr_pending = []\<rparr>))"

definition proposal_ref :: "(rat \<Rightarrow> string) \<Rightarrow> dict \<Rightarrow> dict" where
  "proposal_ref fr ev =
     (let payload = safe_dict (entry ev ''payload'') in
      [(''proposal_id'', JStr (or_else (text_of fr (entry ev ''payload_ref'')) (''event:'' @ py_str fr (entry ev ''seq'')))),
       (''tool_name'', py_or (entry payload ''tool'') (py_or (entry payload ''tool_name'') (entry payload ''name''))),
       (''provider'', entry payload ''provider''), (''model'', entry payload ''model''),
       (''model_call_ref'', entry payload ''model_call_ref''), (''step_id'', entry ev ''step_id''), (''seq'', entry ev ''seq''),
       (''confidence'', entry payload ''confidence''), (''reason'', entry payload ''reason'')])"

definition tool_proposal_refs :: "(rat \<Rightarrow> string) \<Rightarrow> dict list \<Rightarrow> dict list" where
  "tool_proposal_refs fr erows = map (proposal_ref fr) (filter (\<lambda>ev. word fr ev ''type'' = ''tool_call_proposed'') erows)"

section \<open>The export\<close>

definition FAILURE_EXPORT_SCHEMA_VERSION :: string where
  "FAILURE_EXPORT_SCHEMA_VERSION = ''agentledger.failure.export.v1''"

definition span :: "json \<Rightarrow> dict \<Rightarrow> dict" where
  "span name attrs = [(''name'', name), (''attributes'', JObj attrs)]"

definition otel_mapping :: "(rat \<Rightarrow> string) \<Rightarrow> string \<Rightarrow> dict \<Rightarrow> dict list \<Rightarrow> dict list \<Rightarrow> dict" where
  "otel_mapping fr run lifecycle model_evidence proposals =
     (let spans =
        map (\<lambda>row. span (entry row ''stage'') [(''agentledger.run_id'', JStr run), (''agentledger.failure_id'', entry row ''failure_id''),
          (''agentledger.failure.category'', entry row ''category''), (''agentledger.failure.owner'', entry row ''owner''),
          (''agentledger.failure.severity'', entry row ''severity'')]) (dicts (list_items (entry_or (JList []) lifecycle ''events''))) @
        map (\<lambda>row. span (JStr (''agentledger.model.'' @ py_str fr (entry row ''status''))) [(''agentledger.run_id'', JStr run),
          (''agentledger.model.provider'', entry row ''provider''), (''agentledger.model.name'', entry row ''model''),
          (''agentledger.model.status'', entry row ''status''), (''agentledger.model.request_ref'', entry row ''request_ref''),
          (''agentledger.model.failure_ref'', entry row ''failure_ref'')]) model_evidence @
        map (\<lambda>row. span (JStr ''agentledger.tool.proposed'') [(''agentledger.run_id'', JStr run),
          (''agentledger.tool.name'', entry row ''tool_name''), (''agentledger.model.provider'', entry row ''provider''),
          (''agentledger.model.name'', entry row ''model''), (''agentledger.model.call_ref'', entry row ''model_call_ref'')]) proposals in
      [(''span_event_count'', num spans), (''span_events'', objs spans)])"

definition observation :: "json \<Rightarrow> string \<Rightarrow> string \<Rightarrow> string \<Rightarrow> dict \<Rightarrow> dict" where
  "observation i kind name level metadata =
     [(''id'', i), (''type'', JStr kind), (''name'', JStr name), (''level'', JStr level), (''metadata'', JObj metadata)]"

definition langfuse_mapping :: "(rat \<Rightarrow> string) \<Rightarrow> string \<Rightarrow> dict list \<Rightarrow> dict list \<Rightarrow> dict list \<Rightarrow> dict" where
  "langfuse_mapping fr run envs model_evidence proposals =
     [(''trace_id'', JStr run),
      (''observations'', objs (
        map (\<lambda>x. observation (entry x ''failure_id'') ''EVENT'' (''agentledger.failure.'' @ py_str fr (entry x ''category''))
          (if entry x ''severity'' = JStr ''risk'' then ''ERROR'' else ''WARNING'') x) envs @
        map (\<lambda>x. observation (entry x ''model_call_id'') ''GENERATION''
          (word_or fr x ''provider'' ''model'' @ ''.'' @ word_or fr x ''model'' ''unknown'')
          (if entry x ''status'' = JStr ''failed'' then ''ERROR'' else ''DEFAULT'') x) model_evidence @
        map (\<lambda>x. observation (entry x ''proposal_id'') ''EVENT'' (''agentledger.tool_proposed.'' @ py_str fr (entry x ''tool_name''))
          ''DEFAULT'' x) proposals))]"

definition langsmith_mapping :: "string \<Rightarrow> dict list \<Rightarrow> dict list \<Rightarrow> dict list \<Rightarrow> dict" where
  "langsmith_mapping run envs model_evidence proposals =
     [(''run_id'', JStr run),
      (''feedback'', objs (map (\<lambda>x. [(''key'', JStr ''agentledger_failure''),
         (''score'', if entry x ''severity'' = JStr ''risk'' then JInt 0 else JFloat (1 / 2)),
         (''comment'', entry x ''message''), (''metadata'', JObj x)]) envs)),
      (''metadata'', JObj [(''agentledger_model_evidence'', objs model_evidence), (''agentledger_tool_proposals'', objs proposals)])]"

definition temporal_mapping :: "string \<Rightarrow> dict list \<Rightarrow> dict \<Rightarrow> dict" where
  "temporal_mapping run envs plan =
     [(''workflow_id'', JStr run), (''failure_count'', num envs),
      (''non_retryable'', JBool (\<exists>x\<in>set envs. entry x ''retryability'' = JStr ''not_retryable'')),
      (''safe_to_replay'', entry plan ''safe_to_replay''),
      (''search_attributes'', JObj [(''AgentLedgerFailureCount'', num envs),
         (''AgentLedgerUnsafeReplay'', JBool (truthy (entry plan ''unsafe_side_effect_count'')))])]"

definition ci_mapping :: "string \<Rightarrow> dict list \<Rightarrow> dict list \<Rightarrow> dict list \<Rightarrow> dict" where
  "ci_mapping run envs model_evidence proposals =
     [(''run_id'', JStr run), (''failed'', JBool (envs \<noteq> [])), (''failure_count'', num envs), (''model_call_count'', num model_evidence),
      (''model_failure_count'', num (filter (\<lambda>x. entry x ''status'' = JStr ''failed'') model_evidence)),
      (''tool_proposal_count'', num proposals),
      (''blocking_failure_ids'', JList (map (\<lambda>x. entry x ''failure_id'') (filter (\<lambda>x. entry x ''severity'' = JStr ''risk'') envs)))]"

definition export_failures ::
  "(rat \<Rightarrow> string) \<Rightarrow> string \<Rightarrow> string \<Rightarrow> dict \<Rightarrow> dict list \<Rightarrow> dict \<Rightarrow> dict \<Rightarrow> dict \<Rightarrow> dict \<Rightarrow> dict list \<Rightarrow> dict" where
  "export_failures fr run run_status summary envs lifecycle causal plan alerts erows =
     (let model_evidence = model_evidence_refs fr erows; proposals = tool_proposal_refs fr erows in
      [(''schema_version'', JStr FAILURE_EXPORT_SCHEMA_VERSION), (''run_id'', JStr run), (''run_status'', JStr run_status),
       (''summary'', JObj summary), (''failure_envelopes'', objs envs), (''failure_lifecycle'', JObj lifecycle),
       (''failure_causal_graph'', JObj causal), (''failure_replay_plan'', JObj plan), (''failure_alerts'', JObj alerts),
       (''model_evidence_refs'', objs model_evidence), (''tool_proposal_refs'', objs proposals),
       (''external_mappings'', JObj [
          (''opentelemetry'', JObj (otel_mapping fr run lifecycle model_evidence proposals)),
          (''langfuse'', JObj (langfuse_mapping fr run envs model_evidence proposals)),
          (''langsmith'', JObj (langsmith_mapping run envs model_evidence proposals)),
          (''temporal'', JObj (temporal_mapping run envs plan)),
          (''ci'', JObj (ci_mapping run envs model_evidence proposals))])])"


section \<open>The report\<close>

record failure_report =
  fa_run :: string
  fa_status :: string
  fa_summary :: dict
  fa_causes :: "dict list"
  fa_failed_steps :: "dict list"
  fa_verification :: "dict list"
  fa_approvals :: "dict list"
  fa_events :: "dict list"
  fa_envelopes :: "dict list"
  fa_lifecycle :: dict
  fa_graph :: dict
  fa_plan :: dict
  fa_alerts :: dict
  fa_export :: dict

definition failure_report_to_dict :: "failure_report \<Rightarrow> json" where
  "failure_report_to_dict r = JObj [(''run_id'', JStr (fa_run r)), (''run_status'', JStr (fa_status r)), (''summary'', JObj (fa_summary r)),
     (''root_causes'', objs (fa_causes r)), (''failed_steps'', objs (fa_failed_steps r)),
     (''pending_verification'', objs (fa_verification r)), (''pending_approvals'', objs (fa_approvals r)),
     (''failure_events'', objs (fa_events r)), (''failure_envelopes'', objs (fa_envelopes r)), (''failure_lifecycle'', JObj (fa_lifecycle r)),
     (''failure_causal_graph'', JObj (fa_graph r)), (''failure_replay_plan'', JObj (fa_plan r)), (''failure_alerts'', JObj (fa_alerts r)),
     (''failure_export'', JObj (fa_export r))]"

definition inline_payload :: "(string \<Rightarrow> json option) \<Rightarrow> payload \<Rightarrow> json" where
  "inline_payload loads p =
     (case p of
        Inline j \<Rightarrow> j
      | Ref r \<Rightarrow> if starts_with ''blob://'' r then JNull else (case loads r of None \<Rightarrow> JStr r | Some j \<Rightarrow> j))"

definition failure_event :: "(rat \<Rightarrow> string) \<Rightarrow> (string \<Rightarrow> json option) \<Rightarrow> event_row \<Rightarrow> dict" where
  "failure_event fr loads e =
     (let row = event_dict fr e @ [(''payload'', inline_payload loads (e_payload e))] in
      map (\<lambda>k. (k, entry row k)) [''seq'', ''type'', ''step_id'', ''agent_role'', ''timestamp'', ''payload_ref'', ''payload''])"

definition with_value :: "string \<Rightarrow> dict list \<Rightarrow> dict list" where
  "with_value status = filter (\<lambda>row. entry row ''status'' = JStr status)"

definition step_failure :: "dict \<Rightarrow> dict" where
  "step_failure row = [(''step_id'', entry row ''step_id''), (''status'', entry row ''status''), (''attempt'', entry row ''attempt''),
     (''error_type'', entry row ''last_error_type''), (''error'', entry row ''last_error'')]"

definition ledger_failure :: "dict \<Rightarrow> dict" where
  "ledger_failure row =
     map (\<lambda>k. (k, entry row k)) [''ledger_id'', ''step_id'', ''tool_name'', ''status'', ''error_type'', ''idempotency_key'']"

definition approval_failure :: "dict \<Rightarrow> dict" where
  "approval_failure row =
     map (\<lambda>k. (k, entry row k)) [''approval_id'', ''step_id'', ''tool_name'', ''risk_level'', ''status'', ''reason'']"

definition cause :: "string \<Rightarrow> dict \<Rightarrow> dict" where
  "cause kind what = (''kind'', JStr kind) # what"

definition root_causes :: "string \<Rightarrow> string \<Rightarrow> dict list \<Rightarrow> dict list \<Rightarrow> dict list \<Rightarrow> dict list" where
  "root_causes run run_status srows lrows prows =
     map (\<lambda>row. cause ''failed_step'' (step_failure row)) (with_value ''failed'' srows) @
     map (\<lambda>row. cause ''pending_verification'' (ledger_failure row)) (with_value ''PENDING_VERIFICATION'' lrows) @
     map (\<lambda>row. cause ''pending_approval'' (approval_failure row)) (with_value ''PENDING'' prows) @
     map (\<lambda>row. cause ''retry_scheduled'' [(''step_id'', entry row ''step_id''), (''error_type'', entry row ''last_error_type''),
       (''error'', entry row ''last_error'')]) (with_value ''retry_scheduled'' srows) @
     map (\<lambda>row. cause ''waiting_human'' [(''step_id'', entry row ''step_id''), (''reason'', entry row ''last_error'')])
       (with_value ''waiting_human'' srows) @
     (if run_status = ''cancelled'' then [cause ''cancelled_run'' [(''run_id'', JStr run)]] else [])"

definition failure_summary ::
  "dict list \<Rightarrow> dict list \<Rightarrow> dict list \<Rightarrow> dict list \<Rightarrow> dict list \<Rightarrow> dict list \<Rightarrow> dict \<Rightarrow> dict \<Rightarrow> dict \<Rightarrow> dict" where
  "failure_summary srows lrows prows erows causes envs lifecycle plan alerts =
     [(''failed_step_count'', num (with_value ''failed'' srows)), (''retry_scheduled_step_count'', num (with_value ''retry_scheduled'' srows)),
      (''waiting_human_step_count'', num (with_value ''waiting_human'' srows)),
      (''pending_verification_count'', num (with_value ''PENDING_VERIFICATION'' lrows)),
      (''pending_approval_count'', num (with_value ''PENDING'' prows)), (''failure_event_count'', num erows),
      (''root_cause_count'', num causes), (''failure_envelope_count'', num envs),
      (''failure_lifecycle_event_count'', num (list_items (entry_or (JList []) lifecycle ''events''))),
      (''failure_alert_count'', entry_or (JInt 0) alerts ''alert_count''),
      (''unsafe_replay_side_effect_count'', entry_or (JInt 0) plan ''unsafe_side_effect_count''),
      (''terminal_failure_count'', num (with_value ''terminal'' envs)),
      (''recoverable_failure_count'', num (filter (\<lambda>e. \<exists>s\<in>set [''auto_retry'', ''recoverable'', ''manual_verification'', ''human_required''].
         entry e ''recoverability'' = JStr s) envs))]"

text \<open>The report of a snapshot of rows: status of the run, steps, ledger, approvals, events and costs.\<close>

definition snapshot_report ::
  "(rat \<Rightarrow> string) \<Rightarrow> string \<Rightarrow> string \<Rightarrow> dict list \<Rightarrow> dict list \<Rightarrow> dict list \<Rightarrow> dict list \<Rightarrow> dict list \<Rightarrow> exn + failure_report" where
  "snapshot_report fr run run_status srows lrows prows all_events crows =
     (let erows = filter (\<lambda>e. \<exists>t\<in>set FAILURE_EVENT_TYPES. entry e ''type'' = JStr t) all_events;
          causes = root_causes run run_status srows lrows prows;
          envs = failure_envelopes fr run run_status srows lrows prows erows;
          lifecycle = failure_lifecycle fr run run_status envs erows;
          causal = graph_to_dict fr run (causal_graph fr run run_status envs srows lrows prows all_events crows);
          plan = replay_plan fr run envs lrows all_events in
      bindE (failure_alerts fr run envs plan crows) (\<lambda>alerts.
      let summary = failure_summary srows lrows prows erows causes envs lifecycle plan alerts in
      Inr \<lparr>fa_run = run, fa_status = run_status, fa_summary = summary, fa_causes = causes,
        fa_failed_steps = map step_failure (with_value ''failed'' srows),
        fa_verification = map ledger_failure (with_value ''PENDING_VERIFICATION'' lrows),
        fa_approvals = map approval_failure (with_value ''PENDING'' prows), fa_events = erows, fa_envelopes = envs,
        fa_lifecycle = lifecycle, fa_graph = causal, fa_plan = plan, fa_alerts = alerts,
        fa_export = export_failures fr run run_status summary envs lifecycle causal plan alerts all_events\<rparr>))"

definition report_failures :: "(string \<Rightarrow> json option) \<Rightarrow> string \<Rightarrow> failure_report act" where
  "report_failures loads run =
     bindM (getsM repr_float) (\<lambda>fr.
     bindM (get_run run) (\<lambda>row.
     bindM (select_db (\<lambda>d. (steps_of run d, ledger_of run d, approval_requests (Some run) d, events_of run d, costs_of run d)))
       (\<lambda>(srows, lrows, prows, erows, crows).
     liftM (snapshot_report fr run (status_text (r_status row)) (map (step_dict fr) srows) (map ledger_dict lrows)
       (map approval_dict prows) (map (failure_event fr loads) erows) (map (cost_dict fr) crows)))))"

end
