(* ===== verification/Failure_Spec.thy ===== *)
theory Failure_Spec
  imports Failure_Report Evidence_Spec
begin

text \<open>
  What failure reports guarantee: slugs have a normal form although the code makes them in a loop; a report names exactly
  the rows that failed, wait or are blocked, once each; the replay plan is safe exactly when no ledger row waits for
  verification; and the causal graph has no dangling edge.
\<close>

section \<open>Slugs\<close>

text \<open>One pass that drops a dash before another dash does what the loop does.\<close>

fun collapse :: "string \<Rightarrow> string" where
  "collapse (c # d # s) = (if c = CHR ''-'' \<and> d = CHR ''-'' then collapse (d # s) else c # collapse (d # s))"
| "collapse s = s"

lemma collapse_Cons:
  "collapse (c # s) = (if c = CHR ''-'' \<and> s \<noteq> [] \<and> hd s = CHR ''-'' then collapse s else c # collapse s)"
  by (cases s) auto

lemma collapse_head: "\<exists>t. collapse (c # s) = c # t"
  by (induction s arbitrary: c) auto

lemma replace_pairs_head: "replace_pairs s = [] \<longleftrightarrow> s = []" "s \<noteq> [] \<Longrightarrow> hd (replace_pairs s) = hd s"
  by (cases s rule: replace_pairs.cases; simp)+

lemma collapse_replace: "collapse (replace_pairs s) = collapse s"
proof (induction s rule: replace_pairs.induct)
  case (1 a b s)
  show ?case
  proof (cases "a = CHR ''-'' \<and> b = CHR ''-''")
    case True
    then have "collapse (replace_pairs (a # b # s)) = collapse (CHR ''-'' # s)"
      using "1.IH"(1) replace_pairs_head [of s] by (cases "s = []") (simp_all add: collapse_Cons)
    with True show ?thesis by (simp add: collapse_Cons)
  next
    case False
    have "collapse (a # replace_pairs (b # s)) = a # collapse (replace_pairs (b # s))"
      using False replace_pairs_head [of "b # s"] by (subst collapse_Cons) auto
    moreover have "replace_pairs (a # b # s) = a # replace_pairs (b # s)" using False by auto
    moreover have "collapse (a # b # s) = a # collapse (b # s)" using False by auto
    ultimately show ?thesis using "1.IH"(2) [OF False] by (simp only:)
  qed
qed simp_all

lemma collapse_id: "\<not> dash_pair s \<Longrightarrow> collapse s = s"
  by (induction s rule: dash_pair.induct) auto

lemma squeeze_collapse: "squeeze s = collapse s"
proof (induction s rule: squeeze.induct)
  case (1 s)
  then show ?case by (cases "dash_pair s") (simp_all add: squeeze.simps [of s] collapse_replace collapse_id)
qed

lemma collapse_no_pair: "\<not> dash_pair (collapse s)"
proof (induction s rule: collapse.induct)
  case (1 c d s)
  then show ?case using collapse_head [of d s] by auto
qed simp_all

lemma collapse_set: "set (collapse s) = set s"
  by (induction s rule: collapse.induct) auto

lemma collapse_ends: "s \<noteq> [] \<Longrightarrow> hd (collapse s) = hd s \<and> last (collapse s) = last s \<and> collapse s \<noteq> []"
proof (induction s rule: collapse.induct)
  case (1 c d s)
  then show ?case by auto
qed simp_all

lemma strip_ends: "strip_chars cs s \<noteq> [] \<Longrightarrow> hd (strip_chars cs s) \<notin> set cs \<and> last (strip_chars cs s) \<notin> set cs"
proof -
  assume ne: "strip_chars cs s \<noteq> []"
  let ?P = "\<lambda>c. c \<in> set cs" and ?t = "dropWhile (\<lambda>c. c \<in> set cs) s"
  have rev: "strip_chars cs s = rev (dropWhile ?P (rev ?t))" by (simp add: strip_chars_def)
  then have ne': "dropWhile ?P (rev ?t) \<noteq> []" using ne by auto
  then have "\<not> ?P (hd (dropWhile ?P (rev ?t)))" by (rule hd_dropWhile)
  then have l: "last (strip_chars cs s) \<notin> set cs" using ne' by (simp add: rev last_rev)
  have t: "?t = strip_chars cs s @ rev (takeWhile ?P (rev ?t))"
    by (subst rev, subst rev_append [symmetric]) simp
  have "hd ?t = hd (strip_chars cs s)" using ne by (subst t) simp
  moreover have "?t \<noteq> []" using ne t by (metis append_is_Nil_conv)
  then have "\<not> ?P (hd ?t)" by (rule hd_dropWhile)
  ultimately show ?thesis using l by simp
qed

lemma strip_id:
  assumes "s = [] \<or> hd s \<notin> set cs \<and> last s \<notin> set cs"
  shows "strip_chars cs s = s"
proof (cases s rule: rev_cases)
  case (snoc t c)
  then show ?thesis using assms by (cases t) (auto simp: strip_chars_def)
qed (simp add: strip_chars_def)

lemma strip_set: "set (strip_chars cs s) \<subseteq> set s"
  by (auto simp: strip_chars_def dest!: set_dropWhileD)

definition lower_code :: "nat \<Rightarrow> nat" where
  "lower_code n = (if (65 \<le> n \<and> n \<le> 90) \<or> (192 \<le> n \<and> n \<le> 222 \<and> n \<noteq> 215) then n + 32 else n)"

lemma lower_single: "lower [c] = [char_of (lower_code (of_char c))]"
  by (simp add: lower_def lower_code_def Let_def)

lemma lower_alnum:
  assumes "is_alnum c" and "lower [c] = [d]"
  shows "is_alnum d \<and> lower [d] = [d]"
proof -
  define n where "n = (of_char c :: nat)"
  have n: "n < 256" by (simp add: n_def)
  then have small: "lower_code n < 256" by (auto simp: lower_code_def)
  have "d = char_of (lower_code n)" using assms(2) by (simp add: lower_single n_def)
  with small have code: "(of_char d :: nat) = lower_code n" by simp
  have "lower_code (lower_code n) = lower_code n" by (auto simp: lower_code_def)
  then have "lower [d] = [d]" by (simp add: lower_single code) (simp add: code [symmetric])
  moreover have "is_alnum d"
    using assms(1) unfolding is_alnum_def code n_def [symmetric] by (auto simp: lower_code_def)
  ultimately show ?thesis by simp
qed

definition slug_chars :: "string \<Rightarrow> string" where
  "slug_chars s = lower (map (\<lambda>c. if is_alnum c then c else CHR ''-'') s)"

lemma lower_map: "lower (map f s) = concat (map (\<lambda>c. lower [f c]) s)"
  by (simp add: lower_def comp_def)

lemma lower_dash: "lower [CHR ''-''] = [CHR ''-'']"
  by (simp add: lower_def)

lemma slug_chars_ok: "c \<in> set (slug_chars s) \<Longrightarrow> c = CHR ''-'' \<or> is_alnum c \<and> lower [c] = [c]"
proof -
  assume "c \<in> set (slug_chars s)"
  then obtain x where "c \<in> set (lower [if is_alnum x then x else CHR ''-''])" by (auto simp: slug_chars_def lower_map)
  moreover obtain d where d: "lower [x] = [d]" by (simp add: lower_def)
  ultimately show ?thesis using lower_alnum [of x d] by (cases "is_alnum x") (auto simp: lower_dash)
qed

lemma slug_chars_id:
  assumes "\<And>c. c \<in> set s \<Longrightarrow> c = CHR ''-'' \<or> is_alnum c \<and> lower [c] = [c]"
  shows "slug_chars s = s"
  using assms
proof (induction s)
  case (Cons c s)
  then have "slug_chars s = s" by simp
  moreover have "lower [if is_alnum c then c else CHR ''-''] = [c]" using Cons.prems [of c] by (auto simp: lower_dash)
  ultimately show ?case by (simp add: slug_chars_def lower_def)
qed (simp add: slug_chars_def lower_def)

lemma slug_one_pass:
  "slug s = (let t = collapse (strip_chars ''-'' (slug_chars s)) in if t = [] then ''unknown'' else t)"
  by (simp add: slug_def squeeze_collapse slug_chars_def)

lemma unknown_normal: "slug_chars ''unknown'' = ''unknown'' \<and> collapse ''unknown'' = ''unknown'' \<and> strip_chars ''-'' ''unknown'' = ''unknown''"
  by code_simp

lemma unknown_chars: "\<not> dash_pair ''unknown'' \<and> list_all (\<lambda>c. is_alnum c \<and> lower [c] = [c]) ''unknown''"
  by code_simp

lemma slug_shape:
  "slug s \<noteq> []" "\<not> dash_pair (slug s)" "hd (slug s) \<noteq> CHR ''-''" "last (slug s) \<noteq> CHR ''-''"
  "c \<in> set (slug s) \<Longrightarrow> c = CHR ''-'' \<or> is_alnum c \<and> lower [c] = [c]"
proof -
  let ?t = "strip_chars ''-'' (slug_chars s)"
  have unknown: "\<not> dash_pair ''unknown''" "\<And>c. c \<in> set ''unknown'' \<Longrightarrow> is_alnum c \<and> lower [c] = [c]"
    using unknown_chars by (simp_all add: list_all_iff del: set_simps)
  have ends: "hd (collapse ?t) \<noteq> CHR ''-'' \<and> last (collapse ?t) \<noteq> CHR ''-'' \<and> collapse ?t \<noteq> []" if "?t \<noteq> []"
    using collapse_ends [OF that] strip_ends [OF that] by auto
  have chars: "c = CHR ''-'' \<or> is_alnum c \<and> lower [c] = [c]" if "c \<in> set (collapse ?t)"
    using that strip_set [of "''-''" "slug_chars s"] slug_chars_ok [of c s] by (auto simp: collapse_set)
  have empty: "collapse ?t = [] \<longleftrightarrow> ?t = []" using collapse_ends [of ?t] by (cases "?t = []") auto
  show "slug s \<noteq> []" "hd (slug s) \<noteq> CHR ''-''" "last (slug s) \<noteq> CHR ''-''"
    using ends empty by (auto simp: slug_one_pass Let_def)
  show "\<not> dash_pair (slug s)" using collapse_no_pair unknown(1) by (simp add: slug_one_pass Let_def)
  show "c = CHR ''-'' \<or> is_alnum c \<and> lower [c] = [c]" if "c \<in> set (slug s)"
  proof -
    have "slug s = ''unknown'' \<or> slug s = collapse ?t" by (simp only: slug_one_pass Let_def) simp
    with that show ?thesis using chars unknown(2) [of c] by metis
  qed
qed

text \<open>
  A slug has a normal form: the loop that replaces pairs of dashes makes the text with each run of dashes collapsed to
  one, so a slug is not empty, has letters and digits separated by single dashes, and is its own slug.
\<close>
theorem slug_normal_form:
  "slug s = (let t = collapse (strip_chars ''-'' (slug_chars s)) in if t = [] then ''unknown'' else t) \<and>
   slug s \<noteq> [] \<and> \<not> dash_pair (slug s) \<and> hd (slug s) \<noteq> CHR ''-'' \<and> last (slug s) \<noteq> CHR ''-'' \<and>
   set (slug s) \<subseteq> {c. c = CHR ''-'' \<or> is_alnum c \<and> lower [c] = [c]} \<and> slug (slug s) = slug s"
proof (intro conjI)
  have "slug_chars (slug s) = slug s" using slug_shape(5) by (rule slug_chars_id)
  moreover have "strip_chars ''-'' (slug s) = slug s" by (rule strip_id) (use slug_shape in auto)
  moreover have "collapse (slug s) = slug s" by (rule collapse_id) (rule slug_shape(2))
  ultimately show "slug (slug s) = slug s" using slug_shape(1) [of s] by (simp add: slug_one_pass [of "slug s"])
qed (use slug_one_pass slug_shape in blast)+


section \<open>What a report names\<close>

lemma entry_simps [simp]:
  "entry [] k = JNull" "entry ((k', v) # es) k = (if k = k' then v else entry es k)"
  by (simp_all add: entry_def)

lemma entry_append: "entry (xs @ ys) k = (case map_of xs k of None \<Rightarrow> entry ys k | Some v \<Rightarrow> v)"
  by (simp add: entry_def map_add_def split: option.split)

lemma word_JStr: "entry d k = JStr x \<Longrightarrow> word fr d k = x"
  by (cases x) (simp_all add: word_def py_or_def)

definition source_id :: "signal \<Rightarrow> string" where
  "source_id s = failure_id (f_run s) (f_kind s) (f_source s)"

lemma envelope_id [simp]: "entry (envelope s) ''failure_id'' = JStr (source_id s)"
  by (simp add: envelope_def source_id_def)

lemma word_envelope_id [simp]: "word fr (envelope s) ''failure_id'' = source_id s"
  by (rule word_JStr) simp

lemma source_id_not_empty [simp]: "source_id s \<noteq> []"
  by (simp add: source_id_def failure_id_def)

lemma first_seen_props:
  "set (first_seen key seen xs) \<subseteq> set xs \<and> distinct (map key (first_seen key seen xs)) \<and>
   key ` set (first_seen key seen xs) = key ` set xs - set seen"
  by (induction key seen xs rule: first_seen.induct) auto

lemma dedupe_envelopes_props:
  "set (dedupe_envelopes fr (map envelope ss)) \<subseteq> envelope ` set ss"
  "distinct (map (\<lambda>e. entry e ''failure_id'') (dedupe_envelopes fr (map envelope ss)))"
  "(\<lambda>e. entry e ''failure_id'') ` set (dedupe_envelopes fr (map envelope ss)) = JStr ` source_id ` set ss"
proof -
  let ?ids = "\<lambda>e. word fr e ''failure_id''" and ?es = "dedupe_envelopes fr (map envelope ss)"
  have es: "?es = first_seen ?ids [] (map envelope ss)" by (simp add: dedupe_envelopes_def)
  have sub: "set ?es \<subseteq> envelope ` set ss" and dist: "distinct (map ?ids ?es)"
    and ids: "?ids ` set ?es = ?ids ` envelope ` set ss"
    using first_seen_props [of ?ids "[]" "map envelope ss"] by (auto simp: es)
  have entry: "entry e ''failure_id'' = JStr (?ids e)" if "e \<in> set ?es" for e
    using that sub by (auto simp: image_iff)
  then have "map (\<lambda>e. entry e ''failure_id'') ?es = map JStr (map ?ids ?es)" by simp
  with dist show "distinct (map (\<lambda>e. entry e ''failure_id'') ?es)" by (simp add: distinct_map inj_on_def)
  have "(\<lambda>e. entry e ''failure_id'') ` set ?es = JStr ` ?ids ` set ?es" using entry by (auto simp: image_image intro!: image_eqI)
  also have "\<dots> = JStr ` source_id ` set ss" unfolding ids by (simp add: image_image)
  finally show "(\<lambda>e. entry e ''failure_id'') ` set ?es = JStr ` source_id ` set ss" .
  show "set ?es \<subseteq> envelope ` set ss" by (rule sub)
qed

text \<open>The rows of a run that count as failures, as kind and name, in the vocabulary of the tables.\<close>

definition failure_sources :: "string \<Rightarrow> db \<Rightarrow> (string \<times> string) list" where
  "failure_sources run d =
     map (\<lambda>s. (''step'', s_id s)) (filter (\<lambda>s. s_status s \<in> {Failed, RetryScheduled, WaitingHuman}) (steps_of run d)) @
     map (\<lambda>l. (''tool_ledger'', l_id l)) (filter (\<lambda>l. l_status l \<in> {''PENDING_VERIFICATION'', ''FAILED'', ''ERROR''}) (ledger_of run d)) @
     map (\<lambda>p. (''approval'', p_id p)) (filter (\<lambda>p. p_status p \<in> {''PENDING'', ''DENIED''}) (approval_requests (Some run) d)) @
     map (\<lambda>e. (''event'', int_str (e_seq e))) (filter (\<lambda>e. e_type e \<in> set FAILURE_EVENT_TYPES) (events_of run d))"

definition rows_named :: "string \<Rightarrow> db \<Rightarrow> bool" where
  "rows_named run d \<longleftrightarrow>
     (\<forall>s\<in>set (steps_of run d). s_id s \<noteq> []) \<and> (\<forall>l\<in>set (ledger_of run d). l_id l \<noteq> [] \<and> l_step l \<noteq> []) \<and>
     (\<forall>p\<in>set (approval_requests (Some run) d). p_id p \<noteq> [])"

lemma has_text_JStr [simp]: "has_text (JStr s) \<longleftrightarrow> s \<noteq> []"
  by (simp add: has_text_def)

lemma text_of_JStr [simp]: "text_of fr (JStr s) = (if s = [] then None else Some s)"
  by (simp add: text_of_def)

lemma row_words:
  "word fr (step_dict fr s) ''status'' = status_text (s_status s)" "word fr (ledger_dict l) ''status'' = l_status l"
  "word fr (approval_dict p) ''status'' = p_status p" "word fr (failure_event fr loads e) ''type'' = e_type e"
  by (rule word_JStr, simp add: step_dict_def ledger_dict_def approval_dict_def failure_event_def event_dict_def Let_def)+

lemma source_ids:
  "s_id s \<noteq> [] \<Longrightarrow> source_id (from_step fr run st (step_dict fr s)) = failure_id run ''step'' (s_id s)"
  "l_id l \<noteq> [] \<Longrightarrow> source_id (from_ledger fr run (ledger_dict l)) = failure_id run ''tool_ledger'' (l_id l)"
  "p_id p \<noteq> [] \<Longrightarrow> source_id (from_approval fr run st (approval_dict p)) = failure_id run ''approval'' (p_id p)"
  "source_id (from_event fr run st (failure_event fr loads e)) = failure_id run ''event'' (int_str (e_seq e))"
  by (simp_all add: source_id_def from_step_def from_ledger_def from_approval_def from_event_def step_dict_def ledger_dict_def
      approval_dict_def failure_event_def event_dict_def or_else_def Let_def py_str_def split: prod.split)

lemma failing_status: "status_text st \<in> {''failed'', ''retry_scheduled'', ''waiting_human''} \<longleftrightarrow> st \<in> {Failed, RetryScheduled, WaitingHuman}"
  by (cases st) simp_all


definition report_signals :: "(rat \<Rightarrow> string) \<Rightarrow> (string \<Rightarrow> json option) \<Rightarrow> string \<Rightarrow> string \<Rightarrow> db \<Rightarrow> signal list" where
  "report_signals fr loads run st d =
     row_signals fr run st (map (step_dict fr) (steps_of run d)) (map ledger_dict (ledger_of run d))
       (map approval_dict (approval_requests (Some run) d))
       (filter (\<lambda>e. \<exists>t\<in>set FAILURE_EVENT_TYPES. entry e ''type'' = JStr t) (map (failure_event fr loads) (events_of run d)))"

lemma failure_event_type: "entry (failure_event fr loads e) ''type'' = JStr (e_type e)"
  by (simp add: failure_event_def event_dict_def)

lemma failure_status_word: "word fr (step_dict fr s) ''status'' \<in> set [''failed'', ''retry_scheduled'', ''waiting_human''] \<longleftrightarrow>
    s_status s \<in> {Failed, RetryScheduled, WaitingHuman}"
  using failing_status [of "s_status s"] by (simp add: row_words)

lemma report_signals_eq:
  "report_signals fr loads run st d =
     map (\<lambda>s. from_step fr run st (step_dict fr s)) (filter (\<lambda>s. s_status s \<in> {Failed, RetryScheduled, WaitingHuman}) (steps_of run d)) @
     map (\<lambda>l. from_ledger fr run (ledger_dict l)) (filter (\<lambda>l. l_status l \<in> {''PENDING_VERIFICATION'', ''FAILED'', ''ERROR''}) (ledger_of run d)) @
     map (\<lambda>p. from_approval fr run st (approval_dict p)) (filter (\<lambda>p. p_status p \<in> {''PENDING'', ''DENIED''}) (approval_requests (Some run) d)) @
     map (\<lambda>e. from_event fr run st (failure_event fr loads e)) (filter (\<lambda>e. e_type e \<in> set FAILURE_EVENT_TYPES) (events_of run d))"
proof -
  have "filter ((\<lambda>e. word fr e ''type'' \<in> set FAILURE_EVENT_TYPES) \<circ> failure_event fr loads)
      (filter ((\<lambda>e. \<exists>t\<in>set FAILURE_EVENT_TYPES. entry e ''type'' = JStr t) \<circ> failure_event fr loads) (events_of run d)) =
    filter (\<lambda>e. e_type e \<in> set FAILURE_EVENT_TYPES) (events_of run d)"
    unfolding filter_filter by (rule filter_cong) (auto simp: row_words failure_event_type)
  then show ?thesis
    unfolding report_signals_def row_signals_def with_status_def filter_map map_map
    by (simp add: comp_def row_words failing_status [simplified])
qed

lemma report_sources:
  assumes "rows_named run d"
  shows "map source_id (report_signals fr loads run st d) = map (\<lambda>(k, i). failure_id run k i) (failure_sources run d)"
  using assms unfolding report_signals_eq failure_sources_def rows_named_def
  by (auto simp: source_ids comp_def)

lemma report_result:
  assumes "report_failures loads run w = (Inr r, w')"
  obtains st more where "w' = w" and "set more \<subseteq> {cancelled_run run}"
    and "fa_envelopes r = dedupe_envelopes (repr_float w) (map envelope (report_signals (repr_float w) loads run st (db w) @ more))"
    and "fa_plan r = replay_plan (repr_float w) run (fa_envelopes r) (map ledger_dict (ledger_of run (db w)))
      (map (failure_event (repr_float w) loads) (events_of run (db w)))"
proof -
  let ?fr = "repr_float w"
  obtain row where w': "w' = w" and row: "find_run (db w) run = Some row"
    and snap: "snapshot_report ?fr run (status_text (r_status row)) (map (step_dict ?fr) (steps_of run (db w)))
      (map ledger_dict (ledger_of run (db w))) (map approval_dict (approval_requests (Some run) (db w)))
      (map (failure_event ?fr loads) (events_of run (db w))) (map (cost_dict ?fr) (costs_of run (db w))) = Inr r"
    using assms by (auto simp: report_failures_def exec liftM_def split: option.splits)
  let ?st = "status_text (r_status row)"
  let ?more = "if ?st = ''cancelled'' \<and> \<not> (\<exists>s\<in>set (report_signals ?fr loads run ?st (db w)). f_category s = ''cancellation'')
    then [cancelled_run run] else []"
  show thesis
  proof (rule that)
    show "w' = w" by (rule w')
    show "set ?more \<subseteq> {cancelled_run run}" by (auto split: if_splits)
    show "fa_envelopes r = dedupe_envelopes ?fr (map envelope (report_signals ?fr loads run ?st (db w) @ ?more))"
      using snap by (auto simp only: snapshot_report_def Let_def bindE_Inr_iff failure_report.simps sum.inject failure_envelopes_def report_signals_def)
    show "fa_plan r = replay_plan ?fr run (fa_envelopes r) (map ledger_dict (ledger_of run (db w)))
        (map (failure_event ?fr loads) (events_of run (db w)))"
      using snap by (auto simp only: snapshot_report_def Let_def bindE_Inr_iff failure_report.simps sum.inject)
  qed
qed

text \<open>
  C26: A report names what failed. Making it changes nothing; the failure ids of its envelopes are distinct; each step that failed
  or waits, each ledger row and each approval that is open or was refused, and each event of a failure type has one, and
  besides these only the cancellation of the run may.
\<close>
theorem report_names_failures:
  assumes "report_failures loads run w = (Inr r, w')" and "rows_named run (db w)"
  shows "w' = w \<and> distinct (map (\<lambda>e. entry e ''failure_id'') (fa_envelopes r)) \<and>
    (\<lambda>(k, i). JStr (failure_id run k i)) ` set (failure_sources run (db w)) \<subseteq> (\<lambda>e. entry e ''failure_id'') ` set (fa_envelopes r) \<and>
    (\<lambda>e. entry e ''failure_id'') ` set (fa_envelopes r) \<subseteq>
      insert (JStr (failure_id run ''run'' run)) ((\<lambda>(k, i). JStr (failure_id run k i)) ` set (failure_sources run (db w)))"
proof (rule report_result [OF assms(1)])
  fix st more
  assume w': "w' = w" and more: "set more \<subseteq> {cancelled_run run}"
    and es: "fa_envelopes r = dedupe_envelopes (repr_float w) (map envelope (report_signals (repr_float w) loads run st (db w) @ more))"
  let ?ss = "report_signals (repr_float w) loads run st (db w)"
  have "source_id ` set ?ss = (\<lambda>(k, i). failure_id run k i) ` set (failure_sources run (db w))"
    using report_sources [OF assms(2), of "repr_float w" loads st] by (simp flip: set_map)
  then have rows: "JStr ` source_id ` set ?ss = (\<lambda>(k, i). JStr (failure_id run k i)) ` set (failure_sources run (db w))"
    by (auto simp: image_image split_beta)
  have "source_id (cancelled_run run) = failure_id run ''run'' run" by (simp add: source_id_def cancelled_run_def)
  then have extra: "JStr ` source_id ` set more \<subseteq> {JStr (failure_id run ''run'' run)}" using more by auto
  have ids: "(\<lambda>e. entry e ''failure_id'') ` set (fa_envelopes r) = JStr ` source_id ` set ?ss \<union> JStr ` source_id ` set more"
    unfolding es dedupe_envelopes_props(3) by (simp add: image_Un)
  have dist: "distinct (map (\<lambda>e. entry e ''failure_id'') (fa_envelopes r))" unfolding es by (rule dedupe_envelopes_props(2))
  show ?thesis unfolding ids rows using w' dist extra by blast
qed


section \<open>When a replay counts as safe\<close>

definition unsafe_signal :: "signal \<Rightarrow> bool" where
  "unsafe_signal s \<longleftrightarrow>
     f_status s = ''unknown_side_effect'' \<or> f_recoverability s = ''manual_verification'' \<or>
     f_category s \<in> {''tool'', ''sandbox''} \<and> f_status s \<in> {''failed'', ''terminal''} \<and> f_evidence s = []"

lemma envelope_words:
  "word fr (envelope s) ''status'' = f_status s" "word fr (envelope s) ''category'' = f_category s"
  "word fr (envelope s) ''recoverability'' = f_recoverability s" "entry (envelope s) ''evidence_refs'' = JList (f_evidence s)"
  by (rule word_JStr, simp add: envelope_def | simp add: envelope_def)+

lemma entry_update: "entry (AList.update k v d) k' = (if k' = k then v else entry d k')"
  by (simp add: entry_def update_conv')

lemma entry_updated:
  "entry (updated d []) k = entry d k"
  "entry (updated d ((k', v) # u)) k = entry (updated (AList.update k' v d) u) k"
  by (simp_all add: updated_def)

lemma entry_updated_notin: "k \<notin> fst ` set u \<Longrightarrow> entry (updated d u) k = entry d k"
  by (induction u arbitrary: d) (auto simp: entry_updated entry_update)

lemma plain_safe: "entry (plain_action c s e) ''replay_safe'' = JBool True"
  by (simp add: plain_action_def)

lemma status_safe:
  "entry (updated d (status_update st rc)) ''replay_safe'' =
     (if st = ''unknown_side_effect'' \<or> rc = ''manual_verification'' then JBool False else entry d ''replay_safe'')"
  by (simp add: status_update_def entry_updated entry_update)

lemma boundary_safe:
  "entry (updated d (boundary_update c st e)) ''replay_safe'' =
     (if c \<in> {''tool'', ''sandbox''} \<and> st \<in> {''failed'', ''terminal''} \<and> \<not> truthy (entry e ''evidence_refs'') then JBool False
      else entry d ''replay_safe'')"
  by (simp add: boundary_update_def entry_updated entry_update)

lemma action_safe: "truthy (entry (action_for_envelope fr (envelope s)) ''replay_safe'') \<longleftrightarrow> \<not> unsafe_signal s"
  by (simp add: action_for_envelope_def boundary_safe status_safe plain_safe envelope_words unsafe_signal_def Let_def)

lemma plan_safe:
  "entry (replay_plan fr run envs lrows erows) ''safe_to_replay'' =
     JBool (\<forall>e\<in>set envs. truthy (entry (action_for_envelope fr e) ''replay_safe''))"
  by (simp add: replay_plan_def Let_def filter_empty_conv)

lemma refs_not_empty:
  "step \<noteq> JNull \<and> step \<noteq> JStr [] \<Longrightarrow> refs fr step tool app seq blob \<noteq> []"
  "seq \<noteq> JNull \<and> seq \<noteq> JStr [] \<Longrightarrow> refs fr step tool app seq blob \<noteq> []"
  by (auto simp: refs_def refs_of_def has_text_def)

lemma step_signal_safe: "s_id s \<noteq> [] \<Longrightarrow> \<not> unsafe_signal (from_step fr run st (step_dict fr s))"
  by (auto simp: unsafe_signal_def from_step_def step_dict_def Let_def refs_not_empty split: prod.splits if_splits)

lemma approval_signal_safe: "\<not> unsafe_signal (from_approval fr run st row)"
  by (simp add: unsafe_signal_def from_approval_def Let_def)

lemma event_signal_safe: "\<not> unsafe_signal (from_event fr run st (failure_event fr loads e))"
proof -
  let ?s = "from_event fr run st (failure_event fr loads e)"
  have "f_status ?s \<noteq> ''unknown_side_effect''" "f_recoverability ?s \<noteq> ''manual_verification''"
    by (simp_all add: from_event_def Let_def event_failure_status_def event_recoverability_def)
  moreover have "f_evidence ?s \<noteq> []"
    by (simp add: from_event_def Let_def failure_event_def event_dict_def refs_not_empty)
  ultimately show ?thesis by (simp add: unsafe_signal_def)
qed

lemma ledger_signal_unsafe:
  assumes "l_step l \<noteq> []"
  shows "unsafe_signal (from_ledger fr run (ledger_dict l)) \<longleftrightarrow> l_status l \<notin> {''FAILED'', ''ERROR''}"
proof -
  have "f_evidence (from_ledger fr run (ledger_dict l)) \<noteq> []"
    using assms by (simp add: from_ledger_def Let_def ledger_dict_def refs_not_empty)
  then show ?thesis by (simp add: unsafe_signal_def from_ledger_def Let_def row_words)
qed

lemma cancelled_signal_safe: "\<not> unsafe_signal (cancelled_run run)"
  by (simp add: unsafe_signal_def cancelled_run_def)

lemma kind_slugs:
  "slug ''step'' = ''step''" "slug ''tool_ledger'' = ''tool-ledger''" "slug ''approval'' = ''approval''"
  "slug ''event'' = ''event''" "slug ''run'' = ''run''"
  by code_simp+

lemma failure_id_eq:
  assumes "i \<noteq> []" "j \<noteq> []" "k \<noteq> []" "k' \<noteq> []"
  shows "failure_id run k i = failure_id run k' j \<longleftrightarrow> slug k @ ''-'' @ slug i = slug k' @ ''-'' @ slug j"
  using assms by (simp add: failure_id_def)

lemma ledger_id_unique:
  assumes "i \<noteq> []" "j \<noteq> []" "failure_id run ''tool_ledger'' i = failure_id run k j"
    and "k \<in> {''step'', ''tool_ledger'', ''approval'', ''event'', ''run''}"
  shows "k = ''tool_ledger'' \<and> slug i = slug j"
  using assms by (auto simp: failure_id_eq kind_slugs)


lemma int_str_not_empty: "int_str i \<noteq> []"
proof -
  have "nat_str n \<noteq> []" for n by (subst nat_str.simps) simp
  then show ?thesis by (simp add: int_str_def)
qed

lemma run_id_differs: "i \<noteq> [] \<Longrightarrow> failure_id run ''tool_ledger'' i \<noteq> failure_id run ''run'' run"
  by (cases "run = []") (simp_all add: failure_id_def kind_slugs)

text \<open>Which signals of a report are unsafe, and that an unsafe one is not shadowed by a safe one of the same id.\<close>

lemma report_signal_cases:
  assumes "s \<in> set (report_signals fr loads run st d)"
  obtains (step) x where "s = from_step fr run st (step_dict fr x)" "x \<in> set (steps_of run d)"
  | (ledger) l where "s = from_ledger fr run (ledger_dict l)" "l \<in> set (ledger_of run d)"
      "l_status l \<in> {''PENDING_VERIFICATION'', ''FAILED'', ''ERROR''}"
  | (approval) p where "s = from_approval fr run st (approval_dict p)" "p \<in> set (approval_requests (Some run) d)"
  | (event) e where "s = from_event fr run st (failure_event fr loads e)" "e \<in> set (events_of run d)"
  using assms unfolding report_signals_eq by auto

lemma report_signal_unsafe:
  assumes "rows_named run d" and "s \<in> set (report_signals fr loads run st d)" and "unsafe_signal s"
  shows "\<exists>l\<in>set (ledger_of run d). l_status l = ''PENDING_VERIFICATION''"
  using assms(2)
proof (cases rule: report_signal_cases)
  case (step x)
  then show ?thesis using assms step_signal_safe by (auto simp: rows_named_def)
next
  case (ledger l)
  moreover have "l_step l \<noteq> []" using assms(1) ledger(2) by (simp add: rows_named_def)
  ultimately show ?thesis using assms(3) ledger_signal_unsafe [of l fr run] by auto
qed (use assms(3) approval_signal_safe event_signal_safe in blast)+

lemma same_id_unsafe:
  assumes named: "rows_named run d" and inj: "inj_on (\<lambda>l. slug (l_id l)) (set (ledger_of run d))"
    and l: "l \<in> set (ledger_of run d)" "l_status l = ''PENDING_VERIFICATION''"
    and s: "s \<in> set (report_signals fr loads run st d)" and id: "source_id s = failure_id run ''tool_ledger'' (l_id l)"
  shows "unsafe_signal s"
proof -
  have li: "l_id l \<noteq> []" "l_step l \<noteq> []" using named l(1) by (auto simp: rows_named_def)
  from s show ?thesis
  proof (cases rule: report_signal_cases)
    case (step x)
    then have "s_id x \<noteq> []" using named by (simp add: rows_named_def)
    with step(1) show ?thesis using ledger_id_unique [OF li(1), of "s_id x" run "''step''"] id by (simp add: source_ids)
  next
    case (ledger l')
    then have l': "l_id l' \<noteq> []" using named by (simp add: rows_named_def)
    with ledger(1) have "slug (l_id l) = slug (l_id l')"
      using ledger_id_unique [OF li(1), of "l_id l'" run "''tool_ledger''"] id by (simp add: source_ids)
    then have "l' = l" using inj l(1) ledger(2) by (auto dest: inj_onD)
    with ledger(1) show ?thesis using ledger_signal_unsafe [OF li(2)] l(2) by simp
  next
    case (approval p)
    then have "p_id p \<noteq> []" using named by (simp add: rows_named_def)
    with approval(1) show ?thesis using ledger_id_unique [OF li(1), of "p_id p" run "''approval''"] id by (simp add: source_ids)
  next
    case (event e)
    then show ?thesis using ledger_id_unique [OF li(1), of "int_str (e_seq e)" run "''event''"] id by (simp add: source_ids int_str_not_empty)
  qed
qed

text \<open>
  C25: A report calls a replay safe exactly when no ledger row of the run waits for verification, provided the slugs of its ledger
  ids differ. Rows that are still \<open>RESERVED\<close> or \<open>RUNNING\<close>, whose side effect may or may not have happened, do not count.
\<close>
theorem replay_plan_exact:
  assumes "report_failures loads run w = (Inr r, w')" and "rows_named run (db w)"
    and "inj_on (\<lambda>l. slug (l_id l)) (set (ledger_of run (db w)))"
  shows "entry (fa_plan r) ''safe_to_replay'' = JBool (\<forall>l\<in>set (ledger_of run (db w)). l_status l \<noteq> ''PENDING_VERIFICATION'')"
proof (rule report_result [OF assms(1)])
  fix st more
  let ?fr = "repr_float w"
  let ?ss = "report_signals ?fr loads run st (db w)"
  assume more: "set more \<subseteq> {cancelled_run run}"
    and es: "fa_envelopes r = dedupe_envelopes ?fr (map envelope (?ss @ more))"
    and plan: "fa_plan r = replay_plan ?fr run (fa_envelopes r) (map ledger_dict (ledger_of run (db w)))
      (map (failure_event ?fr loads) (events_of run (db w)))"
  let ?safe = "\<lambda>e. truthy (entry (action_for_envelope ?fr e) ''replay_safe'')"
  have sub: "set (fa_envelopes r) \<subseteq> envelope ` (set ?ss \<union> set more)"
    unfolding es using dedupe_envelopes_props(1) [of ?fr "?ss @ more"] by simp
  have "(\<forall>e\<in>set (fa_envelopes r). ?safe e) \<longleftrightarrow> (\<forall>l\<in>set (ledger_of run (db w)). l_status l \<noteq> ''PENDING_VERIFICATION'')"
  proof
    assume ok: "\<forall>l\<in>set (ledger_of run (db w)). l_status l \<noteq> ''PENDING_VERIFICATION''"
    have "\<not> unsafe_signal s" if "s \<in> set ?ss \<union> set more" for s
      using that report_signal_unsafe [OF assms(2)] ok more cancelled_signal_safe by blast
    with sub show "\<forall>e\<in>set (fa_envelopes r). ?safe e" by (auto simp: action_safe)
  next
    assume safe: "\<forall>e\<in>set (fa_envelopes r). ?safe e"
    show "\<forall>l\<in>set (ledger_of run (db w)). l_status l \<noteq> ''PENDING_VERIFICATION''"
    proof (intro ballI notI)
      fix l
      assume l: "l \<in> set (ledger_of run (db w))" "l_status l = ''PENDING_VERIFICATION''"
      then have li: "l_id l \<noteq> []" using assms(2) by (simp add: rows_named_def)
      have "from_ledger ?fr run (ledger_dict l) \<in> set ?ss" unfolding report_signals_eq using l by auto
      then have "JStr (failure_id run ''tool_ledger'' (l_id l)) \<in> JStr ` source_id ` set (?ss @ more)"
        using source_ids(2) [OF li, of ?fr run] by (metis UnI1 image_eqI set_append)
      then obtain e where e: "e \<in> set (fa_envelopes r)" "entry e ''failure_id'' = JStr (failure_id run ''tool_ledger'' (l_id l))"
        unfolding es dedupe_envelopes_props(3) [of ?fr, symmetric] by auto
      with sub obtain s where s: "e = envelope s" "s \<in> set ?ss \<union> set more" by auto
      have id: "source_id s = failure_id run ''tool_ledger'' (l_id l)" using e(2) s(1) by simp
      have "s \<notin> set more"
        using more id run_id_differs [OF li, of run] by (auto simp: source_id_def cancelled_run_def)
      with s(2) have "unsafe_signal s" using same_id_unsafe [OF assms(2,3) l _ id] by blast
      then show False using safe e(1) s(1) action_safe [of ?fr s] by blast
    qed
  qed
  then show ?thesis by (simp add: plan plan_safe)
qed

end
