(* ===== verification/Failure_Graph.thy ===== *)
theory Failure_Graph
  imports Failure_Report
begin

text \<open>
  The causal graph of a failure report is well formed: every node has one key, no edge is there twice, and both ends of
  every edge are nodes, when the steps that rows name are among the steps of the run.
\<close>

section \<open>The causal graph\<close>

text \<open>Every edge joins two nodes and every key names one node; a builder keeps this and forgets no node.\<close>

definition keys :: "graph \<Rightarrow> string set" where
  "keys g = set (map fst (g_nodes g))"

definition wf_graph :: "graph \<Rightarrow> bool" where
  "wf_graph g \<longleftrightarrow> distinct (map fst (g_nodes g)) \<and> distinct (g_edges g) \<and>
     (\<forall>(s, t, k) \<in> set (g_edges g). s \<in> keys g \<and> t \<in> keys g)"

definition enlarges :: "graph \<Rightarrow> graph \<Rightarrow> bool" where
  "enlarges g h \<longleftrightarrow> (wf_graph g \<longrightarrow> wf_graph h) \<and> keys g \<subseteq> keys h"

lemma enlarges_refl: "enlarges g g" and enlarges_trans: "enlarges g h \<Longrightarrow> enlarges h i \<Longrightarrow> enlarges g i"
  by (auto simp: enlarges_def)

lemma enlarges_keys: "enlarges g h \<Longrightarrow> k \<in> keys g \<Longrightarrow> k \<in> keys h"
  by (auto simp: enlarges_def)

lemma keys_add_node: "keys (add_node fr kind v attrs g) = insert (node_key fr kind v) (keys g)"
  by (auto simp: add_node_def keys_def Let_def map_of_eq_None_iff dest: map_of_SomeD)

lemma keys_add_edge [simp]: "keys (add_edge s t k g) = keys g"
  by (simp add: add_edge_def keys_def)

lemma enlarges_add_node: "enlarges g (add_node fr kind v attrs g)"
proof -
  have "wf_graph (add_node fr kind v attrs g)" if "wf_graph g"
    using that unfolding wf_graph_def keys_add_node
    by (auto simp: add_node_def Let_def map_of_eq_None_iff)
  then show ?thesis by (auto simp: enlarges_def keys_add_node)
qed

lemma enlarges_add_edge: "s \<in> keys g \<Longrightarrow> t \<in> keys g \<Longrightarrow> enlarges g (add_edge s t k g)"
  by (auto simp: enlarges_def wf_graph_def add_edge_def keys_def)

lemma enlarges_link:
  assumes "s \<in> insert (node_key fr kind v) (keys g)" and "t \<in> insert (node_key fr kind v) (keys g)"
  shows "enlarges g (add_edge s t k (add_node fr kind v attrs g))"
  by (rule enlarges_trans [OF enlarges_add_node enlarges_add_edge]) (use assms in \<open>simp_all add: keys_add_node\<close>)

lemma enlarges_add_below:
  assumes "run_node \<in> keys g" and "truthy step \<longrightarrow> node_key fr ''step'' step \<in> keys g"
  shows "enlarges g (add_below fr run_node kind v attrs run_edge step_edge step g)"
proof -
  let ?g1 = "add_edge run_node (node_key fr kind v) run_edge (add_node fr kind v attrs g)"
  have g1: "enlarges g ?g1"
    using assms(1) by (intro enlarges_link) simp_all
  have "enlarges ?g1 (add_edge (node_key fr ''step'' step) (node_key fr kind v) step_edge ?g1)" if "truthy step"
    using that assms(2) by (intro enlarges_add_edge) (simp_all add: keys_add_node)
  with g1 show ?thesis by (auto simp: add_below_def Let_def intro: enlarges_trans)
qed

lemma key_add_below: "node_key fr kind v \<in> keys (add_below fr run_node kind v attrs run_edge step_edge step g)"
  by (simp add: add_below_def Let_def keys_add_node)

text \<open>A fold of operations that grow the graph while it has the keys they ask for.\<close>

lemma enlarges_fold:
  assumes "\<And>x g. x \<in> set xs \<Longrightarrow> K \<subseteq> keys g \<Longrightarrow> enlarges g (f x g)" and "K \<subseteq> keys g"
  shows "enlarges g (fold f xs g)"
  using assms
proof (induction xs arbitrary: g)
  case (Cons x xs)
  have one: "enlarges g (f x g)" by (rule Cons.prems) (use Cons.prems(2) in auto)
  then have "K \<subseteq> keys (f x g)" using Cons.prems(2) enlarges_keys by blast
  then have "enlarges (f x g) (fold f xs (f x g))" by (intro Cons.IH Cons.prems(1)) auto
  with one show ?case by (auto intro: enlarges_trans)
qed (simp add: enlarges_refl)

lemma enlarges_add_ref: "key \<in> keys g \<Longrightarrow> enlarges g (add_ref fr key r g)"
  unfolding add_ref_def Let_def by (rule enlarges_link) simp_all

lemma enlarges_add_failure:
  assumes "run_node \<in> keys g"
  shows "enlarges g (add_failure fr run_node env g)"
proof -
  let ?key = "node_key fr ''failure'' (entry env ''failure_id'')"
  let ?g1 = "add_edge run_node ?key ''has_failure''
    (add_node fr ''failure'' (entry env ''failure_id'') (map (\<lambda>k. (k, entry env k)) [''category'', ''status'', ''owner'']) g)"
  have "enlarges g ?g1"
    using assms by (intro enlarges_link) simp_all
  moreover have "enlarges ?g1 (fold (add_ref fr ?key) rs ?g1)" for rs
    by (rule enlarges_fold [where K = "{?key}"]) (simp_all add: enlarges_add_ref keys_add_node)
  ultimately show ?thesis unfolding add_failure_def Let_def by (rule enlarges_trans)
qed

lemma key_add_failure: "node_key fr ''failure'' (entry env ''failure_id'') \<in> keys (add_failure fr run_node env g)"
proof -
  have "enlarges g' (fold (add_ref fr key) rs g')" if "key \<in> keys g'" for key rs g'
    by (rule enlarges_fold [where K = "{key}"]) (use that in \<open>simp_all add: enlarges_add_ref\<close>)
  then show ?thesis unfolding add_failure_def Let_def by (rule enlarges_keys) (simp_all add: keys_add_node)
qed

lemma key_fold:
  assumes "x \<in> set xs" and "\<And>g. key x \<in> keys (f x g)" and "\<And>x g. K \<subseteq> keys g \<Longrightarrow> x \<in> set xs \<Longrightarrow> enlarges g (f x g)" and "K \<subseteq> keys g"
  shows "key x \<in> keys (fold f xs g)"
  using assms(1,3,4)
proof (induction xs arbitrary: g)
  case (Cons y ys)
  have step: "enlarges g (f y g)" using Cons.prems by simp
  then have K: "K \<subseteq> keys (f y g)" using Cons.prems(3) enlarges_keys by blast
  show ?case
  proof (cases "x = y")
    case True
    have "enlarges (f y g) (fold f ys (f y g))" by (rule enlarges_fold [where K = K]) (use Cons.prems(2) K in auto)
    then show ?thesis using assms(2) [of g] True enlarges_keys by (metis fold_simps(2))
  next
    case False
    then show ?thesis using Cons.IH [of "f y g"] Cons.prems K by simp
  qed
qed simp


lemma enlarges_keeps: "enlarges g h \<Longrightarrow> wf_graph g \<Longrightarrow> wf_graph h" and enlarges_all: "enlarges g h \<Longrightarrow> K \<subseteq> keys g \<Longrightarrow> K \<subseteq> keys h"
  by (auto simp: enlarges_def)

lemma enlarges_comp:
  assumes "\<And>h. K \<subseteq> keys h \<Longrightarrow> enlarges h (f h)" and "\<And>h. K \<subseteq> keys h \<Longrightarrow> enlarges h (f' h)" and "K \<subseteq> keys h"
  shows "enlarges h ((f' \<circ> f) h)"
proof -
  have "K \<subseteq> keys (f h)" using assms(1) [OF assms(3)] assms(3) by (rule enlarges_all)
  from enlarges_trans [OF assms(1) [OF assms(3)] assms(2) [OF this]] show ?thesis by simp
qed

lemma start_graph:
  "wf_graph (add_node fr kind v attrs \<lparr>g_nodes = [], g_edges = []\<rparr>)"
  "keys (add_node fr kind v attrs \<lparr>g_nodes = [], g_edges = []\<rparr>) = {node_key fr kind v}"
  by (simp_all add: wf_graph_def add_node_def keys_def Let_def)

text \<open>
  C27: The causal graph of a report is closed. When the steps that events, ledger rows, approvals and costs name are steps of the
  run, both ends of every edge are nodes, no node and no edge is there twice, and every failure of the report has a node.
\<close>
theorem causal_graph_closed:
  assumes "\<forall>row\<in>set (lrows @ prows @ erows @ crows). truthy (entry row ''step_id'') \<longrightarrow>
    (\<exists>s\<in>set srows. entry s ''step_id'' = entry row ''step_id'')"
  shows "wf_graph (causal_graph fr run st envs srows lrows prows erows crows) \<and>
    (\<forall>e\<in>set envs. node_key fr ''failure'' (entry e ''failure_id'') \<in> keys (causal_graph fr run st envs srows lrows prows erows crows))"
proof -
  let ?run = "node_key fr ''run'' (JStr run)"
  let ?K = "insert ?run ((\<lambda>s. node_key fr ''step'' (entry s ''step_id'')) ` set srows)"
  define g0 where "g0 = add_node fr ''run'' (JStr run) [(''status'', JStr st)] \<lparr>g_nodes = [], g_edges = []\<rparr>"
  define g1 where "g1 = fold (add_step fr ?run) srows g0"
  define g5 where "g5 = (fold (add_cost fr ?run) crows \<circ> fold (add_approval fr ?run) prows \<circ> fold (add_ledger fr ?run) lrows \<circ>
    fold (add_event fr ?run) erows) g1"
  have g: "causal_graph fr run st envs srows lrows prows erows crows = fold (add_failure fr ?run) envs g5"
    by (simp add: causal_graph_def g0_def g1_def g5_def Let_def)
  have run: "{?run} \<subseteq> keys g0" by (simp add: g0_def start_graph)
  have step: "enlarges h (add_step fr ?run s h)" if "{?run} \<subseteq> keys h" for s h
    using that unfolding add_step_def by (intro enlarges_add_below) simp_all
  have g1: "enlarges g0 g1" unfolding g1_def by (rule enlarges_fold [OF step run])
  have "node_key fr ''step'' (entry s ''step_id'') \<in> keys g1" if "s \<in> set srows" for s
    unfolding g1_def
    by (rule key_fold [where key = "\<lambda>s. node_key fr ''step'' (entry s ''step_id'')", OF that _ step run])
      (simp add: add_step_def key_add_below)
  then have K1: "?K \<subseteq> keys g1" using enlarges_all [OF g1 run] by auto
  have known: "node_key fr ''step'' (entry row ''step_id'') \<in> ?K"
    if "row \<in> set (lrows @ prows @ erows @ crows)" "truthy (entry row ''step_id'')" for row
    using assms that by (metis (no_types, lifting) image_eqI insertI2)
  have below: "enlarges h (add_below fr ?run kind v attrs re se (entry row ''step_id'') h)"
    if "row \<in> set (lrows @ prows @ erows @ crows)" "?K \<subseteq> keys h" for row kind v attrs re se h
  proof (rule enlarges_add_below)
    show "?run \<in> keys h" using that(2) by simp
    show "truthy (entry row ''step_id'') \<longrightarrow> node_key fr ''step'' (entry row ''step_id'') \<in> keys h"
      using known [OF that(1)] that(2) by blast
  qed
  have rows: "enlarges h (fold (add_event fr ?run) erows h)" "enlarges h (fold (add_ledger fr ?run) lrows h)"
    "enlarges h (fold (add_approval fr ?run) prows h)" "enlarges h (fold (add_cost fr ?run) crows h)" if "?K \<subseteq> keys h" for h
    by (rule enlarges_fold [OF _ that], unfold add_event_def add_ledger_def add_approval_def add_cost_def, rule below; simp)+
  have g5: "enlarges g1 g5"
    unfolding g5_def by (rule enlarges_comp [OF _ _ K1], rule rows, assumption, rule enlarges_comp, rule rows, assumption,
      rule enlarges_comp, (rule rows, assumption)+)
  have wf5: "wf_graph g5" using enlarges_keeps [OF g5] enlarges_keeps [OF g1] by (simp add: g0_def start_graph)
  have K5: "{?run} \<subseteq> keys g5" using enlarges_all [OF g5 K1] by simp
  have failure: "enlarges h (add_failure fr ?run e h)" if "{?run} \<subseteq> keys h" for e h
    using that by (intro enlarges_add_failure) simp
  have "wf_graph (fold (add_failure fr ?run) envs g5)" by (rule enlarges_keeps [OF enlarges_fold [OF failure K5] wf5])
  moreover have "node_key fr ''failure'' (entry e ''failure_id'') \<in> keys (fold (add_failure fr ?run) envs g5)" if "e \<in> set envs" for e
    by (rule key_fold [where key = "\<lambda>e. node_key fr ''failure'' (entry e ''failure_id'')", OF that _ failure K5]) (rule key_add_failure)
  ultimately show ?thesis by (simp add: g)
qed

end
