(* ===== verification/Failure_Examples.thy ===== *)
theory Failure_Examples
  imports Failure_Spec Failure_Graph Store_Examples
begin

text \<open>
  A worker that stops inside a tool call, so that the ledger row stays \<open>RESERVED\<close>, and a step that waits for an approval.
\<close>

lemma costs_add_up: "\<exists>q. total_usd (map (cost_dict fr) cs) = Inr q"
proof -
  have "mapE (\<lambda>row. py_float (py_or (entry row ''amount'') (JInt 0))) (filter P (map (cost_dict fr) cs)) =
      Inr (map (\<lambda>row. right_or 0 (py_float (py_or (entry row ''amount'') (JInt 0)))) (filter P (map (cost_dict fr) cs)))" for P
    by (rule mapE_total) (auto simp: cost_dict_def py_or_def right_or_def)
  then show ?thesis by (simp add: total_usd_def)
qed

lemma report_returns:
  assumes "find_run (db w) run = Some row"
  shows "\<exists>r. report_failures loads run w = (Inr r, w)"
proof -
  have "\<exists>r. snapshot_report fr run st srows lrows prows erows (map (cost_dict fr) cs) = Inr r" for fr st srows lrows prows erows cs
    using costs_add_up [of fr cs] by (auto simp: snapshot_report_def failure_alerts_def Let_def)
  then show ?thesis using assms by (auto simp: report_failures_def exec liftM_def split: sum.splits)
qed

definition crashed :: world where
  "crashed = snd (reserve_ledger demo_reservation demo_claimed)"

lemma crashed_row:
  "(\<exists>l. ledger (db crashed) = [l] \<and> l_id l \<noteq> [] \<and> l_run l = ''run_0'' \<and> l_step l = ''step_2'' \<and> l_status l = ''RESERVED'') \<and>
   steps (db crashed) = steps (db demo_claimed) \<and> runs (db crashed) = runs (db demo_claimed) \<and> approvals (db crashed) = approvals (db demo_claimed)"
  using demo_ticks
  by (simp add: crashed_def reserve_ledger_def exec find_ledger_def insert_ledger_def demo_reservation_def)

lemma demo_tables:
  "(approvals (db demo_claimed), ledger (db demo_waiting)) = ([], [])"
  by code_simp

lemma crashed_named: "rows_named ''run_0'' (db crashed)"
proof -
  have "\<forall>s\<in>set (steps (db demo_claimed)). s_id s \<noteq> []"
    using demo_views by (auto simp: view_unfolded map_eq_Cons_conv)
  then show ?thesis
    using crashed_row demo_tables by (auto simp: rows_named_def steps_of_def ledger_of_def approval_requests_def)
qed

theorem replay_plan_exact_witness:
  "\<exists>r l. report_failures (\<lambda>_. None) ''run_0'' crashed = (Inr r, crashed) \<and> ledger (db crashed) = [l] \<and> l_status l = ''RESERVED'' \<and>
     entry (fa_plan r) ''safe_to_replay'' = JBool True"
proof -
  obtain l where l: "ledger (db crashed) = [l]" "l_status l = ''RESERVED''" using crashed_row by blast
  have "find_run (db crashed) ''run_0'' = find_run (db demo_claimed) ''run_0''" using crashed_row by (simp add: find_run_def)
  then obtain r where r: "report_failures (\<lambda>_. None) ''run_0'' crashed = (Inr r, crashed)"
    using demo_claimed_run report_returns by metis
  have "inj_on (\<lambda>l. slug (l_id l)) (set (ledger_of ''run_0'' (db crashed)))" using l(1) by (simp add: ledger_of_def)
  from replay_plan_exact [OF r crashed_named this] l r show ?thesis by (auto simp: ledger_of_def)
qed

lemma waiting_named: "rows_named ''run_0'' (db demo_waiting)"
proof -
  have "\<forall>s\<in>set (steps (db demo_waiting)). s_id s \<noteq> []" "\<forall>p\<in>set (approvals (db demo_waiting)). p_id p \<noteq> []"
    using demo_waiting_view by (auto simp: view_unfolded map_eq_Cons_conv)
  then show ?thesis using demo_tables by (auto simp: rows_named_def steps_of_def ledger_of_def approval_requests_def)
qed

theorem report_names_failures_witness:
  "\<exists>r. report_failures (\<lambda>_. None) ''run_0'' demo_waiting = (Inr r, demo_waiting) \<and>
     JStr (failure_id ''run_0'' ''step'' ''step_2'') \<in> (\<lambda>e. entry e ''failure_id'') ` set (fa_envelopes r)"
proof -
  obtain row where "find_run (db demo_waiting) ''run_0'' = Some row"
    using demo_waiting_view by (auto simp: view_unfolded find_run_def map_eq_Cons_conv)
  then obtain r where r: "report_failures (\<lambda>_. None) ''run_0'' demo_waiting = (Inr r, demo_waiting)" using report_returns by blast
  have "(''step'', ''step_2'') \<in> set (failure_sources ''run_0'' (db demo_waiting))"
    using demo_waiting_view by (auto simp: view_unfolded map_eq_Cons_conv failure_sources_def steps_of_def image_iff)
  then show ?thesis using report_names_failures [OF r waiting_named] r by (auto simp: image_subset_iff split: prod.splits)
qed

text \<open>A run with one step, which emitted an event and used a tool, and a failure that refers to both.\<close>

theorem causal_graph_closed_witness:
  "wf_graph (causal_graph (\<lambda>_. ''0.0'') ''r'' ''failed''
     [[(''failure_id'', JStr ''f''), (''causal_refs'', JList (refs (\<lambda>_. ''0.0'') (JStr ''s1'') (JStr ''mail'') JNull JNull JNull))]]
     [[(''step_id'', JStr ''s1'')]] [[(''tool_name'', JStr ''mail''), (''step_id'', JStr ''s1'')]] []
     [[(''seq'', JInt 1), (''step_id'', JStr ''s1'')]] [])"
  using causal_graph_closed [of "[[(''tool_name'', JStr ''mail''), (''step_id'', JStr ''s1'')]]" "[]"
      "[[(''seq'', JInt 1), (''step_id'', JStr ''s1'')]]" "[]" "[[(''step_id'', JStr ''s1'')]]" "\<lambda>_. ''0.0''" "''r''" "''failed''"
      "[[(''failure_id'', JStr ''f''), (''causal_refs'', JList (refs (\<lambda>_. ''0.0'') (JStr ''s1'') (JStr ''mail'') JNull JNull JNull))]]"]
  by simp

end
