(* ===== verification/Time_Travel.thy ===== *)
theory Time_Travel
  imports Diff
begin

text \<open>
  The time travel debugger of \<open>src/agentledger/timetravel.py\<close>: the state of a run is built again from its event log, one
  patch at a time, and looked at as it was after any event.
\<close>

record frame =
  tf_seq :: int
  tf_event :: string
  tf_type :: string
  tf_step :: "string option"
  tf_role :: "string option"
  tf_version :: "int option"
  tf_time :: rat
  tf_changed :: bool
  tf_keys :: "string list"
  tf_patch :: "dict option"
  tf_diff :: "dict option"
  tf_after :: "json option"

definition opt_json :: "json option \<Rightarrow> json" where
  "opt_json x = (case x of None \<Rightarrow> JNull | Some j \<Rightarrow> j)"

definition frame_to_dict :: "frame \<Rightarrow> json" where
  "frame_to_dict f = JObj ([(''seq'', JInt (tf_seq f)), (''event_id'', JStr (tf_event f)), (''type'', JStr (tf_type f)),
     (''step_id'', opt_str (tf_step f)), (''agent_role'', opt_str (tf_role f)), (''state_version'', opt_int (tf_version f)),
     (''timestamp'', JFloat (tf_time f)), (''state_changed'', JBool (tf_changed f)), (''changed_keys'', strings (tf_keys f)),
     (''patch'', opt_json (map_option JObj (tf_patch f)))] @
     (case tf_diff f of None \<Rightarrow> [] | Some d \<Rightarrow> [(''state_diff'', JObj d)]) @
     (case tf_after f of None \<Rightarrow> [] | Some s \<Rightarrow> [(''state_after'', s)]))"

record time_travel =
  tt_run :: string
  tt_at :: "int option"
  tt_count :: nat
  tt_timeline :: "frame list"
  tt_state :: json
  tt_selected :: "frame option"

definition time_travel_to_dict :: "time_travel \<Rightarrow> json" where
  "time_travel_to_dict r = JObj [(''run_id'', JStr (tt_run r)), (''at_seq'', opt_int (tt_at r)), (''event_count'', JInt (int (tt_count r))),
     (''timeline'', JList (map frame_to_dict (tt_timeline r))), (''state_at_seq'', tt_state r),
     (''selected_event'', opt_json (map_option frame_to_dict (tt_selected r)))]"

section \<open>Rebuilding the state\<close>

definition dict_or_empty :: "json \<Rightarrow> dict" where
  "dict_or_empty v = (case v of JObj es \<Rightarrow> es | _ \<Rightarrow> [])"

definition patch_for_event :: "string \<Rightarrow> json \<Rightarrow> dict option" where
  "patch_for_event event_type payload =
     (case payload of
        JObj es \<Rightarrow>
          if event_type = ''run_created'' then Some (dict_or_empty (entry_or (JObj []) es ''initial_state''))
          else if event_type \<in> {''state_committed'', ''system_state_patch_applied''} then Some (dict_or_empty (entry es ''patch''))
          else None
      | _ \<Rightarrow> None)"

definition state_after :: "event_row \<times> json \<Rightarrow> json \<Rightarrow> json" where
  "state_after ep state =
     (case patch_for_event (e_type (fst ep)) (snd ep) of None \<Rightarrow> state | Some p \<Rightarrow> merge_patch state (JObj p))"

definition frame_of :: "bool \<Rightarrow> bool \<Rightarrow> event_row \<times> json \<Rightarrow> json \<Rightarrow> json \<Rightarrow> frame" where
  "frame_of with_states with_diffs ep before after =
     (let e = fst ep; ks = sort (changed_keys (entries before) (entries after)) in
      \<lparr>tf_seq = e_seq e, tf_event = e_id e, tf_type = e_type e, tf_step = e_step e, tf_role = e_role e, tf_version = e_version e,
       tf_time = e_time e, tf_changed = (ks \<noteq> []), tf_keys = ks, tf_patch = patch_for_event (e_type e) (snd ep),
       tf_diff = (if with_diffs then Some (diff_dict (entries before) (entries after)) else None),
       tf_after = (if with_states then Some after else None)\<rparr>)"

text \<open>Each event with the state after it.\<close>

fun states_along :: "json \<Rightarrow> (event_row \<times> json) list \<Rightarrow> ((event_row \<times> json) \<times> json \<times> json) list" where
  "states_along state [] = []"
| "states_along state (ep # eps) = (ep, state, state_after ep state) # states_along (state_after ep state) eps"

definition inspect :: "(string \<Rightarrow> json option) \<Rightarrow> string \<Rightarrow> int option \<Rightarrow> bool \<Rightarrow> bool \<Rightarrow> time_travel act" where
  "inspect loads run at_seq with_states with_diffs =
     bindM (select_db (events_of run)) (\<lambda>rows.
     bindM (mapM (exported_event loads) rows) (\<lambda>eps.
     let line = map (\<lambda>(ep, before, after). (frame_of with_states with_diffs ep before after, after)) (states_along (JObj []) eps);
         seen = (case at_seq of None \<Rightarrow> line | Some n \<Rightarrow> filter (\<lambda>x. tf_seq (fst x) \<le> n) line) in
     retM \<lparr>tt_run = run, tt_at = at_seq, tt_count = length line, tt_timeline = map fst line,
       tt_state = (if seen = [] then JObj [] else snd (last seen)),
       tt_selected = (if at_seq = None \<or> seen = [] then None else Some (fst (last seen)))\<rparr>))"

end
