(* ===== verification/Json_Order.thy ===== *)
theory Json_Order
  imports World
begin

text \<open>
  JSON values up to the order of their keys: \<open>sort_keys\<close> is a normal form, and a merge patch respects it. A payload is
  stored with its keys sorted, so this is the equality between a patch and what the log says of it.
\<close>

definition norm_entries :: "dict \<Rightarrow> dict" where
  "norm_entries es = map (\<lambda>e. (fst e, sort_keys (snd e))) (sort_key fst es)"

lemma map_of_sorted: "distinct (map fst es) \<Longrightarrow> map_of (sort_key fst es) = map_of es"
  by (rule map_of_eqI) (auto simp: map_of_eq_Some_iff distinct_map inj_on_def)

lemma distinct_sorted_keys: "distinct (map fst es) \<Longrightarrow> distinct (map fst (sort_key fst es))"
  by (simp add: distinct_map)

lemma map_of_values: "map_of (map (\<lambda>e. (fst e, f (snd e))) es) k = map_option f (map_of es k)"
  by (induction es) auto

lemma map_of_norm: "distinct (map fst es) \<Longrightarrow> map_of (norm_entries es) k = map_option sort_keys (map_of es k)"
  by (simp add: norm_entries_def map_of_values map_of_sorted)

lemma sorted_norm: "distinct (map fst es) \<Longrightarrow> sorted (map fst (norm_entries es)) \<and> distinct (map fst (norm_entries es))"
  using distinct_sorted_keys [of es] by (simp add: norm_entries_def comp_def)

lemma norm_entries_eqI:
  assumes "distinct (map fst es)" and "distinct (map fst fs)"
    and "\<And>k. map_option sort_keys (map_of es k) = map_option sort_keys (map_of fs k)"
  shows "norm_entries es = norm_entries fs"
proof (rule map_sorted_distinct_set_unique [where f = fst])
  have maps: "map_of (norm_entries es) = map_of (norm_entries fs)" by (rule ext) (simp add: map_of_norm assms)
  have "x \<in> set (norm_entries es) \<longleftrightarrow> x \<in> set (norm_entries fs)" for x
    using maps sorted_norm [OF assms(1)] sorted_norm [OF assms(2)]
    by (cases x) (metis map_of_eq_Some_iff)
  then show sets: "set (norm_entries es) = set (norm_entries fs)" by blast
  show "inj_on fst (set (norm_entries es) \<union> set (norm_entries fs))"
    using sorted_norm [OF assms(1)] by (simp add: distinct_map flip: sets)
qed (use sorted_norm assms in auto)

lemma sort_keys_JObj: "sort_keys (JObj es) = JObj (norm_entries es)"
  by (simp add: norm_entries_def)

lemma norm_entries_eqD:
  assumes "distinct (map fst es)" and "distinct (map fst fs)" and "norm_entries es = norm_entries fs"
  shows "map_option sort_keys (map_of es k) = map_option sort_keys (map_of fs k)"
  by (simp flip: map_of_norm add: assms)

lemma get_sort_keys:
  assumes "wf_json a" and "wf_json b" and "sort_keys a = sort_keys b"
  shows "map_option sort_keys (get a k) = map_option sort_keys (get b k)"
  using assms by (cases a; cases b) (auto simp: get_def sort_keys_JObj simp del: sort_keys.simps(2) intro!: norm_entries_eqD)

lemma wf_sort_keys: "wf_json v \<Longrightarrow> wf_json (sort_keys v)"
proof (induction v)
  case (JObj es)
  then show ?case
    by (auto simp: sort_keys_JObj norm_entries_def comp_def distinct_sorted_keys simp del: sort_keys.simps(2))
qed simp_all

lemma sort_keys_null: "sort_keys v = JNull \<longleftrightarrow> v = JNull"
  by (cases v) simp_all

lemma wf_get': "wf_json a \<Longrightarrow> get a k = Some v \<Longrightarrow> wf_json v"
  by (cases a) (auto simp: get_def dest!: map_of_SomeD)

section \<open>Merge patches\<close>

lemma merge_patch_plain: "\<not> is_obj p \<Longrightarrow> merge_patch t p = p"
  by (cases p) simp_all

lemma is_obj_sort_keys: "is_obj (sort_keys p) = is_obj p"
  by (cases p) simp_all

lemma merge_patch_obj:
  assumes "wf_json (JObj ps)" and "wf_json a" and "wf_json (JObj qs)" and "wf_json b"
    and "\<And>k. map_option sort_keys (patched (get a k) (map_of ps k)) = map_option sort_keys (patched (get b k) (map_of qs k))"
  shows "sort_keys (merge_patch a (JObj ps)) = sort_keys (merge_patch b (JObj qs))"
proof -
  have "wf_json (merge_patch a (JObj ps))" "wf_json (merge_patch b (JObj qs))" using assms(1-4) wf_merge_patch by blast+
  then have "distinct (map fst (merge_entries (entries a) ps))" "distinct (map fst (merge_entries (entries b) qs))" by auto
  moreover have "map_option sort_keys (map_of (merge_entries (entries a) ps) k) = map_option sort_keys (map_of (merge_entries (entries b) qs) k)" for k
    using assms(5) [of k] merge_patch_get [OF assms(1), of a k] merge_patch_get [OF assms(3), of b k] by simp
  ultimately have "norm_entries (merge_entries (entries a) ps) = norm_entries (merge_entries (entries b) qs)"
    by (rule norm_entries_eqI)
  then show ?thesis by (simp only: merge_patch.simps sort_keys_JObj)
qed

lemma sort_keys_twice: "wf_json v \<Longrightarrow> sort_keys (sort_keys v) = sort_keys v"
proof (induction v rule: measure_induct_rule [where f = size])
  case (less v)
  show ?case
  proof (cases v)
    case (JObj es)
    with less.prems have d: "distinct (map fst es)" by simp
    have "map_option sort_keys (map_of (norm_entries es) k) = map_option sort_keys (map_of es k)" for k
    proof (cases "map_of es k")
      case (Some x)
      then have "(k, x) \<in> set es" by (rule map_of_SomeD)
      with less.IH [of x] less.prems Some d size_snd_lt [of "(k, x)" es] show ?thesis by (auto simp: map_of_norm JObj)
    qed (simp add: map_of_norm d)
    then have "norm_entries (norm_entries es) = norm_entries es" using sorted_norm [OF d] d by (intro norm_entries_eqI) auto
    then show ?thesis by (simp add: JObj sort_keys_JObj del: sort_keys.simps(2))
  next
    case (JList xs)
    then show ?thesis using less by (auto simp: less_Suc_eq_le size_list_estimation')
  qed simp_all
qed

lemma merge_patch_sorted:
  "wf_json p \<Longrightarrow> wf_json a \<Longrightarrow> wf_json b \<Longrightarrow> sort_keys a = sort_keys b \<Longrightarrow>
     sort_keys (merge_patch a p) = sort_keys (merge_patch b (sort_keys p))"
proof (induction p arbitrary: a b rule: measure_induct_rule [where f = size])
  case (less p)
  show ?case
  proof (cases "is_obj p")
    case False
    with less.prems(1) show ?thesis by (simp add: merge_patch_plain is_obj_sort_keys sort_keys_twice)
  next
    case True
    then obtain ps where p: "p = JObj ps" by (cases p) auto
    have wf: "wf_json (JObj ps)" and d: "distinct (map fst ps)" using less.prems(1) by (auto simp: p)
    have "sort_keys (merge_patch a (JObj ps)) = sort_keys (merge_patch b (JObj (norm_entries ps)))"
    proof (rule merge_patch_obj [OF wf less.prems(2) _ less.prems(3)])
      show "wf_json (JObj (norm_entries ps))" using wf_sort_keys [OF wf] by (simp only: sort_keys_JObj)
      fix k
      have old: "map_option sort_keys (get a k) = map_option sort_keys (get b k)" using less.prems by (intro get_sort_keys)
      show "map_option sort_keys (patched (get a k) (map_of ps k)) = map_option sort_keys (patched (get b k) (map_of (norm_entries ps) k))"
      proof (cases "map_of ps k")
        case None
        then show ?thesis using old by (simp add: map_of_norm d patched_def)
      next
        case (Some v)
        then have v: "(k, v) \<in> set ps" by (rule map_of_SomeD)
        let ?old = "\<lambda>x. case x of None \<Rightarrow> JObj [] | Some t \<Rightarrow> t"
        have "wf_json v" "size v < size p" using wf v size_snd_lt [OF v] by (auto simp: p)
        moreover have "wf_json (?old (get a k))" "wf_json (?old (get b k))" "sort_keys (?old (get a k)) = sort_keys (?old (get b k))"
          using old less.prems(2,3) by (auto split: option.splits dest: wf_get')
        ultimately have "sort_keys (merge_patch (?old (get a k)) v) = sort_keys (merge_patch (?old (get b k)) (sort_keys v))"
          by (intro less.IH)
        moreover have "patched old (Some x) = (if x = JNull then None else Some (merge_patch (?old old) x))" for old x
          by (cases x) (simp_all add: patched_def)
        ultimately show ?thesis using Some by (simp add: map_of_norm d sort_keys_null)
      qed
    qed
    then show ?thesis by (simp add: p sort_keys_JObj del: sort_keys.simps(2))
  qed
qed

text \<open>A value without nulls in its objects is the patch that makes it.\<close>

fun no_nulls :: "json \<Rightarrow> bool" where
  "no_nulls (JObj es) = (\<forall>e\<in>set es. snd e \<noteq> JNull \<and> no_nulls (snd e))"
| "no_nulls v = True"

lemma merge_patch_empty: "wf_json p \<Longrightarrow> no_nulls p \<Longrightarrow> sort_keys (merge_patch (JObj []) p) = sort_keys p"
proof (induction p rule: measure_induct_rule [where f = size])
  case (less p)
  show ?case
  proof (cases p)
    case (JObj ps)
    have d: "distinct (map fst ps)" using less.prems(1) by (simp add: JObj)
    have wf: "wf_json (merge_patch (JObj []) p)" using less.prems(1) by (intro wf_merge_patch) simp_all
    have "map_option sort_keys (map_of (merge_entries [] ps) k) = map_option sort_keys (map_of ps k)" for k
    proof (cases "map_of ps k")
      case None
      then show ?thesis by (simp add: map_of_merge_entries d patched_def)
    next
      case (Some v)
      then have v: "(k, v) \<in> set ps" by (rule map_of_SomeD)
      then have "sort_keys (merge_patch (JObj []) v) = sort_keys v" "v \<noteq> JNull"
        using less.prems size_snd_lt [OF v] by (auto simp: JObj intro!: less.IH)
      then show ?thesis using Some by (cases v) (simp_all add: map_of_merge_entries d patched_def)
    qed
    moreover have "distinct (map fst (merge_entries [] ps))" using wf by (simp add: JObj)
    ultimately have "norm_entries (merge_entries [] ps) = norm_entries ps" using d by (intro norm_entries_eqI)
    then show ?thesis by (simp only: JObj merge_patch.simps entries.simps sort_keys_JObj)
  qed simp_all
qed

end
