(* ===== verification/Log_State.thy ===== *)
theory Log_State
  imports Time_Travel Json_Order Store_Spec
begin

text \<open>
  The event log determines the state of every run: the patches of its \<open>run_created\<close>, \<open>state_committed\<close> and
  \<open>system_state_patch_applied\<close> events, merged in the order of the log, give the state in the \<open>runs\<close> table, up to the order
  of keys. The locale \<open>silent_relation\<close> is the interface for all calls that write none of these events.
\<close>

section \<open>The state in the log\<close>

definition state_event :: "event_row \<Rightarrow> bool" where
  "state_event e \<longleftrightarrow> e_type e \<in> {''run_created'', ''state_committed'', ''system_state_patch_applied''}"

definition patch_of :: "event_row \<Rightarrow> dict option" where
  "patch_of e = (case e_payload e of Inline j \<Rightarrow> patch_for_event (e_type e) j | Ref r \<Rightarrow> None)"

definition apply_event :: "event_row \<Rightarrow> json \<Rightarrow> json" where
  "apply_event e state = (case patch_of e of None \<Rightarrow> state | Some p \<Rightarrow> merge_patch state (JObj p))"

definition log_state :: "string \<Rightarrow> event_row list \<Rightarrow> json" where
  "log_state run es = fold apply_event (filter (\<lambda>e. e_run e = run) es) (JObj [])"

definition inline_event :: "event_row \<Rightarrow> bool" where
  "inline_event e \<longleftrightarrow> (\<exists>j. e_payload e = Inline j)"

definition in_step :: "json \<Rightarrow> json \<Rightarrow> bool" where
  "in_step a b \<longleftrightarrow> wf_json a \<and> wf_json b \<and> sort_keys a = sort_keys b"

definition tracked :: "db \<Rightarrow> bool" where
  "tracked d \<longleftrightarrow> distinct (map r_id (runs d)) \<and>
     (\<forall>e\<in>set (events d). state_event e \<longrightarrow> e_run e \<in> r_id ` set (runs d) \<and> inline_event e) \<and>
     (\<forall>r\<in>set (runs d). in_step (r_state r) (log_state (r_id r) (events d)))"

lemma tracked_empty: "tracked empty_db"
  by (simp add: tracked_def empty_db_def)

lemma patch_of_other: "\<not> state_event e \<Longrightarrow> patch_of e = None"
  by (auto simp: state_event_def patch_of_def patch_for_event_def split: payload.splits json.splits)

lemma apply_others: "\<forall>e\<in>set es. \<not> state_event e \<Longrightarrow> fold apply_event es s = s"
  by (induction es) (simp_all add: apply_event_def patch_of_other)

lemma log_state_others: "\<forall>e\<in>set es. \<not> state_event e \<Longrightarrow> log_state run (xs @ es) = log_state run xs"
  by (simp add: log_state_def apply_others)

lemma log_state_snoc:
  "\<forall>e\<in>set es. \<not> state_event e \<Longrightarrow> log_state run (xs @ e # es) = (if e_run e = run then apply_event e (log_state run xs) else log_state run xs)"
  by (simp add: log_state_def apply_others)

lemma log_state_none: "\<forall>e\<in>set es. state_event e \<longrightarrow> e_run e \<noteq> run \<Longrightarrow> log_state run es = JObj []"
  by (induction es rule: rev_induct) (auto simp: log_state_def apply_event_def patch_of_other)

section \<open>The three kinds of change\<close>

lemma tracked_silent:
  assumes "tracked d" and "map (\<lambda>r. (r_id r, r_state r)) (runs d') = map (\<lambda>r. (r_id r, r_state r)) (runs d)"
    and "events d' = events d @ es" and "\<forall>e\<in>set es. \<not> state_event e"
  shows "tracked d'"
proof -
  have ids: "map r_id (runs d') = map r_id (runs d)" using arg_cong [OF assms(2), of "map fst"] by (simp add: comp_def)
  then have id_set: "r_id ` set (runs d') = r_id ` set (runs d)" by (simp flip: set_map)
  have "\<exists>r'\<in>set (runs d). r_id r' = r_id r \<and> r_state r' = r_state r" if "r \<in> set (runs d')" for r
  proof -
    have "(r_id r, r_state r) \<in> set (map (\<lambda>r. (r_id r, r_state r)) (runs d))" using that by (simp flip: assms(2))
    then show ?thesis by auto
  qed
  then show ?thesis
    using assms(1,4) unfolding tracked_def ids id_set assms(3)
    by (auto simp: log_state_others) (metis log_state_others)
qed

lemma tracked_patch:
  assumes "tracked d" and r: "find_run d run = Some r" and p: "wf_json (JObj p)"
    and "runs d' = update_where (\<lambda>r'. r_id r' = run \<and> r_version r' = r_version r) f (runs d)"
    and f: "\<And>r'. r_id (f r') = r_id r' \<and> r_state (f r') = merge_patch (r_state r) (JObj p)"
    and "events d' = events d @ e # es" and others: "\<forall>e\<in>set es. \<not> state_event e"
    and e: "e_run e = run" "inline_event e" "patch_of e = Some (norm_entries p)"
  shows "tracked d'"
proof -
  have mem: "r \<in> set (runs d)" "r_id r = run" using r find_run_mem find_run_id by blast+
  have ids: "map r_id (runs d') = map r_id (runs d)" unfolding assms(4) using f by (simp add: update_where_def)
  then have id_set: "r_id ` set (runs d') = r_id ` set (runs d)" by (simp flip: set_map)
  have "in_step (r_state x) (log_state (r_id x) (events d'))" if x: "x \<in> set (runs d')" for x
  proof -
    obtain y where y: "y \<in> set (runs d)" "x = (if r_id y = run \<and> r_version y = r_version r then f y else y)"
      using x unfolding assms(4) by (auto simp: update_where_def)
    have old: "in_step (r_state y) (log_state (r_id y) (events d))" using assms(1) y(1) by (simp add: tracked_def)
    show ?thesis
    proof (cases "r_id y = run")
      case True
      with y(1) mem assms(1) have "y = r" by (auto simp: tracked_def distinct_map dest: inj_onD)
      then have "r_state x = merge_patch (r_state r) (JObj p)" "r_id x = run" using y(2) f mem by auto
      moreover have "log_state run (events d') = merge_patch (log_state run (events d)) (JObj (norm_entries p))"
        using e by (simp add: assms(6) log_state_snoc [OF others] apply_event_def)
      moreover have "wf_json (JObj (norm_entries p))" using wf_sort_keys [OF p] by (simp only: sort_keys_JObj)
      ultimately show ?thesis
        using old \<open>y = r\<close> mem(2) p merge_patch_sorted [OF p, of "r_state r" "log_state run (events d)"]
        by (simp only: in_step_def wf_merge_patch sort_keys_JObj simp_thms)
    next
      case False
      with y(2) old e(1) show ?thesis by (simp add: assms(6) log_state_snoc [OF others])
    qed
  qed
  moreover have "\<forall>e\<in>set (events d'). state_event e \<longrightarrow> e_run e \<in> r_id ` set (runs d) \<and> inline_event e"
  proof -
    have "e_run e \<in> r_id ` set (runs d)" using mem e(1) by (metis imageI)
    with assms(1) e(2) others show ?thesis unfolding assms(6) tracked_def by auto
  qed
  ultimately show ?thesis using assms(1) by (simp add: tracked_def ids id_set)
qed

lemma tracked_create:
  assumes "tracked d" and "r_id r \<notin> r_id ` set (runs d)" and "runs d' = runs d @ [r]"
    and "events d' = events d @ e # es" and others: "\<forall>e\<in>set es. \<not> state_event e"
    and s: "r_state r = JObj s" "wf_json (JObj s)" "no_nulls (JObj s)"
    and e: "e_run e = r_id r" "inline_event e" "patch_of e = Some (norm_entries s)"
  shows "tracked d'"
proof -
  have "\<forall>e\<in>set (events d). state_event e \<longrightarrow> e_run e \<noteq> r_id r" using assms(1,2) unfolding tracked_def by metis
  then have "log_state (r_id r) (events d) = JObj []" by (rule log_state_none)
  then have log: "log_state (r_id r) (events d') = merge_patch (JObj []) (JObj (norm_entries s))"
    using e by (simp add: assms(4) log_state_snoc [OF others] apply_event_def)
  have wf: "wf_json (JObj (norm_entries s))" using wf_sort_keys [OF s(2)] by (simp only: sort_keys_JObj)
  have "sort_keys (merge_patch (JObj []) (JObj (norm_entries s))) = sort_keys (merge_patch (JObj []) (JObj s))"
    using merge_patch_sorted [OF s(2), of "JObj []" "JObj []"] by (simp only: sort_keys_JObj) simp
  with merge_patch_empty [OF s(2,3)] wf s(2) have "in_step (r_state r) (log_state (r_id r) (events d'))"
    unfolding in_step_def log s(1) by (intro conjI wf_merge_patch) simp_all
  moreover have "in_step (r_state x) (log_state (r_id x) (events d'))" if "x \<in> set (runs d)" for x
  proof -
    have "r_id x \<noteq> r_id r" using that assms(2) by (metis imageI)
    then show ?thesis using assms(1) that e(1) by (simp add: assms(4) log_state_snoc [OF others] tracked_def)
  qed
  ultimately show ?thesis
    using assms(1,2) e(1,2) others unfolding tracked_def assms(3,4) by auto
qed

section \<open>Calls that log no state\<close>

definition state_type :: "string \<Rightarrow> bool" where
  "state_type t \<longleftrightarrow> t \<in> {''run_created'', ''state_committed'', ''system_state_patch_applied''}"

lemma state_event_type: "state_event e \<longleftrightarrow> state_type (e_type e)"
  by (simp add: state_event_def state_type_def)

definition silent :: "world \<Rightarrow> world \<Rightarrow> bool" where
  "silent w w' \<longleftrightarrow> map (\<lambda>r. (r_id r, r_state r)) (runs (db w')) = map (\<lambda>r. (r_id r, r_state r)) (runs (db w)) \<and>
     (\<exists>es. events (db w') = events (db w) @ es \<and> (\<forall>e\<in>set es. \<not> state_event e))"

lemma silent_trans: "silent u v \<Longrightarrow> silent v w \<Longrightarrow> silent u w"
  by (auto simp: silent_def)

lemma silent_same: "runs (db w') = runs (db w) \<Longrightarrow> events (db w') = events (db w) \<Longrightarrow> silent w w'"
  by (simp add: silent_def)

interpretation quiet_log: store_preorder silent
  by unfold_locales (auto simp: restore_def silent_same intro: silent_trans)

lemma stays_same_state: "(\<And>w. runs (db (snd (m w))) = runs (db w) \<and> events (db (snd (m w))) = events (db w)) \<Longrightarrow> stays silent m"
  by (simp add: stays_def silent_same)

lemma silent_statements:
  "stays silent (update_steps p' f')"
  "stays silent (update_approvals p'' f'')"
  "stays silent (set_ledger k st x h r e t)"
  "stays silent (insert_step s)"
  "stays silent (insert_ledger l)"
  "stays silent (insert_approval a)"
  "stays silent (insert_artifact b)"
  "stays silent (insert_cost c)"
  "stays silent (get_run i)"
  "stays silent (get_step j)"
  by (rule stays_same_state, simp add: exec set_ledger_def insert_step_def insert_ledger_def
      insert_approval_def insert_artifact_def insert_cost_def split: option.split)+

lemma silent_reads: "stays silent (get_approval k)" "stays silent (get_ledger l)"
  unfolding get_approval_def get_ledger_def by (intro quiet_log.store_rules)+

lemma silent_status: "stays silent (update_runs p (\<lambda>r. r\<lparr>r_status := st, r_updated := t\<rparr>))"
proof -
  have "map (\<lambda>r. (r_id r, r_state r)) (update_where p (\<lambda>r. r\<lparr>r_status := st, r_updated := t\<rparr>) rs) = map (\<lambda>r. (r_id r, r_state r)) rs" for rs
    by (simp add: update_where_def)
  then show ?thesis by (simp add: stays_def exec silent_def)
qed

lemma silent_append_event: "\<not> state_type (v_type v) \<Longrightarrow> stays silent (append_event_in_tx v)"
  by (auto simp: stays_def append_event_in_tx_eq silent_def logged_def new_event_def state_event_type)

lemma silent_log_event: "\<not> state_type (v_type v) \<Longrightarrow> stays silent (log_event v)"
  unfolding log_event_def by (intro quiet_log.store_rules silent_append_event)

lemmas silent_rules = quiet_log.store_rules silent_statements silent_reads silent_status silent_append_event silent_log_event

lemma event_type [simp]: "v_type (event run sess step ty p) = ty"
  by (simp add: event_def)

lemma silent_claim_update: "stays silent (claim_update u n t row)"
  unfolding claim_update_def claimed_def by (intro silent_rules) (simp_all add: state_type_def)

lemma silent_loops: "stays silent (claim_loop n u run secs)" "stays silent (recover_rows t rows)"
proof -
  show "stays silent (claim_loop n u run secs)"
    by (induction n) (simp_all only: claim_loop.simps, (intro silent_rules silent_claim_update | assumption)+)
  show "stays silent (recover_rows t rows)"
    by (induction rows) (simp_all only: recover_rows.simps, (intro silent_rules | assumption | simp add: state_type_def)+)
qed

lemma silent_validate_lease: "stays silent (validate_lease i t)"
  unfolding validate_lease_def by (intro silent_rules)

lemma silent_run_operations:
  "stays silent (create_external_step run st pol)"
  "stays silent (claim_step u r secs)"
  "stays silent (heartbeat i tok secs)"
  "stays silent recover_expired_leases"
  "stays silent (cancel_run run reason)"
  "stays silent (mark_waiting_human run i reason a)"
  "stays silent (mark_retry run i err ty)"
  "stays silent (mark_failed run i err ty)"
  unfolding create_external_step_def claim_step_def heartbeat_def recover_expired_leases_def cancel_run_def
    mark_waiting_human_def mark_retry_def mark_failed_def fail_step_def
  by (intro silent_rules silent_loops silent_validate_lease; simp add: state_type_def)+

lemma silent_ledger_operations:
  "stays silent (request_approval q)"
  "stays silent (decide_approval a st who reason)"
  "stays silent (reserve_ledger g)"
  "stays silent (update_ledger key st x h r e)"
  "stays silent (resolve_ledger z)"
  "stays silent (create_artifact run step name hash ref m)"
  "stays silent (record_cost run sess step cat name amount u m)"
  unfolding request_approval_def decide_approval_def reserve_ledger_def update_ledger_def
    resolve_ledger_def create_artifact_def record_cost_def fail_step_def
  by (intro silent_rules silent_loops silent_validate_lease; simp add: state_type_def)+

end
