(* ===== verification/Time_Travel_Spec.thy ===== *)
theory Time_Travel_Spec
  imports Log_State Safety
begin

text \<open>
  Every history of \<open>plain_op\<close> calls keeps the log and the tables in step, and so the time travel debugger, which reads
  the log only, finds the state of the \<open>runs\<close> table. No plain call are: a \<open>create_run\<close> with null entries, which it stores and
  a merge patch removes; a state or patch that is no well-formed object; a commit whose row was read before another commit
  (\<open>Commit_Write\<close>), which loses a patch the log still has; and an event appended by hand whose type says that a state changed.
\<close>

section \<open>Histories whose log tells the state\<close>

definition plain_state :: "json \<Rightarrow> bool" where
  "plain_state v \<longleftrightarrow> \<not> truthy v \<or> is_obj v \<and> wf_json v \<and> no_nulls v"

definition plain_patch :: "json \<Rightarrow> bool" where
  "plain_patch v \<longleftrightarrow> is_obj v \<and> wf_json v"

fun plain_op :: "store_op \<Rightarrow> bool" where
  "plain_op (Create_Run sess st pol) = plain_state st"
| "plain_op (Commit_State_Patch run i tok base patch ck) = plain_patch patch"
| "plain_op (Commit_Write run i base patch ck ts step row) = False"
| "plain_op (Apply_System_State_Patch run patch reason) = plain_patch patch"
| "plain_op (Append_Event v) = (\<not> state_type (v_type v))"
| "plain_op op = True"

lemma log_event_Inr: "log_event v w = (Inr x, w') \<Longrightarrow> w' = logged v w"
  by (rule log_event_cases [of v w]) auto

lemma insert_run_Inr:
  "insert_run r w = (Inr x, w') \<Longrightarrow> r_id r \<notin> r_id ` set (runs (db w)) \<and> w' = w\<lparr>db := (db w)\<lparr>runs := runs (db w) @ [r]\<rparr>\<rparr>"
  by (auto simp: insert_run_def split: if_splits)

lemma insert_step_Inr: "insert_step s w = (Inr x, w') \<Longrightarrow> w' = w\<lparr>db := (db w)\<lparr>steps := steps (db w) @ [s]\<rparr>\<rparr>"
  by (auto simp: insert_step_def split: if_splits)

lemma validate_lease_db: "validate_lease i tok w = (r, w') \<Longrightarrow> db w' = db w"
  using quietD [OF quiet_reads(3)] by metis

lemma forget_perform: "perform c w = w' \<Longrightarrow> call c = forget m \<Longrightarrow> atomic m \<Longrightarrow> db w' \<noteq> db w \<Longrightarrow> \<exists>x. m w = (Inr x, w')"
  by (auto simp: perform_def forget_def exec dest: atomicD split: prod.splits sum.splits)

lemma create_body:
  assumes "seqM (insert_run r) (seqM (insert_step s) (seqM (log_event v1) (log_event v2))) w = (Inr x, w')"
  obtains e1 e2 where "r_id r \<notin> r_id ` set (runs (db w))" "runs (db w') = runs (db w) @ [r]" "events (db w') = events (db w) @ [e1, e2]"
    "e_run e1 = v_run v1" "e_type e1 = v_type v1" "v_ref v1 = None \<longrightarrow> e_payload e1 = Inline (sort_keys (v_payload v1))" "e_type e2 = v_type v2"
proof -
  obtain x1 x2 x3 w1 w2 w3 where "insert_run r w = (Inr x1, w1)" "insert_step s w1 = (Inr x2, w2)" "log_event v1 w2 = (Inr x3, w3)"
    "log_event v2 w3 = (Inr x, w')"
    using assms by (elim seqM_okE)
  then show ?thesis
    using that [of "new_event v1 w2" "new_event v2 w3"]
    by (auto simp: new_event_def dest!: insert_run_Inr insert_step_Inr log_event_Inr)
qed

lemma create_run_body:
  assumes "create_run sess init pol w = (Inr x, w')"
  obtains r s v1 v2 retry y w1 where
    "txn (seqM (insert_run r) (seqM (insert_step s) (seqM (log_event v1) (log_event v2)))) w1 = (Inr y, w')"
    "db w1 = db w" "r_state r = (if truthy init then init else JObj [])" "v_run v1 = r_id r" "v_type v1 = ''run_created''"
    "v_ref v1 = None" "v_payload v1 = JObj [(''initial_state'', r_state r), (''retry_policy'', retry)]" "v_type v2 = ''step_created''"
  using assms unfolding create_run_def Let_def
  apply (elim bindM_okE seqM_okE)
  apply (simp only: new_id_apply now_ts_apply liftM_apply retM_apply prod.inject sum.inject sum.distinct simp_thms)
  apply (elim conjE)
  apply (rule that, assumption)
  apply (auto simp: event_def exec split: option.splits if_splits)
  done

lemma create_run_effect:
  assumes "create_run sess init pol w = (Inr x, w')"
  obtains r e1 e2 retry where "r_id r \<notin> r_id ` set (runs (db w))" "runs (db w') = runs (db w) @ [r]"
    "r_state r = (if truthy init then init else JObj [])" "events (db w') = events (db w) @ [e1, e2]"
    "e_run e1 = r_id r" "e_type e1 = ''run_created''"
    "e_payload e1 = Inline (sort_keys (JObj [(''initial_state'', r_state r), (''retry_policy'', retry)]))" "e_type e2 = ''step_created''"
  using assms
proof (elim create_run_body)
  fix r s v1 v2 retry y w1
  assume "txn (seqM (insert_run r) (seqM (insert_step s) (seqM (log_event v1) (log_event v2)))) w1 = (Inr y, w')"
    and body: "db w1 = db w" "r_state r = (if truthy init then init else JObj [])" "v_run v1 = r_id r" "v_type v1 = ''run_created''"
    "v_ref v1 = None" "v_payload v1 = JObj [(''initial_state'', r_state r), (''retry_policy'', retry)]" "v_type v2 = ''step_created''"
  then obtain e1 e2 where "r_id r \<notin> r_id ` set (runs (db w1))" "runs (db w') = runs (db w1) @ [r]"
    "events (db w') = events (db w1) @ [e1, e2]" "e_run e1 = v_run v1" "e_type e1 = v_type v1"
    "v_ref v1 = None \<longrightarrow> e_payload e1 = Inline (sort_keys (v_payload v1))" "e_type e2 = v_type v2"
    by (elim create_body [OF txn_Inr])
  with body show thesis by (intro that [of r e1 e2 retry]) simp_all
qed

definition patched_to :: "world \<Rightarrow> world \<Rightarrow> string \<Rightarrow> json \<Rightarrow> bool" where
  "patched_to w w' run patch \<longleftrightarrow> (\<exists>r f e es. find_run (db w) run = Some r \<and>
     runs (db w') = update_where (\<lambda>r'. r_id r' = run \<and> r_version r' = r_version r) f (runs (db w)) \<and>
     (\<forall>r'. r_id (f r') = r_id r' \<and> r_state (f r') = merge_patch (r_state r) patch) \<and>
     events (db w') = events (db w) @ e # es \<and> (\<forall>x\<in>set es. \<not> state_event x) \<and>
     e_run e = run \<and> inline_event e \<and> patch_of e = Some (dict_or_empty (sort_keys patch)))"

lemma patched_toI:
  assumes "update_runs (\<lambda>r'. r_id r' = run \<and> r_version r' = n) f w1 = (Inr y, w2)" and "db w1 = db w"
    and "find_run (db w) run = Some r" "r_version r = n"
    and "\<And>r'. r_id (f r') = r_id r' \<and> r_state (f r') = merge_patch (r_state r) patch"
    and "runs (db w') = runs (db w2)" and "events (db w') = events (db w2) @ e # es" and "\<forall>x\<in>set es. \<not> state_event x"
    and "e_run e = run \<and> inline_event e \<and> patch_of e = Some (dict_or_empty (sort_keys patch))"
  shows "patched_to w w' run patch"
proof -
  have "runs (db w2) = update_where (\<lambda>r'. r_id r' = run \<and> r_version r' = r_version r) f (runs (db w))" "events (db w2) = events (db w)"
    using assms(1,2,4) by (auto simp: update_runs_apply)
  with assms(3,5-) show ?thesis unfolding patched_to_def
    by (intro exI [of _ r] exI [of _ f] exI [of _ e] exI [of _ es]) simp
qed

lemma system_patch_effect:
  assumes "apply_system_state_patch run patch reason w = (Inr x, w')"
  shows "patched_to w w' run patch"
  using assms unfolding apply_system_state_patch_def Let_def
  apply (elim bindM_okE seqM_okE)
  apply (drule txn_Inr)
  apply (elim bindM_okE seqM_okE)
  apply (drule log_event_Inr)
  apply (rule patched_toI [where es = "[]"], assumption)
  apply (auto simp: exec new_event_def event_def inline_event_def patch_of_def patch_for_event_def entry_def split: option.splits)
  done

lemma commit_effect:
  assumes "commit_state_patch run i tok base patch ck w = (Inr x, w')"
  shows "patched_to w w' run patch"
  using assms unfolding commit_state_patch_def commit_write_def Let_def
  apply (elim bindM_okE seqM_okE)
  apply (drule txn_Inr)
  apply (elim bindM_okE seqM_okE)
  apply (simp only: raiseM_apply prod.inject sum.distinct simp_thms split: if_splits)
  apply (elim bindM_okE seqM_okE)
  apply (drule validate_lease_db log_event_Inr)+
  apply (rule patched_toI, assumption)
  apply (auto simp: exec new_event_def event_def inline_event_def patch_of_def patch_for_event_def entry_def state_event_def split: option.splits)
  done

lemma payload_patch: "wf_json (JObj p) \<Longrightarrow> dict_or_empty (sort_keys (JObj p)) = norm_entries p"
  by (simp add: dict_or_empty_def norm_entries_def)

lemma tracked_patched_to:
  assumes "tracked (db w)" and "plain_patch patch" and "patched_to w w' run patch"
  shows "tracked (db w')"
proof -
  obtain p where p: "patch = JObj p" "wf_json (JObj p)" using assms(2) by (cases patch) (auto simp: plain_patch_def)
  from assms(3) show ?thesis unfolding patched_to_def p(1) payload_patch [OF p(2)]
    by (elim exE conjE) (rule tracked_patch [OF assms(1) _ p(2)], assumption+, blast, assumption+)
qed

lemma tracked_create_run:
  assumes "tracked (db w)" and "plain_state init" and "create_run sess init pol w = (Inr x, w')"
  shows "tracked (db w')"
  using assms(3)
proof (rule create_run_effect)
  fix r e1 e2 retry
  assume eff: "r_id r \<notin> r_id ` set (runs (db w))" "runs (db w') = runs (db w) @ [r]"
    "r_state r = (if truthy init then init else JObj [])" "events (db w') = events (db w) @ [e1, e2]"
    "e_run e1 = r_id r" "e_type e1 = ''run_created''"
    "e_payload e1 = Inline (sort_keys (JObj [(''initial_state'', r_state r), (''retry_policy'', retry)]))" "e_type e2 = ''step_created''"
  obtain s where s: "r_state r = JObj s" "wf_json (JObj s)" "no_nulls (JObj s)"
    using assms(2) eff(3) by (cases init) (auto simp: plain_state_def split: if_splits)
  have "patch_of e1 = Some (norm_entries s)" "inline_event e1"
    using eff(6,7) by (simp_all add: patch_of_def patch_for_event_def inline_event_def entry_or_def s(1) norm_entries_def dict_or_empty_def)
  moreover have "\<forall>x\<in>set [e2]. \<not> state_event x" using eff(8) by (simp add: state_event_def)
  ultimately show ?thesis using assms(1) eff s by (intro tracked_create [of "db w" r "db w'" e1 "[e2]" s])
qed

lemma tracked_silent_world: "tracked (db w) \<Longrightarrow> silent w w' \<Longrightarrow> tracked (db w')"
  unfolding silent_def using tracked_silent by blast

fun writes_state :: "store_op \<Rightarrow> bool" where
  "writes_state (Create_Run sess st pol) = True"
| "writes_state (Commit_State_Patch run i tok base patch ck) = True"
| "writes_state (Apply_System_State_Patch run patch reason) = True"
| "writes_state op = False"

lemma silent_call: "plain_op c \<Longrightarrow> \<not> writes_state c \<Longrightarrow> stays silent (call c)"
  by (cases c) (simp_all only: call.simps silent_run_operations [THEN quiet_log.stays_forget]
      silent_ledger_operations [THEN quiet_log.stays_forget] silent_claim_update [THEN quiet_log.stays_forget]
      append_event_def silent_append_event [THEN quiet_log.stays_txn, THEN quiet_log.stays_forget]
      plain_op.simps writes_state.simps simp_thms)

lemma tracked_unless: "(\<And>x w'. m w = (Inr x, w') \<Longrightarrow> tracked (db w')) \<Longrightarrow> atomic m \<Longrightarrow> tracked (db w) \<Longrightarrow> tracked (db (snd (forget m w)))"
  by (auto simp: forget_def exec dest: atomicD split: prod.splits sum.splits)

lemma tracked_writers:
  assumes "tracked (db w)"
  shows "plain_state init \<Longrightarrow> tracked (db (perform (Create_Run sess init pol) w))"
    and "plain_patch patch \<Longrightarrow> tracked (db (perform (Commit_State_Patch run i tok base patch ck) w))"
    and "plain_patch patch' \<Longrightarrow> tracked (db (perform (Apply_System_State_Patch run' patch' reason) w))"
proof -
  show "tracked (db (perform (Create_Run sess init pol) w))" if "plain_state init"
    unfolding perform_def call.simps
    by (rule tracked_unless) (erule tracked_create_run [OF assms that], rule atomic_run_operations, rule assms)
  show "tracked (db (perform (Commit_State_Patch run i tok base patch ck) w))" if "plain_patch patch"
    unfolding perform_def call.simps
    by (rule tracked_unless) (erule tracked_patched_to [OF assms that commit_effect], rule atomic_run_operations, rule assms)
  show "tracked (db (perform (Apply_System_State_Patch run' patch' reason) w))" if "plain_patch patch'"
    unfolding perform_def call.simps
    by (rule tracked_unless) (erule tracked_patched_to [OF assms that system_patch_effect], rule atomic_run_operations, rule assms)
qed

lemma tracked_perform:
  assumes "tracked (db w)" and "plain_op c"
  shows "tracked (db (perform c w))"
proof (cases "writes_state c")
  case True
  then show ?thesis using assms by (cases c) (simp_all add: tracked_writers)
next
  case False
  then show ?thesis using perform_stays [OF silent_call [of c], of w] assms tracked_silent_world by blast
qed

lemma tracked_history: "tracked (db w) \<Longrightarrow> list_all plain_op cs \<Longrightarrow> tracked (db (history cs w))"
  by (induction cs arbitrary: w) (simp_all add: history_def tracked_perform)

section \<open>The debugger\<close>

lemma filter_upto:
  "map f xs = map int [1..<Suc (length xs)] \<Longrightarrow> filter (\<lambda>x. f x \<le> int n) xs = take n xs"
  by (induction xs rule: rev_induct) auto

lemma events_of_numbered:
  assumes "numbered (events d)"
  shows "events_of run d = filter (\<lambda>e. e_run e = run) (events d)"
    and "map e_seq (events_of run d) = map int [1..<Suc (length (events_of run d))]"
proof -
  have seqs: "map e_seq (filter (\<lambda>e. e_run e = run) (events d)) = map int [1..<Suc (length (filter (\<lambda>e. e_run e = run) (events d)))]"
    using assms unfolding numbered_def seqs_def by (simp only: length_map)
  moreover have "sorted (map int [1..<Suc k])" for k by (simp add: sorted_map del: upt_Suc)
  ultimately show eq: "events_of run d = filter (\<lambda>e. e_run e = run) (events d)"
    unfolding events_of_def by (intro sort_key_id_if_sorted) metis
  show "map e_seq (events_of run d) = map int [1..<Suc (length (events_of run d))]" by (simp only: eq seqs)
qed

lemma take_states_along: "take n (states_along s eps) = states_along s (take n eps)"
  by (induction eps arbitrary: s n) (auto simp: take_Cons split: nat.split)

lemma states_along_Nil [simp]: "states_along s eps = [] \<longleftrightarrow> eps = []"
  by (cases eps) simp_all

lemma last_state: "eps \<noteq> [] \<Longrightarrow> snd (snd (last (states_along s eps))) = fold state_after eps s"
  by (induction eps arbitrary: s) auto

lemma keys_along: "map (\<lambda>x. fst x) (states_along s eps) = eps"
  by (induction eps arbitrary: s) simp_all

lemma mapM_reads:
  "\<forall>x\<in>set xs. \<exists>y. f x w = (Inr y, w) \<Longrightarrow> \<exists>ys. mapM f xs w = (Inr ys, w) \<and> list_all2 (\<lambda>x y. f x w = (Inr y, w)) xs ys"
  by (induction xs) (auto simp: exec)

lemma exported_state:
  assumes "exported_event loads e w = (Inr ep, w)" and "state_event e \<longrightarrow> inline_event e"
  shows "fst ep = e" "state_after ep = apply_event e"
  using assms
  by (auto simp: exported_event_def exec inline_event_def decode_payload_def state_after_def apply_event_def patch_of_def patch_for_event_def
      state_event_def fun_eq_iff split: payload.splits prod.splits sum.splits json.splits if_splits)

definition readable :: "(string \<Rightarrow> json option) \<Rightarrow> string \<Rightarrow> world \<Rightarrow> bool" where
  "readable loads run w \<longleftrightarrow> list_all (\<lambda>e. \<exists>ep. exported_event loads e w = (Inr ep, w)) (events_of run (db w))"

lemma fold_state_after:
  "list_all2 (\<lambda>e ep. state_after ep = apply_event e) es eps \<Longrightarrow> fold state_after eps s = fold apply_event es s"
  by (induction arbitrary: s rule: list_all2_induct) auto

lemma inspect_seen:
  assumes "mapM (exported_event loads) (events_of run (db w)) w = (Inr eps, w)"
    and "map (e_seq \<circ> fst) eps = map int [1..<Suc (length eps)]"
  shows "\<exists>rep. inspect loads run (Some (int n)) st df w = (Inr rep, w) \<and> tt_count rep = length eps \<and>
     tt_state rep = fold state_after (take n eps) (JObj [])"
proof -
  let ?line = "map (\<lambda>(ep, before, after). (frame_of st df ep before after, after)) (states_along (JObj []) eps)"
  have "map (tf_seq \<circ> fst) ?line = map (e_seq \<circ> fst) (map (\<lambda>x. fst x) (states_along (JObj []) eps))"
    by (auto simp: frame_of_def Let_def)
  moreover have len: "length ?line = length eps" using arg_cong [OF keys_along [of "JObj []" eps], of length] by simp
  ultimately have "map (tf_seq \<circ> fst) ?line = map int [1..<Suc (length ?line)]" using assms(2) by (simp only: keys_along)
  then have seen: "filter (\<lambda>x. tf_seq (fst x) \<le> int n) ?line = take n ?line"
    using filter_upto [of "tf_seq \<circ> fst" ?line n] by simp
  have shown: "(if take n ?line = [] then JObj [] else snd (last (take n ?line))) = fold state_after (take n eps) (JObj [])"
    using last_state [of "take n eps" "JObj []"] by (auto simp: take_map take_states_along last_map split_beta)
  show ?thesis
    unfolding inspect_def
    by (simp only: bindM_apply select_db_apply assms(1) prod.case sum.case Let_def option.case seen retM_apply)
      (rule exI, rule conjI, rule refl, simp only: time_travel.select_convs len shown simp_thms)
qed

lemma events_of_prefix:
  assumes "prefix (events d) (events d')" and "numbered (events d)" and "numbered (events d')"
  shows "take (length (events_of run d)) (events_of run d') = events_of run d"
  using assms(1) by (auto simp: events_of_numbered(1) assms(2,3) prefix_def)

text \<open>
  C15: the debugger sees the past of a run as it was. In every history of \<open>plain_op\<close> calls, the state it rebuilds from the
  log as of the number of events a run had at some moment is, up to the order of keys, the state the \<open>runs\<close> table
  held at that moment, whatever happened since; and looking changes nothing. The calls left out are a \<open>create_run\<close> with
  null entries in its state, states and patches that are no well-formed objects, the write \<open>Commit_Write\<close> of a commit that read
  too early, and an \<open>Append_Event\<close> of a type that tells of a state; and the blobs of the run's payloads have to be readable.
\<close>
theorem time_travel_exact:
  assumes "fresh_world w0" and "list_all plain_op cs" and "list_all plain_op ds"
    and "w = history cs w0" and "v = history ds w" and "find_run (db w) run = Some r" and "readable loads run v"
  shows "\<exists>rep. inspect loads run (Some (int (length (events_of run (db w))))) with_states with_diffs v = (Inr rep, v) \<and>
     tt_count rep = length (events_of run (db v)) \<and> sort_keys (tt_state rep) = sort_keys (r_state r)"
proof -
  let ?n = "length (events_of run (db w))"
  have later: "later w0 w" "later w v" "later w0 v" using assms(4,5) later_history later_trans by blast+
  have nums: "numbered (events (db w))" "numbered (events (db v))" using later_numbered [OF assms(1)] later by blast+
  have tracked: "tracked (db w)" "tracked (db v)"
    using assms(1-5) tracked_empty tracked_history by (auto simp: fresh_world_def)
  obtain eps where eps: "mapM (exported_event loads) (events_of run (db v)) v = (Inr eps, v)"
    "list_all2 (\<lambda>e ep. exported_event loads e v = (Inr ep, v)) (events_of run (db v)) eps"
    using mapM_reads [where f = "exported_event loads", OF assms(7) [unfolded readable_def list_all_iff]] by (elim exE conjE)
  have each: "list_all2 (\<lambda>e ep. fst ep = e \<and> state_after ep = apply_event e) (events_of run (db v)) eps"
  proof (rule list.rel_mono_strong [OF eps(2)], intro conjI)
    fix e ep assume e: "e \<in> set (events_of run (db v))" and ep: "exported_event loads e v = (Inr ep, v)"
    have "state_event e \<longrightarrow> inline_event e" using tracked(2) e by (auto simp: tracked_def events_of_def)
    then show "fst ep = e" "state_after ep = apply_event e" using exported_state [OF ep] by blast+
  qed
  then have fsts: "map fst eps = events_of run (db v)"
    by (induction rule: list_all2_induct) simp_all
  then have len: "length eps = length (events_of run (db v))" by (metis length_map)
  have "map (e_seq \<circ> fst) eps = map int [1..<Suc (length eps)]"
    using events_of_numbered(2) [OF nums(2), of run] by (simp only: len flip: fsts map_map)
  from inspect_seen [OF eps(1) this] obtain rep where rep:
    "inspect loads run (Some (int ?n)) with_states with_diffs v = (Inr rep, v)" "tt_count rep = length eps"
    "tt_state rep = fold state_after (take ?n eps) (JObj [])"
    by blast
  have "prefix (events (db w)) (events (db v))" using later(2) by (rule append_only.always)
  then have "take ?n (events_of run (db v)) = events_of run (db w)" using nums by (rule events_of_prefix)
  moreover have "list_all2 (\<lambda>e ep. state_after ep = apply_event e) (take ?n (events_of run (db v))) (take ?n eps)"
    using each by (intro list_all2_takeI) (erule list.rel_mono_strong, blast)
  ultimately have "tt_state rep = log_state run (events (db w))"
    unfolding rep(3) log_state_def events_of_numbered(1) [OF nums(1), symmetric] by (simp only: fold_state_after)
  moreover have "in_step (r_state r) (log_state run (events (db w)))"
    using tracked(1) find_run_mem [OF assms(6)] find_run_id [OF assms(6)] unfolding tracked_def by blast
  ultimately show ?thesis using rep(1,2) len by (auto simp: in_step_def)
qed

section \<open>A run and its past\<close>

definition past_ops :: "store_op list" where
  "past_ops = [Create_Run None (JObj [(''b'', JInt 1), (''a'', JInt 1)]) JNull]"

definition later_ops :: "store_op list" where
  "later_ops = [Claim_Step ''w1'' None 30, Apply_System_State_Patch ''run_0'' (JObj [(''a'', JNull)]) ''fix'']"

definition is_inline :: "payload \<Rightarrow> bool" where
  "is_inline p = (case p of Inline j \<Rightarrow> True | Ref r \<Rightarrow> False)"

lemma readable_inline: "list_all is_inline (map e_payload (events_of run (db w))) \<Longrightarrow> readable loads run w"
  by (auto simp: readable_def list_all_iff is_inline_def exported_event_def decode_payload_def exec split: payload.splits)

lemma past_and_present:
  "(\<lambda>w. (map_option r_state (find_run (db w) ''run_0''), length (events_of ''run_0'' (db w)))) (history past_ops demo_world) =
     (Some (JObj [(''b'', JInt 1), (''a'', JInt 1)]), 2)"
  "(\<lambda>v. (map_option r_state (find_run (db v) ''run_0''), list_all is_inline (map e_payload (events_of ''run_0'' (db v)))))
     (history later_ops (history past_ops demo_world)) = (Some (JObj [(''b'', JInt 1)]), True)"
  by code_simp+

theorem time_travel_exact_witness:
  "\<exists>rep. inspect (\<lambda>_. None) ''run_0'' (Some 2) False False (history later_ops (history past_ops demo_world)) =
       (Inr rep, history later_ops (history past_ops demo_world)) \<and>
     sort_keys (tt_state rep) = JObj [(''a'', JInt 1), (''b'', JInt 1)]"
proof -
  have ops: "list_all plain_op past_ops" "list_all plain_op later_ops"
    by (simp_all add: past_ops_def later_ops_def plain_state_def plain_patch_def)
  obtain r where r: "find_run (db (history past_ops demo_world)) ''run_0'' = Some r" "r_state r = JObj [(''b'', JInt 1), (''a'', JInt 1)]"
    using past_and_present(1) by auto
  have "readable (\<lambda>_. None) ''run_0'' (history later_ops (history past_ops demo_world))"
    using past_and_present(2) by (intro readable_inline) simp
  from time_travel_exact [OF demo_fresh ops refl refl r(1) this, of False False] show ?thesis
    using past_and_present(1) r(2) by auto
qed

text \<open>The one difference: a null entry of the initial state is in the table and not in the debugger's state.\<close>

lemma initial_null_lost:
  "(\<lambda>w. (map_option r_state (find_run (db w) ''run_0''), map_sum id tt_state (fst (inspect (\<lambda>_. None) ''run_0'' None False False w))))
     (history [Create_Run None (JObj [(''a'', JNull)]) JNull] demo_world) = (Some (JObj [(''a'', JNull)]), Inr (JObj []))"
  by code_simp

end
