(* ===== verification/Review.thy ===== *)
theory Review
  imports Diff
begin

text \<open>
  Checks over an evidence bundle: the release review of \<open>src/agentledger/review.py\<close> and the regression checks of \<open>eval.py\<close>.
  A bundle may have been loaded from a file, so a value of another type than expected raises as it does in Python, at the first
  row that is looked at; \<open>all\<close>, \<open>any\<close>, \<open>and\<close> and \<open>or\<close> stop early.
\<close>

section \<open>Conditions that may raise\<close>

fun allE :: "('a \<Rightarrow> 'e + bool) \<Rightarrow> 'a list \<Rightarrow> 'e + bool" where
  "allE f [] = Inr True"
| "allE f (x # xs) = bindE (f x) (\<lambda>b. if b then allE f xs else Inr False)"

fun filterE :: "('a \<Rightarrow> 'e + bool) \<Rightarrow> 'a list \<Rightarrow> 'e + 'a list" where
  "filterE f [] = Inr []"
| "filterE f (x # xs) = bindE (f x) (\<lambda>b. bindE (filterE f xs) (\<lambda>ys. Inr (if b then x # ys else ys)))"

definition andE :: "'e + bool \<Rightarrow> 'e + bool \<Rightarrow> 'e + bool" where
  "andE x y = bindE x (\<lambda>b. if b then y else Inr False)"

definition orE :: "'e + bool \<Rightarrow> 'e + bool \<Rightarrow> 'e + bool" where
  "orE x y = bindE x (\<lambda>b. if b then Inr True else y)"

text \<open>\<open>row.get(k)\<close>, its truth value, its equality with a word, its membership in a set of words.\<close>

definition cell :: "string \<Rightarrow> json \<Rightarrow> exn + json" where
  "cell k row = attr_get JNull row k"

definition has :: "string \<Rightarrow> json \<Rightarrow> exn + bool" where
  "has k row = bindE (cell k row) (\<lambda>v. Inr (truthy v))"

definition cell_is :: "string \<Rightarrow> string \<Rightarrow> json \<Rightarrow> exn + bool" where
  "cell_is k s row = bindE (cell k row) (\<lambda>v. Inr (v = JStr s))"

definition one_of :: "string list \<Rightarrow> json \<Rightarrow> exn + bool" where
  "one_of ws v = (if hashable v then Inr (v \<in> set (map JStr ws)) else Inl (unhashable v))"

definition cell_in :: "string \<Rightarrow> string list \<Rightarrow> json \<Rightarrow> exn + bool" where
  "cell_in k ws row = bindE (cell k row) (one_of ws)"

definition rows_at :: "dict \<Rightarrow> string \<Rightarrow> exn + json list" where
  "rows_at evidence k = iterate (entry_or (JList []) evidence k)"

section \<open>Conditions on a bundle\<close>

definition known_statuses :: "string list" where
  "known_statuses = [''SUCCEEDED'', ''FAILED_NO_EFFECT'', ''PENDING_VERIFICATION'', ''COMPENSATED'', ''RUNNING'', ''RESERVED'']"

definition ledger_statuses_known :: "dict \<Rightarrow> exn + bool" where
  "ledger_statuses_known evidence = bindE (rows_at evidence ''tool_ledger'') (allE (cell_in ''status'' known_statuses))"

definition completed_step :: "json \<Rightarrow> exn + json option" where
  "completed_step ev =
     bindE (cell_is ''type'' ''step_completed'' ev) (\<lambda>b.
     if \<not> b then Inr None
     else bindE (cell ''step_id'' ev) (\<lambda>v. if hashable v then Inr (Some v) else Inl (unhashable v)))"

definition completed_steps_have_events :: "dict \<Rightarrow> exn + bool" where
  "completed_steps_have_events evidence =
     bindE (rows_at evidence ''steps'') (\<lambda>steps.
     bindE (filterE (cell_is ''status'' ''completed'') steps) (\<lambda>completed.
     bindE (mapE (cell ''step_id'') completed) (\<lambda>ids.
     bindE (rows_at evidence ''events'') (\<lambda>events.
     bindE (mapE completed_step events) (\<lambda>seen.
     allE (\<lambda>i. if hashable i then Inr (\<exists>x\<in>set (somes seen). py_eq i x) else Inl (unhashable i)) ids)))))"

definition event_sequence_contiguous :: "dict \<Rightarrow> exn + bool" where
  "event_sequence_contiguous evidence =
     bindE (rows_at evidence ''events'') (\<lambda>events.
     bindE (mapE (\<lambda>e. bindE (attr_get (JInt 0) e ''seq'') py_int) events) (\<lambda>seqs.
     Inr (seqs = map int [1..<Suc (length seqs)])))"

definition artifacts_have_blob_refs :: "dict \<Rightarrow> exn + bool" where
  "artifacts_have_blob_refs evidence =
     bindE (rows_at evidence ''artifacts'') (allE (\<lambda>row. andE (has ''blob_ref'' row) (has ''blob_hash'' row)))"

definition media_row_ok :: "json \<Rightarrow> exn + bool" where
  "media_row_ok row = andE (has ''kind'' row) (orE (has ''uri'' row) (orE (has ''content_ref'' row) (has ''blob_ref'' row)))"

definition media_have_refs :: "dict \<Rightarrow> exn + bool" where
  "media_have_refs evidence =
     bindE (rows_at evidence ''media_artifacts'') (allE media_row_ok)"

definition stream_row_ok :: "json \<Rightarrow> exn + bool" where
  "stream_row_ok row = andE (has ''stream_id'' row) (andE (has ''consumer_id'' row) (bindE (cell ''offset'' row) (\<lambda>v. Inr (v \<noteq> JNull))))"

definition streams_have_offsets :: "dict \<Rightarrow> exn + bool" where
  "streams_have_offsets evidence =
     bindE (rows_at evidence ''stream_checkpoints'') (allE stream_row_ok)"

definition high_risk_approvals_decided :: "dict \<Rightarrow> exn + bool" where
  "high_risk_approvals_decided evidence =
     bindE (rows_at evidence ''approval_requests'') (\<lambda>rows.
     bindE (filterE (cell_in ''risk_level'' [''high'', ''destructive'', ''sensitive'']) rows)
       (allE (cell_in ''status'' [''APPROVED'', ''DENIED''])))"

definition failure_events :: "string list" where
  "failure_events = [''error_raised'', ''step_failed'', ''model_call_failed'', ''tool_call_failed'', ''tool_call_blocked'']"

definition no_failure_events :: "dict \<Rightarrow> exn + bool" where
  "no_failure_events evidence =
     bindE (rows_at evidence ''events'') (\<lambda>events. bindE (anyE (cell_in ''type'' failure_events) events) (\<lambda>b. Inr (\<not> b)))"

section \<open>Release review\<close>

record review_check =
  rc_name :: string
  rc_passed :: bool
  rc_severity :: string
  rc_detail :: string

definition review_check_to_dict :: "review_check \<Rightarrow> json" where
  "review_check_to_dict c = JObj [(''name'', JStr (rc_name c)), (''passed'', JBool (rc_passed c)), (''severity'', JStr (rc_severity c)),
     (''detail'', JStr (rc_detail c))]"

record review_report =
  rv_passed :: bool
  rv_run :: json
  rv_checks :: "review_check list"
  rv_metadata :: dict

definition review_report_to_dict :: "review_report \<Rightarrow> json" where
  "review_report_to_dict r = JObj [(''passed'', JBool (rv_passed r)), (''run_id'', rv_run r),
     (''checks'', JList (map review_check_to_dict (rv_checks r))), (''metadata'', JObj (rv_metadata r))]"

text \<open>\<open>not summary.get(k, False)\<close>\<close>

definition unset :: "json \<Rightarrow> string \<Rightarrow> exn + bool" where
  "unset summary k = bindE (attr_get (JBool False) summary k) (\<lambda>v. Inr (\<not> truthy v))"

definition review_conditions :: "dict \<Rightarrow> json \<Rightarrow> (string \<times> (exn + bool) \<times> string \<times> string) list" where
  "review_conditions evidence summary =
     [(''no_failed_steps'', unset summary ''has_failed_steps'', ''blocker'', ''no step is in failed status''),
      (''no_pending_verification'', unset summary ''has_pending_verification'', ''blocker'', ''no side effect is pending verification''),
      (''no_pending_approvals'', unset summary ''has_pending_approvals'', ''blocker'', ''no approval request is still pending''),
      (''completed_steps_have_completion_events'', completed_steps_have_events evidence, ''blocker'', ''completed steps have step_completed events''),
      (''ledger_statuses_known'', ledger_statuses_known evidence, ''blocker'', ''Tool Ledger rows use known statuses''),
      (''event_sequence_contiguous'', event_sequence_contiguous evidence, ''blocker'', ''event sequence has no gaps''),
      (''artifacts_have_blob_refs'', artifacts_have_blob_refs evidence, ''warning'', ''artifacts have blob refs and hashes''),
      (''media_artifacts_have_refs'', media_have_refs evidence, ''blocker'', ''media artifacts have kind and durable refs''),
      (''stream_checkpoints_have_offsets'', streams_have_offsets evidence, ''blocker'', ''stream checkpoints have stream, consumer, and offset''),
      (''high_risk_approvals_decided'', high_risk_approvals_decided evidence, ''blocker'', ''high-risk approval requests are decided''),
      (''no_blocking_failure_events'', no_failure_events evidence, ''warning'', ''no blocking failure events are present'')]"

definition within_cost :: "(rat \<Rightarrow> string) \<Rightarrow> string \<Rightarrow> rat \<Rightarrow> rat \<Rightarrow> bool \<times> string" where
  "within_cost fr label usd limit = (usd \<le> limit, label @ ''='' @ fr usd @ '', limit='' @ fr limit)"

definition cost_check :: "(rat \<Rightarrow> string) \<Rightarrow> json \<Rightarrow> rat option \<Rightarrow> exn + review_check list" where
  "cost_check fr spent limit =
     (case limit of
        None \<Rightarrow> Inr []
      | Some n \<Rightarrow>
          bindE (bindE (attr_get (JFloat 0) spent ''total_usd'') (\<lambda>v. py_float (py_or v (JFloat 0)))) (\<lambda>usd.
          Inr [\<lparr>rc_name = ''max_total_usd'', rc_passed = fst (within_cost fr ''total_usd'' usd n), rc_severity = ''blocker'',
            rc_detail = snd (within_cost fr ''total_usd'' usd n)\<rparr>]))"

fun review_checks :: "(string \<times> (exn + bool) \<times> string \<times> string) list \<Rightarrow> exn + review_check list" where
  "review_checks [] = Inr []"
| "review_checks ((name, condition, severity, detail) # cs) =
     bindE condition (\<lambda>b. bindE (review_checks cs) (\<lambda>checks.
     Inr (\<lparr>rc_name = name, rc_passed = b, rc_severity = severity, rc_detail = detail\<rparr> # checks)))"

definition count_at :: "dict \<Rightarrow> string \<Rightarrow> exn + json" where
  "count_at evidence k = bindE (rows_at evidence k) (\<lambda>rows. Inr (JInt (int (length rows))))"

definition review :: "(rat \<Rightarrow> string) \<Rightarrow> dict \<Rightarrow> rat option \<Rightarrow> exn + review_report" where
  "review fr evidence limit =
     (let summary = entry_or (JObj []) evidence ''summary'' in
      bindE (attr_get (JObj []) summary ''cost_summary'') (\<lambda>spent.
      bindE (review_checks (review_conditions evidence summary)) (\<lambda>checks.
      bindE (cost_check fr spent limit) (\<lambda>more_checks.
      bindE (run_name evidence) (\<lambda>run.
      bindE (mapE (count_at evidence) [''events'', ''steps'', ''tool_ledger'', ''approval_requests'', ''artifacts'', ''media_artifacts'',
        ''stream_checkpoints'']) (\<lambda>counts.
      let all_checks = checks @ more_checks in
      Inr \<lparr>rv_passed = list_all rc_passed (filter (\<lambda>c. rc_severity c = ''blocker'') all_checks), rv_run = run, rv_checks = all_checks,
        rv_metadata = zip [''event_count'', ''step_count'', ''tool_ledger_count'', ''approval_count'', ''artifact_count'',
          ''media_artifact_count'', ''stream_checkpoint_count''] counts @ [(''cost_summary'', spent)]\<rparr>))))))"

section \<open>Regression checks\<close>

record evidence_check =
  ec_name :: string
  ec_passed :: bool
  ec_detail :: string

definition evidence_check_to_dict :: "evidence_check \<Rightarrow> json" where
  "evidence_check_to_dict c = JObj [(''name'', JStr (ec_name c)), (''passed'', JBool (ec_passed c)), (''detail'', JStr (ec_detail c))]"

record check_report =
  cr_passed :: bool
  cr_checks :: "evidence_check list"
  cr_metadata :: dict

definition check_report_to_dict :: "check_report \<Rightarrow> json" where
  "check_report_to_dict r = JObj [(''passed'', JBool (cr_passed r)), (''checks'', JList (map evidence_check_to_dict (cr_checks r))),
     (''metadata'', JObj (cr_metadata r))]"

definition new_report :: "evidence_check list \<Rightarrow> dict \<Rightarrow> check_report" where
  "new_report checks metadata = \<lparr>cr_passed = list_all ec_passed checks, cr_checks = checks, cr_metadata = metadata\<rparr>"

definition has_completion_event :: "dict \<Rightarrow> json \<Rightarrow> exn + bool" where
  "has_completion_event evidence step_id =
     (if step_id = JNull then Inr False
      else bindE (rows_at evidence ''events'')
        (anyE (\<lambda>e. andE (cell_is ''type'' ''step_completed'' e) (bindE (cell ''step_id'' e) (\<lambda>v. Inr (py_eq v step_id))))))"

text \<open>\<open>all(has_completion_event(step) for step in steps if completed(step))\<close>\<close>

definition each_completed_has_event :: "dict \<Rightarrow> exn + bool" where
  "each_completed_has_event evidence =
     bindE (rows_at evidence ''steps'') (allE (\<lambda>step.
       bindE (cell_is ''status'' ''completed'' step) (\<lambda>b.
       if b then bindE (cell ''step_id'' step) (has_completion_event evidence) else Inr True)))"

fun evidence_checks :: "(string \<times> (exn + bool) \<times> string) list \<Rightarrow> exn + evidence_check list" where
  "evidence_checks [] = Inr []"
| "evidence_checks ((name, condition, detail) # cs) =
     bindE condition (\<lambda>b. bindE (evidence_checks cs) (\<lambda>checks. Inr (\<lparr>ec_name = name, ec_passed = b, ec_detail = detail\<rparr> # checks)))"

definition evidence_conditions :: "dict \<Rightarrow> json \<Rightarrow> (string \<times> (exn + bool) \<times> string) list" where
  "evidence_conditions evidence summary =
     [(''no_failed_steps'', unset summary ''has_failed_steps'', ''all steps completed or remain non-failed''),
      (''no_pending_verification'', unset summary ''has_pending_verification'', ''no side effect is waiting for human/external verification''),
      (''completed_steps_have_events'', each_completed_has_event evidence, ''each completed step has a step_completed event''),
      (''managed_side_effects_are_ledgered'', ledger_statuses_known evidence, ''every ledger row has a known status''),
      (''media_artifacts_have_refs'', media_have_refs evidence, ''media artifacts have kind and durable refs''),
      (''stream_checkpoints_have_offsets'', streams_have_offsets evidence, ''stream checkpoints have stream, consumer, and offset'')]"

text \<open>\<open>float(summary.get("cost_summary", {}).get("total_usd", 0.0))\<close>\<close>

definition summary_usd :: "json \<Rightarrow> exn + rat" where
  "summary_usd summary =
     bindE (attr_get (JObj []) summary ''cost_summary'') (\<lambda>spent. bindE (attr_get (JFloat 0) spent ''total_usd'') py_float)"

definition limit_check :: "(rat \<Rightarrow> string) \<Rightarrow> string \<Rightarrow> string \<Rightarrow> exn + rat \<Rightarrow> rat option \<Rightarrow> exn + evidence_check list" where
  "limit_check fr name label usd limit =
     (case limit of
        None \<Rightarrow> Inr []
      | Some n \<Rightarrow> bindE usd (\<lambda>x.
          Inr [\<lparr>ec_name = name, ec_passed = fst (within_cost fr label x n), ec_detail = snd (within_cost fr label x n)\<rparr>]))"

definition check_evidence :: "(rat \<Rightarrow> string) \<Rightarrow> dict \<Rightarrow> rat option \<Rightarrow> exn + check_report" where
  "check_evidence fr evidence limit =
     (let summary = entry_or (JObj []) evidence ''summary'' in
      bindE (evidence_checks (evidence_conditions evidence summary)) (\<lambda>checks.
      bindE (limit_check fr ''max_total_usd'' ''total_usd'' (summary_usd summary) limit) (\<lambda>more_checks.
      Inr (new_report (checks @ more_checks) []))))"

section \<open>Regressions\<close>

text \<open>The dimensions a caller asks for, in the order of the checks.\<close>

record regression_options =
  ro_state :: bool
  ro_events :: bool
  ro_ledger :: bool
  ro_media :: bool
  ro_streams :: bool
  ro_usd :: "rat option"

definition default_options :: regression_options where
  "default_options = \<lparr>ro_state = True, ro_events = True, ro_ledger = True, ro_media = True, ro_streams = True, ro_usd = None\<rparr>"

definition change_count :: "(string \<times> dict) list \<Rightarrow> string \<Rightarrow> json" where
  "change_count changes k = (case map_of changes k of None \<Rightarrow> JInt 0 | Some d \<Rightarrow> entry_or (JInt 0) d ''changed_count'')"

definition change_check :: "(rat \<Rightarrow> string) \<Rightarrow> (string \<times> dict) list \<Rightarrow> bool \<Rightarrow> string \<Rightarrow> string \<Rightarrow> string \<Rightarrow> evidence_check list" where
  "change_check fr changes required name k label =
     (if required
      then [\<lparr>ec_name = name, ec_passed = py_eq (change_count changes k) (JInt 0), ec_detail = label @ ''='' @ py_str fr (change_count changes k)\<rparr>]
      else [])"

definition dimension_checks :: "(rat \<Rightarrow> string) \<Rightarrow> (string \<times> dict) list \<Rightarrow> regression_options \<Rightarrow> evidence_check list" where
  "dimension_checks fr changes opts =
     change_check fr changes (ro_state opts) ''final_state_regression'' ''final_state'' ''changed_final_state_keys'' @
     change_check fr changes (ro_events opts) ''event_type_regression'' ''event_types'' ''changed_event_type_positions'' @
     change_check fr changes (ro_ledger opts) ''tool_ledger_status_regression'' ''tool_ledger'' ''changed_ledger_status_positions'' @
     change_check fr changes (ro_media opts) ''media_artifact_regression'' ''media_artifacts'' ''changed_media_artifacts'' @
     change_check fr changes (ro_streams opts) ''stream_checkpoint_regression'' ''stream_checkpoints'' ''changed_stream_checkpoints''"

definition total_of :: "dict \<Rightarrow> exn + rat" where
  "total_of evidence = summary_usd (entry_or (JObj []) evidence ''summary'')"

definition usd_delta :: "dict \<Rightarrow> dict \<Rightarrow> exn + rat" where
  "usd_delta golden current = bindE (total_of golden) (\<lambda>l. bindE (total_of current) (\<lambda>r. Inr (r - l)))"

definition regression_summary :: "dict \<Rightarrow> dict \<Rightarrow> diff_report \<Rightarrow> evidence_check list \<Rightarrow> exn + dict" where
  "regression_summary golden current diff checks =
     (let counts = map (\<lambda>c. (fst c, entry_or (JInt 0) (snd c) ''changed_count'')) (filter (\<lambda>c. has_key ''changed_count'' (snd c)) (dr_changes diff));
          dims = map fst (filter (\<lambda>c. truthy (snd c)) counts);
          changed = (if dr_hash_changed diff \<and> dims = [] then [''bundle_hash''] else dims) in
      bindE (total_of golden) (\<lambda>l.
      bindE (total_of current) (\<lambda>r.
      Inr [(''failed_checks'', strings (map ec_name (filter (\<lambda>c. \<not> ec_passed c) checks))), (''changed_dimensions'', strings changed),
        (''changed_counts'', JObj counts), (''bundle_hash_changed'', JBool (dr_hash_changed diff)), (''cost_delta_usd'', JFloat (r - l)),
        (''left_total_usd'', JFloat l), (''right_total_usd'', JFloat r)])))"

definition evaluate_regression :: "(rat \<Rightarrow> string) \<Rightarrow> dict \<Rightarrow> dict \<Rightarrow> regression_options \<Rightarrow> exn + check_report" where
  "evaluate_regression fr golden current opts =
     bindE (compare_evidence golden current) (\<lambda>diff.
     bindE (limit_check fr ''max_total_usd_delta'' ''total_usd_delta'' (usd_delta golden current) (ro_usd opts)) (\<lambda>usd_checks.
     let checks = dimension_checks fr (dr_changes diff) opts @ usd_checks in
     bindE (regression_summary golden current diff checks) (\<lambda>summary.
     Inr (new_report checks [(''diff'', diff_report_to_dict diff), (''regression_summary'', JObj summary)]))))"

end
