(* ===== verification/Backup.thy ===== *)
theory Backup
  imports Review
begin

text \<open>
  The readiness check of \<open>src/agentledger/backup.py\<close>: is everything there that a copy of a run needs? The version of the schema
  is an argument, it comes from the migrations table. Whatever the looked-up rows and blobs raise is an \<open>Exception\<close>,
  which \<open>except Exception\<close> catches.
\<close>

record backup_check =
  bc_name :: string
  bc_passed :: bool
  bc_detail :: string

definition backup_check_to_dict :: "backup_check \<Rightarrow> json" where
  "backup_check_to_dict c = JObj [(''name'', JStr (bc_name c)), (''passed'', JBool (bc_passed c)), (''detail'', JStr (bc_detail c))]"

record backup_report =
  br_run :: string
  br_passed :: bool
  br_checks :: "backup_check list"
  br_refs :: nat
  br_missing :: "string list"

definition backup_report_to_dict :: "backup_report \<Rightarrow> json" where
  "backup_report_to_dict r = JObj [(''run_id'', JStr (br_run r)), (''passed'', JBool (br_passed r)),
     (''checks'', JList (map backup_check_to_dict (br_checks r))), (''refs_checked'', JInt (int (br_refs r))),
     (''missing_refs'', strings (br_missing r))]"

definition blob_ref :: "string \<Rightarrow> string list" where
  "blob_ref r = (if starts_with ''blob://'' r then [r] else [])"

text \<open>Every blob the events, ledger rows and artifacts of a run refer to, the values nested in the metadata of artifacts included.\<close>

definition payload_refs :: "(rat \<Rightarrow> string) \<Rightarrow> string \<Rightarrow> db \<Rightarrow> string list" where
  "payload_refs fr run d =
     concat (map (\<lambda>e. blob_ref (payload_ref fr (e_payload e))) (events_of run d)) @
     concat (map (\<lambda>l. blob_ref (l_request_ref l) @ (case l_response_ref l of None \<Rightarrow> [] | Some r \<Rightarrow> blob_ref r)) (ledger_of run d)) @
     concat (map (\<lambda>a. blob_ref (a_ref a) @ blob_refs (JObj (metadata_of a))) (artifacts_of run d))"

text \<open>What a block under \<open>try\<close> gives: its value or its exception.\<close>

definition attempted :: "'a act \<Rightarrow> (exn + 'a) act" where
  "attempted m = catchM (bindM m (\<lambda>x. retM (Inr x))) (\<lambda>e. retM (Inl e))"

fun missing_refs :: "string list \<Rightarrow> string list act" where
  "missing_refs [] = retM []"
| "missing_refs (r # rs) =
     bindM (attempted (get_json r)) (\<lambda>found.
     bindM (missing_refs rs) (\<lambda>missing.
     retM (case found of Inl e \<Rightarrow> r # missing | Inr j \<Rightarrow> missing)))"

definition tried :: "string \<Rightarrow> string \<Rightarrow> exn + 'a \<Rightarrow> backup_check" where
  "tried name detail r =
     (case r of
        Inl e \<Rightarrow> \<lparr>bc_name = name, bc_passed = False, bc_detail = repr_exn e\<rparr>
      | Inr x \<Rightarrow> \<lparr>bc_name = name, bc_passed = True, bc_detail = detail\<rparr>)"

definition media_stream_shape_ok :: "dict \<Rightarrow> exn + bool" where
  "media_stream_shape_ok evidence =
     bindE (media_have_refs evidence) (\<lambda>media_ok. bindE (streams_have_offsets evidence) (\<lambda>stream_ok. Inr (media_ok \<and> stream_ok)))"

definition shape_check :: "exn + dict \<Rightarrow> exn + backup_check list" where
  "shape_check exported =
     (case exported of
        Inl e \<Rightarrow> Inr []
      | Inr evidence \<Rightarrow> bindE (media_stream_shape_ok evidence) (\<lambda>ok.
          Inr [\<lparr>bc_name = ''media_stream_evidence_shape'', bc_passed = ok,
            bc_detail = ''media artifacts and stream checkpoints have required refs/cursors''\<rparr>]))"

definition check_run :: "string option \<Rightarrow> (string \<Rightarrow> json option) \<Rightarrow> string \<Rightarrow> backup_report act" where
  "check_run schema_version loads run =
     bindM (getsM repr_float) (\<lambda>fr.
     bindM (select_db (payload_refs fr run)) (\<lambda>refs.
     bindM (attempted (get_run run)) (\<lambda>found.
     bindM (missing_refs refs) (\<lambda>missing.
     bindM (attempted (export_evidence loads run)) (\<lambda>exported.
     bindM (liftM (shape_check exported)) (\<lambda>shape.
     let checks =
       [tried ''run_metadata_exists'' ''run row is present'' found,
        \<lparr>bc_name = ''schema_version_recorded'', bc_passed = (schema_version \<noteq> None),
          bc_detail = ''schema_version='' @ (case schema_version of None \<Rightarrow> ''None'' | Some v \<Rightarrow> v)\<rparr>,
        \<lparr>bc_name = ''payload_refs_resolvable'', bc_passed = (missing = []),
          bc_detail = ''checked='' @ nat_str (length refs) @ '', missing='' @ nat_str (length missing)\<rparr>,
        tried ''evidence_exportable'' ''evidence bundle can be constructed'' exported] @ shape in
     retM \<lparr>br_run = run, br_passed = list_all bc_passed checks, br_checks = checks, br_refs = length refs, br_missing = missing\<rparr>))))))"

end
