(* ===== verification/Review_Spec.thy ===== *)
theory Review_Spec
  imports Review Evidence_Spec Time_Travel_Spec
begin

text \<open>
  A review of an exported bundle never raises and says what the tables say; the order of the log is never what fails.
\<close>

section \<open>Conditions on rows that are dicts\<close>

lemma andE_Inr [simp]: "andE (Inr a) (Inr b) = Inr (a \<and> b)" and orE_Inr [simp]: "orE (Inr a) (Inr b) = Inr (a \<or> b)"
  by (simp_all add: andE_def orE_def)

lemma cell_dict [simp]: "cell k (JObj es) = Inr (entry es k)"
  by (simp add: cell_def get_or_def get_def entry_def)

lemma cell_tests [simp]:
  "has k (JObj es) = Inr (truthy (entry es k))" "cell_is k s (JObj es) = Inr (entry es k = JStr s)"
  by (simp_all add: has_def cell_is_def)

lemma cell_in_dict: "entry es k = JStr x \<Longrightarrow> cell_in k ws (JObj es) = Inr (x \<in> set ws)"
  by (auto simp: cell_in_def one_of_def)

section \<open>The bundle of an export\<close>

lemma export_shape:
  assumes "export_evidence loads run w = (Inr b, w')"
  obtains row ps media streams h where "find_run (db w) run = Some row" "r_id row = run" "length ps = length (events_of run (db w))"
    "mapE media_entry (artifacts_of run (db w)) = Inr media" "mapE checkpoint_entry (artifacts_of run (db w)) = Inr streams"
    "b = bundle_head @ [(''bundle_hash'', h)] @
       bundle_rest (repr_float w) (db w) row (zip (events_of run (db w)) ps) (somes media) (somes streams) (r_state row)"
proof -
  obtain row es w1 where row: "find_run (db w) run = Some row" and es: "mapM (exported_event loads) (events_of run (db w)) w = (Inr es, w1)"
    using assms by (auto simp: export_evidence_def exec split: option.splits prod.splits sum.splits)
  have w1: "w1 = w" using staysD [OF mapM_stays [OF decode_stays(1)] es] by simp
  obtain media streams h where entries: "mapE media_entry (artifacts_of run (db w)) = Inr media"
    "mapE checkpoint_entry (artifacts_of run (db w)) = Inr streams"
    "b = bundle_head @ [(''bundle_hash'', h)] @ bundle_rest (repr_float w) (db w) row es (somes media) (somes streams) (r_state row)"
    using assms by (auto simp: export_evidence_def exec row es w1 final_state_def load_state_def split: sum.splits)
  have zip: "zip (events_of run (db w)) (map snd es) = es" using mapM_events [OF es] by (metis zip_map_fst_snd)
  show ?thesis
  proof (rule that [OF row find_run_id [OF row] _ entries(1,2)])
    show "length (map snd es) = length (events_of run (db w))" using mapM_events [OF es] by (metis length_map)
    show "b = bundle_head @ [(''bundle_hash'', h)] @
       bundle_rest (repr_float w) (db w) row (zip (events_of run (db w)) (map snd es)) (somes media) (somes streams) (r_state row)"
      unfolding zip by (rule entries(3))
  qed
qed

lemma bundle_entries:
  assumes "b = bundle_head @ [(''bundle_hash'', h)] @ bundle_rest fr d row es media streams final"
  shows "entry_or x b ''steps'' = JList (map (\<lambda>s. JObj (step_dict fr s)) (steps_of (r_id row) d))"
    and "entry_or x b ''events'' = JList (map (exported_event_dict fr) es)"
    and "entry_or x b ''tool_ledger'' = JList (map (\<lambda>l. JObj (ledger_dict l)) (ledger_of (r_id row) d))"
    and "entry_or x b ''approval_requests'' = JList (map (\<lambda>p. JObj (approval_dict p)) (approval_requests (Some (r_id row)) d))"
    and "entry_or x b ''artifacts'' = JList (map (exported_artifact fr) (artifacts_of (r_id row) d))"
    and "entry_or x b ''media_artifacts'' = JList media" and "entry_or x b ''stream_checkpoints'' = JList streams"
    and "entry_or x b ''summary'' = evidence_summary d (r_id row) media streams"
    and "entry_or x b ''run'' = JObj (run_dict fr row @ [(''initial_state'', initial_state_of es)])"
  unfolding assms by (simp_all add: bundle_head_def bundle_rest_def entry_or_def Let_def)

section \<open>What a review means\<close>

definition media_ok :: "artifact_row \<Rightarrow> bool" where
  "media_ok a \<longleftrightarrow> (case map_of (metadata_of a) ''agentledger_media'' of
     Some (JObj m) \<Rightarrow> truthy (entry m ''kind'') \<and> (truthy (entry m ''uri'') \<or> truthy (entry m ''content_ref'') \<or> a_ref a \<noteq> [])
   | _ \<Rightarrow> True)"

definition stream_ok :: "artifact_row \<Rightarrow> bool" where
  "stream_ok a \<longleftrightarrow> (case map_of (metadata_of a) ''agentledger_stream'' of
     Some (JObj m) \<Rightarrow> truthy (entry m ''stream_id'') \<and> truthy (entry m ''consumer_id'') \<and> entry m ''offset'' \<noteq> JNull
   | _ \<Rightarrow> True)"

definition step_logged :: "string \<Rightarrow> db \<Rightarrow> step_row \<Rightarrow> bool" where
  "step_logged run d s \<longleftrightarrow> (\<exists>e\<in>set (events_of run d). e_type e = ''step_completed'' \<and> e_step e = Some (s_id s))"

definition sound_rows :: "string \<Rightarrow> db \<Rightarrow> bool" where
  "sound_rows run d \<longleftrightarrow>
     list_all (\<lambda>s. s_status s \<noteq> Failed \<and> (s_status s = Completed \<longrightarrow> step_logged run d s)) (steps_of run d) \<and>
     list_all (\<lambda>l. l_status l \<in> set known_statuses \<and> l_status l \<noteq> ''PENDING_VERIFICATION'') (ledger_of run d) \<and>
     list_all (\<lambda>a. media_ok a \<and> stream_ok a) (artifacts_of run d)"

definition settled_approvals :: "string \<Rightarrow> db \<Rightarrow> bool" where
  "settled_approvals run d \<longleftrightarrow> list_all (\<lambda>p. p_status p \<noteq> ''PENDING'' \<and>
     (p_risk p \<in> {''high'', ''destructive'', ''sensitive''} \<longrightarrow> p_status p \<in> {''APPROVED'', ''DENIED''})) (approval_requests (Some run) d)"

lemma somes_simps [simp]: "somes [] = []" "somes (None # xs) = somes xs" "somes (Some x # xs) = x # somes xs"
  by (simp_all add: somes_def)

lemma entry_Cons [simp]: "entry ((k, v) # es) k' = (if k = k' then v else entry es k')"
  by (simp add: entry_def)

lemma media_entry_row:
  assumes "media_entry a = Inr x"
  shows "case x of None \<Rightarrow> media_ok a | Some row \<Rightarrow> media_row_ok row = Inr (media_ok a)"
proof (cases "map_of (metadata_of a) ''agentledger_media''")
  case None
  with assms show ?thesis
    by (cases "a_metadata a") (auto simp: media_entry_def media_ok_def metadata_of_def get_or_def get_def)
next
  case (Some v)
  with assms show ?thesis
    by (cases "a_metadata a"; cases v)
      (auto simp: media_entry_def media_ok_def media_row_ok_def metadata_of_def get_or_def get_def entry_def)
qed

lemma checkpoint_entry_row:
  assumes "checkpoint_entry a = Inr x"
  shows "case x of None \<Rightarrow> stream_ok a | Some row \<Rightarrow> stream_row_ok row = Inr (stream_ok a)"
proof (cases "map_of (metadata_of a) ''agentledger_stream''")
  case None
  with assms show ?thesis
    by (cases "a_metadata a") (auto simp: checkpoint_entry_def stream_ok_def metadata_of_def get_or_def get_def)
next
  case (Some v)
  with assms show ?thesis
    by (cases "a_metadata a"; cases v)
      (auto simp: checkpoint_entry_def stream_ok_def stream_row_ok_def metadata_of_def get_or_def get_def entry_def)
qed

lemma allE_somes:
  assumes "\<And>a x. f a = Inr x \<Longrightarrow> case x of None \<Rightarrow> ok a | Some row \<Rightarrow> g row = Inr (ok a)"
  shows "mapE f arts = Inr xs \<Longrightarrow> allE g (somes xs) = Inr (list_all ok arts)"
proof (induction arts arbitrary: xs)
  case (Cons a arts)
  from Cons.prems obtain x ys where x: "f a = Inr x" "mapE f arts = Inr ys" "xs = x # ys"
    by (auto simp: bindE_Inr_iff)
  with Cons.IH [OF x(2)] assms [OF x(1)] show ?case by (cases x) auto
qed simp

lemma status_text_is [simp]:
  "status_text st = ''completed'' \<longleftrightarrow> st = Completed" "status_text st = ''failed'' \<longleftrightarrow> st = Failed"
  by (cases st; simp)+

lemma step_cells [simp]:
  "entry (step_dict fr s) ''status'' = JStr (status_text (s_status s))" "entry (step_dict fr s) ''step_id'' = JStr (s_id s)"
  by (simp_all add: step_dict_def)

lemma event_cells [simp]:
  "entry (event_dict fr e @ p) ''type'' = JStr (e_type e)" "entry (event_dict fr e @ p) ''step_id'' = opt_str (e_step e)"
  "entry (event_dict fr e @ p) ''seq'' = JInt (e_seq e)"
  by (simp_all add: event_dict_def)

lemma ledger_cells [simp]: "entry (ledger_dict l) ''status'' = JStr (l_status l)"
  by (simp add: ledger_dict_def)

lemma approval_cells [simp]:
  "entry (approval_dict p) ''status'' = JStr (p_status p)" "entry (approval_dict p) ''risk_level'' = JStr (p_risk p)"
  by (simp_all add: approval_dict_def)

lemma artifact_cells [simp]:
  "entry (artifact_dict fr a @ m) ''blob_ref'' = JStr (a_ref a)" "entry (artifact_dict fr a @ m) ''blob_hash'' = JStr (a_hash a)"
  by (simp_all add: artifact_dict_def)

lemma opt_str_hashable [simp]: "hashable (opt_str x)" and opt_str_is [simp]: "JStr s = opt_str x \<longleftrightarrow> x = Some s" "py_eq (opt_str x) (JStr s) = (x = Some s)"
  by (cases x; auto)+

lemma mapE_rows: "(\<And>x. x \<in> set xs \<Longrightarrow> f (h x) = Inr (g x)) \<Longrightarrow> mapE f (map h xs) = Inr (map g xs)"
  by (induction xs) simp_all

lemma allE_rows: "(\<And>x. x \<in> set xs \<Longrightarrow> f (h x) = Inr (g x)) \<Longrightarrow> allE f (map h xs) = Inr (list_all g xs)"
  by (induction xs) auto

lemma anyE_rows: "(\<And>x. x \<in> set xs \<Longrightarrow> f (h x) = Inr (g x)) \<Longrightarrow> anyE f (map h xs) = Inr (list_ex g xs)"
  by (induction xs) auto

lemma filterE_rows: "(\<And>x. x \<in> set xs \<Longrightarrow> f (h x) = Inr (g x)) \<Longrightarrow> filterE f (map h xs) = Inr (map h (filter g xs))"
  by (induction xs) auto

lemma zip_map: "length ps = length es \<Longrightarrow> map (\<lambda>x. f (fst x)) (zip es ps) = map f es"
  by (simp flip: map_map [unfolded comp_def])

lemma zip_ex:
  assumes "length ps = length es"
  shows "(\<exists>x\<in>set (zip es ps). P (fst x)) \<longleftrightarrow> (\<exists>e\<in>set es. P e)"
proof -
  have "set es = fst ` set (zip es ps)" using map_fst_zip [OF assms [symmetric]] by (simp flip: set_map)
  then show ?thesis by simp
qed

lemma exported_conditions:
  assumes b: "b = bundle_head @ [(''bundle_hash'', h)] @ bundle_rest fr d row (zip (events_of run d) ps) (somes media) (somes streams) final"
    and run: "r_id row = run" and ps: "length ps = length (events_of run d)"
  shows "completed_steps_have_events b = Inr (list_all (\<lambda>s. s_status s = Completed \<longrightarrow> step_logged run d s) (steps_of run d))"
    and "each_completed_has_event b = Inr (list_all (\<lambda>s. s_status s = Completed \<longrightarrow> step_logged run d s) (steps_of run d))"
    and "ledger_statuses_known b = Inr (list_all (\<lambda>l. l_status l \<in> set known_statuses) (ledger_of run d))"
    and "event_sequence_contiguous b = Inr (map e_seq (events_of run d) = map int [1..<Suc (length (events_of run d))])"
    and "artifacts_have_blob_refs b = Inr (list_all (\<lambda>a. a_ref a \<noteq> [] \<and> a_hash a \<noteq> []) (artifacts_of run d))"
    and "high_risk_approvals_decided b = Inr (list_all (\<lambda>p. p_risk p \<in> {''high'', ''destructive'', ''sensitive''} \<longrightarrow>
       p_status p \<in> {''APPROVED'', ''DENIED''}) (approval_requests (Some run) d))"
    and "no_failure_events b = Inr (\<not> list_ex (\<lambda>e. e_type e \<in> set failure_events) (events_of run d))"
proof -
  note entries = bundle_entries [OF b, unfolded run]
  let ?done = "\<lambda>e. e_type e = ''step_completed''"
  let ?seen = "map (\<lambda>x. if ?done (fst x) then Some (opt_str (e_step (fst x))) else None) (zip (events_of run d) ps)"
  have "mapE completed_step (map (exported_event_dict fr) (zip (events_of run d) ps)) = Inr ?seen"
    by (rule mapE_rows) (simp add: exported_event_dict_def completed_step_def)
  moreover have "(\<exists>x\<in>set (somes ?seen). py_eq (JStr i) x) \<longleftrightarrow> (\<exists>e\<in>set (events_of run d). ?done e \<and> e_step e = Some i)" for i
    unfolding zip_ex [OF ps, symmetric] by (auto simp: somes_def image_iff)
  ultimately show "completed_steps_have_events b = Inr (list_all (\<lambda>s. s_status s = Completed \<longrightarrow> step_logged run d s) (steps_of run d))"
    unfolding completed_steps_have_events_def rows_at_def entries
    by (simp add: filterE_rows [where g = "\<lambda>s. s_status s = Completed"] mapE_rows [where g = "\<lambda>s. JStr (s_id s)"]
        allE_rows [where g = "\<lambda>s. \<exists>e\<in>set (events_of run d). ?done e \<and> e_step e = Some (s_id s)"] list_all_iff step_logged_def) blast
  show "ledger_statuses_known b = Inr (list_all (\<lambda>l. l_status l \<in> set known_statuses) (ledger_of run d))"
    unfolding ledger_statuses_known_def rows_at_def entries by (simp add: allE_rows cell_in_dict)
  show "artifacts_have_blob_refs b = Inr (list_all (\<lambda>a. a_ref a \<noteq> [] \<and> a_hash a \<noteq> []) (artifacts_of run d))"
    unfolding artifacts_have_blob_refs_def rows_at_def entries by (simp add: allE_rows exported_artifact_def)
  show "high_risk_approvals_decided b = Inr (list_all (\<lambda>p. p_risk p \<in> {''high'', ''destructive'', ''sensitive''} \<longrightarrow>
       p_status p \<in> {''APPROVED'', ''DENIED''}) (approval_requests (Some run) d))"
    unfolding high_risk_approvals_decided_def rows_at_def entries
    by (simp add: filterE_rows [where g = "\<lambda>p. p_risk p \<in> {''high'', ''destructive'', ''sensitive''}"] cell_in_dict
        allE_rows [where g = "\<lambda>p. p_status p \<in> {''APPROVED'', ''DENIED''}"] list_all_iff) blast
  have "anyE (cell_in ''type'' failure_events) (map (exported_event_dict fr) (zip (events_of run d) ps)) =
      Inr (list_ex (\<lambda>x. e_type (fst x) \<in> set failure_events) (zip (events_of run d) ps))"
    by (rule anyE_rows) (simp add: exported_event_dict_def cell_in_dict)
  then show "no_failure_events b = Inr (\<not> list_ex (\<lambda>e. e_type e \<in> set failure_events) (events_of run d))"
    unfolding no_failure_events_def rows_at_def entries using zip_ex [OF ps, of "\<lambda>e. e_type e \<in> set failure_events"]
    by (simp add: list_ex_iff)
  have "mapE (\<lambda>e. bindE (attr_get (JInt 0) e ''seq'') py_int) (map (exported_event_dict fr) (zip (events_of run d) ps)) =
      Inr (map (\<lambda>x. e_seq (fst x)) (zip (events_of run d) ps))"
    by (rule mapE_rows) (simp add: exported_event_dict_def event_dict_def get_or_def get_def)
  then show "event_sequence_contiguous b = Inr (map e_seq (events_of run d) = map int [1..<Suc (length (events_of run d))])"
    unfolding event_sequence_contiguous_def rows_at_def entries by (simp add: zip_map [OF ps] ps)
  have "has_completion_event b (JStr i) = Inr (\<exists>e\<in>set (events_of run d). ?done e \<and> e_step e = Some i)" for i
  proof -
    have "anyE (\<lambda>e. andE (cell_is ''type'' ''step_completed'' e) (bindE (cell ''step_id'' e) (\<lambda>v. Inr (py_eq v (JStr i)))))
        (map (exported_event_dict fr) (zip (events_of run d) ps)) = Inr (list_ex (\<lambda>x. ?done (fst x) \<and> e_step (fst x) = Some i) (zip (events_of run d) ps))"
      by (rule anyE_rows) (simp add: exported_event_dict_def)
    then show ?thesis
      unfolding has_completion_event_def rows_at_def entries by (simp add: list_ex_iff zip_ex [OF ps, where P = "\<lambda>e. ?done e \<and> e_step e = Some i"])
  qed
  then show "each_completed_has_event b = Inr (list_all (\<lambda>s. s_status s = Completed \<longrightarrow> step_logged run d s) (steps_of run d))"
    unfolding each_completed_has_event_def rows_at_def entries
    by (simp add: allE_rows step_logged_def)
qed

lemma exported_media:
  assumes b: "b = bundle_head @ [(''bundle_hash'', h)] @ bundle_rest fr d row es (somes media) (somes streams) final"
    and "mapE media_entry arts = Inr media" and "mapE checkpoint_entry arts = Inr streams"
  shows "media_have_refs b = Inr (list_all media_ok arts)" and "streams_have_offsets b = Inr (list_all stream_ok arts)"
  unfolding media_have_refs_def streams_have_offsets_def rows_at_def bundle_entries [OF b]
  using allE_somes [OF media_entry_row assms(2)] allE_somes [OF checkpoint_entry_row assms(3)] by simp_all

lemma summary_flags:
  "unset (evidence_summary d run media streams) ''has_failed_steps'' = Inr (list_all (\<lambda>s. s_status s \<noteq> Failed) (steps_of run d))"
  "unset (evidence_summary d run media streams) ''has_pending_verification'' = Inr (list_all (\<lambda>l. l_status l \<noteq> ''PENDING_VERIFICATION'') (ledger_of run d))"
  "unset (evidence_summary d run media streams) ''has_pending_approvals'' =
     Inr (list_all (\<lambda>p. p_status p \<noteq> ''PENDING'') (approval_requests (Some run) d))"
  "attr_get (JObj []) (evidence_summary d run media streams) ''cost_summary'' = Inr (cost_summary_dict (cost_summary_of run d))"
  by (auto simp: unset_def evidence_summary_def get_or_def get_def list_all_iff)

lemma list_all_both: "list_all (\<lambda>x. p x \<and> q x) xs \<longleftrightarrow> list_all p xs \<and> list_all q xs"
  by (auto simp: list_all_iff)

text \<open>
  C16: a review says what the tables say. Of the bundle of any run in any history the release review and the evidence checks
  return a report, without raising. The review passes exactly when the rows of the run are sound (no failed step, every
  completed step logged, every ledger row in a known state and none waiting for verification, media and stream
  artifacts with their references) and its approvals are settled; the evidence checks pass exactly when the rows
  are sound. The check of the order of the log always passes.
\<close>
theorem review_exact:
  assumes "fresh_world v" and "later v w" and "export_evidence loads run w = (Inr b, w')"
  shows "\<exists>report checked. review fr b None = Inr report \<and> check_evidence fr b None = Inr checked \<and>
     (rv_passed report \<longleftrightarrow> sound_rows run (db w) \<and> settled_approvals run (db w)) \<and>
     (cr_passed checked \<longleftrightarrow> sound_rows run (db w)) \<and>
     list_ex (\<lambda>c. rc_name c = ''event_sequence_contiguous'' \<and> rc_passed c) (rv_checks report)"
  using assms(3)
proof (rule export_shape)
  fix row ps media streams h
  assume row: "find_run (db w) run = Some row" "r_id row = run" and ps: "length ps = length (events_of run (db w))"
    and media: "mapE media_entry (artifacts_of run (db w)) = Inr media" and streams: "mapE checkpoint_entry (artifacts_of run (db w)) = Inr streams"
    and b: "b = bundle_head @ [(''bundle_hash'', h)] @
       bundle_rest (repr_float w) (db w) row (zip (events_of run (db w)) ps) (somes media) (somes streams) (r_state row)"
  note entries = bundle_entries [OF b, unfolded row(2)]
  note conditions = exported_conditions [OF b row(2) ps] exported_media [OF b media streams] summary_flags
  have order: "map e_seq (events_of run (db w)) = map int [1..<Suc (length (events_of run (db w)))]"
    using later_numbered [OF assms(1,2)] by (rule events_of_numbered)
  have counts: "count_at b k = Inr (JInt (int (length xs)))" if "entry_or (JList []) b k = JList xs" for k xs
    by (simp add: count_at_def rows_at_def that)
  have run_name: "run_name b = Inr (entry (run_dict (repr_float w) row @ [(''initial_state'', initial_state_of (zip (events_of run (db w)) ps))]) ''run_id'')"
    by (simp add: run_name_def dict_under_def entries need_dict_def)
  have "\<exists>report. review fr b None = Inr report \<and> (rv_passed report \<longleftrightarrow> sound_rows run (db w) \<and> settled_approvals run (db w)) \<and>
     list_ex (\<lambda>c. rc_name c = ''event_sequence_contiguous'' \<and> rc_passed c) (rv_checks report)"
    unfolding review_def Let_def entries(8)
    by (simp add: review_conditions_def conditions cost_check_def run_name counts [OF entries(1)] counts [OF entries(2)] counts [OF entries(3)]
        counts [OF entries(4)] counts [OF entries(5)] counts [OF entries(6)] counts [OF entries(7)] order sound_rows_def settled_approvals_def
        list_all_both del: upt_Suc) argo
  moreover have "\<exists>checked. check_evidence fr b None = Inr checked \<and> (cr_passed checked \<longleftrightarrow> sound_rows run (db w))"
    unfolding check_evidence_def Let_def entries(8)
    by (simp add: evidence_conditions_def conditions limit_check_def new_report_def sound_rows_def list_all_both) argo
  ultimately show ?thesis by blast
qed

end
