(* ===== verification/Backup_Spec.thy ===== *)
theory Backup_Spec
  imports Backup Review_Spec
begin

text \<open>
  The readiness check never raises and decides what it is for: a run that passes can be exported and replayed.
\<close>

lemma attempted_read: "m w = (r, w) \<Longrightarrow> attempted m w = (Inr r, w)"
  by (cases r) (auto simp: attempted_def exec)

lemma get_json_result:
  "starts_with ''blob://'' ref \<Longrightarrow> \<exists>r. get_json ref w = (r, w) \<and> ((\<exists>j. r = Inr j) \<longleftrightarrow> retrievable w ref)"
  by (auto simp: get_json_def retrievable_def split: option.split)

lemma missing_refs_result:
  "\<forall>r\<in>set rs. starts_with ''blob://'' r \<Longrightarrow> missing_refs rs w = (Inr (filter (\<lambda>r. \<not> retrievable w r) rs), w)"
proof (induction rs)
  case (Cons r rs)
  then obtain x where "get_json r w = (x, w)" "(\<exists>j. x = Inr j) \<longleftrightarrow> retrievable w r" using get_json_result [of r w] by auto
  with Cons attempted_read [of "get_json r" w x] show ?case by (cases x) (auto simp: exec)
qed simp

lemma blob_refs_start: "r \<in> set (blob_refs v) \<Longrightarrow> starts_with ''blob://'' r"
  by (induction v) (auto split: if_splits)

lemma payload_refs_start: "\<forall>r\<in>set (payload_refs fr run d). starts_with ''blob://'' r"
  by (auto simp: payload_refs_def blob_ref_def simp del: blob_refs.simps split: if_splits option.splits dest: blob_refs_start)

lemma export_read: "\<exists>r. export_evidence loads run w = (r, w)"
  using staysD [OF readers(1), of loads run w] by (metis surjective_pairing)

lemma get_run_read: "get_run run w = (case find_run (db w) run of None \<Rightarrow> Inl (Exn KeyError (''run not found: '' @ run)) | Some r \<Rightarrow> Inr r, w)"
  by (simp add: get_run_apply split: option.split)

lemma tried_passed [simp]: "bc_passed (tried name detail r) \<longleftrightarrow> (\<exists>x. r = Inr x)"
  by (auto simp: tried_def split: sum.split)

lemma exported_shape:
  assumes "export_evidence loads run w = (Inr b, w')"
  shows "shape_check (Inr b) = Inr [\<lparr>bc_name = ''media_stream_evidence_shape'',
    bc_passed = list_all (\<lambda>a. media_ok a \<and> stream_ok a) (artifacts_of run (db w)),
    bc_detail = ''media artifacts and stream checkpoints have required refs/cursors''\<rparr>]"
  using assms
proof (rule export_shape)
  fix row ps media streams h
  assume "mapE media_entry (artifacts_of run (db w)) = Inr media" "mapE checkpoint_entry (artifacts_of run (db w)) = Inr streams"
    "b = bundle_head @ [(''bundle_hash'', h)] @
       bundle_rest (repr_float w) (db w) row (zip (events_of run (db w)) ps) (somes media) (somes streams) (r_state row)"
  from exported_media [OF this(3,1,2)] show ?thesis
    by (simp add: shape_check_def media_stream_shape_ok_def list_all_both)
qed

lemma replay_ok:
  assumes "find_run (db w) run \<noteq> None"
    and "\<forall>e\<in>set (events_of run (db w)). retrievable w (payload_ref (repr_float w) (e_payload e))"
    and "\<forall>a\<in>set (artifacts_of run (db w)). retrievable w (a_ref a)"
  shows "\<exists>s. fst (replay run w) = Inr s"
  using assms forM_needs [of "events_of run (db w)" "\<lambda>e. payload_ref (repr_float w) (e_payload e)" w]
    forM_needs [of "artifacts_of run (db w)" a_ref w]
  by (auto simp: replay_def exec final_state_def load_state_def)

lemma refs_retrievable:
  assumes "\<forall>r\<in>set (payload_refs fr run d). retrievable w r"
  shows "e \<in> set (events_of run d) \<Longrightarrow> retrievable w (payload_ref fr (e_payload e))"
    and "a \<in> set (artifacts_of run d) \<Longrightarrow> retrievable w (a_ref a)"
  using assms by (auto simp: payload_refs_def blob_ref_def retrievable_def split: if_splits)

text \<open>
  C17: the check of a backup never raises and changes nothing; it passes exactly when the run and a schema version are there, every
  blob the run refers to can be read, the evidence can be exported and the media and stream artifacts have their
  references; and a run that passes can be replayed.
\<close>
theorem backup_check_exact:
  "\<exists>report. check_run schema_version loads run w = (Inr report, w) \<and>
     (br_passed report \<longleftrightarrow> schema_version \<noteq> None \<and> find_run (db w) run \<noteq> None \<and>
       list_all (retrievable w) (payload_refs (repr_float w) run (db w)) \<and>
       (\<exists>b. export_evidence loads run w = (Inr b, w)) \<and> list_all (\<lambda>a. media_ok a \<and> stream_ok a) (artifacts_of run (db w))) \<and>
     (br_passed report \<longrightarrow> (\<exists>s. fst (replay run w) = Inr s))"
proof -
  let ?found = "case find_run (db w) run of None \<Rightarrow> Inl (Exn KeyError (''run not found: '' @ run)) | Some r \<Rightarrow> Inr r"
  let ?refs = "payload_refs (repr_float w) run (db w)"
  obtain x where x: "export_evidence loads run w = (x, w)" using export_read by blast
  have "\<exists>report. check_run schema_version loads run w = (Inr report, w) \<and>
     (br_passed report \<longleftrightarrow> schema_version \<noteq> None \<and> find_run (db w) run \<noteq> None \<and>
       list_all (retrievable w) ?refs \<and>
       (\<exists>b. x = Inr b) \<and> list_all (\<lambda>a. media_ok a \<and> stream_ok a) (artifacts_of run (db w)))"
  proof -
    let ?ok = "\<exists>b. x = Inr b" and ?rows = "list_all (\<lambda>a. media_ok a \<and> stream_ok a) (artifacts_of run (db w))"
    obtain shape where shape: "shape_check x = Inr shape" "?ok \<longrightarrow> (list_all bc_passed shape \<longleftrightarrow> ?rows)"
      using exported_shape [of loads run w] x by (cases x) (auto simp: shape_check_def)
    note execute = bindM_apply getsM_apply select_db_apply liftM_apply retM_apply attempted_read [where m = "get_run run", OF get_run_read]
      attempted_read [where m = "export_evidence loads run", OF x] missing_refs_result [OF payload_refs_start] shape(1) Let_def prod.case sum.case
    show ?thesis
      unfolding check_run_def
      by (simp only: execute, rule exI, rule conjI, rule refl)
        (use shape(2) in \<open>auto simp: filter_empty_conv list_all_iff split: option.split\<close>)
  qed
  moreover have "\<exists>s. fst (replay run w) = Inr s" if "find_run (db w) run \<noteq> None" "list_all (retrievable w) ?refs"
    using refs_retrievable [of "repr_float w" run "db w" w] that by (intro replay_ok) (auto simp: list_all_iff)
  ultimately show ?thesis unfolding x by auto
qed

end
