(* ===== verification/Trace.thy ===== *)
theory Trace
  imports Review
begin

text \<open>
  Trace spans of a bundle and their OTLP form: \<open>src/agentledger/trace.py\<close>. The time of a span is an exact number, so the rounding
  of a float product to nanoseconds is not modelled; nor are the indented text of the OTLP document and its sending.
\<close>

record trace_span =
  ts_trace :: json
  ts_span :: string
  ts_parent :: "string option"
  ts_name :: string
  ts_start :: rat
  ts_end :: rat
  ts_attributes :: dict

definition trace_span_to_dict :: "trace_span \<Rightarrow> json" where
  "trace_span_to_dict s = JObj [(''trace_id'', ts_trace s), (''span_id'', JStr (ts_span s)), (''parent_span_id'', opt_str (ts_parent s)),
     (''name'', JStr (ts_name s)), (''start_time'', JFloat (ts_start s)), (''end_time'', JFloat (ts_end s)),
     (''attributes'', JObj (ts_attributes s))]"

section \<open>Spans\<close>

text \<open>\<open>format(n, "06d")\<close>\<close>

definition pad6 :: "int \<Rightarrow> string" where
  "pad6 n =
     (let digits = nat_str (nat \<bar>n\<bar>) in
      if n < 0 then ''-'' @ replicate (5 - length digits) (CHR ''0'') @ digits
      else replicate (6 - length digits) (CHR ''0'') @ digits)"

definition instant :: "json \<Rightarrow> string \<Rightarrow> string \<Rightarrow> rat \<Rightarrow> dict \<Rightarrow> trace_span" where
  "instant trace i name time attributes =
     \<lparr>ts_trace = trace, ts_span = i, ts_parent = None, ts_name = name, ts_start = time, ts_end = time, ts_attributes = attributes\<rparr>"

text \<open>\<open>float(row.get(k, 0.0) or 0.0)\<close>\<close>

definition time_cell :: "string \<Rightarrow> json \<Rightarrow> exn + rat" where
  "time_cell k row = bindE (attr_get (JFloat 0) row k) (\<lambda>v. py_float (py_or v (JFloat 0)))"

text \<open>Attributes read from a row: the name of the attribute and the key.\<close>

definition row_attributes :: "(string \<times> string) list \<Rightarrow> json \<Rightarrow> dict" where
  "row_attributes names row = map (\<lambda>(name, k). (''agentledger.'' @ name, get_or JNull row k)) names"

definition event_span :: "(rat \<Rightarrow> string) \<Rightarrow> json \<Rightarrow> nat \<times> json \<Rightarrow> exn + trace_span" where
  "event_span fr run = (\<lambda>(i, ev).
     bindE (bindE (attr_get (JInt (int (Suc i))) ev ''seq'') py_int) (\<lambda>n.
     bindE (time_cell ''timestamp'' ev) (\<lambda>time.
     Inr (instant run (''evt-'' @ pad6 n) (py_str fr (get_or (JStr ''event'') ev ''type'')) time
       ((''agentledger.run_id'', run) # row_attributes [(''session_id'', ''session_id''), (''step_id'', ''step_id'')] ev @
        (''agentledger.seq'', JInt n) #
        row_attributes [(''state_version'', ''state_version''), (''payload_hash'', ''payload_hash''), (''payload_ref'', ''payload_ref'')] ev)))))"

definition artifact_span :: "string \<Rightarrow> string \<Rightarrow> (string \<times> string) list \<Rightarrow> json \<Rightarrow> rat \<Rightarrow> nat \<times> json \<Rightarrow> exn + trace_span" where
  "artifact_span mark name names run time = (\<lambda>(i, row).
     if is_obj row
     then Inr (instant run (mark @ pad6 (int (Suc i))) name time ((''agentledger.run_id'', run) # row_attributes names row))
     else Inl (attribute_error row ''get''))"

definition media_names :: "(string \<times> string) list" where
  "media_names = [(''artifact_id'', ''artifact_id''), (''artifact_name'', ''name''), (''media_kind'', ''kind''), (''media_uri'', ''uri''),
     (''media_content_ref'', ''content_ref''), (''blob_hash'', ''blob_hash''), (''blob_ref'', ''blob_ref'')]"

definition stream_names :: "(string \<times> string) list" where
  "stream_names = [(''artifact_id'', ''artifact_id''), (''artifact_name'', ''name''), (''stream_id'', ''stream_id''),
     (''consumer_id'', ''consumer_id''), (''stream_offset'', ''offset''), (''stream_watermark'', ''watermark''),
     (''blob_hash'', ''blob_hash''), (''blob_ref'', ''blob_ref'')]"

definition spans :: "(rat \<Rightarrow> string) \<Rightarrow> dict \<Rightarrow> exn + trace_span list" where
  "spans fr evidence =
     bindE (bindE (dict_under ''run'' evidence) (\<lambda>r. Inr (entry_or (JStr ''run_unknown'') r ''run_id''))) (\<lambda>run.
     bindE (rows_at evidence ''events'') (\<lambda>rows.
     bindE (mapE (event_span fr run) (enumerate 0 rows)) (\<lambda>event_spans.
     bindE (time_cell ''updated_at'' (entry_or (JObj []) evidence ''run'')) (\<lambda>time.
     bindE (rows_at evidence ''media_artifacts'') (\<lambda>media.
     bindE (mapE (artifact_span ''media-'' ''media_artifact'' media_names run time) (enumerate 0 media)) (\<lambda>media_spans.
     bindE (rows_at evidence ''stream_checkpoints'') (\<lambda>streams.
     bindE (mapE (artifact_span ''stream-'' ''stream_checkpoint'' stream_names run time) (enumerate 0 streams)) (\<lambda>stream_spans.
     Inr (event_spans @ media_spans @ stream_spans)))))))))"

definition to_jsonl :: "(rat \<Rightarrow> string) \<Rightarrow> dict \<Rightarrow> exn + string" where
  "to_jsonl fr evidence =
     bindE (spans fr evidence) (\<lambda>ss. Inr (concat (map (\<lambda>s. json_text fr (sort_keys (trace_span_to_dict s)) @ [CHR 0x0A]) ss)))"

section \<open>OTLP\<close>

record otlp_resource =
  ot_name :: string
  ot_version :: "string option"
  ot_attributes :: "dict option"

fun otlp_value :: "(rat \<Rightarrow> string) \<Rightarrow> json \<Rightarrow> json" where
  "otlp_value fr (JBool b) = JObj [(''boolValue'', JBool b)]"
| "otlp_value fr (JInt i) = JObj [(''intValue'', JStr (int_str i))]"
| "otlp_value fr (JFloat q) = JObj [(''doubleValue'', JFloat q)]"
| "otlp_value fr JNull = JObj [(''stringValue'', JStr [])]"
| "otlp_value fr (JStr s) = JObj [(''stringValue'', JStr s)]"
| "otlp_value fr v = JObj [(''stringValue'', JStr (json_text fr (sort_keys v)))]"

definition otlp_attributes :: "(rat \<Rightarrow> string) \<Rightarrow> dict \<Rightarrow> json" where
  "otlp_attributes fr attrs =
     JList (map (\<lambda>e. JObj [(''key'', JStr (fst e)), (''value'', otlp_value fr (snd e))]) (sort_key fst attrs))"

definition given :: "string option \<Rightarrow> string option" where
  "given s = (case s of Some t \<Rightarrow> if t = [] then None else Some t | None \<Rightarrow> None)"

definition resource_attributes :: "(rat \<Rightarrow> string) \<Rightarrow> otlp_resource \<Rightarrow> json" where
  "resource_attributes fr r =
     (let attrs = (''service.name'', JStr (ot_name r)) # (case given (ot_version r) of None \<Rightarrow> [] | Some v \<Rightarrow> [(''service.version'', JStr v)])
      in otlp_attributes fr (case ot_attributes r of None \<Rightarrow> attrs | Some more_attrs \<Rightarrow> fold (\<lambda>e. AList.update (fst e) (snd e)) more_attrs attrs))"

definition hex_id :: "(string \<Rightarrow> string) \<Rightarrow> json \<Rightarrow> nat \<Rightarrow> exn + string" where
  "hex_id hex v n = (case v of JStr s \<Rightarrow> Inr (take n (hex s)) | _ \<Rightarrow> Inl (attribute_error v ''encode''))"

definition nanoseconds :: "rat \<Rightarrow> json" where
  "nanoseconds t = JStr (int_str (trunc_rat (t * 1000000000)))"

definition span_to_otlp :: "(string \<Rightarrow> string) \<Rightarrow> (rat \<Rightarrow> string) \<Rightarrow> trace_span \<Rightarrow> exn + json" where
  "span_to_otlp hex fr s =
     (let attrs = AList.update ''agentledger.original_span_id'' (JStr (ts_span s))
        (AList.update ''agentledger.original_trace_id'' (ts_trace s) (ts_attributes s)) in
      bindE (hex_id hex (ts_trace s) 32) (\<lambda>trace.
      bindE (hex_id hex (JStr (ts_span s)) 16) (\<lambda>i.
      bindE (case given (ts_parent s) of None \<Rightarrow> Inr []
             | Some p \<Rightarrow> bindE (hex_id hex (JStr p) 16) (\<lambda>x. Inr [(''parentSpanId'', JStr x)])) (\<lambda>parent.
      Inr (JObj ([(''traceId'', JStr trace), (''spanId'', JStr i), (''name'', JStr (ts_name s)), (''kind'', JStr ''SPAN_KIND_INTERNAL''),
        (''startTimeUnixNano'', nanoseconds (ts_start s)), (''endTimeUnixNano'', nanoseconds (ts_end s)),
        (''attributes'', otlp_attributes fr (filter (\<lambda>e. snd e \<noteq> JNull) attrs))] @ parent))))))"

definition to_otlp_json :: "(string \<Rightarrow> string) \<Rightarrow> (rat \<Rightarrow> string) \<Rightarrow> otlp_resource \<Rightarrow> dict \<Rightarrow> exn + json" where
  "to_otlp_json hex fr r evidence =
     bindE (bindE (spans fr evidence) (mapE (span_to_otlp hex fr))) (\<lambda>ss.
     Inr (JObj [(''resourceSpans'', JList [JObj [
       (''resource'', JObj [(''attributes'', resource_attributes fr r)]),
       (''scopeSpans'', JList [JObj [
         (''scope'', JObj [(''name'', JStr ''agentledger''), (''version'', JStr (case given (ot_version r) of None \<Rightarrow> ''1.0.0'' | Some v \<Rightarrow> v))]),
         (''spans'', JList ss)]])]])]))"

end
