(* ===== verification/Trace_Spec.thy ===== *)
theory Trace_Spec
  imports Trace Review_Spec
begin

text \<open>
  The trace of an exported bundle: one span per event in the order of the log, then one per media artifact and stream checkpoint,
  all in the trace of the run, no two with the same identifier.
\<close>

lemma leading_zeros: "nat_of_str (replicate k (CHR ''0'') @ s) = nat_of_str s"
  by (induction k) (simp_all add: nat_of_str_def)

lemma pad6_inj: "pad6 (int m) = pad6 (int n) \<Longrightarrow> m = n"
proof -
  assume "pad6 (int m) = pad6 (int n)"
  then have "nat_of_str (pad6 (int m)) = nat_of_str (pad6 (int n))" by simp
  then show "m = n" by (simp add: pad6_def Let_def leading_zeros nat_of_nat_str)
qed

lemma distinct_padded: "distinct (map (\<lambda>i. mark @ pad6 (int (Suc i))) [0..<n])"
  by (auto simp: distinct_map inj_on_def simp del: of_nat_Suc dest!: pad6_inj)

definition exported_span :: "(rat \<Rightarrow> string) \<Rightarrow> json \<Rightarrow> event_row \<times> json \<Rightarrow> trace_span" where
  "exported_span fr run ep =
     (let e = fst ep; ev = exported_event_dict fr ep in
      instant run (''evt-'' @ pad6 (e_seq e)) (e_type e) (e_time e)
       ((''agentledger.run_id'', run) # row_attributes [(''session_id'', ''session_id''), (''step_id'', ''step_id'')] ev @
        (''agentledger.seq'', JInt (e_seq e)) #
        row_attributes [(''state_version'', ''state_version''), (''payload_hash'', ''payload_hash''), (''payload_ref'', ''payload_ref'')] ev))"

lemma event_span_exported: "event_span fr run (i, exported_event_dict fr' ep) = Inr (exported_span fr' run ep)"
  by (simp add: event_span_def exported_span_def exported_event_dict_def event_dict_def time_cell_def get_or_def get_def py_or_def py_str_def Let_def)

lemma event_spans_exported:
  "mapE (event_span fr run) (enumerate k (map (exported_event_dict fr') eps)) = Inr (map (exported_span fr' run) eps)"
  by (induction eps arbitrary: k) (simp_all add: event_span_exported)

lemma artifact_spans:
  "list_all is_obj rows \<Longrightarrow> mapE (artifact_span mark name names run time) (enumerate k rows) =
     Inr (map (\<lambda>(i, row). instant run (mark @ pad6 (int (Suc i))) name time ((''agentledger.run_id'', run) # row_attributes names row)) (enumerate k rows))"
  by (induction rows arbitrary: k) (simp_all add: artifact_span_def)

lemma artifact_span_ids:
  "map ts_span (map (\<lambda>(i, row). instant run (mark @ pad6 (int (Suc i))) name time (f row)) (enumerate 0 rows)) =
     map (\<lambda>i. mark @ pad6 (int (Suc i))) [0..<length rows]"
  by (rule nth_equalityI) (simp_all add: nth_enumerate_eq instant_def)

lemma entries_are_dicts:
  "mapE media_entry arts = Inr media \<Longrightarrow> list_all is_obj (somes media)"
  "mapE checkpoint_entry arts = Inr streams \<Longrightarrow> list_all is_obj (somes streams)"
proof -
  have all: "mapE f arts = Inr xs \<Longrightarrow> (\<And>a x. f a = Inr x \<Longrightarrow> x = None \<or> (\<exists>es. x = Some (JObj es))) \<Longrightarrow> list_all is_obj (somes xs)"
    for f :: "artifact_row \<Rightarrow> exn + json option" and xs
    by (induction arts arbitrary: xs) (fastforce simp: bindE_Inr_iff)+
  show "mapE media_entry arts = Inr media \<Longrightarrow> list_all is_obj (somes media)"
    by (erule all) (auto simp: media_entry_def bindE_Inr_iff split: if_splits)
  show "mapE checkpoint_entry arts = Inr streams \<Longrightarrow> list_all is_obj (somes streams)"
    by (erule all) (auto simp: checkpoint_entry_def bindE_Inr_iff split: if_splits)
qed

text \<open>
  C18: the trace of an exported bundle is complete and its identifiers are unique: the export of spans does not raise, the spans
  are the events of the run in the order of the log followed by its media artifacts and stream checkpoints, every one in the
  trace of the run, and no two have the same identifier.
\<close>
theorem trace_complete:
  assumes "fresh_world v" and "later v w" and "export_evidence loads run w = (Inr b, w')"
  shows "\<exists>ss media streams. spans fr b = Inr ss \<and> entry b ''media_artifacts'' = JList media \<and> entry b ''stream_checkpoints'' = JList streams \<and>
     map ts_name ss = map e_type (events_of run (db w)) @ replicate (length media) ''media_artifact'' @ replicate (length streams) ''stream_checkpoint'' \<and>
     list_all (\<lambda>s. ts_trace s = JStr run) ss \<and> distinct (map ts_span ss)"
  using assms(3)
proof (rule export_shape)
  fix row ps media streams h
  assume row: "r_id row = run" and ps: "length ps = length (events_of run (db w))"
    and media: "mapE media_entry (artifacts_of run (db w)) = Inr media" and streams: "mapE checkpoint_entry (artifacts_of run (db w)) = Inr streams"
    and b: "b = bundle_head @ [(''bundle_hash'', h)] @
       bundle_rest (repr_float w) (db w) row (zip (events_of run (db w)) ps) (somes media) (somes streams) (r_state row)"
  note entries = bundle_entries [OF b, unfolded row]
  let ?at = "\<lambda>mark name names xs. map (\<lambda>(i, x). instant (JStr run) (mark @ pad6 (int (Suc i))) name (r_updated row)
    ((''agentledger.run_id'', JStr run) # row_attributes names x)) (enumerate 0 xs)"
  let ?events = "map (exported_span (repr_float w) (JStr run)) (zip (events_of run (db w)) ps)"
  let ?media = "?at ''media-'' ''media_artifact'' media_names (somes media)"
  let ?streams = "?at ''stream-'' ''stream_checkpoint'' stream_names (somes streams)"
  have run: "bindE (dict_under ''run'' b) (\<lambda>r. Inr (entry_or (JStr ''run_unknown'') r ''run_id'')) = Inr (JStr run)"
    by (simp add: dict_under_def entries need_dict_def) (simp add: entry_or_def run_dict_def row)
  have time: "time_cell ''updated_at'' (JObj (run_dict (repr_float w) row @ x)) = Inr (r_updated row)" for x
    by (simp add: time_cell_def run_dict_def get_or_def get_def py_or_def)
  have "spans fr b = Inr (?events @ ?media @ ?streams)"
    unfolding spans_def run rows_at_def entries time iterate.simps bindE.simps event_spans_exported
      artifact_spans [OF entries_are_dicts(1) [OF media]] artifact_spans [OF entries_are_dicts(2) [OF streams]] ..
  moreover have "map ts_name (?events @ ?media @ ?streams) =
      map e_type (events_of run (db w)) @ replicate (length (somes media)) ''media_artifact'' @ replicate (length (somes streams)) ''stream_checkpoint''"
    by (simp add: exported_span_def instant_def Let_def split_beta comp_def zip_map [OF ps] map_replicate_const)
  moreover have "list_all (\<lambda>s. ts_trace s = JStr run) (?events @ ?media @ ?streams)"
    by (auto simp: list_all_iff exported_span_def instant_def Let_def)
  moreover have "distinct (map ts_span (?events @ ?media @ ?streams))"
  proof -
    let ?id = "\<lambda>n. ''evt-'' @ pad6 n"
    have "map ts_span ?events = map (\<lambda>x. ?id (e_seq (fst x))) (zip (events_of run (db w)) ps)"
      by (simp add: exported_span_def instant_def Let_def comp_def)
    also have "\<dots> = map ?id (map e_seq (events_of run (db w)))"
      unfolding zip_map [OF ps, of "\<lambda>e. ?id (e_seq e)"] by simp
    also have "\<dots> = map ?id (map int (map Suc [0..<length (events_of run (db w))]))"
      unfolding events_of_numbered(2) [OF later_numbered [OF assms(1,2)]] map_Suc_upt by simp
    also have "\<dots> = map (\<lambda>i. ?id (int (Suc i))) [0..<length (events_of run (db w))]" by simp
    finally show ?thesis
      unfolding map_append artifact_span_ids
      using distinct_padded [of "''evt-''"] distinct_padded [of "''media-''"] distinct_padded [of "''stream-''"]
      by (auto simp del: of_nat_Suc)
  qed
  moreover have "entry b ''media_artifacts'' = JList (somes media)" "entry b ''stream_checkpoints'' = JList (somes streams)"
    using entries(6,7) [of JNull] by (simp_all add: entry_or_def entry_def)
  ultimately show ?thesis by blast
qed

end
