(* ===== verification/Review_Examples.thy ===== *)
theory Review_Examples
  imports Evidence_Examples Backup_Spec Trace_Spec
begin

text \<open>The claimed run of the earlier examples, reviewed, checked for a backup and exported as a trace.\<close>

lemma demo_sound:
  "(\<lambda>w. (sound_rows ''run_0'' (db w), settled_approvals ''run_0'' (db w), payload_refs (repr_float w) ''run_0'' (db w),
     map e_type (events_of ''run_0'' (db w)))) demo_claimed = (True, True, [], [''run_created'', ''step_created'', ''step_claimed''])"
  by code_simp

lemma demo_export: "\<exists>b. export_evidence (\<lambda>_. None) ''run_0'' demo_claimed = (Inr b, demo_claimed)"
proof (rule demo_claimed_run)
  fix r
  assume "find_run (db demo_claimed) ''run_0'' = Some r"
  moreover have "\<forall>e\<in>set (events (db demo_claimed)). inline (e_payload e)" using demo_log by (auto simp: map_eq_Cons_conv)
  ultimately show ?thesis using demo_log by (intro inline_export) auto
qed

theorem review_exact_witness:
  "\<exists>b report. export_evidence (\<lambda>_. None) ''run_0'' demo_claimed = (Inr b, demo_claimed) \<and>
     review (\<lambda>_. ''0.0'') b None = Inr report \<and> rv_passed report"
  using demo_export review_exact [OF demo_fresh demo_later(1)] demo_sound by fastforce

theorem backup_check_exact_witness:
  "\<exists>report. check_run (Some ''0001'') (\<lambda>_. None) ''run_0'' demo_claimed = (Inr report, demo_claimed) \<and>
     br_passed report \<and> (\<exists>s. fst (replay ''run_0'' demo_claimed) = Inr s)"
proof (rule demo_claimed_run)
  fix r
  assume "find_run (db demo_claimed) ''run_0'' = Some r"
  moreover have "artifacts_of ''run_0'' (db demo_claimed) = []" using demo_log by (simp add: artifacts_of_def)
  ultimately show ?thesis
    using backup_check_exact [of "Some ''0001''" "\<lambda>_. None" "''run_0''" demo_claimed] demo_export demo_sound by auto
qed

theorem trace_complete_witness:
  "\<exists>b ss. export_evidence (\<lambda>_. None) ''run_0'' demo_claimed = (Inr b, demo_claimed) \<and> spans (\<lambda>_. ''0.0'') b = Inr ss \<and>
     prefix [''run_created'', ''step_created'', ''step_claimed''] (map ts_name ss) \<and> distinct (map ts_span ss)"
proof -
  obtain b where b: "export_evidence (\<lambda>_. None) ''run_0'' demo_claimed = (Inr b, demo_claimed)" using demo_export by blast
  from trace_complete [OF demo_fresh demo_later(1) b, of "\<lambda>_. ''0.0''"] show ?thesis using b demo_sound by auto
qed

end
