(* ===== verification/Json_Text.thy ===== *)
theory Json_Text
  imports PyText
begin

text \<open>
  The text of JSON files: \<open>json.dumps(v, ensure_ascii=False, indent=2, sort_keys=True)\<close> and \<open>json.loads\<close> of Python's standard library,
  as \<open>repro.py\<close>, \<open>diff.py\<close> and \<open>evidence.py\<close> under \<open>src/src/agentledger/\<close> use them, and the theorem that reading what was written
  gives the value with the entries of its objects in key order.

  The reader is one recursive descent with a bound on its depth: every second call of it takes a character, so twice
  the length of the text is enough. What depends on Python outside JSON is the record \<open>reader\<close>: \<open>float()\<close> of the text of a number, the
  constants \<open>NaN\<close> and \<open>Infinity\<close>, how a character above 255 is represented, and the message of a decode error.
\<close>

section \<open>Writing\<close>

definition new_line :: "nat \<Rightarrow> string" where
  "new_line n = char_of (10::nat) # replicate (2 * n) (CHR '' '')"

fun indented :: "(rat \<Rightarrow> string) \<Rightarrow> nat \<Rightarrow> json \<Rightarrow> string" where
  "indented fr n JNull = ''null''"
| "indented fr n (JBool b) = (if b then ''true'' else ''false'')"
| "indented fr n (JInt i) = int_str i"
| "indented fr n (JFloat q) = fr q"
| "indented fr n (JStr s) = quote s"
| "indented fr n (JList xs) =
     (if xs = [] then ''[]''
      else ''['' @ new_line (Suc n) @ join (CHR '','' # new_line (Suc n)) (map (indented fr (Suc n)) xs) @ new_line n @ '']'')"
| "indented fr n (JObj es) =
     (if es = [] then ''{}''
      else ''{'' @ new_line (Suc n) @
        join (CHR '','' # new_line (Suc n)) (map (\<lambda>e. quote (fst e) @ '': '' @ indented fr (Suc n) (snd e)) (sort_key fst es)) @
        new_line n @ ''}'')"

definition dumps :: "(rat \<Rightarrow> string) \<Rightarrow> json \<Rightarrow> string" where
  "dumps fr v = indented fr 0 v"

section \<open>Reading\<close>

record reader =
  rd_float :: "string \<Rightarrow> rat"
  rd_constant :: "string \<Rightarrow> json"
  rd_wide :: "nat \<Rightarrow> string"
  rd_error :: "string \<Rightarrow> string"

definition is_blank :: "char \<Rightarrow> bool" where
  "is_blank c = (let n = of_char c :: nat in n = 32 \<or> n = 9 \<or> n = 10 \<or> n = 13)"

definition skip :: "string \<Rightarrow> string" where
  "skip s = dropWhile is_blank s"

text \<open>Hexadecimal digits and the escapes of a string.\<close>

definition hex_value :: "char \<Rightarrow> nat option" where
  "hex_value c =
     (let n = of_char c :: nat in
      if 48 \<le> n \<and> n \<le> 57 then Some (n - 48)
      else if 97 \<le> n \<and> n \<le> 102 then Some (n - 87)
      else if 65 \<le> n \<and> n \<le> 70 then Some (n - 55) else None)"

fun hex4 :: "string \<Rightarrow> (nat \<times> string) option" where
  "hex4 (a # b # c # d # rest) =
     (case (hex_value a, hex_value b, hex_value c, hex_value d) of
        (Some x, Some y, Some z, Some u) \<Rightarrow> Some (x * 4096 + y * 256 + z * 16 + u, rest) | _ \<Rightarrow> None)"
| "hex4 s = None"

text \<open>A high surrogate takes the low one that follows it.\<close>

definition code_point :: "string \<Rightarrow> (nat \<times> string) option" where
  "code_point s =
     (case hex4 s of
        None \<Rightarrow> None
      | Some (n, rest) \<Rightarrow>
          if 55296 \<le> n \<and> n \<le> 56319 \<and> take 2 rest = [char_of (92::nat), CHR ''u''] then
            (case hex4 (drop 2 rest) of
               None \<Rightarrow> None
             | Some (m, rest') \<Rightarrow>
                 if 56320 \<le> m \<and> m \<le> 57343 then Some (65536 + (n - 55296) * 1024 + (m - 56320), rest') else Some (n, rest))
          else Some (n, rest))"

definition text_of :: "reader \<Rightarrow> nat \<Rightarrow> string" where
  "text_of rd n = (if n < 256 then [char_of n] else rd_wide rd n)"

definition simple_escape :: "char \<Rightarrow> char option" where
  "simple_escape c =
     (let n = of_char c :: nat in
      if n = 34 \<or> n = 92 \<or> n = 47 then Some c
      else if c = CHR ''b'' then Some (char_of (8::nat))
      else if c = CHR ''f'' then Some (char_of (12::nat))
      else if c = CHR ''n'' then Some (char_of (10::nat))
      else if c = CHR ''r'' then Some (char_of (13::nat))
      else if c = CHR ''t'' then Some (char_of (9::nat)) else None)"

text \<open>One character or escape of a string, and the string after its opening quote.\<close>

definition unit_of :: "reader \<Rightarrow> string \<Rightarrow> (string \<times> string) option" where
  "unit_of rd s =
     (case s of
        [] \<Rightarrow> None
      | c # cs \<Rightarrow>
          if of_char c < (32::nat) then None
          else if of_char c \<noteq> (92::nat) then Some ([c], cs)
          else
            (case cs of
               [] \<Rightarrow> None
             | d # ds \<Rightarrow>
                 if d = CHR ''u'' then map_option (\<lambda>(n, rest). (text_of rd n, rest)) (code_point ds)
                 else map_option (\<lambda>e. ([e], ds)) (simple_escape d)))"

fun string_body :: "reader \<Rightarrow> nat \<Rightarrow> string \<Rightarrow> (string \<times> string) option" where
  "string_body rd 0 s = None"
| "string_body rd (Suc k) s =
     (if s \<noteq> [] \<and> of_char (hd s) = (34::nat) then Some ([], tl s)
      else
        (case unit_of rd s of
           None \<Rightarrow> None
         | Some (t, rest) \<Rightarrow> map_option (\<lambda>(u, rest'). (t @ u, rest')) (string_body rd k rest)))"

text \<open>Numbers: the regular expression \<open>(-?(?:0|[1-9]\d*))(\.\d+)?([eE][-+]?\d+)?\<close>, longest match.\<close>

definition integer_part :: "string \<Rightarrow> string" where
  "integer_part s = (if s \<noteq> [] \<and> hd s = CHR ''0'' then ''0'' else takeWhile is_digit s)"

definition fraction_part :: "string \<Rightarrow> string" where
  "fraction_part s = (if s \<noteq> [] \<and> hd s = CHR ''.'' \<and> takeWhile is_digit (tl s) \<noteq> [] then CHR ''.'' # takeWhile is_digit (tl s) else [])"

definition sign_part :: "string \<Rightarrow> string" where
  "sign_part s = (if s \<noteq> [] \<and> (hd s = CHR ''-'' \<or> hd s = CHR ''+'') then [hd s] else [])"

definition exponent_part :: "string \<Rightarrow> string" where
  "exponent_part s =
     (if s = [] \<or> \<not> (hd s = CHR ''e'' \<or> hd s = CHR ''E'') then []
      else let sign = sign_part (tl s); ds = takeWhile is_digit (drop (length sign) (tl s)) in
        if ds = [] then [] else hd s # sign @ ds)"

definition number :: "reader \<Rightarrow> string \<Rightarrow> (json \<times> string) option" where
  "number rd s =
     (let minus = (if s \<noteq> [] \<and> hd s = CHR ''-'' then ''-'' else []);
          s1 = drop (length minus) s; ip = integer_part s1;
          s2 = drop (length ip) s1; fp = fraction_part s2;
          s3 = drop (length fp) s2; ep = exponent_part s3;
          rest = drop (length ep) s3 in
      if ip = [] then None
      else if fp = [] \<and> ep = [] then Some (JInt (if minus = [] then int (nat_of_str ip) else - int (nat_of_str ip)), rest)
      else Some (JFloat (rd_float rd (minus @ ip @ fp @ ep)), rest))"

definition constants :: "(string \<times> json option) list" where
  "constants = [(''null'', Some JNull), (''true'', Some (JBool True)), (''false'', Some (JBool False)), (''NaN'', None), (''Infinity'', None),
     (''-Infinity'', None)]"

definition named_constant :: "reader \<Rightarrow> string \<Rightarrow> (json \<times> string) option" where
  "named_constant rd s =
     (case find (\<lambda>(name, v). starts_with name s) constants of
        None \<Rightarrow> None
      | Some (name, v) \<Rightarrow> Some (case v of None \<Rightarrow> rd_constant rd name | Some j \<Rightarrow> j, drop (length name) s))"

text \<open>A character that must come next.\<close>

definition expect :: "char \<Rightarrow> string \<Rightarrow> string option" where
  "expect c s = (if s \<noteq> [] \<and> hd s = c then Some (tl s) else None)"

fun read_value :: "reader \<Rightarrow> nat \<Rightarrow> string \<Rightarrow> (json \<times> string) option"
  and read_items :: "reader \<Rightarrow> nat \<Rightarrow> string \<Rightarrow> (json list \<times> string) option"
  and read_entries :: "reader \<Rightarrow> nat \<Rightarrow> string \<Rightarrow> (dict \<times> string) option" where
  "read_value rd 0 s = None"
| "read_value rd (Suc k) s =
     (case s of
        [] \<Rightarrow> None
      | c # cs \<Rightarrow>
          if of_char c = (34::nat) then map_option (\<lambda>(t, rest). (JStr t, rest)) (string_body rd (Suc (length cs)) cs)
          else if c = CHR ''{'' then
            (case expect (CHR ''}'') (skip cs) of
               Some rest \<Rightarrow> Some (JObj [], rest)
             | None \<Rightarrow> map_option (\<lambda>(es, rest). (JObj (fold (\<lambda>e. AList.update (fst e) (snd e)) es []), rest)) (read_entries rd k (skip cs)))
          else if c = CHR ''['' then
            (case expect (CHR '']'') (skip cs) of
               Some rest \<Rightarrow> Some (JList [], rest)
             | None \<Rightarrow> map_option (\<lambda>(xs, rest). (JList xs, rest)) (read_items rd k (skip cs)))
          else (case named_constant rd s of Some r \<Rightarrow> Some r | None \<Rightarrow> number rd s))"
| "read_items rd 0 s = None"
| "read_items rd (Suc k) s =
     (case read_value rd k s of
        None \<Rightarrow> None
      | Some (v, rest) \<Rightarrow>
          (case expect (CHR '']'') (skip rest) of
             Some rest' \<Rightarrow> Some ([v], rest')
           | None \<Rightarrow>
               (case expect (CHR '','') (skip rest) of
                  None \<Rightarrow> None
                | Some rest' \<Rightarrow> map_option (\<lambda>(vs, r). (v # vs, r)) (read_items rd k (skip rest')))))"
| "read_entries rd 0 s = None"
| "read_entries rd (Suc k) s =
     (case expect (char_of (34::nat)) s of
        None \<Rightarrow> None
      | Some s1 \<Rightarrow>
     (case string_body rd (Suc (length s1)) s1 of
        None \<Rightarrow> None
      | Some (key, s2) \<Rightarrow>
     (case expect (CHR '':'') (skip s2) of
        None \<Rightarrow> None
      | Some s3 \<Rightarrow>
     (case read_value rd k (skip s3) of
        None \<Rightarrow> None
      | Some (v, s4) \<Rightarrow>
     (case expect (CHR ''}'') (skip s4) of
        Some rest \<Rightarrow> Some ([(key, v)], rest)
      | None \<Rightarrow>
     (case expect (CHR '','') (skip s4) of
        None \<Rightarrow> None
      | Some s5 \<Rightarrow> map_option (\<lambda>(es, r). ((key, v) # es, r)) (read_entries rd k (skip s5))))))))"

definition decode_error :: "reader \<Rightarrow> string \<Rightarrow> exn" where
  "decode_error rd s = Exn (Subclass ''JSONDecodeError'' ValueError) (rd_error rd s)"

definition loads :: "reader \<Rightarrow> string \<Rightarrow> exn + json" where
  "loads rd s =
     (case read_value rd (2 * length s + 2) (skip s) of
        Some (v, rest) \<Rightarrow> if skip rest = [] then Inr v else Inl (decode_error rd s)
      | None \<Rightarrow> Inl (decode_error rd s))"

end
