(* ===== verification/Files.thy ===== *)
theory Files
  imports Diff Json_Text
begin

text \<open>
  Files, as \<open>diff.py\<close>, \<open>evidence.py\<close> and \<open>repro.py\<close> under \<open>src/src/agentledger/\<close> use them through \<open>pathlib\<close>: a path is its root and its
  parts, a file system a working directory, texts and directories under names from the root. The text of a file is what
  \<open>write_text\<close> was given. Links and parts \<open>..\<close> are not resolved, and no operation fails for want of permission or space.
\<close>

section \<open>Paths\<close>

record path =
  pt_root :: string
  pt_parts :: "string list"

text \<open>\<open>Path(text)\<close>: empty parts and single dots go away, two slashes at the start are kept, three or more are one.\<close>

definition path_of :: "string \<Rightarrow> path" where
  "path_of s = \<lparr>pt_root = (if starts_with ''//'' s \<and> \<not> starts_with ''///'' s then ''//'' else if starts_with ''/'' s then ''/'' else []),
     pt_parts = filter (\<lambda>p. p \<noteq> [] \<and> p \<noteq> ''.'') (split_all (CHR ''/'') s)\<rparr>"

definition path_text :: "path \<Rightarrow> string" where
  "path_text p = (if pt_root p = [] \<and> pt_parts p = [] then ''.'' else pt_root p @ join ''/'' (pt_parts p))"

text \<open>\<open>path / text\<close>.\<close>

definition child :: "path \<Rightarrow> string \<Rightarrow> path" where
  "child p s = (let q = path_of s in if pt_root q \<noteq> [] then q else p\<lparr>pt_parts := pt_parts p @ pt_parts q\<rparr>)"

section \<open>The file system\<close>

record file_system =
  fs_cwd :: "string list"
  fs_files :: "(string list \<times> string) list"
  fs_dirs :: "string list list"

type_synonym 'a io = "(file_system, exn, 'a) action"

definition located :: "file_system \<Rightarrow> path \<Rightarrow> string list" where
  "located fs p = (if pt_root p = [] then fs_cwd fs @ pt_parts p else pt_parts p)"

definition text_at :: "file_system \<Rightarrow> path \<Rightarrow> string option" where
  "text_at fs p = map_of (fs_files fs) (located fs p)"

definition is_dir :: "file_system \<Rightarrow> path \<Rightarrow> bool" where
  "is_dir fs p \<longleftrightarrow> located fs p = [] \<or> located fs p \<in> set (fs_dirs fs)"

definition path_exists :: "file_system \<Rightarrow> path \<Rightarrow> bool" where
  "path_exists fs p \<longleftrightarrow> text_at fs p \<noteq> None \<or> is_dir fs p"

definition os_error :: "string \<Rightarrow> string \<Rightarrow> path \<Rightarrow> exn" where
  "os_error class message p = Exn (Subclass class Exception) (message @ '': '' @ repr_str (path_text p))"

definition no_file :: "path \<Rightarrow> exn" where
  "no_file p = Exn FileNotFoundError (''[Errno 2] No such file or directory: '' @ repr_str (path_text p))"

text \<open>A file where a directory of the path should be.\<close>

definition through_file :: "file_system \<Rightarrow> path \<Rightarrow> bool" where
  "through_file fs p \<longleftrightarrow> list_ex (\<lambda>n. map_of (fs_files fs) (take n (located fs p)) \<noteq> None) [0..<length (located fs p)]"

definition read_text :: "path \<Rightarrow> string io" where
  "read_text p = (\<lambda>fs.
     (case text_at fs p of
        Some t \<Rightarrow> Inr t
      | None \<Rightarrow>
          if is_dir fs p then Inl (os_error ''IsADirectoryError'' ''[Errno 21] Is a directory'' p)
          else if through_file fs p then Inl (os_error ''NotADirectoryError'' ''[Errno 20] Not a directory'' p)
          else Inl (no_file p), fs))"

definition write_text :: "path \<Rightarrow> string \<Rightarrow> unit io" where
  "write_text p t = (\<lambda>fs.
     if is_dir fs p then (Inl (os_error ''IsADirectoryError'' ''[Errno 21] Is a directory'' p), fs)
     else if through_file fs p then (Inl (os_error ''NotADirectoryError'' ''[Errno 20] Not a directory'' p), fs)
     else if butlast (located fs p) \<noteq> [] \<and> butlast (located fs p) \<notin> set (fs_dirs fs) then (Inl (no_file p), fs)
     else (Inr (), fs\<lparr>fs_files := AList.update (located fs p) t (fs_files fs)\<rparr>))"

text \<open>\<open>mkdir(parents=True, exist_ok=True)\<close>.\<close>

definition make_dirs :: "path \<Rightarrow> unit io" where
  "make_dirs p = (\<lambda>fs.
     if text_at fs p \<noteq> None then (Inl (os_error ''FileExistsError'' ''[Errno 17] File exists'' p), fs)
     else if through_file fs p then (Inl (os_error ''NotADirectoryError'' ''[Errno 20] Not a directory'' p), fs)
     else (Inr (), fs\<lparr>fs_dirs := fs_dirs fs @ map (\<lambda>n. take (Suc n) (located fs p)) [0..<length (located fs p)]\<rparr>))"

section \<open>Bundles in files\<close>

text \<open>\<open>load_evidence_path\<close>: a directory stands for the bundle in it.\<close>

definition load_evidence_path :: "reader \<Rightarrow> string \<Rightarrow> json io" where
  "load_evidence_path rd s =
     (let source = path_of s in
      bindM (getsM (\<lambda>fs. is_dir fs source)) (\<lambda>dir.
      bindM (read_text (if dir then child source ''bundle.json'' else source)) (\<lambda>t. liftM (loads rd t))))"

text \<open>\<open>json.dumps(\<dots>) + newline\<close>, written to a file.\<close>

definition write_json :: "(rat \<Rightarrow> string) \<Rightarrow> path \<Rightarrow> json \<Rightarrow> unit io" where
  "write_json fr p v = write_text p (dumps fr v @ [CHR 0x0A])"

definition parent :: "path \<Rightarrow> path" where
  "parent p = p\<lparr>pt_parts := butlast (pt_parts p)\<rparr>"

text \<open>\<open>EvidenceBundle.write\<close> and \<open>write_dir\<close>.\<close>

definition write_bundle :: "(rat \<Rightarrow> string) \<Rightarrow> dict \<Rightarrow> string \<Rightarrow> path io" where
  "write_bundle fr data s =
     (let target = path_of s in
      seqM (make_dirs (parent target)) (
      seqM (write_json fr target (JObj data))
      (retM target)))"

definition table_files :: "string list" where
  "table_files = [''steps'', ''tool_ledger'', ''approval_requests'', ''artifacts'', ''media_artifacts'', ''stream_checkpoints'', ''cost_records'']"

text \<open>One event per line: \<open>json.dumps(event, ensure_ascii=False, sort_keys=True)\<close>.\<close>

definition json_lines :: "(rat \<Rightarrow> string) \<Rightarrow> json list \<Rightarrow> string" where
  "json_lines fr es = concat (map (\<lambda>e. json_text fr (sort_keys e) @ [CHR 0x0A]) es)"

definition bundle_manifest :: "dict \<Rightarrow> json \<Rightarrow> json" where
  "bundle_manifest data run =
     JObj [(''schema_version'', entry data ''schema_version''), (''bundle_hash'', entry data ''bundle_hash''), (''run_id'', run),
       (''files'', strings [''bundle.json'', ''summary.json'', ''events.jsonl'', ''steps.json'', ''tool_ledger.json'', ''approval_requests.json'',
         ''artifacts.json'', ''media_artifacts.json'', ''stream_checkpoints.json'', ''cost_records.json'', ''final_state.json''])]"

definition write_dir :: "(rat \<Rightarrow> string) \<Rightarrow> dict \<Rightarrow> string \<Rightarrow> path io" where
  "write_dir fr data s =
     (let target = path_of s in
      seqM (make_dirs target) (
      seqM (write_json fr (child target ''bundle.json'') (JObj data)) (
      seqM (forM table_files (\<lambda>name. write_json fr (child target (name @ ''.json'')) (entry_or (JList []) data name))) (
      bindM (liftM (need_list (entry_or (JList []) data ''events''))) (\<lambda>es.
      seqM (write_text (child target ''events.jsonl'') (json_lines fr es)) (
      seqM (write_json fr (child target ''summary.json'') (entry_or (JObj []) data ''summary'')) (
      seqM (write_json fr (child target ''final_state.json'') (entry_or (JObj []) data ''final_state'')) (
      bindM (liftM (dict_under ''run'' data)) (\<lambda>run.
      seqM (write_json fr (child target ''manifest.json'') (bundle_manifest data (entry run ''run_id'')))
      (retM target))))))))))"

end
