(* ===== verification/Repro.thy ===== *)
theory Repro
  imports Review Files
begin

text \<open>
  The golden corpus of \<open>src/agentledger/repro.py\<close>: one directory per case under the root, with the bundle and a manifest as JSON files,
  and the built-in bundles. The operations act on the file system of \<open>Files\<close>.
\<close>

record golden_case =
  gc_name :: json
  gc_path :: string
  gc_hash :: json
  gc_metadata :: json

definition golden_case_to_dict :: "golden_case \<Rightarrow> json" where
  "golden_case_to_dict c = JObj [(''name'', gc_name c), (''path'', JStr (gc_path c)), (''bundle_hash'', gc_hash c), (''metadata'', gc_metadata c)]"

text \<open>A corpus is its root.\<close>

definition corpus :: "string \<Rightarrow> path io" where
  "corpus base = seqM (make_dirs (path_of base)) (retM (path_of base))"

definition simple_segment :: "string \<Rightarrow> bool" where
  "simple_segment name \<longleftrightarrow> name \<noteq> [] \<and> CHR ''/'' \<notin> set name \<and> CHR 0x5C \<notin> set name \<and> name \<noteq> ''.'' \<and> name \<noteq> ''..''"

definition validate_name :: "string \<Rightarrow> exn + unit" where
  "validate_name name =
     (if simple_segment name then Inr () else Inl (Exn ValueError ''golden case name must be a simple path segment''))"

definition bundle_path :: "path \<Rightarrow> string \<Rightarrow> path" where
  "bundle_path base name = child (child base name) ''bundle.json''"

definition manifest_path :: "path \<Rightarrow> string \<Rightarrow> path" where
  "manifest_path base name = child (child base name) ''manifest.json''"

definition manifest_of :: "string \<Rightarrow> json \<Rightarrow> string \<Rightarrow> json \<Rightarrow> json" where
  "manifest_of name hash source metadata =
     JObj [(''name'', JStr name), (''bundle_hash'', hash), (''source_path'', JStr source), (''metadata'', metadata)]"

definition write_case :: "(rat \<Rightarrow> string) \<Rightarrow> path \<Rightarrow> string \<Rightarrow> json \<Rightarrow> string \<Rightarrow> json \<Rightarrow> golden_case io" where
  "write_case fr base name evidence source metadata =
     seqM (liftM (validate_name name)) (
     seqM (make_dirs (child base name)) (
     seqM (write_json fr (bundle_path base name) evidence) (
     bindM (liftM (attr_get JNull evidence ''bundle_hash'')) (\<lambda>hash.
     seqM (write_json fr (manifest_path base name) (manifest_of name hash source metadata))
     (retM \<lparr>gc_name = JStr name, gc_path = path_text (bundle_path base name), gc_hash = hash, gc_metadata = metadata\<rparr>)))))"

definition add_case :: "reader \<Rightarrow> (rat \<Rightarrow> string) \<Rightarrow> path \<Rightarrow> string \<Rightarrow> string \<Rightarrow> json option \<Rightarrow> golden_case io" where
  "add_case rd fr base name source metadata =
     seqM (liftM (validate_name name)) (
     bindM (load_evidence_path rd source) (\<lambda>evidence.
     write_case fr base name evidence source (case metadata of None \<Rightarrow> JObj [] | Some m \<Rightarrow> py_or m (JObj []))))"

text \<open>\<open>data["name"]\<close> on what a manifest holds.\<close>

definition name_of :: "json \<Rightarrow> exn + json" where
  "name_of data =
     (case data of
        JObj es \<Rightarrow> (case map_of es ''name'' of None \<Rightarrow> Inl (Exn KeyError ''name'') | Some n \<Rightarrow> Inr n)
      | JList _ \<Rightarrow> Inl (Exn TypeError ''list indices must be integers or slices, not str'')
      | JStr _ \<Rightarrow> Inl (Exn TypeError (''string indices must be integers, not '' @ repr_str ''str''))
      | v \<Rightarrow> Inl (Exn TypeError (repr_str (type_name v) @ '' object is not subscriptable'')))"

definition case_of_manifest :: "path \<Rightarrow> string \<Rightarrow> json \<Rightarrow> exn + golden_case" where
  "case_of_manifest base dir data =
     bindE (name_of data) (\<lambda>n.
     bindE (attr_get JNull data ''bundle_hash'') (\<lambda>hash.
     bindE (attr_get (JObj []) data ''metadata'') (\<lambda>metadata.
     Inr \<lparr>gc_name = n, gc_path = path_text (bundle_path base dir), gc_hash = hash, gc_metadata = metadata\<rparr>)))"

definition read_case :: "reader \<Rightarrow> path \<Rightarrow> string \<Rightarrow> golden_case io" where
  "read_case rd base dir =
     bindM (read_text (manifest_path base dir)) (\<lambda>t.
     bindM (liftM (loads rd t)) (\<lambda>data. liftM (case_of_manifest base dir data)))"

text \<open>\<open>sorted(root.glob("*/manifest.json"))\<close>: the directories under the root, by name.\<close>

definition case_dirs :: "path \<Rightarrow> file_system \<Rightarrow> string list" where
  "case_dirs base fs =
     filter (\<lambda>name. path_exists fs (manifest_path base name))
       (sort (remdups (map last (filter (\<lambda>d. d \<noteq> [] \<and> butlast d = located fs base) (fs_dirs fs)))))"

definition list_cases :: "reader \<Rightarrow> path \<Rightarrow> golden_case list io" where
  "list_cases rd base = bindM (getsM (case_dirs base)) (mapM (read_case rd base))"

definition get_case :: "reader \<Rightarrow> path \<Rightarrow> string \<Rightarrow> golden_case io" where
  "get_case rd base name =
     seqM (liftM (validate_name name)) (
     bindM (getsM (\<lambda>fs. path_exists fs (manifest_path base name))) (\<lambda>found.
     if \<not> found then raiseM (Exn KeyError (''golden case not found: '' @ name)) else read_case rd base name))"

definition evaluate_case ::
  "reader \<Rightarrow> (rat \<Rightarrow> string) \<Rightarrow> path \<Rightarrow> string \<Rightarrow> string \<Rightarrow> regression_options \<Rightarrow> check_report io" where
  "evaluate_case rd fr base name current_path opts =
     bindM (get_case rd base name) (\<lambda>g.
     bindM (load_evidence_path rd (gc_path g)) (\<lambda>golden.
     bindM (load_evidence_path rd current_path) (\<lambda>current.
     liftM (bindE (need_dict golden) (\<lambda>l. bindE (need_dict current) (\<lambda>r. evaluate_regression fr l r opts))))))"

section \<open>Built-in cases\<close>

definition finalize_bundle :: "(string \<Rightarrow> string) \<Rightarrow> (rat \<Rightarrow> string) \<Rightarrow> dict \<Rightarrow> dict" where
  "finalize_bundle hex fr data =
     AList.update ''bundle_hash'' (JStr (sha256_json hex fr (JObj (filter (\<lambda>e. fst e \<noteq> ''bundle_hash'') data)))) data"

record summary_counts =
  su_events :: nat
  su_steps :: nat
  su_ledger :: nat
  su_artifacts :: nat
  su_media :: nat
  su_streams :: nat
  su_approvals :: nat
  su_tool_calls :: rat
  su_usd :: rat

definition default_counts :: "nat \<Rightarrow> summary_counts" where
  "default_counts n = \<lparr>su_events = n, su_steps = 1, su_ledger = 0, su_artifacts = 0, su_media = 0, su_streams = 0, su_approvals = 0,
     su_tool_calls = 0, su_usd = 0\<rparr>"

definition base_summary :: "summary_counts \<Rightarrow> json" where
  "base_summary n =
     JObj [(''event_count'', JInt (int (su_events n))), (''step_count'', JInt (int (su_steps n))), (''tool_ledger_count'', JInt (int (su_ledger n))),
       (''artifact_count'', JInt (int (su_artifacts n))), (''media_artifact_count'', JInt (int (su_media n))),
       (''stream_checkpoint_count'', JInt (int (su_streams n))), (''approval_count'', JInt (int (su_approvals n))),
       (''has_pending_approvals'', JBool False), (''has_pending_verification'', JBool False), (''has_failed_steps'', JBool False),
       (''cost_summary'', JObj [(''tool_calls'', JFloat (su_tool_calls n)), (''model_tokens'', JFloat 0), (''total_usd'', JFloat (su_usd n)),
         (''by_category'', JObj ((if su_tool_calls n = 0 then [] else [(''tool'', JFloat (su_tool_calls n))]) @
            (if su_usd n = 0 then [] else [(''total_usd'', JFloat (su_usd n))])))])]"

text \<open>What the three built-in bundles share: one completed run with one completed step, the first three and the last two events.\<close>

definition golden_event :: "int \<Rightarrow> string \<Rightarrow> json \<Rightarrow> json \<Rightarrow> dict \<Rightarrow> json" where
  "golden_event n type step role payload =
     JObj [(''seq'', JInt n), (''type'', JStr type), (''step_id'', step), (''agent_role'', role), (''payload'', JObj payload)]"

definition golden_run :: "string \<Rightarrow> string \<Rightarrow> json" where
  "golden_run case_name state =
     JObj [(''run_id'', JStr (''run_'' @ case_name)), (''session_id'', JStr (''sess_'' @ case_name)), (''status'', JStr ''completed''),
       (''state_json'', JStr state), (''state_version'', JInt 1), (''created_at'', JFloat 0), (''updated_at'', JFloat 1),
       (''initial_state'', JObj [])]"

definition golden_step :: "string \<Rightarrow> json" where
  "golden_step case_name =
     JObj [(''step_id'', JStr (''step_'' @ case_name)), (''run_id'', JStr (''run_'' @ case_name)), (''session_id'', JStr (''sess_'' @ case_name)),
       (''status'', JStr ''completed''), (''attempt'', JInt 1), (''state_version'', JInt 0), (''last_error_type'', JNull), (''last_error'', JNull)]"

definition golden_start :: "string \<Rightarrow> json list" where
  "golden_start case_name =
     (let step = JStr (''step_'' @ case_name) in
      [golden_event 1 ''run_created'' JNull JNull [(''initial_state'', JObj [])],
       golden_event 2 ''step_created'' step JNull [(''step_id'', step)],
       golden_event 3 ''step_claimed'' step JNull [(''attempt'', JInt 1)]])"

definition golden_end :: "string \<Rightarrow> int \<Rightarrow> dict \<Rightarrow> json list" where
  "golden_end case_name n patch =
     (let step = JStr (''step_'' @ case_name) in
      [golden_event n ''state_committed'' step JNull [(''patch'', JObj patch), (''state_version'', JInt 1)],
       golden_event (n + 1) ''step_completed'' step JNull [(''step_id'', step)]])"

record golden_parts =
  gp_events :: "json list"
  gp_ledger :: "json list"
  gp_media :: "json list"
  gp_streams :: "json list"
  gp_costs :: "json list"
  gp_summary :: summary_counts
  gp_final :: dict

definition golden_bundle :: "string \<Rightarrow> string \<Rightarrow> golden_parts \<Rightarrow> dict" where
  "golden_bundle case_name state g =
     [(''schema_version'', JStr ''agentledger.evidence.v1''), (''bundle_hash'', JNull), (''run'', golden_run case_name state),
      (''steps'', JList [golden_step case_name]), (''events'', JList (gp_events g)), (''tool_ledger'', JList (gp_ledger g)),
      (''approval_requests'', JList []), (''artifacts'', JList []), (''media_artifacts'', JList (gp_media g)),
      (''stream_checkpoints'', JList (gp_streams g)), (''cost_records'', JList (gp_costs g)), (''summary'', base_summary (gp_summary g)),
      (''final_state'', JObj (gp_final g))]"

definition builtin_minimal_success :: dict where
  "builtin_minimal_success =
     (let name = ''golden_minimal_success''; step = JStr (''step_'' @ name); role = JStr ''GoldenAgent'' in
      golden_bundle name ''{\"answer\":\"ok\"}''
       \<lparr>gp_events = golden_start name @
          [golden_event 4 ''agent_started'' step role [(''agent_role'', role)],
           golden_event 5 ''state_patch_proposed'' step role [(''key'', JStr ''answer''), (''patch'', JStr ''ok'')]] @
          golden_end name 6 [(''answer'', JStr ''ok'')],
        gp_ledger = [], gp_media = [], gp_streams = [], gp_costs = [], gp_summary = default_counts 7, gp_final = [(''answer'', JStr ''ok'')]\<rparr>)"

definition golden_ledger_row :: json where
  "golden_ledger_row =
     JObj [(''tool_name'', JStr ''github.create_issue''), (''tool_version'', JStr ''v1''), (''status'', JStr ''SUCCEEDED''),
       (''idempotency_key'', JStr ''idem-golden-tool''), (''external_id'', JStr ''ISSUE-1''), (''request_hash'', JStr ''sha256:golden-request''),
       (''request_ref'', JStr ''blob://sha256/golden-request.json''), (''response_hash'', JStr ''sha256:golden-response''),
       (''response_ref'', JStr ''blob://sha256/golden-response.json''), (''error_type'', JNull)]"

definition builtin_tool_ledger_success :: dict where
  "builtin_tool_ledger_success =
     (let name = ''golden_tool_ledger_success''; step = JStr (''step_'' @ name); role = JStr ''ExecutorAgent'';
          tool = JStr ''github.create_issue'' in
      golden_bundle name ''{\"issue_id\":\"ISSUE-1\"}''
       \<lparr>gp_events = golden_start name @
          [golden_event 4 ''agent_started'' step role [(''agent_role'', role)],
           golden_event 5 ''tool_call_requested'' step role [(''tool'', tool), (''args'', JObj [(''title'', JStr ''golden'')])],
           golden_event 6 ''tool_call_completed'' step role [(''tool'', tool), (''idempotency_key'', JStr ''idem-golden-tool'')]] @
          golden_end name 7 [(''issue_id'', JStr ''ISSUE-1'')],
        gp_ledger = [golden_ledger_row], gp_media = [], gp_streams = [],
        gp_costs = [JObj [(''category'', JStr ''tool''), (''name'', tool), (''amount'', JFloat 1), (''unit'', JStr ''call''),
          (''metadata'', JObj [(''side_effect'', JStr ''external_write'')])]],
        gp_summary = (default_counts 8)\<lparr>su_ledger := 1, su_tool_calls := 1\<rparr>, gp_final = [(''issue_id'', JStr ''ISSUE-1'')]\<rparr>)"

definition golden_media :: dict where
  "golden_media =
     [(''name'', JStr ''golden-video-frame''), (''kind'', JStr ''frame''), (''uri'', JNull),
      (''content_ref'', JStr ''blob://sha256/golden-frame-0001.jpg''), (''blob_hash'', JStr ''sha256:golden-frame-0001''),
      (''metadata'', JObj [(''mime_type'', JStr ''image/jpeg''), (''frame_index'', JInt 1), (''timestamp_ms'', JInt 1000)]),
      (''lineage'', JObj [(''source_ref'', JStr ''blob://sha256/golden-video.mp4''), (''tool_name'', JStr ''video.extract_frames''),
        (''tool_call_id'', JStr ''toolcall_golden_video'')])]"

definition golden_checkpoint :: dict where
  "golden_checkpoint =
     [(''name'', JStr ''golden-stream-checkpoint''), (''stream_id'', JStr ''camera-1''), (''consumer_id'', JStr ''agentledger-golden-consumer''),
      (''offset'', JInt 42), (''watermark'', JStr ''1970-01-01T00:00:42Z''),
      (''chunk'', JObj [(''chunk_id'', JStr ''chunk-42''), (''offset'', JInt 42), (''content_ref'', JStr ''blob://sha256/golden-stream-chunk''),
        (''content_hash'', JStr ''sha256:golden-stream-chunk'')]),
      (''partial_result_ref'', JStr ''blob://sha256/golden-partial-result.json'')]"

definition builtin_media_stream_checkpoint :: dict where
  "builtin_media_stream_checkpoint =
     (let name = ''golden_media_stream_checkpoint''; step = JStr (''step_'' @ name); role = JStr ''MediaAgent'' in
      golden_bundle name ''{\"processed_offset\":42}''
       \<lparr>gp_events = golden_start name @
          [golden_event 4 ''media_artifact_created'' step role golden_media,
           golden_event 5 ''stream_checkpoint_created'' step role golden_checkpoint] @
          golden_end name 6 [(''processed_offset'', JInt 42)],
        gp_ledger = [], gp_media = [JObj golden_media], gp_streams = [JObj golden_checkpoint], gp_costs = [],
        gp_summary = (default_counts 7)\<lparr>su_media := 1, su_streams := 1\<rparr>, gp_final = [(''processed_offset'', JInt 42)]\<rparr>)"

definition builtin_cases :: "(string \<times> dict) list" where
  "builtin_cases = [(''minimal-success'', builtin_minimal_success), (''tool-ledger-success'', builtin_tool_ledger_success),
     (''media-stream-checkpoint'', builtin_media_stream_checkpoint)]"

definition builtin_golden_evidence :: "(string \<Rightarrow> string) \<Rightarrow> (rat \<Rightarrow> string) \<Rightarrow> string \<Rightarrow> exn + dict" where
  "builtin_golden_evidence hex fr name =
     (case map_of builtin_cases name of
        None \<Rightarrow> Inl (Exn KeyError (''unknown built-in golden case: '' @ name))
      | Some data \<Rightarrow> Inr (finalize_bundle hex fr data))"

definition builtin_names :: "string list" where
  "builtin_names = sort (map fst builtin_cases)"

definition seed_builtin :: "(string \<Rightarrow> string) \<Rightarrow> (rat \<Rightarrow> string) \<Rightarrow> path \<Rightarrow> string \<Rightarrow> golden_case io" where
  "seed_builtin hex fr base name =
     bindM (liftM (builtin_golden_evidence hex fr name)) (\<lambda>evidence.
     write_case fr base name (JObj evidence) (''builtin:'' @ name) (JObj [(''builtin'', JBool True), (''suite'', JStr ''agentledger'')]))"

end
