(* ===== verification/Json_Text_Spec.thy ===== *)
theory Json_Text_Spec
  imports Json_Text
begin

text \<open>
  Reading what was written: \<open>loads\<close> of the text \<open>dumps\<close> makes is the value with its keys in order. The floats of the value
  must be read back from their text (\<open>floats_read\<close>): \<open>float(repr(x)) == x\<close>.
\<close>

section \<open>Blanks\<close>

text \<open>What may follow a value: the end of the text, a comma or a line break.\<close>

lemma named_chars: "char_of (10::nat) = CHR 0x0A" "char_of (34::nat) = CHR 0x22" "char_of (92::nat) = CHR 0x5C"
  by (simp_all add: char_of_def bit_0)

definition stops :: "string \<Rightarrow> bool" where
  "stops t \<longleftrightarrow> t = [] \<or> hd t = CHR '','' \<or> hd t = CHR 0x0A"

lemma stops_intros [simp]: "stops []" "stops (CHR '','' # t)" "stops (new_line n @ t)" "stops (CHR 0x0A # t)"
  by (simp_all add: stops_def new_line_def named_chars)

lemma skip_new_line [simp]: "skip (new_line n @ t) = skip t"
proof -
  have "dropWhile is_blank (replicate k (CHR '' '') @ t) = dropWhile is_blank t" for k
    by (induction k) (simp_all add: is_blank_def)
  then show ?thesis by (simp add: skip_def new_line_def) (simp add: is_blank_def)
qed

lemma skip_blank [simp]: "skip (CHR '' '' # t) = skip t"
  by (simp add: skip_def is_blank_def)

lemma skip_here: "s \<noteq> [] \<Longrightarrow> \<not> is_blank (hd s) \<Longrightarrow> skip (s @ t) = s @ t"
  by (cases s) (simp_all add: skip_def)

lemma skip_char [simp]: "\<not> is_blank c \<Longrightarrow> skip (c # t) = c # t"
  by (simp add: skip_def)

section \<open>Strings\<close>

lemma control_char: "of_char c = (n::nat) \<longleftrightarrow> n < 256 \<and> c = char_of n"
proof
  assume n: "of_char c = n"
  then have "char_of n = c" using char_of_char [of c, where 'a = nat] by simp
  with n show "n < 256 \<and> c = char_of n" using nat_of_char_less_256 [of c] by simp
qed (simp add: of_char_of)

lemma hex4_control:
  assumes "n < 32"
  shows "hex4 (CHR ''0'' # CHR ''0'' # hex_digit (n div 16) # hex_digit (n mod 16) # t) = Some (n, t)"
proof -
  have digit: "hex_value (hex_digit d) = Some d" if "d < 16" for d
    using that by (simp add: hex_digit_def hex_value_def Let_def)
  show ?thesis using assms by (simp add: digit) (simp add: hex_value_def)
qed

lemma unit_of_escape: "unit_of rd (escape_char c @ t) = Some ([c], t)"
proof (cases "of_char c < (32::nat)")
  case True
  let ?n = "of_char c :: nat"
  consider "?n = 8" | "?n = 9" | "?n = 10" | "?n = 12" | "?n = 13"
    | "?n \<noteq> 8" "?n \<noteq> 9" "?n \<noteq> 10" "?n \<noteq> 12" "?n \<noteq> 13" by blast
  then show ?thesis
  proof cases
    case 6
    then have "escape_char c = char_of (92::nat) # CHR ''u'' # CHR ''0'' # CHR ''0'' # hex_digit (?n div 16) # [hex_digit (?n mod 16)]"
      using True by (simp add: escape_char_def Let_def)
    then show ?thesis using hex4_control [OF True, of t] True
      by (simp add: unit_of_def code_point_def text_of_def)
  qed (simp_all add: control_char escape_char_def unit_of_def simple_escape_def Let_def)
next
  case False
  then show ?thesis
    by (auto simp: escape_char_def unit_of_def simple_escape_def Let_def)
qed

lemma escape_head: "escape_char c \<noteq> []" "of_char (hd (escape_char c)) \<noteq> (34::nat)"
  by (simp_all add: escape_char_def Let_def)

lemma string_body_read: "length s < k \<Longrightarrow> string_body rd k (concat (map escape_char s) @ CHR 0x22 # t) = Some (s, t)"
proof (induction s arbitrary: k)
  case Nil
  then show ?case by (cases k) simp_all
next
  case (Cons c s)
  then obtain k' where k: "k = Suc k'" "length s < k'" by (cases k) auto
  let ?rest = "concat (map escape_char s) @ CHR 0x22 # t"
  have "of_char (hd (escape_char c @ ?rest)) \<noteq> (34::nat)" using escape_head [of c] by simp
  with Cons.IH [OF k(2)] escape_head(1) [of c] show ?case
    by (simp add: k(1) unit_of_escape)
qed

lemma string_read: "string_body rd (Suc (length (concat (map escape_char s) @ CHR 0x22 # t))) (concat (map escape_char s) @ CHR 0x22 # t) = Some (s, t)"
proof (rule string_body_read)
  have "length s \<le> length (concat (map escape_char s))"
  proof (induction s)
    case (Cons c s)
    then show ?case using escape_head(1) [of c] by (cases "escape_char c") simp_all
  qed simp
  then show "length s < Suc (length (concat (map escape_char s) @ CHR 0x22 # t))" by simp
qed

lemma quote_Cons: "quote s = CHR 0x22 # concat (map escape_char s) @ [CHR 0x22]"
  by (simp add: quote_def named_chars)

section \<open>Numbers\<close>

lemma stops_head: "stops t \<Longrightarrow> t \<noteq> [] \<Longrightarrow> \<not> is_digit (hd t) \<and> hd t \<notin> set ''-+.eE0''"
  by (auto simp: stops_def is_digit_def)

lemma digits_stop: "stops t \<Longrightarrow> takeWhile is_digit (s @ t) = takeWhile is_digit s"
  by (induction s) (use stops_head [of t] in \<open>cases t; auto\<close>)+

lemma head_append: "hd (s @ t) = (if s = [] then hd t else hd s)" "tl (s @ t) = (if s = [] then tl t else tl s @ t)"
  by (simp_all add: tl_append split: list.split)

lemma parts_stop:
  assumes "stops t"
  shows "integer_part (s @ t) = integer_part s" "fraction_part (s @ t) = fraction_part s"
    "sign_part (s @ t) = sign_part s" "exponent_part (s @ t) = exponent_part s"
proof -
  have digits: "takeWhile is_digit (u @ t) = takeWhile is_digit u" "takeWhile is_digit t = []" for u
    using digits_stop [OF assms, of u] digits_stop [OF assms, of "[]"] by simp_all
  show "integer_part (s @ t) = integer_part s" "fraction_part (s @ t) = fraction_part s"
    using stops_head [OF assms] by (auto simp: integer_part_def fraction_part_def digits head_append)
  show sign: "sign_part (s @ t) = sign_part s" for s
    using stops_head [OF assms] by (auto simp: sign_part_def head_append)
  have len: "length (sign_part u) \<le> length u" for u by (cases u) (simp_all add: sign_part_def)
  show "exponent_part (s @ t) = exponent_part s"
    using stops_head [OF assms] len [of "tl s"] by (auto simp: exponent_part_def sign digits head_append Let_def)
qed

lemma parts_length:
  "length (integer_part s) \<le> length s" "length (fraction_part s) \<le> length s" "length (exponent_part s) \<le> length s"
proof -
  have digits: "length (takeWhile is_digit u) \<le> length u" for u by (rule length_takeWhile_le)
  show "length (integer_part s) \<le> length s" "length (fraction_part s) \<le> length s"
    using digits [of s] digits [of "tl s"] by (cases s; simp add: integer_part_def fraction_part_def)+
  have sign: "length (sign_part u) \<le> length u" for u by (cases u) (simp_all add: sign_part_def)
  show "length (exponent_part s) \<le> length s"
    using digits [of "drop (length (sign_part (tl s))) (tl s)"] sign [of "tl s"]
    by (cases s) (auto simp: exponent_part_def Let_def)
qed

lemma number_append:
  assumes "stops t" and "number rd s = Some (v, [])"
  shows "number rd (s @ t) = Some (v, t)"
proof -
  define m where "m = (if s \<noteq> [] \<and> hd s = CHR ''-'' then ''-'' else [])"
  have m: "(if s @ t \<noteq> [] \<and> hd (s @ t) = CHR ''-'' then ''-'' else []) = m" "length m \<le> length s"
    using stops_head [OF assms(1)] by (cases s; auto simp: m_def)+
  let ?s1 = "drop (length m) s"
  let ?s2 = "drop (length (integer_part ?s1)) ?s1"
  let ?s3 = "drop (length (fraction_part ?s2)) ?s2"
  have keep: "length u \<le> length x \<Longrightarrow> drop (length u) (x @ t) = drop (length u) x @ t" for u x :: string by simp
  have app: "drop (length m) (s @ t) = ?s1 @ t" "drop (length (integer_part ?s1)) (?s1 @ t) = ?s2 @ t"
    "drop (length (fraction_part ?s2)) (?s2 @ t) = ?s3 @ t" "drop (length (exponent_part ?s3)) (?s3 @ t) = drop (length (exponent_part ?s3)) ?s3 @ t"
    by (rule keep, rule m(2) parts_length)+
  show ?thesis
    using assms(2) unfolding number_def m(1) m_def [symmetric] Let_def app parts_stop [OF assms(1)]
    by (auto split: if_splits)
qed

lemma integer_head: "integer_part u \<noteq> [] \<Longrightarrow> \<exists>d ds. u = d # ds \<and> is_digit d"
proof (cases u)
  case (Cons d ds)
  assume "integer_part u \<noteq> []"
  then have "d = CHR ''0'' \<or> is_digit d" by (auto simp: Cons integer_part_def split: if_splits)
  moreover have "is_digit (CHR ''0'')" by (simp add: is_digit_def)
  ultimately show ?thesis using Cons by blast
qed (simp add: integer_part_def)

lemma digit_no_constant: "is_digit d \<Longrightarrow> named_constant rd (d # ds) = None \<and> named_constant rd (CHR ''-'' # d # ds) = None"
proof -
  assume "is_digit d"
  then have d: "d \<noteq> CHR ''n''" "d \<noteq> CHR ''t''" "d \<noteq> CHR ''f''" "d \<noteq> CHR ''N''" "d \<noteq> CHR ''I''" "d \<noteq> CHR ''-''"
    by (auto simp: is_digit_def)
  have "starts_with (a # p) (b # s) \<longleftrightarrow> b = a \<and> starts_with p s" for a b p s by (simp add: starts_with_def)
  with d show ?thesis by (simp add: named_constant_def constants_def)
qed

lemma number_head:
  assumes "number rd s = Some r"
  shows "named_constant rd s = None \<and> s \<noteq> [] \<and> (is_digit (hd s) \<or> hd s = CHR ''-'')"
proof -
  let ?m = "if s \<noteq> [] \<and> hd s = CHR ''-'' then ''-'' else []"
  have "integer_part (drop (length ?m) s) \<noteq> []" using assms by (auto simp: number_def Let_def split: if_splits)
  then obtain d ds where d: "drop (length ?m) s = d # ds" "is_digit d" using integer_head by blast
  then have "s = (if hd s = CHR ''-'' then CHR ''-'' # d # ds else d # ds)" by (cases s) (simp_all split: if_splits)
  with d(2) digit_no_constant [OF d(2), of rd ds] show ?thesis by (metis list.distinct(1) list.sel(1))
qed

lemma number_value:
  assumes "number rd s = Some r"
  shows "read_value rd (Suc k) s = Some r"
proof -
  note head = number_head [OF assms]
  then obtain c cs where s: "s = c # cs" by (cases s) auto
  have "of_char c \<noteq> (34::nat)" "c \<noteq> CHR ''{''" "c \<noteq> CHR ''[''"
    using head by (auto simp: s is_digit_def)
  then show ?thesis using head assms by (simp add: s)
qed

lemma nat_str_digits: "nat_str n \<noteq> [] \<and> list_all is_digit (nat_str n) \<and> (hd (nat_str n) = CHR ''0'' \<longrightarrow> nat_str n = ''0'')"
proof (induction n rule: nat_str.induct)
  case (1 n)
  have digit: "is_digit (char_of (48 + d))" if "d < 10" for d :: nat using that by (simp add: is_digit_def)
  show ?case
  proof (cases "n < 10")
    case True
    then show ?thesis using digit [OF True] by (simp add: nat_str.simps [of n])
  next
    case False
    then have "n div 10 \<noteq> 0" by simp
    then have "nat_str (n div 10) \<noteq> ''0''" using nat_of_nat_str [of "n div 10"] by (auto simp: nat_of_str_def)
    with False 1 digit [of "n mod 10"] show ?thesis by (auto simp: nat_str.simps [of n])
  qed
qed

lemma integer_nat_str: "integer_part (nat_str n) = nat_str n"
  using nat_str_digits [of n] by (auto simp: integer_part_def list_all_iff takeWhile_eq_all_conv)

lemma number_int: "number rd (int_str i) = Some (JInt i, [])"
proof -
  have none: "fraction_part [] = []" "exponent_part [] = []" by (simp_all add: fraction_part_def exponent_part_def)
  have "hd (nat_str n) \<noteq> CHR ''-''" for n using nat_str_digits [of n] by (cases "nat_str n") (auto simp: is_digit_def)
  then show ?thesis
    using nat_str_digits by (simp add: number_def int_str_def integer_nat_str none nat_of_nat_str)
qed

section \<open>Values\<close>

text \<open>Every float of a value is read back from its text.\<close>

fun floats_read :: "reader \<Rightarrow> (rat \<Rightarrow> string) \<Rightarrow> json \<Rightarrow> bool" where
  "floats_read rd fr (JFloat q) \<longleftrightarrow> number rd (fr q) = Some (JFloat q, [])"
| "floats_read rd fr (JList xs) \<longleftrightarrow> list_all (floats_read rd fr) xs"
| "floats_read rd fr (JObj es) \<longleftrightarrow> list_all (\<lambda>e. floats_read rd fr (snd e)) es"
| "floats_read rd fr v \<longleftrightarrow> True"

text \<open>How a text of a value or an entry begins: not with a blank, nor with what ends a list or an object.\<close>

definition begins :: "string \<Rightarrow> bool" where
  "begins s \<longleftrightarrow> s \<noteq> [] \<and> \<not> is_blank (hd s) \<and> hd s \<noteq> CHR '']'' \<and> hd s \<noteq> CHR ''}''"

lemma begins_skip:
  assumes "begins s"
  shows "skip (s @ t) = s @ t" "expect (CHR '']'') (s @ t) = None" "expect (CHR ''}'') (s @ t) = None"
  using assms by (auto simp: begins_def skip_here expect_def)

lemma begins_number: "number rd s = Some r \<Longrightarrow> begins s"
  using number_head [of rd s r] by (auto simp: begins_def is_blank_def is_digit_def Let_def)

lemma begins_text: "floats_read rd fr v \<Longrightarrow> begins (indented fr n v)"
proof (cases v)
  case (JInt i)
  then show ?thesis using begins_number [OF number_int] by simp
next
  case (JFloat q)
  assume "floats_read rd fr v"
  with JFloat show ?thesis using begins_number by auto
qed (simp_all add: begins_def is_blank_def quote_Cons)

lemma begins_entry: "begins (quote k @ u)"
  by (simp add: begins_def is_blank_def quote_Cons)

lemma begins_join: "xs \<noteq> [] \<Longrightarrow> list_all begins xs \<Longrightarrow> begins (join sep xs)"
  by (cases xs rule: remdups_adj.cases) (auto simp: begins_def)

text \<open>What it means that a text is read as a value, with enough fuel.\<close>

definition reads :: "reader \<Rightarrow> string \<Rightarrow> json \<Rightarrow> bool" where
  "reads rd s v \<longleftrightarrow> (\<forall>k t. 2 * length s < k \<longrightarrow> stops t \<longrightarrow> read_value rd k (s @ t) = Some (v, t))"

lemma readsD: "reads rd s v \<Longrightarrow> 2 * length s < k \<Longrightarrow> stops t \<Longrightarrow> read_value rd k (s @ t) = Some (v, t)"
  by (simp add: reads_def)

lemma readsI:
  assumes "\<And>k t. 2 * length s \<le> k \<Longrightarrow> stops t \<Longrightarrow> read_value rd (Suc k) (s @ t) = Some (v, t)"
  shows "reads rd s v"
  unfolding reads_def
proof (intro allI impI)
  fix k t
  assume "2 * length s < k" "stops t"
  then show "read_value rd k (s @ t) = Some (v, t)" using assms [of "k - 1" t] by simp
qed

lemma read_items_join:
  assumes "list_all2 (reads rd) ss vs" and "ss \<noteq> []" and "list_all begins ss"
    and "2 * length (join (CHR '','' # new_line m) ss) + 1 < k"
  shows "read_items rd k (join (CHR '','' # new_line m) ss @ new_line n @ CHR '']'' # t) = Some (vs, t)"
  using assms
proof (induction ss arbitrary: vs k)
  case (Cons s ss)
  obtain v vs' where vs: "vs = v # vs'" "reads rd s v" "list_all2 (reads rd) ss vs'" using Cons.prems(1) by (auto simp: list_all2_Cons1)
  obtain k' where k: "k = Suc k'" using Cons.prems(4) by (cases k) auto
  show ?case
  proof (cases ss)
    case Nil
    with vs(3) have "vs' = []" by simp
    moreover have "read_value rd k' (s @ new_line n @ CHR '']'' # t) = Some (v, new_line n @ CHR '']'' # t)"
      using Cons.prems(4) Nil by (intro readsD [OF vs(2)]) (simp_all add: k)
    ultimately show ?thesis by (simp add: Nil vs(1) k expect_def is_blank_def)
  next
    case (Cons u us)
    let ?rest = "join (CHR '','' # new_line m) ss @ new_line n @ CHR '']'' # t"
    have join: "join (CHR '','' # new_line m) (s # ss) = s @ CHR '','' # new_line m @ join (CHR '','' # new_line m) ss"
      by (simp add: Cons)
    have "read_items rd k' ?rest = Some (vs', t)"
      using Cons.prems by (intro Cons.IH vs(3)) (simp_all add: join k Cons)
    moreover have "skip ?rest = ?rest" using Cons.prems(3) begins_join [of ss] by (intro begins_skip(1)) (simp add: Cons)
    moreover have "read_value rd k' (s @ CHR '','' # new_line m @ ?rest) = Some (v, CHR '','' # new_line m @ ?rest)"
      using Cons.prems(4) unfolding k join by (intro readsD [OF vs(2)]) simp_all
    ultimately show ?thesis by (simp add: join k vs(1) expect_def is_blank_def)
  qed
qed simp

definition entry_text :: "string \<times> string \<Rightarrow> string" where
  "entry_text e = quote (fst e) @ '': '' @ snd e"

lemma read_entries_join:
  assumes "list_all2 (\<lambda>e f. fst e = fst f \<and> reads rd (snd e) (snd f) \<and> begins (snd e)) es fs" and "es \<noteq> []"
    and "2 * length (join (CHR '','' # new_line m) (map entry_text es)) + 1 < k"
  shows "read_entries rd k (join (CHR '','' # new_line m) (map entry_text es) @ new_line n @ CHR ''}'' # t) = Some (fs, t)"
  using assms
proof (induction es arbitrary: fs k)
  case (Cons e es)
  obtain f fs' where fs: "fs = f # fs'" "fst f = fst e" "reads rd (snd e) (snd f)" "begins (snd e)"
    "list_all2 (\<lambda>e f. fst e = fst f \<and> reads rd (snd e) (snd f) \<and> begins (snd e)) es fs'"
    using Cons.prems(1) by (auto simp: list_all2_Cons1)
  obtain v where f: "f = (fst e, v)" using fs(2) by (cases f) auto
  obtain k' where k: "k = Suc k'" using Cons.prems(3) by (cases k) auto
  have step: "read_entries rd (Suc k') (entry_text e @ u) =
      (case read_value rd k' (snd e @ u) of
         None \<Rightarrow> None
       | Some (v, s4) \<Rightarrow>
           (case expect (CHR ''}'') (skip s4) of
              Some rest \<Rightarrow> Some ([(fst e, v)], rest)
            | None \<Rightarrow> (case expect (CHR '','') (skip s4) of
                None \<Rightarrow> None
              | Some s5 \<Rightarrow> map_option (\<lambda>(es, r). ((fst e, v) # es, r)) (read_entries rd k' (skip s5)))))" for u
    using string_read [of rd "fst e" "'': '' @ snd e @ u"] begins_skip(1) [OF fs(4), of u]
    by (simp add: entry_text_def quote_Cons expect_def named_chars is_blank_def)
  show ?case
  proof (cases es)
    case Nil
    with fs(5) have "fs' = []" by simp
    moreover have "read_value rd k' (snd e @ new_line n @ CHR ''}'' # t) = Some (snd f, new_line n @ CHR ''}'' # t)"
      using Cons.prems(3) Nil by (intro readsD [OF fs(3)]) (simp_all add: k entry_text_def)
    ultimately show ?thesis by (simp add: Nil fs(1) f k step expect_def is_blank_def del: read_entries.simps)
  next
    case (Cons e2 es2)
    let ?rest = "join (CHR '','' # new_line m) (map entry_text es) @ new_line n @ CHR ''}'' # t"
    have join: "join (CHR '','' # new_line m) (map entry_text (e # es)) = entry_text e @ CHR '','' # new_line m @ join (CHR '','' # new_line m) (map entry_text es)"
      by (simp add: Cons)
    have "read_entries rd k' ?rest = Some (fs', t)"
      using Cons.prems by (intro Cons.IH fs(5)) (simp_all add: join k Cons)
    moreover have "list_all begins (map entry_text es)" by (simp add: list_all_iff entry_text_def begins_entry)
    then have "skip ?rest = ?rest" using begins_join [of "map entry_text es"] by (intro begins_skip(1)) (simp add: Cons)
    moreover have "read_value rd k' (snd e @ CHR '','' # new_line m @ ?rest) = Some (snd f, CHR '','' # new_line m @ ?rest)"
      using Cons.prems(3) unfolding k join by (intro readsD [OF fs(3)]) (simp_all add: entry_text_def)
    ultimately show ?thesis unfolding join k fs(1) f
      by (simp add: step expect_def is_blank_def del: read_entries.simps)
  qed
qed simp

lemma fold_update_new: "distinct (map fst es) \<Longrightarrow> fst ` set es \<inter> fst ` set acc = {} \<Longrightarrow>
  fold (\<lambda>e. AList.update (fst e) (snd e)) es acc = acc @ es"
proof (induction es arbitrary: acc)
  case (Cons e es)
  have "AList.update k v xs = xs @ [(k, v)]" if "k \<notin> fst ` set xs" for k v and xs :: "('a \<times> 'b) list"
    using that by (induction xs) auto
  with Cons show ?case by auto
qed simp

lemma reads_indented: "wf_json v \<Longrightarrow> floats_read rd fr v \<Longrightarrow> reads rd (indented fr n v) (sort_keys v)"
proof (induction fr n v rule: indented.induct)
  case (3 fr n i)
  have "read_value rd (Suc k) (int_str i @ t) = Some (JInt i, t)" if "stops t" for k t
    by (rule number_value [OF number_append [OF that number_int]])
  then show ?case by (intro readsI) simp
next
  case (4 fr n q)
  then have "number rd (fr q) = Some (JFloat q, [])" by simp
  then have "read_value rd (Suc k) (fr q @ t) = Some (JFloat q, t)" if "stops t" for k t
    by (rule number_value [OF number_append [OF that]])
  then show ?case by (intro readsI) simp
next
  case (6 fr n xs)
  show ?case
  proof (cases "xs = []")
    case True
    have "read_value rd (Suc k) (CHR ''['' # CHR '']'' # t) = Some (JList [], t)" for k t
      by (simp add: expect_def is_blank_def)
    with True show ?thesis by (intro readsI) simp
  next
    case False
    let ?ss = "map (indented fr (Suc n)) xs"
    let ?body = "join (CHR '','' # new_line (Suc n)) ?ss"
    have items: "list_all2 (reads rd) ?ss (map sort_keys xs)"
      using 6 False by (auto simp: list_all2_conv_all_nth list_all_length)
    have heads: "list_all begins ?ss" using 6(3) begins_text by (auto simp: list_all_iff)
    have shape: "indented fr n (JList xs) = CHR ''['' # new_line (Suc n) @ ?body @ new_line n @ '']''" using False by simp
    have "read_value rd (Suc k) (indented fr n (JList xs) @ t) = Some (sort_keys (JList xs), t)"
      if "2 * length ?body + 1 < k" for k t
      using read_items_join [OF items _ heads that, of n t] False begins_skip [OF begins_join [OF _ heads], of "CHR '','' # new_line (Suc n)"]
      unfolding shape by simp
    note read = this
    show ?thesis
    proof (rule readsI)
      fix k t
      assume "2 * length (indented fr n (JList xs)) \<le> k"
      then have "2 * length ?body + 1 < k" unfolding shape by simp
      then show "read_value rd (Suc k) (indented fr n (JList xs) @ t) = Some (sort_keys (JList xs), t)" by (rule read)
    qed
  qed
next
  case (7 fr n es)
  show ?case
  proof (cases "es = []")
    case True
    have "read_value rd (Suc k) (CHR ''{'' # CHR ''}'' # t) = Some (JObj [], t)" for k t
      by (simp add: expect_def is_blank_def)
    with True show ?thesis by (intro readsI) simp
  next
    case False
    let ?sorted = "sort_key fst es"
    let ?es = "map (\<lambda>e. (fst e, indented fr (Suc n) (snd e))) ?sorted"
    let ?body = "join (CHR '','' # new_line (Suc n)) (map entry_text ?es)"
    let ?fs = "map (\<lambda>e. (fst e, sort_keys (snd e))) ?sorted"
    have ok: "reads rd (indented fr (Suc n) (snd e)) (sort_keys (snd e))" "begins (indented fr (Suc n) (snd e))" if "e \<in> set es" for e
      using that 7 False begins_text by (auto simp: list_all_iff)
    then have entries: "list_all2 (\<lambda>e f. fst e = fst f \<and> reads rd (snd e) (snd f) \<and> begins (snd e)) ?es ?fs"
      by (auto simp: list.rel_map intro!: list.rel_refl_strong)
    have "sorted (map fst ?sorted)" by simp
    have distinct: "distinct (map fst ?fs)" using 7(2) by (simp add: comp_def distinct_map)
    have shape: "indented fr n (JObj es) = CHR ''{'' # new_line (Suc n) @ ?body @ new_line n @ ''}''"
      using False by (simp add: entry_text_def comp_def)
    have some: "?es \<noteq> []" using False by (metis Nil_is_map_conv length_0_conv length_sort)
    have heads: "list_all begins (map entry_text ?es)" by (simp add: list_all_iff entry_text_def begins_entry)
    have "read_value rd (Suc k) (indented fr n (JObj es) @ t) = Some (sort_keys (JObj es), t)"
      if "2 * length ?body + 1 < k" for k t
      using read_entries_join [OF entries some that, of n t] begins_skip [OF begins_join [OF _ heads], of "CHR '','' # new_line (Suc n)"]
        some fold_update_new [OF distinct, of "[]"]
      unfolding shape by simp
    note read = this
    show ?thesis
    proof (rule readsI)
      fix k t
      assume "2 * length (indented fr n (JObj es)) \<le> k"
      then have "2 * length ?body + 1 < k" unfolding shape by simp
      then show "read_value rd (Suc k) (indented fr n (JObj es) @ t) = Some (sort_keys (JObj es), t)" by (rule read)
    qed
  qed
next
  case (5 fr n s)
  have "read_value rd (Suc k) (quote s @ t) = Some (JStr s, t)" for k t
    using string_read [of rd s t] by (simp add: quote_Cons del: string_body.simps)
  then show ?case by (intro readsI) simp
qed (auto intro!: readsI simp: named_constant_def constants_def starts_with_def)

text \<open>What was written to a file, with the line break at its end, is read back.\<close>

theorem loads_dumps:
  assumes "wf_json v" and "floats_read rd fr v"
  shows "loads rd (dumps fr v @ [CHR 0x0A]) = Inr (sort_keys v)"
proof -
  have "read_value rd (2 * length (dumps fr v @ [CHR 0x0A]) + 2) (dumps fr v @ [CHR 0x0A]) = Some (sort_keys v, [CHR 0x0A])"
    unfolding dumps_def by (rule readsD [OF reads_indented [OF assms]]) simp_all
  moreover have "skip (dumps fr v @ [CHR 0x0A]) = dumps fr v @ [CHR 0x0A]"
    unfolding dumps_def by (rule begins_skip(1) [OF begins_text [OF assms(2)]])
  ultimately show ?thesis by (simp add: loads_def) (simp add: skip_def is_blank_def)
qed

end
