(* ===== verification/Repro_Spec.thy ===== *)
theory Repro_Spec
  imports Repro Json_Text_Spec Json_Order
begin

text \<open>
  A golden case is found again as it was written, through the text of its two files, whatever else the corpus holds; its files
  stay in its own directory, and an evaluation compares what was stored with the bundle it is given. The built-in cases pass the
  review and the checks they are there for.
\<close>

section \<open>Paths\<close>

definition part_ok :: "string \<Rightarrow> bool" where
  "part_ok p \<longleftrightarrow> p \<noteq> [] \<and> p \<noteq> ''.'' \<and> CHR ''/'' \<notin> set p"

definition wf_path :: "path \<Rightarrow> bool" where
  "wf_path p \<longleftrightarrow> pt_root p \<in> {[], ''/'', ''//''} \<and> list_all part_ok (pt_parts p)"

lemma split_all_parts: "p \<in> set (split_all c s) \<Longrightarrow> c \<notin> set p"
  by (induction s arbitrary: p) (auto split: if_splits list.splits)

lemma split_all_whole: "c \<notin> set s \<Longrightarrow> split_all c s = [s]"
  by (induction s) auto

lemma split_all_sep: "c \<notin> set s \<Longrightarrow> split_all c (s @ c # t) = s # split_all c t"
  by (induction s) auto

lemma split_all_join: "ps \<noteq> [] \<Longrightarrow> list_all part_ok ps \<Longrightarrow> split_all (CHR ''/'') (join ''/'' ps) = ps"
  by (induction ps rule: induct_list012) (auto simp: part_ok_def split_all_whole split_all_sep)

lemma wf_path_of [simp]: "wf_path (path_of s)"
  by (auto simp: wf_path_def path_of_def list_all_iff part_ok_def dest: split_all_parts)

lemma join_head: "ps \<noteq> [] \<Longrightarrow> list_all part_ok ps \<Longrightarrow> join ''/'' ps \<noteq> [] \<and> hd (join ''/'' ps) \<noteq> CHR ''/''"
  by (induction ps rule: induct_list012) (auto simp: part_ok_def hd_append dest: hd_in_set)

lemma starts_with_Cons [simp]: "starts_with (a # p) (b # s) \<longleftrightarrow> a = b \<and> starts_with p s" "starts_with [] s" "\<not> starts_with (a # p) []"
  by (auto simp: starts_with_def)

lemma path_of_root:
  assumes "r \<in> {[], ''/'', ''//''}" and "t = [] \<or> hd t \<noteq> CHR ''/''"
  shows "path_of (r @ t) = \<lparr>pt_root = r, pt_parts = filter (\<lambda>p. p \<noteq> [] \<and> p \<noteq> ''.'') (split_all (CHR ''/'') t)\<rparr>"
  using assms by (cases t) (auto simp: path_of_def)

lemma path_of_text:
  assumes "wf_path p"
  shows "path_of (path_text p) = p"
proof -
  let ?t = "join ''/'' (pt_parts p)"
  have parts: "list_all part_ok (pt_parts p)" and base: "pt_root p \<in> {[], ''/'', ''//''}" using assms by (simp_all add: wf_path_def)
  have head: "?t = [] \<or> hd ?t \<noteq> CHR ''/''" using join_head [OF _ parts] by (cases "pt_parts p") auto
  have "filter (\<lambda>p. p \<noteq> [] \<and> p \<noteq> ''.'') (pt_parts p) = pt_parts p"
    using parts by (auto simp: filter_id_conv list_all_iff part_ok_def)
  then have "filter (\<lambda>p. p \<noteq> [] \<and> p \<noteq> ''.'') (split_all (CHR ''/'') ?t) = pt_parts p"
    using split_all_join [OF _ parts] by (cases "pt_parts p = []") simp_all
  then have "path_of (pt_root p @ ?t) = p" using path_of_root [OF base head] by simp
  moreover have "path_of ''.'' = p" if "pt_root p = []" "pt_parts p = []" using that by (cases p) (simp add: path_of_def)
  ultimately show ?thesis by (auto simp: path_text_def)
qed

lemma simple_part: "simple_segment s \<Longrightarrow> part_ok s \<and> path_of s = \<lparr>pt_root = [], pt_parts = [s]\<rparr>"
  by (cases s) (auto simp: simple_segment_def part_ok_def path_of_def split_all_whole)

lemma child_simple: "simple_segment s \<Longrightarrow> child p s = p\<lparr>pt_parts := pt_parts p @ [s]\<rparr>"
  using simple_part [of s] by (simp add: child_def)

lemma file_names [simp]: "simple_segment ''bundle.json''" "simple_segment ''manifest.json''"
  by (simp_all add: simple_segment_def)

lemma wf_child: "wf_path p \<Longrightarrow> simple_segment s \<Longrightarrow> wf_path (child p s)"
  using simple_part [of s] by (simp add: child_simple) (simp add: wf_path_def)

lemma located_child [simp]: "simple_segment s \<Longrightarrow> located fs (child p s) = located fs p @ [s]"
  by (simp add: child_simple located_def)

lemma located_more [simp]: "located (fs\<lparr>fs_files := x\<rparr>) p = located fs p" "located (fs\<lparr>fs_dirs := y\<rparr>) p = located fs p"
  by (simp_all add: located_def)

section \<open>Writing a case\<close>

definition with_case :: "(rat \<Rightarrow> string) \<Rightarrow> path \<Rightarrow> string \<Rightarrow> json \<Rightarrow> json \<Rightarrow> file_system \<Rightarrow> file_system" where
  "with_case fr base name evidence m fs =
     (let d = located fs base @ [name] in
      fs\<lparr>fs_dirs := fs_dirs fs @ map (\<lambda>n. take (Suc n) d) [0..<length d],
        fs_files := AList.update (d @ [''manifest.json'']) (dumps fr m @ [CHR 0x0A])
          (AList.update (d @ [''bundle.json'']) (dumps fr evidence @ [CHR 0x0A]) (fs_files fs))\<rparr>)"

lemma write_text_ok: "write_text p t fs = (Inr (), fs') \<Longrightarrow> \<not> is_dir fs p \<and> fs' = fs\<lparr>fs_files := AList.update (located fs p) t (fs_files fs)\<rparr>"
  by (auto simp: write_text_def split: if_splits)

lemma make_dirs_ok: "make_dirs p fs = (Inr (), fs') \<Longrightarrow>
    fs' = fs\<lparr>fs_dirs := fs_dirs fs @ map (\<lambda>n. take (Suc n) (located fs p)) [0..<length (located fs p)]\<rparr>"
  by (auto simp: make_dirs_def split: if_splits)

lemma validate_name_ok: "validate_name name = Inr () \<longleftrightarrow> simple_segment name"
  by (simp add: validate_name_def)

lemma write_caseD:
  assumes "write_case fr base name (JObj evidence) source metadata fs = (Inr g, fs')"
  shows "simple_segment name"
    "g = \<lparr>gc_name = JStr name, gc_path = path_text (bundle_path base name), gc_hash = entry evidence ''bundle_hash'', gc_metadata = metadata\<rparr>"
    "fs' = with_case fr base name (JObj evidence) (manifest_of name (entry evidence ''bundle_hash'') source metadata) fs"
    "\<not> is_dir fs' (bundle_path base name)"
proof -
  let ?h = "entry evidence ''bundle_hash''" and ?d = "located fs base @ [name]"
  have hash: "attr_get JNull (JObj evidence) ''bundle_hash'' = Inr ?h" by (simp add: get_or_JObj entry_def)
  show seg: "simple_segment name" using assms by (auto simp: write_case_def validate_name_def seqM_def split: if_splits)
  then have ok: "seqM (liftM (validate_name name)) n fs = n fs" for n :: "golden_case io" by (simp add: validate_name_def seqM_apply)
  have "seqM (make_dirs (child base name)) (seqM (write_json fr (bundle_path base name) (JObj evidence))
      (seqM (write_json fr (manifest_path base name) (manifest_of name ?h source metadata))
      (retM \<lparr>gc_name = JStr name, gc_path = path_text (bundle_path base name), gc_hash = ?h, gc_metadata = metadata\<rparr>))) fs = (Inr g, fs')"
    (is "seqM ?dirs (seqM ?bundle (seqM ?manifest (retM ?g))) fs = _")
    using assms by (simp only: write_case_def hash ok) (simp add: seqM_def bindM_def)
  then obtain u fs1 fs2 where "?dirs fs = (Inr (), fs1)" "?bundle fs1 = (Inr (), fs2)" and last: "?manifest fs2 = (Inr (), fs')" "g = ?g"
    by (auto elim!: seqM_okE)
  then have fs1: "fs1 = fs\<lparr>fs_dirs := fs_dirs fs @ map (\<lambda>n. take (Suc n) ?d) [0..<length ?d]\<rparr>"
    and no_dir: "\<not> is_dir fs1 (bundle_path base name)"
    and fs2: "fs2 = fs1\<lparr>fs_files := AList.update (located fs1 (bundle_path base name)) (dumps fr (JObj evidence) @ [CHR 0x0A]) (fs_files fs1)\<rparr>"
    using make_dirs_ok write_text_ok seg by (fastforce simp: write_json_def)+
  have fs': "fs' = fs2\<lparr>fs_files := AList.update (located fs2 (manifest_path base name))
      (dumps fr (manifest_of name ?h source metadata) @ [CHR 0x0A]) (fs_files fs2)\<rparr>"
    using write_text_ok last(1) by (auto simp: write_json_def)
  show "g = ?g" by (rule last(2))
  show "fs' = with_case fr base name (JObj evidence) (manifest_of name ?h source metadata) fs"
    using seg by (simp add: fs' fs2 fs1 with_case_def bundle_path_def manifest_path_def)
  show "\<not> is_dir fs' (bundle_path base name)" using no_dir by (simp add: fs' fs2 is_dir_def)
qed

lemma located_with_case [simp]: "located (with_case fr base name v m fs) p = located fs p"
  by (simp add: with_case_def located_def Let_def)

lemma text_at_with_case:
  "text_at (with_case fr base name v m fs) p =
     (if located fs p = located fs base @ [name, ''manifest.json''] then Some (dumps fr m @ [CHR 0x0A])
      else if located fs p = located fs base @ [name, ''bundle.json''] then Some (dumps fr v @ [CHR 0x0A]) else text_at fs p)"
  unfolding text_at_def located_with_case by (simp add: with_case_def Let_def update_conv')

lemma dirs_with_case:
  "set (fs_dirs (with_case fr base name v m fs)) =
     set (fs_dirs fs) \<union> (\<lambda>n. take (Suc n) (located fs base @ [name])) ` {0..<length (located fs base @ [name])}"
proof -
  let ?d = "located fs base @ [name]"
  have "fs_dirs (with_case fr base name v m fs) = fs_dirs fs @ map (\<lambda>n. take (Suc n) ?d) [0..<length ?d]" by (simp add: with_case_def)
  then show ?thesis by (simp only: set_append set_map set_upt)
qed

lemma is_dir_with_case:
  assumes "Suc (length (located fs base)) < length (located fs p)"
  shows "is_dir (with_case fr base name v m fs) p = is_dir fs p"
proof -
  have "located fs p \<noteq> take (Suc n) (located fs base @ [name])" for n using assms by (metis length_append_singleton length_take min.cobounded1 leD)
  then show ?thesis by (auto simp: is_dir_def dirs_with_case)
qed

lemma case_dir_with_case: "located fs base @ [name] \<in> set (fs_dirs (with_case fr base name v m fs))"
  by (auto simp: dirs_with_case intro: rev_image_eqI [of "length (located fs base)"])

lemma read_text_at: "text_at fs p = Some t \<Longrightarrow> read_text p fs = (Inr t, fs)"
  by (simp add: read_text_def)

lemma read_other:
  assumes "text_at fs' p = text_at fs p" and "is_dir fs' p = is_dir fs p" and "path_exists fs p"
  shows "read_text p fs' = (fst (read_text p fs), fs')"
  using assms by (auto simp: read_text_def path_exists_def split: option.splits)

lemma map_of_manifest:
  assumes "wf_json (manifest_of name hash source metadata)"
  shows "case_of_manifest base dir (sort_keys (manifest_of name hash source metadata)) =
    Inr \<lparr>gc_name = JStr name, gc_path = path_text (bundle_path base dir), gc_hash = sort_keys hash, gc_metadata = sort_keys metadata\<rparr>"
proof -
  let ?es = "[(''name'', JStr name), (''bundle_hash'', hash), (''source_path'', JStr source), (''metadata'', metadata)]"
  have "map_of (norm_entries ?es) k = map_option sort_keys (map_of ?es k)" for k by (rule map_of_norm) simp
  then show ?thesis
    by (simp add: manifest_of_def sort_keys_JObj case_of_manifest_def name_of_def get_or_JObj del: sort_keys.simps(2))
qed

text \<open>The two files of a case, as they stand in the file system that holds it.\<close>

lemma located_case: "simple_segment name \<Longrightarrow> located fs (bundle_path base name) = located fs base @ [name, ''bundle.json'']"
    "simple_segment name \<Longrightarrow> located fs (manifest_path base name) = located fs base @ [name, ''manifest.json'']"
  by (simp_all add: bundle_path_def manifest_path_def)

lemma get_with_case:
  assumes "simple_segment name" and "wf_json (manifest_of name hash source metadata)" and "floats_read rd fr (manifest_of name hash source metadata)"
    and "fs' = with_case fr base name v (manifest_of name hash source metadata) fs"
  shows "get_case rd base name fs' =
    (Inr \<lparr>gc_name = JStr name, gc_path = path_text (bundle_path base name), gc_hash = sort_keys hash, gc_metadata = sort_keys metadata\<rparr>, fs')"
proof -
  have "text_at fs' (manifest_path base name) = Some (dumps fr (manifest_of name hash source metadata) @ [CHR 0x0A])"
    using assms(1) by (simp add: assms(4) text_at_with_case located_case)
  then show ?thesis
    using assms(1) read_text_at [of fs' "manifest_path base name"] loads_dumps [OF assms(2,3)] map_of_manifest [OF assms(2), of base name]
    by (simp add: get_case_def validate_name_def seqM_apply bindM_apply path_exists_def read_case_def)
qed

lemma load_with_case:
  assumes "base = path_of dir" and "simple_segment name" and "wf_json (JObj es)" and "floats_read rd fr (JObj es)"
    and "fs' = with_case fr base name (JObj es) m fs" and "\<not> is_dir fs' (bundle_path base name)"
  shows "load_evidence_path rd (path_text (bundle_path base name)) fs' = (Inr (JObj (norm_entries es)), fs')"
proof -
  have "wf_path (bundle_path base name)" using assms(1,2) by (simp add: bundle_path_def wf_child)
  moreover have "text_at fs' (bundle_path base name) = Some (dumps fr (JObj es) @ [CHR 0x0A])"
    using assms(2) by (simp add: assms(5) text_at_with_case located_case)
  ultimately show ?thesis
    using assms(6) read_text_at [of fs' "bundle_path base name"] loads_dumps [OF assms(3,4)]
    by (simp add: load_evidence_path_def Let_def path_of_text bindM_apply sort_keys_JObj del: sort_keys.simps(2))
qed

lemma get_other_case:
  assumes "other \<noteq> name" and "fs' = with_case fr base name v m fs"
  shows "get_case rd base other fs' = (fst (get_case rd base other fs), fs')"
proof (cases "simple_segment other")
  case True
  let ?M = "manifest_path base other"
  have same: "text_at fs' ?M = text_at fs ?M" "is_dir fs' ?M = is_dir fs ?M"
    using True assms(1) by (simp_all add: assms(2) text_at_with_case is_dir_with_case located_case)
  show ?thesis
    using True same read_other [OF same]
    by (cases "read_text ?M fs")
      (auto simp: get_case_def validate_name_def seqM_apply bindM_apply read_case_def path_exists_def split: sum.splits)
qed (simp add: get_case_def validate_name_def seqM_apply)

lemma refused_name:
  assumes "\<not> simple_segment bad"
  shows "get_case rd base bad fs = (Inl (Exn ValueError ''golden case name must be a simple path segment''), fs)"
    "evaluate_case rd fr base bad current opts fs = (Inl (Exn ValueError ''golden case name must be a simple path segment''), fs)"
    "write_case fr base bad v source metadata fs = (Inl (Exn ValueError ''golden case name must be a simple path segment''), fs)"
    "add_case rd fr base bad source metadata' fs = (Inl (Exn ValueError ''golden case name must be a simple path segment''), fs)"
  using assms by (simp_all add: get_case_def evaluate_case_def write_case_def add_case_def validate_name_def seqM_apply bindM_apply)

text \<open>
  C19: the golden corpus keeps what it is given, through the text of its files. A case that was written is found again under its
  name with the hash and the metadata as they were stored, its objects in key order; its path leads to a file that is read back as the bundle
  that was written, and an evaluation against a bundle at any path compares the stored bundle, as the golden one, with that bundle, as
  the current one. The case is among the cases listed, every other case is found as before, and no file but its
  bundle and its manifest is written. A name that is not a simple path segment is refused by every operation, before it touches a file.
\<close>

theorem golden_corpus_roundtrip:
  assumes "base = path_of dir" and "write_case fr base name (JObj evidence) source metadata fs = (Inr g, fs')"
    and "wf_json (JObj evidence)" and "wf_json metadata" and "floats_read rd fr (JObj evidence)" and "floats_read rd fr metadata"
  shows "simple_segment name \<and> gc_name g = JStr name \<and> gc_path g = path_text (bundle_path base name) \<and>
    gc_hash g = entry evidence ''bundle_hash'' \<and> gc_metadata g = metadata \<and>
    get_case rd base name fs' = (Inr (g\<lparr>gc_hash := sort_keys (gc_hash g), gc_metadata := sort_keys metadata\<rparr>), fs') \<and>
    load_evidence_path rd (gc_path g) fs' = (Inr (JObj (norm_entries evidence)), fs') \<and>
    (load_evidence_path rd current fs' = (Inr (JObj now), fs') \<longrightarrow>
      evaluate_case rd fr base name current opts fs' = (evaluate_regression fr (norm_entries evidence) now opts, fs')) \<and>
    name \<in> set (case_dirs base fs') \<and>
    (other \<noteq> name \<longrightarrow> get_case rd base other fs' = (fst (get_case rd base other fs), fs')) \<and>
    (located fs p \<notin> {located fs (bundle_path base name), located fs (manifest_path base name)} \<longrightarrow> text_at fs' p = text_at fs p) \<and>
    (\<not> simple_segment bad \<longrightarrow>
      (let refused = Exn ValueError ''golden case name must be a simple path segment'' in
       get_case rd base bad fs' = (Inl refused, fs') \<and> evaluate_case rd fr base bad current opts fs' = (Inl refused, fs') \<and>
       write_case fr base bad v source metadata fs' = (Inl refused, fs') \<and> add_case rd fr base bad source metadata' fs' = (Inl refused, fs')))"
proof -
  note written = write_caseD [OF assms(2)]
  have "wf_json (entry evidence ''bundle_hash'') \<and> floats_read rd fr (entry evidence ''bundle_hash'')"
    using assms(3,5) by (auto simp: entry_def list_all_iff dest!: map_of_SomeD split: option.splits)
  then have "get_case rd base name fs' = (Inr (g\<lparr>gc_hash := sort_keys (gc_hash g), gc_metadata := sort_keys metadata\<rparr>), fs')"
    using get_with_case [OF written(1) _ _ written(3), of rd] assms(4,6) by (simp add: written(2) manifest_of_def)
  moreover have "load_evidence_path rd (gc_path g) fs' = (Inr (JObj (norm_entries evidence)), fs')"
    using load_with_case [OF assms(1) written(1) assms(3,5) written(3,4)] by (simp add: written(2))
  moreover have "located fs p \<notin> {located fs (bundle_path base name), located fs (manifest_path base name)} \<Longrightarrow> text_at fs' p = text_at fs p"
    using written(1) by (simp add: written(3) text_at_with_case located_case)
  moreover have "name \<in> set (case_dirs base fs')"
    using case_dir_with_case [of fs base name] written(1)
    by (force simp: case_dirs_def written(3) path_exists_def text_at_with_case located_case)
  ultimately show ?thesis
    using written(1,2) get_other_case [OF _ written(3)] refused_name
    by (simp add: evaluate_case_def bindM_apply need_dict_def)
qed

section \<open>The built-in cases\<close>

lemma builtin_cases_pass:
  "list_all (\<lambda>name. case bindE (builtin_golden_evidence (\<lambda>s. ''0'') (\<lambda>q. ''0.0'') name) (\<lambda>b.
      bindE (review (\<lambda>q. ''0.0'') b (Some 0)) (\<lambda>r. bindE (check_evidence (\<lambda>q. ''0.0'') b (Some 0)) (\<lambda>c.
      Inr (rv_passed r \<and> cr_passed c)))) of Inr b \<Rightarrow> b | Inl e \<Rightarrow> False) builtin_names"
  by code_simp

definition demo_files :: file_system where
  "demo_files = \<lparr>fs_cwd = [''srv''], fs_files = [], fs_dirs = [[''srv'']]\<rparr>"

definition demo_floats :: "rat \<Rightarrow> string" where
  "demo_floats q = (if q = 0 then ''0.0'' else ''1.0'')"

definition demo_reader :: reader where
  "demo_reader = \<lparr>rd_float = (\<lambda>t. if t = ''0.0'' then 0 else 1), rd_constant = (\<lambda>t. JNull), rd_wide = (\<lambda>n. ''?''), rd_error = (\<lambda>t. [])\<rparr>"

lemma demo_bundle_reads:
  "wf_json (JObj (finalize_bundle (\<lambda>s. ''0'') demo_floats builtin_minimal_success))"
  "floats_read demo_reader demo_floats (JObj (finalize_bundle (\<lambda>s. ''0'') demo_floats builtin_minimal_success))"
  by code_simp+

lemma demo_base: "path_of ''golden'' = \<lparr>pt_root = [], pt_parts = [''golden'']\<rparr>"
  by (simp add: path_of_def)

lemma demo_seeded:
  "fst (seed_builtin (\<lambda>s. ''0'') demo_floats (path_of ''golden'') ''minimal-success'' demo_files) =
    Inr \<lparr>gc_name = JStr ''minimal-success'', gc_path = ''golden/minimal-success/bundle.json'', gc_hash = JStr (''sha256:0''),
      gc_metadata = JObj [(''builtin'', JBool True), (''suite'', JStr ''agentledger'')]\<rparr>"
  by code_simp

lemma demo_passes:
  "case evaluate_regression demo_floats (norm_entries (finalize_bundle (\<lambda>s. ''0'') demo_floats builtin_minimal_success))
      (norm_entries (finalize_bundle (\<lambda>s. ''0'') demo_floats builtin_minimal_success)) (default_options\<lparr>ro_usd := Some 0\<rparr>) of Inr r \<Rightarrow> cr_passed r | Inl e \<Rightarrow> False"
  by code_simp

theorem golden_corpus_roundtrip_witness:
  "\<exists>g fs'. seed_builtin (\<lambda>s. ''0'') demo_floats (path_of ''golden'') ''minimal-success'' demo_files = (Inr g, fs') \<and>
     gc_path g = ''golden/minimal-success/bundle.json'' \<and> get_case demo_reader (path_of ''golden'') ''minimal-success'' fs' = (Inr g, fs') \<and>
     (case evaluate_case demo_reader demo_floats (path_of ''golden'') ''minimal-success'' ''golden/minimal-success/bundle.json'' (default_options\<lparr>ro_usd := Some 0\<rparr>) fs' of
        (Inr r, _) \<Rightarrow> cr_passed r | (Inl e, _) \<Rightarrow> False) \<and>
     get_case demo_reader (path_of ''golden'') ''..'' fs' = (Inl (Exn ValueError ''golden case name must be a simple path segment''), fs')"
proof -
  let ?b = "finalize_bundle (\<lambda>s. ''0'') demo_floats builtin_minimal_success" and ?base = "path_of ''golden''"
  let ?m = "JObj [(''builtin'', JBool True), (''suite'', JStr ''agentledger'')]"
  let ?g = "\<lparr>gc_name = JStr ''minimal-success'', gc_path = ''golden/minimal-success/bundle.json'', gc_hash = JStr ''sha256:0'', gc_metadata = ?m\<rparr>"
  have seed: "seed_builtin (\<lambda>s. ''0'') demo_floats ?base ''minimal-success'' =
      write_case demo_floats ?base ''minimal-success'' (JObj ?b) ''builtin:minimal-success'' ?m"
    by (rule ext) (simp add: seed_builtin_def builtin_golden_evidence_def builtin_cases_def bindM_apply)
  obtain fs' where w: "write_case demo_floats ?base ''minimal-success'' (JObj ?b) ''builtin:minimal-success'' ?m demo_files = (Inr ?g, fs')"
    using demo_seeded unfolding seed by (metis prod.collapse)
  have m: "wf_json ?m" "floats_read demo_reader demo_floats ?m" "sort_keys ?m = ?m" by code_simp+
  note law = golden_corpus_roundtrip [OF refl w demo_bundle_reads(1) m(1) demo_bundle_reads(2) m(2), where current = "gc_path ?g"
      and now = "norm_entries ?b" and opts = "default_options\<lparr>ro_usd := Some 0\<rparr>" and bad = "''..''" and other = "''minimal-success''" and p = ?base and v = JNull and metadata' = None]
  have "get_case demo_reader ?base ''minimal-success'' fs' = (Inr ?g, fs')" using law m(3) by simp
  moreover have "evaluate_case demo_reader demo_floats ?base ''minimal-success'' (gc_path ?g) (default_options\<lparr>ro_usd := Some 0\<rparr>) fs' =
      (evaluate_regression demo_floats (norm_entries ?b) (norm_entries ?b) (default_options\<lparr>ro_usd := Some 0\<rparr>), fs')"
    using law by blast
  moreover have "get_case demo_reader ?base ''..'' fs' = (Inl (Exn ValueError ''golden case name must be a simple path segment''), fs')"
    using law by (simp add: Let_def simple_segment_def)
  ultimately show ?thesis
    using demo_passes by (intro exI [of _ ?g] exI [of _ fs']) (simp add: seed w split: sum.splits)
qed

end
