(* ===== verification/Migrations.thy ===== *)
theory Migrations
  imports Diff
begin

text \<open>
  Schema migrations: \<open>src/agentledger/storage_schema.py\<close>. A connection is the table \<open>schema_migrations\<close>, the scripts it has
  run, a clock, and which scripts the database refuses; what the DDL of a script does to other tables is not
  looked at, nor is its text (the SQL of a migration is a parameter).
\<close>

record migration =
  mg_version :: string
  mg_name :: string
  mg_dialect :: string
  mg_sql :: string

definition migration_checksum :: "(string \<Rightarrow> string) \<Rightarrow> migration \<Rightarrow> string" where
  "migration_checksum hex m = ''sha256:'' @ hex (mg_sql m)"

definition migration_to_dict :: "(string \<Rightarrow> string) \<Rightarrow> migration \<Rightarrow> json" where
  "migration_to_dict hex m = JObj [(''version'', JStr (mg_version m)), (''name'', JStr (mg_name m)), (''dialect'', JStr (mg_dialect m)),
     (''checksum'', JStr (migration_checksum hex m))]"

record migration_row =
  mr_version :: string
  mr_name :: string
  mr_checksum :: string
  mr_applied :: rat

definition migration_row_dict :: "migration_row \<Rightarrow> json" where
  "migration_row_dict r = JObj [(''version'', JStr (mr_version r)), (''name'', JStr (mr_name r)), (''checksum'', JStr (mr_checksum r)),
     (''applied_at'', JFloat (mr_applied r))]"

record migration_status =
  ms_dialect :: string
  ms_current :: "string option"
  ms_latest :: "string option"
  ms_applied :: "json list"
  ms_pending :: "json list"

definition up_to_date :: "migration_status \<Rightarrow> bool" where
  "up_to_date s \<longleftrightarrow> ms_pending s = []"

definition migration_status_to_dict :: "migration_status \<Rightarrow> json" where
  "migration_status_to_dict s = JObj [(''dialect'', JStr (ms_dialect s)), (''current_version'', opt_str (ms_current s)),
     (''latest_version'', opt_str (ms_latest s)), (''up_to_date'', JBool (up_to_date s)), (''applied'', JList (ms_applied s)),
     (''pending'', JList (ms_pending s))]"

text \<open>One migration per dialect.\<close>

definition initial_migration :: "string \<Rightarrow> string \<Rightarrow> migration" where
  "initial_migration dialect sql = \<lparr>mg_version = ''0001'', mg_name = ''initial_runtime_metadata'', mg_dialect = dialect, mg_sql = sql\<rparr>"

definition migrations_for :: "(string \<Rightarrow> string) \<Rightarrow> string \<Rightarrow> exn + migration list" where
  "migrations_for sql_of dialect =
     (let normalized = lower dialect in
      if normalized = ''sqlite'' then Inr [initial_migration ''sqlite'' (sql_of ''sqlite'')]
      else if normalized \<in> {''postgres'', ''postgresql''} then Inr [initial_migration ''postgres'' (sql_of ''postgres'')]
      else if normalized = ''mysql'' then Inr [initial_migration ''mysql'' (sql_of ''mysql'')]
      else Inl (Exn ValueError (''unsupported storage dialect: '' @ dialect)))"

definition last_version :: "migration list \<Rightarrow> string option" where
  "last_version ms = (if ms = [] then None else Some (mg_version (last ms)))"

definition latest_schema_version :: "(string \<Rightarrow> string) \<Rightarrow> string \<Rightarrow> exn + string option" where
  "latest_schema_version sql_of dialect = bindE (migrations_for sql_of dialect) (\<lambda>ms. Inr (last_version ms))"

definition table_header :: "(string \<Rightarrow> string) \<Rightarrow> string \<Rightarrow> string" where
  "table_header header_of dialect =
     (let normalized = lower dialect in
      if normalized \<in> {''postgres'', ''postgresql''} then header_of ''postgres''
      else if normalized = ''mysql'' then header_of ''mysql'' else header_of ''sqlite'')"

definition ddl_for :: "(string \<Rightarrow> string) \<Rightarrow> (string \<Rightarrow> string) \<Rightarrow> string \<Rightarrow> exn + string" where
  "ddl_for header_of sql_of dialect = bindE (migrations_for sql_of dialect)
     (\<lambda>ms. Inr (join [CHR 0x0A, CHR 0x0A] (table_header header_of dialect # map mg_sql ms)))"

section \<open>The runner\<close>

record connection =
  cn_rows :: "migration_row list"
  cn_ran :: "string list"
  cn_clock :: "nat \<Rightarrow> rat"
  cn_ticks :: nat
  cn_refuses :: "string \<Rightarrow> exn option"
  cn_hex :: "string \<Rightarrow> string"

definition executescript :: "string \<Rightarrow> (connection, exn, unit) action" where
  "executescript sql = (\<lambda>c. case cn_refuses c sql of Some e \<Rightarrow> (Inl e, c) | None \<Rightarrow> (Inr (), c\<lparr>cn_ran := cn_ran c @ [sql]\<rparr>))"

definition ensure_table :: "string \<Rightarrow> (connection, exn, unit) action" where
  "ensure_table header = executescript header"

definition applied_rows :: "string \<Rightarrow> (connection, exn, migration_row list) action" where
  "applied_rows header = seqM (ensure_table header) (getsM (\<lambda>c. sort_key mr_version (cn_rows c)))"

definition applied_versions :: "string \<Rightarrow> (connection, exn, string list) action" where
  "applied_versions header = bindM (applied_rows header) (\<lambda>rows. retM (map mr_version rows))"

definition pending_migrations :: "string \<Rightarrow> migration list \<Rightarrow> (connection, exn, migration list) action" where
  "pending_migrations header ms =
     bindM (applied_versions header) (\<lambda>applied. retM (filter (\<lambda>m. mg_version m \<notin> set applied) ms))"

definition new_row :: "migration \<Rightarrow> connection \<Rightarrow> migration_row" where
  "new_row m c = \<lparr>mr_version = mg_version m, mr_name = mg_name m, mr_checksum = migration_checksum (cn_hex c) m,
     mr_applied = cn_clock c (cn_ticks c)\<rparr>"

definition record_migration :: "migration \<Rightarrow> (connection, exn, unit) action" where
  "record_migration m = (\<lambda>c.
     if mg_version m \<in> mr_version ` set (cn_rows c)
     then (Inl (integrity_error ''schema_migrations.version''), c\<lparr>cn_ticks := Suc (cn_ticks c)\<rparr>)
     else (Inr (), c\<lparr>cn_rows := cn_rows c @ [new_row m c], cn_ticks := Suc (cn_ticks c)\<rparr>))"

fun apply_each :: "string list \<Rightarrow> migration list \<Rightarrow> (connection, exn, json list) action" where
  "apply_each done_versions [] = retM []"
| "apply_each done_versions (m # ms) =
     (if mg_version m \<in> set done_versions then apply_each done_versions ms
      else
        seqM (executescript (mg_sql m)) (
        seqM (record_migration m) (
        bindM (getsM cn_hex) (\<lambda>hex.
        bindM (apply_each done_versions ms) (\<lambda>dicts. retM (migration_to_dict hex m # dicts))))))"

definition apply_all :: "string \<Rightarrow> migration list \<Rightarrow> (connection, exn, json list) action" where
  "apply_all header ms = seqM (ensure_table header) (bindM (applied_versions header) (\<lambda>applied. apply_each applied ms))"

definition status_of :: "string \<Rightarrow> migration list \<Rightarrow> (connection, exn, migration_status) action" where
  "status_of header ms =
     bindM (applied_rows header) (\<lambda>rows.
     bindM (pending_migrations header ms) (\<lambda>todo.
     bindM (getsM cn_hex) (\<lambda>hex.
     retM \<lparr>ms_dialect = ''sqlite'', ms_current = (if rows = [] then None else Some (mr_version (last rows))), ms_latest = last_version ms,
       ms_applied = map migration_row_dict rows, ms_pending = map (migration_to_dict hex) todo\<rparr>)))"

end
