(* ===== verification/Migrations_Spec.thy ===== *)
theory Migrations_Spec
  imports Migrations
begin

text \<open>
  Migrations run once: what is recorded_versions is not run again, what is not recorded_versions is run in its order, and afterwards the schema is
  up to date.
\<close>

abbreviation recorded_versions :: "connection \<Rightarrow> string set" where
  "recorded_versions c \<equiv> mr_version ` set (cn_rows c)"

definition todo :: "connection \<Rightarrow> migration list \<Rightarrow> migration list" where
  "todo c ms = filter (\<lambda>m. mg_version m \<notin> recorded_versions c) ms"

definition accepts :: "connection \<Rightarrow> string \<Rightarrow> migration list \<Rightarrow> bool" where
  "accepts c header ms \<longleftrightarrow> cn_refuses c header = None \<and> list_all (\<lambda>m. cn_refuses c (mg_sql m) = None) ms"

lemma apply_each_exact:
  assumes "distinct (map mg_version ms)" and "list_all (\<lambda>m. cn_refuses c (mg_sql m) = None) ms"
    and "\<forall>m\<in>set ms. mg_version m \<in> set done_versions \<longleftrightarrow> mg_version m \<in> recorded_versions c"
  shows "\<exists>c'. apply_each done_versions ms c = (Inr (map (migration_to_dict (cn_hex c)) (todo c ms)), c') \<and>
    cn_ran c' = cn_ran c @ map mg_sql (todo c ms) \<and> cn_hex c' = cn_hex c \<and> cn_refuses c' = cn_refuses c \<and>
    (\<exists>new. cn_rows c' = cn_rows c @ new \<and> map mr_version new = map mg_version (todo c ms))"
  using assms
proof (induction ms arbitrary: c)
  case (Cons m ms)
  show ?case
  proof (cases "mg_version m \<in> recorded_versions c")
    case True
    with Cons.prems Cons.IH [of c] show ?thesis by (simp add: todo_def)
  next
    case False
    let ?c = "c\<lparr>cn_ran := cn_ran c @ [mg_sql m], cn_rows := cn_rows c @ [new_row m c], cn_ticks := Suc (cn_ticks c)\<rparr>"
    have rows: "recorded_versions ?c = insert (mg_version m) (recorded_versions c)" by (simp add: new_row_def)
    have other: "mg_version x \<noteq> mg_version m" if "x \<in> set ms" for x
      using Cons.prems(1) imageI [OF that, of mg_version] by (auto simp del: image_eqI)
    have "todo ?c ms = todo c ms" using other unfolding todo_def rows by (intro filter_cong) auto
    moreover have "\<forall>x\<in>set ms. mg_version x \<in> set done_versions \<longleftrightarrow> mg_version x \<in> recorded_versions ?c"
      using other Cons.prems(3) unfolding rows by auto
    ultimately obtain c' new where "apply_each done_versions ms ?c = (Inr (map (migration_to_dict (cn_hex c)) (todo c ms)), c')"
      "cn_ran c' = cn_ran ?c @ map mg_sql (todo c ms)" "cn_hex c' = cn_hex c" "cn_refuses c' = cn_refuses c"
      "cn_rows c' = cn_rows ?c @ new" "map mr_version new = map mg_version (todo c ms)"
      using Cons.IH [of ?c] Cons.prems(1,2) by auto
    moreover have "apply_each done_versions (m # ms) c = bindM (apply_each done_versions ms) (\<lambda>dicts. retM (migration_to_dict (cn_hex c) m # dicts)) ?c"
      using False Cons.prems by (simp add: exec executescript_def record_migration_def new_row_def split: prod.split sum.split)
    ultimately show ?thesis using False by (intro exI [of _ c']) (simp add: todo_def new_row_def del: ex_simps)
  qed
qed (simp add: todo_def)

lemma tables_exact:
  assumes "cn_refuses c header = None"
  shows "ensure_table header c = (Inr (), c\<lparr>cn_ran := cn_ran c @ [header]\<rparr>)"
    and "applied_rows header c = (Inr (sort_key mr_version (cn_rows c)), c\<lparr>cn_ran := cn_ran c @ [header]\<rparr>)"
    and "applied_versions header c = (Inr (map mr_version (sort_key mr_version (cn_rows c))), c\<lparr>cn_ran := cn_ran c @ [header]\<rparr>)"
  using assms by (simp_all add: applied_versions_def applied_rows_def ensure_table_def executescript_def exec)

lemma apply_all_exact:
  assumes "distinct (map mg_version ms)" and "accepts c header ms"
  shows "\<exists>c'. apply_all header ms c = (Inr (map (migration_to_dict (cn_hex c)) (todo c ms)), c') \<and>
    cn_ran c' = cn_ran c @ [header, header] @ map mg_sql (todo c ms) \<and> cn_hex c' = cn_hex c \<and> cn_refuses c' = cn_refuses c \<and>
    (\<exists>new. cn_rows c' = cn_rows c @ new \<and> map mr_version new = map mg_version (todo c ms))"
proof -
  let ?start = "c\<lparr>cn_ran := (cn_ran c @ [header]) @ [header]\<rparr>"
  have "apply_all header ms c = apply_each (map mr_version (sort_key mr_version (cn_rows c))) ms ?start"
    using assms(2) by (simp add: apply_all_def exec tables_exact accepts_def)
  with apply_each_exact [OF assms(1), of ?start "map mr_version (sort_key mr_version (cn_rows c))"] assms(2) show ?thesis
    by (simp add: accepts_def todo_def)
qed

text \<open>
  C20: migrations run once. When the database accepts the scripts, \<open>apply_all\<close> runs exactly the migrations that are not recorded, in
  their order, and records each; versions stay unique; afterwards the status is up to date, and a second run
  applies nothing and records nothing.
\<close>
theorem migrations_run_once:
  assumes "distinct (map mg_version ms)" and "distinct (map mr_version (cn_rows c))" and "accepts c header ms"
  shows "\<exists>c' s c2 c3. apply_all header ms c = (Inr (map (migration_to_dict (cn_hex c)) (todo c ms)), c') \<and>
    cn_ran c' = cn_ran c @ [header, header] @ map mg_sql (todo c ms) \<and>
    map mr_version (cn_rows c') = map mr_version (cn_rows c) @ map mg_version (todo c ms) \<and> distinct (map mr_version (cn_rows c')) \<and>
    status_of header ms c' = (Inr s, c2) \<and> up_to_date s \<and>
    apply_all header ms c' = (Inr [], c3) \<and> cn_rows c3 = cn_rows c'"
proof -
  note each = apply_all_exact [OF assms(1)]
  from each [OF assms(3)] obtain c' new where c':
    "apply_all header ms c = (Inr (map (migration_to_dict (cn_hex c)) (todo c ms)), c')"
    "cn_ran c' = cn_ran c @ [header, header] @ map mg_sql (todo c ms)" "cn_hex c' = cn_hex c" "cn_refuses c' = cn_refuses c"
    "cn_rows c' = cn_rows c @ new" "map mr_version new = map mg_version (todo c ms)"
    by blast
  have versions: "map mr_version (cn_rows c') = map mr_version (cn_rows c) @ map mg_version (todo c ms)" by (simp add: c'(5,6))
  have "recorded_versions c' = recorded_versions c \<union> mg_version ` set (todo c ms)"
    using arg_cong [OF versions, of set] by simp
  then have finished: "todo c' ms = []" by (auto simp: todo_def filter_empty_conv)
  have unique: "distinct (map mr_version (cn_rows c'))"
    using assms(1,2) unfolding versions by (auto simp: todo_def distinct_map_filter) (metis imageI)
  have ok: "accepts c' header ms" using assms(3) c'(4) by (simp add: accepts_def)
  obtain c3 where c3: "apply_all header ms c' = (Inr [], c3)" "cn_rows c3 = cn_rows c'"
  proof -
    from each [OF ok] obtain c3 more_rows where "apply_all header ms c' = (Inr (map (migration_to_dict (cn_hex c')) (todo c' ms)), c3)"
      "cn_rows c3 = cn_rows c' @ more_rows" "map mr_version more_rows = map mg_version (todo c' ms)"
      by blast
    with finished show thesis by (intro that [of c3]) simp_all
  qed
  obtain s c2 where "status_of header ms c' = (Inr s, c2)" "up_to_date s"
    using ok finished by (auto simp: status_of_def pending_migrations_def exec tables_exact accepts_def up_to_date_def todo_def)
  with c' versions unique c3 show ?thesis by blast
qed

definition demo_connection :: connection where
  "demo_connection = \<lparr>cn_rows = [], cn_ran = [], cn_clock = rat_of_nat, cn_ticks = 0, cn_refuses = (\<lambda>_. None), cn_hex = (\<lambda>_. ''0'')\<rparr>"

theorem migrations_run_once_witness:
  "\<exists>ms. migrations_for (\<lambda>d. ''create '' @ d) ''SQLite'' = Inr ms \<and>
     (\<exists>c' s c2 c3. apply_all ''header'' ms demo_connection = (Inr (map (migration_to_dict (\<lambda>_. ''0'')) ms), c') \<and>
       cn_ran c' = [''header'', ''header'', ''create sqlite''] \<and> status_of ''header'' ms c' = (Inr s, c2) \<and> up_to_date s \<and>
       apply_all ''header'' ms c' = (Inr [], c3))"
proof -
  let ?ms = "[initial_migration ''sqlite'' ''create sqlite'']"
  have ms: "migrations_for (\<lambda>d. ''create '' @ d) ''SQLite'' = Inr ?ms" by code_simp
  have todo: "todo demo_connection ?ms = ?ms" by (simp add: todo_def demo_connection_def)
  have "accepts demo_connection ''header'' ?ms" by (simp add: accepts_def demo_connection_def)
  from migrations_run_once [of ?ms demo_connection, OF _ _ this] ms show ?thesis
    unfolding todo by (simp add: demo_connection_def initial_migration_def) blast
qed

end
