(* ===== verification/Spec2Isabelle.thy ===== *)
theory Spec2Isabelle
  imports Gaps Policy_Examples Schema_Spec Sandbox_Spec Gateway_Examples Worker_Examples Evidence_Examples Failure_Examples Time_Travel_Spec Review_Examples Repro_Spec Migrations_Spec
begin

text \<open>
  AgentLedger: a runtime for agents whose state, side effects and evidence are kept in one SQL database.

  \<^bold>\<open>The program.\<close> A run has a JSON state with a version, steps that workers claim under a lease, and a log of events
  numbered from one. \<open>Runtime.run_once\<close> claims a step, gives the agent a context, commits the patch the agent proposed and
  records how the step ended. An agent reaches the outside only through \<open>ToolGateway.call\<close>, which asks the policy engine,
  the approvals, the budgets, the tool ledger (one row per idempotency key) and the sandbox router before a tool function
  runs. Workers repeat \<open>run_once\<close> until a run is drained; the scheduler recovers expired leases and cancels runs.
  What the tables hold can be exported as a bundle, replayed, compared and run again as a shadow.

  \<^bold>\<open>Theories and sources\<close> (file names are under \<open>src/src/agentledger/\<close>; a definition has the name of the method or function
  it translates wherever that name is free):

  \<^item> \<open>Prelude\<close>: actions (a function from the world to an error or a value, and a world), their laws, lists and rows.
    \<open>Json\<close>, \<open>PyText\<close>: JSON values, merge patches, canonical text (\<open>jsonutil.py\<close>), and the string operations of Python.
    \<open>World\<close>: exceptions, clock, identifiers, hashes, blobs (\<open>ids.py\<close>, \<open>blobstore.py\<close>).
  \<^item> \<open>Retry\<close>: retry policies and the classes of exceptions (\<open>failure.py\<close>). \<open>Tables\<close>: one record per table of the schema and
    the statements that insert into it (\<open>storage_schema.py\<close>). \<open>Store\<close>, \<open>Ledger\<close>: one definition per method of
    \<open>SQLiteStore\<close> (\<open>store.py\<close>); a method that ends in an error rolls its transaction back.
  \<^item> \<open>Exec\<close>, \<open>Event_Log\<close>, \<open>Run_State\<close>, \<open>Leases\<close>, \<open>Reach\<close>, \<open>Records\<close>: laws of the tables. Each is a locale over a relation
    on worlds (\<open>log_relation\<close>, \<open>run_preorder\<close>, \<open>step_relation\<close>, \<open>record_relation\<close>) that all methods of the store are
    shown to keep, interpreted by the relations the properties need. \<open>Reach\<close> makes a history of store calls, by any number
    of clients in any order, a step relation (\<open>later\<close>, \<open>reachable\<close>).
    \<open>Atomic\<close>, \<open>Safety\<close>, \<open>Store_Spec\<close>, \<open>Recovery\<close>, \<open>Outcomes\<close>: what follows along every history, and the exact
    effect of each method. \<open>Store_Examples\<close>, \<open>Gaps\<close>: concrete histories, among them those that show a defect.
  \<^item> \<open>Cost\<close> (\<open>cost.py\<close>); \<open>Policy\<close>, \<open>Policy_Yaml\<close> with \<open>Policy_Spec\<close>, \<open>Policy_Roundtrip\<close>, \<open>Policy_Examples\<close> (\<open>policy.py\<close>);
    \<open>Schema\<close>, \<open>Schema_Spec\<close> (the JSON Schema subset of \<open>tools.py\<close>); \<open>Sandbox\<close>, \<open>Sandbox_Spec\<close> (\<open>sandbox.py\<close>).
  \<^item> \<open>Gateway\<close> (\<open>tools.py\<close>): tool specifications, keys, and the call with all its branches. \<open>Gateway_Law\<close>: the locale
    \<open>gateway_relation\<close>, what a call through the gateway keeps. \<open>Gateway_Spec\<close>, \<open>Gateway_Examples\<close>.
  \<^item> \<open>Media\<close> (\<open>media.py\<close>), \<open>Model\<close> (\<open>model.py\<close>), \<open>Context\<close> (\<open>context.py\<close>), \<open>Runtime\<close> (\<open>runtime.py\<close>, \<open>simple.py\<close>). An agent
    is a program: a tree of context operations, whose answers it sees, with calls of other clients in between.
    \<open>Runtime_Law\<close>: the locales \<open>context_relation\<close> and \<open>runtime_relation\<close>. \<open>Runtime_Spec\<close>, \<open>Runtime_Examples\<close>.
  \<^item> \<open>Worker\<close> (\<open>scheduler.py\<close>, \<open>worker.py\<close>); \<open>Row_Law\<close>: the locales \<open>row_relation\<close> and \<open>beat_relation\<close>, laws on step
    rows for code that creates no step. \<open>Worker_Spec\<close>, \<open>Drain\<close>, \<open>Worker_Examples\<close>.
  \<^item> \<open>Evidence\<close> (\<open>evidence.py\<close>, \<open>replay.py\<close>, \<open>retention.py\<close>), \<open>Diff\<close> (\<open>diff.py\<close>), \<open>Shadow\<close> (\<open>shadow.py\<close>);
    \<open>Evidence_Spec\<close>, \<open>Evidence_Examples\<close>.
  \<^item> \<open>Failure\<close> (envelopes, life cycles, graph, replay plan, comparison) and \<open>Failure_Report\<close> (alerts, exports and the reporter
    over the tables), both \<open>failure.py\<close>; \<open>Failure_Spec\<close>, \<open>Failure_Graph\<close>, \<open>Failure_Examples\<close>.
  \<^item> \<open>Time_Travel\<close> (\<open>timetravel.py\<close>). \<open>Json_Order\<close>: equality of JSON up to the order of keys, which merge patches keep.
    \<open>Log_State\<close>: the locale \<open>store_preorder\<close>, interpreted by the relation of worlds between which neither states nor the
    events that tell of them change. \<open>Time_Travel_Spec\<close>.
  \<^item> Readers of an exported bundle: \<open>Review\<close> (\<open>review.py\<close>, \<open>eval.py\<close>), \<open>Backup\<close> (\<open>backup.py\<close>), \<open>Trace\<close> (\<open>trace.py\<close>);
    \<open>Review_Spec\<close>, \<open>Backup_Spec\<close>, \<open>Trace_Spec\<close>, \<open>Review_Examples\<close>.
  \<^item> \<open>Json_Text\<close>: the text \<open>json.dumps\<close> writes to files and the reader \<open>json.loads\<close>; \<open>Json_Text_Spec\<close>: what was written is read
    back. \<open>Files\<close>: paths, a file system, and the bundles in it (\<open>load_evidence_path\<close> of \<open>diff.py\<close>, \<open>write\<close> and \<open>write_dir\<close>
    of \<open>evidence.py\<close>). \<open>Repro\<close>: the golden corpus, over that file system (\<open>repro.py\<close>); \<open>Repro_Spec\<close>.
  \<^item> \<open>Migrations\<close>, \<open>Migrations_Spec\<close>: the migration runner of \<open>storage_schema.py\<close>.

  \<^bold>\<open>What is shown.\<close> For the store: a stale lease token never commits, tokens are exclusive, the log only grows and is
  numbered without gaps, a key is reserved once, a call that raises changes no table, each method has its exact effect.
  For policies: which decision each request gets, that findings compose to the strictest, and that documents survive a round
  trip. For tools: a managed side effect runs at most once per key unless an
  operator says it had none, approval comes first, validation is conformance, the sandbox fails closed. For the runtime:
  an execution commits exactly the agent's patch or nothing, and exceptions decide how the step ends. Cancelling and
  recovering have their exact effect, and no token held before a cancellation commits after it. For workers: a drained run has ended or has nothing to claim, the service returns, summaries
  add up. For evidence: a bundle holds, entry by entry, what the tables say of the run and is sealed by its hash, replays and shadows call no managed tool, comparisons report
  nothing exactly where nothing differs. For failures: every failed row is named in the report, the causal graph is closed,
  and the replay plan calls a replay safe exactly when no ledger row is \<open>PENDING_VERIFICATION\<close>; rows that are still \<open>RESERVED\<close>
  or \<open>RUNNING\<close> do not count, although their effect is as unknown (a finding). For time travel: along every history the log alone
  determines the state of a run, and the debugger finds it at each event. For releases: the review and the backup check say
  what the tables say and never raise, a trace has one span per event, a golden case is found and read back through the text of its
  files and evaluated as the golden side, and a migration runs once. Properties that show a defect of the code are stated as such.

  \<^bold>\<open>Bounds and fuel.\<close> A claim tries at most 64 times, as in the code; in one database connection the first try decides.
  \<open>WorkerService.serve\<close> runs until it is stopped, so its loop has fuel, with \<open>None\<close> for a loop that still runs, and
  \<open>serve_returns\<close> shows that fuel above the number of rounds is enough. The local worker's loop is bounded by its own
  argument; \<open>worker_drains_run\<close> says when that is enough. The JSON reader descends at most twice the length of the text and two
  levels, and \<open>loads_dumps\<close> shows that this reads every text that was written. All other recursions are structural.

  \<^bold>\<open>Outside the program\<close> and therefore arguments or parts of the world: the hash function, clock and identifiers, the text
  of floats, the regular expression engine, the JSON parser of payloads and configuration (that of bundle files is \<open>Json_Text\<close>), what
  \<open>float()\<close> reads in a number of a file, tool functions and agents, processes on the host (\<open>host\<close>), the
  encoding of text as bytes. Numbers of Python are unbounded integers and rationals: the rounding of binary floats is not
  modelled. A store call is one transaction; the model interleaves clients between calls, and where the code reads before
  its transaction starts a property says what a stale read does.

  \<^bold>\<open>Not modelled.\<close> The Postgres and MySQL stores (the same methods in another SQL dialect) and the text of all DDL; the
  command line, the inspector, all HTML, trace files and the sending of reports; links and permissions of the file system;
  adapters to other frameworks and media tools (glue to code that is not in the repository);
  conformance suites, the runtime contract, lint, failure injection and benchmarks (test code and documentation data).
\<close>

end
